(* ===== verification/Prelude.thy ===== *)
theory Prelude
  imports Complex_Main "HOL-Library.AList"
begin

section \<open>Prelude: the JavaScript values, results and lists the components share\<close>

text \<open>
  The vocabulary of every component: the three ways a TypeScript field can be empty
  (absent, null, present), JSON values and numbers as the room receives them, results of
  operations that may throw, and the generic lemmas on keyed lists. Strings are HOL
  strings: a character stands for one code unit below 256, which is enough for every
  string operation the code performs (equality, concatenation, trimming, splitting).
\<close>

named_theorems norm_simps \<open>equations that put a projected value into its stored form\<close>
named_theorems key_simps \<open>equations that say an operation leaves an identifier alone\<close>

subsection \<open>Undefined, null and present\<close>

datatype 'a nullish = Undefined | Null | Defined (the_defined: 'a)

text \<open>The operators \<open>x ?? d\<close> and \<open>x ?? null\<close>.\<close>

definition nullish_or :: "'a nullish \<Rightarrow> 'a \<Rightarrow> 'a" where
  "nullish_or x d = (case x of Undefined \<Rightarrow> d | Null \<Rightarrow> d | Defined v \<Rightarrow> v)"

definition or_null :: "'a nullish \<Rightarrow> 'a nullish" where
  "or_null x = (case x of Undefined \<Rightarrow> Null | Null \<Rightarrow> Null | Defined v \<Rightarrow> Defined v)"

definition is_nullish :: "'a nullish \<Rightarrow> bool" where
  "is_nullish x = (case x of Undefined \<Rightarrow> True | Null \<Rightarrow> True | Defined _ \<Rightarrow> False)"

lemma nullish_or_simps [simp]:
  "nullish_or Undefined d = d" "nullish_or Null d = d" "nullish_or (Defined v) d = v"
  by (simp_all add: nullish_or_def)

lemma or_null_simps [simp]:
  "or_null Undefined = Null" "or_null Null = Null" "or_null (Defined v) = Defined v"
  by (simp_all add: or_null_def)

lemma is_nullish_simps [simp]:
  "is_nullish Undefined" "is_nullish Null" "\<not> is_nullish (Defined v)"
  by (simp_all add: is_nullish_def)

lemma or_null_idem [simp, norm_simps]: "or_null (or_null x) = or_null x"
  by (cases x) simp_all

lemma or_null_not_Undefined [simp]: "or_null x \<noteq> Undefined"
  by (cases x) simp_all

lemma or_null_id: "x \<noteq> Undefined \<Longrightarrow> or_null x = x"
  by (cases x) simp_all

subsection \<open>Numbers and JSON values\<close>

text \<open>
  A JavaScript number is a finite rational (every double is one) or one of the three
  non-finite values. The code compares numbers, copies them and asks whether they are
  integers; it does no rounding arithmetic on them.
\<close>

datatype js_number = Finite rat | PosInfinity | NegInfinity | NaN

datatype json =
    JUndefined
  | JNull
  | JBool bool
  | JNumber js_number
  | JString string
  | JArray "json list"
  | JObject "(string \<times> json) list"

type_synonym js_object = "(string \<times> json) list"

subsection \<open>Trimming\<close>

definition is_space :: "char \<Rightarrow> bool" where
  "is_space c = (let n = (of_char c :: nat) in (9 \<le> n \<and> n \<le> 13) \<or> n = 32 \<or> n = 160)"

definition js_trim :: "string \<Rightarrow> string" where
  "js_trim s = rev (dropWhile is_space (rev (dropWhile is_space s)))"

lemma dropWhile_rev_dropWhile_rev:
  "dropWhile P xs = xs \<Longrightarrow> dropWhile P (rev (dropWhile P (rev xs))) = rev (dropWhile P (rev xs))"
proof (cases "rev (dropWhile P (rev xs))")
  case Nil
  then show ?thesis by (simp del: rev_is_Nil_conv)
next
  case (Cons a ys)
  assume fixed: "dropWhile P xs = xs"
  have "rev xs = takeWhile P (rev xs) @ dropWhile P (rev xs)" by simp
  then have "xs = rev (dropWhile P (rev xs)) @ rev (takeWhile P (rev xs))"
    by (metis rev_append rev_rev_ident)
  with Cons have "xs = a # (ys @ rev (takeWhile P (rev xs)))" by simp
  with fixed have "\<not> P a" by (metis dropWhile_eq_self_iff list.sel(1) list.discI)
  with Cons show ?thesis by simp
qed

lemma js_trim_idem [simp, norm_simps]: "js_trim (js_trim s) = js_trim s"
  unfolding js_trim_def
  by (metis (no_types, lifting) dropWhile_idem dropWhile_rev_dropWhile_rev rev_rev_ident)

subsection \<open>Results of operations that may throw\<close>

text \<open>
  An operation that throws is a sum: \<open>Inl\<close> the thrown error, \<open>Inr\<close> the returned value.
  \<open>map_result\<close> is \<open>Array.map\<close> with a callback that may throw: the first throw, in index
  order, ends the call.
\<close>

definition bind_result :: "'e + 'a \<Rightarrow> ('a \<Rightarrow> 'e + 'b) \<Rightarrow> 'e + 'b" where
  "bind_result r f = (case r of Inl e \<Rightarrow> Inl e | Inr v \<Rightarrow> f v)"

lemma bind_result_simps [simp]:
  "bind_result (Inl e) f = Inl e" "bind_result (Inr v) f = f v"
  by (simp_all add: bind_result_def)

lemma bind_result_Inr_iff:
  "bind_result r f = Inr b \<longleftrightarrow> (\<exists>a. r = Inr a \<and> f a = Inr b)"
  by (cases r) simp_all

text \<open>A call returns, and what it returns satisfies a test: the form concrete runs are evaluated in.\<close>

definition returns :: "'e + 'a \<Rightarrow> ('a \<Rightarrow> bool) \<Rightarrow> bool" where
  "returns r P = (case r of Inl _ \<Rightarrow> False | Inr v \<Rightarrow> P v)"

definition gives :: "'a option \<Rightarrow> ('a \<Rightarrow> bool) \<Rightarrow> bool" where
  "gives r P = (case r of None \<Rightarrow> False | Some v \<Rightarrow> P v)"

lemma returns_iff: "returns r P \<longleftrightarrow> (\<exists>v. r = Inr v \<and> P v)"
  by (cases r) (simp_all add: returns_def)

lemma gives_iff: "gives r P \<longleftrightarrow> (\<exists>v. r = Some v \<and> P v)"
  by (cases r) (simp_all add: gives_def)

fun map_result :: "('a \<Rightarrow> 'e + 'b) \<Rightarrow> 'a list \<Rightarrow> 'e + 'b list" where
  "map_result f [] = Inr []"
| "map_result f (x # xs) =
     bind_result (f x) (\<lambda>y. bind_result (map_result f xs) (\<lambda>ys. Inr (y # ys)))"

lemma map_result_pure [simp]: "map_result (\<lambda>x. Inr (f x)) xs = Inr (map f xs)"
  by (induction xs) simp_all

lemma map_result_cong: "(\<And>x. x \<in> set xs \<Longrightarrow> f x = g x) \<Longrightarrow> map_result f xs = map_result g xs"
  by (induction xs) simp_all

lemma map_result_Inr_iff:
  "map_result f xs = Inr ys \<longleftrightarrow> list_all2 (\<lambda>x y. f x = Inr y) xs ys"
  by (induction xs arbitrary: ys) (auto simp: bind_result_Inr_iff list_all2_Cons1)

lemma list_all2_set_right:
  "list_all2 P xs ys \<Longrightarrow> y \<in> set ys \<Longrightarrow> \<exists>x\<in>set xs. P x y"
  by (induction rule: list_all2_induct) auto

lemma map_result_map_key:
  assumes "map_result f xs = Inr ys"
    and "\<And>x y. x \<in> set xs \<Longrightarrow> f x = Inr y \<Longrightarrow> k y = k x"
  shows "map k ys = map k xs"
  using assms
  by (induction xs arbitrary: ys) (auto simp: bind_result_Inr_iff)

subsection \<open>Maps built from entry lists\<close>

text \<open>\<open>new Map(entries)\<close>: the last entry of a key wins.\<close>

definition js_map :: "('k \<times> 'v) list \<Rightarrow> 'k \<Rightarrow> 'v option" where
  "js_map entries k = map_of (rev entries) k"

lemma js_map_Nil [simp]: "js_map [] k = None"
  by (simp add: js_map_def)

lemma js_map_SomeD: "js_map es k = Some v \<Longrightarrow> (k, v) \<in> set es"
  unfolding js_map_def using map_of_SomeD by fastforce

lemma js_map_None_iff: "js_map es k = None \<longleftrightarrow> k \<notin> fst ` set es"
  by (simp add: js_map_def map_of_eq_None_iff)

text \<open>\<open>{...object, [key]: value}\<close>: an existing key keeps its place.\<close>

definition obj_set :: "string \<Rightarrow> 'v \<Rightarrow> (string \<times> 'v) list \<Rightarrow> (string \<times> 'v) list" where
  "obj_set k v obj = AList.update k v obj"

lemma obj_set_get: "map_of (obj_set k v obj) k' = (if k' = k then Some v else map_of obj k')"
  by (simp add: obj_set_def update_conv')

end
