(* ===== verification/GraphDocument.thy ===== *)
theory GraphDocument
  imports Prelude
begin

section \<open>The authored graph document and its commands\<close>

text \<open>
  The durable document of one Graph (\<^verbatim>\<open>model/graph-document.ts\<close>): its stored entities, the
  projections that put an entity into stored form, the command vocabulary, and the
  transition \<open>applyGraphCommandNormalized\<close> with one definition per command. A thrown error
  is an \<open>Inl\<close> of \<open>graph_error\<close>. \<open>structuredClone\<close> is the identity on values that are never
  mutated.
\<close>

subsection \<open>Stored entities\<close>

record point =
  pt_x :: js_number
  pt_y :: js_number

record input_plug =
  plug_id :: string
  plug_port :: string

record artifact_type_key =
  type_id :: string
  type_schema_version :: int

record artifact_type_binding =
  bind_variable :: string
  bind_artifact_type :: artifact_type_key

record node_layout =
  lay_appendix_height :: "js_number nullish"
  lay_body_height :: "js_number nullish"
  lay_width :: "js_number nullish"

datatype node_kind = Builtin | Module | Call

record saved_graph_node =
  n_id :: string
  n_kind :: node_kind
  n_operator_id :: string
  n_operator_version :: int
  n_config :: "js_object nullish"
  n_artifact_type_bindings :: "artifact_type_binding list"
  n_input_plugs :: "input_plug list"
  n_layout :: "node_layout nullish"
  n_position :: point

record graph_conversion =
  conv_id :: string
  conv_version :: int

datatype collection_mode = Direct | MapItems

record saved_graph_edge =
  e_id :: string
  e_from_node :: string
  e_from_port :: string
  e_to_node :: string
  e_to_port :: string
  e_to_plug :: "string nullish"
  e_enabled :: bool
  e_collection_mode :: collection_mode
  e_projection :: "string list nullish"
  e_conversion_path :: "graph_conversion list"
  e_route_offset :: "point nullish"

record saved_graph_origin =
  o_id :: string
  o_to_node :: string
  o_to_port :: string
  o_to_plug :: "string nullish"
  o_value :: json
  o_collection_mode :: collection_mode
  o_conversion_path :: "graph_conversion list"

datatype agent_model = DeploymentModel | CustomModel string string

record saved_graph_agent =
  a_id :: string
  a_name :: string
  a_instructions :: string
  a_model :: "agent_model nullish"
  a_position :: "point nullish"
  a_width :: js_number
  a_height :: js_number

subsection \<open>Presentation\<close>

record presentation_viewer =
  v_id :: string
  v_position :: point
  v_layout :: "node_layout nullish"
  v_mode :: "string nullish"
  v_artifact_ref :: json

record presentation_link =
  l_id :: string
  l_source_node_id :: string
  l_source_port_name :: string
  l_target_viewer_id :: string
  l_projection :: "string list nullish"
  l_route_offset :: "point nullish"

record presentation_binding =
  b_id :: string
  b_source_viewer_id :: string
  b_target_viewer_id :: string
  b_mappings :: "(string \<times> string) list"
  b_effects :: "string list"
  b_empty_selection :: string

record presentation_annotation =
  an_id :: string
  an_kind :: string
  an_color :: string
  an_text :: string
  an_position :: point
  an_layout :: point

record graph_presentation =
  p_viewers :: "presentation_viewer list"
  p_links :: "presentation_link list"
  p_bindings :: "presentation_binding list"
  p_annotations :: "presentation_annotation list"

subsection \<open>Documents and drafts\<close>

record authored_graph_document =
  d_name :: string
  d_nodes :: "saved_graph_node list"
  d_edges :: "saved_graph_edge list"
  d_origins :: "saved_graph_origin list"
  d_agents :: "saved_graph_agent list"

record saved_graph_document =
  sd_schema_version :: int
  sd_nodes :: "saved_graph_node list"
  sd_edges :: "saved_graph_edge list"
  sd_origins :: "saved_graph_origin list"
  sd_agents :: "saved_graph_agent list nullish"
  sd_presentation :: "graph_presentation nullish"

record graph_draft =
  gd_name :: string
  gd_document :: saved_graph_document


text \<open>What a run is asked to make fresh.\<close>

record run_target =
  rt_node_id :: string
  rt_call_path :: "string list"

subsection \<open>Projections onto the stored fields\<close>

definition projectSavedGraphLayout :: "node_layout nullish \<Rightarrow> node_layout nullish" where
  "projectSavedGraphLayout layout =
     (case layout of
        Undefined \<Rightarrow> Null
      | Null \<Rightarrow> Null
      | Defined l \<Rightarrow> Defined
          \<lparr>lay_appendix_height = or_null (lay_appendix_height l),
           lay_body_height = or_null (lay_body_height l),
           lay_width = or_null (lay_width l)\<rparr>)"

definition projectSavedGraphInputPlug :: "input_plug \<Rightarrow> input_plug" where
  "projectSavedGraphInputPlug plug = \<lparr>plug_id = plug_id plug, plug_port = plug_port plug\<rparr>"

definition projectArtifactTypeBinding :: "artifact_type_binding \<Rightarrow> artifact_type_binding" where
  "projectArtifactTypeBinding binding =
     \<lparr>bind_variable = bind_variable binding,
      bind_artifact_type =
        \<lparr>type_id = type_id (bind_artifact_type binding),
         type_schema_version = type_schema_version (bind_artifact_type binding)\<rparr>\<rparr>"

definition projectSavedGraphNode :: "saved_graph_node \<Rightarrow> saved_graph_node" where
  "projectSavedGraphNode node =
     \<lparr>n_id = n_id node,
      n_kind = n_kind node,
      n_operator_id = n_operator_id node,
      n_operator_version = n_operator_version node,
      n_config = Defined (nullish_or (n_config node) []),
      n_artifact_type_bindings = map projectArtifactTypeBinding (n_artifact_type_bindings node),
      n_input_plugs = map projectSavedGraphInputPlug (n_input_plugs node),
      n_layout = projectSavedGraphLayout (n_layout node),
      n_position = \<lparr>pt_x = pt_x (n_position node), pt_y = pt_y (n_position node)\<rparr>\<rparr>"

text \<open>The three-way branch \<open>x === null || x === undefined ? null : copy\<close> of optional edge fields.\<close>

definition project_conversion :: "graph_conversion \<Rightarrow> graph_conversion" where
  "project_conversion c = \<lparr>conv_id = conv_id c, conv_version = conv_version c\<rparr>"

definition projectSavedGraphEdge :: "saved_graph_edge \<Rightarrow> saved_graph_edge" where
  "projectSavedGraphEdge edge =
     \<lparr>e_id = e_id edge,
      e_from_node = e_from_node edge,
      e_from_port = e_from_port edge,
      e_to_node = e_to_node edge,
      e_to_port = e_to_port edge,
      e_to_plug = or_null (e_to_plug edge),
      e_enabled = e_enabled edge,
      e_collection_mode = e_collection_mode edge,
      e_projection = or_null (e_projection edge),
      e_conversion_path = map project_conversion (e_conversion_path edge),
      e_route_offset = or_null (e_route_offset edge)\<rparr>"

definition projectSavedGraphOrigin :: "saved_graph_origin \<Rightarrow> saved_graph_origin" where
  "projectSavedGraphOrigin origin =
     \<lparr>o_id = o_id origin,
      o_to_node = o_to_node origin,
      o_to_port = o_to_port origin,
      o_to_plug = or_null (o_to_plug origin),
      o_value = o_value origin,
      o_collection_mode = o_collection_mode origin,
      o_conversion_path = map project_conversion (o_conversion_path origin)\<rparr>"

definition projectAgentModelChoice :: "agent_model nullish \<Rightarrow> agent_model nullish" where
  "projectAgentModelChoice choice =
     (case choice of
        Undefined \<Rightarrow> Undefined
      | Null \<Rightarrow> Undefined
      | Defined (CustomModel endpoint model) \<Rightarrow> Defined (CustomModel endpoint model)
      | Defined DeploymentModel \<Rightarrow> Defined DeploymentModel)"

definition projectSavedGraphAgent :: "saved_graph_agent \<Rightarrow> saved_graph_agent" where
  "projectSavedGraphAgent agent =
     \<lparr>a_id = a_id agent,
      a_name = a_name agent,
      a_instructions = a_instructions agent,
      a_model = projectAgentModelChoice (a_model agent),
      a_position = (case a_position agent of
          Undefined \<Rightarrow> Undefined
        | Null \<Rightarrow> Undefined
        | Defined p \<Rightarrow> Defined \<lparr>pt_x = pt_x p, pt_y = pt_y p\<rparr>),
      a_width = a_width agent,
      a_height = a_height agent\<rparr>"

subsection \<open>Partial updates\<close>

text \<open>
  In an update, \<open>None\<close> is a key the update does not own. \<open>{...edge, ...update}\<close> overwrites
  the owned keys.
\<close>

record edge_update =
  eu_collection_mode :: "collection_mode option"
  eu_enabled :: "bool option"
  eu_projection :: "string list nullish option"
  eu_conversion_path :: "graph_conversion list nullish option"
  eu_route_offset :: "point nullish option"
  eu_to_plug :: "string nullish option"
  eu_from_port :: "string option"
  eu_to_port :: "string option"

record origin_update =
  ou_to_node :: "string option"
  ou_to_port :: "string option"
  ou_to_plug :: "string nullish option"
  ou_value :: "json option"
  ou_collection_mode :: "collection_mode option"
  ou_conversion_path :: "graph_conversion list nullish option"

definition own :: "'a option \<Rightarrow> 'a \<Rightarrow> 'a" where
  "own u old = (case u of None \<Rightarrow> old | Some v \<Rightarrow> v)"

lemma own_simps [simp]: "own None old = old" "own (Some v) old = v"
  by (simp_all add: own_def)

definition projectSavedGraphEdgeUpdate :: "edge_update \<Rightarrow> edge_update" where
  "projectSavedGraphEdgeUpdate u =
     \<lparr>eu_collection_mode = eu_collection_mode u,
      eu_enabled = eu_enabled u,
      eu_projection = map_option or_null (eu_projection u),
      eu_conversion_path =
        map_option (\<lambda>p. Defined (map project_conversion (nullish_or p []))) (eu_conversion_path u),
      eu_route_offset = map_option or_null (eu_route_offset u),
      eu_to_plug = map_option or_null (eu_to_plug u),
      eu_from_port = eu_from_port u,
      eu_to_port = eu_to_port u\<rparr>"

definition projectSavedGraphOriginUpdate :: "origin_update \<Rightarrow> origin_update" where
  "projectSavedGraphOriginUpdate u =
     \<lparr>ou_to_node = ou_to_node u,
      ou_to_port = ou_to_port u,
      ou_to_plug = map_option or_null (ou_to_plug u),
      ou_value = ou_value u,
      ou_collection_mode = ou_collection_mode u,
      ou_conversion_path =
        map_option (\<lambda>p. Defined (map project_conversion (nullish_or p []))) (ou_conversion_path u)\<rparr>"

text \<open>
  The merge of a projected update. Its conversion path, when owned, is always an array; the
  default of \<open>nullish_or\<close> is never read there.
\<close>

definition merge_edge :: "saved_graph_edge \<Rightarrow> edge_update \<Rightarrow> saved_graph_edge" where
  "merge_edge edge u = edge
     \<lparr>e_from_port := own (eu_from_port u) (e_from_port edge),
      e_to_port := own (eu_to_port u) (e_to_port edge),
      e_to_plug := own (eu_to_plug u) (e_to_plug edge),
      e_enabled := own (eu_enabled u) (e_enabled edge),
      e_collection_mode := own (eu_collection_mode u) (e_collection_mode edge),
      e_projection := own (eu_projection u) (e_projection edge),
      e_conversion_path :=
        own (map_option (\<lambda>p. nullish_or p []) (eu_conversion_path u)) (e_conversion_path edge),
      e_route_offset := own (eu_route_offset u) (e_route_offset edge)\<rparr>"

definition merge_origin :: "saved_graph_origin \<Rightarrow> origin_update \<Rightarrow> saved_graph_origin" where
  "merge_origin origin u = origin
     \<lparr>o_to_node := own (ou_to_node u) (o_to_node origin),
      o_to_port := own (ou_to_port u) (o_to_port origin),
      o_to_plug := own (ou_to_plug u) (o_to_plug origin),
      o_value := own (ou_value u) (o_value origin),
      o_collection_mode := own (ou_collection_mode u) (o_collection_mode origin),
      o_conversion_path :=
        own (map_option (\<lambda>p. nullish_or p []) (ou_conversion_path u)) (o_conversion_path origin)\<rparr>"

subsection \<open>The command vocabulary\<close>

datatype graph_command =
    RenameGraph string
  | AddNode saved_graph_node
  | RemoveNodes "string list"
  | MoveNodes "(string \<times> point) list"
  | UpdateNodeConfiguration string string json
  | UpdateNodeLayout string "node_layout nullish"
  | AddInputPlug string input_plug
  | RemoveInputPlug string string
  | ReorderInputPlug string string string int
  | UpdateNodeConfigurationAndInputPlugs string js_object "input_plug list"
  | BindArtifactType string string artifact_type_key
  | ResetArtifactTypeBinding string string
  | AddEdge saved_graph_edge
  | UpdateEdge string edge_update
  | RemoveEdges "string list"
  | AddOrigin saved_graph_origin
  | UpdateOrigin string origin_update
  | RemoveOrigins "string list"
  | AddAgent saved_graph_agent
  | ConfigureAgent saved_graph_agent
  | RemoveAgent string
  | ReplaceDocument authored_graph_document

datatype graph_error =
    MissingNode string
  | MissingEdge string
  | MissingOrigin string
  | MissingAgent string
  | MissingInputPlug string
  | CouldNotReorderPlug
  | DuplicateNode string
  | DuplicateEdge string
  | DuplicateOrigin string
  | DuplicateAgent string
  | TypeError

type_synonym 'a result = "graph_error + 'a"

subsection \<open>Normalisation: drafts and documents\<close>

definition authoredGraphDocument :: "graph_draft \<Rightarrow> authored_graph_document" where
  "authoredGraphDocument draft =
     \<lparr>d_name = gd_name draft,
      d_nodes = map projectSavedGraphNode (sd_nodes (gd_document draft)),
      d_edges = map projectSavedGraphEdge (sd_edges (gd_document draft)),
      d_origins = map projectSavedGraphOrigin (sd_origins (gd_document draft)),
      d_agents = map projectSavedGraphAgent (nullish_or (sd_agents (gd_document draft)) [])\<rparr>"

definition emptyPresentation :: graph_presentation where
  "emptyPresentation = \<lparr>p_viewers = [], p_links = [], p_bindings = [], p_annotations = []\<rparr>"

definition presentationForDocument :: "graph_presentation \<Rightarrow> saved_graph_node list \<Rightarrow> graph_presentation" where
  "presentationForDocument presentation nodes =
     (let nodeIds = set (map n_id nodes);
          viewerIds = set (map v_id (p_viewers presentation));
          links = filter (\<lambda>link. l_source_node_id link \<in> nodeIds \<and> l_target_viewer_id link \<in> viewerIds)
                    (p_links presentation);
          bindings = filter (\<lambda>binding. b_source_viewer_id binding \<in> viewerIds
                                 \<and> b_target_viewer_id binding \<in> viewerIds)
                    (p_bindings presentation)
      in if length links = length (p_links presentation)
            \<and> length bindings = length (p_bindings presentation)
         then presentation
         else presentation\<lparr>p_links := links, p_bindings := bindings\<rparr>)"

definition createGraphDraft :: "authored_graph_document \<Rightarrow> graph_presentation nullish \<Rightarrow> graph_draft" where
  "createGraphDraft document presentation =
     \<lparr>gd_name = js_trim (d_name document),
      gd_document =
        \<lparr>sd_schema_version = 7,
         sd_nodes = map projectSavedGraphNode (d_nodes document),
         sd_edges = map projectSavedGraphEdge (d_edges document),
         sd_origins = map projectSavedGraphOrigin (d_origins document),
         sd_agents = Defined (map projectSavedGraphAgent (d_agents document)),
         sd_presentation = Defined
           (presentationForDocument (nullish_or presentation emptyPresentation) (d_nodes document))\<rparr>\<rparr>"

text \<open>The normal form every batch starts from: \<open>authoredGraphDocument(createGraphDraft(d))\<close>.\<close>

definition normalize :: "authored_graph_document \<Rightarrow> authored_graph_document" where
  "normalize document = authoredGraphDocument (createGraphDraft document Undefined)"

subsection \<open>Look-ups that throw, and the update of one node\<close>

definition nodeOrThrow :: "authored_graph_document \<Rightarrow> string \<Rightarrow> saved_graph_node result" where
  "nodeOrThrow document nodeId =
     (case find (\<lambda>n. n_id n = nodeId) (d_nodes document) of
        None \<Rightarrow> Inl (MissingNode nodeId) | Some n \<Rightarrow> Inr n)"

definition edgeOrThrow :: "authored_graph_document \<Rightarrow> string \<Rightarrow> saved_graph_edge result" where
  "edgeOrThrow document edgeId =
     (case find (\<lambda>e. e_id e = edgeId) (d_edges document) of
        None \<Rightarrow> Inl (MissingEdge edgeId) | Some e \<Rightarrow> Inr e)"

definition originOrThrow :: "authored_graph_document \<Rightarrow> string \<Rightarrow> saved_graph_origin result" where
  "originOrThrow document originId =
     (case find (\<lambda>x. o_id x = originId) (d_origins document) of
        None \<Rightarrow> Inl (MissingOrigin originId) | Some x \<Rightarrow> Inr x)"

definition agentOrThrow :: "authored_graph_document \<Rightarrow> string \<Rightarrow> saved_graph_agent result" where
  "agentOrThrow document agentId =
     (case find (\<lambda>x. a_id x = agentId) (d_agents document) of
        None \<Rightarrow> Inl (MissingAgent agentId) | Some x \<Rightarrow> Inr x)"

definition updateNode ::
  "authored_graph_document \<Rightarrow> string \<Rightarrow> (saved_graph_node \<Rightarrow> saved_graph_node result)
     \<Rightarrow> authored_graph_document result" where
  "updateNode document nodeId update =
     bind_result (nodeOrThrow document nodeId) (\<lambda>_.
       bind_result
         (map_result (\<lambda>node. if n_id node = nodeId then update node else Inr node) (d_nodes document))
         (\<lambda>nodes. Inr (document\<lparr>d_nodes := nodes\<rparr>)))"

subsection \<open>The transition, one definition per command\<close>

definition apply_rename_graph :: "authored_graph_document \<Rightarrow> string \<Rightarrow> authored_graph_document result" where
  "apply_rename_graph document name = Inr (document\<lparr>d_name := name\<rparr>)"

definition apply_add_node :: "authored_graph_document \<Rightarrow> saved_graph_node \<Rightarrow> authored_graph_document result" where
  "apply_add_node document node =
     (if \<exists>x\<in>set (d_nodes document). n_id x = n_id node then Inl (DuplicateNode (n_id node))
      else Inr (document\<lparr>d_nodes := d_nodes document @ [projectSavedGraphNode node]\<rparr>))"

definition apply_remove_nodes :: "authored_graph_document \<Rightarrow> string list \<Rightarrow> authored_graph_document result" where
  "apply_remove_nodes document node_ids =
     Inr (document
       \<lparr>d_nodes := filter (\<lambda>n. n_id n \<notin> set node_ids) (d_nodes document),
        d_edges := filter (\<lambda>e. e_from_node e \<notin> set node_ids \<and> e_to_node e \<notin> set node_ids) (d_edges document),
        d_origins := filter (\<lambda>x. o_to_node x \<notin> set node_ids) (d_origins document)\<rparr>)"

fun check_positions :: "authored_graph_document \<Rightarrow> (string \<times> point) list \<Rightarrow> unit result" where
  "check_positions document [] = Inr ()"
| "check_positions document ((nodeId, p) # ps) =
     bind_result (nodeOrThrow document nodeId) (\<lambda>_. check_positions document ps)"

definition apply_move_nodes ::
  "authored_graph_document \<Rightarrow> (string \<times> point) list \<Rightarrow> authored_graph_document result" where
  "apply_move_nodes document positions =
     bind_result (check_positions document positions) (\<lambda>_.
       Inr (document\<lparr>d_nodes := map (\<lambda>node. case js_map positions (n_id node) of
               None \<Rightarrow> node
             | Some p \<Rightarrow> node\<lparr>n_position := \<lparr>pt_x = pt_x p, pt_y = pt_y p\<rparr>\<rparr>) (d_nodes document)\<rparr>))"

definition apply_update_node_configuration ::
  "authored_graph_document \<Rightarrow> string \<Rightarrow> string \<Rightarrow> json \<Rightarrow> authored_graph_document result" where
  "apply_update_node_configuration document nodeId field v =
     updateNode document nodeId (\<lambda>node.
       Inr (node\<lparr>n_config := Defined (obj_set field v (nullish_or (n_config node) []))\<rparr>))"

definition apply_update_node_layout ::
  "authored_graph_document \<Rightarrow> string \<Rightarrow> node_layout nullish \<Rightarrow> authored_graph_document result" where
  "apply_update_node_layout document nodeId layout =
     updateNode document nodeId (\<lambda>node. Inr (node\<lparr>n_layout := projectSavedGraphLayout layout\<rparr>))"

definition apply_add_input_plug ::
  "authored_graph_document \<Rightarrow> string \<Rightarrow> input_plug \<Rightarrow> authored_graph_document result" where
  "apply_add_input_plug document nodeId plug =
     updateNode document nodeId (\<lambda>node.
       Inr (node\<lparr>n_input_plugs := n_input_plugs node @ [projectSavedGraphInputPlug plug]\<rparr>))"

definition apply_remove_input_plug ::
  "authored_graph_document \<Rightarrow> string \<Rightarrow> string \<Rightarrow> authored_graph_document result" where
  "apply_remove_input_plug document nodeId plugId =
     bind_result
       (updateNode document nodeId (\<lambda>node.
          Inr (node\<lparr>n_input_plugs := filter (\<lambda>plug. plug_id plug \<noteq> plugId) (n_input_plugs node)\<rparr>)))
       (\<lambda>next. Inr (next
          \<lparr>d_edges := filter (\<lambda>e. e_to_node e \<noteq> nodeId \<or> e_to_plug e \<noteq> Defined plugId) (d_edges next),
           d_origins := filter (\<lambda>x. o_to_node x \<noteq> nodeId \<or> o_to_plug x \<noteq> Defined plugId) (d_origins next)\<rparr>))"

fun find_index :: "('a \<Rightarrow> bool) \<Rightarrow> 'a list \<Rightarrow> nat option" where
  "find_index P [] = None"
| "find_index P (x # xs) = (if P x then Some 0 else map_option Suc (find_index P xs))"

text \<open>
  \<open>plugs.splice(currentIndex, 1)\<close> takes the plug out; the second \<open>splice\<close> puts it back at the
  requested index, clamped to the shortened list.
\<close>

definition reorder_plugs :: "input_plug list \<Rightarrow> string \<Rightarrow> string \<Rightarrow> int \<Rightarrow> input_plug list result" where
  "reorder_plugs plugs port plugId to_index =
     (case find_index (\<lambda>plug. plug_id plug = plugId \<and> plug_port plug = port) plugs of
        None \<Rightarrow> Inl (MissingInputPlug plugId)
      | Some currentIndex \<Rightarrow>
          (case take 1 (drop currentIndex plugs) of
             [] \<Rightarrow> Inl CouldNotReorderPlug
           | plug # _ \<Rightarrow>
               (let rest = take currentIndex plugs @ drop (Suc currentIndex) plugs;
                    place = nat (max 0 (min to_index (int (length rest))))
                in Inr (take place rest @ plug # drop place rest))))"

definition apply_reorder_input_plug ::
  "authored_graph_document \<Rightarrow> string \<Rightarrow> string \<Rightarrow> string \<Rightarrow> int \<Rightarrow> authored_graph_document result" where
  "apply_reorder_input_plug document nodeId port plugId to_index =
     updateNode document nodeId (\<lambda>node.
       bind_result (reorder_plugs (n_input_plugs node) port plugId to_index)
         (\<lambda>plugs. Inr (node\<lparr>n_input_plugs := plugs\<rparr>)))"

text \<open>Whether an edge or origin into a node survives a new set of plugs.\<close>

definition plug_retained :: "string set \<Rightarrow> string nullish \<Rightarrow> bool" where
  "plug_retained retained plug =
     (case plug of Undefined \<Rightarrow> True | Null \<Rightarrow> True | Defined p \<Rightarrow> p \<in> retained)"

definition apply_update_node_configuration_and_input_plugs ::
  "authored_graph_document \<Rightarrow> string \<Rightarrow> js_object \<Rightarrow> input_plug list \<Rightarrow> authored_graph_document result" where
  "apply_update_node_configuration_and_input_plugs document nodeId config input_plugs =
     bind_result
       (updateNode document nodeId (\<lambda>node.
          Inr (node\<lparr>n_config := Defined config,
                    n_input_plugs := map projectSavedGraphInputPlug input_plugs\<rparr>)))
       (\<lambda>next. let retained = set (map plug_id input_plugs) in Inr (next
          \<lparr>d_edges := filter (\<lambda>e. e_to_node e \<noteq> nodeId \<or> plug_retained retained (e_to_plug e)) (d_edges next),
           d_origins := filter (\<lambda>x. o_to_node x \<noteq> nodeId \<or> plug_retained retained (o_to_plug x)) (d_origins next)\<rparr>))"

definition apply_bind_artifact_type ::
  "authored_graph_document \<Rightarrow> string \<Rightarrow> string \<Rightarrow> artifact_type_key \<Rightarrow> authored_graph_document result" where
  "apply_bind_artifact_type document nodeId variable artifact_type =
     updateNode document nodeId (\<lambda>node.
       Inr (node\<lparr>n_artifact_type_bindings :=
              filter (\<lambda>binding. bind_variable binding \<noteq> variable) (n_artifact_type_bindings node)
              @ [\<lparr>bind_variable = variable,
                  bind_artifact_type = bind_artifact_type
                    (projectArtifactTypeBinding
                      \<lparr>bind_variable = variable, bind_artifact_type = artifact_type\<rparr>)\<rparr>]\<rparr>))"

definition apply_reset_artifact_type_binding ::
  "authored_graph_document \<Rightarrow> string \<Rightarrow> string \<Rightarrow> authored_graph_document result" where
  "apply_reset_artifact_type_binding document nodeId variable =
     updateNode document nodeId (\<lambda>node.
       Inr (node\<lparr>n_artifact_type_bindings :=
              filter (\<lambda>binding. bind_variable binding \<noteq> variable) (n_artifact_type_bindings node)\<rparr>))"

definition apply_add_edge :: "authored_graph_document \<Rightarrow> saved_graph_edge \<Rightarrow> authored_graph_document result" where
  "apply_add_edge document edge =
     (if \<exists>x\<in>set (d_edges document). e_id x = e_id edge then Inl (DuplicateEdge (e_id edge))
      else Inr (document\<lparr>d_edges := d_edges document @ [projectSavedGraphEdge edge]\<rparr>))"

definition apply_update_edge ::
  "authored_graph_document \<Rightarrow> string \<Rightarrow> edge_update \<Rightarrow> authored_graph_document result" where
  "apply_update_edge document edgeId update =
     bind_result (edgeOrThrow document edgeId) (\<lambda>_.
       Inr (document\<lparr>d_edges := map (\<lambda>edge.
              if e_id edge = edgeId then merge_edge edge (projectSavedGraphEdgeUpdate update) else edge)
              (d_edges document)\<rparr>))"

definition apply_remove_edges :: "authored_graph_document \<Rightarrow> string list \<Rightarrow> authored_graph_document result" where
  "apply_remove_edges document edge_ids =
     Inr (document\<lparr>d_edges := filter (\<lambda>e. e_id e \<notin> set edge_ids) (d_edges document)\<rparr>)"

definition apply_add_origin :: "authored_graph_document \<Rightarrow> saved_graph_origin \<Rightarrow> authored_graph_document result" where
  "apply_add_origin document origin =
     (if \<exists>x\<in>set (d_origins document). o_id x = o_id origin then Inl (DuplicateOrigin (o_id origin))
      else Inr (document\<lparr>d_origins := d_origins document @ [projectSavedGraphOrigin origin]\<rparr>))"

definition apply_update_origin ::
  "authored_graph_document \<Rightarrow> string \<Rightarrow> origin_update \<Rightarrow> authored_graph_document result" where
  "apply_update_origin document originId update =
     bind_result (originOrThrow document originId) (\<lambda>_.
       Inr (document\<lparr>d_origins := map (\<lambda>origin.
              if o_id origin = originId then merge_origin origin (projectSavedGraphOriginUpdate update)
              else origin) (d_origins document)\<rparr>))"

definition apply_remove_origins :: "authored_graph_document \<Rightarrow> string list \<Rightarrow> authored_graph_document result" where
  "apply_remove_origins document origin_ids =
     Inr (document\<lparr>d_origins := filter (\<lambda>x. o_id x \<notin> set origin_ids) (d_origins document)\<rparr>)"

definition apply_add_agent :: "authored_graph_document \<Rightarrow> saved_graph_agent \<Rightarrow> authored_graph_document result" where
  "apply_add_agent document agent =
     (if \<exists>x\<in>set (d_agents document). a_id x = a_id agent then Inl (DuplicateAgent (a_id agent))
      else Inr (document\<lparr>d_agents := d_agents document @ [projectSavedGraphAgent agent]\<rparr>))"

definition apply_configure_agent :: "authored_graph_document \<Rightarrow> saved_graph_agent \<Rightarrow> authored_graph_document result" where
  "apply_configure_agent document agent =
     bind_result (agentOrThrow document (a_id agent)) (\<lambda>_.
       let replacement = projectSavedGraphAgent agent in
       Inr (document\<lparr>d_agents := map (\<lambda>x. if a_id x = a_id agent then replacement else x)
              (d_agents document)\<rparr>))"

definition apply_remove_agent :: "authored_graph_document \<Rightarrow> string \<Rightarrow> authored_graph_document result" where
  "apply_remove_agent document agentId =
     Inr (document\<lparr>d_agents := filter (\<lambda>x. a_id x \<noteq> agentId) (d_agents document)\<rparr>)"

definition apply_replace_document ::
  "authored_graph_document \<Rightarrow> authored_graph_document \<Rightarrow> authored_graph_document result" where
  "apply_replace_document document replacement =
     Inr (authoredGraphDocument (createGraphDraft replacement Undefined))"

fun applyGraphCommandNormalized ::
  "authored_graph_document \<Rightarrow> graph_command \<Rightarrow> authored_graph_document result" where
  "applyGraphCommandNormalized d (RenameGraph name) = apply_rename_graph d name"
| "applyGraphCommandNormalized d (AddNode node) = apply_add_node d node"
| "applyGraphCommandNormalized d (RemoveNodes ids) = apply_remove_nodes d ids"
| "applyGraphCommandNormalized d (MoveNodes ps) = apply_move_nodes d ps"
| "applyGraphCommandNormalized d (UpdateNodeConfiguration n f v) = apply_update_node_configuration d n f v"
| "applyGraphCommandNormalized d (UpdateNodeLayout n l) = apply_update_node_layout d n l"
| "applyGraphCommandNormalized d (AddInputPlug n p) = apply_add_input_plug d n p"
| "applyGraphCommandNormalized d (RemoveInputPlug n p) = apply_remove_input_plug d n p"
| "applyGraphCommandNormalized d (ReorderInputPlug n port p i) = apply_reorder_input_plug d n port p i"
| "applyGraphCommandNormalized d (UpdateNodeConfigurationAndInputPlugs n c ps) =
     apply_update_node_configuration_and_input_plugs d n c ps"
| "applyGraphCommandNormalized d (BindArtifactType n v t) = apply_bind_artifact_type d n v t"
| "applyGraphCommandNormalized d (ResetArtifactTypeBinding n v) = apply_reset_artifact_type_binding d n v"
| "applyGraphCommandNormalized d (AddEdge e) = apply_add_edge d e"
| "applyGraphCommandNormalized d (UpdateEdge e u) = apply_update_edge d e u"
| "applyGraphCommandNormalized d (RemoveEdges ids) = apply_remove_edges d ids"
| "applyGraphCommandNormalized d (AddOrigin x) = apply_add_origin d x"
| "applyGraphCommandNormalized d (UpdateOrigin x u) = apply_update_origin d x u"
| "applyGraphCommandNormalized d (RemoveOrigins ids) = apply_remove_origins d ids"
| "applyGraphCommandNormalized d (AddAgent a) = apply_add_agent d a"
| "applyGraphCommandNormalized d (ConfigureAgent a) = apply_configure_agent d a"
| "applyGraphCommandNormalized d (RemoveAgent a) = apply_remove_agent d a"
| "applyGraphCommandNormalized d (ReplaceDocument x) = apply_replace_document d x"

definition applyGraphCommand ::
  "authored_graph_document \<Rightarrow> graph_command \<Rightarrow> authored_graph_document result" where
  "applyGraphCommand document command =
     applyGraphCommandNormalized (authoredGraphDocument (createGraphDraft document Undefined)) command"

end
