(* ===== verification/Keyed_Collections.thy ===== *)
theory Keyed_Collections
  imports Prelude
begin

section \<open>Collections of stored entities with an identifier\<close>

text \<open>
  A graph document holds four lists of entities (nodes, edges, origins, Agents). Each kind
  has an identifier and a projection onto the fields the document stores, and every
  command edits such a list in one of four ways: append a projected entity, filter, map a
  change over the entities of one identifier, or project the whole list. The locale states
  the contract of identifier and projection and proves once what those edits keep: the
  identifiers stay distinct, and every entity stays in stored form.
\<close>

locale stored_collection =
  fixes key :: "'a \<Rightarrow> string"
    and project :: "'a \<Rightarrow> 'a"
  assumes key_project: "key (project x) = key x"
    and project_idem: "project (project x) = project x"
begin

lemma keys_project: "map key (map project xs) = map key xs"
  by (simp add: key_project)

lemma distinct_snoc:
  "distinct (map key xs) \<Longrightarrow> \<not> (\<exists>y\<in>set xs. key y = key x) \<Longrightarrow> distinct (map key (xs @ [project x]))"
  by (auto simp: key_project)

lemma distinct_filter: "distinct (map key xs) \<Longrightarrow> distinct (map key (filter P xs))"
  by (rule distinct_map_filter)

lemma keys_update:
  "(\<And>x. x \<in> set xs \<Longrightarrow> P x \<Longrightarrow> key (f x) = key x)
     \<Longrightarrow> map key (map (\<lambda>x. if P x then f x else x) xs) = map key xs"
  by simp

lemma stored_map_project: "\<forall>x\<in>set (map project xs). project x = x"
  by (auto simp: project_idem)

lemma map_project_stored: "\<forall>x\<in>set xs. project x = x \<Longrightarrow> map project xs = xs"
  by (simp add: map_idI)

lemma map_project_twice: "map project (map project xs) = map project xs"
  by (simp add: project_idem)

lemma stored_snoc: "\<forall>y\<in>set xs. project y = y \<Longrightarrow> \<forall>y\<in>set (xs @ [project x]). project y = y"
  by (auto simp: project_idem)

text \<open>In a list with distinct identifiers, the first match of an identifier is the only one.\<close>

lemma find_key:
  assumes "distinct (map key xs)" and "x \<in> set xs"
  shows "find (\<lambda>y. key y = key x) xs = Some x"
  using assms by (induction xs) auto

end

end
