(* ===== verification/GraphDocument_Facts.thy ===== *)
theory GraphDocument_Facts
  imports GraphDocument Keyed_Collections "HOL-Library.Multiset"
begin

section \<open>Correctness of the document commands\<close>

text \<open>
  The invariants of an authored document (distinct identifiers, stored form, no dangling
  reference) with their preservation by every command, the exact error of every command,
  the equivalence of batched and single application, the undo of additions, and the
  reordering of plugs. The four lists of a document are interpretations of
  \<open>stored_collection\<close>.
\<close>

subsection \<open>Stored form\<close>

lemma projectSavedGraphLayout_idem [simp, norm_simps]:
  "projectSavedGraphLayout (projectSavedGraphLayout l) = projectSavedGraphLayout l"
  by (simp add: projectSavedGraphLayout_def split: nullish.split)

lemma projectSavedGraphInputPlug_id [simp, norm_simps]: "projectSavedGraphInputPlug p = p"
  by (simp add: projectSavedGraphInputPlug_def)

lemma projectArtifactTypeBinding_id [simp, norm_simps]: "projectArtifactTypeBinding b = b"
  by (simp add: projectArtifactTypeBinding_def)

lemma project_conversion_id [simp, norm_simps]: "project_conversion c = c"
  by (simp add: project_conversion_def)

lemma projectAgentModelChoice_idem [simp, norm_simps]:
  "projectAgentModelChoice (projectAgentModelChoice m) = projectAgentModelChoice m"
  by (simp add: projectAgentModelChoice_def split: nullish.split agent_model.split)

lemma map_id_fun [simp, norm_simps]:
  "map projectSavedGraphInputPlug ps = ps" "map projectArtifactTypeBinding bs = bs"
  "map project_conversion cs = cs"
  by (simp_all add: map_idI)

interpretation node_store: stored_collection n_id projectSavedGraphNode
  by unfold_locales (simp_all add: projectSavedGraphNode_def)

interpretation edge_store: stored_collection e_id projectSavedGraphEdge
  by unfold_locales (simp_all add: projectSavedGraphEdge_def)

interpretation origin_store: stored_collection o_id projectSavedGraphOrigin
  by unfold_locales (simp_all add: projectSavedGraphOrigin_def)

interpretation agent_store: stored_collection a_id projectSavedGraphAgent
  by unfold_locales (simp_all add: projectSavedGraphAgent_def split: nullish.split)

lemmas store_keys [key_simps] =
  node_store.key_project edge_store.key_project origin_store.key_project agent_store.key_project

lemmas store_idem [norm_simps] =
  node_store.project_idem edge_store.project_idem origin_store.project_idem agent_store.project_idem

text \<open>
  A document is stored when every entity is in stored form. The name is not part of it:
  \<open>rename_graph\<close> writes the name as given.
\<close>

definition stored_document :: "authored_graph_document \<Rightarrow> bool" where
  "stored_document d \<longleftrightarrow>
     (\<forall>x\<in>set (d_nodes d). projectSavedGraphNode x = x)
     \<and> (\<forall>x\<in>set (d_edges d). projectSavedGraphEdge x = x)
     \<and> (\<forall>x\<in>set (d_origins d). projectSavedGraphOrigin x = x)
     \<and> (\<forall>x\<in>set (d_agents d). projectSavedGraphAgent x = x)"

lemma normalize_eq:
  "normalize d =
     \<lparr>d_name = js_trim (d_name d),
      d_nodes = map projectSavedGraphNode (d_nodes d),
      d_edges = map projectSavedGraphEdge (d_edges d),
      d_origins = map projectSavedGraphOrigin (d_origins d),
      d_agents = map projectSavedGraphAgent (d_agents d)\<rparr>"
  unfolding normalize_def authoredGraphDocument_def createGraphDraft_def
  by (simp add: node_store.project_idem edge_store.project_idem origin_store.project_idem
      agent_store.project_idem)

lemma stored_normalize: "stored_document (normalize d)"
  by (auto simp: stored_document_def normalize_eq norm_simps)

lemma normalize_stored:
  "stored_document d \<Longrightarrow> normalize d = d\<lparr>d_name := js_trim (d_name d)\<rparr>"
  by (simp add: normalize_eq stored_document_def map_idI)

lemma normalize_idem: "normalize (normalize d) = normalize d"
  using normalize_stored [OF stored_normalize, of d] by (simp add: normalize_eq)

subsection \<open>The update of one node\<close>

lemma find_None_ball: "find P xs = None \<longleftrightarrow> (\<forall>x\<in>set xs. \<not> P x)"
  by (auto simp: find_None_iff)

lemma nodeOrThrow_missing:
  "\<forall>n\<in>set (d_nodes d). n_id n \<noteq> i \<Longrightarrow> nodeOrThrow d i = Inl (MissingNode i)"
proof -
  assume "\<forall>n\<in>set (d_nodes d). n_id n \<noteq> i"
  then have "find (\<lambda>n. n_id n = i) (d_nodes d) = None" by (simp add: find_None_ball)
  then show ?thesis by (simp add: nodeOrThrow_def)
qed

lemma nodeOrThrow_present:
  "\<exists>n\<in>set (d_nodes d). n_id n = i \<Longrightarrow> \<exists>n. nodeOrThrow d i = Inr n"
proof -
  assume "\<exists>n\<in>set (d_nodes d). n_id n = i"
  then have "find (\<lambda>n. n_id n = i) (d_nodes d) \<noteq> None" by (auto simp: find_None_ball)
  then show ?thesis by (auto simp: nodeOrThrow_def)
qed

lemma updateNode_eq:
  "updateNode d i f =
     (if \<exists>n\<in>set (d_nodes d). n_id n = i
      then bind_result (map_result (\<lambda>n. if n_id n = i then f n else Inr n) (d_nodes d))
             (\<lambda>ns. Inr (d\<lparr>d_nodes := ns\<rparr>))
      else Inl (MissingNode i))"
proof (cases "\<exists>n\<in>set (d_nodes d). n_id n = i")
  case True
  from nodeOrThrow_present [OF this] obtain n where "nodeOrThrow d i = Inr n" ..
  with True show ?thesis by (simp add: updateNode_def)
next
  case False
  then have "nodeOrThrow d i = Inl (MissingNode i)" by (intro nodeOrThrow_missing) blast
  with False show ?thesis by (simp add: updateNode_def)
qed

lemma map_result_if_pure:
  "map_result (\<lambda>x. if P x then Inr (f x) else Inr x) xs = Inr (map (\<lambda>x. if P x then f x else x) xs)"
  using map_result_pure [of "\<lambda>x. if P x then f x else x" xs] by (simp add: if_distrib [of Inr])

lemma updateNode_pure:
  "updateNode d i (\<lambda>n. Inr (f n)) =
     (if \<exists>n\<in>set (d_nodes d). n_id n = i
      then Inr (d\<lparr>d_nodes := map (\<lambda>n. if n_id n = i then f n else n) (d_nodes d)\<rparr>)
      else Inl (MissingNode i))"
  by (simp add: updateNode_eq map_result_if_pure)

lemma updateNode_InrE:
  assumes "updateNode d i f = Inr d'"
  obtains ns where "d' = d\<lparr>d_nodes := ns\<rparr>"
    and "list_all2 (\<lambda>n n'. (if n_id n = i then f n else Inr n) = Inr n') (d_nodes d) ns"
    and "\<exists>n\<in>set (d_nodes d). n_id n = i"
  using assms by (auto simp: updateNode_eq bind_result_Inr_iff map_result_Inr_iff split: if_splits)

lemma throw_lookups:
  "edgeOrThrow d i = Inr e \<Longrightarrow> e \<in> set (d_edges d) \<and> e_id e = i"
  "originOrThrow d i = Inr x \<Longrightarrow> x \<in> set (d_origins d) \<and> o_id x = i"
  "agentOrThrow d i = Inr a \<Longrightarrow> a \<in> set (d_agents d) \<and> a_id a = i"
  "nodeOrThrow d i = Inr n \<Longrightarrow> n \<in> set (d_nodes d) \<and> n_id n = i"
  by (auto simp: edgeOrThrow_def originOrThrow_def agentOrThrow_def nodeOrThrow_def find_Some_iff
      split: option.splits)

lemmas apply_defs =
  apply_rename_graph_def apply_add_node_def apply_remove_nodes_def apply_move_nodes_def
  apply_update_node_configuration_def apply_update_node_layout_def apply_add_input_plug_def
  apply_remove_input_plug_def apply_reorder_input_plug_def
  apply_update_node_configuration_and_input_plugs_def apply_bind_artifact_type_def
  apply_reset_artifact_type_binding_def apply_add_edge_def apply_update_edge_def
  apply_remove_edges_def apply_add_origin_def apply_update_origin_def apply_remove_origins_def
  apply_add_agent_def apply_configure_agent_def apply_remove_agent_def apply_replace_document_def

subsection \<open>Well-formed and stored documents are kept\<close>

definition wf_document :: "authored_graph_document \<Rightarrow> bool" where
  "wf_document d \<longleftrightarrow>
     distinct (map n_id (d_nodes d)) \<and> distinct (map e_id (d_edges d))
     \<and> distinct (map o_id (d_origins d)) \<and> distinct (map a_id (d_agents d))"

text \<open>The one command that brings its own document in has to bring a well-formed one.\<close>

fun wf_command :: "graph_command \<Rightarrow> bool" where
  "wf_command (ReplaceDocument x) = wf_document x"
| "wf_command _ = True"

lemma wf_normalize [simp]: "wf_document (normalize d) = wf_document d"
  by (simp add: wf_document_def normalize_eq comp_def key_simps)

lemma updateNode_keys:
  assumes "updateNode d i f = Inr d'" and "\<And>n n'. f n = Inr n' \<Longrightarrow> n_id n' = n_id n"
  obtains ns where "d' = d\<lparr>d_nodes := ns\<rparr>" and "map n_id ns = map n_id (d_nodes d)"
proof -
  from assms(1) obtain ns where ns: "d' = d\<lparr>d_nodes := ns\<rparr>"
    "map_result (\<lambda>n. if n_id n = i then f n else Inr n) (d_nodes d) = Inr ns"
    by (elim updateNode_InrE) (simp add: map_result_Inr_iff)
  have "map n_id ns = map n_id (d_nodes d)"
    by (rule map_result_map_key [OF ns(2)]) (use assms(2) in \<open>auto split: if_splits\<close>)
  with ns(1) show ?thesis by (rule that)
qed

lemma updateNode_wf:
  assumes "updateNode d i f = Inr d'" and "\<And>n n'. f n = Inr n' \<Longrightarrow> n_id n' = n_id n"
    and "wf_document d"
  shows "wf_document d'"
  by (rule updateNode_keys [OF assms(1,2)]) (use assms(3) in \<open>simp_all add: wf_document_def\<close>)

lemma merge_keys [key_simps]: "e_id (merge_edge e u) = e_id e" "o_id (merge_origin x v) = o_id x"
  by (simp_all add: merge_edge_def merge_origin_def)

lemma wf_filter:
  "wf_document d \<Longrightarrow> wf_document (d
     \<lparr>d_nodes := filter P (d_nodes d), d_edges := filter Q (d_edges d), d_origins := filter R (d_origins d)\<rparr>)"
  "wf_document d \<Longrightarrow> wf_document (d\<lparr>d_edges := filter Q (d_edges d), d_origins := filter R (d_origins d)\<rparr>)"
  "wf_document d \<Longrightarrow> wf_document (d\<lparr>d_edges := filter Q (d_edges d)\<rparr>)"
  "wf_document d \<Longrightarrow> wf_document (d\<lparr>d_origins := filter R (d_origins d)\<rparr>)"
  "wf_document d \<Longrightarrow> wf_document (d\<lparr>d_agents := filter S (d_agents d)\<rparr>)"
  by (simp_all add: wf_document_def distinct_map_filter)

lemma wf_map:
  "wf_document d \<Longrightarrow> (\<And>x. n_id (f x) = n_id x) \<Longrightarrow> wf_document (d\<lparr>d_nodes := map f (d_nodes d)\<rparr>)"
  "wf_document d \<Longrightarrow> (\<And>x. e_id (g x) = e_id x) \<Longrightarrow> wf_document (d\<lparr>d_edges := map g (d_edges d)\<rparr>)"
  "wf_document d \<Longrightarrow> (\<And>x. o_id (h x) = o_id x) \<Longrightarrow> wf_document (d\<lparr>d_origins := map h (d_origins d)\<rparr>)"
  "wf_document d \<Longrightarrow> (\<And>x. a_id (k x) = a_id x) \<Longrightarrow> wf_document (d\<lparr>d_agents := map k (d_agents d)\<rparr>)"
  by (simp_all add: wf_document_def comp_def)

lemma wf_snoc:
  "wf_document d \<Longrightarrow> \<not> (\<exists>y\<in>set (d_nodes d). n_id y = n_id n)
     \<Longrightarrow> wf_document (d\<lparr>d_nodes := d_nodes d @ [projectSavedGraphNode n]\<rparr>)"
  "wf_document d \<Longrightarrow> \<not> (\<exists>y\<in>set (d_edges d). e_id y = e_id e)
     \<Longrightarrow> wf_document (d\<lparr>d_edges := d_edges d @ [projectSavedGraphEdge e]\<rparr>)"
  "wf_document d \<Longrightarrow> \<not> (\<exists>y\<in>set (d_origins d). o_id y = o_id x)
     \<Longrightarrow> wf_document (d\<lparr>d_origins := d_origins d @ [projectSavedGraphOrigin x]\<rparr>)"
  "wf_document d \<Longrightarrow> \<not> (\<exists>y\<in>set (d_agents d). a_id y = a_id a)
     \<Longrightarrow> wf_document (d\<lparr>d_agents := d_agents d @ [projectSavedGraphAgent a]\<rparr>)"
  using node_store.distinct_snoc edge_store.distinct_snoc origin_store.distinct_snoc
    agent_store.distinct_snoc
  by (simp_all add: wf_document_def)

lemma apply_wf:
  assumes "applyGraphCommandNormalized d c = Inr d'" and "wf_command c" and "wf_document d"
  shows "wf_document d'"
proof (cases c)
  case (ReplaceDocument x)
  with assms show ?thesis by (auto simp: apply_defs simp flip: normalize_def)
next
  case (MoveNodes ps)
  with assms show ?thesis
    by (auto simp: apply_defs bind_result_Inr_iff intro!: wf_map split: option.split)
next
  case (RenameGraph x)
  with assms show ?thesis by (auto simp: apply_defs wf_document_def)
next
  case (ReorderInputPlug n port p i)
  with assms show ?thesis
    by (auto simp: apply_defs elim!: updateNode_wf) (auto simp: bind_result_Inr_iff)
qed (use assms in \<open>auto simp: apply_defs bind_result_Inr_iff key_simps Let_def
    intro!: wf_filter wf_map wf_snoc elim: updateNode_wf split: if_splits\<close>)

subsection \<open>Stored form is kept, so one normalisation serves a batch\<close>

lemma stored_node_iff:
  "projectSavedGraphNode n = n \<longleftrightarrow>
     (\<exists>c. n_config n = Defined c) \<and> projectSavedGraphLayout (n_layout n) = n_layout n"
  by (cases n, cases "n_config n") (auto simp: projectSavedGraphNode_def)

lemma stored_edge_iff:
  "projectSavedGraphEdge e = e \<longleftrightarrow>
     or_null (e_to_plug e) = e_to_plug e \<and> or_null (e_projection e) = e_projection e
     \<and> or_null (e_route_offset e) = e_route_offset e"
  by (cases e) (auto simp: projectSavedGraphEdge_def)

lemma stored_origin_iff: "projectSavedGraphOrigin x = x \<longleftrightarrow> or_null (o_to_plug x) = o_to_plug x"
  by (cases x) (auto simp: projectSavedGraphOrigin_def)

lemma own_map_or_null: "or_null y = y \<Longrightarrow> or_null (own (map_option or_null u) y) = own (map_option or_null u) y"
  by (cases u) simp_all

lemma merge_stored:
  "projectSavedGraphEdge e = e
     \<Longrightarrow> projectSavedGraphEdge (merge_edge e (projectSavedGraphEdgeUpdate u)) = merge_edge e (projectSavedGraphEdgeUpdate u)"
  "projectSavedGraphOrigin x = x
     \<Longrightarrow> projectSavedGraphOrigin (merge_origin x (projectSavedGraphOriginUpdate v)) = merge_origin x (projectSavedGraphOriginUpdate v)"
  by (simp_all add: stored_edge_iff stored_origin_iff merge_edge_def merge_origin_def
      projectSavedGraphEdgeUpdate_def projectSavedGraphOriginUpdate_def own_map_or_null)

lemma updateNode_stored:
  assumes "updateNode d i f = Inr d'" and "stored_document d"
    and "\<And>n n'. f n = Inr n' \<Longrightarrow> projectSavedGraphNode n = n \<Longrightarrow> projectSavedGraphNode n' = n'"
  shows "stored_document d'"
proof -
  from assms(1) obtain ns where ns: "d' = d\<lparr>d_nodes := ns\<rparr>"
    "list_all2 (\<lambda>n n'. (if n_id n = i then f n else Inr n) = Inr n') (d_nodes d) ns"
    by (rule updateNode_InrE)
  have "projectSavedGraphNode n' = n'" if "n' \<in> set ns" for n'
  proof -
    from list_all2_set_right [OF ns(2) that] obtain n where
      "n \<in> set (d_nodes d)" "(if n_id n = i then f n else Inr n) = Inr n'" by blast
    with assms(2,3) show ?thesis by (auto simp: stored_document_def split: if_splits)
  qed
  with ns(1) assms(2) show ?thesis by (simp add: stored_document_def)
qed

lemma stored_edit:
  "stored_document d \<Longrightarrow> stored_document (d\<lparr>d_name := s\<rparr>)"
  "stored_document d \<Longrightarrow> stored_document (d
     \<lparr>d_nodes := filter P (d_nodes d), d_edges := filter Q (d_edges d), d_origins := filter R (d_origins d)\<rparr>)"
  "stored_document d \<Longrightarrow> stored_document (d\<lparr>d_edges := filter Q (d_edges d), d_origins := filter R (d_origins d)\<rparr>)"
  "stored_document d \<Longrightarrow> stored_document (d\<lparr>d_edges := filter Q (d_edges d)\<rparr>)"
  "stored_document d \<Longrightarrow> stored_document (d\<lparr>d_origins := filter R (d_origins d)\<rparr>)"
  "stored_document d \<Longrightarrow> stored_document (d\<lparr>d_agents := filter S (d_agents d)\<rparr>)"
  "stored_document d \<Longrightarrow> stored_document (d\<lparr>d_nodes := d_nodes d @ [projectSavedGraphNode n]\<rparr>)"
  "stored_document d \<Longrightarrow> stored_document (d\<lparr>d_edges := d_edges d @ [projectSavedGraphEdge e]\<rparr>)"
  "stored_document d \<Longrightarrow> stored_document (d\<lparr>d_origins := d_origins d @ [projectSavedGraphOrigin x]\<rparr>)"
  "stored_document d \<Longrightarrow> stored_document (d\<lparr>d_agents := d_agents d @ [projectSavedGraphAgent a]\<rparr>)"
  by (auto simp: stored_document_def norm_simps)

lemma stored_map:
  "stored_document d \<Longrightarrow> (\<And>x. projectSavedGraphNode x = x \<Longrightarrow> projectSavedGraphNode (f x) = f x)
     \<Longrightarrow> stored_document (d\<lparr>d_nodes := map f (d_nodes d)\<rparr>)"
  "stored_document d \<Longrightarrow> (\<And>x. projectSavedGraphEdge x = x \<Longrightarrow> projectSavedGraphEdge (g x) = g x)
     \<Longrightarrow> stored_document (d\<lparr>d_edges := map g (d_edges d)\<rparr>)"
  "stored_document d \<Longrightarrow> (\<And>x. projectSavedGraphOrigin x = x \<Longrightarrow> projectSavedGraphOrigin (h x) = h x)
     \<Longrightarrow> stored_document (d\<lparr>d_origins := map h (d_origins d)\<rparr>)"
  "stored_document d \<Longrightarrow> (\<And>x. projectSavedGraphAgent x = x \<Longrightarrow> projectSavedGraphAgent (k x) = k x)
     \<Longrightarrow> stored_document (d\<lparr>d_agents := map k (d_agents d)\<rparr>)"
  by (auto simp: stored_document_def)

text \<open>The command's change of one node keeps the node in stored form, on every branch.\<close>

lemma updateNode_stored_pure:
  assumes "updateNode d i (\<lambda>n. Inr (f n)) = Inr d'" and "stored_document d"
    and "\<And>n. projectSavedGraphNode n = n \<Longrightarrow> projectSavedGraphNode (f n) = f n"
  shows "stored_document d'"
  using updateNode_stored [OF assms(1,2)] assms(3) by auto

lemma apply_stored:
  assumes "applyGraphCommandNormalized d c = Inr d'" and "stored_document d"
  shows "stored_document d'"
proof (cases c)
  case (ReplaceDocument x)
  with assms show ?thesis by (auto simp: apply_defs stored_normalize simp flip: normalize_def)
next
  case (MoveNodes ps)
  with assms show ?thesis
    by (auto simp: apply_defs bind_result_Inr_iff stored_node_iff intro!: stored_map split: option.split)
next
  case (ReorderInputPlug n port p i)
  with assms show ?thesis
    by (auto simp: apply_defs elim!: updateNode_stored) (auto simp: bind_result_Inr_iff stored_node_iff)
qed (use assms in \<open>auto simp: apply_defs bind_result_Inr_iff Let_def merge_stored norm_simps
    intro!: stored_edit stored_map elim!: updateNode_stored_pure split: if_splits\<close>,
    (auto simp: stored_node_iff)?)

text \<open>A command that renames carries a trimmed name, the form the rename dialog submits.\<close>

fun trimmed_command :: "graph_command \<Rightarrow> bool" where
  "trimmed_command (RenameGraph name) = (js_trim name = name)"
| "trimmed_command _ = True"

lemma updateNode_name: "updateNode d i f = Inr d' \<Longrightarrow> d_name d' = d_name d"
  by (elim updateNode_InrE) simp

lemma apply_name:
  "applyGraphCommandNormalized d c = Inr d' \<Longrightarrow> trimmed_command c \<Longrightarrow> js_trim (d_name d) = d_name d
     \<Longrightarrow> js_trim (d_name d') = d_name d'"
  by (cases c) (auto simp: apply_defs bind_result_Inr_iff Let_def updateNode_name normalize_eq
      simp flip: normalize_def split: if_splits)

lemma normalize_fixed:
  "stored_document d \<Longrightarrow> js_trim (d_name d) = d_name d \<Longrightarrow> normalize d = d"
  by (simp add: normalize_stored)

lemma applyGraphCommand_eq: "applyGraphCommand d c = applyGraphCommandNormalized (normalize d) c"
  by (simp add: applyGraphCommand_def normalize_def)

text \<open>A sequence of commands, each applied to the document the one before it left.\<close>

fun run_commands :: "('d \<Rightarrow> 'c \<Rightarrow> 'e + 'd) \<Rightarrow> 'd \<Rightarrow> 'c list \<Rightarrow> 'e + 'd" where
  "run_commands step d [] = Inr d"
| "run_commands step d (c # cs) = bind_result (step d c) (\<lambda>d'. run_commands step d' cs)"

lemma run_commands_append:
  "run_commands step d (cs @ cs') = bind_result (run_commands step d cs) (\<lambda>d'. run_commands step d' cs')"
  by (induction cs arbitrary: d) (auto simp: bind_result_def split: sum.split)

lemma run_commands_invariant:
  assumes "run_commands step d cs = Inr d'" and "I d" and "\<forall>c\<in>set cs. ok c"
    and "\<And>d c d'. step d c = Inr d' \<Longrightarrow> ok c \<Longrightarrow> I d \<Longrightarrow> I d'"
  shows "I d'"
  using assms(1,2,3)
  by (induction cs arbitrary: d) (auto simp: bind_result_Inr_iff intro: assms(4))

lemma run_normalized_agree:
  assumes "stored_document d" and "js_trim (d_name d) = d_name d" and "\<forall>c\<in>set cs. trimmed_command c"
  shows "run_commands applyGraphCommand d cs = run_commands applyGraphCommandNormalized d cs"
  using assms
proof (induction cs arbitrary: d)
  case (Cons c cs)
  have eq: "applyGraphCommand d c = applyGraphCommandNormalized d c"
    using Cons.prems by (simp add: applyGraphCommand_eq normalize_fixed)
  show ?case
  proof (cases "applyGraphCommandNormalized d c")
    case (Inl e)
    with eq show ?thesis by simp
  next
    case (Inr d')
    from Inr Cons.prems have "stored_document d'" "js_trim (d_name d') = d_name d'"
      by (auto intro: apply_stored apply_name)
    with Cons Inr eq show ?thesis by simp
  qed
qed simp

subsection \<open>References inside the document\<close>

text \<open>
  An edge or origin is attached to a node of the document and, when it names a plug, to a
  plug that node has. A closed document has no dangling edge and no dangling origin.
\<close>

definition attached :: "saved_graph_node list \<Rightarrow> string \<Rightarrow> string nullish \<Rightarrow> bool" where
  "attached nodes nodeId plug \<longleftrightarrow>
     (\<exists>n\<in>set nodes. n_id n = nodeId
        \<and> (case plug of Defined p \<Rightarrow> p \<in> plug_id ` set (n_input_plugs n) | _ \<Rightarrow> True))"

definition closed_document :: "authored_graph_document \<Rightarrow> bool" where
  "closed_document d \<longleftrightarrow>
     (\<forall>e\<in>set (d_edges d). e_from_node e \<in> n_id ` set (d_nodes d)
        \<and> attached (d_nodes d) (e_to_node e) (e_to_plug e))
     \<and> (\<forall>x\<in>set (d_origins d). attached (d_nodes d) (o_to_node x) (o_to_plug x))"

text \<open>
  What a command that attaches something has to name; every other command is unrestricted.
\<close>

fun attaching_command :: "authored_graph_document \<Rightarrow> graph_command \<Rightarrow> bool" where
  "attaching_command d (AddEdge e) =
     (e_from_node e \<in> n_id ` set (d_nodes d) \<and> attached (d_nodes d) (e_to_node e) (e_to_plug e))"
| "attaching_command d (UpdateEdge i u) =
     (\<forall>e\<in>set (d_edges d). e_id e = i \<longrightarrow>
        attached (d_nodes d) (e_to_node e) (own (eu_to_plug u) (e_to_plug e)))"
| "attaching_command d (AddOrigin x) = attached (d_nodes d) (o_to_node x) (o_to_plug x)"
| "attaching_command d (UpdateOrigin i u) =
     (\<forall>x\<in>set (d_origins d). o_id x = i \<longrightarrow>
        attached (d_nodes d) (own (ou_to_node u) (o_to_node x)) (own (ou_to_plug u) (o_to_plug x)))"
| "attaching_command d (ReplaceDocument x) = closed_document x"
| "attaching_command d _ = True"

lemma attached_or_null [simp]: "attached ns i (or_null p) = attached ns i p"
  by (cases p) (simp_all add: attached_def)

lemma attached_own [simp]:
  "attached ns i (own (map_option or_null u) p) = attached ns i (own u p)"
  by (cases u) simp_all

lemma attached_node: "attached ns i p \<Longrightarrow> i \<in> n_id ` set ns"
  by (auto simp: attached_def)

lemma attached_mono:
  assumes "attached ns i p"
    and "\<And>n. n \<in> set ns \<Longrightarrow> n_id n = i \<Longrightarrow>
      \<exists>n'\<in>set ns'. n_id n' = i \<and> plug_id ` set (n_input_plugs n) \<subseteq> plug_id ` set (n_input_plugs n')"
  shows "attached ns' i p"
proof -
  from assms(1) obtain n where n: "n \<in> set ns" "n_id n = i"
    "case p of Defined q \<Rightarrow> q \<in> plug_id ` set (n_input_plugs n) | _ \<Rightarrow> True"
    by (auto simp: attached_def)
  from assms(2) [OF n(1,2)] obtain n' where n': "n' \<in> set ns'" "n_id n' = i"
    "plug_id ` set (n_input_plugs n) \<subseteq> plug_id ` set (n_input_plugs n')" by blast
  have "case p of Defined q \<Rightarrow> q \<in> plug_id ` set (n_input_plugs n') | _ \<Rightarrow> True"
    using n(3) n'(3) by (cases p) auto
  with n'(1,2) show ?thesis by (auto simp: attached_def)
qed

lemma attached_keep_plugs:
  assumes "list_all2 (\<lambda>n n'. n_id n' = n_id n \<and> plug_id ` set (n_input_plugs n) \<subseteq> plug_id ` set (n_input_plugs n')) ns ns'"
    and "attached ns i p"
  shows "attached ns' i p"
proof (rule attached_mono [OF assms(2)])
  fix n assume "n \<in> set ns" "n_id n = i"
  with assms(1) show "\<exists>n'\<in>set ns'. n_id n' = i \<and> plug_id ` set (n_input_plugs n) \<subseteq> plug_id ` set (n_input_plugs n')"
    by (induction rule: list_all2_induct) auto
qed

lemma attached_project [simp]: "attached (map projectSavedGraphNode ns) i p = attached ns i p"
  by (cases p) (simp_all add: attached_def projectSavedGraphNode_def)

lemma attached_filter:
  "attached (filter (\<lambda>n. n_id n \<notin> S) ns) i p \<longleftrightarrow> i \<notin> S \<and> attached ns i p"
  by (cases p) (auto simp: attached_def)

lemma closed_normalize: "closed_document (normalize d) = closed_document d"
  by (simp add: closed_document_def normalize_eq image_image key_simps)
    (simp add: projectSavedGraphEdge_def projectSavedGraphOrigin_def)

lemma closed_keep_plugs:
  assumes "closed_document d"
    and "list_all2 (\<lambda>n n'. n_id n' = n_id n \<and> plug_id ` set (n_input_plugs n) \<subseteq> plug_id ` set (n_input_plugs n')) (d_nodes d) ns"
  shows "closed_document (d\<lparr>d_nodes := ns\<rparr>)"
proof -
  from assms(2) have "n_id ` set (d_nodes d) = n_id ` set ns"
    by (induction rule: list_all2_induct) auto
  with assms(1) show ?thesis
    by (auto simp: closed_document_def intro: attached_keep_plugs [OF assms(2)])
qed

lemma updateNode_closed:
  assumes "updateNode d i f = Inr d'" and "closed_document d"
    and "\<And>n n'. f n = Inr n' \<Longrightarrow> n_id n' = n_id n \<and> plug_id ` set (n_input_plugs n) \<subseteq> plug_id ` set (n_input_plugs n')"
  shows "closed_document d'"
proof -
  from assms(1) obtain ns where ns: "d' = d\<lparr>d_nodes := ns\<rparr>"
    "list_all2 (\<lambda>n n'. (if n_id n = i then f n else Inr n) = Inr n') (d_nodes d) ns"
    by (rule updateNode_InrE)
  from ns(2) have "list_all2 (\<lambda>n n'. n_id n' = n_id n
      \<and> plug_id ` set (n_input_plugs n) \<subseteq> plug_id ` set (n_input_plugs n')) (d_nodes d) ns"
    by (rule list_all2_mono) (use assms(3) in \<open>auto split: if_splits\<close>)
  from closed_keep_plugs [OF assms(2) this] show ?thesis by (simp add: ns(1))
qed

text \<open>
  The two commands that take plugs away from a node also drop the edges and origins attached
  to a plug that is gone. Both are the change \<open>set_plugs\<close> followed by the same pruning.
\<close>

lemma closed_set_plugs:
  assumes "closed_document d"
    and "ns = map (\<lambda>n. if n_id n = i then f n else n) (d_nodes d)"
    and "\<And>n. n_id (f n) = n_id n"
    and keep: "\<And>n p. n \<in> set (d_nodes d) \<Longrightarrow> n_id n = i \<Longrightarrow> kept p
      \<Longrightarrow> p \<in> plug_id ` set (n_input_plugs n) \<Longrightarrow> p \<in> plug_id ` set (n_input_plugs (f n))"
  shows "closed_document (d\<lparr>d_nodes := ns,
      d_edges := filter (\<lambda>e. e_to_node e = i \<longrightarrow> (case e_to_plug e of Defined p \<Rightarrow> kept p | _ \<Rightarrow> True)) (d_edges d),
      d_origins := filter (\<lambda>x. o_to_node x = i \<longrightarrow> (case o_to_plug x of Defined p \<Rightarrow> kept p | _ \<Rightarrow> True)) (d_origins d)\<rparr>)"
proof -
  have ids: "n_id ` set ns = n_id ` set (d_nodes d)"
  proof -
    have "map n_id ns = map n_id (d_nodes d)" using assms(3) by (simp add: assms(2))
    then show ?thesis by (metis set_map)
  qed
  have att: "attached ns j q"
    if "attached (d_nodes d) j q" "j \<noteq> i \<or> (case q of Defined p \<Rightarrow> kept p | _ \<Rightarrow> True)" for j q
  proof -
    from that(1) obtain n where n: "n \<in> set (d_nodes d)" "n_id n = j"
      "case q of Defined p \<Rightarrow> p \<in> plug_id ` set (n_input_plugs n) | _ \<Rightarrow> True"
      by (auto simp: attached_def)
    let ?n = "if n_id n = i then f n else n"
    have "?n \<in> set ns" using n(1) by (simp add: assms(2))
    moreover have "n_id ?n = j" using n(2) assms(3) by simp
    moreover have "case q of Defined p \<Rightarrow> p \<in> plug_id ` set (n_input_plugs ?n) | _ \<Rightarrow> True"
      using n that(2) keep [OF n(1)] by (cases q) auto
    ultimately show ?thesis unfolding attached_def by blast
  qed
  show ?thesis using assms(1) ids by (auto simp: closed_document_def intro: att)
qed

lemma plug_retained_eq: "plug_retained R p = (case p of Defined q \<Rightarrow> q \<in> R | _ \<Rightarrow> True)"
  by (simp add: plug_retained_def split: nullish.split)

lemma not_plug_eq: "p \<noteq> Defined q \<longleftrightarrow> (case p of Defined r \<Rightarrow> r \<noteq> q | _ \<Rightarrow> True)"
  by (simp split: nullish.split)

lemma apply_closed_remove_plug:
  assumes "closed_document d" and "apply_remove_input_plug d i p = Inr d'"
  shows "closed_document d'"
  using assms(2) closed_set_plugs [OF assms(1) refl, where i = i and kept = "\<lambda>r. r \<noteq> p"
      and f = "\<lambda>n. n\<lparr>n_input_plugs := filter (\<lambda>q. plug_id q \<noteq> p) (n_input_plugs n)\<rparr>"]
  by (auto simp: apply_remove_input_plug_def updateNode_pure not_plug_eq split: if_splits)

lemma apply_closed_set_plugs:
  assumes "closed_document d" and "apply_update_node_configuration_and_input_plugs d i c ps = Inr d'"
  shows "closed_document d'"
  using assms(2) closed_set_plugs [OF assms(1) refl, where i = i and kept = "\<lambda>q. q \<in> plug_id ` set ps"
      and f = "\<lambda>n. n\<lparr>n_config := Defined c, n_input_plugs := ps\<rparr>"]
  by (auto simp: apply_update_node_configuration_and_input_plugs_def Let_def updateNode_pure
      plug_retained_eq split: if_splits)

subsection \<open>Reordering plugs\<close>

lemma find_index_Some:
  "find_index P xs = Some k \<Longrightarrow> k < length xs \<and> P (xs ! k) \<and> (\<forall>j<k. \<not> P (xs ! j))"
proof (induction xs arbitrary: k)
  case (Cons x xs)
  show ?case
  proof (cases "P x")
    case False
    with Cons.prems obtain k' where k': "find_index P xs = Some k'" "k = Suc k'" by auto
    with Cons.IH [OF k'(1)] False show ?thesis by (auto simp: nth_Cons split: nat.split)
  qed (use Cons.prems in simp)
qed simp

lemma find_index_None: "find_index P xs = None \<longleftrightarrow> (\<forall>x\<in>set xs. \<not> P x)"
  by (induction xs) auto

lemma reorder_plugs_cases:
  "reorder_plugs plugs port p i =
     (case find_index (\<lambda>plug. plug_id plug = p \<and> plug_port plug = port) plugs of
        None \<Rightarrow> Inl (MissingInputPlug p)
      | Some k \<Rightarrow>
          (let rest = take k plugs @ drop (Suc k) plugs;
               place = nat (max 0 (min i (int (length plugs) - 1)))
           in Inr (take place rest @ (plugs ! k) # drop place rest)))"
proof (cases "find_index (\<lambda>plug. plug_id plug = p \<and> plug_port plug = port) plugs")
  case (Some k)
  then have k: "k < length plugs" using find_index_Some by blast
  then have "take 1 (drop k plugs) = [plugs ! k]"
    by (simp add: take_Suc_conv_app_nth flip: Cons_nth_drop_Suc)
  with Some k show ?thesis
    by (auto simp: reorder_plugs_def Let_def of_nat_diff)
qed (simp add: reorder_plugs_def)

lemma reorder_plugs_perm:
  assumes "reorder_plugs plugs port p i = Inr plugs'"
  shows "mset plugs' = mset plugs"
proof -
  from assms obtain k where k: "find_index (\<lambda>plug. plug_id plug = p \<and> plug_port plug = port) plugs = Some k"
    by (auto simp: reorder_plugs_cases split: option.splits)
  let ?rest = "take k plugs @ drop (Suc k) plugs"
  from k assms obtain m where "plugs' = take m ?rest @ (plugs ! k) # drop m ?rest"
    by (auto simp: reorder_plugs_cases Let_def)
  then have "mset plugs' = add_mset (plugs ! k) (mset (take m ?rest @ drop m ?rest))" by simp
  also have "\<dots> = add_mset (plugs ! k) (mset ?rest)" by (simp only: append_take_drop_id)
  also have "\<dots> = mset (take k plugs @ (plugs ! k) # drop (Suc k) plugs)" by simp
  also have "\<dots> = mset plugs" using find_index_Some [OF k] by (simp add: id_take_nth_drop [symmetric])
  finally show ?thesis .
qed

lemma reorder_plugs_set: "reorder_plugs plugs port p i = Inr plugs' \<Longrightarrow> set plugs' = set plugs"
  by (metis reorder_plugs_perm set_mset_mset)

lemma apply_closed:
  assumes "applyGraphCommandNormalized d c = Inr d'" and "attaching_command d c" and "closed_document d"
  shows "closed_document d'"
proof (cases c)
  case (ReplaceDocument x)
  with assms show ?thesis
    by (auto simp: apply_defs closed_normalize simp flip: normalize_def)
next
  case (MoveNodes ps)
  with assms show ?thesis
    by (auto simp: apply_defs bind_result_Inr_iff list_all2_map2 list_all2_same split: option.split
        intro!: closed_keep_plugs)
next
  case (ReorderInputPlug n port p i)
  with assms show ?thesis
    by (auto simp: apply_defs elim!: updateNode_closed) (auto simp: bind_result_Inr_iff reorder_plugs_set)
next
  case (RemoveInputPlug n p)
  with assms show ?thesis by (auto intro: apply_closed_remove_plug)
next
  case (UpdateNodeConfigurationAndInputPlugs n c ps)
  with assms show ?thesis by (auto intro: apply_closed_set_plugs)
next
  case (AddNode n)
  with assms show ?thesis
    by (auto simp: apply_defs closed_document_def attached_def split: if_splits)
next
  case (RemoveNodes ids)
  have kept: "i \<in> n_id ` {n \<in> set ns. n_id n \<notin> S} \<longleftrightarrow> i \<notin> S \<and> i \<in> n_id ` set ns" for i S ns
    by blast
  from RemoveNodes assms show ?thesis
    by (auto simp: apply_defs closed_document_def attached_filter kept)
next
  case (UpdateEdge i u)
  with assms show ?thesis
    by (auto simp: apply_defs closed_document_def bind_result_Inr_iff merge_edge_def projectSavedGraphEdgeUpdate_def)
next
  case (UpdateOrigin i u)
  with assms show ?thesis
    by (auto simp: apply_defs closed_document_def bind_result_Inr_iff merge_origin_def projectSavedGraphOriginUpdate_def)
next
  case (AddEdge e)
  with assms show ?thesis
    by (auto simp: apply_defs closed_document_def projectSavedGraphEdge_def split: if_splits)
next
  case (AddOrigin e)
  with assms show ?thesis
    by (auto simp: apply_defs closed_document_def projectSavedGraphOrigin_def split: if_splits)
next
  case (RenameGraph e)
  with assms show ?thesis by (auto simp: apply_defs closed_document_def)
next
  case (RemoveEdges e)
  with assms show ?thesis by (auto simp: apply_defs closed_document_def)
next
  case (RemoveOrigins e)
  with assms show ?thesis by (auto simp: apply_defs closed_document_def)
next
  case (AddAgent e)
  with assms show ?thesis by (auto simp: apply_defs closed_document_def split: if_splits)
next
  case (ConfigureAgent e)
  with assms show ?thesis by (auto simp: apply_defs closed_document_def Let_def bind_result_Inr_iff)
next
  case (RemoveAgent e)
  with assms show ?thesis by (auto simp: apply_defs closed_document_def)
qed (use assms in \<open>auto simp: apply_defs elim!: updateNode_closed\<close>)

subsection \<open>What each command does\<close>

text \<open>Look-ups by id in the lists of the document.\<close>

abbreviation node_at :: "authored_graph_document \<Rightarrow> string \<Rightarrow> saved_graph_node option" where
  "node_at d i \<equiv> find (\<lambda>n. n_id n = i) (d_nodes d)"

abbreviation edge_at :: "authored_graph_document \<Rightarrow> string \<Rightarrow> saved_graph_edge option" where
  "edge_at d i \<equiv> find (\<lambda>e. e_id e = i) (d_edges d)"

lemma find_map_key:
  assumes "\<And>x. key (f x) = key x"
  shows "find (\<lambda>x. key x = i) (map (\<lambda>x. if key x = j then f x else x) xs) =
    (case find (\<lambda>x. key x = i) xs of None \<Rightarrow> None | Some x \<Rightarrow> Some (if i = j then f x else x))"
  by (induction xs) (auto simp: assms)

lemma updateNode_at:
  assumes "updateNode d j (\<lambda>n. Inr (f n)) = Inr d'" and "\<And>n. n_id (f n) = n_id n"
  shows "node_at d' i = map_option (\<lambda>n. if i = j then f n else n) (node_at d i)"
  using assms(1) find_map_key [of n_id f i j "d_nodes d", OF assms(2)]
  by (auto simp: updateNode_pure split: if_splits option.split)

text \<open>
  A concrete document for the witnesses: a source node, a merge node with two plugs, an edge
  and an origin into the plugs.
\<close>

definition demo_point :: point where
  "demo_point = \<lparr>pt_x = Finite 0, pt_y = Finite 0\<rparr>"

definition demo_node :: "string \<Rightarrow> input_plug list \<Rightarrow> saved_graph_node" where
  "demo_node i plugs = \<lparr>n_id = i, n_kind = Builtin, n_operator_id = ''op'', n_operator_version = 1,
     n_config = Undefined, n_artifact_type_bindings = [], n_input_plugs = plugs, n_layout = Undefined,
     n_position = demo_point\<rparr>"

definition demo_edge :: "string \<Rightarrow> string \<Rightarrow> string \<Rightarrow> string nullish \<Rightarrow> saved_graph_edge" where
  "demo_edge i a b plug = \<lparr>e_id = i, e_from_node = a, e_from_port = ''out'', e_to_node = b,
     e_to_port = ''in'', e_to_plug = plug, e_enabled = True, e_collection_mode = Direct,
     e_projection = Undefined, e_conversion_path = [], e_route_offset = Undefined\<rparr>"

definition demo_origin :: "string \<Rightarrow> string \<Rightarrow> string nullish \<Rightarrow> saved_graph_origin" where
  "demo_origin i b plug = \<lparr>o_id = i, o_to_node = b, o_to_port = ''in'', o_to_plug = plug,
     o_value = JNull, o_collection_mode = Direct, o_conversion_path = []\<rparr>"

definition demo_plug :: "string \<Rightarrow> input_plug" where
  "demo_plug p = \<lparr>plug_id = p, plug_port = ''in''\<rparr>"

definition demo_document :: authored_graph_document where
  "demo_document =
     \<lparr>d_name = '' flow '',
      d_nodes = [demo_node ''a'' [], demo_node ''m'' [demo_plug ''p'', demo_plug ''q''], demo_node ''z'' []],
      d_edges = [demo_edge ''e'' ''a'' ''m'' (Defined ''p''), demo_edge ''f'' ''m'' ''z'' Null],
      d_origins = [demo_origin ''o'' ''m'' (Defined ''q'')],
      d_agents = []\<rparr>"

lemmas demo_defs = demo_document_def demo_node_def demo_edge_def demo_origin_def demo_plug_def
  demo_point_def

lemma demo_closed: "closed_document demo_document" and demo_wf: "wf_document demo_document"
  by (simp_all add: closed_document_def wf_document_def attached_def demo_defs)

text \<open>When a command throws, and what: the guards of the transition read as a specification.\<close>

abbreviation missing_node :: "authored_graph_document \<Rightarrow> string \<Rightarrow> graph_error option" where
  "missing_node d i \<equiv> (if i \<in> n_id ` set (d_nodes d) then None else Some (MissingNode i))"

fun command_error :: "authored_graph_document \<Rightarrow> graph_command \<Rightarrow> graph_error option" where
  "command_error d (AddNode n) = (if n_id n \<in> n_id ` set (d_nodes d) then Some (DuplicateNode (n_id n)) else None)"
| "command_error d (AddEdge e) = (if e_id e \<in> e_id ` set (d_edges d) then Some (DuplicateEdge (e_id e)) else None)"
| "command_error d (AddOrigin x) = (if o_id x \<in> o_id ` set (d_origins d) then Some (DuplicateOrigin (o_id x)) else None)"
| "command_error d (AddAgent a) = (if a_id a \<in> a_id ` set (d_agents d) then Some (DuplicateAgent (a_id a)) else None)"
| "command_error d (UpdateEdge i u) = (if i \<in> e_id ` set (d_edges d) then None else Some (MissingEdge i))"
| "command_error d (UpdateOrigin i u) = (if i \<in> o_id ` set (d_origins d) then None else Some (MissingOrigin i))"
| "command_error d (ConfigureAgent a) = (if a_id a \<in> a_id ` set (d_agents d) then None else Some (MissingAgent (a_id a)))"
| "command_error d (MoveNodes ps) = map_option MissingNode (find (\<lambda>i. i \<notin> n_id ` set (d_nodes d)) (map fst ps))"
| "command_error d (UpdateNodeConfiguration i f v) = missing_node d i"
| "command_error d (UpdateNodeLayout i l) = missing_node d i"
| "command_error d (AddInputPlug i p) = missing_node d i"
| "command_error d (RemoveInputPlug i p) = missing_node d i"
| "command_error d (UpdateNodeConfigurationAndInputPlugs i c ps) = missing_node d i"
| "command_error d (BindArtifactType i v t) = missing_node d i"
| "command_error d (ResetArtifactTypeBinding i v) = missing_node d i"
| "command_error d (ReorderInputPlug i port p k) =
     (if i \<notin> n_id ` set (d_nodes d) then Some (MissingNode i)
      else if \<exists>n\<in>set (d_nodes d). n_id n = i
             \<and> \<not> (\<exists>plug\<in>set (n_input_plugs n). plug_id plug = p \<and> plug_port plug = port)
      then Some (MissingInputPlug p) else None)"
| "command_error d _ = None"

abbreviation thrown :: "'a result \<Rightarrow> graph_error option" where
  "thrown r \<equiv> (case r of Inl e \<Rightarrow> Some e | Inr _ \<Rightarrow> None)"

lemma check_positions_thrown:
  "thrown (check_positions d ps) = map_option MissingNode (find (\<lambda>i. i \<notin> n_id ` set (d_nodes d)) (map fst ps))"
proof (induction d ps rule: check_positions.induct)
  case (2 d i p ps)
  show ?case
  proof (cases "\<exists>n\<in>set (d_nodes d). n_id n = i")
    case True
    then obtain n where "nodeOrThrow d i = Inr n" using nodeOrThrow_present by blast
    with True 2 show ?thesis by (auto simp: image_iff)
  next
    case False
    then have "nodeOrThrow d i = Inl (MissingNode i)" by (intro nodeOrThrow_missing) blast
    with False show ?thesis by auto
  qed
qed simp

lemma thrown_bind: "(\<And>v. \<exists>w. f v = Inr w) \<Longrightarrow> thrown (bind_result r f) = thrown r"
  by (cases r) (auto split: sum.split, metis Inl_Inr_False)

lemma thrown_lookups:
  "thrown (edgeOrThrow d i) = (if i \<in> e_id ` set (d_edges d) then None else Some (MissingEdge i))"
  "thrown (originOrThrow d i) = (if i \<in> o_id ` set (d_origins d) then None else Some (MissingOrigin i))"
  "thrown (agentOrThrow d i) = (if i \<in> a_id ` set (d_agents d) then None else Some (MissingAgent i))"
  by (auto simp: edgeOrThrow_def originOrThrow_def agentOrThrow_def find_None_iff find_Some_iff
      split: option.split)

lemma thrown_updateNode: "thrown (updateNode d i (\<lambda>n. Inr (f n))) = missing_node d i"
  by (auto simp: updateNode_pure)

lemma thrown_map_result:
  assumes "\<And>x. x \<in> set xs \<Longrightarrow> thrown (f x) = (if bad x then Some err else None)"
  shows "thrown (map_result f xs) = (if \<exists>x\<in>set xs. bad x then Some err else None)"
  using assms
proof (induction xs)
  case (Cons x xs)
  from Cons.prems [of x] have "thrown (f x) = (if bad x then Some err else None)" by simp
  with Cons show ?case by (cases "f x"; cases "map_result f xs") (auto split: if_splits)
qed simp

lemma thrown_reorder:
  "thrown (reorder_plugs plugs port p k) =
     (if \<exists>plug\<in>set plugs. plug_id plug = p \<and> plug_port plug = port then None else Some (MissingInputPlug p))"
proof (cases "find_index (\<lambda>plug. plug_id plug = p \<and> plug_port plug = port) plugs")
  case None
  then have "\<not> (\<exists>plug\<in>set plugs. plug_id plug = p \<and> plug_port plug = port)"
    by (simp add: find_index_None)
  with None show ?thesis by (simp add: reorder_plugs_cases)
next
  case (Some j)
  from find_index_Some [OF this] have "\<exists>plug\<in>set plugs. plug_id plug = p \<and> plug_port plug = port"
    by auto
  with Some show ?thesis by (simp add: reorder_plugs_cases Let_def)
qed

lemma thrown_reorder_command:
  "thrown (apply_reorder_input_plug d i port p k) = command_error d (ReorderInputPlug i port p k)"
proof (cases "i \<in> n_id ` set (d_nodes d)")
  case True
  let ?bad = "\<lambda>n. n_id n = i \<and> \<not> (\<exists>plug\<in>set (n_input_plugs n). plug_id plug = p \<and> plug_port plug = port)"
  let ?f = "\<lambda>n. if n_id n = i then bind_result (reorder_plugs (n_input_plugs n) port p k)
      (\<lambda>plugs. Inr (n\<lparr>n_input_plugs := plugs\<rparr>)) else Inr n"
  have "thrown (map_result ?f (d_nodes d)) =
      (if \<exists>n\<in>set (d_nodes d). ?bad n then Some (MissingInputPlug p) else None)"
    by (rule thrown_map_result) (simp add: thrown_bind thrown_reorder)
  moreover have "\<exists>n\<in>set (d_nodes d). n_id n = i" using True by auto
  ultimately show ?thesis using True
    by (simp add: apply_reorder_input_plug_def updateNode_eq thrown_bind)
next
  case False
  then show ?thesis by (auto simp: apply_reorder_input_plug_def updateNode_eq)
qed

lemma thrown_apply: "thrown (applyGraphCommandNormalized d c) = command_error d c"
proof (cases c)
  case (ReorderInputPlug i port p k)
  then show ?thesis by (simp add: thrown_reorder_command del: command_error.simps)
next
  case (MoveNodes ps)
  then show ?thesis by (simp add: apply_defs thrown_bind check_positions_thrown)
qed (auto simp: apply_defs thrown_bind thrown_lookups thrown_updateNode Let_def intro: rev_image_eqI)

subsection \<open>Undoing an addition\<close>

text \<open>
  The command that takes back what an adding command put in, and when it is one: the
  identifier is new, and a node command names a node of the document.
\<close>

fun undo_command :: "graph_command \<Rightarrow> graph_command option" where
  "undo_command (AddNode n) = Some (RemoveNodes [n_id n])"
| "undo_command (AddEdge e) = Some (RemoveEdges [e_id e])"
| "undo_command (AddOrigin x) = Some (RemoveOrigins [o_id x])"
| "undo_command (AddAgent a) = Some (RemoveAgent (a_id a))"
| "undo_command (AddInputPlug i p) = Some (RemoveInputPlug i (plug_id p))"
| "undo_command _ = None"

definition plug_unused :: "authored_graph_document \<Rightarrow> string \<Rightarrow> string \<Rightarrow> bool" where
  "plug_unused d i p \<longleftrightarrow> (\<forall>n\<in>set (d_nodes d). n_id n = i \<longrightarrow> p \<notin> plug_id ` set (n_input_plugs n))"

fun fresh_command :: "authored_graph_document \<Rightarrow> graph_command \<Rightarrow> bool" where
  "fresh_command d (AddInputPlug i p) = plug_unused d i (plug_id p)"
| "fresh_command d _ = True"

lemma closed_edge_elsewhere:
  assumes "closed_document d" and "i \<notin> n_id ` set (d_nodes d)"
  shows "filter (\<lambda>e. e_from_node e \<noteq> i \<and> e_to_node e \<noteq> i) (d_edges d) = d_edges d"
    and "filter (\<lambda>x. o_to_node x \<noteq> i) (d_origins d) = d_origins d"
  using assms by (auto simp: closed_document_def filter_id_conv dest: attached_node)

lemma closed_plug_elsewhere:
  assumes "closed_document d" and "plug_unused d i p"
  shows "filter (\<lambda>e. e_to_node e \<noteq> i \<or> e_to_plug e \<noteq> Defined p) (d_edges d) = d_edges d"
    and "filter (\<lambda>x. o_to_node x \<noteq> i \<or> o_to_plug x \<noteq> Defined p) (d_origins d) = d_origins d"
  using assms by (force simp: closed_document_def plug_unused_def attached_def filter_id_conv)+

lemma filter_key_snoc:
  assumes "\<forall>y\<in>set xs. key y \<noteq> k" and "key x = k"
  shows "filter (\<lambda>y. key y \<noteq> k) (xs @ [x]) = xs"
  using assms by (simp add: filter_id_conv)

lemma undo_plug:
  assumes "apply_add_input_plug d i p = Inr d'" and "closed_document d" and "plug_unused d i (plug_id p)"
  shows "apply_remove_input_plug d' i (plug_id p) = Inr d"
proof -
  let ?add = "\<lambda>n. n\<lparr>n_input_plugs := n_input_plugs n @ [p]\<rparr>"
  let ?del = "\<lambda>n. n\<lparr>n_input_plugs := filter (\<lambda>q. plug_id q \<noteq> plug_id p) (n_input_plugs n)\<rparr>"
  from assms(1) have d': "d' = d\<lparr>d_nodes := map (\<lambda>n. if n_id n = i then ?add n else n) (d_nodes d)\<rparr>"
    and i: "\<exists>n\<in>set (d_nodes d). n_id n = i"
    by (auto simp: apply_add_input_plug_def updateNode_pure split: if_splits)
  have "map (\<lambda>n. if n_id n = i then ?del n else n) (d_nodes d') = d_nodes d"
  proof -
    have "(if n_id m = i then ?del m else m) = n"
      if "n \<in> set (d_nodes d)" "m = (if n_id n = i then ?add n else n)" for n m
    proof (cases "n_id n = i")
      case True
      with that(1) assms(3) have "filter (\<lambda>q. plug_id q \<noteq> plug_id p) (n_input_plugs n) = n_input_plugs n"
        unfolding plug_unused_def filter_id_conv by (metis imageI)
      with True that(2) show ?thesis by simp
    qed (simp add: that(2))
    then show ?thesis unfolding d' by (auto simp: o_def intro!: map_idI)
  qed
  moreover have "\<exists>n\<in>set (d_nodes d'). n_id n = i"
  proof -
    have "map n_id (d_nodes d') = map n_id (d_nodes d)" by (simp add: d')
    then have "n_id ` set (d_nodes d') = n_id ` set (d_nodes d)" by (metis set_map)
    with i show ?thesis by (metis imageE imageI)
  qed
  ultimately have "updateNode d' i (\<lambda>n. Inr (?del n)) = Inr d"
    by (simp add: updateNode_pure) (simp add: d')
  with closed_plug_elsewhere [OF assms(2,3)] show ?thesis
    by (simp add: apply_remove_input_plug_def)
qed

lemma undo_apply:
  assumes "applyGraphCommandNormalized d c = Inr d'" and "undo_command c = Some u"
    and "closed_document d" and "fresh_command d c"
  shows "applyGraphCommandNormalized d' u = Inr d"
proof (cases c)
  case (AddNode n)
  with assms(1) have new: "n_id n \<notin> n_id ` set (d_nodes d)" by (auto simp: apply_defs split: if_splits)
  then have "\<forall>m\<in>set (d_nodes d). n_id m \<noteq> n_id n" by (metis imageI)
  with AddNode assms new closed_edge_elsewhere [OF assms(3) new] show ?thesis
    by (auto simp: apply_defs filter_id_conv key_simps split: if_splits)
next
  case (AddInputPlug i p)
  with assms undo_plug show ?thesis by auto
qed (use assms in \<open>auto simp: apply_defs filter_id_conv key_simps split: if_splits\<close>)

lemma reorder_plugs_shape:
  assumes "reorder_plugs plugs port p k = Inr plugs'"
  shows "\<exists>pre plug post. plugs = pre @ plug # post \<and> (plug_id plug = p \<and> plug_port plug = port)
     \<and> (\<forall>q\<in>set pre. \<not> (plug_id q = p \<and> plug_port q = port))
     \<and> plugs' = (let rest = pre @ post; place = nat (max 0 (min k (int (length rest))))
                in take place rest @ plug # drop place rest)"
proof -
  let ?P = "\<lambda>plug. plug_id plug = p \<and> plug_port plug = port"
  from assms obtain j where j: "find_index ?P plugs = Some j"
    by (auto simp: reorder_plugs_cases split: option.splits)
  note fi = find_index_Some [OF j]
  let ?pre = "take j plugs" and ?post = "drop (Suc j) plugs"
  have len: "int (length plugs) - 1 = int (length (?pre @ ?post))" using fi by simp
  have "plugs = ?pre @ plugs ! j # ?post" using fi by (simp add: id_take_nth_drop [symmetric])
  moreover have "\<forall>q\<in>set ?pre. \<not> ?P q" using fi by (auto simp: in_set_conv_nth)
  moreover have "plugs' = (let rest = ?pre @ ?post; place = nat (max 0 (min k (int (length rest))))
      in take place rest @ (plugs ! j) # drop place rest)"
    using assms by (simp only: reorder_plugs_cases j option.case Let_def len sum.inject)
  ultimately show ?thesis using fi by blast
qed

lemma filter_same_length: "length (filter P xs) = length xs \<Longrightarrow> filter P xs = xs"
  by (metis filter_id_conv length_filter_less less_irrefl)

lemma presentation_eq:
  "presentationForDocument p nodes = p
     \<lparr>p_links := filter (\<lambda>l. l_source_node_id l \<in> n_id ` set nodes
          \<and> l_target_viewer_id l \<in> v_id ` set (p_viewers p)) (p_links p),
      p_bindings := filter (\<lambda>b. b_source_viewer_id b \<in> v_id ` set (p_viewers p)
          \<and> b_target_viewer_id b \<in> v_id ` set (p_viewers p)) (p_bindings p)\<rparr>"
    (is "_ = p\<lparr>p_links := ?L, p_bindings := ?B\<rparr>")
proof (cases "length ?L = length (p_links p) \<and> length ?B = length (p_bindings p)")
  case True
  then have "?L = p_links p" "?B = p_bindings p" using filter_same_length by blast+
  then show ?thesis by (simp add: presentationForDocument_def)
next
  case False
  then show ?thesis by (auto simp: presentationForDocument_def Let_def)
qed

lemma find_key_distinct:
  "distinct (map key xs) \<Longrightarrow> x \<in> set xs \<Longrightarrow> key x = i \<Longrightarrow> find (\<lambda>y. key y = i) xs = Some x"
  by (induction xs) auto

lemma find_Some_key: "find (\<lambda>x. key x = i) xs = Some x \<Longrightarrow> x \<in> set xs \<and> key x = i"
  by (auto simp: find_Some_iff)

lemma list_all2_find_key:
  assumes "list_all2 (\<lambda>x y. g x = Inr y) xs ys" and "\<And>x y. g x = Inr y \<Longrightarrow> key y = key x"
  shows "find (\<lambda>x. key x = i) xs = Some x \<Longrightarrow> \<exists>y. find (\<lambda>y. key y = i) ys = Some y \<and> g x = Inr y"
    and "find (\<lambda>x. key x = i) xs = None \<Longrightarrow> find (\<lambda>y. key y = i) ys = None"
  using assms(1) by (induction rule: list_all2_induct) (auto dest: assms(2) split: if_splits)

lemma updateNode_find:
  assumes "updateNode d i f = Inr d'" and "\<And>n n'. f n = Inr n' \<Longrightarrow> n_id n' = n_id n"
  shows "node_at d j = Some m \<Longrightarrow> \<exists>m'. node_at d' j = Some m' \<and> (if n_id m = i then f m else Inr m) = Inr m'"
    and "node_at d j = None \<Longrightarrow> node_at d' j = None"
proof -
  from assms(1) obtain ns where ns: "d' = d\<lparr>d_nodes := ns\<rparr>"
    "list_all2 (\<lambda>n n'. (if n_id n = i then f n else Inr n) = Inr n') (d_nodes d) ns"
    by (rule updateNode_InrE)
  have d': "d_nodes d' = ns" by (simp add: ns(1))
  have keys: "n_id n' = n_id n" if "(if n_id n = i then f n else Inr n) = Inr n'" for n n'
    using that assms(2) by (cases "n_id n = i") auto
  show "\<exists>m'. node_at d' j = Some m' \<and> (if n_id m = i then f m else Inr m) = Inr m'"
    if "node_at d j = Some m"
    unfolding d' by (rule list_all2_find_key(1) [OF ns(2) _ that]) (rule keys)
  show "node_at d' j = None" if "node_at d j = None"
    unfolding d' by (rule list_all2_find_key(2) [OF ns(2) _ that]) (rule keys)
qed

lemma updateNode_frame: "updateNode d i f = Inr d' \<Longrightarrow> d\<lparr>d_nodes := d_nodes d'\<rparr> = d'"
  by (elim updateNode_InrE) simp

subsection \<open>Properties\<close>

text \<open>
  C1: a batch of commands that starts from one normalised document and then applies the
  normalised transition gives, command for command, the result or the error that
  \<open>applyGraphCommand\<close> gives when it re-normalises before every command, provided renames
  carry a trimmed name.
\<close>

theorem batch_equivalence:
  assumes "cs \<noteq> []" and "\<forall>c\<in>set cs. trimmed_command c"
  shows "run_commands applyGraphCommand d cs = run_commands applyGraphCommandNormalized (normalize d) cs"
proof -
  obtain c cs' where cs: "cs = c # cs'" using assms(1) by (cases cs) auto
  have name: "js_trim (d_name (normalize d)) = d_name (normalize d)" by (simp add: normalize_eq)
  have "applyGraphCommand d c = applyGraphCommand (normalize d) c"
    by (simp add: applyGraphCommand_eq normalize_idem)
  then have "run_commands applyGraphCommand d cs = run_commands applyGraphCommand (normalize d) cs"
    by (simp add: cs)
  also have "\<dots> = run_commands applyGraphCommandNormalized (normalize d) cs"
    by (rule run_normalized_agree [OF stored_normalize name assms(2)])
  finally show ?thesis .
qed

theorem batch_equivalence_witness:
  "run_commands applyGraphCommand demo_document [RenameGraph ''x'', RemoveNodes [''a'']]
     = run_commands applyGraphCommandNormalized (normalize demo_document) [RenameGraph ''x'', RemoveNodes [''a'']]"
  by (rule batch_equivalence) (simp_all, code_simp)

text \<open>
  with an untrimmed rename the two differ. The single-command path trims the name when
  the next command re-normalises; the batch keeps the spaces.
\<close>

theorem batch_rename_divergence:
  "run_commands applyGraphCommand demo_document [RenameGraph '' x '', RemoveNodes []]
     \<noteq> run_commands applyGraphCommandNormalized (normalize demo_document) [RenameGraph '' x '', RemoveNodes []]"
proof -
  have "map_sum id d_name (run_commands applyGraphCommand demo_document [RenameGraph '' x '', RemoveNodes []]) = Inr ''x''"
    and "map_sum id d_name (run_commands applyGraphCommandNormalized (normalize demo_document)
           [RenameGraph '' x '', RemoveNodes []]) = Inr '' x ''"
    by (simp_all add: applyGraphCommand_eq apply_defs normalize_eq) code_simp
  then show ?thesis by auto
qed

text \<open>
  C4: identifiers stay unique. Whatever sequence of commands is applied to a document whose
  nodes, edges, origins and Agents have distinct ids, the result has distinct ids and every
  entity is in stored form (no absent optional field).
\<close>

theorem commands_keep_wf:
  assumes "run_commands applyGraphCommand d cs = Inr d'" and "cs \<noteq> []"
    and "wf_document d" and "\<forall>c\<in>set cs. wf_command c"
  shows "wf_document d' \<and> stored_document d'"
proof -
  obtain c cs' where cs: "cs = c # cs'" using assms(2) by (cases cs) auto
  with assms(1) obtain e where e: "applyGraphCommand d c = Inr e" "run_commands applyGraphCommand e cs' = Inr d'"
    by (auto simp: bind_result_Inr_iff)
  have "wf_document e \<and> stored_document e"
    using e(1) assms(3,4) cs apply_wf apply_stored stored_normalize
    by (fastforce simp: applyGraphCommand_eq)
  then show ?thesis
  proof (rule run_commands_invariant [OF e(2)])
    show "\<forall>c\<in>set cs'. wf_command c" using assms(4) cs by simp
  qed (use apply_wf apply_stored stored_normalize in \<open>fastforce simp: applyGraphCommand_eq\<close>)
qed

theorem commands_keep_wf_witness:
  "\<exists>d'. run_commands applyGraphCommand demo_document [AddNode (demo_node ''b'' []), RemoveInputPlug ''m'' ''p''] = Inr d'
     \<and> wf_document d' \<and> stored_document d'"
proof -
  obtain d' where d': "run_commands applyGraphCommand demo_document
      [AddNode (demo_node ''b'' []), RemoveInputPlug ''m'' ''p''] = Inr d'"
    by (simp add: applyGraphCommand_eq apply_defs normalize_eq updateNode_pure demo_defs key_simps
        projectSavedGraphNode_def)
  from commands_keep_wf [OF this _ demo_wf] d' show ?thesis by simp
qed

text \<open>
  C3: no dangling reference. On a document whose edges and origins all attach to existing
  nodes and plugs, every command that succeeds leaves such a document, and only commands that
  attach something are asked to name existing ends: removing nodes, removing plugs and
  replacing the plugs of a node prune exactly what would dangle.
\<close>

theorem commands_keep_closed:
  assumes "applyGraphCommand d c = Inr d'" and "closed_document d" and "attaching_command (normalize d) c"
  shows "closed_document d'"
  using assms apply_closed [of "normalize d" c d'] by (simp add: applyGraphCommand_eq closed_normalize)

theorem commands_keep_closed_witness:
  "\<exists>d'. applyGraphCommand demo_document (RemoveInputPlug ''m'' ''p'') = Inr d' \<and> closed_document d'"
proof -
  obtain d' where d': "applyGraphCommand demo_document (RemoveInputPlug ''m'' ''p'') = Inr d'"
    by (simp add: applyGraphCommand_eq apply_defs normalize_eq updateNode_pure demo_defs key_simps)
  from commands_keep_closed [OF this demo_closed] d' show ?thesis by simp
qed

text \<open>
  C23: a command throws exactly when its guard says so, and it throws that error: an addition
  of a taken id, an update of a missing entity, a move of several nodes with the first
  missing one, a reorder of a plug the node does not have. Every other command succeeds.
\<close>

theorem command_error_exact:
  "applyGraphCommandNormalized d c = Inl err \<longleftrightarrow> command_error d c = Some err"
  using thrown_apply [of d c] by (cases "applyGraphCommandNormalized d c") auto

text \<open>
  removing what was just added restores the document exactly, its order included, for
  nodes, edges, origins, Agents and input plugs; nothing that was there before is lost.
\<close>

theorem add_then_undo:
  assumes "undo_command c = Some u" and "closed_document d" and "fresh_command d c"
    and "command_error d c = None"
  shows "run_commands applyGraphCommandNormalized d [c, u] = Inr d"
proof -
  obtain d' where d': "applyGraphCommandNormalized d c = Inr d'"
    using assms(4) thrown_apply [of d c] by (cases "applyGraphCommandNormalized d c") auto
  from undo_apply [OF d' assms(1-3)] d' show ?thesis by simp
qed

theorem add_then_undo_witness:
  "run_commands applyGraphCommandNormalized demo_document
     [AddInputPlug ''m'' (demo_plug ''r''), RemoveInputPlug ''m'' ''r''] = Inr demo_document"
  by (rule add_then_undo [OF _ demo_closed]) (simp_all add: demo_defs plug_unused_def)

text \<open>
  \<open>reorder_input_plug\<close> moves the first plug with the given id and port to the requested
  index, clamped to the list, keeps the relative order of all other plugs and loses or
  duplicates none; it changes nothing else in the document.
\<close>

theorem reorder_moves_one_plug:
  assumes "apply_reorder_input_plug d i port p k = Inr d'" and "node_at d i = Some n"
  shows "\<exists>pre plug post. n_input_plugs n = pre @ plug # post \<and> plug_id plug = p \<and> plug_port plug = port
     \<and> (\<forall>q\<in>set pre. \<not> (plug_id q = p \<and> plug_port q = port))
     \<and> (let rest = pre @ post; place = nat (max 0 (min k (int (length rest))));
            plugs = take place rest @ plug # drop place rest
        in mset plugs = mset (n_input_plugs n)
           \<and> (\<forall>j. node_at d' j = (if j = i then Some (n\<lparr>n_input_plugs := plugs\<rparr>) else node_at d j))
           \<and> d' = d\<lparr>d_nodes := d_nodes d'\<rparr>)"
proof -
  let ?f = "\<lambda>n. bind_result (reorder_plugs (n_input_plugs n) port p k) (\<lambda>ps. Inr (n\<lparr>n_input_plugs := ps\<rparr>))"
  have upd: "updateNode d i ?f = Inr d'" using assms(1) by (simp add: apply_reorder_input_plug_def)
  have keys: "n_id n' = n_id m" if "?f m = Inr n'" for m n'
    using that by (auto simp: bind_result_Inr_iff)
  have found: "\<exists>m'. node_at d' j = Some m' \<and> (if n_id m = i then ?f m else Inr m) = Inr m'"
    if "node_at d j = Some m" for j m
    by (rule updateNode_find(1) [OF upd _ that]) (rule keys)
  have absent: "node_at d' j = None" if "node_at d j = None" for j
    by (rule updateNode_find(2) [OF upd _ that]) (rule keys)
  from found [OF assms(2)] obtain plugs where plugs: "node_at d' i = Some (n\<lparr>n_input_plugs := plugs\<rparr>)"
    "reorder_plugs (n_input_plugs n) port p k = Inr plugs"
    using find_Some_key [OF assms(2)] by (auto simp: bind_result_Inr_iff)
  have other: "node_at d' j = node_at d j" if "j \<noteq> i" for j
  proof (cases "node_at d j")
    case (Some m)
    with found [OF Some] find_Some_key [OF Some] that show ?thesis by auto
  qed (simp add: absent)
  obtain pre plug post where shape: "n_input_plugs n = pre @ plug # post"
    "plug_id plug = p \<and> plug_port plug = port" "\<forall>q\<in>set pre. \<not> (plug_id q = p \<and> plug_port q = port)"
    "plugs = (let rest = pre @ post; place = nat (max 0 (min k (int (length rest))))
              in take place rest @ plug # drop place rest)"
    using reorder_plugs_shape [OF plugs(2)] by blast
  let ?place = "nat (max 0 (min k (int (length (pre @ post)))))"
  have new: "take ?place (pre @ post) @ plug # drop ?place (pre @ post) = plugs"
    by (simp only: shape(4) Let_def)
  have nodes: "\<forall>j. node_at d' j = (if j = i then Some (n\<lparr>n_input_plugs := plugs\<rparr>) else node_at d j)"
    using plugs(1) other by simp
  note facts = reorder_plugs_perm [OF plugs(2)] nodes updateNode_frame [OF upd, symmetric]
  have "n_input_plugs n = pre @ plug # post \<and> plug_id plug = p \<and> plug_port plug = port
     \<and> (\<forall>q\<in>set pre. \<not> (plug_id q = p \<and> plug_port q = port))
     \<and> mset plugs = mset (n_input_plugs n)
     \<and> (\<forall>j. node_at d' j = (if j = i then Some (n\<lparr>n_input_plugs := plugs\<rparr>) else node_at d j))
     \<and> d' = d\<lparr>d_nodes := d_nodes d'\<rparr>"
    by (intro conjI shape(1,3) facts conjunct1 [OF shape(2)] conjunct2 [OF shape(2)])
  then show ?thesis unfolding Let_def new [symmetric] by blast
qed

theorem reorder_moves_one_plug_witness:
  "\<exists>d'. apply_reorder_input_plug demo_document ''m'' ''in'' ''p'' 9 = Inr d'
     \<and> node_at d' ''a'' = node_at demo_document ''a''"
proof -
  obtain d' where d': "apply_reorder_input_plug demo_document ''m'' ''in'' ''p'' 9 = Inr d'"
    using thrown_reorder_command [of demo_document "''m''" "''in''" "''p''" 9]
    by (cases "apply_reorder_input_plug demo_document ''m'' ''in'' ''p'' 9") (auto simp: demo_defs)
  from reorder_moves_one_plug [OF this, of "demo_node ''m'' [demo_plug ''p'', demo_plug ''q'']"]
  have "node_at d' ''a'' = node_at demo_document ''a''" by (auto simp: demo_defs Let_def)
  with d' show ?thesis by blast
qed

text \<open>
  a saved presentation never dangles. Every link left by \<open>presentationForDocument\<close>
  names a node of the document and a viewer of the presentation, every binding names two
  viewers; entries that do not dangle survive, in order, and viewers and annotations are
  untouched.
\<close>

theorem presentation_never_dangles:
  "let q = presentationForDocument p nodes in
     (\<forall>l. l \<in> set (p_links q) \<longleftrightarrow> l \<in> set (p_links p)
        \<and> l_source_node_id l \<in> n_id ` set nodes \<and> l_target_viewer_id l \<in> v_id ` set (p_viewers q))
     \<and> (\<forall>b. b \<in> set (p_bindings q) \<longleftrightarrow> b \<in> set (p_bindings p)
        \<and> b_source_viewer_id b \<in> v_id ` set (p_viewers q) \<and> b_target_viewer_id b \<in> v_id ` set (p_viewers q))
     \<and> p_viewers q = p_viewers p \<and> p_annotations q = p_annotations p
     \<and> presentationForDocument q nodes = q"
  by (auto simp: presentation_eq Let_def)

end
