(* ===== verification/Worklist.thy ===== *)
theory Worklist
  imports Prelude
begin

section \<open>The worklist search behind the workbench's graph closures\<close>

text \<open>
  Three functions of the workbench close a set of node ids under the edges of a graph with
  the same loop: take the first pending id, scan the whole edge list, and for every live
  edge whose far end is new add that end both to the result and to the pending list. The
  loop is defined here once, with the edge test and the far end as parameters; each
  function is an instance with its own test. The result is the set reachable from the
  roots, and the loop always ends: every id that enters the pending list leaves the finite
  set of far ends not seen so far.
\<close>

text \<open>\<open>[...new Set(xs)]\<close>: the first occurrence of each element, in order.\<close>

definition js_set :: "'a list \<Rightarrow> 'a list" where
  "js_set xs = rev (remdups (rev xs))"

lemma set_js_set [simp]: "set (js_set xs) = set xs"
  by (simp add: js_set_def)

lemma distinct_js_set [simp]: "distinct (js_set xs)"
  by (simp add: js_set_def)

lemma js_set_Nil [simp]: "js_set [] = []"
  by (simp add: js_set_def)

lemma js_set_snoc: "js_set (xs @ [x]) = js_set xs @ (if x \<in> set xs then [] else [x])"
  by (simp add: js_set_def)

fun scan_edges :: "('e \<Rightarrow> bool) \<Rightarrow> ('e \<Rightarrow> 'n) \<Rightarrow> 'e list \<Rightarrow> 'n list \<times> 'n list \<Rightarrow> 'n list \<times> 'n list" where
  "scan_edges live far [] (seen, pending) = (seen, pending)"
| "scan_edges live far (e # es) (seen, pending) =
     (if live e \<and> far e \<notin> set seen
      then scan_edges live far es (seen @ [far e], pending @ [far e])
      else scan_edges live far es (seen, pending))"

text \<open>What one scan adds: the same new ids to both lists, and exactly the live far ends.\<close>

lemma scan_edges_grows:
  "\<exists>new. scan_edges live far es (seen, pending) = (seen @ new, pending @ new)
     \<and> set new = far ` {e \<in> set es. live e} - set seen \<and> distinct new"
proof (induction es arbitrary: seen pending)
  case Nil
  show ?case by simp
next
  case (Cons e es)
  show ?case
  proof (cases "live e \<and> far e \<notin> set seen")
    case True
    from Cons.IH [of "seen @ [far e]" "pending @ [far e]"] obtain new where
      "scan_edges live far es (seen @ [far e], pending @ [far e])
         = (seen @ [far e] @ new, pending @ [far e] @ new)"
      and "set new = far ` {e \<in> set es. live e} - set (seen @ [far e])" and "distinct new"
      by auto
    with True show ?thesis
      by (intro exI [of _ "far e # new"]) auto
  next
    case False
    with Cons.IH [of seen pending] show ?thesis by auto
  qed
qed

lemma scan_edges_measure:
  "card (far ` set es - set (fst (scan_edges live far es (seen, pending))))
     + length (snd (scan_edges live far es (seen, pending)))
   = card (far ` set es - set seen) + length pending"
proof -
  obtain seen' pending' where scan: "scan_edges live far es (seen, pending) = (seen', pending')"
    by fastforce
  from scan_edges_grows [of live far es seen pending] scan obtain new where
    new: "seen' = seen @ new" "pending' = pending @ new"
      "set new = far ` {e \<in> set es. live e} - set seen" "distinct new"
    by auto
  let ?F = "far ` set es - set seen"
  have "set new \<subseteq> ?F" using new(3) by auto
  moreover have "far ` set es - set seen' = ?F - set new" using new(1) by auto
  ultimately have "card (far ` set es - set seen') = card ?F - card (set new)"
    by (simp add: card_Diff_subset)
  moreover have "card (set new) \<le> card ?F"
    using \<open>set new \<subseteq> ?F\<close> by (simp add: card_mono)
  ultimately show ?thesis using new(2,4) scan by (simp add: distinct_card)
qed

function worklist :: "('n \<Rightarrow> 'e \<Rightarrow> bool) \<Rightarrow> ('e \<Rightarrow> 'n) \<Rightarrow> 'e list \<Rightarrow> 'n list \<Rightarrow> 'n list \<Rightarrow> 'n list" where
  "worklist live far es seen [] = seen"
| "worklist live far es seen (x # pending) =
     worklist live far es (fst (scan_edges (live x) far es (seen, pending)))
       (snd (scan_edges (live x) far es (seen, pending)))"
  by pat_completeness auto
termination
  by (relation "measure (\<lambda>(live, far, es, seen, pending). card (far ` set es - set seen) + length pending)")
    (simp_all add: case_prod_beta scan_edges_measure)

subsection \<open>Correctness\<close>

definition step_rel :: "('n \<Rightarrow> 'e \<Rightarrow> bool) \<Rightarrow> ('e \<Rightarrow> 'n) \<Rightarrow> 'e list \<Rightarrow> ('n \<times> 'n) set" where
  "step_rel live far es = {(x, far e) | x e. e \<in> set es \<and> live x e}"

lemma step_rel_image: "step_rel live far es `` {x} = far ` {e \<in> set es. live x e}"
  by (auto simp: step_rel_def)

lemma worklist_reachable:
  assumes "set pending \<subseteq> set seen"
    and "\<And>x y. x \<in> set seen - set pending \<Longrightarrow> (x, y) \<in> step_rel live far es \<Longrightarrow> y \<in> set seen"
  shows "set (worklist live far es seen pending) = (step_rel live far es)\<^sup>* `` set seen"
  using assms
proof (induction live far es seen pending rule: worklist.induct)
  case (1 live far es seen)
  let ?R = "step_rel live far es"
  have "y \<in> set seen" if "(x, y) \<in> ?R\<^sup>*" "x \<in> set seen" for x y
    using that by (induction rule: rtrancl_induct) (use 1(2) in auto)
  then show ?case by auto
next
  case (2 live far es seen x pending)
  let ?R = "step_rel live far es"
  obtain new where new: "scan_edges (live x) far es (seen, pending) = (seen @ new, pending @ new)"
    "set new = far ` {e \<in> set es. live x e} - set seen"
    using scan_edges_grows [of "live x" far es seen pending] by auto
  have img: "?R `` {x} \<subseteq> set (seen @ new)"
    using new(2) by (auto simp: step_rel_image)
  have rec: "worklist live far es seen (x # pending) = worklist live far es (seen @ new) (pending @ new)"
    by (simp add: new(1))
  have "set (worklist live far es (seen @ new) (pending @ new)) = ?R\<^sup>* `` set (seen @ new)"
  proof (rule "2.IH" [unfolded new(1) fst_conv snd_conv])
    show "set (pending @ new) \<subseteq> set (seen @ new)" using "2.prems"(1) by auto
    show "w \<in> set (seen @ new)" if "u \<in> set (seen @ new) - set (pending @ new)" "(u, w) \<in> ?R" for u w
      using that img "2.prems"(2) [of u w] by (cases "u = x") auto
  qed
  moreover have "?R\<^sup>* `` set (seen @ new) = ?R\<^sup>* `` set seen"
  proof -
    have "\<exists>u\<in>set seen. (u, w) \<in> ?R\<^sup>*" if "(v, w) \<in> ?R\<^sup>*" "v \<in> set new" for v w
    proof -
      from that(2) new(2) have "(x, v) \<in> ?R" by (auto simp: step_rel_def)
      with that(1) "2.prems"(1) show ?thesis by (auto intro: converse_rtrancl_into_rtrancl)
    qed
    then show ?thesis by auto
  qed
  ultimately show ?case using rec by simp
qed

lemma worklist_distinct:
  "distinct seen \<Longrightarrow> distinct (worklist live far es seen pending)"
proof (induction live far es seen pending rule: worklist.induct)
  case (2 live far es seen x pending)
  obtain new where new: "scan_edges (live x) far es (seen, pending) = (seen @ new, pending @ new)"
    "set new = far ` {e \<in> set es. live x e} - set seen" "distinct new"
    using scan_edges_grows [of "live x" far es seen pending] by auto
  have "distinct (seen @ new)" using "2.prems" new(2,3) by auto
  with "2.IH" [unfolded new(1) fst_conv snd_conv] show ?case by (simp add: new(1))
qed simp

text \<open>Started with the same list as result and pending list, the loop computes the closure.\<close>

corollary worklist_closure:
  "set (worklist live far es roots roots) = (step_rel live far es)\<^sup>* `` set roots"
  by (rule worklist_reachable) auto

end
