(* ===== verification/RunResults.thy ===== *)
theory RunResults
  imports GraphDocument
begin

section \<open>Results and progress of node runs\<close>

text \<open>
  The run state a canvas node shows: the status types of \<^verbatim>\<open>canvas/types.ts\<close> and the stored
  result of \<^verbatim>\<open>lib/api/contract.ts\<close>.
\<close>

datatype node_execution_status = Idle | Queued | Running | Cancelling | Cancelled | Succeeded | Failed | Skipped

record node_execution =
  ex_status :: node_execution_status
  ex_error :: "string option"

record node_progress_entry =
  pe_sequence :: int
  pe_message :: string
  pe_current :: "js_number option"
  pe_total :: "js_number option"
  pe_sourceNodePath :: "string list"
  pe_invocationIndex :: "int option"
  pe_invocationPath :: "int list"

record node_progress =
  np_entries :: "node_progress_entry list"
  np_omittedCount :: int

datatype run_status = RunSucceeded | RunFailed | RunSkipped

datatype output_kind = SingleOutput | SequenceOutput

record run_port_artifact =
  ra_artifact_id :: string
  ra_artifact_type :: string
  ra_schema_version :: int
  ra_content_hash :: "string option"

record run_port_output =
  ro_port :: string
  ro_kind :: output_kind
  ro_artifacts :: "run_port_artifact list"
  ro_value :: json

record run_node_result =
  rr_node_id :: string
  rr_status :: run_status
  rr_error :: "string option"
  rr_outputs :: "run_port_output list"
  rr_result_fingerprint :: "string option"
  rr_created_at :: "string option"

fun execution_status_of :: "run_status \<Rightarrow> node_execution_status" where
  "execution_status_of RunSucceeded = Succeeded"
| "execution_status_of RunFailed = Failed"
| "execution_status_of RunSkipped = Skipped"

end
