(* ===== verification/GraphInvalidation.thy ===== *)
theory GraphInvalidation
  imports GraphDocument_Facts Worklist RunResults
begin

section \<open>What an edit makes stale, and the workbench's authoring reducer\<close>

text \<open>
  \<open>executionInvalidatedNodeIds\<close> of \<^verbatim>\<open>model/graph-document.ts\<close> names the nodes whose last result
  an edit makes stale; the reducer of \<^verbatim>\<open>canvas/graph-document-adapter.ts\<close> applies a batch of
  commands and resets the execution overlays of those nodes. Also here: the translation of
  canvas change events into commands.
\<close>

subsection \<open>Invalidation\<close>

text \<open>
  The loop of \<open>executionDescendants\<close> is the worklist of \<open>Worklist\<close>; an empty id is taken from
  the pending list and skipped, as the code does.
\<close>

definition execution_live :: "authored_graph_document \<Rightarrow> string \<Rightarrow> saved_graph_edge \<Rightarrow> bool" where
  "execution_live document sourceNodeId edge \<longleftrightarrow>
     sourceNodeId \<noteq> [] \<and> e_enabled edge \<and> e_from_node edge = sourceNodeId
     \<and> e_to_node edge \<in> set (map n_id (d_nodes document))"

definition executionDescendants :: "authored_graph_document \<Rightarrow> string list \<Rightarrow> string list" where
  "executionDescendants document roots =
     (let invalidated = js_set (filter (\<lambda>i. i \<in> set (map n_id (d_nodes document))) roots)
      in worklist (execution_live document) e_to_node (d_edges document) invalidated invalidated)"

text \<open>\<open>Object.keys(update).every(key => key === "route_offset")\<close>\<close>

definition only_route_offset :: "edge_update \<Rightarrow> bool" where
  "only_route_offset u \<longleftrightarrow>
     eu_collection_mode u = None \<and> eu_enabled u = None \<and> eu_projection u = None
     \<and> eu_conversion_path u = None \<and> eu_to_plug u = None \<and> eu_from_port u = None \<and> eu_to_port u = None"

fun executionInvalidatedNodeIds :: "authored_graph_document \<Rightarrow> graph_command \<Rightarrow> string list" where
  "executionInvalidatedNodeIds d (UpdateNodeConfiguration i f v) = executionDescendants d [i]"
| "executionInvalidatedNodeIds d (UpdateNodeConfigurationAndInputPlugs i c ps) = executionDescendants d [i]"
| "executionInvalidatedNodeIds d (AddInputPlug i p) = executionDescendants d [i]"
| "executionInvalidatedNodeIds d (RemoveInputPlug i p) = executionDescendants d [i]"
| "executionInvalidatedNodeIds d (ReorderInputPlug i port p k) = executionDescendants d [i]"
| "executionInvalidatedNodeIds d (BindArtifactType i v t) = executionDescendants d [i]"
| "executionInvalidatedNodeIds d (ResetArtifactTypeBinding i v) = executionDescendants d [i]"
| "executionInvalidatedNodeIds d (AddEdge e) = executionDescendants d [e_to_node e]"
| "executionInvalidatedNodeIds d (UpdateEdge i u) =
     (if only_route_offset u then []
      else case edge_at d i of None \<Rightarrow> [] | Some e \<Rightarrow> executionDescendants d [e_to_node e])"
| "executionInvalidatedNodeIds d (RemoveEdges ids) =
     executionDescendants d (map e_to_node (filter (\<lambda>e. e_id e \<in> set ids) (d_edges d)))"
| "executionInvalidatedNodeIds d (AddOrigin x) = executionDescendants d [o_to_node x]"
| "executionInvalidatedNodeIds d (UpdateOrigin i u) =
     (case find (\<lambda>x. o_id x = i) (d_origins d) of
        None \<Rightarrow> [] | Some x \<Rightarrow> executionDescendants d [o_to_node x])"
| "executionInvalidatedNodeIds d (RemoveOrigins ids) =
     executionDescendants d (map o_to_node (filter (\<lambda>x. o_id x \<in> set ids) (d_origins d)))"
| "executionInvalidatedNodeIds d (RemoveNodes ids) =
     executionDescendants d
       (map e_to_node (filter (\<lambda>e. e_from_node e \<in> set ids) (d_edges d))
        @ map o_to_node (filter (\<lambda>x. o_to_node x \<in> set ids) (d_origins d)))"
| "executionInvalidatedNodeIds d (RenameGraph name) = []"
| "executionInvalidatedNodeIds d (AddNode n) = []"
| "executionInvalidatedNodeIds d (MoveNodes ps) = []"
| "executionInvalidatedNodeIds d (UpdateNodeLayout i l) = []"
| "executionInvalidatedNodeIds d (AddAgent a) = []"
| "executionInvalidatedNodeIds d (ConfigureAgent a) = []"
| "executionInvalidatedNodeIds d (RemoveAgent a) = []"
| "executionInvalidatedNodeIds d (ReplaceDocument x) = js_set (map n_id (d_nodes d))"

subsection \<open>The reducer\<close>

text \<open>The reducer only stores run results, so their type is a parameter here.\<close>

record 'run node_overlay =
  ov_run :: "'run option"
  ov_execution :: node_execution
  ov_progress :: "node_progress option"

type_synonym 'run node_overlays = "string \<Rightarrow> 'run node_overlay option"

record 'run authoring_state =
  as_document :: authored_graph_document
  as_nodeOverlays :: "'run node_overlays"
  as_error :: "string option"

datatype 'run authoring_action =
    ApplyCommands "graph_command list"
  | ReplaceAuthored authored_graph_document "'run node_overlays"
  | UpdateOverlays "'run node_overlays"
  | ClearError

definition idle_overlay :: "'run node_overlay" where
  "idle_overlay = \<lparr>ov_run = None, ov_execution = \<lparr>ex_status = Idle, ex_error = None\<rparr>, ov_progress = None\<rparr>"

text \<open>The messages of the errors the transition throws.\<close>

fun graph_error_message :: "graph_error \<Rightarrow> string" where
  "graph_error_message (MissingNode i) = ''Graph command targets missing node '' @ i"
| "graph_error_message (MissingEdge i) = ''Graph command targets missing edge '' @ i"
| "graph_error_message (MissingOrigin i) = ''Graph command targets missing origin '' @ i"
| "graph_error_message (MissingAgent i) = ''Graph command targets missing agent '' @ i"
| "graph_error_message (MissingInputPlug i) = ''Graph command targets missing input plug '' @ i"
| "graph_error_message CouldNotReorderPlug = ''Graph command could not reorder input plug''"
| "graph_error_message (DuplicateNode i) = ''Graph command adds duplicate node '' @ i"
| "graph_error_message (DuplicateEdge i) = ''Graph command adds duplicate edge '' @ i"
| "graph_error_message (DuplicateOrigin i) = ''Graph command adds duplicate origin '' @ i"
| "graph_error_message (DuplicateAgent i) = ''Graph command adds duplicate agent '' @ i"
| "graph_error_message TypeError = ''Graph edit failed.''"

text \<open>The loop over the batch: the invalidated ids collected so far and the next document.\<close>

fun reduce_commands ::
  "authored_graph_document \<Rightarrow> string list \<Rightarrow> graph_command list \<Rightarrow> (authored_graph_document \<times> string list) result" where
  "reduce_commands nextDocument invalidated [] = Inr (nextDocument, invalidated)"
| "reduce_commands nextDocument invalidated (command # commands) =
     bind_result (applyGraphCommandNormalized nextDocument command)
       (\<lambda>d. reduce_commands d (invalidated @ executionInvalidatedNodeIds nextDocument command) commands)"

fun overlay_loop ::
  "'run node_overlays \<Rightarrow> string list \<Rightarrow> saved_graph_node list \<Rightarrow> 'run node_overlays \<Rightarrow> 'run node_overlays" where
  "overlay_loop previous invalidated [] overlays = overlays"
| "overlay_loop previous invalidated (node # nodes) overlays =
     overlay_loop previous invalidated nodes
       (case previous (n_id node) of
          None \<Rightarrow> overlays
        | Some ov \<Rightarrow> overlays(n_id node \<mapsto> (if n_id node \<in> set invalidated then idle_overlay else ov)))"

fun reduceWorkbenchAuthoringState :: "'run authoring_state \<Rightarrow> 'run authoring_action \<Rightarrow> 'run authoring_state" where
  "reduceWorkbenchAuthoringState state (ReplaceAuthored document overlays) =
     \<lparr>as_document = authoredGraphDocument (createGraphDraft document Undefined),
      as_nodeOverlays = overlays, as_error = None\<rparr>"
| "reduceWorkbenchAuthoringState state (UpdateOverlays overlays) = state\<lparr>as_nodeOverlays := overlays\<rparr>"
| "reduceWorkbenchAuthoringState state ClearError = state\<lparr>as_error := None\<rparr>"
| "reduceWorkbenchAuthoringState state (ApplyCommands commands) =
     (case reduce_commands (authoredGraphDocument (createGraphDraft (as_document state) Undefined)) [] commands of
        Inl err \<Rightarrow> state\<lparr>as_error := Some (graph_error_message err)\<rparr>
      | Inr (nextDocument, invalidated) \<Rightarrow>
          \<lparr>as_document = nextDocument,
           as_nodeOverlays = overlay_loop (as_nodeOverlays state) invalidated (d_nodes nextDocument) (\<lambda>_. None),
           as_error = None\<rparr>)"

subsection \<open>Canvas events as commands\<close>

text \<open>
  The changes the canvas library reports, with the fields the code reads; a change of any
  other type is \<open>OtherChange\<close>.
\<close>

datatype node_change =
    PositionChange string "bool nullish" "point nullish"
  | RemoveChange string
  | OtherChange

definition graphCommandsFromNodeChanges :: "node_change list \<Rightarrow> graph_command list" where
  "graphCommandsFromNodeChanges changes =
     (let positions = concat (map (\<lambda>change. case change of
            PositionChange i dragging position \<Rightarrow>
              (if nullish_or dragging False then []
               else case position of Defined p \<Rightarrow> [(i, p)] | _ \<Rightarrow> [])
          | _ \<Rightarrow> []) changes);
          node_ids = concat (map (\<lambda>change. case change of RemoveChange i \<Rightarrow> [i] | _ \<Rightarrow> []) changes)
      in (if positions \<noteq> [] then [MoveNodes positions] else [])
         @ (if node_ids \<noteq> [] then [RemoveNodes node_ids] else []))"

definition graphCommandsFromEdgeChanges :: "node_change list \<Rightarrow> graph_command list" where
  "graphCommandsFromEdgeChanges changes =
     (let edge_ids = concat (map (\<lambda>change. case change of RemoveChange i \<Rightarrow> [i] | _ \<Rightarrow> []) changes)
      in if edge_ids \<noteq> [] then [RemoveEdges edge_ids] else [])"

subsection \<open>Descendants\<close>

text \<open>The dependency of one node's execution on another: an enabled edge.\<close>

definition feeds :: "authored_graph_document \<Rightarrow> (string \<times> string) set" where
  "feeds d = {(e_from_node e, e_to_node e) | e. e \<in> set (d_edges d) \<and> e_enabled e}"

abbreviation node_ids :: "authored_graph_document \<Rightarrow> string set" where
  "node_ids d \<equiv> n_id ` set (d_nodes d)"

lemma execution_step_rel:
  "step_rel (execution_live d) e_to_node (d_edges d)
     = {(i, j). (i, j) \<in> feeds d \<and> i \<noteq> [] \<and> j \<in> node_ids d}"
proof -
  have "{(x, e_to_node e) | x e. e \<in> E \<and> x \<noteq> [] \<and> e_enabled e \<and> e_from_node e = x \<and> e_to_node e \<in> K}
      = {(i, j). (i, j) \<in> {(e_from_node e, e_to_node e) | e. e \<in> E \<and> e_enabled e} \<and> i \<noteq> [] \<and> j \<in> K}"
    for E :: "saved_graph_edge set" and K :: "string set"
    by auto
  then show ?thesis by (simp only: step_rel_def execution_live_def feeds_def set_map)
qed

lemma executionDescendants_set:
  "set (executionDescendants d roots) =
     {(i, j). (i, j) \<in> feeds d \<and> i \<noteq> [] \<and> j \<in> node_ids d}\<^sup>* `` (set roots \<inter> node_ids d)"
proof -
  have "set (filter (\<lambda>i. i \<in> set (map n_id (d_nodes d))) roots) = set roots \<inter> node_ids d" by auto
  then show ?thesis
    by (simp only: executionDescendants_def Let_def worklist_closure execution_step_rel set_js_set)
qed

lemma executionDescendants_root: "i \<in> set roots \<Longrightarrow> i \<in> node_ids d \<Longrightarrow> i \<in> set (executionDescendants d roots)"
  unfolding executionDescendants_set by blast

lemma executionDescendants_step:
  "i \<in> set (executionDescendants d roots) \<Longrightarrow> (i, j) \<in> feeds d \<Longrightarrow> i \<noteq> [] \<Longrightarrow> j \<in> node_ids d
     \<Longrightarrow> j \<in> set (executionDescendants d roots)"
  unfolding executionDescendants_set by (auto intro: rtrancl_into_rtrancl)

lemma executionDescendants_distinct: "distinct (executionDescendants d roots)"
  by (simp add: executionDescendants_def Let_def worklist_distinct)

subsection \<open>What a node's execution reads\<close>

text \<open>
  Everything of the document a node's own execution depends on: its stored form less the
  canvas geometry, the edges into it less their drawn route, and the origins into it.
\<close>

definition exec_node :: "saved_graph_node \<Rightarrow> saved_graph_node" where
  "exec_node n = n\<lparr>n_layout := Null, n_position := \<lparr>pt_x = Finite 0, pt_y = Finite 0\<rparr>\<rparr>"

definition exec_edge :: "saved_graph_edge \<Rightarrow> saved_graph_edge" where
  "exec_edge e = e\<lparr>e_route_offset := Null\<rparr>"

definition exec_reads ::
  "authored_graph_document \<Rightarrow> string \<Rightarrow> saved_graph_node list \<times> saved_graph_edge list \<times> saved_graph_origin list" where
  "exec_reads d i =
     (map exec_node (filter (\<lambda>n. n_id n = i) (d_nodes d)),
      map exec_edge (filter (\<lambda>e. e_to_node e = i) (d_edges d)),
      filter (\<lambda>x. o_to_node x = i) (d_origins d))"

lemma exec_edge_sel [simp]:
  "e_from_node (exec_edge e) = e_from_node e" "e_to_node (exec_edge e) = e_to_node e"
  "e_enabled (exec_edge e) = e_enabled e"
  by (simp_all add: exec_edge_def)

lemma exec_reads_feeds:
  assumes "exec_reads d' j = exec_reads d j" and "(i, j) \<in> feeds d'"
  shows "(i, j) \<in> feeds d"
proof -
  from assms(2) obtain e where e: "e \<in> set (d_edges d')" "e_enabled e" "e_from_node e = i" "e_to_node e = j"
    by (auto simp: feeds_def)
  from assms(1) have "set (map exec_edge (filter (\<lambda>e. e_to_node e = j) (d_edges d')))
      = set (map exec_edge (filter (\<lambda>e. e_to_node e = j) (d_edges d)))"
    by (simp add: exec_reads_def)
  then have "exec_edge ` {e \<in> set (d_edges d'). e_to_node e = j} = exec_edge ` {e \<in> set (d_edges d). e_to_node e = j}"
    by simp
  moreover have "exec_edge e \<in> exec_edge ` {e \<in> set (d_edges d'). e_to_node e = j}" using e by simp
  ultimately obtain e' where e': "e' \<in> set (d_edges d)" "exec_edge e' = exec_edge e"
    by (metis (mono_tags, lifting) imageE mem_Collect_eq)
  have "e_enabled e' = e_enabled e" "e_from_node e' = e_from_node e" "e_to_node e' = e_to_node e"
    using arg_cong [OF e'(2), of e_enabled] arg_cong [OF e'(2), of e_from_node]
      arg_cong [OF e'(2), of e_to_node] by simp_all
  with e e' show ?thesis unfolding feeds_def by (intro CollectI exI [of _ e']) auto
qed

text \<open>
  The nodes a command touches itself, before its effect is carried downstream. A node the
  command does not touch reads the same before and after.
\<close>

fun touched :: "authored_graph_document \<Rightarrow> graph_command \<Rightarrow> string set" where
  "touched d (UpdateNodeConfiguration i f v) = {i}"
| "touched d (UpdateNodeConfigurationAndInputPlugs i c ps) = {i}"
| "touched d (AddInputPlug i p) = {i}"
| "touched d (RemoveInputPlug i p) = {i}"
| "touched d (ReorderInputPlug i port p k) = {i}"
| "touched d (BindArtifactType i v t) = {i}"
| "touched d (ResetArtifactTypeBinding i v) = {i}"
| "touched d (AddEdge e) = {e_to_node e}"
| "touched d (UpdateEdge i u) = (if only_route_offset u then {} else e_to_node ` {e \<in> set (d_edges d). e_id e = i})"
| "touched d (RemoveEdges ids) = e_to_node ` {e \<in> set (d_edges d). e_id e \<in> set ids}"
| "touched d (AddOrigin x) = {o_to_node x}"
| "touched d (UpdateOrigin i u) = o_to_node ` {x \<in> set (d_origins d). o_id x = i} \<union> set_option (ou_to_node u)"
| "touched d (RemoveOrigins ids) = o_to_node ` {x \<in> set (d_origins d). o_id x \<in> set ids}"
| "touched d (RemoveNodes ids) = set ids \<union> e_to_node ` {e \<in> set (d_edges d). e_from_node e \<in> set ids}"
| "touched d (AddNode n) = {n_id n}"
| "touched d (ReplaceDocument x) = UNIV"
| "touched d _ = {}"

lemma exec_node_geometry [simp]:
  "exec_node (n\<lparr>n_layout := l\<rparr>) = exec_node n" "exec_node (n\<lparr>n_position := p\<rparr>) = exec_node n"
  by (simp_all add: exec_node_def)

lemma map_filter_key_map:
  assumes "\<And>x. x \<in> set xs \<Longrightarrow> k x = i \<Longrightarrow> r (f x) = r x" and "\<And>x. x \<in> set xs \<Longrightarrow> (k (f x) = i) = (k x = i)"
  shows "map r (filter (\<lambda>x. k x = i) (map f xs)) = map r (filter (\<lambda>x. k x = i) xs)"
  using assms by (induction xs) auto

lemma updateNode_reads:
  assumes "updateNode d i f = Inr d'" and "\<And>n n'. f n = Inr n' \<Longrightarrow> n_id n' = n_id n" and "j \<noteq> i"
  shows "exec_reads d' j = exec_reads d j"
proof -
  from assms(1) obtain ns where ns: "d' = d\<lparr>d_nodes := ns\<rparr>"
    "list_all2 (\<lambda>n n'. (if n_id n = i then f n else Inr n) = Inr n') (d_nodes d) ns"
    by (rule updateNode_InrE)
  from ns(2) have "filter (\<lambda>n. n_id n = j) ns = filter (\<lambda>n. n_id n = j) (d_nodes d)"
  proof (induction rule: list_all2_induct)
    case (Cons n ms n' ns)
    show ?case
    proof (cases "n_id n = i")
      case True
      with Cons(1) assms(2) have "n_id n' = i" by auto
      with True Cons assms(3) show ?thesis by simp
    qed (use Cons in auto)
  qed simp
  then show ?thesis by (simp add: exec_reads_def ns(1))
qed

lemma filter_plug_reads:
  assumes "exec_reads d j = r" and "j \<noteq> i"
  shows "exec_reads (d\<lparr>d_edges := filter (\<lambda>e. e_to_node e = i \<longrightarrow> P e) (d_edges d),
     d_origins := filter (\<lambda>x. o_to_node x = i \<longrightarrow> Q x) (d_origins d)\<rparr>) j = r"
proof -
  have "filter (\<lambda>e. (e_to_node e = i \<longrightarrow> P e) \<and> e_to_node e = j) es = filter (\<lambda>e. e_to_node e = j) es"
    and "filter (\<lambda>x. (o_to_node x = i \<longrightarrow> Q x) \<and> o_to_node x = j) xs = filter (\<lambda>x. o_to_node x = j) xs" for es xs
    using assms(2) by (auto intro!: filter_cong)
  with assms(1) show ?thesis by (simp add: exec_reads_def)
qed

lemma merge_route_only:
  "only_route_offset u \<Longrightarrow> exec_edge (merge_edge e (projectSavedGraphEdgeUpdate u)) = exec_edge e"
  by (simp add: only_route_offset_def exec_edge_def merge_edge_def projectSavedGraphEdgeUpdate_def)

lemma merge_to_node [simp]:
  "e_to_node (merge_edge e u) = e_to_node e" "e_from_node (merge_edge e u) = e_from_node e"
  by (simp_all add: merge_edge_def)

lemma exec_reads_frame [simp]:
  "exec_reads (d\<lparr>d_name := s\<rparr>) j = exec_reads d j" "exec_reads (d\<lparr>d_agents := a\<rparr>) j = exec_reads d j"
  by (simp_all add: exec_reads_def)

lemma edges_reads:
  "map exec_edge (filter (\<lambda>e. e_to_node e = j) es) = map exec_edge (filter (\<lambda>e. e_to_node e = j) (d_edges d))
     \<Longrightarrow> exec_reads (d\<lparr>d_edges := es\<rparr>) j = exec_reads d j"
  by (simp add: exec_reads_def)

lemma origins_reads:
  "filter (\<lambda>x. o_to_node x = j) xs = filter (\<lambda>x. o_to_node x = j) (d_origins d)
     \<Longrightarrow> exec_reads (d\<lparr>d_origins := xs\<rparr>) j = exec_reads d j"
  by (simp add: exec_reads_def)

lemma nodes_reads:
  "map exec_node (filter (\<lambda>x. n_id x = j) xs) = map exec_node (filter (\<lambda>x. n_id x = j) (d_nodes d))
     \<Longrightarrow> exec_reads (d\<lparr>d_nodes := xs\<rparr>) j = exec_reads d j"
  by (simp add: exec_reads_def)

lemma filter_untouched:
  "j \<notin> k ` {x \<in> set xs. P x} \<Longrightarrow> filter (\<lambda>x. k x = j) (filter (\<lambda>x. \<not> P x) xs) = filter (\<lambda>x. k x = j) xs"
  by (induction xs) auto

lemma untouched_edge_commands:
  "j \<notin> touched d (AddEdge e) \<Longrightarrow> apply_add_edge d e = Inr d' \<Longrightarrow> exec_reads d' j = exec_reads d j"
  "j \<notin> touched d (UpdateEdge i u) \<Longrightarrow> apply_update_edge d i u = Inr d' \<Longrightarrow> exec_reads d' j = exec_reads d j"
  "j \<notin> touched d (RemoveEdges ids) \<Longrightarrow> apply_remove_edges d ids = Inr d' \<Longrightarrow> exec_reads d' j = exec_reads d j"
proof -
  show "exec_reads d' j = exec_reads d j" if "j \<notin> touched d (AddEdge e)" "apply_add_edge d e = Inr d'"
    using that by (auto simp: apply_add_edge_def projectSavedGraphEdge_def intro!: edges_reads split: if_splits)
  show "exec_reads d' j = exec_reads d j" if "j \<notin> touched d (UpdateEdge i u)" "apply_update_edge d i u = Inr d'"
    using that
    by (auto simp: apply_update_edge_def bind_result_Inr_iff merge_route_only intro!: edges_reads map_filter_key_map
        split: if_splits)
  show "exec_reads d' j = exec_reads d j" if "j \<notin> touched d (RemoveEdges ids)" "apply_remove_edges d ids = Inr d'"
    using that by (auto simp: apply_remove_edges_def filter_untouched simp del: filter_filter intro!: edges_reads)
qed

lemma untouched_origin_commands:
  "j \<notin> touched d (AddOrigin x) \<Longrightarrow> apply_add_origin d x = Inr d' \<Longrightarrow> exec_reads d' j = exec_reads d j"
  "j \<notin> touched d (UpdateOrigin i v) \<Longrightarrow> apply_update_origin d i v = Inr d' \<Longrightarrow> exec_reads d' j = exec_reads d j"
  "j \<notin> touched d (RemoveOrigins ids) \<Longrightarrow> apply_remove_origins d ids = Inr d' \<Longrightarrow> exec_reads d' j = exec_reads d j"
proof -
  show "exec_reads d' j = exec_reads d j" if "j \<notin> touched d (AddOrigin x)" "apply_add_origin d x = Inr d'"
    using that by (auto simp: apply_add_origin_def projectSavedGraphOrigin_def intro!: origins_reads split: if_splits)
  show "exec_reads d' j = exec_reads d j" if j: "j \<notin> touched d (UpdateOrigin i v)" and d': "apply_update_origin d i v = Inr d'"
  proof -
    let ?m = "\<lambda>x. if o_id x = i then merge_origin x (projectSavedGraphOriginUpdate v) else x"
    have moved: "o_to_node (?m x) \<noteq> j" if "x \<in> set (d_origins d)" "o_id x = i" for x
      using that j by (cases "ou_to_node v") (auto simp: merge_origin_def projectSavedGraphOriginUpdate_def)
    have "filter (\<lambda>x. o_to_node x = j) (map ?m xs) = filter (\<lambda>x. o_to_node x = j) xs"
      if "set xs \<subseteq> set (d_origins d)" for xs
      using that
    proof (induction xs)
      case (Cons x xs)
      then show ?case using moved [of x] j by (cases "o_id x = i") auto
    qed simp
    with d' show ?thesis by (auto simp: apply_update_origin_def bind_result_Inr_iff intro!: origins_reads)
  qed
  show "exec_reads d' j = exec_reads d j" if "j \<notin> touched d (RemoveOrigins ids)" "apply_remove_origins d ids = Inr d'"
    using that by (auto simp: apply_remove_origins_def filter_untouched simp del: filter_filter intro!: origins_reads)
qed

lemma untouched_node_commands:
  "j \<notin> touched d (AddNode n) \<Longrightarrow> apply_add_node d n = Inr d' \<Longrightarrow> exec_reads d' j = exec_reads d j"
  "j \<notin> touched d (RemoveNodes ids) \<Longrightarrow> apply_remove_nodes d ids = Inr d' \<Longrightarrow> exec_reads d' j = exec_reads d j"
  "apply_move_nodes d ps = Inr d' \<Longrightarrow> exec_reads d' j = exec_reads d j"
  "apply_update_node_layout d i l = Inr d' \<Longrightarrow> exec_reads d' j = exec_reads d j"
proof -
  show "exec_reads d' j = exec_reads d j" if "j \<notin> touched d (AddNode n)" "apply_add_node d n = Inr d'"
    using that by (auto simp: apply_add_node_def key_simps intro!: nodes_reads split: if_splits)
  show "exec_reads d' j = exec_reads d j" if "apply_move_nodes d ps = Inr d'"
    using that by (auto simp: apply_move_nodes_def bind_result_Inr_iff intro!: nodes_reads map_filter_key_map
        split: option.split)
  show "exec_reads d' j = exec_reads d j" if "apply_update_node_layout d i l = Inr d'"
    using that by (auto simp: apply_update_node_layout_def updateNode_pure intro!: nodes_reads map_filter_key_map
        split: if_splits)
  show "exec_reads d' j = exec_reads d j" if j: "j \<notin> touched d (RemoveNodes ids)" and d': "apply_remove_nodes d ids = Inr d'"
  proof -
    from j have j': "j \<notin> set ids" "j \<notin> e_to_node ` {e \<in> set (d_edges d). e_from_node e \<in> set ids}" by auto
    have "filter (\<lambda>n. n_id n = j) (filter (\<lambda>n. \<not> n_id n \<in> set ids) (d_nodes d)) = filter (\<lambda>n. n_id n = j) (d_nodes d)"
      by (rule filter_untouched) (use j' in auto)
    moreover have "filter (\<lambda>x. o_to_node x = j) (filter (\<lambda>x. \<not> o_to_node x \<in> set ids) (d_origins d))
        = filter (\<lambda>x. o_to_node x = j) (d_origins d)"
      by (rule filter_untouched) (use j' in auto)
    moreover have "filter (\<lambda>e. e_to_node e = j) (filter (\<lambda>e. \<not> (e_from_node e \<in> set ids \<or> e_to_node e \<in> set ids)) (d_edges d))
        = filter (\<lambda>e. e_to_node e = j) (d_edges d)"
      by (rule filter_untouched) (use j' in auto)
    ultimately show ?thesis using d' by (auto simp: apply_remove_nodes_def exec_reads_def)
  qed
qed

lemma untouched_reads:
  assumes "applyGraphCommandNormalized d c = Inr d'" and "j \<notin> touched d c"
  shows "exec_reads d' j = exec_reads d j"
proof (cases c)
  case (ReorderInputPlug i port p k)
  with assms show ?thesis
    by (auto simp: apply_reorder_input_plug_def elim!: updateNode_reads) (auto simp: bind_result_Inr_iff)
next
  case (RemoveInputPlug i p)
  with assms show ?thesis
    by (auto simp: apply_remove_input_plug_def bind_result_Inr_iff 
        intro!: filter_plug_reads elim!: updateNode_reads)
next
  case (UpdateNodeConfigurationAndInputPlugs i x ps)
  with assms show ?thesis
    by (auto simp: apply_update_node_configuration_and_input_plugs_def bind_result_Inr_iff Let_def
        intro!: filter_plug_reads elim!: updateNode_reads)
next
  case (AddEdge e)
  with assms untouched_edge_commands(1) [of j d e d'] show ?thesis by (simp del: touched.simps)
next
  case (UpdateEdge i u)
  with assms untouched_edge_commands(2) [of j d i u d'] show ?thesis by (simp del: touched.simps)
next
  case (RemoveEdges ids)
  with assms untouched_edge_commands(3) [of j d ids d'] show ?thesis by (simp del: touched.simps)
next
  case (AddOrigin x)
  with assms untouched_origin_commands(1) [of j d x d'] show ?thesis by (simp del: touched.simps)
next
  case (UpdateOrigin i u)
  with assms untouched_origin_commands(2) [of j d i u d'] show ?thesis by (simp del: touched.simps)
next
  case (RemoveOrigins ids)
  with assms untouched_origin_commands(3) [of j d ids d'] show ?thesis by (simp del: touched.simps)
next
  case (AddNode n)
  with assms untouched_node_commands(1) [of j d n d'] show ?thesis by (simp del: touched.simps)
next
  case (RemoveNodes ids)
  with assms untouched_node_commands(2) [of j d ids d'] show ?thesis by (simp del: touched.simps)
next
  case (MoveNodes ps)
  with assms untouched_node_commands(3) [of d ps d' j] show ?thesis by (simp del: touched.simps)
next
  case (UpdateNodeLayout i l)
  with assms untouched_node_commands(4) [of d i l d' j] show ?thesis by (simp del: touched.simps)
next
  case (ConfigureAgent a)
  with assms show ?thesis by (auto simp: apply_configure_agent_def bind_result_Inr_iff Let_def exec_reads_def)
next
  case (AddAgent a)
  with assms show ?thesis by (auto simp: apply_add_agent_def exec_reads_def split: if_splits)
qed (use assms in \<open>auto simp: apply_defs elim!: updateNode_reads\<close>)

subsection \<open>Soundness of the invalidation\<close>

text \<open>An update of an origin that leaves its target where it is.\<close>

fun keeps_target :: "authored_graph_document \<Rightarrow> graph_command \<Rightarrow> bool" where
  "keeps_target d (UpdateOrigin i u) =
     (case ou_to_node u of None \<Rightarrow> True
      | Some t \<Rightarrow> (\<forall>x\<in>set (d_origins d). o_id x = i \<longrightarrow> o_to_node x = t))"
| "keeps_target d _ = True"

lemma invalidated_step:
  assumes "i \<in> set (executionInvalidatedNodeIds d c)" and "(i, j) \<in> feeds d" and "i \<noteq> []" and "j \<in> node_ids d"
  shows "j \<in> set (executionInvalidatedNodeIds d c)"
  using assms by (cases c) (auto intro: executionDescendants_step split: if_splits option.splits)

lemma touched_invalidated:
  assumes "j \<in> touched d c" and "applyGraphCommandNormalized d c = Inr d'" and "wf_document d"
    and "keeps_target d c" and "j \<in> node_ids d" and "j \<in> node_ids d'"
  shows "j \<in> set (executionInvalidatedNodeIds d c)"
proof (cases c)
  case (UpdateEdge i u)
  with assms(1) obtain e where e: "e \<in> set (d_edges d)" "e_id e = i" "e_to_node e = j" "\<not> only_route_offset u"
    by (auto split: if_splits)
  then have "edge_at d i = Some e" using assms(3) by (auto simp: wf_document_def intro: find_key_distinct)
  with e UpdateEdge assms(5) show ?thesis by (simp add: executionDescendants_root)
next
  case (UpdateOrigin i u)
  from assms(2) UpdateOrigin obtain y where "originOrThrow d i = Inr y"
    by (auto simp: apply_update_origin_def bind_result_Inr_iff)
  then have y: "y \<in> set (d_origins d)" "o_id y = i" using throw_lookups(2) by blast+
  from assms(1,4) UpdateOrigin y obtain x where x: "x \<in> set (d_origins d)" "o_id x = i" "o_to_node x = j"
    by (cases "ou_to_node u") auto
  then have "find (\<lambda>x. o_id x = i) (d_origins d) = Some x"
    using assms(3) by (auto simp: wf_document_def intro: find_key_distinct)
  with x UpdateOrigin assms(5) show ?thesis by (simp add: executionDescendants_root)
next
  case (AddNode n)
  with assms show ?thesis by (auto simp: apply_defs split: if_splits)
next
  case (RemoveNodes ids)
  with assms(2,6) have "j \<notin> set ids" by (auto simp: apply_defs)
  with RemoveNodes assms(1) have "j \<in> e_to_node ` {e \<in> set (d_edges d). e_from_node e \<in> set ids}" by auto
  then have "j \<in> set (map e_to_node (filter (\<lambda>e. e_from_node e \<in> set ids) (d_edges d))
      @ map o_to_node (filter (\<lambda>x. o_to_node x \<in> set ids) (d_origins d)))" by auto
  with RemoveNodes assms(5) show ?thesis
    by (simp only: executionInvalidatedNodeIds.simps executionDescendants_root)
next
  case (RemoveEdges ids)
  with assms(1,5) show ?thesis by (simp add: executionDescendants_root)
next
  case (RemoveOrigins ids)
  with assms(1,5) show ?thesis by (simp add: executionDescendants_root)
qed (use assms in \<open>auto intro!: executionDescendants_root\<close>)

text \<open>
  Walking up from a node that is not invalidated never meets a touched node, and every edge
  walked was already there before the command.
\<close>

lemma upstream_untouched:
  assumes step: "applyGraphCommandNormalized d c = Inr d'" and "wf_document d" and "keeps_target d c"
    and closed: "closed_document d" "closed_document d'" and "[] \<notin> node_ids d"
    and "(i, j) \<in> (feeds d')\<^sup>*" and "j \<in> node_ids d" and "j \<in> node_ids d'"
    and "j \<notin> set (executionInvalidatedNodeIds d c)"
  shows "i \<in> node_ids d \<and> i \<in> node_ids d' \<and> i \<notin> set (executionInvalidatedNodeIds d c)"
  using assms(7)
proof (induction rule: converse_rtrancl_induct)
  case base
  with assms(8-10) show ?case by simp
next
  case (step i k)
  then have k: "k \<in> node_ids d" "k \<in> node_ids d'" "k \<notin> set (executionInvalidatedNodeIds d c)" by auto
  with assms(1-3) have "k \<notin> touched d c" using touched_invalidated by blast
  with assms(1) have "exec_reads d' k = exec_reads d k" by (rule untouched_reads)
  then have old: "(i, k) \<in> feeds d" using step(1) by (rule exec_reads_feeds)
  then have "i \<in> node_ids d" "i \<in> node_ids d'"
    using closed step(1) by (auto simp: feeds_def closed_document_def)
  moreover have "i \<notin> set (executionInvalidatedNodeIds d c)"
  proof
    assume "i \<in> set (executionInvalidatedNodeIds d c)"
    moreover have "i \<noteq> []" using \<open>i \<in> node_ids d\<close> assms(6) by metis
    ultimately show False using invalidated_step [OF _ old _ k(1)] k(3) by blast
  qed
  ultimately show ?case by simp
qed


lemma demo_nonempty: "[] \<notin> n_id ` set (d_nodes demo_document)"
  by (simp add: demo_defs)

lemma demo_invalidated:
  "executionInvalidatedNodeIds demo_document (UpdateNodeConfiguration ''m'' ''k'' JNull) = [''m'', ''z'']"
  by code_simp


text \<open>
  an update that moves an origin to another node goes unnoticed at the new target. The
  invalidated ids are computed from the origin's old target, so the node that gains the
  origin keeps its result although it reads a new value.
\<close>

definition move_origin :: origin_update where
  "move_origin = \<lparr>ou_to_node = Some ''a'', ou_to_port = None, ou_to_plug = Some Null, ou_value = None,
     ou_collection_mode = None, ou_conversion_path = None\<rparr>"

theorem moved_origin_not_invalidated:
  "\<exists>d'. applyGraphCommandNormalized demo_document (UpdateOrigin ''o'' move_origin) = Inr d'
     \<and> ''a'' \<notin> set (executionInvalidatedNodeIds demo_document (UpdateOrigin ''o'' move_origin))
     \<and> exec_reads d' ''a'' \<noteq> exec_reads demo_document ''a''"
proof -
  have "executionInvalidatedNodeIds demo_document (UpdateOrigin ''o'' move_origin) = [''m'', ''z'']"
    by code_simp
  moreover obtain d' where d': "applyGraphCommandNormalized demo_document (UpdateOrigin ''o'' move_origin) = Inr d'"
    "exec_reads d' ''a'' \<noteq> exec_reads demo_document ''a''"
    by (simp add: apply_update_origin_def originOrThrow_def demo_defs move_origin_def merge_origin_def
        projectSavedGraphOriginUpdate_def exec_reads_def)
  ultimately show ?thesis by simp
qed

subsection \<open>The reducer\<close>

lemma reduce_commands_run:
  "reduce_commands d acc cs = Inr (d', acc') \<Longrightarrow> run_commands applyGraphCommandNormalized d cs = Inr d'"
  by (induction cs arbitrary: d acc) (auto simp: bind_result_Inr_iff)

lemma reduce_commands_error:
  "reduce_commands d acc cs = Inl err \<longleftrightarrow> run_commands applyGraphCommandNormalized d cs = Inl err"
  by (induction cs arbitrary: d acc) (auto simp: bind_result_def split: sum.splits)

lemma reduce_commands_grows: "reduce_commands d acc cs = Inr (d', acc') \<Longrightarrow> set acc \<subseteq> set acc'"
  by (induction cs arbitrary: d acc) (fastforce simp: bind_result_Inr_iff)+

lemma overlay_loop_eq:
  "overlay_loop previous stale nodes overlays i =
     (if i \<in> n_id ` set nodes \<and> previous i \<noteq> None
      then Some (if i \<in> set stale then idle_overlay else the (previous i)) else overlays i)"
  by (induction nodes arbitrary: overlays) (auto split: option.splits)

text \<open>
  the reducer is atomic. A batch in which some command throws leaves document and
  overlays as they were and only records the message of the first error; a batch that
  succeeds has exactly the document of the commands in sequence, clears the error, and keeps
  an overlay for exactly the surviving nodes that had one, either as it was or reset to idle.
\<close>

theorem reducer_atomic:
  "let s' = reduceWorkbenchAuthoringState s (ApplyCommands cs) in
     case run_commands applyGraphCommandNormalized (normalize (as_document s)) cs of
        Inl err \<Rightarrow> s' = s\<lparr>as_error := Some (graph_error_message err)\<rparr>
      | Inr d' \<Rightarrow> as_document s' = d' \<and> as_error s' = None
          \<and> dom (as_nodeOverlays s') = dom (as_nodeOverlays s) \<inter> n_id ` set (d_nodes d')
          \<and> (\<forall>i. as_nodeOverlays s' i \<in> {None, as_nodeOverlays s i, Some idle_overlay})"
proof (cases "reduce_commands (normalize (as_document s)) [] cs")
  case (Inl err)
  moreover from this have "run_commands applyGraphCommandNormalized (normalize (as_document s)) cs = Inl err"
    by (simp add: reduce_commands_error)
  ultimately show ?thesis by (simp flip: normalize_def)
next
  case (Inr r)
  obtain d' acc where r: "r = (d', acc)" by fastforce
  with Inr have "run_commands applyGraphCommandNormalized (normalize (as_document s)) cs = Inr d'"
    by (simp add: reduce_commands_run)
  with Inr r show ?thesis
    by (auto simp: overlay_loop_eq Let_def dom_def simp flip: normalize_def split: if_splits)
qed

subsection \<open>Soundness of a batch\<close>

text \<open>
  A batch that is admissible for a node: every command attaches to existing ends and leaves
  origin targets in place, no node id is empty, and the node is there all along (it is not
  removed and added again under the same id).
\<close>

fun admissible :: "string \<Rightarrow> authored_graph_document \<Rightarrow> graph_command list \<Rightarrow> bool" where
  "admissible j d [] = (j \<in> n_id ` set (d_nodes d))"
| "admissible j d (c # cs) =
     (j \<in> n_id ` set (d_nodes d) \<and> [] \<notin> n_id ` set (d_nodes d)
      \<and> attaching_command d c \<and> keeps_target d c \<and> wf_command c
      \<and> (case applyGraphCommandNormalized d c of Inl _ \<Rightarrow> True | Inr d' \<Rightarrow> admissible j d' cs))"

lemma admissible_here: "admissible j d cs \<Longrightarrow> j \<in> n_id ` set (d_nodes d)"
  by (cases cs) auto

lemma reads_path:
  assumes "\<And>i. (i, j) \<in> (feeds d')\<^sup>* \<Longrightarrow> exec_reads d' i = exec_reads d i" and "(i, j) \<in> (feeds d')\<^sup>*"
  shows "(i, j) \<in> (feeds d)\<^sup>*"
  using assms(2)
proof (induction rule: converse_rtrancl_induct)
  case (step i k)
  with assms(1) have "exec_reads d' k = exec_reads d k" by blast
  from exec_reads_feeds [OF this step(1)] step(3) show ?case by (rule converse_rtrancl_into_rtrancl)
qed simp

lemma batch_sound:
  assumes "reduce_commands d acc cs = Inr (d', acc')" and "admissible j d cs"
    and "wf_document d" and "closed_document d" and "j \<notin> set acc'" and "(i, j) \<in> (feeds d')\<^sup>*"
  shows "exec_reads d' i = exec_reads d i"
  using assms
proof (induction cs arbitrary: d acc i)
  case (Cons c cs)
  from Cons.prems(1) obtain d1 where d1: "applyGraphCommandNormalized d c = Inr d1"
    "reduce_commands d1 (acc @ executionInvalidatedNodeIds d c) cs = Inr (d', acc')"
    by (auto simp: bind_result_Inr_iff)
  from Cons.prems(2) d1(1) have adm: "admissible j d1 cs" "attaching_command d c" "keeps_target d c" "wf_command c"
    "j \<in> n_id ` set (d_nodes d)" "[] \<notin> n_id ` set (d_nodes d)" by simp_all
  have inv: "wf_document d1" "closed_document d1"
    using apply_wf [OF d1(1) adm(4) Cons.prems(3)] apply_closed [OF d1(1) adm(2) Cons.prems(4)] by blast+
  have later: "exec_reads d' k = exec_reads d1 k" if "(k, j) \<in> (feeds d')\<^sup>*" for k
    by (rule Cons.IH [OF d1(2) adm(1) inv Cons.prems(5) that])
  have "j \<notin> set (executionInvalidatedNodeIds d c)"
    using reduce_commands_grows [OF d1(2)] Cons.prems(5) by auto
  then have "exec_reads d1 i = exec_reads d i"
    using upstream_untouched [OF d1(1) Cons.prems(3) adm(3) Cons.prems(4) inv(2) adm(6)
        reads_path [OF later Cons.prems(6)] adm(5) admissible_here [OF adm(1)]]
      untouched_reads [OF d1(1)] touched_invalidated [OF _ d1(1) Cons.prems(3) adm(3)] by blast
  with later [OF Cons.prems(6)] show ?case by simp
qed simp


definition demo_state :: "nat authoring_state" where
  "demo_state = \<lparr>as_document = demo_document,
     as_nodeOverlays = [''a'' \<mapsto> \<lparr>ov_run = Some 7, ov_execution = \<lparr>ex_status = Succeeded, ex_error = None\<rparr>,
       ov_progress = None\<rparr>], as_error = None\<rparr>"

lemma demo_reduced:
  "as_error (reduceWorkbenchAuthoringState demo_state (ApplyCommands [UpdateNodeConfiguration ''m'' ''k'' JNull])) = None"
  "as_nodeOverlays (reduceWorkbenchAuthoringState demo_state (ApplyCommands [UpdateNodeConfiguration ''m'' ''k'' JNull])) ''a''
     = Some \<lparr>ov_run = Some 7, ov_execution = \<lparr>ex_status = Succeeded, ex_error = None\<rparr>, ov_progress = None\<rparr>"
  "admissible ''a'' (normalize demo_document) [UpdateNodeConfiguration ''m'' ''k'' JNull]"
  by code_simp+


text \<open>
  \<open>executionDescendants\<close> returns exactly the roots that exist and the nodes reachable
  from them through enabled edges, each once, whatever cycles the edges form; the search
  always ends.
\<close>

theorem descendants_exact:
  assumes "[] \<notin> n_id ` set (d_nodes d)" and "closed_document d"
  shows "set (executionDescendants d roots) = (feeds d)\<^sup>* `` (set roots \<inter> n_id ` set (d_nodes d))
     \<and> distinct (executionDescendants d roots)"
proof -
  let ?R = "{(i, j). (i, j) \<in> feeds d \<and> i \<noteq> [] \<and> j \<in> node_ids d}"
  have "(i, j) \<in> ?R" if "(i, j) \<in> feeds d" for i j
  proof -
    from that obtain e where e: "e \<in> set (d_edges d)" "i = e_from_node e" "j = e_to_node e"
      by (auto simp: feeds_def)
    with assms(2) have "i \<in> node_ids d" "j \<in> node_ids d"
      by (auto simp: closed_document_def dest: attached_node)
    with assms(1) that show ?thesis by (metis (mono_tags, lifting) case_prodI mem_Collect_eq)
  qed
  then have "?R = feeds d" by auto
  then show ?thesis using executionDescendants_set [of d roots] executionDescendants_distinct by simp
qed

theorem descendants_exact_witness:
  "set (executionDescendants demo_document [''m'', ''nope''])
     = (feeds demo_document)\<^sup>* `` (set [''m'', ''nope''] \<inter> n_id ` set (d_nodes demo_document))"
  using descendants_exact [OF demo_nonempty demo_closed] by blast

end
