(* ===== verification/RoomBridge.thy ===== *)
theory RoomBridge
  imports GraphDocument
begin

section \<open>The bridge between local commands and the room's commands\<close>

text \<open>
  \<^verbatim>\<open>room/room-command-bridge.ts\<close>: the Project head and the room's command vocabulary, the
  translation of a local command into the room command that carries it, the translation
  back, and the replay of an accepted batch onto the confirmed head. Sequence numbers are
  naturals: the protocol parser lets no other number through.
\<close>

subsection \<open>The Project head\<close>

record graph_definition =
  g_id :: string
  g_name :: string
  g_document :: saved_graph_document
  g_refresh_generations :: "(string \<times> int) list nullish"

record collaborative_head =
  h_project_id :: string
  h_room_epoch :: string
  h_collaboration_sequence :: nat
  h_checkpoint_sequence :: nat
  h_checkpoint_revision :: nat
  h_name :: string
  h_updated_at :: string
  h_graphs :: "graph_definition list"

subsection \<open>The room's commands\<close>

datatype room_body =
    RB_MoveNodes "(string \<times> point) list"
  | RB_AddNode saved_graph_node
  | RB_DuplicateNode string saved_graph_node
  | RB_RemoveNodes "string list"
  | RB_AddEdge saved_graph_edge
  | RB_RemoveEdges "string list"
  | RB_AddOrigin saved_graph_origin
  | RB_RemoveOrigins "string list"
  | RB_UpdateNodeConfiguration string string json json
  | RB_UpdateNodeLayout string "node_layout nullish" "node_layout nullish"
  | RB_UpdateNodeConfigurationAndInputPlugs string js_object "input_plug list" js_object "string list"
  | RB_SetNodeArtifactTypeBinding string artifact_type_binding "artifact_type_binding option"
  | RB_ClearNodeArtifactTypeBinding string string artifact_type_binding
  | RB_SetNodeInputPlugs string "input_plug list" "string list"
  | RB_UpdateEdge saved_graph_edge saved_graph_edge
  | RB_UpdateOrigin saved_graph_origin saved_graph_origin
  | RB_AddAgent saved_graph_agent
  | RB_ConfigureAgent saved_graph_agent
  | RB_RemoveAgent string
  | RB_ReplaceDocument saved_graph_document
  | RB_ReplacePresentation graph_presentation
  | RB_MoveArtifactViewers "(string \<times> point) list"
  | RB_MoveAnnotations "(string \<times> point) list"

datatype project_command =
    PC_RenameProject string string
  | PC_AddGraph string string "saved_graph_document nullish"
  | PC_RenameGraph string string string
  | PC_RemoveGraph string
  | PC_RefreshNode string string int
  | PC_AddCallNode string string string point
  | PC_InGraph string room_body

definition toInGraphCommand :: "string \<Rightarrow> room_body \<Rightarrow> project_command" where
  "toInGraphCommand graphId command = PC_InGraph graphId command"

definition emptyGraphPresentation :: graph_presentation where
  "emptyGraphPresentation = \<lparr>p_viewers = [], p_links = [], p_bindings = [], p_annotations = []\<rparr>"

definition presentationFromGraphDocument :: "saved_graph_document \<Rightarrow> graph_presentation" where
  "presentationFromGraphDocument document =
     (case sd_presentation document of
        Defined p \<Rightarrow> \<lparr>p_viewers = p_viewers p, p_links = p_links p, p_bindings = p_bindings p,
                      p_annotations = p_annotations p\<rparr>
      | _ \<Rightarrow> emptyGraphPresentation)"

definition toRoomReplaceDocumentCommand :: "graph_draft \<Rightarrow> string \<Rightarrow> project_command" where
  "toRoomReplaceDocumentCommand draft graphId =
     (let document = authoredGraphDocument draft;
          presentation = nullish_or (sd_presentation (gd_document draft)) emptyGraphPresentation
      in toInGraphCommand graphId (RB_ReplaceDocument
           \<lparr>sd_schema_version = 7,
            sd_nodes = map projectSavedGraphNode (d_nodes document),
            sd_edges = map projectSavedGraphEdge (d_edges document),
            sd_origins = map projectSavedGraphOrigin (d_origins document),
            sd_agents = Defined (map projectSavedGraphAgent (d_agents document)),
            sd_presentation = Defined
              \<lparr>p_viewers = p_viewers presentation, p_links = p_links presentation,
               p_bindings = p_bindings presentation, p_annotations = p_annotations presentation\<rparr>\<rparr>))"

definition toRoomRenameGraphCommand :: "string \<Rightarrow> string \<Rightarrow> string \<Rightarrow> project_command" where
  "toRoomRenameGraphCommand graphId name expectedName = PC_RenameGraph graphId name expectedName"

definition toRoomRenameProjectCommand :: "string \<Rightarrow> string \<Rightarrow> project_command" where
  "toRoomRenameProjectCommand name expectedName = PC_RenameProject name expectedName"

subsection \<open>From the workbench to the room\<close>

text \<open>\<open>node.config?.[field] ?? null\<close>\<close>

definition config_value :: "js_object nullish \<Rightarrow> string \<Rightarrow> json" where
  "config_value config field =
     (case config of
        Defined c \<Rightarrow> (case map_of c field of
            None \<Rightarrow> JNull
          | Some v \<Rightarrow> (if v = JUndefined then JNull else v))
      | _ \<Rightarrow> JNull)"

text \<open>
  \<open>projectSavedGraphEdge({...edge, ...update})\<close> with the update as the command carries it: an
  owned conversion path that is not an array makes the projection's \<open>map\<close> throw.
\<close>

definition path_is_array :: "graph_conversion list nullish option \<Rightarrow> bool" where
  "path_is_array p = (case p of Some Undefined \<Rightarrow> False | Some Null \<Rightarrow> False | _ \<Rightarrow> True)"

definition spread_edge :: "saved_graph_edge \<Rightarrow> edge_update \<Rightarrow> saved_graph_edge result" where
  "spread_edge edge update =
     (if path_is_array (eu_conversion_path update)
      then Inr (projectSavedGraphEdge (merge_edge edge update)) else Inl TypeError)"

definition spread_origin :: "saved_graph_origin \<Rightarrow> origin_update \<Rightarrow> saved_graph_origin result" where
  "spread_origin origin update =
     (if path_is_array (ou_conversion_path update)
      then Inr (projectSavedGraphOrigin (merge_origin origin update)) else Inl TypeError)"

definition find_node :: "authored_graph_document \<Rightarrow> string \<Rightarrow> saved_graph_node option" where
  "find_node document i = find (\<lambda>candidate. n_id candidate = i) (d_nodes document)"

definition find_binding :: "saved_graph_node \<Rightarrow> string \<Rightarrow> artifact_type_binding option" where
  "find_binding node variable = find (\<lambda>binding. bind_variable binding = variable) (n_artifact_type_bindings node)"

text \<open>The three plug commands are applied locally and sent as the resulting list of plugs.\<close>

definition set_plugs_body :: "graph_command \<Rightarrow> string \<Rightarrow> authored_graph_document \<Rightarrow> room_body option result" where
  "set_plugs_body command nodeId document =
     (case find_node document nodeId of
        None \<Rightarrow> Inr None
      | Some node \<Rightarrow>
          bind_result (applyGraphCommand document command) (\<lambda>nextDocument.
            case find_node nextDocument nodeId of
              None \<Rightarrow> Inr None
            | Some nextNode \<Rightarrow>
                Inr (Some (RB_SetNodeInputPlugs nodeId (n_input_plugs nextNode)
                  (map plug_id (n_input_plugs node))))))"

fun toRoomGraphBodyCommand :: "graph_command \<Rightarrow> authored_graph_document \<Rightarrow> room_body option result" where
  "toRoomGraphBodyCommand (MoveNodes positions) document =
     Inr (Some (RB_MoveNodes (map (\<lambda>(i, p). (i, \<lparr>pt_x = pt_x p, pt_y = pt_y p\<rparr>)) positions)))"
| "toRoomGraphBodyCommand (AddNode node) document = Inr (Some (RB_AddNode (projectSavedGraphNode node)))"
| "toRoomGraphBodyCommand (RemoveNodes node_ids) document = Inr (Some (RB_RemoveNodes node_ids))"
| "toRoomGraphBodyCommand (AddEdge edge) document = Inr (Some (RB_AddEdge (projectSavedGraphEdge edge)))"
| "toRoomGraphBodyCommand (RemoveEdges edge_ids) document = Inr (Some (RB_RemoveEdges edge_ids))"
| "toRoomGraphBodyCommand (AddOrigin origin) document = Inr (Some (RB_AddOrigin (projectSavedGraphOrigin origin)))"
| "toRoomGraphBodyCommand (RemoveOrigins origin_ids) document = Inr (Some (RB_RemoveOrigins origin_ids))"
| "toRoomGraphBodyCommand (UpdateNodeConfiguration i field v) document =
     Inr (map_option (\<lambda>node. RB_UpdateNodeConfiguration i field v (config_value (n_config node) field))
       (find_node document i))"
| "toRoomGraphBodyCommand (UpdateNodeLayout i layout) document =
     Inr (map_option (\<lambda>node. RB_UpdateNodeLayout i (or_null layout) (or_null (n_layout node)))
       (find_node document i))"
| "toRoomGraphBodyCommand (UpdateNodeConfigurationAndInputPlugs i config plugs) document =
     Inr (map_option (\<lambda>node. RB_UpdateNodeConfigurationAndInputPlugs i config plugs
         (nullish_or (n_config node) []) (map plug_id (n_input_plugs node)))
       (find_node document i))"
| "toRoomGraphBodyCommand (BindArtifactType i variable artifact_type) document =
     Inr (map_option (\<lambda>node. RB_SetNodeArtifactTypeBinding i
         \<lparr>bind_variable = variable, bind_artifact_type = artifact_type\<rparr> (find_binding node variable))
       (find_node document i))"
| "toRoomGraphBodyCommand (ResetArtifactTypeBinding i variable) document =
     Inr (case find_node document i of
            None \<Rightarrow> None
          | Some node \<Rightarrow> map_option (RB_ClearNodeArtifactTypeBinding i variable) (find_binding node variable))"
| "toRoomGraphBodyCommand (UpdateEdge i update) document =
     (case find (\<lambda>candidate. e_id candidate = i) (d_edges document) of
        None \<Rightarrow> Inr None
      | Some edge \<Rightarrow> bind_result (spread_edge edge update)
          (\<lambda>next. Inr (Some (RB_UpdateEdge (projectSavedGraphEdge edge) next))))"
| "toRoomGraphBodyCommand (UpdateOrigin i update) document =
     (case find (\<lambda>candidate. o_id candidate = i) (d_origins document) of
        None \<Rightarrow> Inr None
      | Some origin \<Rightarrow> bind_result (spread_origin origin update)
          (\<lambda>next. Inr (Some (RB_UpdateOrigin (projectSavedGraphOrigin origin) next))))"
| "toRoomGraphBodyCommand (AddAgent agent) document = Inr (Some (RB_AddAgent (projectSavedGraphAgent agent)))"
| "toRoomGraphBodyCommand (ConfigureAgent agent) document = Inr (Some (RB_ConfigureAgent (projectSavedGraphAgent agent)))"
| "toRoomGraphBodyCommand (RemoveAgent i) document = Inr (Some (RB_RemoveAgent i))"
| "toRoomGraphBodyCommand (ReplaceDocument replacement) document =
     Inr (Some (RB_ReplaceDocument (gd_document (createGraphDraft replacement Undefined))))"
| "toRoomGraphBodyCommand (AddInputPlug i plug) document = set_plugs_body (AddInputPlug i plug) i document"
| "toRoomGraphBodyCommand (RemoveInputPlug i plug) document = set_plugs_body (RemoveInputPlug i plug) i document"
| "toRoomGraphBodyCommand (ReorderInputPlug i port plug k) document =
     set_plugs_body (ReorderInputPlug i port plug k) i document"
| "toRoomGraphBodyCommand (RenameGraph name) document = Inr None"

definition toRoomGraphCommand ::
  "graph_command \<Rightarrow> authored_graph_document \<Rightarrow> string \<Rightarrow> project_command option result" where
  "toRoomGraphCommand command document graphId =
     (case command of
        RenameGraph name \<Rightarrow> Inr (Some (toRoomRenameGraphCommand graphId name (d_name document)))
      | _ \<Rightarrow> bind_result (toRoomGraphBodyCommand command document)
               (\<lambda>body. Inr (map_option (toInGraphCommand graphId) body)))"

subsection \<open>From the room to the workbench\<close>

definition inGraphBody :: "project_command \<Rightarrow> string nullish \<Rightarrow> room_body option" where
  "inGraphBody command graphId =
     (case command of
        PC_InGraph g body \<Rightarrow>
          (case graphId of Undefined \<Rightarrow> Some body
           | Null \<Rightarrow> None
           | Defined i \<Rightarrow> (if g \<noteq> i then None else Some body))
      | _ \<Rightarrow> None)"

definition edge_update_of :: "saved_graph_edge \<Rightarrow> edge_update" where
  "edge_update_of edge =
     \<lparr>eu_collection_mode = Some (e_collection_mode edge), eu_enabled = Some (e_enabled edge),
      eu_projection = Some (e_projection edge), eu_conversion_path = Some (Defined (e_conversion_path edge)),
      eu_route_offset = Some (e_route_offset edge), eu_to_plug = None, eu_from_port = None, eu_to_port = None\<rparr>"

definition origin_update_of :: "saved_graph_origin \<Rightarrow> origin_update" where
  "origin_update_of origin =
     \<lparr>ou_to_node = Some (o_to_node origin), ou_to_port = Some (o_to_port origin),
      ou_to_plug = Some (o_to_plug origin), ou_value = Some (o_value origin),
      ou_collection_mode = Some (o_collection_mode origin),
      ou_conversion_path = Some (Defined (o_conversion_path origin))\<rparr>"

fun local_of_body :: "room_body \<Rightarrow> authored_graph_document nullish \<Rightarrow> graph_command option" where
  "local_of_body (RB_MoveNodes positions) document =
     Some (MoveNodes (map (\<lambda>(i, p). (i, \<lparr>pt_x = pt_x p, pt_y = pt_y p\<rparr>)) positions))"
| "local_of_body (RB_AddNode node) document = Some (AddNode (projectSavedGraphNode node))"
| "local_of_body (RB_RemoveNodes ids) document = Some (RemoveNodes ids)"
| "local_of_body (RB_AddEdge edge) document = Some (AddEdge edge)"
| "local_of_body (RB_RemoveEdges ids) document = Some (RemoveEdges ids)"
| "local_of_body (RB_UpdateNodeConfiguration i field v expected) document = Some (UpdateNodeConfiguration i field v)"
| "local_of_body (RB_UpdateNodeLayout i layout expected) document = Some (UpdateNodeLayout i layout)"
| "local_of_body (RB_UpdateNodeConfigurationAndInputPlugs i config plugs expected_config expected_ids) document =
     Some (UpdateNodeConfigurationAndInputPlugs i config plugs)"
| "local_of_body (RB_SetNodeArtifactTypeBinding i binding expected) document =
     Some (BindArtifactType i (bind_variable binding) (bind_artifact_type binding))"
| "local_of_body (RB_ClearNodeArtifactTypeBinding i variable expected) document =
     Some (ResetArtifactTypeBinding i variable)"
| "local_of_body (RB_SetNodeInputPlugs i plugs expected) document =
     (case document of
        Defined d \<Rightarrow> map_option (\<lambda>node. UpdateNodeConfigurationAndInputPlugs i (nullish_or (n_config node) []) plugs)
          (find_node d i)
      | _ \<Rightarrow> None)"
| "local_of_body (RB_UpdateEdge expected edge) document = Some (UpdateEdge (e_id edge) (edge_update_of edge))"
| "local_of_body (RB_AddOrigin origin) document = Some (AddOrigin origin)"
| "local_of_body (RB_UpdateOrigin expected origin) document = Some (UpdateOrigin (o_id origin) (origin_update_of origin))"
| "local_of_body (RB_RemoveOrigins ids) document = Some (RemoveOrigins ids)"
| "local_of_body (RB_AddAgent agent) document = Some (AddAgent (projectSavedGraphAgent agent))"
| "local_of_body (RB_ConfigureAgent agent) document = Some (ConfigureAgent (projectSavedGraphAgent agent))"
| "local_of_body (RB_RemoveAgent i) document = Some (RemoveAgent i)"
| "local_of_body (RB_ReplaceDocument body) document =
     Some (ReplaceDocument (authoredGraphDocument
       \<lparr>gd_name = (case document of Defined d \<Rightarrow> d_name d | _ \<Rightarrow> []), gd_document = body\<rparr>))"
| "local_of_body (RB_DuplicateNode source node) document = Some (AddNode (projectSavedGraphNode node))"
| "local_of_body (RB_ReplacePresentation p) document = None"
| "local_of_body (RB_MoveArtifactViewers ps) document = None"
| "local_of_body (RB_MoveAnnotations ps) document = None"

definition toLocalGraphCommand ::
  "project_command \<Rightarrow> authored_graph_document nullish \<Rightarrow> string nullish \<Rightarrow> graph_command option" where
  "toLocalGraphCommand command document graphId =
     (case inGraphBody command graphId of None \<Rightarrow> None | Some body \<Rightarrow> local_of_body body document)"

definition commandBatchGraphId :: "project_command list \<Rightarrow> string option" where
  "commandBatchGraphId commands =
     (let graphIds = remdups (concat (map (\<lambda>c. case c of PC_InGraph g _ \<Rightarrow> [g] | _ \<Rightarrow> []) commands))
      in case graphIds of [g] \<Rightarrow> Some g | _ \<Rightarrow> None)"

definition prunePresentationLinks :: "graph_presentation \<Rightarrow> string set \<Rightarrow> graph_presentation" where
  "prunePresentationLinks presentation removed =
     (if removed = {} then presentation
      else presentation\<lparr>p_links := filter (\<lambda>link. l_source_node_id link \<notin> removed) (p_links presentation)\<rparr>)"

record saved_graph =
  sg_id :: string
  sg_name :: string
  sg_revision :: nat
  sg_created_at :: string
  sg_updated_at :: string
  sg_document :: saved_graph_document

definition savedGraphFromProjectHead :: "collaborative_head \<Rightarrow> string \<Rightarrow> saved_graph option" where
  "savedGraphFromProjectHead head graphId =
     map_option (\<lambda>graph. \<lparr>sg_id = g_id graph, sg_name = g_name graph,
         sg_revision = h_collaboration_sequence head, sg_created_at = h_updated_at head,
         sg_updated_at = h_updated_at head, sg_document = g_document graph\<rparr>)
       (find (\<lambda>candidate. g_id candidate = graphId) (h_graphs head))"

definition defaultGraphId :: "collaborative_head \<Rightarrow> string option" where
  "defaultGraphId head = (case h_graphs head of [] \<Rightarrow> None | first # _ \<Rightarrow> Some (g_id first))"

subsection \<open>Replay onto the confirmed head\<close>

definition withGraphDocument :: "graph_definition \<Rightarrow> saved_graph_document \<Rightarrow> graph_definition" where
  "withGraphDocument graph document = graph\<lparr>g_document := document\<rparr>"

definition presentationIntoDocument :: "saved_graph_document \<Rightarrow> graph_presentation \<Rightarrow> saved_graph_document" where
  "presentationIntoDocument document presentation =
     document\<lparr>sd_presentation := Defined
       \<lparr>p_viewers = p_viewers presentation, p_links = p_links presentation,
        p_bindings = p_bindings presentation, p_annotations = p_annotations presentation\<rparr>\<rparr>"

definition mapGraphDocument ::
  "collaborative_head \<Rightarrow> string \<Rightarrow> (graph_definition \<Rightarrow> graph_definition result) \<Rightarrow> nat
     \<Rightarrow> collaborative_head result" where
  "mapGraphDocument head graphId update sequence =
     (if \<not> (\<exists>graph\<in>set (h_graphs head). g_id graph = graphId)
      then Inr (head\<lparr>h_collaboration_sequence := sequence\<rparr>)
      else bind_result
        (map_result (\<lambda>graph. if g_id graph = graphId then update graph else Inr graph) (h_graphs head))
        (\<lambda>graphs. Inr (head\<lparr>h_graphs := graphs, h_collaboration_sequence := sequence\<rparr>)))"

definition empty_graph_document :: saved_graph_document where
  "empty_graph_document =
     \<lparr>sd_schema_version = 7, sd_nodes = [], sd_edges = [], sd_origins = [], sd_agents = Defined [],
      sd_presentation = Defined emptyGraphPresentation\<rparr>"

definition replay_add_graph ::
  "collaborative_head \<Rightarrow> string \<Rightarrow> string \<Rightarrow> saved_graph_document nullish \<Rightarrow> nat \<Rightarrow> collaborative_head" where
  "replay_add_graph head graphId name document sequence =
     (if \<exists>graph\<in>set (h_graphs head). g_id graph = graphId
      then head\<lparr>h_collaboration_sequence := sequence\<rparr>
      else head\<lparr>h_graphs := h_graphs head @
             [\<lparr>g_id = graphId, g_name = name, g_document = nullish_or document empty_graph_document,
               g_refresh_generations = Undefined\<rparr>],
           h_collaboration_sequence := sequence\<rparr>)"

definition replay_add_call_node :: "string \<Rightarrow> point \<Rightarrow> graph_definition \<Rightarrow> graph_definition result" where
  "replay_add_call_node nodeId position graph =
     Inr (withGraphDocument graph ((g_document graph)\<lparr>sd_nodes := map (\<lambda>node.
            if n_id node = nodeId then node\<lparr>n_kind := Call, n_position := position\<rparr> else node)
          (sd_nodes (g_document graph))\<rparr>))"

definition replay_replace_document :: "saved_graph_document \<Rightarrow> graph_definition \<Rightarrow> graph_definition result" where
  "replay_replace_document document graph =
     Inr (withGraphDocument graph (document\<lparr>sd_presentation :=
            (if is_nullish (sd_presentation document) then sd_presentation (g_document graph)
             else sd_presentation document)\<rparr>))"

definition replay_move_viewers :: "(string \<times> point) list \<Rightarrow> graph_definition \<Rightarrow> graph_definition result" where
  "replay_move_viewers positions graph =
     (let presentation = presentationFromGraphDocument (g_document graph)
      in Inr (withGraphDocument graph (presentationIntoDocument (g_document graph)
           (presentation\<lparr>p_viewers := map (\<lambda>viewer. case js_map positions (v_id viewer) of
                None \<Rightarrow> viewer
              | Some p \<Rightarrow> viewer\<lparr>v_position := \<lparr>pt_x = pt_x p, pt_y = pt_y p\<rparr>\<rparr>)
              (p_viewers presentation)\<rparr>))))"

definition replay_move_annotations :: "(string \<times> point) list \<Rightarrow> graph_definition \<Rightarrow> graph_definition result" where
  "replay_move_annotations positions graph =
     (let presentation = presentationFromGraphDocument (g_document graph)
      in Inr (withGraphDocument graph (presentationIntoDocument (g_document graph)
           (presentation\<lparr>p_annotations := map (\<lambda>annotation. case js_map positions (an_id annotation) of
                None \<Rightarrow> annotation
              | Some p \<Rightarrow> annotation\<lparr>an_position := \<lparr>pt_x = pt_x p, pt_y = pt_y p\<rparr>\<rparr>)
              (p_annotations presentation)\<rparr>))))"

definition replay_set_plugs :: "string \<Rightarrow> input_plug list \<Rightarrow> graph_definition \<Rightarrow> graph_definition result" where
  "replay_set_plugs nodeId plugs graph =
     Inr (withGraphDocument graph ((g_document graph)\<lparr>sd_nodes := map (\<lambda>node.
            if n_id node = nodeId then node\<lparr>n_input_plugs := plugs\<rparr> else node)
          (sd_nodes (g_document graph))\<rparr>))"

definition replay_local :: "project_command \<Rightarrow> graph_definition \<Rightarrow> graph_definition result" where
  "replay_local command graph =
     (let base = authoredGraphDocument \<lparr>gd_name = g_name graph, gd_document = g_document graph\<rparr>
      in case toLocalGraphCommand command (Defined base) (Defined (g_id graph)) of
           None \<Rightarrow> Inr graph
         | Some local \<Rightarrow>
             bind_result (applyGraphCommand base local) (\<lambda>nextDocument.
               let presentation = presentationFromGraphDocument (g_document graph);
                   pruned = (case local of
                       RemoveNodes ids \<Rightarrow> prunePresentationLinks presentation (set ids)
                     | _ \<Rightarrow> presentation)
               in Inr (withGraphDocument graph (gd_document (createGraphDraft nextDocument (Defined pruned))))))"

fun replay_body :: "string \<Rightarrow> room_body \<Rightarrow> graph_definition \<Rightarrow> graph_definition result" where
  "replay_body graphId (RB_ReplaceDocument document) = replay_replace_document document"
| "replay_body graphId (RB_ReplacePresentation presentation) =
     (\<lambda>graph. Inr (withGraphDocument graph ((g_document graph)\<lparr>sd_presentation := Defined presentation\<rparr>)))"
| "replay_body graphId (RB_MoveArtifactViewers positions) = replay_move_viewers positions"
| "replay_body graphId (RB_MoveAnnotations positions) = replay_move_annotations positions"
| "replay_body graphId (RB_SetNodeInputPlugs i plugs expected) = replay_set_plugs i plugs"
| "replay_body graphId body = replay_local (PC_InGraph graphId body)"

fun applyRoomCommandToHead :: "collaborative_head \<Rightarrow> project_command \<Rightarrow> nat \<Rightarrow> collaborative_head result" where
  "applyRoomCommandToHead head (PC_RenameProject name expected) sequence =
     Inr (head\<lparr>h_name := name, h_collaboration_sequence := sequence\<rparr>)"
| "applyRoomCommandToHead head (PC_AddGraph graphId name document) sequence =
     Inr (replay_add_graph head graphId name document sequence)"
| "applyRoomCommandToHead head (PC_RemoveGraph graphId) sequence =
     Inr (head\<lparr>h_graphs := filter (\<lambda>graph. g_id graph \<noteq> graphId) (h_graphs head),
            h_collaboration_sequence := sequence\<rparr>)"
| "applyRoomCommandToHead head (PC_RenameGraph graphId name expected) sequence =
     Inr (head\<lparr>h_graphs := map (\<lambda>graph. if g_id graph = graphId then graph\<lparr>g_name := name\<rparr> else graph) (h_graphs head),
            h_collaboration_sequence := sequence\<rparr>)"
| "applyRoomCommandToHead head (PC_RefreshNode graphId nodeId generation) sequence =
     Inr (head\<lparr>h_collaboration_sequence := sequence\<rparr>)"
| "applyRoomCommandToHead head (PC_AddCallNode callee graphId nodeId position) sequence =
     mapGraphDocument head graphId (replay_add_call_node nodeId position) sequence"
| "applyRoomCommandToHead head (PC_InGraph graphId body) sequence =
     mapGraphDocument head graphId (replay_body graphId body) sequence"

fun applyRoomCommandsToHead :: "collaborative_head \<Rightarrow> project_command list \<Rightarrow> nat \<Rightarrow> collaborative_head result" where
  "applyRoomCommandsToHead head [] sequence = Inr head"
| "applyRoomCommandsToHead head (command # commands) sequence =
     bind_result (applyRoomCommandToHead head command sequence)
       (\<lambda>next. applyRoomCommandsToHead next commands sequence)"

end
