(* ===== verification/RoomBridge_Facts.thy ===== *)
theory RoomBridge_Facts
  imports RoomBridge GraphDocument_Facts
begin

section \<open>Correctness of the room bridge\<close>

text \<open>
  What the replay of accepted commands keeps of the head, that sending a local command
  through the room and replaying it gives the document the local command gives, and the
  cases where it does not.
\<close>

subsection \<open>What a replay keeps of the head\<close>

abbreviation graph_at :: "collaborative_head \<Rightarrow> string \<Rightarrow> graph_definition option" where
  "graph_at head i \<equiv> find (\<lambda>graph. g_id graph = i) (h_graphs head)"

text \<open>The Graph a command is addressed to.\<close>

fun command_graph :: "project_command \<Rightarrow> string option" where
  "command_graph (PC_AddGraph g n d) = Some g"
| "command_graph (PC_RenameGraph g n e) = Some g"
| "command_graph (PC_RemoveGraph g) = Some g"
| "command_graph (PC_AddCallNode callee g n p) = Some g"
| "command_graph (PC_InGraph g b) = Some g"
| "command_graph (PC_RefreshNode g n k) = None"
| "command_graph (PC_RenameProject n e) = None"

lemma withGraphDocument_sel [simp]:
  "g_id (withGraphDocument g d) = g_id g" "g_name (withGraphDocument g d) = g_name g"
  "g_document (withGraphDocument g d) = d"
  by (simp_all add: withGraphDocument_def)

lemma replay_local_id: "replay_local c g = Inr g' \<Longrightarrow> g_id g' = g_id g"
  by (auto simp: replay_local_def Let_def bind_result_Inr_iff split: option.splits)

lemma replay_body_id: "replay_body gid b g = Inr g' \<Longrightarrow> g_id g' = g_id g"
  by (cases b) (auto simp: replay_replace_document_def replay_move_viewers_def replay_move_annotations_def
      replay_set_plugs_def Let_def dest: replay_local_id)

text \<open>The part of a head that a replay copies: everything but name, graphs and sequence.\<close>

definition head_frame :: "collaborative_head \<Rightarrow> string \<times> string \<times> nat \<times> nat \<times> string" where
  "head_frame h = (h_project_id h, h_room_epoch h, h_checkpoint_sequence h, h_checkpoint_revision h, h_updated_at h)"

lemma mapGraphDocument_frame:
  assumes "mapGraphDocument h i f n = Inr h'"
  shows "head_frame h' = head_frame h \<and> h_name h' = h_name h \<and> h_collaboration_sequence h' = n"
  using assms by (auto simp: mapGraphDocument_def head_frame_def bind_result_Inr_iff split: if_splits)

lemma mapGraphDocument_at:
  assumes "mapGraphDocument h i f n = Inr h'" and "\<And>g g'. f g = Inr g' \<Longrightarrow> g_id g' = g_id g"
  shows "graph_at h j = Some g \<Longrightarrow> \<exists>g'. graph_at h' j = Some g' \<and> (if g_id g = i then f g else Inr g) = Inr g'"
    and "graph_at h j = None \<Longrightarrow> graph_at h' j = None"
proof -
  have *: "(\<forall>g. graph_at h j = Some g \<longrightarrow> (\<exists>g'. graph_at h' j = Some g' \<and> (if g_id g = i then f g else Inr g) = Inr g'))
      \<and> (graph_at h j = None \<longrightarrow> graph_at h' j = None)"
  proof (cases "\<exists>g\<in>set (h_graphs h). g_id g = i")
    case True
    with assms(1) obtain gs where gs: "h_graphs h' = gs"
      "list_all2 (\<lambda>g g'. (if g_id g = i then f g else Inr g) = Inr g') (h_graphs h) gs"
      by (auto simp: mapGraphDocument_def bind_result_Inr_iff map_result_Inr_iff)
    have keys: "g_id g' = g_id g" if "(if g_id g = i then f g else Inr g) = Inr g'" for g g'
      using that assms(2) by (cases "g_id g = i") auto
    show ?thesis unfolding gs(1)
      using list_all2_find_key(1) [OF gs(2), where key = g_id, OF keys]
        list_all2_find_key(2) [OF gs(2), where key = g_id, OF keys] by blast
  next
    case False
    with assms(1) have "h_graphs h' = h_graphs h" by (auto simp: mapGraphDocument_def)
    moreover have "g_id g \<noteq> i" if "graph_at h j = Some g" for g
      using False find_Some_key [OF that] by blast
    ultimately show ?thesis by simp
  qed
  show "graph_at h j = Some g \<Longrightarrow> \<exists>g'. graph_at h' j = Some g' \<and> (if g_id g = i then f g else Inr g) = Inr g'"
    using * by blast
  show "graph_at h j = None \<Longrightarrow> graph_at h' j = None" using * by blast
qed

lemma mapGraphDocument_unique:
  assumes "graph_at h i = Some g" and "distinct (map g_id (h_graphs h))" and "f g = Inr g'"
  shows "\<exists>h'. mapGraphDocument h i f n = Inr h'"
proof -
  have g: "g \<in> set (h_graphs h)" "g_id g = i" using find_Some_key [OF assms(1)] by auto
  have "x = g" if "x \<in> set (h_graphs h)" "g_id x = i" for x
    using find_key_distinct [OF assms(2) that] assms(1) by simp
  then have "map_result (\<lambda>x. if g_id x = i then f x else Inr x) (h_graphs h)
      = map_result (\<lambda>x. Inr (if g_id x = i then g' else x)) (h_graphs h)"
    using assms(3) by (intro map_result_cong) (metis (full_types))
  with g show ?thesis unfolding mapGraphDocument_def map_result_pure by auto
qed

lemma replay_frame:
  assumes "applyRoomCommandToHead h c n = Inr h'"
  shows "head_frame h' = head_frame h \<and> h_collaboration_sequence h' = n"
  using assms
  by (cases c) (auto simp: replay_add_graph_def head_frame_def
      dest!: mapGraphDocument_frame [unfolded head_frame_def])

lemma find_append_other: "key x \<noteq> j \<Longrightarrow> find (\<lambda>y. key y = j) (xs @ [x]) = find (\<lambda>y. key y = j) xs"
  by (induction xs) auto

lemma find_filter_other: "j \<noteq> i \<Longrightarrow> find (\<lambda>y. key y = j) (filter (\<lambda>y. key y \<noteq> i) xs) = find (\<lambda>y. key y = j) xs"
  by (induction xs) auto

lemma find_map_other:
  "j \<noteq> i \<Longrightarrow> (\<And>y. key (f y) = key y)
     \<Longrightarrow> find (\<lambda>y. key y = j) (map (\<lambda>y. if key y = i then f y else y) xs) = find (\<lambda>y. key y = j) xs"
  by (induction xs) auto

lemma mapGraphDocument_other:
  assumes "mapGraphDocument h i f n = Inr h'" and "\<And>g g'. f g = Inr g' \<Longrightarrow> g_id g' = g_id g" and "j \<noteq> i"
  shows "graph_at h' j = graph_at h j"
proof (cases "graph_at h j")
  case None
  then show ?thesis using mapGraphDocument_at(2) [OF assms(1,2)] by metis
next
  case (Some g)
  with assms(3) find_Some_key [OF Some] mapGraphDocument_at(1) [OF assms(1,2) Some] show ?thesis by auto
qed

lemma replay_other:
  assumes "applyRoomCommandToHead h c n = Inr h'" and "command_graph c \<noteq> Some j"
  shows "graph_at h' j = graph_at h j"
proof (cases c)
  case (PC_AddCallNode callee g i p)
  show ?thesis by (rule mapGraphDocument_other [of h g "replay_add_call_node i p" n])
    (use assms PC_AddCallNode in \<open>auto simp: replay_add_call_node_def\<close>)
next
  case (PC_InGraph g b)
  show ?thesis by (rule mapGraphDocument_other [of h g "replay_body g b" n])
    (use assms PC_InGraph in \<open>auto dest: replay_body_id\<close>)
qed (use assms in \<open>auto simp: replay_add_graph_def find_append_other find_filter_other find_map_other split: if_splits\<close>)

lemma replay_batch:
  assumes "applyRoomCommandsToHead h cs n = Inr h'"
  shows "head_frame h' = head_frame h"
    and "cs \<noteq> [] \<Longrightarrow> h_collaboration_sequence h' = n"
    and "j \<notin> Option.these (command_graph ` set cs) \<Longrightarrow> graph_at h' j = graph_at h j"
  using assms
proof (induction cs arbitrary: h)
  case (Cons c cs)
  case 1
  with Cons show ?case by (auto simp: bind_result_Inr_iff dest: replay_frame)
next
  case (Cons c cs)
  case 2
  then obtain h1 where h1: "applyRoomCommandToHead h c n = Inr h1" "applyRoomCommandsToHead h1 cs n = Inr h'"
    by (auto simp: bind_result_Inr_iff)
  with Cons.IH(2) [OF _ h1(2)] replay_frame [OF h1(1)] show ?case by (cases cs) auto
next
  case (Cons c cs)
  case 3
  then obtain h1 where h1: "applyRoomCommandToHead h c n = Inr h1" "applyRoomCommandsToHead h1 cs n = Inr h'"
    by (auto simp: bind_result_Inr_iff)
  from 3(1) have "command_graph c \<noteq> Some j" "j \<notin> Option.these (command_graph ` set cs)"
    by (auto simp: in_these_eq)
  with Cons.IH(3) [OF _ h1(2)] replay_other [OF h1(1)] show ?case by simp
qed (auto simp: bind_result_Inr_iff)

subsection \<open>The authored document of a Graph\<close>

definition authored_of :: "graph_definition \<Rightarrow> authored_graph_document" where
  "authored_of g = authoredGraphDocument \<lparr>gd_name = g_name g, gd_document = g_document g\<rparr>"

lemma authored_of_eq:
  "authored_of g =
     \<lparr>d_name = g_name g, d_nodes = map projectSavedGraphNode (sd_nodes (g_document g)),
      d_edges = map projectSavedGraphEdge (sd_edges (g_document g)),
      d_origins = map projectSavedGraphOrigin (sd_origins (g_document g)),
      d_agents = map projectSavedGraphAgent (nullish_or (sd_agents (g_document g)) [])\<rparr>"
  by (simp add: authored_of_def authoredGraphDocument_def)

lemma authored_of_name [simp]: "d_name (authored_of g) = g_name g"
  by (simp add: authored_of_eq)

lemma stored_authored_of: "stored_document (authored_of g)"
  by (auto simp: stored_document_def authored_of_eq norm_simps)

lemma normalize_authored_of: "normalize (authored_of g) = (authored_of g)\<lparr>d_name := js_trim (g_name g)\<rparr>"
  by (simp add: normalize_stored [OF stored_authored_of])

text \<open>The same document under the name the Graph has in the Project.\<close>

definition same_body :: "authored_graph_document \<Rightarrow> authored_graph_document \<Rightarrow> bool" where
  "same_body d d' \<longleftrightarrow> d_nodes d = d_nodes d' \<and> d_edges d = d_edges d' \<and> d_origins d = d_origins d' \<and> d_agents d = d_agents d'"

lemma same_body_draft:
  "stored_document d \<Longrightarrow> same_body (authored_of (withGraphDocument g (gd_document (createGraphDraft d p)))) d"
  by (simp add: same_body_def authored_of_eq createGraphDraft_def stored_document_def map_idI)

lemma applyGraphCommand_stored: "applyGraphCommand d c = Inr d' \<Longrightarrow> stored_document d'"
  unfolding applyGraphCommand_eq using stored_normalize by (rule apply_stored [rotated])

lemma replay_local_effect:
  assumes "local_of_body b (Defined (authored_of g)) = Some l" and "applyGraphCommand (authored_of g) l = Inr d'"
  shows "\<exists>g'. replay_local (PC_InGraph (g_id g) b) g = Inr g' \<and> g_name g' = g_name g \<and> same_body (authored_of g') d'"
  using assms same_body_draft [OF applyGraphCommand_stored [OF assms(2)]]
  by (auto simp: replay_local_def toLocalGraphCommand_def inGraphBody_def Let_def simp flip: authored_of_def)

subsection \<open>Commands that come back as themselves\<close>

lemma projectSavedGraphLayout_or_null [simp]: "projectSavedGraphLayout (or_null l) = projectSavedGraphLayout l"
  by (cases l) (simp_all add: projectSavedGraphLayout_def)

text \<open>Commands that differ only in fields the transition projects anyway.\<close>

lemma apply_projected [simp]:
  "applyGraphCommand d (AddNode (projectSavedGraphNode n)) = applyGraphCommand d (AddNode n)"
  "applyGraphCommand d (AddEdge (projectSavedGraphEdge e)) = applyGraphCommand d (AddEdge e)"
  "applyGraphCommand d (AddOrigin (projectSavedGraphOrigin x)) = applyGraphCommand d (AddOrigin x)"
  "applyGraphCommand d (AddAgent (projectSavedGraphAgent a)) = applyGraphCommand d (AddAgent a)"
  "applyGraphCommand d (ConfigureAgent (projectSavedGraphAgent a)) = applyGraphCommand d (ConfigureAgent a)"
  "applyGraphCommand d (UpdateNodeLayout i (or_null l)) = applyGraphCommand d (UpdateNodeLayout i l)"
  by (simp_all add: applyGraphCommand_eq apply_defs key_simps store_idem)

lemma map_point_id [simp]: "map (\<lambda>(i, p). (i, \<lparr>pt_x = pt_x p, pt_y = pt_y p\<rparr>)) ps = ps"
  by (induction ps) auto

lemma spread_edge_update:
  assumes "spread_edge e u = Inr e'" and "projectSavedGraphEdge e = e"
    and "eu_to_plug u = None" and "eu_from_port u = None" and "eu_to_port u = None"
  shows "e_id e' = e_id e"
    and "merge_edge e (projectSavedGraphEdgeUpdate (edge_update_of e')) = merge_edge e (projectSavedGraphEdgeUpdate u)"
proof -
  from assms(1) have e': "e' = projectSavedGraphEdge (merge_edge e u)" "path_is_array (eu_conversion_path u)"
    by (auto simp: spread_edge_def split: if_splits)
  show "e_id e' = e_id e" by (simp add: e' key_simps)
  have stored: "or_null (e_projection e) = e_projection e" "or_null (e_route_offset e) = e_route_offset e"
    using assms(2) by (simp_all add: stored_edge_iff)
  show "merge_edge e (projectSavedGraphEdgeUpdate (edge_update_of e')) = merge_edge e (projectSavedGraphEdgeUpdate u)"
    using assms(3-5) e'(2) stored
    by (cases "eu_projection u"; cases "eu_route_offset u"; cases "eu_conversion_path u")
      (auto simp: e'(1) merge_edge_def projectSavedGraphEdgeUpdate_def projectSavedGraphEdge_def edge_update_of_def
        path_is_array_def split: nullish.splits)
qed

lemma spread_origin_update:
  assumes "spread_origin x u = Inr x'" and "projectSavedGraphOrigin x = x"
  shows "o_id x' = o_id x"
    and "merge_origin x (projectSavedGraphOriginUpdate (origin_update_of x')) = merge_origin x (projectSavedGraphOriginUpdate u)"
proof -
  from assms(1) have x': "x' = projectSavedGraphOrigin (merge_origin x u)" "path_is_array (ou_conversion_path u)"
    by (auto simp: spread_origin_def split: if_splits)
  show "o_id x' = o_id x" by (simp add: x' key_simps)
  have stored: "or_null (o_to_plug x) = o_to_plug x"
    using assms(2) by (simp add: stored_origin_iff)
  show "merge_origin x (projectSavedGraphOriginUpdate (origin_update_of x')) = merge_origin x (projectSavedGraphOriginUpdate u)"
    using x'(2) stored
    by (cases "ou_to_plug u"; cases "ou_conversion_path u")
      (auto simp: x'(1) merge_origin_def projectSavedGraphOriginUpdate_def projectSavedGraphOrigin_def origin_update_of_def
        path_is_array_def split: nullish.splits)
qed

subsection \<open>Plug commands travel as the resulting list\<close>

lemma set_plugs_nodes:
  assumes "updateNode d i (\<lambda>n. bind_result (f (n_input_plugs n)) (\<lambda>ps. Inr (n\<lparr>n_input_plugs := ps\<rparr>))) = Inr d'"
    and "wf_document d" and "node_at d' i = Some m"
  shows "d' = d\<lparr>d_nodes := map (\<lambda>n. if n_id n = i then n\<lparr>n_input_plugs := n_input_plugs m\<rparr> else n) (d_nodes d)\<rparr>"
proof -
  let ?f = "\<lambda>n. bind_result (f (n_input_plugs n)) (\<lambda>ps. Inr (n\<lparr>n_input_plugs := ps\<rparr>))"
  let ?set = "\<lambda>n. if n_id n = i then n\<lparr>n_input_plugs := n_input_plugs m\<rparr> else n"
  from assms(1) obtain ns where ns: "d' = d\<lparr>d_nodes := ns\<rparr>"
    "list_all2 (\<lambda>n n'. (if n_id n = i then ?f n else Inr n) = Inr n') (d_nodes d) ns"
    by (rule updateNode_InrE)
  have "wf_document d'"
    by (rule updateNode_wf [OF assms(1) _ assms(2)]) (auto simp: bind_result_Inr_iff)
  then have dist: "distinct (map n_id ns)" by (simp add: ns(1) wf_document_def)
  have m: "find (\<lambda>n. n_id n = i) ns = Some m" using assms(3) by (simp add: ns(1))
  have "n' = ?set n" if "n' \<in> set ns" "(if n_id n = i then ?f n else Inr n) = Inr n'" for n n'
  proof (cases "n_id n = i")
    case True
    with that(2) obtain ps where ps: "n' = n\<lparr>n_input_plugs := ps\<rparr>" by (auto simp: bind_result_Inr_iff)
    with True have "find (\<lambda>x. n_id x = i) ns = Some n'" using find_key_distinct [OF dist that(1)] by simp
    with m have "m = n\<lparr>n_input_plugs := ps\<rparr>" by (simp add: ps)
    with ps True show ?thesis by simp
  qed (use that in auto)
  with ns(2) have "list_all2 (\<lambda>n n'. n' = ?set n) (d_nodes d) ns"
    by (auto simp: list_all2_conv_all_nth)
  then have "ns = map ?set (d_nodes d)"
    by (induction rule: list_all2_induct) auto
  with ns(1) show ?thesis by simp
qed

text \<open>A plug command that takes a plug away must find nothing attached to it.\<close>

fun room_faithful :: "authored_graph_document \<Rightarrow> graph_command \<Rightarrow> bool" where
  "room_faithful d (UpdateEdge i u) = (eu_to_plug u = None \<and> eu_from_port u = None \<and> eu_to_port u = None)"
| "room_faithful d (RemoveInputPlug i p) =
     ((\<forall>e\<in>set (d_edges d). e_to_node e = i \<longrightarrow> e_to_plug e \<noteq> Defined p)
      \<and> (\<forall>x\<in>set (d_origins d). o_to_node x = i \<longrightarrow> o_to_plug x \<noteq> Defined p))"
| "room_faithful d _ = True"

definition plug_edit :: "graph_command \<Rightarrow> (string \<times> (input_plug list \<Rightarrow> input_plug list result)) option" where
  "plug_edit c = (case c of
      AddInputPlug i p \<Rightarrow> Some (i, \<lambda>ps. Inr (ps @ [p]))
    | RemoveInputPlug i p \<Rightarrow> Some (i, \<lambda>ps. Inr (filter (\<lambda>q. plug_id q \<noteq> p) ps))
    | ReorderInputPlug i port p k \<Rightarrow> Some (i, \<lambda>ps. reorder_plugs ps port p k)
    | _ \<Rightarrow> None)"

lemma plug_edit_apply:
  assumes "plug_edit c = Some (i, f)" and "room_faithful d c"
  shows "applyGraphCommandNormalized d c
     = updateNode d i (\<lambda>n. bind_result (f (n_input_plugs n)) (\<lambda>ps. Inr (n\<lparr>n_input_plugs := ps\<rparr>)))"
proof (cases c)
  case (RemoveInputPlug j p)
  with assms have f: "i = j" "f = (\<lambda>ps. Inr (filter (\<lambda>q. plug_id q \<noteq> p) ps))" by (auto simp: plug_edit_def)
  from RemoveInputPlug assms(2) have "filter (\<lambda>e. e_to_node e = j \<longrightarrow> e_to_plug e \<noteq> Defined p) (d_edges d) = d_edges d"
    "filter (\<lambda>x. o_to_node x = j \<longrightarrow> o_to_plug x \<noteq> Defined p) (d_origins d) = d_origins d"
    by (auto simp: filter_id_conv)
  with RemoveInputPlug f show ?thesis by (simp add: apply_remove_input_plug_def updateNode_pure)
qed (use assms in \<open>auto simp: plug_edit_def apply_add_input_plug_def apply_reorder_input_plug_def\<close>)

lemma plug_edit_body:
  "plug_edit c = Some (i, f) \<Longrightarrow> toRoomGraphBodyCommand c d = set_plugs_body c i d"
  by (cases c) (auto simp: plug_edit_def)

lemma room_faithful_name: "room_faithful (d\<lparr>d_name := s\<rparr>) c = room_faithful d c"
  by (cases c) simp_all

lemma wf_name: "wf_document (d\<lparr>d_name := s\<rparr>) = wf_document d"
  by (simp add: wf_document_def)

lemma replay_plugs_effect:
  assumes "plug_edit c = Some (i, f)" and "room_faithful (authored_of g) c" and "wf_document (authored_of g)"
    and "toRoomGraphBodyCommand c (authored_of g) = Inr (Some b)"
    and "applyGraphCommand (authored_of g) c = Inr d'"
  shows "\<exists>g'. replay_body (g_id g) b g = Inr g' \<and> g_name g' = g_name g \<and> same_body (authored_of g') d'"
proof -
  from assms(4,5) plug_edit_body [OF assms(1)] obtain m ids where b: "b = RB_SetNodeInputPlugs i (n_input_plugs m) ids"
    and m: "node_at d' i = Some m"
    by (auto simp: set_plugs_body_def find_node_def split: option.splits)
  let ?d = "(authored_of g)\<lparr>d_name := js_trim (g_name g)\<rparr>"
  have "updateNode ?d i (\<lambda>n. bind_result (f (n_input_plugs n)) (\<lambda>ps. Inr (n\<lparr>n_input_plugs := ps\<rparr>))) = Inr d'"
    using assms(2,5) plug_edit_apply [OF assms(1), of ?d]
    by (simp add: applyGraphCommand_eq normalize_authored_of room_faithful_name)
  from set_plugs_nodes [OF this _ m] assms(3) have
    d': "d' = ?d\<lparr>d_nodes := map (\<lambda>n. if n_id n = i then n\<lparr>n_input_plugs := n_input_plugs m\<rparr> else n) (d_nodes ?d)\<rparr>"
    by (simp add: wf_name)
  have "projectSavedGraphNode (if n_id n = i then n\<lparr>n_input_plugs := ps\<rparr> else n)
      = (if n_id (projectSavedGraphNode n) = i then (projectSavedGraphNode n)\<lparr>n_input_plugs := ps\<rparr> else projectSavedGraphNode n)" for n ps
    by (simp add: projectSavedGraphNode_def)
  then show ?thesis unfolding b
    by (simp add: replay_set_plugs_def same_body_def d' authored_of_eq)
qed

subsection \<open>The round trip through the room\<close>

lemma map_merge_unique:
  assumes "distinct (map key xs)" and "find (\<lambda>x. key x = i) xs = Some x" and "f x = g x"
  shows "map (\<lambda>y. if key y = i then f y else y) xs = map (\<lambda>y. if key y = i then g y else y) xs"
proof (rule map_cong [OF refl])
  fix y assume "y \<in> set xs"
  then show "(if key y = i then f y else y) = (if key y = i then g y else y)"
    using find_key_distinct [OF assms(1)] assms(2,3) by (cases "key y = i") force+
qed

lemma spread_edge_apply:
  assumes "wf_document d" and "stored_document d" and "edge_at d i = Some e" and "spread_edge e u = Inr e'"
    and "room_faithful d (UpdateEdge i u)"
  shows "apply_update_edge d (e_id e') (edge_update_of e') = apply_update_edge d i u"
proof -
  have e: "e \<in> set (d_edges d)" "e_id e = i" using find_Some_key [OF assms(3)] by auto
  then have "projectSavedGraphEdge e = e" using assms(2) by (simp add: stored_document_def)
  note upd = spread_edge_update [OF assms(4) this]
  have eq: "map (\<lambda>y. if e_id y = i then merge_edge y (projectSavedGraphEdgeUpdate (edge_update_of e')) else y) (d_edges d)
      = map (\<lambda>y. if e_id y = i then merge_edge y (projectSavedGraphEdgeUpdate u) else y) (d_edges d)"
    by (rule map_merge_unique [OF _ assms(3)]) (use assms(1,5) upd(2) in \<open>simp_all add: wf_document_def\<close>)
  have "e_id e' = i" using upd(1) e(2) assms(5) by simp
  then show ?thesis by (simp only: apply_update_edge_def eq)
qed

lemma spread_origin_apply:
  assumes "wf_document d" and "stored_document d" and "find (\<lambda>x. o_id x = i) (d_origins d) = Some x"
    and "spread_origin x u = Inr x'"
  shows "apply_update_origin d (o_id x') (origin_update_of x') = apply_update_origin d i u"
proof -
  have x: "x \<in> set (d_origins d)" "o_id x = i" using find_Some_key [OF assms(3)] by auto
  then have "projectSavedGraphOrigin x = x" using assms(2) by (simp add: stored_document_def)
  note upd = spread_origin_update [OF assms(4) this]
  have eq: "map (\<lambda>y. if o_id y = i then merge_origin y (projectSavedGraphOriginUpdate (origin_update_of x')) else y) (d_origins d)
      = map (\<lambda>y. if o_id y = i then merge_origin y (projectSavedGraphOriginUpdate u) else y) (d_origins d)"
    by (rule map_merge_unique [OF _ assms(3)]) (use assms(1) upd(2) in \<open>simp_all add: wf_document_def\<close>)
  have "o_id x' = i" using upd(1) x(2) by simp
  then show ?thesis by (simp only: apply_update_origin_def eq)
qed

text \<open>
  The wire form of a command, read back by the replay, is a local command with the same
  effect on the sender's document.
\<close>

lemma body_comes_back:
  assumes "toRoomGraphBodyCommand c d = Inr (Some b)" and "plug_edit c = None" and "\<And>x. c \<noteq> ReplaceDocument x"
    and "wf_document d" and "stored_document d" and "room_faithful d c"
  shows "\<exists>l. local_of_body b (Defined d) = Some l \<and> applyGraphCommand d l = applyGraphCommand d c
    \<and> replay_body gid b = replay_local (PC_InGraph gid b)"
proof (cases c)
  case (UpdateEdge i u)
  with assms(1) obtain e e' where e: "edge_at d i = Some e" "spread_edge e u = Inr e'"
    "b = RB_UpdateEdge (projectSavedGraphEdge e) e'"
    by (auto simp: bind_result_Inr_iff split: option.splits)
  have "edge_at (normalize d) i = Some e" "stored_document (normalize d)" "wf_document (normalize d)"
    using e(1) assms(4,5) by (simp_all add: normalize_stored stored_document_def wf_document_def)
  from spread_edge_apply [OF this(3,2,1) e(2)] assms(6) UpdateEdge e(3) show ?thesis
    by (simp add: applyGraphCommand_eq)
next
  case (UpdateOrigin i u)
  with assms(1) obtain x x' where x: "find (\<lambda>x. o_id x = i) (d_origins d) = Some x" "spread_origin x u = Inr x'"
    "b = RB_UpdateOrigin (projectSavedGraphOrigin x) x'"
    by (auto simp: bind_result_Inr_iff split: option.splits)
  have "find (\<lambda>x. o_id x = i) (d_origins (normalize d)) = Some x" "stored_document (normalize d)" "wf_document (normalize d)"
    using x(1) assms(4,5) by (simp_all add: normalize_stored stored_document_def wf_document_def)
  from spread_origin_apply [OF this(3,2,1) x(2)] UpdateOrigin x(3) show ?thesis
    by (simp add: applyGraphCommand_eq)
next
  case (MoveNodes ps)
  with assms(1) show ?thesis by (auto simp del: map_map)
qed (use assms in \<open>auto simp: plug_edit_def find_node_def case_prod_beta split: option.splits\<close>)

lemma replay_replace_effect:
  assumes "toRoomGraphBodyCommand (ReplaceDocument x) d = Inr (Some b)" and "applyGraphCommand d (ReplaceDocument x) = Inr d'"
  shows "\<exists>g'. replay_body (g_id g) b g = Inr g' \<and> g_name g' = g_name g \<and> same_body (authored_of g') d'"
proof -
  from assms(1) have b: "b = RB_ReplaceDocument (gd_document (createGraphDraft x Undefined))" by simp
  have "d' = normalize x" using assms(2) by (simp add: applyGraphCommand_eq apply_replace_document_def normalize_def)
  then show ?thesis
    by (simp add: b replay_replace_document_def same_body_def authored_of_eq createGraphDraft_def normalize_eq store_idem)
qed

lemma body_round_trip:
  assumes "toRoomGraphBodyCommand c (authored_of g) = Inr (Some b)" and "wf_document (authored_of g)"
    and "room_faithful (authored_of g) c" and "applyGraphCommand (authored_of g) c = Inr d'"
  shows "\<exists>g'. replay_body (g_id g) b g = Inr g' \<and> g_name g' = g_name g \<and> same_body (authored_of g') d'"
proof (cases "plug_edit c")
  case (Some r)
  obtain i f where "r = (i, f)" by fastforce
  with Some replay_plugs_effect [OF _ assms(3,2,1,4)] show ?thesis by blast
next
  case None
  show ?thesis
  proof (cases "\<exists>x. c = ReplaceDocument x")
    case True
    then obtain x where "c = ReplaceDocument x" by blast
    with assms(1,4) replay_replace_effect [of x "authored_of g" b d' g] show ?thesis by blast
  next
    case False
    with None body_comes_back [OF assms(1) None _ assms(2) stored_authored_of assms(3), of "g_id g"]
    obtain l where "local_of_body b (Defined (authored_of g)) = Some l" "applyGraphCommand (authored_of g) l = Inr d'"
      "replay_body (g_id g) b = replay_local (PC_InGraph (g_id g) b)"
      using assms(4) by auto
    with replay_local_effect show ?thesis by simp
  qed
qed

subsection \<open>Properties\<close>


definition demo_graph :: graph_definition where
  "demo_graph = \<lparr>g_id = ''g'', g_name = ''flow'',
     g_document = gd_document (createGraphDraft demo_document Undefined), g_refresh_generations = Undefined\<rparr>"

definition demo_head :: collaborative_head where
  "demo_head = \<lparr>h_project_id = ''P'', h_room_epoch = ''E'', h_collaboration_sequence = 4,
     h_checkpoint_sequence = 0, h_checkpoint_revision = 1, h_name = ''project'', h_updated_at = ''now'',
     h_graphs = [demo_graph]\<rparr>"

lemma demo_authored: "authored_of demo_graph = (normalize demo_document)\<lparr>d_name := ''flow''\<rparr>"
  by (simp add: authored_of_eq demo_graph_def createGraphDraft_def normalize_eq store_idem)

lemma demo_graph_wf: "wf_document (authored_of demo_graph)"
  by (simp add: demo_authored wf_name demo_wf)

lemma demo_head_graph:
  "graph_at demo_head ''g'' = Some demo_graph" "distinct (map g_id (h_graphs demo_head))"
  by (simp_all add: demo_head_def demo_graph_def)


text \<open>
  a replayed batch is one unit. A batch of any length moves the head to the accepted
  sequence once, never touches the room epoch, the Project id or the checkpoint, and leaves
  every Graph that no entry is addressed to exactly as it was.
\<close>

theorem batch_replay_frame:
  assumes "applyRoomCommandsToHead h cs n = Inr h'" and "cs \<noteq> []"
  shows "h_collaboration_sequence h' = n \<and> h_room_epoch h' = h_room_epoch h
     \<and> h_project_id h' = h_project_id h \<and> h_checkpoint_sequence h' = h_checkpoint_sequence h
     \<and> h_checkpoint_revision h' = h_checkpoint_revision h
     \<and> (\<forall>j. j \<notin> Option.these (command_graph ` set cs) \<longrightarrow> graph_at h' j = graph_at h j)"
  using replay_batch [OF assms(1)] assms(2) by (simp add: head_frame_def)

theorem batch_replay_frame_witness:
  "\<exists>h'. applyRoomCommandsToHead demo_head [PC_RenameProject ''x'' ''y'', PC_RemoveGraph ''z''] 5 = Inr h'
     \<and> h_collaboration_sequence h' = 5 \<and> graph_at h' ''g'' = graph_at demo_head ''g''"
proof -
  obtain h' where h': "applyRoomCommandsToHead demo_head [PC_RenameProject ''x'' ''y'', PC_RemoveGraph ''z''] 5 = Inr h'"
    by simp
  from batch_replay_frame [OF this] have "h_collaboration_sequence h' = 5" "graph_at h' ''g'' = graph_at demo_head ''g''"
    by (auto simp: in_these_eq)
  with h' show ?thesis by blast
qed

text \<open>
  the replay of a plug removal leaves dangling edges. The local command drops the edges
  and origins attached to the removed plug; its wire form \<open>set_node_input_plugs\<close>, replayed on
  the head, keeps them, so the head's document is no longer closed although the one it
  started from was.
\<close>

theorem plug_removal_replay_dangles:
  "\<exists>b h' g' d'. toRoomGraphCommand (RemoveInputPlug ''m'' ''p'') (authored_of demo_graph) ''g'' = Inr (Some b)
     \<and> applyRoomCommandToHead demo_head b 5 = Inr h' \<and> graph_at h' ''g'' = Some g'
     \<and> applyGraphCommand (authored_of demo_graph) (RemoveInputPlug ''m'' ''p'') = Inr d'
     \<and> closed_document (authored_of demo_graph) \<and> closed_document d' \<and> \<not> closed_document (authored_of g')"
proof -
  have "returns (toRoomGraphCommand (RemoveInputPlug ''m'' ''p'') (authored_of demo_graph) ''g'') (\<lambda>c. gives c (\<lambda>b.
      returns (applyRoomCommandToHead demo_head b 5) (\<lambda>h'. gives (graph_at h' ''g'') (\<lambda>g'.
        \<not> closed_document (authored_of g')))))"
    by code_simp
  moreover have "returns (applyGraphCommand (authored_of demo_graph) (RemoveInputPlug ''m'' ''p'')) closed_document"
    by code_simp
  moreover have "closed_document (authored_of demo_graph)" by code_simp
  ultimately show ?thesis unfolding returns_iff gives_iff by blast
qed

text \<open>
  an edge update that re-wires the target plug is sent to the room but lost on replay:
  the local document has the edge on the new plug, the replayed head keeps the old one.
\<close>

definition rewire_plug :: edge_update where
  "rewire_plug = \<lparr>eu_collection_mode = None, eu_enabled = None, eu_projection = None, eu_conversion_path = None,
     eu_route_offset = None, eu_to_plug = Some (Defined ''q''), eu_from_port = None, eu_to_port = None\<rparr>"

theorem edge_rewire_replay_lost:
  "\<exists>b h' g' d'. toRoomGraphCommand (UpdateEdge ''e'' rewire_plug) (authored_of demo_graph) ''g'' = Inr (Some b)
     \<and> applyRoomCommandToHead demo_head b 5 = Inr h' \<and> graph_at h' ''g'' = Some g'
     \<and> applyGraphCommand (authored_of demo_graph) (UpdateEdge ''e'' rewire_plug) = Inr d'
     \<and> map_option e_to_plug (edge_at d' ''e'') = Some (Defined ''q'')
     \<and> map_option e_to_plug (edge_at (authored_of g') ''e'') = Some (Defined ''p'')"
proof -
  have "returns (toRoomGraphCommand (UpdateEdge ''e'' rewire_plug) (authored_of demo_graph) ''g'') (\<lambda>c. gives c (\<lambda>b.
      returns (applyRoomCommandToHead demo_head b 5) (\<lambda>h'. gives (graph_at h' ''g'') (\<lambda>g'.
        map_option e_to_plug (edge_at (authored_of g') ''e'') = Some (Defined ''p'')))))"
    by code_simp
  moreover have "returns (applyGraphCommand (authored_of demo_graph) (UpdateEdge ''e'' rewire_plug))
      (\<lambda>d'. map_option e_to_plug (edge_at d' ''e'') = Some (Defined ''q''))" by code_simp
  ultimately show ?thesis unfolding returns_iff gives_iff by blast
qed

text \<open>
  replaying \<open>add_call_node\<close> never adds a node. On every head, the Graph it is addressed to
  keeps its list of node ids; the callee is not recorded anywhere.
\<close>

theorem add_call_node_adds_nothing:
  assumes "applyRoomCommandToHead h (PC_AddCallNode callee gid nid p) n = Inr h'" and "graph_at h gid = Some g"
  shows "\<exists>g'. graph_at h' gid = Some g' \<and> map n_id (sd_nodes (g_document g')) = map n_id (sd_nodes (g_document g))
     \<and> map n_operator_id (sd_nodes (g_document g')) = map n_operator_id (sd_nodes (g_document g))"
proof -
  have "g_id g = gid" using find_Some_key [OF assms(2)] by auto
  with mapGraphDocument_at(1) [OF assms(1) [unfolded applyRoomCommandToHead.simps] _ assms(2)] show ?thesis
    by (auto simp: replay_add_call_node_def)
qed

theorem add_call_node_adds_nothing_witness:
  "\<exists>h' g'. applyRoomCommandToHead demo_head (PC_AddCallNode ''callee'' ''g'' ''new'' demo_point) 5 = Inr h'
     \<and> graph_at h' ''g'' = Some g' \<and> map n_id (sd_nodes (g_document g')) = map n_id (sd_nodes (g_document demo_graph))"
proof -
  obtain h' where h': "applyRoomCommandToHead demo_head (PC_AddCallNode ''callee'' ''g'' ''new'' demo_point) 5 = Inr h'"
    using mapGraphDocument_unique [OF demo_head_graph, of "replay_add_call_node ''new'' demo_point"]
    by (auto simp: replay_add_call_node_def)
  from add_call_node_adds_nothing [OF this demo_head_graph(1)] h' show ?thesis by blast
qed

end
