(* ===== verification/CommandOutbox.thy ===== *)
theory CommandOutbox
  imports RoomBridge
begin

section \<open>The command outbox\<close>

text \<open>
  \<^verbatim>\<open>room/command-outbox.ts\<close>: the FIFO queue of command batches, the single batch in flight, the
  ids of local commands and the gate that pauses sending until a full head snapshot lands.
  The callbacks \<open>headPointer\<close> and \<open>canSend\<close> are read at the moment of a call and appear as the
  environment of each operation; settling a promise, telling a listener and handing a frame
  to the driver are the effects and sends an operation returns, in the order the code
  produces them. A command id names the promise its submission returned.
\<close>

subsection \<open>Messages\<close>

record actor_presentation =
  actor_id :: string
  display_name :: string
  color :: string

record command_submit_message =
  sub_command_id :: string
  sub_room_epoch :: string
  sub_observed_sequence :: nat
  sub_commands :: "project_command list"

record command_accepted_message =
  acc_command_id :: string
  acc_room_epoch :: string
  acc_sequence :: nat
  acc_actor :: actor_presentation
  acc_project_room_session_id :: "string option"
  acc_commands :: "project_command list"

datatype receipt_outcome = OutcomeAccepted | OutcomeIdempotentReplay

record command_receipt_message =
  rec_command_id :: string
  rec_outcome :: receipt_outcome
  rec_accepted_room_epoch :: string
  rec_accepted_sequence :: nat
  rec_current_room_epoch :: string
  rec_current_sequence :: nat
  rec_deduplicated :: bool
  rec_requires_head_rehydration :: bool

record command_rejected_message =
  rej_command_id :: string
  rej_error_code :: string
  rej_detail :: string
  rej_current_room_epoch :: "string option"
  rej_current_sequence :: "nat option"

subsection \<open>State\<close>

definition ROOM_COMMAND_QUEUE_CAP :: nat where
  "ROOM_COMMAND_QUEUE_CAP = 32"

record room_command_error =
  err_command_id :: string
  err_error_code :: string
  err_message :: string

record command_result =
  res_receipt :: command_receipt_message
  res_accepted :: "command_accepted_message option"

record head_pointer =
  hp_room_epoch :: string
  hp_collaboration_sequence :: nat

record outgoing_command =
  out_commandId :: string
  out_message :: command_submit_message

record queued_command =
  qc_commandId :: string
  qc_commands :: "project_command list"
  qc_sent :: bool
  qc_roomEpoch :: "string option"
  qc_observedSequence :: "nat option"
  qc_accepted :: "command_accepted_message option"
  qc_receipt :: "command_receipt_message option"

record outbox =
  ob_queue :: "queued_command list"
  ob_inFlight :: "queued_command option"
  ob_localCommandIds :: "string set"
  ob_awaitingHeadRehydration :: bool

text \<open>What the two callbacks answer during a call.\<close>

record outbox_env =
  env_head :: "head_pointer option"
  env_canSend :: bool

datatype outbox_effect =
    Resolve string command_result
  | Reject string room_command_error
  | RejectSubmission room_command_error
  | HeadRefreshRequired
  | CommandRejected command_rejected_message

type_synonym outbox_step = "outbox \<times> outbox_effect list \<times> outgoing_command list"

definition empty_outbox :: outbox where
  "empty_outbox = \<lparr>ob_queue = [], ob_inFlight = None, ob_localCommandIds = {}, ob_awaitingHeadRehydration = False\<rparr>"

subsection \<open>Draining and settling\<close>

definition headCoversReceipt :: "outbox_env \<Rightarrow> command_receipt_message \<Rightarrow> bool" where
  "headCoversReceipt env message =
     (case env_head env of
        None \<Rightarrow> False
      | Some head \<Rightarrow> hp_room_epoch head = rec_current_room_epoch message
          \<and> rec_current_sequence message \<le> hp_collaboration_sequence head)"

datatype snapshot_kind = SnapshotDocument | SnapshotPresentation

definition snapshotCommandKind :: "project_command list \<Rightarrow> snapshot_kind option" where
  "snapshotCommandKind commands =
     (case commands of
        [command] \<Rightarrow>
          (case command of
             PC_InGraph _ (RB_ReplaceDocument _) \<Rightarrow> Some SnapshotDocument
           | PC_InGraph _ (RB_ReplacePresentation _) \<Rightarrow> Some SnapshotPresentation
           | _ \<Rightarrow> None)
      | _ \<Rightarrow> None)"

definition drainQueue :: "outbox_env \<Rightarrow> outbox \<Rightarrow> outbox \<times> outgoing_command list" where
  "drainQueue env ob =
     (if ob_inFlight ob \<noteq> None \<or> ob_awaitingHeadRehydration ob \<or> \<not> env_canSend env then (ob, [])
      else case env_head env of
        None \<Rightarrow> (ob, [])
      | Some head \<Rightarrow>
          (case ob_queue ob of
             [] \<Rightarrow> (ob, [])
           | next # queue \<Rightarrow>
               (let roomEpoch = (case qc_roomEpoch next of None \<Rightarrow> hp_room_epoch head | Some e \<Rightarrow> e);
                    observedSequence = (case qc_observedSequence next of
                        None \<Rightarrow> hp_collaboration_sequence head | Some s \<Rightarrow> s);
                    sent = next\<lparr>qc_sent := True, qc_roomEpoch := Some roomEpoch,
                                qc_observedSequence := Some observedSequence\<rparr>
                in (ob\<lparr>ob_queue := queue, ob_inFlight := Some sent\<rparr>,
                    [\<lparr>out_commandId = qc_commandId next,
                      out_message = \<lparr>sub_command_id = qc_commandId next, sub_room_epoch = roomEpoch,
                        sub_observed_sequence = observedSequence, sub_commands = qc_commands next\<rparr>\<rparr>]))))"

definition resolveInFlightReceipt :: "queued_command \<Rightarrow> outbox \<Rightarrow> outbox \<times> outbox_effect list" where
  "resolveInFlightReceipt pending ob =
     (case qc_receipt pending of
        None \<Rightarrow> (ob, [])
      | Some receipt \<Rightarrow>
          (ob\<lparr>ob_inFlight := None\<rparr>,
           [Resolve (qc_commandId pending) \<lparr>res_receipt = receipt, res_accepted = qc_accepted pending\<rparr>]))"

definition superseded :: "snapshot_kind \<Rightarrow> queued_command \<Rightarrow> bool" where
  "superseded kind item \<longleftrightarrow> \<not> qc_sent item \<and> snapshotCommandKind (qc_commands item) = Some kind"

definition superseded_error :: "queued_command \<Rightarrow> room_command_error" where
  "superseded_error item = \<lparr>err_command_id = qc_commandId item, err_error_code = ''superseded'',
     err_message = ''A newer snapshot command replaced this queued command.''\<rparr>"

text \<open>The loop runs from the back of the queue to the front.\<close>

definition supersedeQueuedSnapshotCommand :: "project_command list \<Rightarrow> outbox \<Rightarrow> outbox \<times> outbox_effect list" where
  "supersedeQueuedSnapshotCommand commands ob =
     (case snapshotCommandKind commands of
        None \<Rightarrow> (ob, [])
      | Some kind \<Rightarrow>
          (let dropped = filter (superseded kind) (rev (ob_queue ob))
           in (ob\<lparr>ob_queue := filter (\<lambda>item. \<not> superseded kind item) (ob_queue ob),
                  ob_localCommandIds := ob_localCommandIds ob - set (map qc_commandId dropped)\<rparr>,
               map (\<lambda>item. Reject (qc_commandId item) (superseded_error item)) dropped)))"

subsection \<open>Operations\<close>

definition queue_full_error :: room_command_error where
  "queue_full_error = \<lparr>err_command_id = [], err_error_code = ''queue_full'',
     err_message = ''Waiting to synchronize. Durable authoring is paused until the queue drains.''\<rparr>"

definition held_count :: "outbox \<Rightarrow> nat" where
  "held_count ob = length (ob_queue ob) + (if ob_inFlight ob \<noteq> None then 1 else 0)"

definition submit :: "outbox_env \<Rightarrow> project_command list \<Rightarrow> string \<Rightarrow> outbox \<Rightarrow> outbox_step" where
  "submit env commands commandId ob =
     (case supersedeQueuedSnapshotCommand commands ob of (ob1, effects) \<Rightarrow>
        if ROOM_COMMAND_QUEUE_CAP \<le> held_count ob1 then (ob1, effects @ [RejectSubmission queue_full_error], [])
        else
          (let item = \<lparr>qc_commandId = commandId, qc_commands = commands, qc_sent = False, qc_roomEpoch = None,
                       qc_observedSequence = None, qc_accepted = None, qc_receipt = None\<rparr>;
               ob2 = ob1\<lparr>ob_localCommandIds := insert commandId (ob_localCommandIds ob1),
                         ob_queue := ob_queue ob1 @ [item]\<rparr>
           in (case drainQueue env ob2 of (ob3, sends) \<Rightarrow> (ob3, effects, sends))))"

definition recordAccepted :: "command_accepted_message \<Rightarrow> outbox \<Rightarrow> outbox \<times> bool" where
  "recordAccepted message ob =
     (let local = acc_command_id message \<in> ob_localCommandIds ob;
          ob1 = ob\<lparr>ob_localCommandIds := ob_localCommandIds ob - {acc_command_id message}\<rparr>
      in (case ob_inFlight ob1 of
            Some pending \<Rightarrow>
              (if qc_commandId pending = acc_command_id message
               then ob1\<lparr>ob_inFlight := Some (pending\<lparr>qc_accepted := Some message\<rparr>)\<rparr> else ob1)
          | None \<Rightarrow> ob1, local))"

definition requestHeadRefresh :: "outbox \<Rightarrow> outbox \<times> outbox_effect list" where
  "requestHeadRefresh ob = (ob\<lparr>ob_awaitingHeadRehydration := True\<rparr>, [HeadRefreshRequired])"

definition applyReceipt :: "outbox_env \<Rightarrow> command_receipt_message \<Rightarrow> outbox \<Rightarrow> outbox_step" where
  "applyReceipt env message ob =
     (case ob_inFlight ob of
        None \<Rightarrow> (ob, [], [])
      | Some inFlight \<Rightarrow>
          if qc_commandId inFlight \<noteq> rec_command_id message then (ob, [], [])
          else
            (let pending = inFlight\<lparr>qc_receipt := Some message\<rparr>;
                 ob1 = ob\<lparr>ob_localCommandIds := ob_localCommandIds ob - {rec_command_id message},
                          ob_inFlight := Some pending\<rparr>
             in if rec_requires_head_rehydration message \<or> \<not> headCoversReceipt env message
                then (case requestHeadRefresh ob1 of (ob2, effects) \<Rightarrow> (ob2, effects, []))
                else (case resolveInFlightReceipt pending ob1 of (ob2, effects) \<Rightarrow>
                        (case drainQueue env ob2 of (ob3, sends) \<Rightarrow> (ob3, effects, sends)))))"

definition finishHeadRehydration :: "outbox_env \<Rightarrow> outbox \<Rightarrow> outbox_step" where
  "finishHeadRehydration env ob =
     (let resume = (\<lambda>(ob1, effects). case drainQueue env (ob1\<lparr>ob_awaitingHeadRehydration := False\<rparr>) of
            (ob2, sends) \<Rightarrow> (ob2, effects, sends))
      in case ob_inFlight ob of
           None \<Rightarrow> resume (ob, [])
         | Some pending \<Rightarrow>
             (case qc_receipt pending of
                None \<Rightarrow> resume (ob, [])
              | Some receipt \<Rightarrow>
                  if \<not> headCoversReceipt env receipt
                  then (ob\<lparr>ob_awaitingHeadRehydration := True\<rparr>, [HeadRefreshRequired], [])
                  else resume (resolveInFlightReceipt pending ob)))"

definition pending_receipt :: "outbox \<Rightarrow> command_receipt_message option" where
  "pending_receipt ob = (case ob_inFlight ob of None \<Rightarrow> None | Some pending \<Rightarrow> qc_receipt pending)"

definition afterHeadApplied :: "outbox_env \<Rightarrow> outbox \<Rightarrow> outbox_step" where
  "afterHeadApplied env ob =
     (case pending_receipt ob of
        None \<Rightarrow> (ob, [], [])
      | Some receipt \<Rightarrow>
          if ob_awaitingHeadRehydration ob \<and> headCoversReceipt env receipt
          then finishHeadRehydration env ob else (ob, [], []))"

definition applyRejected :: "command_rejected_message \<Rightarrow> outbox \<Rightarrow> outbox_step" where
  "applyRejected message ob =
     (let ob1 = ob\<lparr>ob_localCommandIds := ob_localCommandIds ob - {rej_command_id message}\<rparr>
      in case ob_inFlight ob1 of
           None \<Rightarrow> (ob1, [CommandRejected message], [])
         | Some pending \<Rightarrow>
             if qc_commandId pending \<noteq> rej_command_id message then (ob1, [CommandRejected message], [])
             else (ob1\<lparr>ob_awaitingHeadRehydration := True, ob_inFlight := None\<rparr>,
                   [CommandRejected message,
                    Reject (qc_commandId pending) \<lparr>err_command_id = rej_command_id message,
                      err_error_code = rej_error_code message, err_message = rej_detail message\<rparr>], []))"

definition pendingReceiptIsCovered :: "outbox_env \<Rightarrow> outbox \<Rightarrow> bool" where
  "pendingReceiptIsCovered env ob =
     (case pending_receipt ob of None \<Rightarrow> False | Some receipt \<Rightarrow> headCoversReceipt env receipt)"

definition interruptInFlight :: "outbox \<Rightarrow> outbox" where
  "interruptInFlight ob =
     (case ob_inFlight ob of
        None \<Rightarrow> ob
      | Some interrupted \<Rightarrow> ob\<lparr>ob_inFlight := None, ob_queue := interrupted # ob_queue ob\<rparr>)"

definition send_failed_error :: "string \<Rightarrow> room_command_error" where
  "send_failed_error commandId = \<lparr>err_command_id = commandId, err_error_code = ''send_failed'',
     err_message = ''Failed to send the command batch.''\<rparr>"

text \<open>The driver reports an \<open>Error\<close> of its own (\<open>Some\<close>) or anything else it caught.\<close>

definition sendFailed :: "string \<Rightarrow> room_command_error option \<Rightarrow> outbox \<Rightarrow> outbox \<times> outbox_effect list" where
  "sendFailed commandId error ob =
     (case ob_inFlight ob of
        None \<Rightarrow> (ob, [])
      | Some pending \<Rightarrow>
          if qc_commandId pending \<noteq> commandId then (ob, [])
          else (ob\<lparr>ob_inFlight := None\<rparr>,
                [Reject commandId (case error of Some e \<Rightarrow> e | None \<Rightarrow> send_failed_error commandId)]))"

definition rejectAll :: "room_command_error \<Rightarrow> outbox \<Rightarrow> outbox \<times> outbox_effect list" where
  "rejectAll error ob =
     (ob\<lparr>ob_inFlight := None, ob_queue := []\<rparr>,
      (case ob_inFlight ob of None \<Rightarrow> [] | Some interrupted \<Rightarrow> [Reject (qc_commandId interrupted) error])
      @ map (\<lambda>item. Reject (qc_commandId item) error) (ob_queue ob))"

definition clearLocalCommands :: "outbox \<Rightarrow> outbox" where
  "clearLocalCommands ob = ob\<lparr>ob_localCommandIds := {}\<rparr>"

end
