(* ===== verification/Traced_System.thy ===== *)
theory Traced_System
  imports Main "HOL-Library.Multiset"
begin

section \<open>Systems that answer calls with outputs\<close>

text \<open>
  The outbox and the room session are objects whose methods change a state and emit outputs.
  \<open>reach\<close> is the set of states a sequence of calls can lead to, with the trace of calls and
  outputs. Two interfaces are stated over it: an invariant every call keeps, and a
  conservation law for what enters the object and what leaves it again.
\<close>

inductive reach ::
  "('op \<Rightarrow> 's \<Rightarrow> 's \<times> 'out list) \<Rightarrow> ('s \<Rightarrow> 'op \<Rightarrow> bool) \<Rightarrow> 's \<Rightarrow> ('op \<times> 'out list) list \<Rightarrow> 's \<Rightarrow> bool"
  for step allowed init where
  reach_init: "reach step allowed init [] init"
| reach_step: "reach step allowed init tr s \<Longrightarrow> allowed s op \<Longrightarrow> step op s = (s', outs)
     \<Longrightarrow> reach step allowed init (tr @ [(op, outs)]) s'"

inductive_cases reach_snocE: "reach step allowed init (tr @ [x]) s"

definition trace_outputs :: "('op \<times> 'out list) list \<Rightarrow> 'out list" where
  "trace_outputs tr = concat (map snd tr)"

lemma trace_outputs_simps [simp]:
  "trace_outputs [] = []" "trace_outputs (tr @ [(op, outs)]) = trace_outputs tr @ outs"
  by (simp_all add: trace_outputs_def)

text \<open>A concrete sequence of calls, run from a state.\<close>

fun run_trace :: "('op \<Rightarrow> 's \<Rightarrow> 's \<times> 'out list) \<Rightarrow> 's \<Rightarrow> 'op list \<Rightarrow> ('op \<times> 'out list) list \<times> 's" where
  "run_trace step s [] = ([], s)"
| "run_trace step s (op # ops) =
     (case step op s of (s', outs) \<Rightarrow> case run_trace step s' ops of (tr, t) \<Rightarrow> ((op, outs) # tr, t))"

fun run_allowed :: "('op \<Rightarrow> 's \<Rightarrow> 's \<times> 'out list) \<Rightarrow> ('s \<Rightarrow> 'op \<Rightarrow> bool) \<Rightarrow> 's \<Rightarrow> 'op list \<Rightarrow> bool" where
  "run_allowed step allowed s [] = True"
| "run_allowed step allowed s (op # ops) = (allowed s op \<and> run_allowed step allowed (fst (step op s)) ops)"

lemma reach_run_from:
  "reach step allowed init tr s \<Longrightarrow> run_allowed step allowed s ops
     \<Longrightarrow> reach step allowed init (tr @ fst (run_trace step s ops)) (snd (run_trace step s ops))"
proof (induction ops arbitrary: tr s)
  case (Cons op ops)
  obtain s' outs where step: "step op s = (s', outs)" by fastforce
  have "reach step allowed init (tr @ [(op, outs)]) s'"
    using Cons.prems step by (auto intro: reach_step)
  from Cons.IH [OF this] Cons.prems(2) step show ?case by (auto split: prod.splits)
qed simp

lemma reach_run:
  "run_allowed step allowed init ops
     \<Longrightarrow> reach step allowed init (fst (run_trace step init ops)) (snd (run_trace step init ops))"
  using reach_run_from [OF reach_init] by fastforce

subsection \<open>Invariants\<close>

locale invariant_system =
  fixes step :: "'op \<Rightarrow> 's \<Rightarrow> 's \<times> 'out list"
    and allowed :: "'s \<Rightarrow> 'op \<Rightarrow> bool"
    and init :: 's
    and inv :: "'s \<Rightarrow> bool"
  assumes inv_init: "inv init"
    and inv_step: "inv s \<Longrightarrow> allowed s op \<Longrightarrow> step op s = (s', outs) \<Longrightarrow> inv s'"
begin

lemma reach_inv: "reach step allowed init tr s \<Longrightarrow> inv s"
  by (induction rule: reach.induct) (auto intro: inv_init inv_step)

text \<open>A property of one call that holds under the invariant holds of every call of a trace.\<close>

lemma reach_call:
  assumes "reach step allowed init tr s" and "(op, outs) \<in> set tr"
    and "\<And>s s'. inv s \<Longrightarrow> allowed s op \<Longrightarrow> step op s = (s', outs) \<Longrightarrow> P op outs"
  shows "P op outs"
  using assms(1,2)
proof (induction rule: reach.induct)
  case (reach_step tr s op' s' outs')
  then show ?case using reach_inv [OF reach_step(1)] assms(3) by auto
qed simp

end

subsection \<open>Conservation\<close>

text \<open>
  What the object holds, what a call puts in, and what an output takes out: every call
  keeps the books balanced, so a whole trace does.
\<close>

locale conserving_system = invariant_system step allowed init inv
  for step :: "'op \<Rightarrow> 's \<Rightarrow> 's \<times> 'out list" and allowed and init and inv +
  fixes held :: "'s \<Rightarrow> 'k multiset"
    and entered :: "'op \<times> 'out list \<Rightarrow> 'k multiset"
    and leaving :: "'out \<Rightarrow> 'k multiset"
  assumes held_init: "held init = {#}"
    and held_step: "inv s \<Longrightarrow> allowed s op \<Longrightarrow> step op s = (s', outs)
      \<Longrightarrow> held s' + sum_list (map leaving outs) = held s + entered (op, outs)"
begin

lemma reach_conserves:
  "reach step allowed init tr s
     \<Longrightarrow> held s + sum_list (map leaving (trace_outputs tr)) = sum_list (map entered tr)"
proof (induction rule: reach.induct)
  case (reach_step tr s op s' outs)
  from held_step [OF reach_inv [OF reach_step(1)] reach_step(2,3)] reach_step(4)
  show ?case by (simp add: ac_simps) (metis add.assoc add.commute)
qed (simp add: held_init)

text \<open>
  When every key enters at most once, a key is either held once and never left, or left
  exactly once and is not held.
\<close>

lemma reach_exactly_once:
  assumes "reach step allowed init tr s" and "count (sum_list (map entered tr)) k = 1"
  shows "count (held s) k + count (sum_list (map leaving (trace_outputs tr))) k = 1"
  using reach_conserves [OF assms(1)] assms(2) by (metis count_union)

end

end
