(* ===== verification/CommandOutbox_Facts.thy ===== *)
theory CommandOutbox_Facts
  imports CommandOutbox Traced_System Worklist "HOL-Library.Sublist"
begin

section \<open>Correctness of the command outbox\<close>

text \<open>
  The outbox as a system of calls: its invariant, the capacity, the settlement of every
  promise exactly once, the order of sends, the identical frame of a retry, and the gate.
\<close>

subsection \<open>Calls\<close>

datatype outbox_op =
    OpSubmit "project_command list" string
  | OpRecordAccepted command_accepted_message
  | OpApplyReceipt command_receipt_message
  | OpAfterHeadApplied
  | OpFinishHeadRehydration
  | OpApplyRejected command_rejected_message
  | OpRequestHeadRefresh
  | OpInterruptInFlight
  | OpSendFailed string "room_command_error option"
  | OpRejectAll room_command_error
  | OpClearLocalCommands

datatype outbox_output = Effect outbox_effect | Send outgoing_command

definition outputs :: "outbox_step \<Rightarrow> outbox \<times> outbox_output list" where
  "outputs r = (case r of (ob, effects, sends) \<Rightarrow> (ob, map Effect effects @ map Send sends))"

definition effects_only :: "outbox \<times> outbox_effect list \<Rightarrow> outbox \<times> outbox_output list" where
  "effects_only r = (case r of (ob, effects) \<Rightarrow> (ob, map Effect effects))"

fun outbox_call :: "outbox_env \<times> outbox_op \<Rightarrow> outbox \<Rightarrow> outbox \<times> outbox_output list" where
  "outbox_call (env, OpSubmit commands i) ob = outputs (submit env commands i ob)"
| "outbox_call (env, OpRecordAccepted m) ob = (fst (recordAccepted m ob), [])"
| "outbox_call (env, OpApplyReceipt m) ob = outputs (applyReceipt env m ob)"
| "outbox_call (env, OpAfterHeadApplied) ob = outputs (afterHeadApplied env ob)"
| "outbox_call (env, OpFinishHeadRehydration) ob = outputs (finishHeadRehydration env ob)"
| "outbox_call (env, OpApplyRejected m) ob = outputs (applyRejected m ob)"
| "outbox_call (env, OpRequestHeadRefresh) ob = effects_only (requestHeadRefresh ob)"
| "outbox_call (env, OpInterruptInFlight) ob = (interruptInFlight ob, [])"
| "outbox_call (env, OpSendFailed i e) ob = effects_only (sendFailed i e ob)"
| "outbox_call (env, OpRejectAll e) ob = effects_only (rejectAll e ob)"
| "outbox_call (env, OpClearLocalCommands) ob = (clearLocalCommands ob, [])"

subsection \<open>The invariant\<close>

text \<open>Everything the outbox holds, the batch in flight first.\<close>

definition entries :: "outbox \<Rightarrow> queued_command list" where
  "entries ob = (case ob_inFlight ob of None \<Rightarrow> [] | Some p \<Rightarrow> [p]) @ ob_queue ob"

definition entry_ok :: "queued_command \<Rightarrow> bool" where
  "entry_ok q \<longleftrightarrow>
     (qc_sent q \<longleftrightarrow> qc_roomEpoch q \<noteq> None) \<and> (qc_sent q \<longleftrightarrow> qc_observedSequence q \<noteq> None)
     \<and> (case qc_receipt q of None \<Rightarrow> True | Some r \<Rightarrow> qc_sent q \<and> rec_command_id r = qc_commandId q)
     \<and> (case qc_accepted q of None \<Rightarrow> True | Some a \<Rightarrow> acc_command_id a = qc_commandId q)"

definition outbox_inv :: "outbox \<Rightarrow> bool" where
  "outbox_inv ob \<longleftrightarrow>
     length (entries ob) \<le> ROOM_COMMAND_QUEUE_CAP
     \<and> distinct (map qc_commandId (entries ob))
     \<and> list_all entry_ok (entries ob)
     \<and> list_all (\<lambda>q. \<not> qc_sent q) (tl (entries ob))
     \<and> (case ob_inFlight ob of None \<Rightarrow> True | Some p \<Rightarrow> qc_sent p)"

fun outbox_allowed :: "outbox \<Rightarrow> outbox_env \<times> outbox_op \<Rightarrow> bool" where
  "outbox_allowed ob (env, OpSubmit commands i) = (i \<notin> qc_commandId ` set (entries ob))"
| "outbox_allowed ob _ = True"

lemma held_count_entries: "held_count ob = length (entries ob)"
  by (simp add: held_count_def entries_def split: option.split)

lemma empty_outbox_inv: "outbox_inv empty_outbox"
  by (simp add: outbox_inv_def entries_def empty_outbox_def ROOM_COMMAND_QUEUE_CAP_def)

text \<open>Draining either does nothing, or stamps the front of the queue and puts it in flight.\<close>

definition stamp :: "head_pointer \<Rightarrow> queued_command \<Rightarrow> queued_command" where
  "stamp head q = q\<lparr>qc_sent := True,
     qc_roomEpoch := Some (case qc_roomEpoch q of None \<Rightarrow> hp_room_epoch head | Some e \<Rightarrow> e),
     qc_observedSequence := Some (case qc_observedSequence q of None \<Rightarrow> hp_collaboration_sequence head | Some s \<Rightarrow> s)\<rparr>"

definition frame_of :: "queued_command \<Rightarrow> outgoing_command" where
  "frame_of q = \<lparr>out_commandId = qc_commandId q, out_message =
     \<lparr>sub_command_id = qc_commandId q, sub_room_epoch = the (qc_roomEpoch q),
      sub_observed_sequence = the (qc_observedSequence q), sub_commands = qc_commands q\<rparr>\<rparr>"

lemma stamp_sel [simp]:
  "qc_commandId (stamp h q) = qc_commandId q" "qc_commands (stamp h q) = qc_commands q" "qc_sent (stamp h q)"
  "qc_receipt (stamp h q) = qc_receipt q" "qc_accepted (stamp h q) = qc_accepted q"
  by (simp_all add: stamp_def)

lemma drainQueue_cases:
  obtains (idle) "drainQueue env ob = (ob, [])"
  | (send) head q queue where "ob_inFlight ob = None" "\<not> ob_awaitingHeadRehydration ob" "env_canSend env"
      "env_head env = Some head" "ob_queue ob = q # queue"
      "drainQueue env ob = (ob\<lparr>ob_queue := queue, ob_inFlight := Some (stamp head q)\<rparr>, [frame_of (stamp head q)])"
proof (cases "ob_inFlight ob = None \<and> \<not> ob_awaitingHeadRehydration ob \<and> env_canSend env")
  case True
  then show ?thesis
  proof (cases "env_head env")
    case (Some head)
    with True show ?thesis
      by (cases "ob_queue ob") (auto simp: drainQueue_def Let_def stamp_def frame_of_def intro: that)
  qed (auto simp: drainQueue_def intro: that)
qed (auto simp: drainQueue_def intro: that)

lemma entry_ok_stamp: "entry_ok q \<Longrightarrow> entry_ok (stamp h q)"
  by (auto simp: entry_ok_def stamp_def split: option.splits)

lemma entry_ok_update:
  "entry_ok q \<Longrightarrow> qc_sent q \<Longrightarrow> qc_commandId q = rec_command_id m \<Longrightarrow> entry_ok (q\<lparr>qc_receipt := Some m\<rparr>)"
  "entry_ok q \<Longrightarrow> qc_commandId q = acc_command_id a \<Longrightarrow> entry_ok (q\<lparr>qc_accepted := Some a\<rparr>)"
  by (auto simp: entry_ok_def split: option.splits)

lemma drainQueue_inv:
  assumes "drainQueue env ob = (ob', sends)" and "outbox_inv ob"
  shows "outbox_inv ob'"
proof (cases env ob rule: drainQueue_cases)
  case idle
  with assms show ?thesis by simp
next
  case (send head q queue)
  with assms show ?thesis
    by (auto simp: outbox_inv_def entries_def entry_ok_stamp)
qed

lemma drainQueue_ids:
  "drainQueue env ob = (ob', sends) \<Longrightarrow> map qc_commandId (entries ob') = map qc_commandId (entries ob)"
  by (cases env ob rule: drainQueue_cases) (auto simp: entries_def)

subsection \<open>Every call keeps the invariant\<close>

lemma list_all_tl: "list_all P xs \<Longrightarrow> list_all P (tl xs)"
  by (cases xs) auto

lemma list_all_tl_filter:
  "list_all Q (tl xs) \<Longrightarrow> (\<And>x. \<not> Q x \<Longrightarrow> P x) \<Longrightarrow> list_all Q (tl (filter P xs))"
proof (cases xs)
  case (Cons x ys)
  assume "list_all Q (tl xs)" and keep: "\<And>x. \<not> Q x \<Longrightarrow> P x"
  with Cons have "list_all Q (filter P ys)" by (auto simp: list_all_iff)
  then show ?thesis using Cons list_all_tl [of Q "filter P ys"] by (cases "P x") simp_all
qed simp

lemma entries_flags [simp]:
  "entries (ob\<lparr>ob_awaitingHeadRehydration := b\<rparr>) = entries ob"
  "entries (ob\<lparr>ob_localCommandIds := ids\<rparr>) = entries ob"
  by (simp_all add: entries_def)

lemma inv_flags [simp]:
  "outbox_inv (ob\<lparr>ob_awaitingHeadRehydration := b\<rparr>) = outbox_inv ob"
  "outbox_inv (ob\<lparr>ob_localCommandIds := ids\<rparr>) = outbox_inv ob"
  by (simp_all add: outbox_inv_def)

lemma inv_inFlight:
  assumes "outbox_inv ob" and "ob_inFlight ob = Some p"
  shows "outbox_inv (ob\<lparr>ob_inFlight := None\<rparr>)"
    and "\<lbrakk>qc_commandId p' = qc_commandId p; qc_sent p'; entry_ok p'\<rbrakk> \<Longrightarrow> outbox_inv (ob\<lparr>ob_inFlight := Some p'\<rparr>)"
proof -
  from assms show "outbox_inv (ob\<lparr>ob_inFlight := None\<rparr>)"
    by (simp add: outbox_inv_def entries_def list_all_tl)
  show "outbox_inv (ob\<lparr>ob_inFlight := Some p'\<rparr>)"
    if "qc_commandId p' = qc_commandId p" "qc_sent p'" "entry_ok p'"
    using assms that by (simp add: outbox_inv_def entries_def)
qed

lemma inv_filter:
  assumes "outbox_inv ob" and "entries ob' = filter P (entries ob)" and "ob_inFlight ob' = ob_inFlight ob"
    and "\<And>q. qc_sent q \<Longrightarrow> P q"
  shows "outbox_inv ob'"
proof -
  have "list_all (\<lambda>q. \<not> qc_sent q) (tl (filter P (entries ob)))"
    by (rule list_all_tl_filter) (use assms(1,4) in \<open>auto simp: outbox_inv_def\<close>)
  moreover have "length (filter P (entries ob)) \<le> ROOM_COMMAND_QUEUE_CAP"
    using assms(1) order_trans [OF length_filter_le] by (auto simp: outbox_inv_def)
  moreover have "distinct (map qc_commandId (filter P (entries ob)))"
    using assms(1) by (simp add: outbox_inv_def distinct_map_filter)
  moreover have "list_all entry_ok (filter P (entries ob))"
    using assms(1) by (simp add: outbox_inv_def list_all_iff)
  moreover have "case ob_inFlight ob of None \<Rightarrow> True | Some p \<Rightarrow> qc_sent p"
    using assms(1) by (simp add: outbox_inv_def)
  ultimately show ?thesis unfolding outbox_inv_def assms(2,3) by blast
qed

lemma superseded_unsent: "qc_sent q \<Longrightarrow> \<not> superseded kind q"
  by (simp add: superseded_def)

lemma supersede_entries:
  assumes "supersedeQueuedSnapshotCommand cs ob = (ob', effects)" and "outbox_inv ob"
  obtains P where "entries ob' = filter P (entries ob)" and "ob_inFlight ob' = ob_inFlight ob"
    and "\<And>q. qc_sent q \<Longrightarrow> P q"
    and "effects = map (\<lambda>q. Reject (qc_commandId q) (superseded_error q)) (filter (\<lambda>q. \<not> P q) (rev (entries ob)))"
    and "ob_awaitingHeadRehydration ob' = ob_awaitingHeadRehydration ob"
proof (cases "snapshotCommandKind cs")
  case None
  with assms(1) that [of "\<lambda>_. True"] show ?thesis by (simp add: supersedeQueuedSnapshotCommand_def)
next
  case (Some kind)
  have "filter (superseded kind) (case ob_inFlight ob of None \<Rightarrow> [] | Some p \<Rightarrow> [p]) = []"
    using assms(2) by (auto simp: outbox_inv_def superseded_def split: option.splits)
  with Some assms that [of "\<lambda>q. \<not> superseded kind q"] show ?thesis
    by (auto simp: supersedeQueuedSnapshotCommand_def Let_def entries_def superseded_unsent outbox_inv_def
        split: option.splits)
qed

lemma inv_append:
  assumes "outbox_inv ob" and "length (entries ob) < ROOM_COMMAND_QUEUE_CAP"
    and "qc_commandId q \<notin> qc_commandId ` set (entries ob)" and "entry_ok q" and "\<not> qc_sent q"
  shows "outbox_inv (ob\<lparr>ob_localCommandIds := ids, ob_queue := ob_queue ob @ [q]\<rparr>)"
proof -
  have e: "entries (ob\<lparr>ob_localCommandIds := ids, ob_queue := ob_queue ob @ [q]\<rparr>) = entries ob @ [q]"
    by (simp add: entries_def)
  have "list_all (\<lambda>q. \<not> qc_sent q) (tl (entries ob @ [q]))"
    using assms(1,5) by (cases "entries ob") (auto simp: outbox_inv_def)
  with assms show ?thesis unfolding outbox_inv_def e by simp
qed

definition new_entry :: "project_command list \<Rightarrow> string \<Rightarrow> queued_command" where
  "new_entry commands i = \<lparr>qc_commandId = i, qc_commands = commands, qc_sent = False, qc_roomEpoch = None,
     qc_observedSequence = None, qc_accepted = None, qc_receipt = None\<rparr>"

lemma new_entry_ok: "entry_ok (new_entry cs i)" "\<not> qc_sent (new_entry cs i)" "qc_commandId (new_entry cs i) = i"
  "qc_commands (new_entry cs i) = cs"
  by (simp_all add: entry_ok_def new_entry_def)

text \<open>A submission is a supersession, then either a refusal or an append and a drain.\<close>

lemma submit_cases:
  assumes "submit env cs i ob = (ob', effects, sends)"
  obtains (full) ob1 es where "supersedeQueuedSnapshotCommand cs ob = (ob1, es)"
      "ROOM_COMMAND_QUEUE_CAP \<le> length (entries ob1)" "ob' = ob1" "effects = es @ [RejectSubmission queue_full_error]" "sends = []"
  | (queued) ob1 es ids where "supersedeQueuedSnapshotCommand cs ob = (ob1, es)"
      "length (entries ob1) < ROOM_COMMAND_QUEUE_CAP" "effects = es"
      "drainQueue env (ob1\<lparr>ob_localCommandIds := ids, ob_queue := ob_queue ob1 @ [new_entry cs i]\<rparr>) = (ob', sends)"
proof -
  obtain ob1 es where sup: "supersedeQueuedSnapshotCommand cs ob = (ob1, es)" by fastforce
  show ?thesis
  proof (cases "ROOM_COMMAND_QUEUE_CAP \<le> length (entries ob1)")
    case True
    with sup assms show ?thesis by (intro full) (auto simp: submit_def held_count_entries)
  next
    case False
    with sup assms show ?thesis
      by (intro queued [OF sup, where ids = "insert i (ob_localCommandIds ob1)"])
        (auto simp: submit_def held_count_entries Let_def new_entry_def split: prod.splits)
  qed
qed

lemma submit_inv:
  assumes "submit env cs i ob = (ob', effects, sends)" and "outbox_inv ob" and "i \<notin> qc_commandId ` set (entries ob)"
  shows "outbox_inv ob'"
  using assms(1)
proof (cases rule: submit_cases)
  case (full ob1 es)
  from supersede_entries [OF full(1) assms(2)] assms(2) show ?thesis unfolding full(3) by (metis inv_filter)
next
  case (queued ob1 es ids)
  obtain P where P: "entries ob1 = filter P (entries ob)" "ob_inFlight ob1 = ob_inFlight ob" "\<And>q. qc_sent q \<Longrightarrow> P q"
    using supersede_entries [OF queued(1) assms(2)] by metis
  have "outbox_inv ob1" by (rule inv_filter [OF assms(2) P(1,2)]) (rule P(3))
  moreover have "i \<notin> qc_commandId ` set (entries ob1)" using assms(3) P(1) by auto
  ultimately have "outbox_inv (ob1\<lparr>ob_localCommandIds := ids, ob_queue := ob_queue ob1 @ [new_entry cs i]\<rparr>)"
    using queued(2) by (intro inv_append) (simp_all add: new_entry_ok)
  then show ?thesis by (rule drainQueue_inv [OF queued(4)])
qed

lemma finish_cases:
  assumes "finishHeadRehydration env ob = (ob', effects, sends)"
  obtains (held) p r where "ob_inFlight ob = Some p" "qc_receipt p = Some r" "\<not> headCoversReceipt env r"
      "ob' = ob\<lparr>ob_awaitingHeadRehydration := True\<rparr>" "effects = [HeadRefreshRequired]" "sends = []"
  | (nothing) "pending_receipt ob = None" "effects = []"
      "drainQueue env (ob\<lparr>ob_awaitingHeadRehydration := False\<rparr>) = (ob', sends)"
  | (settle) p r where "ob_inFlight ob = Some p" "qc_receipt p = Some r" "headCoversReceipt env r"
      "effects = [Resolve (qc_commandId p) \<lparr>res_receipt = r, res_accepted = qc_accepted p\<rparr>]"
      "drainQueue env (ob\<lparr>ob_inFlight := None, ob_awaitingHeadRehydration := False\<rparr>) = (ob', sends)"
proof (cases "pending_receipt ob")
  case None
  with assms have "effects = []" "drainQueue env (ob\<lparr>ob_awaitingHeadRehydration := False\<rparr>) = (ob', sends)"
    by (auto simp: finishHeadRehydration_def pending_receipt_def Let_def split: option.splits prod.splits)
  with None show ?thesis by (rule nothing)
next
  case (Some r)
  then obtain p where p: "ob_inFlight ob = Some p" "qc_receipt p = Some r"
    by (auto simp: pending_receipt_def split: option.splits)
  show ?thesis
  proof (cases "headCoversReceipt env r")
    case True
    with p assms show ?thesis
      by (intro settle) (auto simp: finishHeadRehydration_def resolveInFlightReceipt_def Let_def split: prod.splits)
  next
    case False
    with p assms show ?thesis by (intro held) (auto simp: finishHeadRehydration_def Let_def)
  qed
qed

lemma receipt_cases:
  assumes "applyReceipt env m ob = (ob', effects, sends)"
  obtains (ignored) "ob' = ob" "effects = []" "sends = []"
  | (held) p ids where "ob_inFlight ob = Some p" "qc_commandId p = rec_command_id m"
      "rec_requires_head_rehydration m \<or> \<not> headCoversReceipt env m"
      "ob' = ob\<lparr>ob_localCommandIds := ids, ob_inFlight := Some (p\<lparr>qc_receipt := Some m\<rparr>), ob_awaitingHeadRehydration := True\<rparr>"
      "effects = [HeadRefreshRequired]" "sends = []"
  | (settle) p ids where "ob_inFlight ob = Some p" "qc_commandId p = rec_command_id m" "headCoversReceipt env m"
      "effects = [Resolve (qc_commandId p) \<lparr>res_receipt = m, res_accepted = qc_accepted p\<rparr>]"
      "drainQueue env (ob\<lparr>ob_localCommandIds := ids, ob_inFlight := None\<rparr>) = (ob', sends)"
proof (cases "\<exists>p. ob_inFlight ob = Some p \<and> qc_commandId p = rec_command_id m")
  case True
  then obtain p where p: "ob_inFlight ob = Some p" "qc_commandId p = rec_command_id m" by blast
  show ?thesis
  proof (cases "rec_requires_head_rehydration m \<or> \<not> headCoversReceipt env m")
    case True
    with p assms show ?thesis
      by (intro held) (auto simp: applyReceipt_def requestHeadRefresh_def Let_def)
  next
    case False
    with p assms show ?thesis
      by (intro settle) (auto simp: applyReceipt_def resolveInFlightReceipt_def Let_def split: prod.splits)
  qed
next
  case False
  with assms show ?thesis by (intro ignored) (auto simp: applyReceipt_def split: option.splits)
qed

lemma finish_inv:
  assumes "finishHeadRehydration env ob = (ob', effects, sends)" and "outbox_inv ob"
  shows "outbox_inv ob'"
  using assms(1)
proof (cases rule: finish_cases)
  case (settle p r)
  have "outbox_inv (ob\<lparr>ob_inFlight := None, ob_awaitingHeadRehydration := False\<rparr>)"
    using inv_inFlight(1) [OF assms(2) settle(1)] by simp
  then show ?thesis by (rule drainQueue_inv [OF settle(5)])
qed (use assms(2) drainQueue_inv in auto)

lemma receipt_inv:
  assumes "applyReceipt env m ob = (ob', effects, sends)" and "outbox_inv ob"
  shows "outbox_inv ob'"
  using assms(1)
proof (cases rule: receipt_cases)
  case (held p ids)
  have "qc_sent p" "entry_ok p" using assms(2) held(1) by (auto simp: outbox_inv_def entries_def)
  then have "entry_ok (p\<lparr>qc_receipt := Some m\<rparr>)" using held(2) by (simp add: entry_ok_update)
  with inv_inFlight(2) [of "ob\<lparr>ob_localCommandIds := ids\<rparr>" p "p\<lparr>qc_receipt := Some m\<rparr>"] assms(2) held \<open>qc_sent p\<close>
  show ?thesis by simp
next
  case (settle p ids)
  have "outbox_inv (ob\<lparr>ob_localCommandIds := ids, ob_inFlight := None\<rparr>)"
    using inv_inFlight(1) [of "ob\<lparr>ob_localCommandIds := ids\<rparr>" p] assms(2) settle(1) by simp
  then show ?thesis by (rule drainQueue_inv [OF settle(5)])
qed (use assms(2) in auto)

lemma outputs_eqD: "outputs r = (ob', outs) \<Longrightarrow> \<exists>es ss. r = (ob', es, ss) \<and> outs = map Effect es @ map Send ss"
  by (cases r) (auto simp: outputs_def)

lemma outbox_call_inv:
  assumes "outbox_inv ob" and "outbox_allowed ob call" and "outbox_call call ob = (ob', outs)"
  shows "outbox_inv ob'"
proof -
  obtain env op where call: "call = (env, op)" by fastforce
  show ?thesis
  proof (cases op)
    case (OpRecordAccepted m)
    show ?thesis
    proof (cases "\<exists>p. ob_inFlight ob = Some p \<and> qc_commandId p = acc_command_id m")
      case True
      then obtain p where p: "ob_inFlight ob = Some p" "qc_commandId p = acc_command_id m" by blast
      then have "entry_ok p" "qc_sent p" using assms(1) by (auto simp: outbox_inv_def entries_def)
      with p(2) have "entry_ok (p\<lparr>qc_accepted := Some m\<rparr>)" "qc_sent p" by (simp_all add: entry_ok_update)
      with p assms inv_inFlight(2) [of "ob\<lparr>ob_localCommandIds := ids\<rparr>" p "p\<lparr>qc_accepted := Some m\<rparr>" for ids]
      show ?thesis by (auto simp: call OpRecordAccepted recordAccepted_def Let_def)
    next
      case False
      with assms show ?thesis
        by (auto simp: call OpRecordAccepted recordAccepted_def Let_def split: option.splits)
    qed
  next
    case OpAfterHeadApplied
    with assms show ?thesis
      by (auto simp: call afterHeadApplied_def dest!: outputs_eqD intro: finish_inv split: option.splits if_splits)
  next
    case (OpApplyRejected m)
    with assms inv_inFlight(1) [of "ob\<lparr>ob_localCommandIds := ids, ob_awaitingHeadRehydration := b\<rparr>" for ids b]
    show ?thesis
      by (auto simp: call applyRejected_def Let_def outputs_def split: option.splits if_splits)
  next
    case OpInterruptInFlight
    with assms show ?thesis
      by (auto simp: call interruptInFlight_def outbox_inv_def entries_def split: option.splits)
  next
    case (OpRejectAll e)
    with assms show ?thesis
      by (auto simp: call rejectAll_def effects_only_def outbox_inv_def entries_def)
  next
    case (OpSendFailed i e)
    with assms inv_inFlight(1) [of ob] show ?thesis
      by (auto simp: call sendFailed_def effects_only_def split: option.splits if_splits)
  qed (use assms in \<open>auto simp: call effects_only_def requestHeadRefresh_def clearLocalCommands_def
      dest!: outputs_eqD intro: submit_inv receipt_inv finish_inv\<close>)
qed

interpretation outbox_sys: invariant_system outbox_call outbox_allowed empty_outbox outbox_inv
  by unfold_locales (auto intro: empty_outbox_inv outbox_call_inv)

subsection \<open>Every promise is settled once\<close>

definition held_ids :: "outbox \<Rightarrow> string multiset" where
  "held_ids ob = mset (map qc_commandId (entries ob))"

fun refuses :: "outbox_output \<Rightarrow> bool" where
  "refuses (Effect (RejectSubmission e)) = True"
| "refuses _ = False"

fun entered :: "(outbox_env \<times> outbox_op) \<times> outbox_output list \<Rightarrow> string multiset" where
  "entered ((env, OpSubmit commands i), outs) = (if list_ex refuses outs then {#} else {#i#})"
| "entered _ = {#}"

fun settled :: "outbox_output \<Rightarrow> string multiset" where
  "settled (Effect (Resolve i r)) = {#i#}"
| "settled (Effect (Reject i e)) = {#i#}"
| "settled _ = {#}"

lemma settled_sends [simp]: "sum_list (map (settled \<circ> Send) sends) = {#}"
  by (induction sends) auto

lemma settled_rejects [simp]:
  "sum_list (map (settled \<circ> (Effect \<circ> (\<lambda>q. Reject (qc_commandId q) (f q)))) qs) = mset (map qc_commandId qs)"
  by (induction qs) (auto simp: ac_simps)

lemma no_refusal [simp]:
  "\<not> list_ex refuses (map Send sends)"
  "\<not> list_ex refuses (map (Effect \<circ> (\<lambda>q. Reject (qc_commandId q) (f q))) qs)"
  by (induction sends, auto) (induction qs, auto)

lemma held_flags [simp]:
  "held_ids (ob\<lparr>ob_awaitingHeadRehydration := b\<rparr>) = held_ids ob"
  "held_ids (ob\<lparr>ob_localCommandIds := ids\<rparr>) = held_ids ob"
  by (simp_all add: held_ids_def)

lemma drainQueue_held: "drainQueue env ob = (ob', sends) \<Longrightarrow> held_ids ob' = held_ids ob"
  by (simp add: held_ids_def drainQueue_ids)

lemma held_unflight: "ob_inFlight ob = Some p \<Longrightarrow> held_ids ob = add_mset (qc_commandId p) (held_ids (ob\<lparr>ob_inFlight := None\<rparr>))"
  by (simp add: held_ids_def entries_def)

lemma held_split: "mset (map f xs) = mset (map f (filter P xs)) + mset (map f (filter (\<lambda>x. \<not> P x) (rev xs)))"
  by (induction xs) auto

lemma supersede_held:
  assumes "supersedeQueuedSnapshotCommand cs ob = (ob', es)" and "outbox_inv ob"
  shows "held_ids ob = held_ids ob' + sum_list (map settled (map Effect es))"
    and "\<not> list_ex refuses (map Effect es)"
proof -
  obtain P where P: "entries ob' = filter P (entries ob)"
    "es = map (\<lambda>q. Reject (qc_commandId q) (superseded_error q)) (filter (\<lambda>q. \<not> P q) (rev (entries ob)))"
    using supersede_entries [OF assms] by metis
  show "held_ids ob = held_ids ob' + sum_list (map settled (map Effect es))"
    using held_split [of qc_commandId "entries ob" P]
    by (simp add: held_ids_def P)
  show "\<not> list_ex refuses (map Effect es)" by (simp add: P(2))
qed

lemma submit_held:
  assumes "submit env cs i ob = (ob', es, sends)" and "outbox_inv ob"
  shows "held_ids ob' + sum_list (map settled (map Effect es @ map Send sends))
     = held_ids ob + entered ((env, OpSubmit cs i), map Effect es @ map Send sends)"
  using assms(1)
proof (cases rule: submit_cases)
  case (full ob1 es1)
  with supersede_held [OF full(1) assms(2)] show ?thesis by simp
next
  case (queued ob1 es1 ids)
  have "held_ids (ob1\<lparr>ob_localCommandIds := ids, ob_queue := ob_queue ob1 @ [new_entry cs i]\<rparr>) = add_mset i (held_ids ob1)"
    by (simp add: held_ids_def entries_def new_entry_ok)
  then have "held_ids ob' = add_mset i (held_ids ob1)" using drainQueue_held [OF queued(4)] by simp
  with queued(3) supersede_held [OF queued(1) assms(2)] show ?thesis by simp
qed

lemma finish_held:
  assumes "finishHeadRehydration env ob = (ob', es, sends)"
  shows "held_ids ob' + sum_list (map settled (map Effect es @ map Send sends)) = held_ids ob"
  using assms
proof (cases rule: finish_cases)
  case (settle p r)
  have "held_ids ob' = held_ids (ob\<lparr>ob_inFlight := None\<rparr>)" using drainQueue_held [OF settle(5)] by simp
  with settle(4) held_unflight [OF settle(1)] show ?thesis by simp
qed (auto dest: drainQueue_held)

lemma receipt_held:
  assumes "applyReceipt env m ob = (ob', es, sends)"
  shows "held_ids ob' + sum_list (map settled (map Effect es @ map Send sends)) = held_ids ob"
  using assms
proof (cases rule: receipt_cases)
  case (held p ids)
  then show ?thesis by (simp add: held_ids_def entries_def)
next
  case (settle p ids)
  have "held_ids ob' = held_ids (ob\<lparr>ob_localCommandIds := ids, ob_inFlight := None\<rparr>)"
    using drainQueue_held [OF settle(5)] by simp
  with settle(4) held_unflight [of "ob\<lparr>ob_localCommandIds := ids\<rparr>" p] settle(1) show ?thesis by simp
qed simp

lemma outbox_call_held:
  assumes "outbox_inv ob" and "outbox_call call ob = (ob', outs)"
  shows "held_ids ob' + sum_list (map settled outs) = held_ids ob + entered (call, outs)"
proof -
  obtain env op where call: "call = (env, op)" by fastforce
  show ?thesis
  proof (cases op)
    case (OpSubmit cs i)
    with assms submit_held show ?thesis by (auto simp: call dest!: outputs_eqD)
  next
    case (OpApplyReceipt m)
    with assms receipt_held show ?thesis by (fastforce simp: call dest!: outputs_eqD)
  next
    case OpFinishHeadRehydration
    with assms finish_held show ?thesis by (fastforce simp: call dest!: outputs_eqD)
  next
    case OpAfterHeadApplied
    with assms finish_held show ?thesis
      by (fastforce simp: call afterHeadApplied_def dest!: outputs_eqD split: option.splits if_splits)
  next
    case (OpRecordAccepted m)
    with assms show ?thesis
      by (auto simp: call recordAccepted_def Let_def held_ids_def entries_def split: option.splits if_splits)
  next
    case (OpApplyRejected m)
    with assms show ?thesis
      by (auto simp: call applyRejected_def Let_def outputs_def held_ids_def entries_def split: option.splits if_splits)
  next
    case (OpRejectAll e)
    have "sum_list (map settled (map Effect (map (\<lambda>item. Reject (qc_commandId item) e) qs))) = mset (map qc_commandId qs)" for qs
      by (induction qs) (auto simp: ac_simps)
    with OpRejectAll assms show ?thesis
      by (auto simp: call rejectAll_def effects_only_def held_ids_def entries_def split: option.splits)
  qed (use assms in \<open>auto simp: call effects_only_def requestHeadRefresh_def clearLocalCommands_def
      interruptInFlight_def sendFailed_def held_ids_def entries_def split: option.splits if_splits\<close>)
qed

interpretation outbox_books: conserving_system outbox_call outbox_allowed empty_outbox outbox_inv held_ids entered settled
proof unfold_locales
  show "held_ids empty_outbox = {#}" by (simp add: held_ids_def entries_def empty_outbox_def)
qed (rule outbox_call_held)

subsection \<open>When a frame is sent, and when a promise resolves\<close>

text \<open>The gate: nothing in flight before, no pause, a head to stamp with, and a driver that can write.\<close>

definition sends_of :: "outbox_output list \<Rightarrow> outgoing_command list" where
  "sends_of outs = concat (map (\<lambda>out. case out of Send m \<Rightarrow> [m] | Effect _ \<Rightarrow> []) outs)"

lemma sends_of_simps [simp]:
  "sends_of [] = []" "sends_of (xs @ ys) = sends_of xs @ sends_of ys"
  "sends_of (map Effect es) = []" "sends_of (map Send ms) = ms"
  "sends_of (Effect e # outs) = sends_of outs" "sends_of (Send m # outs) = m # sends_of outs"
  by (simp_all add: sends_of_def comp_def)

lemma sends_of_map_comp [simp]: "sends_of (map (\<lambda>x. Effect (f x)) xs) = []" "sends_of (map (Effect \<circ> f) xs) = []"
  by (simp_all add: sends_of_def comp_def)

definition gate_open :: "outbox_env \<Rightarrow> outbox \<Rightarrow> outgoing_command list \<Rightarrow> bool" where
  "gate_open env ob' sends \<longleftrightarrow>
     sends = [] \<or> (env_canSend env \<and> env_head env \<noteq> None \<and> \<not> ob_awaitingHeadRehydration ob'
       \<and> (\<exists>p. ob_inFlight ob' = Some p \<and> sends = [frame_of p]))"

lemma drainQueue_gate: "drainQueue env ob = (ob', sends) \<Longrightarrow> gate_open env ob' sends"
  by (cases env ob rule: drainQueue_cases) (auto simp: gate_open_def)

lemma gate_nothing [simp]: "gate_open env ob' []"
  by (simp add: gate_open_def)

lemma finish_gate: "finishHeadRehydration env ob = (ob', es, sends) \<Longrightarrow> gate_open env ob' sends"
  by (erule finish_cases) (auto dest: drainQueue_gate)

lemma receipt_gate: "applyReceipt env m ob = (ob', es, sends) \<Longrightarrow> gate_open env ob' sends"
  by (erule receipt_cases) (auto dest: drainQueue_gate)

lemma submit_gate: "submit env cs i ob = (ob', es, sends) \<Longrightarrow> gate_open env ob' sends"
  by (erule submit_cases) (auto dest: drainQueue_gate)

lemma outbox_call_gate:
  assumes "outbox_call (env, op) ob = (ob', outs)"
  shows "gate_open env ob' (sends_of outs)"
  using assms
  by (cases op)
    (auto simp: effects_only_def requestHeadRefresh_def sendFailed_def rejectAll_def afterHeadApplied_def
      applyRejected_def Let_def
      dest!: outputs_eqD intro: submit_gate receipt_gate finish_gate split: option.splits if_splits)

text \<open>A resolved promise carries a receipt of its own command that the head already covers.\<close>

lemma resolved_is_covered:
  assumes "outbox_inv ob" and "outbox_call (env, op) ob = (ob', outs)" and "Effect (Resolve i r) \<in> set outs"
  shows "headCoversReceipt env (res_receipt r) \<and> rec_command_id (res_receipt r) = i"
proof -
  have entry: "rec_command_id r = qc_commandId p" if "ob_inFlight ob = Some p" "qc_receipt p = Some r" for p r
    using assms(1) that by (auto simp: outbox_inv_def entries_def entry_ok_def)
  have fin: ?thesis if "finishHeadRehydration env ob = (ob', es, sends)" "Resolve i r \<in> set es" for es sends
    using that by (cases rule: finish_cases) (auto dest: entry)
  have rc: ?thesis if "applyReceipt env m ob = (ob', es, sends)" "Resolve i r \<in> set es" for m es sends
    using that by (cases rule: receipt_cases) auto
  have sb: "Resolve i r \<notin> set es" if "submit env cs k ob = (ob', es, sends)" for cs k es sends
    using that by (cases rule: submit_cases) (auto simp: supersedeQueuedSnapshotCommand_def Let_def split: option.splits)
  show ?thesis
  proof (cases op)
    case (OpSubmit cs k)
    with assms(2,3) sb show ?thesis by (auto dest!: outputs_eqD)
  next
    case (OpApplyReceipt m)
    with assms(2,3) rc show ?thesis by (fastforce dest!: outputs_eqD)
  next
    case OpAfterHeadApplied
    with assms(2,3) fin show ?thesis
      by (fastforce simp: afterHeadApplied_def dest!: outputs_eqD split: option.splits if_splits)
  next
    case OpFinishHeadRehydration
    with assms(2,3) fin show ?thesis by (fastforce dest!: outputs_eqD)
  qed (use assms(2,3) in \<open>auto simp: effects_only_def outputs_def requestHeadRefresh_def sendFailed_def rejectAll_def
      applyRejected_def Let_def split: option.splits if_splits\<close>)
qed

subsection \<open>Order of sends and identical retries\<close>

text \<open>
  What matters for sending is the list of entries without their replies. A call first
  shortens that list or appends a new entry to it, then may drain its front.
\<close>

definition core :: "queued_command \<Rightarrow> queued_command" where
  "core q = q\<lparr>qc_accepted := None, qc_receipt := None\<rparr>"

definition cores :: "outbox \<Rightarrow> queued_command list" where
  "cores ob = map core (entries ob)"

lemma core_sel [simp]:
  "qc_commandId (core q) = qc_commandId q" "qc_sent (core q) = qc_sent q" "frame_of (core q) = frame_of q"
  "core (q\<lparr>qc_receipt := r\<rparr>) = core q" "core (q\<lparr>qc_accepted := a\<rparr>) = core q" "core (stamp h q) = stamp h (core q)"
  "core (new_entry cs i) = new_entry cs i"
  by (simp_all add: core_def frame_of_def stamp_def new_entry_def)

definition drained :: "queued_command list \<Rightarrow> queued_command list \<Rightarrow> outgoing_command list \<Rightarrow> bool" where
  "drained qs qs' sends \<longleftrightarrow> (qs' = qs \<and> sends = [])
     \<or> (\<exists>q rest head. qs = q # rest \<and> qs' = stamp head q # rest \<and> sends = [frame_of (stamp head q)])"

definition edited :: "outbox_env \<times> outbox_op \<Rightarrow> outbox_output list \<Rightarrow> queued_command list \<Rightarrow> queued_command list \<Rightarrow> bool" where
  "edited call outs qs qs' \<longleftrightarrow>
     (case call of
        (env, OpSubmit cs i) \<Rightarrow>
          (if list_ex refuses outs then subseq qs' qs
           else \<exists>mid. subseq mid qs \<and> qs' = mid @ [new_entry cs i])
      | _ \<Rightarrow> subseq qs' qs)"

lemma drainQueue_drained:
  "drainQueue env ob = (ob', sends) \<Longrightarrow> drained (cores ob) (cores ob') sends"
proof (cases env ob rule: drainQueue_cases)
  case (send head q queue)
  assume "drainQueue env ob = (ob', sends)"
  with send have "cores ob = core q # map core queue" "cores ob' = stamp head (core q) # map core queue"
    "sends = [frame_of (stamp head (core q))]"
    by (auto simp: cores_def entries_def simp flip: core_sel(6))
  then show ?thesis unfolding drained_def by blast
qed (auto simp: drained_def)

lemma cores_flags [simp]:
  "cores (ob\<lparr>ob_awaitingHeadRehydration := b\<rparr>) = cores ob" "cores (ob\<lparr>ob_localCommandIds := ids\<rparr>) = cores ob"
  by (simp_all add: cores_def)

lemma cores_unflight: "subseq (cores (ob\<lparr>ob_inFlight := None\<rparr>)) (cores ob)"
  by (auto simp: cores_def entries_def intro: list_emb_append2 split: option.split)

lemma drained_refl [simp]: "drained qs qs []"
  by (simp add: drained_def)

lemma submit_shape:
  assumes "submit env cs i ob = (ob', es, sends)" and "outbox_inv ob"
  shows "\<exists>mid. edited (env, OpSubmit cs i) (map Effect es @ map Send sends) (cores ob) mid \<and> drained mid (cores ob') sends"
  using assms(1)
proof (cases rule: submit_cases)
  case (full ob1 es1)
  obtain P where "entries ob1 = filter P (entries ob)" using supersede_entries [OF full(1) assms(2)] by metis
  then have "subseq (cores ob1) (cores ob)" by (simp add: cores_def subseq_map)
  with full show ?thesis by (auto simp: edited_def)
next
  case (queued ob1 es1 ids)
  obtain P where "entries ob1 = filter P (entries ob)" using supersede_entries [OF queued(1) assms(2)] by metis
  then have "subseq (cores ob1) (cores ob)" by (simp add: cores_def subseq_map)
  moreover have "cores (ob1\<lparr>ob_localCommandIds := ids, ob_queue := ob_queue ob1 @ [new_entry cs i]\<rparr>) = cores ob1 @ [new_entry cs i]"
    by (simp add: cores_def entries_def)
  ultimately show ?thesis
    using drainQueue_drained [OF queued(4)] supersede_held(2) [OF queued(1) assms(2)] queued(3)
    by (intro exI [of _ "cores ob1 @ [new_entry cs i]"]) (auto simp: edited_def)
qed

lemma finish_shape:
  assumes "finishHeadRehydration env ob = (ob', es, sends)"
  shows "\<exists>mid. subseq mid (cores ob) \<and> drained mid (cores ob') sends"
  using assms
proof (cases rule: finish_cases)
  case (settle p r)
  with cores_unflight [of ob] drainQueue_drained [OF settle(5)] show ?thesis by auto
qed (use drainQueue_drained in \<open>fastforce+\<close>)

lemma receipt_shape:
  assumes "applyReceipt env m ob = (ob', es, sends)"
  shows "\<exists>mid. subseq mid (cores ob) \<and> drained mid (cores ob') sends"
  using assms
proof (cases rule: receipt_cases)
  case (held p ids)
  then have "cores ob' = cores ob" by (simp add: cores_def entries_def)
  with held show ?thesis by auto
next
  case (settle p ids)
  with cores_unflight [of "ob\<lparr>ob_localCommandIds := ids\<rparr>"] drainQueue_drained [OF settle(5)] show ?thesis by auto
qed auto

lemma outbox_call_shape:
  assumes "outbox_inv ob" and "outbox_call call ob = (ob', outs)"
  shows "\<exists>mid. edited call outs (cores ob) mid \<and> drained mid (cores ob') (sends_of outs)"
proof -
  obtain env op where call: "call = (env, op)" by fastforce
  show ?thesis
  proof (cases op)
    case (OpSubmit cs i)
    with assms submit_shape [of env cs i ob] show ?thesis by (auto simp: call dest!: outputs_eqD)
  next
    case (OpApplyReceipt m)
    with assms receipt_shape show ?thesis by (fastforce simp: call edited_def dest!: outputs_eqD)
  next
    case OpAfterHeadApplied
    show ?thesis
    proof (cases "afterHeadApplied env ob = finishHeadRehydration env ob")
      case True
      with OpAfterHeadApplied assms finish_shape show ?thesis by (fastforce simp: call edited_def dest!: outputs_eqD)
    next
      case False
      then have "afterHeadApplied env ob = (ob, [], [])"
        by (auto simp: afterHeadApplied_def split: option.splits)
      with OpAfterHeadApplied assms show ?thesis by (auto simp: call edited_def outputs_def)
    qed
  next
    case OpFinishHeadRehydration
    with assms finish_shape show ?thesis by (fastforce simp: call edited_def dest!: outputs_eqD)
  next
    case (OpRecordAccepted m)
    with assms have "cores ob' = cores ob" "outs = []"
      by (auto simp: call recordAccepted_def Let_def cores_def entries_def split: option.splits if_splits)
    with OpRecordAccepted show ?thesis by (auto simp: call edited_def)
  next
    case (OpApplyRejected m)
    with assms have "subseq (cores ob') (cores ob)" "sends_of outs = []"
      by (auto simp: call applyRejected_def Let_def outputs_def cores_def entries_def split: option.splits if_splits)
    with OpApplyRejected show ?thesis by (auto simp: call edited_def)
  next
    case OpInterruptInFlight
    with assms have "cores ob' = cores ob" "outs = []"
      by (auto simp: call interruptInFlight_def cores_def entries_def split: option.splits)
    with OpInterruptInFlight show ?thesis by (auto simp: call edited_def)
  next
    case (OpSendFailed i e)
    with assms have "subseq (cores ob') (cores ob)" "sends_of outs = []"
      by (auto simp: call sendFailed_def effects_only_def cores_def entries_def split: option.splits if_splits)
    with OpSendFailed show ?thesis by (auto simp: call edited_def)
  next
    case (OpRejectAll e)
    with assms have "cores ob' = []" "sends_of outs = []"
      by (auto simp: call rejectAll_def effects_only_def cores_def entries_def split: option.splits)
    with OpRejectAll show ?thesis by (auto simp: call edited_def)
  qed (use assms in \<open>auto simp: call edited_def effects_only_def requestHeadRefresh_def clearLocalCommands_def\<close>)
qed

text \<open>The ids of the batches a trace let into the queue, in order.\<close>

definition submitted_of :: "(outbox_env \<times> outbox_op) \<times> outbox_output list \<Rightarrow> string list" where
  "submitted_of x = (case x of ((env, op), outs) \<Rightarrow>
     (case op of OpSubmit cs i \<Rightarrow> (if list_ex refuses outs then [] else [i]) | _ \<Rightarrow> []))"

definition submitted :: "((outbox_env \<times> outbox_op) \<times> outbox_output list) list \<Rightarrow> string list" where
  "submitted tr = concat (map submitted_of tr)"

lemma submitted_simps [simp]: "submitted [] = []" "submitted (tr @ [x]) = submitted tr @ submitted_of x"
  by (simp_all add: submitted_def)

lemma entered_submitted: "entered x = mset (submitted_of x)"
  by (cases x rule: entered.cases) (auto simp: submitted_of_def)

lemma sum_entered: "sum_list (map entered tr) = mset (submitted tr)"
  by (induction tr) (auto simp: entered_submitted submitted_def)

text \<open>
  The history relates the frames written so far, the submissions so far and the entries now:
  first sends followed by what is still unsent are in submission order; a held entry that was
  sent before has exactly the frame that was sent.
\<close>

definition history :: "outgoing_command list \<Rightarrow> string list \<Rightarrow> queued_command list \<Rightarrow> bool" where
  "history frames subs qs \<longleftrightarrow>
     subseq (js_set (map out_commandId frames) @ map qc_commandId (filter (\<lambda>q. \<not> qc_sent q) qs)) subs
     \<and> set (map qc_commandId qs) \<subseteq> set subs
     \<and> (\<forall>m\<in>set frames. \<forall>q\<in>set qs. qc_commandId q = out_commandId m \<longrightarrow> qc_sent q \<and> frame_of q = m)
     \<and> (\<forall>q\<in>set qs. qc_sent q \<longrightarrow> frame_of q \<in> set frames)
     \<and> (\<forall>m\<in>set frames. \<forall>m'\<in>set frames. out_commandId m = out_commandId m' \<longrightarrow> m = m')"

lemma historyD:
  assumes "history frames subs qs"
  shows "subseq (js_set (map out_commandId frames) @ map qc_commandId (filter (\<lambda>q. \<not> qc_sent q) qs)) subs"
    and "set (map qc_commandId qs) \<subseteq> set subs"
    and "\<And>m q. m \<in> set frames \<Longrightarrow> q \<in> set qs \<Longrightarrow> qc_commandId q = out_commandId m \<Longrightarrow> qc_sent q \<and> frame_of q = m"
    and "\<And>q. q \<in> set qs \<Longrightarrow> qc_sent q \<Longrightarrow> frame_of q \<in> set frames"
    and "\<And>m m'. m \<in> set frames \<Longrightarrow> m' \<in> set frames \<Longrightarrow> out_commandId m = out_commandId m' \<Longrightarrow> m = m'"
  using assms unfolding history_def by blast+

lemma subseq_set: "subseq xs ys \<Longrightarrow> set xs \<subseteq> set ys"
  by (auto elim: list_emb_set)

lemma history_sent_known: "history frames subs qs \<Longrightarrow> out_commandId ` set frames \<subseteq> set subs"
  using subseq_set [OF historyD(1), of frames subs qs] by auto

lemma history_subseq:
  assumes "history frames subs qs" and "subseq qs' qs"
  shows "history frames subs qs'"
proof -
  have "subseq (map qc_commandId (filter (\<lambda>q. \<not> qc_sent q) qs')) (map qc_commandId (filter (\<lambda>q. \<not> qc_sent q) qs))"
    by (intro subseq_map subseq_filter assms(2))
  then have "subseq (js_set (map out_commandId frames) @ map qc_commandId (filter (\<lambda>q. \<not> qc_sent q) qs'))
      (js_set (map out_commandId frames) @ map qc_commandId (filter (\<lambda>q. \<not> qc_sent q) qs))"
    by (simp add: list_emb_append_mono)
  from subseq_order.order_trans [OF this historyD(1) [OF assms(1)]]
  have "subseq (js_set (map out_commandId frames) @ map qc_commandId (filter (\<lambda>q. \<not> qc_sent q) qs')) subs" .
  moreover have "set qs' \<subseteq> set qs" using assms(2) by (rule subseq_set)
  ultimately show ?thesis using historyD(2-) [OF assms(1)] unfolding history_def by auto
qed

lemma history_snoc:
  assumes "history frames subs qs" and "i \<notin> set subs"
  shows "history frames (subs @ [i]) (qs @ [new_entry cs i])"
proof -
  have new: "i \<notin> out_commandId ` set frames" using history_sent_known [OF assms(1)] assms(2) by blast
  have "subseq ((js_set (map out_commandId frames) @ map qc_commandId (filter (\<lambda>q. \<not> qc_sent q) qs)) @ [i]) (subs @ [i])"
    by (rule list_emb_append_mono [OF historyD(1) [OF assms(1)]]) simp
  then show ?thesis using historyD(2-) [OF assms(1)] new unfolding history_def
    by (intro conjI) (auto simp: new_entry_ok)
qed

lemma history_again:
  assumes "history frames subs (q # rest)" and "qc_sent q" and "entry_ok q"
  shows "history (frames @ [frame_of (stamp head q)]) subs (stamp head q # rest)"
proof -
  have same: "stamp head q = q" using assms(2,3) by (auto simp: stamp_def entry_ok_def)
  have known: "frame_of q \<in> set frames" using historyD(4) [OF assms(1), of q] assms(2) by simp
  then have "out_commandId (frame_of q) \<in> out_commandId ` set frames" by simp
  then have "js_set (map out_commandId (frames @ [frame_of q])) = js_set (map out_commandId frames)"
    by (simp add: js_set_snoc)
  moreover have "set (frames @ [frame_of q]) = set frames" using known by auto
  ultimately show ?thesis using assms(1) unfolding history_def same by simp
qed

lemma history_first:
  assumes "history frames subs (q # rest)" and "\<not> qc_sent q" and "list_all (\<lambda>q. \<not> qc_sent q) rest"
    and "qc_commandId q \<notin> qc_commandId ` set rest"
  shows "history (frames @ [frame_of (stamp head q)]) subs (stamp head q # rest)"
proof -
  let ?m = "frame_of (stamp head q)"
  have id: "out_commandId ?m = qc_commandId q" by (simp add: frame_of_def)
  have fresh: "qc_commandId q \<notin> out_commandId ` set frames"
    using historyD(3) [OF assms(1), of _ q] assms(2) by auto
  have unsent: "filter (\<lambda>q. \<not> qc_sent q) rest = rest"
    using assms(3) by (simp add: filter_id_conv list_all_iff)
  have order: "subseq (js_set (map out_commandId (frames @ [?m])) @ map qc_commandId (filter (\<lambda>q. \<not> qc_sent q) (stamp head q # rest))) subs"
    using historyD(1) [OF assms(1)] assms(2) fresh by (simp add: js_set_snoc id unsent)
  have held: "qc_sent x \<and> frame_of x = m"
    if "m \<in> set (frames @ [?m])" "x \<in> set (stamp head q # rest)" "qc_commandId x = out_commandId m" for m x
    using that historyD(3) [OF assms(1), of m x] fresh assms(4) id by (auto simp: rev_image_eqI)
  have unique: "m = m'" if "m \<in> set (frames @ [?m])" "m' \<in> set (frames @ [?m])" "out_commandId m = out_commandId m'" for m m'
    using that historyD(5) [OF assms(1), of m m'] fresh id by (auto simp: rev_image_eqI)
  have sent: "frame_of x \<in> set (frames @ [?m])" if "x \<in> set (stamp head q # rest)" "qc_sent x" for x
    using that historyD(4) [OF assms(1), of x] by auto
  show ?thesis unfolding history_def
    using order historyD(2) [OF assms(1)] held sent unique by (intro conjI ballI impI) (auto simp del: set_append)
qed

lemma history_drained:
  assumes "history frames subs qs" and "drained qs qs' sends"
    and "distinct (map qc_commandId qs)" and "list_all (\<lambda>q. \<not> qc_sent q) (tl qs)" and "list_all entry_ok qs"
  shows "history (frames @ sends) subs qs'"
  using assms(2) unfolding drained_def
proof (elim disjE exE conjE)
  fix q rest head
  assume "qs = q # rest" and "qs' = stamp head q # rest" and "sends = [frame_of (stamp head q)]"
  with assms show ?thesis by (cases "qc_sent q") (simp_all add: history_again history_first)
qed (use assms(1) in simp)

definition well_queued :: "queued_command list \<Rightarrow> bool" where
  "well_queued qs \<longleftrightarrow> distinct (map qc_commandId qs) \<and> list_all (\<lambda>q. \<not> qc_sent q) (tl qs) \<and> list_all entry_ok qs"

lemma entry_ok_core: "entry_ok q \<Longrightarrow> entry_ok (core q)"
  by (auto simp: entry_ok_def core_def)

lemma well_queued_cores: "outbox_inv ob \<Longrightarrow> well_queued (cores ob)"
proof -
  have "map qc_commandId (map core qs) = map qc_commandId qs" "tl (map core qs) = map core (tl qs)" for qs
    by (simp_all add: map_tl)
  then show "outbox_inv ob \<Longrightarrow> well_queued (cores ob)"
    by (auto simp: well_queued_def outbox_inv_def cores_def list_all_iff entry_ok_core simp del: map_map)
qed

lemma list_all_tl_subseq:
  assumes "subseq xs ys" and "list_all Q (tl ys)"
  shows "list_all Q (tl xs)"
proof (cases ys)
  case (Cons y ys')
  have all: "\<forall>z\<in>set ys'. Q z" using assms(2) Cons by (simp add: list_all_iff)
  show ?thesis
  proof (cases xs)
    case (Cons x xs')
    with assms(1) \<open>ys = y # ys'\<close> have "subseq xs' ys'" by (auto dest: subseq_Cons' split: if_splits)
    with all Cons show ?thesis using subseq_set by (fastforce simp: list_all_iff)
  qed simp
qed (use assms(1) list_emb_Nil2 in fastforce)

lemma distinct_subseq: "subseq xs ys \<Longrightarrow> distinct ys \<Longrightarrow> distinct xs"
proof (induction rule: list_emb.induct)
  case (list_emb_Cons2 x y xs ys)
  then show ?case using subseq_set by fastforce
qed auto

lemma well_queued_subseq:
  assumes "well_queued qs" and "subseq qs' qs"
  shows "well_queued qs'"
proof -
  have "distinct (map qc_commandId qs')"
    using assms by (auto simp: well_queued_def intro: distinct_subseq subseq_map)
  with assms list_all_tl_subseq [OF assms(2)] subseq_set [OF assms(2)] show ?thesis
    by (auto simp: well_queued_def list_all_iff)
qed

lemma well_queued_snoc:
  "well_queued qs \<Longrightarrow> i \<notin> qc_commandId ` set qs \<Longrightarrow> well_queued (qs @ [new_entry cs i])"
  unfolding well_queued_def by (cases qs) (auto simp: new_entry_ok)

lemma reach_history:
  "reach outbox_call outbox_allowed empty_outbox tr ob \<Longrightarrow> distinct (submitted tr)
     \<Longrightarrow> history (sends_of (trace_outputs tr)) (submitted tr) (cores ob)"
proof (induction rule: reach.induct)
  case reach_init
  show ?case by (simp add: history_def cores_def entries_def empty_outbox_def)
next
  case (reach_step tr ob call ob' outs)
  note h = reach_step.IH
  have dist: "distinct (submitted tr)" "set (submitted tr) \<inter> set (submitted_of (call, outs)) = {}"
    using reach_step.prems by auto
  have inv: "outbox_inv ob" using reach_step.hyps(1) by (rule outbox_sys.reach_inv)
  obtain mid where mid: "edited call outs (cores ob) mid" "drained mid (cores ob') (sends_of outs)"
    using outbox_call_shape [OF inv reach_step.hyps(3)] by blast
  have "history (sends_of (trace_outputs tr)) (submitted tr @ submitted_of (call, outs)) mid \<and> well_queued mid"
  proof (cases "submitted_of (call, outs)")
    case Nil
    then have "subseq mid (cores ob)"
      using mid(1) by (auto simp: edited_def submitted_of_def split: prod.splits outbox_op.splits if_splits)
    with Nil h [OF dist(1)] well_queued_cores [OF inv] show ?thesis
      by (auto intro: history_subseq well_queued_subseq)
  next
    case (Cons i more)
    then obtain cs mid0 where m: "subseq mid0 (cores ob)" "mid = mid0 @ [new_entry cs i]" "submitted_of (call, outs) = [i]"
      using mid(1) by (auto simp: edited_def submitted_of_def split: prod.splits outbox_op.splits if_splits)
    have "history (sends_of (trace_outputs tr)) (submitted tr) mid0" "well_queued mid0"
      using h [OF dist(1)] well_queued_cores [OF inv] m(1) by (auto intro: history_subseq well_queued_subseq)
    moreover have "i \<notin> set (submitted tr)" using dist(2) m(3) by simp
    ultimately show ?thesis
      using historyD(2) [of _ "submitted tr" mid0] m(2,3) history_snoc [of _ "submitted tr" mid0 i cs] well_queued_snoc [of mid0 i cs]
      by (metis (no_types, lifting) list.set_map subsetD)
  qed
  with history_drained [OF _ mid(2)] show ?case by (simp add: well_queued_def)
qed

subsection \<open>Properties\<close>

text \<open>A concrete run: two submissions, an interrupted connection, a snapshot that resumes the drain.\<close>

definition demo_env :: outbox_env where
  "demo_env = \<lparr>env_head = Some \<lparr>hp_room_epoch = ''E'', hp_collaboration_sequence = 4\<rparr>, env_canSend = True\<rparr>"

definition later_env :: outbox_env where
  "later_env = \<lparr>env_head = Some \<lparr>hp_room_epoch = ''E'', hp_collaboration_sequence = 9\<rparr>, env_canSend = True\<rparr>"

definition demo_receipt :: command_receipt_message where
  "demo_receipt = \<lparr>rec_command_id = ''c1'', rec_outcome = OutcomeAccepted, rec_accepted_room_epoch = ''E'',
     rec_accepted_sequence = 5, rec_current_room_epoch = ''E'', rec_current_sequence = 5,
     rec_deduplicated = False, rec_requires_head_rehydration = False\<rparr>"

definition demo_calls :: "(outbox_env \<times> outbox_op) list" where
  "demo_calls = [(demo_env, OpSubmit [PC_RenameProject ''x'' ''y''] ''c1''), (demo_env, OpSubmit [PC_RemoveGraph ''g''] ''c2''),
     (demo_env, OpInterruptInFlight), (later_env, OpFinishHeadRehydration), (later_env, OpApplyReceipt demo_receipt)]"

definition demo_trace :: "((outbox_env \<times> outbox_op) \<times> outbox_output list) list" where
  "demo_trace = fst (run_trace outbox_call empty_outbox demo_calls)"

definition demo_outbox :: outbox where
  "demo_outbox = snd (run_trace outbox_call empty_outbox demo_calls)"

lemma demo_allowed: "run_allowed outbox_call outbox_allowed empty_outbox demo_calls"
  by code_simp

lemma demo_reach: "reach outbox_call outbox_allowed empty_outbox demo_trace demo_outbox"
  unfolding demo_trace_def demo_outbox_def by (rule reach_run [OF demo_allowed])

lemma demo_submitted: "submitted demo_trace = [''c1'', ''c2'']"
  by code_simp

lemma demo_sends:
  "map out_commandId (sends_of (trace_outputs demo_trace)) = [''c1'', ''c1'', ''c2'']"
  by code_simp

text \<open>
  the queue is bounded. Whatever the sequence of calls, the outbox never holds more than
  32 batches, the one in flight included, and at most the first of what it holds has been
  sent.
\<close>

theorem outbox_bounded:
  assumes "reach outbox_call outbox_allowed empty_outbox tr ob"
  shows "held_count ob \<le> ROOM_COMMAND_QUEUE_CAP \<and> (\<forall>q. q \<in> set (tl (entries ob)) \<longrightarrow> \<not> qc_sent q)"
  using outbox_sys.reach_inv [OF assms] by (auto simp: outbox_inv_def held_count_entries list_all_iff)

theorem outbox_bounded_witness: "held_count demo_outbox \<le> ROOM_COMMAND_QUEUE_CAP"
  using outbox_bounded [OF demo_reach] by blast

text \<open>
  C9: every promise is settled exactly once. For every batch let into the queue, in any
  sequence of calls with fresh command ids, either it is still held once and was never
  settled, or it was resolved or rejected exactly once and is held no more.
\<close>

theorem settled_exactly_once:
  assumes "reach outbox_call outbox_allowed empty_outbox tr ob"
    and "distinct (submitted tr)" and "i \<in> set (submitted tr)"
  shows "count (held_ids ob) i + count (sum_list (map settled (trace_outputs tr))) i = 1"
proof (rule outbox_books.reach_exactly_once [OF assms(1)])
  show "count (sum_list (map entered tr)) i = 1"
    unfolding sum_entered using assms(2,3) by (simp add: distinct_count_atmost_1)
qed

theorem settled_exactly_once_witness:
  "count (held_ids demo_outbox) ''c1'' + count (sum_list (map settled (trace_outputs demo_trace))) ''c1'' = 1"
  by (rule settled_exactly_once [OF demo_reach]) (simp_all add: demo_submitted)

text \<open>
  batches leave in order. The first sends of the batches, over any sequence of calls,
  interruptions and supersessions included, are a subsequence of the order they were
  submitted in.
\<close>

theorem sends_in_submission_order:
  assumes "reach outbox_call outbox_allowed empty_outbox tr ob" and "distinct (submitted tr)"
  shows "subseq (js_set (map out_commandId (sends_of (trace_outputs tr)))) (submitted tr)"
proof -
  from historyD(1) [OF reach_history [OF assms]]
  have "subseq (js_set (map out_commandId (sends_of (trace_outputs tr)))
      @ map qc_commandId (filter (\<lambda>q. \<not> qc_sent q) (cores ob))) (submitted tr)" .
  then show ?thesis by (rule list_emb_appendD [THEN exE]) (auto intro: list_emb_append2)
qed

theorem sends_in_submission_order_witness:
  "subseq (js_set (map out_commandId (sends_of (trace_outputs demo_trace)))) [''c1'', ''c2'']"
  using sends_in_submission_order [OF demo_reach] by (simp add: demo_submitted)

text \<open>
  C11: a retry is the same submission. Two frames ever written for one command id are equal:
  same epoch, same observed sequence, same commands, however far the head has moved in
  between, so the server recognises the replay.
\<close>

theorem retries_are_identical:
  assumes "reach outbox_call outbox_allowed empty_outbox tr ob" and "distinct (submitted tr)"
    and "m \<in> set (sends_of (trace_outputs tr))" and "m' \<in> set (sends_of (trace_outputs tr))"
    and "out_commandId m = out_commandId m'"
  shows "m = m'"
  using historyD(5) [OF reach_history [OF assms(1,2)] assms(3-5)] .

theorem retries_are_identical_witness:
  "sends_of (trace_outputs demo_trace) ! 0 = sends_of (trace_outputs demo_trace) ! 1"
proof -
  have len: "length (sends_of (trace_outputs demo_trace)) = 3" using arg_cong [OF demo_sends, of length] by simp
  have "out_commandId (sends_of (trace_outputs demo_trace) ! 0) = out_commandId (sends_of (trace_outputs demo_trace) ! 1)"
    using arg_cong [OF demo_sends, of "\<lambda>xs. (xs ! 0, xs ! 1)"] len by (simp add: nth_map)
  then show ?thesis by (intro retries_are_identical [OF demo_reach]) (simp_all add: demo_submitted len)
qed

text \<open>
  the gate. A call writes a frame only while the driver can send, a head is known and no
  snapshot is awaited; it writes at most one, and that batch is then the one in flight. A
  promise resolves only with a receipt for its own command that the head already covers.
\<close>

theorem outbox_gate:
  assumes "reach outbox_call outbox_allowed empty_outbox tr ob" and "outbox_call (env, op) ob = (ob', outs)"
  shows "(sends_of outs = [] \<or> env_canSend env \<and> env_head env \<noteq> None \<and> \<not> ob_awaitingHeadRehydration ob'
            \<and> (\<exists>p. ob_inFlight ob' = Some p \<and> sends_of outs = [frame_of p]))
     \<and> (\<forall>i r. Effect (Resolve i r) \<in> set outs \<longrightarrow>
            headCoversReceipt env (res_receipt r) \<and> rec_command_id (res_receipt r) = i)"
  using outbox_call_gate [OF assms(2)] resolved_is_covered [OF outbox_sys.reach_inv [OF assms(1)] assms(2)]
  by (simp add: gate_open_def)

theorem outbox_gate_witness:
  "\<exists>ob' outs. outbox_call (demo_env, OpRequestHeadRefresh) demo_outbox = (ob', outs) \<and> sends_of outs = []"
  using outbox_gate [OF demo_reach, of demo_env OpRequestHeadRefresh]
  by (simp add: effects_only_def requestHeadRefresh_def)

text \<open>
  the queue keeps moving. When the receipt of the batch in flight is covered by the head,
  its promise resolves and, if the driver can send, the next queued batch leaves in the same
  call.
\<close>

theorem covered_receipt_sends_next:
  assumes "ob_inFlight ob = Some p" and "rec_command_id m = qc_commandId p" and "headCoversReceipt env m"
    and "\<not> rec_requires_head_rehydration m" and "\<not> ob_awaitingHeadRehydration ob" and "env_canSend env"
    and "ob_queue ob = q # rest"
  shows "\<exists>ob' head. env_head env = Some head
     \<and> applyReceipt env m ob = (ob', [Resolve (qc_commandId p) \<lparr>res_receipt = m, res_accepted = qc_accepted p\<rparr>],
         [frame_of (stamp head q)])
     \<and> ob_queue ob' = rest \<and> ob_inFlight ob' = Some (stamp head q)"
proof -
  from assms(3) obtain head where "env_head env = Some head"
    by (auto simp: headCoversReceipt_def split: option.splits)
  with assms show ?thesis
    by (simp add: applyReceipt_def resolveInFlightReceipt_def drainQueue_def Let_def stamp_def frame_of_def)
qed

definition demo_busy :: outbox where
  "demo_busy = snd (run_trace outbox_call empty_outbox (take 2 demo_calls))"

theorem covered_receipt_sends_next_witness:
  "\<exists>ob' effects m. applyReceipt later_env demo_receipt demo_busy = (ob', effects, [m]) \<and> out_commandId m = ''c2''"
proof -
  have busy: "gives (ob_inFlight demo_busy) (\<lambda>p. qc_commandId p = ''c1'')"
    "map qc_commandId (ob_queue demo_busy) = [''c2'']" "\<not> ob_awaitingHeadRehydration demo_busy"
    by code_simp+
  then obtain p q where p: "ob_inFlight demo_busy = Some p" "qc_commandId p = ''c1''"
    and q: "ob_queue demo_busy = [q]" "qc_commandId q = ''c2''"
    by (auto simp: gives_iff)
  have "\<exists>ob' head. env_head later_env = Some head
     \<and> applyReceipt later_env demo_receipt demo_busy
        = (ob', [Resolve (qc_commandId p) \<lparr>res_receipt = demo_receipt, res_accepted = qc_accepted p\<rparr>], [frame_of (stamp head q)])
     \<and> ob_queue ob' = [] \<and> ob_inFlight ob' = Some (stamp head q)"
    by (rule covered_receipt_sends_next [OF p(1) _ _ _ busy(3) _ q(1)])
      (simp_all add: demo_receipt_def p(2) headCoversReceipt_def later_env_def)
  then obtain ob' head where "applyReceipt later_env demo_receipt demo_busy
      = (ob', [Resolve (qc_commandId p) \<lparr>res_receipt = demo_receipt, res_accepted = qc_accepted p\<rparr>], [frame_of (stamp head q)])"
    by blast
  then show ?thesis using q(2) by (auto simp: frame_of_def)
qed

text \<open>
  a snapshot of one Graph cancels the unsent snapshot of another. Supersession compares
  only the inner kind of the command, so submitting \<open>replace_document\<close> for one Graph rejects
  the queued \<open>replace_document\<close> of a different Graph, whose document is then never sent.
\<close>

theorem snapshot_supersedes_other_graph:
  assumes "ob_inFlight ob = Some p" and "ob_queue ob = [new_entry [PC_InGraph g (RB_ReplaceDocument d)] i]"
  shows "\<exists>ob' effects. submit env [PC_InGraph g' (RB_ReplaceDocument d')] j ob = (ob', effects, [])
     \<and> Reject i (superseded_error (new_entry [PC_InGraph g (RB_ReplaceDocument d)] i)) \<in> set effects
     \<and> map qc_commandId (ob_queue ob') = [j]"
  using assms
  by (simp add: submit_def supersedeQueuedSnapshotCommand_def snapshotCommandKind_def superseded_def new_entry_def
      Let_def held_count_def ROOM_COMMAND_QUEUE_CAP_def drainQueue_def)

definition demo_two_graphs :: outbox where
  "demo_two_graphs = \<lparr>ob_queue = [new_entry [PC_InGraph ''A'' (RB_ReplaceDocument empty_graph_document)] ''c2''],
     ob_inFlight = Some (new_entry [PC_RemoveGraph ''z''] ''c1''), ob_localCommandIds = {}, ob_awaitingHeadRehydration = False\<rparr>"

theorem snapshot_supersedes_other_graph_witness:
  "\<exists>ob' effects. submit demo_env [PC_InGraph ''B'' (RB_ReplaceDocument empty_graph_document)] ''c3'' demo_two_graphs = (ob', effects, [])
     \<and> map qc_commandId (ob_queue ob') = [''c3'']"
proof -
  have "ob_inFlight demo_two_graphs = Some (new_entry [PC_RemoveGraph ''z''] ''c1'')"
    "ob_queue demo_two_graphs = [new_entry [PC_InGraph ''A'' (RB_ReplaceDocument empty_graph_document)] ''c2'']"
    by (simp_all add: demo_two_graphs_def)
  from snapshot_supersedes_other_graph [OF this, of demo_env "''B''" empty_graph_document "''c3''"] show ?thesis by auto
qed

end
