(* ===== verification/Js_Text.thy ===== *)
theory Js_Text
  imports Prelude
begin

section \<open>Text functions of the platform\<close>

text \<open>
  What the code uses of JavaScript's string functions: the text of an integer, joining and
  splitting on a separator, and percent encoding, with the laws that make them a wire format:
  numbers and joined lists can be told apart again, and decoding undoes encoding. A percent
  escape of a character outside the model's characters (code 256 and beyond) decodes to nothing
  here.
\<close>

subsection \<open>Numbers and lists\<close>

text \<open>\<open>String(n)\<close> of a non-negative integer, and \<open>Array.join\<close>.\<close>

fun decimal :: "nat \<Rightarrow> string" where
  "decimal n = (if n < 10 then [char_of (48 + n)] else decimal (n div 10) @ [char_of (48 + n mod 10)])"

declare decimal.simps [simp del]

fun js_join :: "string \<Rightarrow> string list \<Rightarrow> string" where
  "js_join sep [] = []"
| "js_join sep [x] = x"
| "js_join sep (x # y # ys) = x @ sep @ js_join sep (y # ys)"

definition decimal_value :: "string \<Rightarrow> nat" where
  "decimal_value s = foldl (\<lambda>a c. a * 10 + (of_char c - 48)) 0 s"

lemma decimal_value_decimal [simp]: "decimal_value (decimal n) = n"
proof (induction n rule: decimal.induct)
  case (1 n)
  show ?case
  proof (cases "n < 10")
    case True
    then show ?thesis by (subst decimal.simps) (simp add: decimal_value_def)
  next
    case False
    then have "decimal_value (decimal n) = decimal_value (decimal (n div 10)) * 10 + n mod 10"
      by (subst decimal.simps) (simp add: decimal_value_def)
    with 1 False show ?thesis by simp
  qed
qed

lemma decimal_inj [simp]: "decimal m = decimal n \<longleftrightarrow> m = n"
  by (metis decimal_value_decimal)

lemma decimal_not_Nil [simp]: "decimal n \<noteq> []"
  by (subst decimal.simps) simp

lemma digit_not_NUL: "d < 10 \<Longrightarrow> char_of (48 + d) \<noteq> CHR 0x00" for d :: nat
proof
  assume digit: "d < 10" and eq: "char_of (48 + d) = CHR 0x00"
  from digit have "(of_char (char_of (48 + d) :: char) :: nat) = 48 + d" by simp
  moreover have "(of_char (CHR 0x00) :: nat) = 0" by simp
  ultimately show False unfolding eq by simp
qed

lemma decimal_no_NUL [simp]: "CHR 0x00 \<notin> set (decimal n)"
proof (induction n rule: decimal.induct)
  case (1 n)
  show ?case
  proof (cases "n < 10")
    case True
    then show ?thesis using digit_not_NUL [of n] by (subst decimal.simps) auto
  next
    case False
    then show ?thesis using 1 digit_not_NUL [of "n mod 10"] by (subst decimal.simps) auto
  qed
qed

lemma append_sep_inj:
  "c \<notin> set x \<Longrightarrow> c \<notin> set x' \<Longrightarrow> x @ c # r = x' @ c # r' \<Longrightarrow> x = x' \<and> r = r'"
  by (induction x arbitrary: x') (auto simp: Cons_eq_append_conv append_eq_Cons_conv)

lemma js_join_no_sep: "\<forall>x\<in>set xs. c \<notin> set x \<Longrightarrow> c \<in> set (js_join [c] xs) \<longleftrightarrow> 2 \<le> length xs"
  by (induction "[c]" xs rule: js_join.induct) auto

lemma js_join_inj:
  assumes "xs \<noteq> []" "ys \<noteq> []" "\<forall>x\<in>set xs. c \<notin> set x" "\<forall>x\<in>set ys. c \<notin> set x"
    and "js_join [c] xs = js_join [c] ys"
  shows "xs = ys"
  using assms
proof (induction xs arbitrary: ys)
  case (Cons x xs)
  then obtain y ys' where ys: "ys = y # ys'" by (cases ys) auto
  show ?case
  proof (cases xs)
    case Nil
    then show ?thesis using Cons.prems js_join_no_sep [of ys c] ys by (cases ys') auto
  next
    case xs: (Cons x2 xs2)
    with Cons.prems have "ys' \<noteq> []" using js_join_no_sep [of "x # xs" c] ys by (cases ys') auto
    then obtain y2 ys2 where ys': "ys' = y2 # ys2" by (cases ys') auto
    have "x = y \<and> js_join [c] xs = js_join [c] ys'"
      using Cons.prems xs ys ys' by (intro append_sep_inj [of c]) auto
    then show ?thesis using Cons.IH [of ys'] Cons.prems xs ys ys' by auto
  qed
qed simp

lemma js_join_set: "set (js_join sep xs) \<subseteq> (\<Union>x\<in>set xs. set x) \<union> set sep"
  by (induction sep xs rule: js_join.induct) auto

text \<open>\<open>String(n)\<close> of an integer.\<close>

definition int_text :: "int \<Rightarrow> string" where
  "int_text n = (if n < 0 then CHR ''-'' # decimal (nat (- n)) else decimal (nat n))"

lemma digit_char: "c \<in> set (decimal n) \<Longrightarrow> \<exists>d < 10. c = char_of (48 + d :: nat)"
proof (induction n rule: decimal.induct)
  case (1 n)
  show ?case
  proof (cases "n < 10")
    case True
    then show ?thesis using "1.prems" by (subst (asm) decimal.simps) auto
  next
    case False
    with "1.prems" have "c \<in> set (decimal (n div 10)) \<or> c = char_of (48 + n mod 10)"
      by (subst (asm) decimal.simps) auto
    then show ?thesis using "1.IH" [OF False] by (auto intro: exI [of _ "n mod 10"])
  qed
qed

lemma digit_code: "c \<in> set (decimal n) \<Longrightarrow> 48 \<le> (of_char c :: nat) \<and> (of_char c :: nat) \<le> 57"
  using digit_char [of c n] by auto

lemma not_in_decimal: "(of_char c :: nat) < 48 \<or> 57 < (of_char c :: nat) \<Longrightarrow> c \<notin> set (decimal n)"
  using digit_code by fastforce

lemma int_text_inj [simp]: "int_text m = int_text n \<longleftrightarrow> m = n"
proof -
  have "CHR ''-'' \<notin> set (decimal k)" for k by (rule not_in_decimal) simp
  then have "decimal k \<noteq> CHR ''-'' # xs" for k xs by (metis list.set_intros(1))
  moreover from this have "CHR ''-'' # xs \<noteq> decimal k" for k xs by metis
  ultimately show ?thesis by (auto simp: int_text_def)
qed

lemma not_in_int_text: "(of_char c :: nat) < 45 \<or> 57 < (of_char c :: nat) \<Longrightarrow> c \<notin> set (int_text n)"
  using not_in_decimal [of c] by (auto simp: int_text_def)

text \<open>\<open>String.split\<close> on a non-empty separator.\<close>

function split_from :: "string \<Rightarrow> string \<Rightarrow> string \<Rightarrow> string list" where
  "split_from sep acc [] = [rev acc]"
| "split_from sep acc (c # s) =
     (if sep \<noteq> [] \<and> take (length sep) (c # s) = sep
      then rev acc # split_from sep [] (drop (length sep) (c # s))
      else split_from sep (c # acc) s)"
  by pat_completeness auto

termination
  by (relation "measure (\<lambda>(sep, acc, s). length s)") auto

definition js_split :: "string \<Rightarrow> string \<Rightarrow> string list" where
  "js_split sep s = split_from sep [] s"

lemma split_from_skip:
  "d \<notin> set x \<Longrightarrow> split_from (d # ds) acc (x @ rest) = split_from (d # ds) (rev x @ acc) rest"
  by (induction x arbitrary: acc) auto

lemma split_from_sep: "split_from (d # ds) acc (d # ds @ rest) = rev acc # split_from (d # ds) [] rest"
  by simp

text \<open>Splitting undoes joining when no part holds the first character of the separator.\<close>

lemma split_join:
  assumes "parts \<noteq> []" "\<forall>x\<in>set parts. d \<notin> set x"
  shows "js_split (d # ds) (js_join (d # ds) parts) = parts"
  using assms
proof (induction parts)
  case (Cons x xs)
  show ?case
  proof (cases xs)
    case Nil
    then show ?thesis using Cons.prems split_from_skip [of d x ds "[]" "[]"] by (simp add: js_split_def)
  next
    case (Cons y ys)
    then show ?thesis
      using Cons.IH Cons.prems split_from_skip [of d x ds "[]" "d # ds @ js_join (d # ds) (y # ys)"]
        split_from_sep [of d ds "rev x" "js_join (d # ds) (y # ys)"]
      by (simp add: js_split_def)
  qed
qed simp

subsection \<open>Percent encoding\<close>

definition unreserved :: "char \<Rightarrow> bool" where
  "unreserved c \<longleftrightarrow>
     (let n = (of_char c :: nat) in (48 \<le> n \<and> n \<le> 57) \<or> (65 \<le> n \<and> n \<le> 90) \<or> (97 \<le> n \<and> n \<le> 122))
     \<or> c \<in> set ''-_.!~*()'' \<or> c = CHR 39"

definition hex_digit :: "nat \<Rightarrow> char" where
  "hex_digit n = (if n < 10 then char_of (48 + n) else char_of (55 + n))"

definition percent :: "nat \<Rightarrow> string" where
  "percent byte = [CHR ''%'', hex_digit (byte div 16), hex_digit (byte mod 16)]"

text \<open>The UTF-8 bytes of a code unit below 256, each as a percent escape.\<close>

definition encode_char :: "char \<Rightarrow> string" where
  "encode_char c =
     (if unreserved c then [c]
      else let n = (of_char c :: nat)
           in if n < 128 then percent n else percent (192 + n div 64) @ percent (128 + n mod 64))"

definition encodeURIComponent :: "string \<Rightarrow> string" where
  "encodeURIComponent s = concat (map encode_char s)"

definition hex_value :: "char \<Rightarrow> nat option" where
  "hex_value c =
     (let n = (of_char c :: nat)
      in if 48 \<le> n \<and> n \<le> 57 then Some (n - 48)
         else if 65 \<le> n \<and> n \<le> 70 then Some (n - 55)
         else if 97 \<le> n \<and> n \<le> 102 then Some (n - 87)
         else None)"

text \<open>One escape \<open>%XX\<close> at the front of a text.\<close>

definition take_byte :: "string \<Rightarrow> (nat \<times> string) option" where
  "take_byte s =
     (case s of
        p # a # b # rest \<Rightarrow>
          if p = CHR ''%''
          then (case (hex_value a, hex_value b) of (Some x, Some y) \<Rightarrow> Some (16 * x + y, rest) | _ \<Rightarrow> None)
          else None
      | _ \<Rightarrow> None)"

lemma take_byte_shorter: "take_byte s = Some (n, rest) \<Longrightarrow> length rest < length s"
  by (auto simp: take_byte_def split: list.splits if_splits option.splits)

function decodeURIComponent :: "string \<Rightarrow> string option" where
  "decodeURIComponent s =
     (case s of
        [] \<Rightarrow> Some []
      | c # rest \<Rightarrow>
          if c \<noteq> CHR ''%'' then map_option ((#) c) (decodeURIComponent rest)
          else case take_byte s of
            None \<Rightarrow> None
          | Some (n, rest1) \<Rightarrow>
              if n < 128 then map_option ((#) (char_of n)) (decodeURIComponent rest1)
              else case take_byte rest1 of
                None \<Rightarrow> None
              | Some (m, rest2) \<Rightarrow>
                  if 194 \<le> n \<and> n \<le> 195 \<and> 128 \<le> m \<and> m \<le> 191
                  then map_option ((#) (char_of (64 * (n - 192) + (m - 128)))) (decodeURIComponent rest2)
                  else None)"
  by pat_completeness auto

termination
  by (relation "measure length") (auto dest!: take_byte_shorter)

declare decodeURIComponent.simps [simp del]

lemma hex_value_digit: "n < 16 \<Longrightarrow> hex_value (hex_digit n) = Some n"
  by (auto simp: hex_value_def hex_digit_def Let_def)

lemma take_byte_percent: "n < 256 \<Longrightarrow> take_byte (percent n @ rest) = Some (n, rest)"
  by (simp add: take_byte_def percent_def hex_value_digit)

lemma decode_one_byte:
  assumes "n < 128"
  shows "decodeURIComponent (percent n @ rest) = map_option ((#) (char_of n)) (decodeURIComponent rest)"
proof -
  obtain cs where cs: "percent n @ rest = CHR ''%'' # cs" by (simp add: percent_def)
  from take_byte_percent [of n rest] assms have "take_byte (CHR ''%'' # cs) = Some (n, rest)" by (simp add: cs)
  then show ?thesis unfolding cs by (subst decodeURIComponent.simps) (simp add: assms)
qed

lemma decode_two_bytes:
  assumes "194 \<le> a" "a \<le> 195" "128 \<le> b" "b \<le> 191"
  shows "decodeURIComponent (percent a @ percent b @ rest) = map_option ((#) (char_of (64 * (a - 192) + (b - 128)))) (decodeURIComponent rest)"
proof -
  obtain cs where cs: "percent a @ percent b @ rest = CHR ''%'' # cs" by (simp add: percent_def)
  from take_byte_percent [of a "percent b @ rest"] assms have "take_byte (CHR ''%'' # cs) = Some (a, percent b @ rest)" by (simp add: cs)
  moreover have "take_byte (percent b @ rest) = Some (b, rest)" using assms by (simp add: take_byte_percent)
  moreover have "\<not> a < 128" using assms by simp
  ultimately show ?thesis unfolding cs using assms by (subst decodeURIComponent.simps) simp
qed

lemma decode_encode_char:
  "decodeURIComponent (encode_char c @ rest) = map_option ((#) c) (decodeURIComponent rest)"
proof (cases "unreserved c")
  case True
  then have "c \<noteq> CHR ''%''" by (auto simp: unreserved_def Let_def)
  with True show ?thesis by (subst decodeURIComponent.simps) (simp add: encode_char_def)
next
  case False
  define n where "n = (of_char c :: nat)"
  have n: "n < 256" "c = char_of n" by (simp_all add: n_def)
  show ?thesis
  proof (cases "n < 128")
    case True
    then have enc: "encode_char c = percent n" using False by (simp add: encode_char_def n_def Let_def)
    show ?thesis unfolding enc using True n(2) by (simp add: decode_one_byte)
  next
    case high: False
    then have enc: "encode_char c = percent (192 + n div 64) @ percent (128 + n mod 64)"
      using False by (simp add: encode_char_def n_def Let_def)
    have bounds: "194 \<le> 192 + n div 64" "192 + n div 64 \<le> 195" "128 + n mod 64 < 192" "n mod 64 \<le> 63"
      using high n by auto
    have "64 * (192 + n div 64 - 192) + (128 + n mod 64 - 128) = n" by simp
    with decode_two_bytes [of "192 + n div 64" "128 + n mod 64" rest] bounds n(2) show ?thesis unfolding enc by simp
  qed
qed

lemma decode_encode [simp]: "decodeURIComponent (encodeURIComponent s) = Some s"
proof (induction s)
  case Nil
  then show ?case by (subst decodeURIComponent.simps) (simp add: encodeURIComponent_def)
next
  case (Cons c s)
  then show ?case using decode_encode_char [of c "encodeURIComponent s"] by (simp add: encodeURIComponent_def)
qed

end
