(* ===== verification/RoomProtocol.thy ===== *)
theory RoomProtocol
  imports CommandOutbox Js_Text
begin

section \<open>The room protocol\<close>

text \<open>
  \<^verbatim>\<open>room/protocol.ts\<close>: the messages of the Project room, the parser that turns an untrusted JSON
  value into one of them or refuses it, the text of an instance key and the classification of
  a close frame. The parser checks the envelope of a head, of its Graphs and of each command and
  then casts the value to its TypeScript type; the typed reading of a Graph document and of a
  command is the parameter \<open>wire_types\<close>, while every field the parser checks is read here.
\<close>

subsection \<open>Versions and close codes\<close>

definition ROOM_PROTOCOL_VERSION :: int where
  "ROOM_PROTOCOL_VERSION = 1"

definition CLOSE_PERMISSIONS_CHANGED :: int where
  "CLOSE_PERMISSIONS_CHANGED = 4003"

definition CLOSE_ACCESS_REVOKED :: int where
  "CLOSE_ACCESS_REVOKED = 4004"

definition CLOSE_PROTOCOL_ERROR :: int where
  "CLOSE_PROTOCOL_ERROR = 4008"

definition CLOSE_SLOW_CONSUMER :: int where
  "CLOSE_SLOW_CONSUMER = 4009"

definition CLOSE_PROJECT_DELETED :: int where
  "CLOSE_PROJECT_DELETED = 4010"

subsection \<open>Failures and status\<close>

datatype terminal_reason = AccessRevoked | ProjectDeleted | ProtocolIncompatible | ReconnectExhausted

datatype recovery_reason = ConnectionLost | PermissionsChanged | ProtocolError | SlowConsumer

datatype room_reason = Recovery recovery_reason | Terminal terminal_reason

datatype failure_side = SideClient | SideServer | SideNetwork

datatype failure_phase = PhaseConnect | PhaseReceive | PhaseClose

record room_failure =
  f_workspaceId :: string
  f_projectId :: string
  f_projectRoomSessionId :: "string option"
  f_reason :: room_reason
  f_retryable :: bool
  f_side :: failure_side
  f_phase :: failure_phase
  f_messageType :: "string option"
  f_protocolVersion :: "js_number option"
  f_closeCode :: "int option"
  f_detail :: string

datatype room_status = Idle | Connecting | Ready | Reconnecting | Unsynchronized | Stopped

subsection \<open>Messages\<close>

record capability_snapshot =
  cs_capabilities :: "string list"
  cs_authorization_version :: nat

datatype presence_activity = MovingNodes | EditingNode | ConnectingNodes

record presence_point =
  pp_x :: rat
  pp_y :: rat

record transient_position =
  tp_node_id :: string
  tp_x :: rat
  tp_y :: rat

record participant =
  pa_project_room_session_id :: string
  pa_actor :: actor_presentation
  pa_graph_id :: "string option"
  pa_presence_sequence :: nat
  pa_cursor :: "presence_point option"
  pa_selected_node_ids :: "string list"
  pa_selected_edge_ids :: "string list"
  pa_activity :: "presence_activity option"
  pa_activity_target_ids :: "string list"
  pa_transient_node_positions :: "transient_position list"

record instance_key =
  ik_project_id :: string
  ik_graph_id :: string
  ik_call_path :: "string list"
  ik_node_id :: string
  ik_map_index :: "nat option"

datatype instance_state_name = Fresh | Stale | Queued | Running | Failed

record instance_state = instance_key +
  is_state :: instance_state_name
  is_fingerprint :: string
  is_last_result_fingerprint :: "string option"
  is_error :: "string option"

record active_run =
  ar_run_id :: string
  ar_graph_id :: string
  ar_targets :: "run_target list"
  ar_starter :: "actor_presentation option"
  ar_started_at :: string
  ar_cancellable :: bool

datatype terminal_run_status = RunSucceeded | RunFailed | RunCancelled | RunInterrupted

record ready_message =
  rd_workspace_id :: string
  rd_project_id :: string
  rd_project_room_session_id :: string
  rd_actor :: actor_presentation
  rd_capabilities :: capability_snapshot
  rd_head :: collaborative_head
  rd_participants :: "participant list"
  rd_active_runs :: "active_run list"
  rd_instances :: "instance_state list"
  rd_registry_marker :: string

record run_finished_message =
  rf_run_id :: string
  rf_status :: terminal_run_status
  rf_error :: "string option"

record instances_changed_message =
  ic_changed :: "instance_state list"
  ic_removed :: "instance_key list"
  ic_head_sequence :: nat

datatype server_message =
    RoomReady ready_message
  | CommandAccepted command_accepted_message
  | CommandReceipt command_receipt_message
  | CommandRejection command_rejected_message
  | RoomRehydrate collaborative_head
  | RoomHeartbeat nat
  | PresenceJoin participant
  | PresenceLeave string
  | PresenceUpdate participant
  | RunStarted active_run
  | RunFinished run_finished_message
  | InstancesChanged instances_changed_message

subsection \<open>Reading a JSON value\<close>

text \<open>
  Property access \<open>value.name\<close>: a missing property is undefined. Arrays are objects too, and none
  of the names read here is a property of an array or of the object prototype.
\<close>

definition getp :: "json \<Rightarrow> string \<Rightarrow> json" where
  "getp value name =
     (case value of JObject props \<Rightarrow> (case map_of props name of Some v \<Rightarrow> v | None \<Rightarrow> JUndefined)
      | _ \<Rightarrow> JUndefined)"

definition has_property :: "string \<Rightarrow> json \<Rightarrow> bool" where
  "has_property name value =
     (case value of JObject props \<Rightarrow> map_of props name \<noteq> None | _ \<Rightarrow> False)"

definition isRecord :: "json \<Rightarrow> bool" where
  "isRecord value = (case value of JObject _ \<Rightarrow> True | JArray _ \<Rightarrow> True | _ \<Rightarrow> False)"

definition isString :: "json \<Rightarrow> bool" where
  "isString value = (case value of JString _ \<Rightarrow> True | _ \<Rightarrow> False)"

definition isArray :: "json \<Rightarrow> bool" where
  "isArray value = (case value of JArray _ \<Rightarrow> True | _ \<Rightarrow> False)"

definition isInteger_from :: "int \<Rightarrow> json \<Rightarrow> bool" where
  "isInteger_from low value =
     (case value of JNumber (Finite r) \<Rightarrow> of_int \<lfloor>r\<rfloor> = r \<and> of_int low \<le> r | _ \<Rightarrow> False)"

definition isNonNegativeInt :: "json \<Rightarrow> bool" where
  "isNonNegativeInt value = isInteger_from 0 value"

definition isPositiveInt :: "json \<Rightarrow> bool" where
  "isPositiveInt value = isInteger_from 1 value"

definition isBoolean :: "json \<Rightarrow> bool" where
  "isBoolean value = (case value of JBool _ \<Rightarrow> True | _ \<Rightarrow> False)"

definition isFiniteNumber :: "json \<Rightarrow> bool" where
  "isFiniteNumber value = (case value of JNumber (Finite _) \<Rightarrow> True | _ \<Rightarrow> False)"

text \<open>The narrowed value after a type guard.\<close>

definition str :: "json \<Rightarrow> string" where
  "str value = (case value of JString s \<Rightarrow> s | _ \<Rightarrow> [])"

definition num :: "json \<Rightarrow> rat" where
  "num value = (case value of JNumber (Finite r) \<Rightarrow> r | _ \<Rightarrow> 0)"

definition nat_of_json :: "json \<Rightarrow> nat" where
  "nat_of_json value = nat \<lfloor>num value\<rfloor>"

definition items :: "json \<Rightarrow> json list" where
  "items value = (case value of JArray xs \<Rightarrow> xs | _ \<Rightarrow> [])"

definition bool_of_json :: "json \<Rightarrow> bool" where
  "bool_of_json value = (value = JBool True)"

definition absent :: "json \<Rightarrow> bool" where
  "absent value \<longleftrightarrow> value = JNull \<or> value = JUndefined"

text \<open>\<open>value ?? []\<close>.\<close>

definition or_empty :: "json \<Rightarrow> json" where
  "or_empty value = (if absent value then JArray [] else value)"

text \<open>Parsing every element of an array: one refusal refuses the array.\<close>

fun parse_all :: "(json \<Rightarrow> 'a option) \<Rightarrow> json list \<Rightarrow> 'a list option" where
  "parse_all f [] = Some []"
| "parse_all f (x # xs) =
     (case f x of None \<Rightarrow> None
      | Some y \<Rightarrow> (case parse_all f xs of None \<Rightarrow> None | Some ys \<Rightarrow> Some (y # ys)))"

subsection \<open>Participants\<close>

definition parseActor :: "json \<Rightarrow> actor_presentation option" where
  "parseActor value =
     (if \<not> isRecord value then None
      else if \<not> isString (getp value ''actor_id'') \<or> \<not> isString (getp value ''display_name'')
           \<or> \<not> isString (getp value ''color'') then None
      else Some \<lparr>actor_id = str (getp value ''actor_id''), display_name = str (getp value ''display_name''),
                 color = str (getp value ''color'')\<rparr>)"

definition parsePresencePoint :: "json \<Rightarrow> presence_point option" where
  "parsePresencePoint value =
     (if value = JNull then None
      else if \<not> isRecord value \<or> \<not> isFiniteNumber (getp value ''x'') \<or> \<not> isFiniteNumber (getp value ''y'') then None
      else Some \<lparr>pp_x = num (getp value ''x''), pp_y = num (getp value ''y'')\<rparr>)"

definition parseStringIdList :: "json \<Rightarrow> string list option" where
  "parseStringIdList value =
     (if \<not> isArray value then None
      else if \<not> list_all isString (items value) then None
      else Some (map str (items value)))"

definition parse_transient_position :: "json \<Rightarrow> transient_position option" where
  "parse_transient_position item =
     (if \<not> isRecord item \<or> \<not> isString (getp item ''node_id'') then None
      else if \<not> isFiniteNumber (getp item ''x'') \<or> \<not> isFiniteNumber (getp item ''y'') then None
      else Some \<lparr>tp_node_id = str (getp item ''node_id''), tp_x = num (getp item ''x''), tp_y = num (getp item ''y'')\<rparr>)"

definition parseTransientPositions :: "json \<Rightarrow> transient_position list option" where
  "parseTransientPositions value =
     (if \<not> isArray value then None else parse_all parse_transient_position (items value))"

definition parsePresenceActivity :: "json \<Rightarrow> presence_activity option" where
  "parsePresenceActivity value =
     (if absent value then None
      else if value = JString ''moving_nodes'' then Some MovingNodes
      else if value = JString ''editing_node'' then Some EditingNode
      else if value = JString ''connecting'' then Some ConnectingNodes
      else None)"

definition optionalString :: "json \<Rightarrow> string nullish" where
  "optionalString value =
     (if value = JNull then Null else if isString value then Defined (str value) else Undefined)"

text \<open>\<open>optionalString(value) ?? null\<close>, and the test that refuses a value of another type.\<close>

definition string_or_null :: "json \<Rightarrow> string option" where
  "string_or_null value = (case optionalString value of Defined s \<Rightarrow> Some s | _ \<Rightarrow> None)"

definition bad_optional_string :: "json \<Rightarrow> bool" where
  "bad_optional_string value \<longleftrightarrow> optionalString value = Undefined \<and> \<not> absent value"

definition parseParticipant :: "json \<Rightarrow> participant option" where
  "parseParticipant value =
     (if \<not> isRecord value then None
      else case parseActor (getp value ''actor'') of
        None \<Rightarrow> None
      | Some actor \<Rightarrow>
          if \<not> isString (getp value ''project_room_session_id'') then None
          else if \<not> isNonNegativeInt (getp value ''presence_sequence'') then None
          else if bad_optional_string (getp value ''graph_id'') then None
          else
            (let cursor = (if absent (getp value ''cursor'') then None else parsePresencePoint (getp value ''cursor''))
             in if \<not> absent (getp value ''cursor'') \<and> cursor = None then None
                else case (parseStringIdList (or_empty (getp value ''selected_node_ids'')),
                           parseStringIdList (or_empty (getp value ''selected_edge_ids'')),
                           parseStringIdList (or_empty (getp value ''activity_target_ids'')),
                           parseTransientPositions (or_empty (getp value ''transient_node_positions''))) of
                  (Some selectedNodeIds, Some selectedEdgeIds, Some activityTargets, Some transient) \<Rightarrow>
                    (let activity = (if absent (getp value ''activity'') then None
                                     else parsePresenceActivity (getp value ''activity''))
                     in if \<not> absent (getp value ''activity'') \<and> activity = None then None
                        else Some \<lparr>pa_project_room_session_id = str (getp value ''project_room_session_id''),
                          pa_actor = actor,
                          pa_graph_id = string_or_null (getp value ''graph_id''),
                          pa_presence_sequence = nat_of_json (getp value ''presence_sequence''),
                          pa_cursor = cursor,
                          pa_selected_node_ids = selectedNodeIds,
                          pa_selected_edge_ids = selectedEdgeIds,
                          pa_activity = activity,
                          pa_activity_target_ids = activityTargets,
                          pa_transient_node_positions = transient\<rparr>)
                | _ \<Rightarrow> None))"

definition parseCapabilities :: "json \<Rightarrow> capability_snapshot option" where
  "parseCapabilities value =
     (if \<not> isRecord value then None
      else if \<not> isArray (getp value ''capabilities'') \<or> \<not> isPositiveInt (getp value ''authorization_version'') then None
      else if \<not> list_all isString (items (getp value ''capabilities'')) then None
      else Some \<lparr>cs_capabilities = map str (items (getp value ''capabilities'')),
                 cs_authorization_version = nat_of_json (getp value ''authorization_version'')\<rparr>)"

subsection \<open>Heads and commands\<close>

text \<open>
  The typed reading of what the parser casts: a Graph's document, its refresh generations and a
  command. The other fields of a head are read from the value itself.
\<close>

record wire_types =
  as_document :: "json \<Rightarrow> saved_graph_document"
  as_generations :: "json \<Rightarrow> (string \<times> int) list nullish"
  as_command :: "json \<Rightarrow> project_command"

definition as_graph :: "wire_types \<Rightarrow> json \<Rightarrow> graph_definition" where
  "as_graph wt graph =
     \<lparr>g_id = str (getp graph ''id''), g_name = str (getp graph ''name''),
      g_document = as_document wt (getp graph ''document''),
      g_refresh_generations = as_generations wt (getp graph ''refresh_generations'')\<rparr>"

definition as_head :: "wire_types \<Rightarrow> json \<Rightarrow> collaborative_head" where
  "as_head wt value =
     \<lparr>h_project_id = str (getp value ''project_id''), h_room_epoch = str (getp value ''room_epoch''),
      h_collaboration_sequence = nat_of_json (getp value ''collaboration_sequence''),
      h_checkpoint_sequence = nat_of_json (getp value ''checkpoint_sequence''),
      h_checkpoint_revision = nat_of_json (getp value ''checkpoint_revision''),
      h_name = str (getp value ''name''), h_updated_at = str (getp value ''updated_at''),
      h_graphs = map (as_graph wt) (items (getp (getp value ''document'') ''graphs''))\<rparr>"

definition graph_envelope_ok :: "json \<Rightarrow> bool" where
  "graph_envelope_ok graph \<longleftrightarrow>
     isRecord graph \<and> isString (getp graph ''id'') \<and> isString (getp graph ''name'')
     \<and> isRecord (getp graph ''document'')
     \<and> isArray (getp (getp graph ''document'') ''nodes'')
     \<and> isArray (getp (getp graph ''document'') ''edges'')
     \<and> isArray (getp (getp graph ''document'') ''origins'')"

definition parseHead :: "wire_types \<Rightarrow> json \<Rightarrow> collaborative_head option" where
  "parseHead wt value =
     (if \<not> isRecord value then None
      else if has_property ''nodes'' value \<or> has_property ''edges'' value \<or> has_property ''origins'' value
           \<or> has_property ''presentation'' value \<or> has_property ''graph_id'' value then None
      else if \<not> isRecord (getp value ''document'') \<or> \<not> isArray (getp (getp value ''document'') ''graphs'') then None
      else if \<not> list_all graph_envelope_ok (items (getp (getp value ''document'') ''graphs'')) then None
      else if \<not> isString (getp value ''project_id'') \<or> \<not> isString (getp value ''room_epoch'')
           \<or> \<not> isNonNegativeInt (getp value ''collaboration_sequence'')
           \<or> \<not> isNonNegativeInt (getp value ''checkpoint_sequence'')
           \<or> \<not> isPositiveInt (getp value ''checkpoint_revision'')
           \<or> \<not> isString (getp value ''name'') \<or> \<not> isString (getp value ''updated_at'') then None
      else Some (as_head wt value))"

definition command_envelope_ok :: "json \<Rightarrow> bool" where
  "command_envelope_ok command \<longleftrightarrow> isRecord command \<and> isString (getp command ''kind'')"

definition parseCommandList :: "wire_types \<Rightarrow> json \<Rightarrow> project_command list option" where
  "parseCommandList wt value =
     (if \<not> isArray value \<or> items value = [] then None
      else if \<not> list_all command_envelope_ok (items value) then None
      else Some (map (as_command wt) (items value)))"

subsection \<open>Instances and runs\<close>

definition parseInstanceKey :: "json \<Rightarrow> instance_key option" where
  "parseInstanceKey value =
     (if \<not> isRecord value then None
      else case parseStringIdList (or_empty (getp value ''call_path'')) of
        None \<Rightarrow> None
      | Some callPath \<Rightarrow>
          if \<not> isString (getp value ''project_id'') \<or> \<not> isString (getp value ''graph_id'')
             \<or> \<not> isString (getp value ''node_id'') then None
          else if \<not> absent (getp value ''map_index'') \<and> \<not> isNonNegativeInt (getp value ''map_index'') then None
          else Some \<lparr>ik_project_id = str (getp value ''project_id''), ik_graph_id = str (getp value ''graph_id''),
                 ik_call_path = callPath, ik_node_id = str (getp value ''node_id''),
                 ik_map_index = (if isNonNegativeInt (getp value ''map_index'')
                                 then Some (nat_of_json (getp value ''map_index'')) else None)\<rparr>)"

definition parse_state_name :: "json \<Rightarrow> instance_state_name option" where
  "parse_state_name state =
     (if state = JString ''fresh'' then Some Fresh else if state = JString ''stale'' then Some Stale
      else if state = JString ''queued'' then Some Queued else if state = JString ''running'' then Some Running
      else if state = JString ''failed'' then Some Failed else None)"

definition parseInstanceState :: "json \<Rightarrow> instance_state option" where
  "parseInstanceState value =
     (case parseInstanceKey value of
        None \<Rightarrow> None
      | Some key \<Rightarrow>
          if \<not> isRecord value then None
          else case parse_state_name (getp value ''state'') of
            None \<Rightarrow> None
          | Some state \<Rightarrow>
              if \<not> isString (getp value ''fingerprint'') then None
              else if bad_optional_string (getp value ''last_result_fingerprint'') then None
              else if bad_optional_string (getp value ''error'') then None
              else Some (instance_key.extend key
                \<lparr>is_state = state, is_fingerprint = str (getp value ''fingerprint''),
                 is_last_result_fingerprint = string_or_null (getp value ''last_result_fingerprint''),
                 is_error = string_or_null (getp value ''error'')\<rparr>))"

definition parse_run_target :: "json \<Rightarrow> run_target option" where
  "parse_run_target item =
     (if \<not> isRecord item \<or> \<not> isString (getp item ''node_id'') then None
      else case parseStringIdList (or_empty (getp item ''call_path'')) of
        None \<Rightarrow> None
      | Some callPath \<Rightarrow> Some \<lparr>rt_node_id = str (getp item ''node_id''), rt_call_path = callPath\<rparr>)"

definition parseRunTargets :: "json \<Rightarrow> run_target list option" where
  "parseRunTargets value =
     (if \<not> isArray value then None else parse_all parse_run_target (items value))"

definition parseActiveRun :: "json \<Rightarrow> active_run option" where
  "parseActiveRun value =
     (if \<not> isRecord value then None
      else case parseRunTargets (or_empty (getp value ''targets'')) of
        None \<Rightarrow> None
      | Some targets \<Rightarrow>
          if \<not> isString (getp value ''run_id'') \<or> \<not> isString (getp value ''graph_id'')
             \<or> \<not> isString (getp value ''started_at'') \<or> \<not> isBoolean (getp value ''cancellable'') then None
          else
            (let run = (\<lambda>starter. \<lparr>ar_run_id = str (getp value ''run_id''), ar_graph_id = str (getp value ''graph_id''),
                   ar_targets = targets, ar_starter = starter, ar_started_at = str (getp value ''started_at''),
                   ar_cancellable = bool_of_json (getp value ''cancellable'')\<rparr>)
             in if \<not> absent (getp value ''starter'')
                then (case parseActor (getp value ''starter'') of None \<Rightarrow> None | Some starter \<Rightarrow> Some (run (Some starter)))
                else Some (run None)))"

subsection \<open>The parser of server messages\<close>

definition parse_ready :: "wire_types \<Rightarrow> json \<Rightarrow> ready_message option" where
  "parse_ready wt raw =
     (case (parseActor (getp raw ''actor''), parseCapabilities (getp raw ''capabilities''), parseHead wt (getp raw ''head'')) of
        (Some actor, Some capabilities, Some head) \<Rightarrow>
          if \<not> isString (getp raw ''workspace_id'') \<or> \<not> isString (getp raw ''project_id'')
             \<or> \<not> isString (getp raw ''project_room_session_id'') \<or> \<not> isString (getp raw ''registry_marker'') then None
          else
            (case (if isArray (getp raw ''participants'') then parse_all parseParticipant (items (getp raw ''participants''))
                   else Some []) of
               None \<Rightarrow> None
             | Some participants \<Rightarrow>
                 if \<not> isArray (getp raw ''active_runs'') \<or> \<not> isArray (getp raw ''instances'') then None
                 else
                   (case parse_all parseActiveRun (items (getp raw ''active_runs'')) of
                      None \<Rightarrow> None
                    | Some activeRuns \<Rightarrow>
                        (case parse_all parseInstanceState (items (getp raw ''instances'')) of
                           None \<Rightarrow> None
                         | Some instances \<Rightarrow>
                             Some \<lparr>rd_workspace_id = str (getp raw ''workspace_id''), rd_project_id = str (getp raw ''project_id''),
                               rd_project_room_session_id = str (getp raw ''project_room_session_id''),
                               rd_actor = actor, rd_capabilities = capabilities, rd_head = head,
                               rd_participants = participants, rd_active_runs = activeRuns, rd_instances = instances,
                               rd_registry_marker = str (getp raw ''registry_marker'')\<rparr>)))
      | _ \<Rightarrow> None)"

definition parse_terminal_status :: "json \<Rightarrow> terminal_run_status option" where
  "parse_terminal_status status =
     (if status = JString ''succeeded'' then Some RunSucceeded else if status = JString ''failed'' then Some RunFailed
      else if status = JString ''cancelled'' then Some RunCancelled
      else if status = JString ''interrupted'' then Some RunInterrupted else None)"

definition parse_run_finished :: "json \<Rightarrow> run_finished_message option" where
  "parse_run_finished raw =
     (case parse_terminal_status (getp raw ''status'') of
        None \<Rightarrow> None
      | Some status \<Rightarrow>
          if \<not> isString (getp raw ''run_id'') then None
          else if bad_optional_string (getp raw ''error'') then None
          else Some \<lparr>rf_run_id = str (getp raw ''run_id''), rf_status = status,
                 rf_error = string_or_null (getp raw ''error'')\<rparr>)"

definition parse_instances_changed :: "json \<Rightarrow> instances_changed_message option" where
  "parse_instances_changed raw =
     (if \<not> isArray (getp raw ''changed'') \<or> \<not> isArray (getp raw ''removed'') then None
      else if \<not> isNonNegativeInt (getp raw ''head_sequence'') then None
      else case parse_all parseInstanceState (items (getp raw ''changed'')) of
        None \<Rightarrow> None
      | Some changed \<Rightarrow>
          (case parse_all parseInstanceKey (items (getp raw ''removed'')) of
             None \<Rightarrow> None
           | Some removed \<Rightarrow> Some \<lparr>ic_changed = changed, ic_removed = removed,
               ic_head_sequence = nat_of_json (getp raw ''head_sequence'')\<rparr>))"

definition parse_accepted :: "wire_types \<Rightarrow> json \<Rightarrow> command_accepted_message option" where
  "parse_accepted wt raw =
     (case (parseActor (getp raw ''actor''), parseCommandList wt (getp raw ''commands'')) of
        (Some actor, Some commands) \<Rightarrow>
          if \<not> isString (getp raw ''command_id'') \<or> \<not> isString (getp raw ''room_epoch'')
             \<or> \<not> isNonNegativeInt (getp raw ''sequence'') then None
          else
            (let sessionId = getp raw ''project_room_session_id''
             in if \<not> absent sessionId \<and> \<not> isString sessionId then None
                else Some \<lparr>acc_command_id = str (getp raw ''command_id''), acc_room_epoch = str (getp raw ''room_epoch''),
                       acc_sequence = nat_of_json (getp raw ''sequence''), acc_actor = actor,
                       acc_project_room_session_id = (if isString sessionId then Some (str sessionId) else None),
                       acc_commands = commands\<rparr>)
      | _ \<Rightarrow> None)"

definition parse_outcome :: "json \<Rightarrow> receipt_outcome option" where
  "parse_outcome outcome =
     (if outcome = JString ''accepted'' then Some OutcomeAccepted
      else if outcome = JString ''idempotent_replay'' then Some OutcomeIdempotentReplay else None)"

definition parse_receipt :: "json \<Rightarrow> command_receipt_message option" where
  "parse_receipt raw =
     (case parse_outcome (getp raw ''outcome'') of
        None \<Rightarrow> None
      | Some outcome \<Rightarrow>
          if \<not> isString (getp raw ''command_id'') \<or> \<not> isString (getp raw ''accepted_room_epoch'')
             \<or> \<not> isNonNegativeInt (getp raw ''accepted_sequence'') \<or> \<not> isString (getp raw ''current_room_epoch'')
             \<or> \<not> isNonNegativeInt (getp raw ''current_sequence'') \<or> \<not> isBoolean (getp raw ''deduplicated'') then None
          else Some \<lparr>rec_command_id = str (getp raw ''command_id''), rec_outcome = outcome,
                 rec_accepted_room_epoch = str (getp raw ''accepted_room_epoch''),
                 rec_accepted_sequence = nat_of_json (getp raw ''accepted_sequence''),
                 rec_current_room_epoch = str (getp raw ''current_room_epoch''),
                 rec_current_sequence = nat_of_json (getp raw ''current_sequence''),
                 rec_deduplicated = bool_of_json (getp raw ''deduplicated''),
                 rec_requires_head_rehydration = (getp raw ''requires_head_rehydration'' = JBool True)\<rparr>)"

definition parse_rejected :: "json \<Rightarrow> command_rejected_message option" where
  "parse_rejected raw =
     (if \<not> isString (getp raw ''command_id'') \<or> \<not> isString (getp raw ''error_code'')
         \<or> \<not> isString (getp raw ''detail'') then None
      else
        (let epoch = getp raw ''current_room_epoch''; sequence = getp raw ''current_sequence''
         in if \<not> absent epoch \<and> \<not> isString epoch then None
            else if \<not> absent sequence \<and> \<not> isNonNegativeInt sequence then None
            else Some \<lparr>rej_command_id = str (getp raw ''command_id''), rej_error_code = str (getp raw ''error_code''),
                   rej_detail = str (getp raw ''detail''),
                   rej_current_room_epoch = (if isString epoch then Some (str epoch) else None),
                   rej_current_sequence = (if isNonNegativeInt sequence then Some (nat_of_json sequence) else None)\<rparr>))"

definition parse_rehydrate :: "wire_types \<Rightarrow> json \<Rightarrow> collaborative_head option" where
  "parse_rehydrate wt raw =
     (case parseHead wt (getp raw ''head'') of
        None \<Rightarrow> None
      | Some head \<Rightarrow> if getp raw ''reason'' \<noteq> JString ''epoch_reset'' then None else Some head)"

definition parse_heartbeat :: "json \<Rightarrow> nat option" where
  "parse_heartbeat raw =
     (if \<not> isPositiveInt (getp raw ''authorization_version'') then None
      else Some (nat_of_json (getp raw ''authorization_version'')))"

definition parse_leave :: "json \<Rightarrow> string option" where
  "parse_leave raw =
     (if \<not> isString (getp raw ''project_room_session_id'') then None
      else Some (str (getp raw ''project_room_session_id'')))"

definition parseServerRoomMessage :: "wire_types \<Rightarrow> json \<Rightarrow> server_message option" where
  "parseServerRoomMessage wt raw =
     (if \<not> isRecord raw \<or> getp raw ''protocol_version'' \<noteq> JNumber (Finite (of_int ROOM_PROTOCOL_VERSION)) then None
      else
        (let type = getp raw ''type''
         in if type = JString ''room.ready'' then map_option RoomReady (parse_ready wt raw)
            else if type = JString ''presence.join'' then map_option PresenceJoin (parseParticipant (getp raw ''participant''))
            else if type = JString ''presence.update'' then map_option PresenceUpdate (parseParticipant (getp raw ''participant''))
            else if type = JString ''presence.leave'' then map_option PresenceLeave (parse_leave raw)
            else if type = JString ''run.started'' then map_option RunStarted (parseActiveRun (getp raw ''run''))
            else if type = JString ''run.finished'' then map_option RunFinished (parse_run_finished raw)
            else if type = JString ''instances.changed'' then map_option InstancesChanged (parse_instances_changed raw)
            else if type = JString ''project.command.accepted'' then map_option CommandAccepted (parse_accepted wt raw)
            else if type = JString ''project.command.receipt'' then map_option CommandReceipt (parse_receipt raw)
            else if type = JString ''project.command.rejected'' then map_option CommandRejection (parse_rejected raw)
            else if type = JString ''room.rehydrate'' then map_option RoomRehydrate (parse_rehydrate wt raw)
            else if type = JString ''room.heartbeat'' then map_option RoomHeartbeat (parse_heartbeat raw)
            else None))"

subsection \<open>Instance keys and close frames\<close>

definition instanceKeyText :: "('a) instance_key_scheme \<Rightarrow> string" where
  "instanceKeyText key =
     js_join [CHR 0x00]
       [ik_graph_id key, js_join ''/'' (ik_call_path key), ik_node_id key,
        (case ik_map_index key of None \<Rightarrow> [] | Some i \<Rightarrow> decimal i)]"

definition terminalReasonFromClose :: "int \<Rightarrow> string \<Rightarrow> room_reason option" where
  "terminalReasonFromClose code reason =
     (let normalized = js_trim reason
      in if code = CLOSE_PERMISSIONS_CHANGED \<or> normalized = ''permissions_changed'' then Some (Recovery PermissionsChanged)
         else if code = CLOSE_ACCESS_REVOKED \<or> normalized = ''access_revoked'' then Some (Terminal AccessRevoked)
         else if code = CLOSE_PROJECT_DELETED \<or> normalized = ''project_deleted'' \<or> normalized = ''graph_deleted''
           then Some (Terminal ProjectDeleted)
         else if code = CLOSE_PROTOCOL_ERROR \<or> normalized = ''protocol_error'' then Some (Recovery ProtocolError)
         else if code = CLOSE_SLOW_CONSUMER \<or> normalized = ''slow_consumer'' then Some (Recovery SlowConsumer)
         else None)"

end
