(* ===== verification/RoomProtocol_Facts.thy ===== *)
theory RoomProtocol_Facts
  imports RoomProtocol
begin

section \<open>What the protocol parser guarantees\<close>

text \<open>
  The reference wire format, that the parser reads every well-formed message back, that what it
  lets through has the version and the type it claims and a nested head, that the text of an
  instance key identifies the instance, and which close frames end the session.
\<close>

named_theorems wire_simps \<open>what the guards and readers answer on values of the wire format\<close>

subsection \<open>The wire format\<close>

definition wire_nat :: "nat \<Rightarrow> json" where
  "wire_nat n = JNumber (Finite (of_nat n))"

definition wire_opt :: "('a \<Rightarrow> json) \<Rightarrow> 'a option \<Rightarrow> json" where
  "wire_opt f x = (case x of None \<Rightarrow> JNull | Some v \<Rightarrow> f v)"

definition wire_strings :: "string list \<Rightarrow> json" where
  "wire_strings xs = JArray (map JString xs)"

lemma getp_Nil [simp, wire_simps]: "getp (JObject []) k = JUndefined"
  by (simp add: getp_def)

lemma getp_Cons [simp, wire_simps]:
  "getp (JObject ((k', v) # props)) k = (if k = k' then v else getp (JObject props) k)"
  by (simp add: getp_def)

lemma has_property_Nil [simp, wire_simps]: "\<not> has_property k (JObject [])"
  by (simp add: has_property_def)

lemma has_property_Cons [simp, wire_simps]:
  "has_property k (JObject ((k', v) # props)) \<longleftrightarrow> k = k' \<or> has_property k (JObject props)"
  by (simp add: has_property_def)

lemma guards_simps [simp, wire_simps]:
  "isRecord (JObject props)" "isRecord (JArray xs)" "\<not> isRecord JNull" "\<not> isRecord JUndefined"
  "isString (JString s)" "str (JString s) = s" "\<not> isString JNull" "\<not> isString JUndefined"
  "isArray (JArray xs)" "items (JArray xs) = xs" "isBoolean (JBool b)" "bool_of_json (JBool b) = b"
  "isFiniteNumber (JNumber (Finite r))" "num (JNumber (Finite r)) = r"
  "absent JNull" "absent JUndefined" "\<not> absent (JString s)" "\<not> absent (JObject props)" "\<not> absent (JArray xs)"
  "or_empty (JArray xs) = JArray xs"
  by (simp_all add: isRecord_def isString_def str_def isArray_def items_def isBoolean_def bool_of_json_def
      isFiniteNumber_def num_def absent_def or_empty_def)

lemma wire_nat_simps [simp, wire_simps]:
  "isNonNegativeInt (wire_nat n)" "isPositiveInt (wire_nat n) \<longleftrightarrow> 1 \<le> n" "nat_of_json (wire_nat n) = n"
  "\<not> absent (wire_nat n)"
  by (simp_all add: wire_nat_def isNonNegativeInt_def isPositiveInt_def isInteger_from_def nat_of_json_def absent_def)

lemma JNull_not_natural: "\<not> isNonNegativeInt JNull"
  by (simp add: isNonNegativeInt_def isInteger_from_def)

lemma wire_opt_simps [simp, wire_simps]: "wire_opt f None = JNull" "wire_opt f (Some v) = f v"
  by (simp_all add: wire_opt_def)

lemma optional_string_simps [simp, wire_simps]:
  "\<not> bad_optional_string (wire_opt JString x)" "string_or_null (wire_opt JString x) = x"
  by (cases x; simp add: bad_optional_string_def string_or_null_def optionalString_def)+

lemma list_all_isString_map [simp]: "list_all isString (map JString xs)"
  by (induction xs) simp_all

lemma map_str_map_JString [simp]: "map (str \<circ> JString) xs = xs"
  by (induction xs) simp_all

lemma parseStringIdList_wire [simp, wire_simps]:
  "parseStringIdList (wire_strings xs) = Some xs" "or_empty (wire_strings xs) = wire_strings xs"
  by (simp_all add: parseStringIdList_def wire_strings_def)

lemma parse_all_map:
  "(\<And>x. x \<in> set xs \<Longrightarrow> f (g x) = Some x) \<Longrightarrow> parse_all f (map g xs) = Some xs"
  by (induction xs) simp_all

lemma parse_all_Some_iff: "parse_all f js = Some xs \<longleftrightarrow> list_all2 (\<lambda>j x. f j = Some x) js xs"
proof (induction js arbitrary: xs)
  case (Cons j js)
  show ?case
  proof
    assume "parse_all f (j # js) = Some xs"
    then show "list_all2 (\<lambda>j x. f j = Some x) (j # js) xs"
      using Cons.IH by (auto split: option.splits)
  next
    assume "list_all2 (\<lambda>j x. f j = Some x) (j # js) xs"
    then obtain y ys where "xs = y # ys" "f j = Some y" "list_all2 (\<lambda>j x. f j = Some x) js ys"
      by (auto simp: list_all2_Cons1)
    then show "parse_all f (j # js) = Some xs" using Cons.IH [of ys] by simp
  qed
qed auto

subsubsection \<open>Participants, instances and runs\<close>

definition wire_actor :: "actor_presentation \<Rightarrow> json" where
  "wire_actor a = JObject [(''actor_id'', JString (actor_id a)), (''display_name'', JString (display_name a)),
     (''color'', JString (color a))]"

definition wire_point :: "presence_point \<Rightarrow> json" where
  "wire_point p = JObject [(''x'', JNumber (Finite (pp_x p))), (''y'', JNumber (Finite (pp_y p)))]"

definition wire_transient :: "transient_position \<Rightarrow> json" where
  "wire_transient p = JObject [(''node_id'', JString (tp_node_id p)), (''x'', JNumber (Finite (tp_x p))),
     (''y'', JNumber (Finite (tp_y p)))]"

fun wire_activity :: "presence_activity \<Rightarrow> json" where
  "wire_activity MovingNodes = JString ''moving_nodes''"
| "wire_activity EditingNode = JString ''editing_node''"
| "wire_activity ConnectingNodes = JString ''connecting''"

definition wire_participant :: "participant \<Rightarrow> json" where
  "wire_participant p = JObject
     [(''project_room_session_id'', JString (pa_project_room_session_id p)), (''actor'', wire_actor (pa_actor p)),
      (''graph_id'', wire_opt JString (pa_graph_id p)), (''presence_sequence'', wire_nat (pa_presence_sequence p)),
      (''cursor'', wire_opt wire_point (pa_cursor p)),
      (''selected_node_ids'', wire_strings (pa_selected_node_ids p)),
      (''selected_edge_ids'', wire_strings (pa_selected_edge_ids p)),
      (''activity'', wire_opt wire_activity (pa_activity p)),
      (''activity_target_ids'', wire_strings (pa_activity_target_ids p)),
      (''transient_node_positions'', JArray (map wire_transient (pa_transient_node_positions p)))]"

definition key_fields :: "'a instance_key_scheme \<Rightarrow> js_object" where
  "key_fields k = [(''project_id'', JString (ik_project_id k)), (''graph_id'', JString (ik_graph_id k)),
     (''call_path'', wire_strings (ik_call_path k)), (''node_id'', JString (ik_node_id k)),
     (''map_index'', wire_opt wire_nat (ik_map_index k))]"

fun wire_state_name :: "instance_state_name \<Rightarrow> json" where
  "wire_state_name Fresh = JString ''fresh''"
| "wire_state_name Stale = JString ''stale''"
| "wire_state_name Queued = JString ''queued''"
| "wire_state_name Running = JString ''running''"
| "wire_state_name Failed = JString ''failed''"

definition wire_instance :: "instance_state \<Rightarrow> json" where
  "wire_instance i = JObject (key_fields i @
     [(''state'', wire_state_name (is_state i)), (''fingerprint'', JString (is_fingerprint i)),
      (''last_result_fingerprint'', wire_opt JString (is_last_result_fingerprint i)),
      (''error'', wire_opt JString (is_error i))])"

definition wire_target :: "run_target \<Rightarrow> json" where
  "wire_target t = JObject [(''node_id'', JString (rt_node_id t)), (''call_path'', wire_strings (rt_call_path t))]"

definition wire_run :: "active_run \<Rightarrow> json" where
  "wire_run r = JObject
     [(''run_id'', JString (ar_run_id r)), (''graph_id'', JString (ar_graph_id r)),
      (''targets'', JArray (map wire_target (ar_targets r))), (''starter'', wire_opt wire_actor (ar_starter r)),
      (''started_at'', JString (ar_started_at r)), (''cancellable'', JBool (ar_cancellable r))]"

lemma parseActor_wire [simp, wire_simps]: "parseActor (wire_actor a) = Some a"
  by (simp add: parseActor_def wire_actor_def)

lemma not_absent_wire [simp, wire_simps]:
  "\<not> absent (wire_actor a)" "\<not> absent (wire_point p)" "\<not> absent (wire_activity k)"
  by (simp_all add: wire_actor_def wire_point_def absent_def) (cases k; simp)

lemma parsePresencePoint_wire [simp, wire_simps]: "parsePresencePoint (wire_point p) = Some p"
  by (simp add: parsePresencePoint_def wire_point_def)

lemma parsePresenceActivity_wire [simp, wire_simps]: "parsePresenceActivity (wire_activity k) = Some k"
  by (cases k) (simp_all add: parsePresenceActivity_def)

lemma absent_wire_opt [simp, wire_simps]:
  "absent (wire_opt wire_actor a) \<longleftrightarrow> a = None" "absent (wire_opt wire_point p) \<longleftrightarrow> p = None"
  "absent (wire_opt wire_activity k) \<longleftrightarrow> k = None" "absent (wire_opt wire_nat n) \<longleftrightarrow> n = None"
  by (auto simp: wire_opt_def split: option.splits)

lemma parseTransientPositions_wire [simp, wire_simps]:
  "parseTransientPositions (JArray (map wire_transient ps)) = Some ps"
  by (simp add: parseTransientPositions_def parse_all_map parse_transient_position_def wire_transient_def)

lemma parseParticipant_wire [simp, wire_simps]: "parseParticipant (wire_participant p) = Some p"
  by (cases "pa_cursor p"; cases "pa_activity p")
     (simp_all add: parseParticipant_def wire_participant_def Let_def)

lemma parseInstanceKey_fields [simp]:
  "parseInstanceKey (JObject (key_fields k @ rest)) = Some (instance_key.truncate k)"
  by (cases "ik_map_index k")
     (simp_all add: parseInstanceKey_def key_fields_def instance_key.defs JNull_not_natural)

lemma parseInstanceKey_wire [simp, wire_simps]: "parseInstanceKey (JObject (key_fields k)) = Some (k :: instance_key)"
  using parseInstanceKey_fields [of k "[]"] by (simp add: instance_key.defs)

lemma parse_state_name_wire [simp, wire_simps]: "parse_state_name (wire_state_name s) = Some s"
  by (cases s) (simp_all add: parse_state_name_def)

lemma getp_skip: "k \<notin> fst ` set xs \<Longrightarrow> getp (JObject (xs @ ys)) k = getp (JObject ys) k"
  by (induction xs) (auto simp: getp_def)

lemma key_fields_names:
  "fst ` set (key_fields k) = {''project_id'', ''graph_id'', ''call_path'', ''node_id'', ''map_index''}"
  by (simp add: key_fields_def)

lemma parseInstanceState_wire [simp, wire_simps]: "parseInstanceState (wire_instance i) = Some i"
  by (simp add: parseInstanceState_def wire_instance_def getp_skip key_fields_names instance_key.defs)

lemma parseActiveRun_wire [simp, wire_simps]: "parseActiveRun (wire_run r) = Some r"
  by (cases "ar_starter r")
     (simp_all add: parseActiveRun_def wire_run_def parseRunTargets_def parse_all_map parse_run_target_def
        wire_target_def Let_def)

subsubsection \<open>Heads, commands and messages\<close>

text \<open>How the server writes the parts the parser only casts.\<close>

record wire_printer =
  pr_document :: "saved_graph_document \<Rightarrow> js_object"
  pr_generations :: "(string \<times> int) list nullish \<Rightarrow> json"
  pr_command :: "project_command \<Rightarrow> js_object"

definition wire_graph :: "wire_printer \<Rightarrow> graph_definition \<Rightarrow> json" where
  "wire_graph wp g = JObject [(''id'', JString (g_id g)), (''name'', JString (g_name g)),
     (''document'', JObject (pr_document wp (g_document g))),
     (''refresh_generations'', pr_generations wp (g_refresh_generations g))]"

definition wire_head :: "wire_printer \<Rightarrow> collaborative_head \<Rightarrow> json" where
  "wire_head wp h = JObject
     [(''project_id'', JString (h_project_id h)), (''room_epoch'', JString (h_room_epoch h)),
      (''collaboration_sequence'', wire_nat (h_collaboration_sequence h)),
      (''checkpoint_sequence'', wire_nat (h_checkpoint_sequence h)),
      (''checkpoint_revision'', wire_nat (h_checkpoint_revision h)),
      (''name'', JString (h_name h)), (''updated_at'', JString (h_updated_at h)),
      (''document'', JObject [(''graphs'', JArray (map (wire_graph wp) (h_graphs h)))])]"

definition document_faithful :: "wire_types \<Rightarrow> wire_printer \<Rightarrow> graph_definition \<Rightarrow> bool" where
  "document_faithful wt wp g \<longleftrightarrow>
     as_document wt (JObject (pr_document wp (g_document g))) = g_document g
     \<and> as_generations wt (pr_generations wp (g_refresh_generations g)) = g_refresh_generations g
     \<and> isArray (getp (JObject (pr_document wp (g_document g))) ''nodes'')
     \<and> isArray (getp (JObject (pr_document wp (g_document g))) ''edges'')
     \<and> isArray (getp (JObject (pr_document wp (g_document g))) ''origins'')"

definition head_faithful :: "wire_types \<Rightarrow> wire_printer \<Rightarrow> collaborative_head \<Rightarrow> bool" where
  "head_faithful wt wp h \<longleftrightarrow> 1 \<le> h_checkpoint_revision h \<and> list_all (document_faithful wt wp) (h_graphs h)"

definition command_faithful :: "wire_types \<Rightarrow> wire_printer \<Rightarrow> project_command \<Rightarrow> bool" where
  "command_faithful wt wp c \<longleftrightarrow>
     as_command wt (JObject (pr_command wp c)) = c \<and> isString (getp (JObject (pr_command wp c)) ''kind'')"

lemma as_graph_wire: "document_faithful wt wp g \<Longrightarrow> as_graph wt (wire_graph wp g) = g"
  by (simp add: document_faithful_def as_graph_def wire_graph_def)

lemma graph_envelope_wire: "document_faithful wt wp g \<Longrightarrow> graph_envelope_ok (wire_graph wp g)"
  by (simp add: document_faithful_def graph_envelope_ok_def wire_graph_def)

lemma parseHead_wire:
  assumes "head_faithful wt wp h"
  shows "parseHead wt (wire_head wp h) = Some h"
proof -
  from assms have all: "\<And>g. g \<in> set (h_graphs h) \<Longrightarrow> document_faithful wt wp g" and rev: "1 \<le> h_checkpoint_revision h"
    by (simp_all add: head_faithful_def list_all_iff)
  have "map (as_graph wt \<circ> wire_graph wp) (h_graphs h) = h_graphs h"
    by (rule map_idI) (simp add: as_graph_wire all)
  moreover have "list_all graph_envelope_ok (map (wire_graph wp) (h_graphs h))"
    by (simp add: list_all_iff) (blast intro: graph_envelope_wire all)
  ultimately show ?thesis
    using rev by (simp add: parseHead_def wire_head_def as_head_def)
qed

lemma parseCommandList_wire:
  assumes "cs \<noteq> []" "list_all (command_faithful wt wp) cs"
  shows "parseCommandList wt (JArray (map (JObject \<circ> pr_command wp) cs)) = Some cs"
proof -
  have "map (as_command wt \<circ> (JObject \<circ> pr_command wp)) cs = cs"
    by (rule map_idI) (use assms in \<open>simp add: list_all_iff command_faithful_def\<close>)
  moreover have "list_all command_envelope_ok (map (JObject \<circ> pr_command wp) cs)"
    using assms by (simp add: list_all_iff command_envelope_ok_def command_faithful_def)
  ultimately show ?thesis using assms by (simp add: parseCommandList_def)
qed

fun wire_terminal_status :: "terminal_run_status \<Rightarrow> json" where
  "wire_terminal_status RunSucceeded = JString ''succeeded''"
| "wire_terminal_status RunFailed = JString ''failed''"
| "wire_terminal_status RunCancelled = JString ''cancelled''"
| "wire_terminal_status RunInterrupted = JString ''interrupted''"

fun wire_outcome :: "receipt_outcome \<Rightarrow> json" where
  "wire_outcome OutcomeAccepted = JString ''accepted''"
| "wire_outcome OutcomeIdempotentReplay = JString ''idempotent_replay''"

lemma enum_wire [simp, wire_simps]:
  "parse_terminal_status (wire_terminal_status s) = Some s" "parse_outcome (wire_outcome out) = Some out"
  by (cases s; simp add: parse_terminal_status_def) (cases out; simp add: parse_outcome_def)

fun message_type :: "server_message \<Rightarrow> string" where
  "message_type (RoomReady _) = ''room.ready''"
| "message_type (CommandAccepted _) = ''project.command.accepted''"
| "message_type (CommandReceipt _) = ''project.command.receipt''"
| "message_type (CommandRejection _) = ''project.command.rejected''"
| "message_type (RoomRehydrate _) = ''room.rehydrate''"
| "message_type (RoomHeartbeat _) = ''room.heartbeat''"
| "message_type (PresenceJoin _) = ''presence.join''"
| "message_type (PresenceLeave _) = ''presence.leave''"
| "message_type (PresenceUpdate _) = ''presence.update''"
| "message_type (RunStarted _) = ''run.started''"
| "message_type (RunFinished _) = ''run.finished''"
| "message_type (InstancesChanged _) = ''instances.changed''"

fun message_fields :: "wire_printer \<Rightarrow> server_message \<Rightarrow> js_object" where
  "message_fields wp (RoomReady m) =
     [(''workspace_id'', JString (rd_workspace_id m)), (''project_id'', JString (rd_project_id m)),
      (''project_room_session_id'', JString (rd_project_room_session_id m)), (''actor'', wire_actor (rd_actor m)),
      (''capabilities'', JObject [(''capabilities'', wire_strings (cs_capabilities (rd_capabilities m))),
         (''authorization_version'', wire_nat (cs_authorization_version (rd_capabilities m)))]),
      (''head'', wire_head wp (rd_head m)),
      (''participants'', JArray (map wire_participant (rd_participants m))),
      (''active_runs'', JArray (map wire_run (rd_active_runs m))),
      (''instances'', JArray (map wire_instance (rd_instances m))),
      (''registry_marker'', JString (rd_registry_marker m))]"
| "message_fields wp (CommandAccepted m) =
     [(''command_id'', JString (acc_command_id m)), (''room_epoch'', JString (acc_room_epoch m)),
      (''sequence'', wire_nat (acc_sequence m)), (''actor'', wire_actor (acc_actor m)),
      (''project_room_session_id'', wire_opt JString (acc_project_room_session_id m)),
      (''commands'', JArray (map (JObject \<circ> pr_command wp) (acc_commands m)))]"
| "message_fields wp (CommandReceipt m) =
     [(''command_id'', JString (rec_command_id m)), (''outcome'', wire_outcome (rec_outcome m)),
      (''accepted_room_epoch'', JString (rec_accepted_room_epoch m)), (''accepted_sequence'', wire_nat (rec_accepted_sequence m)),
      (''current_room_epoch'', JString (rec_current_room_epoch m)), (''current_sequence'', wire_nat (rec_current_sequence m)),
      (''deduplicated'', JBool (rec_deduplicated m)),
      (''requires_head_rehydration'', JBool (rec_requires_head_rehydration m))]"
| "message_fields wp (CommandRejection m) =
     [(''command_id'', JString (rej_command_id m)), (''error_code'', JString (rej_error_code m)),
      (''detail'', JString (rej_detail m)), (''current_room_epoch'', wire_opt JString (rej_current_room_epoch m)),
      (''current_sequence'', wire_opt wire_nat (rej_current_sequence m))]"
| "message_fields wp (RoomRehydrate h) = [(''reason'', JString ''epoch_reset''), (''head'', wire_head wp h)]"
| "message_fields wp (RoomHeartbeat v) = [(''authorization_version'', wire_nat v)]"
| "message_fields wp (PresenceJoin p) = [(''participant'', wire_participant p)]"
| "message_fields wp (PresenceLeave s) = [(''project_room_session_id'', JString s)]"
| "message_fields wp (PresenceUpdate p) = [(''participant'', wire_participant p)]"
| "message_fields wp (RunStarted r) = [(''run'', wire_run r)]"
| "message_fields wp (RunFinished m) =
     [(''run_id'', JString (rf_run_id m)), (''status'', wire_terminal_status (rf_status m)),
      (''error'', wire_opt JString (rf_error m))]"
| "message_fields wp (InstancesChanged m) =
     [(''changed'', JArray (map wire_instance (ic_changed m))),
      (''removed'', JArray (map (JObject \<circ> key_fields) (ic_removed m))),
      (''head_sequence'', wire_nat (ic_head_sequence m))]"

definition wire_message :: "wire_printer \<Rightarrow> server_message \<Rightarrow> json" where
  "wire_message wp m = JObject ((''protocol_version'', JNumber (Finite 1)) # (''type'', JString (message_type m)) # message_fields wp m)"

text \<open>What the wire format asks of a message: version numbers from 1, at least one command.\<close>

fun message_faithful :: "wire_types \<Rightarrow> wire_printer \<Rightarrow> server_message \<Rightarrow> bool" where
  "message_faithful wt wp (RoomReady m) \<longleftrightarrow>
     head_faithful wt wp (rd_head m) \<and> 1 \<le> cs_authorization_version (rd_capabilities m)"
| "message_faithful wt wp (CommandAccepted m) \<longleftrightarrow> acc_commands m \<noteq> [] \<and> list_all (command_faithful wt wp) (acc_commands m)"
| "message_faithful wt wp (RoomRehydrate h) \<longleftrightarrow> head_faithful wt wp h"
| "message_faithful wt wp (RoomHeartbeat v) \<longleftrightarrow> 1 \<le> v"
| "message_faithful wt wp _ \<longleftrightarrow> True"

lemma parse_all_wire [simp]:
  "parse_all parseParticipant (map wire_participant ps) = Some ps"
  "parse_all parseActiveRun (map wire_run rs) = Some rs"
  "parse_all parseInstanceState (map wire_instance ins) = Some ins"
  "parse_all parseInstanceKey (map (JObject \<circ> key_fields) ks) = Some ks"
  by (simp_all add: parse_all_map)

lemma parseCapabilities_wire:
  "1 \<le> cs_authorization_version c \<Longrightarrow>
     parseCapabilities (JObject [(''capabilities'', wire_strings (cs_capabilities c)),
       (''authorization_version'', wire_nat (cs_authorization_version c))]) = Some c"
  by (simp add: parseCapabilities_def wire_strings_def)

lemma wire_head_record [simp]: "\<not> absent (wire_head wp h)"
  by (simp add: wire_head_def)

lemma wire_opt_JString [simp]:
  "isString (wire_opt JString x) \<longleftrightarrow> x \<noteq> None" "absent (wire_opt JString x) \<longleftrightarrow> x = None"
  "isNonNegativeInt (wire_opt wire_nat n) \<longleftrightarrow> n \<noteq> None"
  by (auto simp: wire_opt_def JNull_not_natural split: option.splits)

lemmas part_parsers = parse_run_finished_def parse_instances_changed_def parse_receipt_def parse_rejected_def
  parse_rehydrate_def parse_heartbeat_def parse_leave_def

lemma parse_ready_wire:
  assumes "message_faithful wt wp (RoomReady r)"
  shows "parse_ready wt (wire_message wp (RoomReady r)) = Some r"
  using assms parseHead_wire [of wt wp "rd_head r"] parseCapabilities_wire [of "rd_capabilities r"]
  by (simp add: wire_message_def parse_ready_def)

lemma parse_accepted_wire:
  assumes "message_faithful wt wp (CommandAccepted r)"
  shows "parse_accepted wt (wire_message wp (CommandAccepted r)) = Some r"
  using assms parseCommandList_wire [of "acc_commands r" wt wp]
  by (cases "acc_project_room_session_id r") (simp_all add: wire_message_def parse_accepted_def Let_def)

lemma parse_rejected_wire: "parse_rejected (wire_message wp (CommandRejection r)) = Some r"
  by (cases "rej_current_room_epoch r"; cases "rej_current_sequence r")
     (simp_all add: wire_message_def parse_rejected_def Let_def JNull_not_natural)

lemma wire_message_envelope:
  "isRecord (wire_message wp m)" "getp (wire_message wp m) ''protocol_version'' = JNumber (Finite 1)"
  "getp (wire_message wp m) ''type'' = JString (message_type m)"
  by (simp_all add: wire_message_def)

text \<open>
  C24: every message the server can write in the wire format is read back exactly: for all
  twelve message types, printing a message and parsing it gives the message, with its
  participants, Runs, instances, head and commands. The wire format asks for version numbers
  from 1 and at least one command, and that the typed reading of the documents and commands in
  the message undoes their printing.
\<close>

theorem parser_reads_back:
  assumes "message_faithful wt wp m"
  shows "parseServerRoomMessage wt (wire_message wp m) = Some m"
proof (cases m)
  case (RoomReady r)
  then show ?thesis using assms parse_ready_wire [of wt wp r]
    by (simp add: parseServerRoomMessage_def wire_message_envelope ROOM_PROTOCOL_VERSION_def)
next
  case (CommandAccepted r)
  then show ?thesis using assms parse_accepted_wire [of wt wp r]
    by (simp add: parseServerRoomMessage_def wire_message_envelope ROOM_PROTOCOL_VERSION_def)
next
  case (CommandRejection r)
  then show ?thesis using parse_rejected_wire [of wp r]
    by (simp add: parseServerRoomMessage_def wire_message_envelope ROOM_PROTOCOL_VERSION_def)
qed (use assms in \<open>simp_all add: parseServerRoomMessage_def wire_message_def ROOM_PROTOCOL_VERSION_def
      part_parsers parseHead_wire\<close>)

subsection \<open>What a parsed message guarantees\<close>

fun message_heads :: "server_message \<Rightarrow> collaborative_head list" where
  "message_heads (RoomReady m) = [rd_head m]"
| "message_heads (RoomRehydrate h) = [h]"
| "message_heads _ = []"

text \<open>A head with the Graph's own fields at the top: the form of an older protocol.\<close>

definition flat_head :: "json \<Rightarrow> bool" where
  "flat_head value \<longleftrightarrow>
     list_ex (\<lambda>name. has_property name value) [''nodes'', ''edges'', ''origins'', ''presentation'', ''graph_id'']"

lemma isPositiveInt_nat: "isPositiveInt v \<Longrightarrow> 1 \<le> nat_of_json v"
  by (auto simp: isPositiveInt_def isInteger_from_def nat_of_json_def num_def le_nat_iff
      split: json.splits js_number.splits)

lemma parseHead_SomeD:
  assumes "parseHead wt value = Some h"
  shows "h = as_head wt value" "\<not> flat_head value"
    "list_all graph_envelope_ok (items (getp (getp value ''document'') ''graphs''))"
    "1 \<le> h_checkpoint_revision h"
proof -
  note parsed = assms [unfolded parseHead_def]
  from parsed show "h = as_head wt value" by (simp split: if_splits)
  moreover from parsed have "isPositiveInt (getp value ''checkpoint_revision'')" by (simp split: if_splits)
  ultimately show "1 \<le> h_checkpoint_revision h"
    using isPositiveInt_nat by (simp add: as_head_def)
  from parsed show "\<not> flat_head value" by (simp add: flat_head_def split: if_splits)
  from parsed show "list_all graph_envelope_ok (items (getp (getp value ''document'') ''graphs''))"
    by (simp split: if_splits)
qed

lemma parsed_head:
  assumes "parseServerRoomMessage wt raw = Some m" "h \<in> set (message_heads m)"
  shows "parseHead wt (getp raw ''head'') = Some h"
  using assms
  by (auto simp: parseServerRoomMessage_def Let_def parse_ready_def parse_rehydrate_def split: if_splits option.splits)

lemma parsed_envelope:
  assumes "parseServerRoomMessage wt raw = Some m"
  shows "getp raw ''protocol_version'' = JNumber (Finite 1) \<and> getp raw ''type'' = JString (message_type m)"
  using assms
  by (auto simp: parseServerRoomMessage_def Let_def ROOM_PROTOCOL_VERSION_def split: if_splits)

text \<open>
  whatever the parser lets through carries protocol version 1 and the type of the message
  it became; a head in it is the nested form, never a flat one, its Graphs all passed the
  envelope check, and its checkpoint revision is at least 1.
\<close>

theorem parser_lets_through_only_valid:
  assumes "parseServerRoomMessage wt raw = Some m"
  shows "getp raw ''protocol_version'' = JNumber (Finite 1)
     \<and> getp raw ''type'' = JString (message_type m)
     \<and> list_all (\<lambda>h. h = as_head wt (getp raw ''head'') \<and> \<not> flat_head (getp raw ''head'')
         \<and> list_all graph_envelope_ok (items (getp (getp (getp raw ''head'') ''document'') ''graphs''))
         \<and> 1 \<le> h_checkpoint_revision h) (message_heads m)"
  using parsed_envelope [OF assms] parseHead_SomeD [OF parsed_head [OF assms]]
  by (simp add: list_all_iff)

subsubsection \<open>A room with one Graph\<close>

definition blank_document :: saved_graph_document where
  "blank_document = \<lparr>sd_schema_version = 1, sd_nodes = [], sd_edges = [], sd_origins = [], sd_agents = Undefined,
     sd_presentation = Undefined\<rparr>"

definition blank_types :: wire_types where
  "blank_types = \<lparr>as_document = (\<lambda>_. blank_document), as_generations = (\<lambda>_. Undefined),
     as_command = (\<lambda>v. PC_RemoveGraph (str (getp v ''graph_id'')))\<rparr>"

definition blank_printer :: wire_printer where
  "blank_printer = \<lparr>pr_document = (\<lambda>_. [(''nodes'', JArray []), (''edges'', JArray []), (''origins'', JArray [])]),
     pr_generations = (\<lambda>_. JUndefined),
     pr_command = (\<lambda>c. case c of PC_RemoveGraph g \<Rightarrow> [(''kind'', JString ''remove_graph''), (''graph_id'', JString g)] | _ \<Rightarrow> [])\<rparr>"

definition blank_head :: "string \<Rightarrow> nat \<Rightarrow> collaborative_head" where
  "blank_head epoch sequence = \<lparr>h_project_id = ''p1'', h_room_epoch = epoch, h_collaboration_sequence = sequence,
     h_checkpoint_sequence = 0, h_checkpoint_revision = 1, h_name = ''Project'', h_updated_at = ''now'',
     h_graphs = [\<lparr>g_id = ''g1'', g_name = ''Main'', g_document = blank_document, g_refresh_generations = Undefined\<rparr>]\<rparr>"

definition ada :: actor_presentation where
  "ada = \<lparr>actor_id = ''u1'', display_name = ''Ada'', color = ''red''\<rparr>"

definition ada_at :: "string \<Rightarrow> participant" where
  "ada_at session = \<lparr>pa_project_room_session_id = session, pa_actor = ada, pa_graph_id = Some ''g1'',
     pa_presence_sequence = 3, pa_cursor = Some \<lparr>pp_x = 1, pp_y = 1/2\<rparr>, pa_selected_node_ids = [''n1''],
     pa_selected_edge_ids = [], pa_activity = Some MovingNodes, pa_activity_target_ids = [''n1''],
     pa_transient_node_positions = [\<lparr>tp_node_id = ''n1'', tp_x = 0, tp_y = 2\<rparr>]\<rparr>"

definition demo_ready :: "string \<Rightarrow> nat \<Rightarrow> ready_message" where
  "demo_ready epoch sequence = \<lparr>rd_workspace_id = ''w1'', rd_project_id = ''p1'', rd_project_room_session_id = ''s1'',
     rd_actor = ada, rd_capabilities = \<lparr>cs_capabilities = [''edit_project'', ''publish_presence''], cs_authorization_version = 2\<rparr>,
     rd_head = blank_head epoch sequence, rd_participants = [ada_at ''s1''],
     rd_active_runs = [\<lparr>ar_run_id = ''r1'', ar_graph_id = ''g1'', ar_targets = [\<lparr>rt_node_id = ''n1'', rt_call_path = []\<rparr>],
        ar_starter = Some ada, ar_started_at = ''now'', ar_cancellable = True\<rparr>],
     rd_instances = [\<lparr>ik_project_id = ''p1'', ik_graph_id = ''g1'', ik_call_path = [''c1''], ik_node_id = ''n1'',
        ik_map_index = Some 12, is_state = Fresh, is_fingerprint = ''f'', is_last_result_fingerprint = None, is_error = None\<rparr>],
     rd_registry_marker = ''m1''\<rparr>"

lemmas demo_defs = demo_ready_def blank_head_def blank_document_def blank_types_def blank_printer_def ada_def ada_at_def

lemma demo_head_faithful: "head_faithful blank_types blank_printer (blank_head epoch sequence)"
  by (simp add: head_faithful_def document_faithful_def demo_defs)

lemma demo_ready_faithful: "message_faithful blank_types blank_printer (RoomReady (demo_ready epoch sequence))"
  using demo_head_faithful [of epoch sequence] by (simp add: demo_ready_def)

lemma demo_ready_read:
  "parseServerRoomMessage blank_types (wire_message blank_printer (RoomReady (demo_ready epoch sequence)))
     = Some (RoomReady (demo_ready epoch sequence))"
  using demo_ready_faithful [of epoch sequence]
  by (simp add: parseServerRoomMessage_def wire_message_envelope ROOM_PROTOCOL_VERSION_def parse_ready_wire)

theorem parser_reads_back_witness:
  "message_faithful blank_types blank_printer (RoomReady (demo_ready ''e1'' 7))
   \<and> parseServerRoomMessage blank_types (wire_message blank_printer (RoomReady (demo_ready ''e1'' 7)))
     = Some (RoomReady (demo_ready ''e1'' 7))"
  by (rule conjI [OF demo_ready_faithful parser_reads_back [OF demo_ready_faithful]])

theorem parser_lets_through_only_valid_witness:
  "parseServerRoomMessage blank_types (wire_message blank_printer (RoomReady (demo_ready ''e1'' 7)))
     = Some (RoomReady (demo_ready ''e1'' 7))
   \<and> \<not> flat_head (getp (wire_message blank_printer (RoomReady (demo_ready ''e1'' 7))) ''head'')"
  using parser_lets_through_only_valid [OF demo_ready_read [of "''e1''" 7]] demo_ready_read [of "''e1''" 7] by simp

subsection \<open>Instance keys\<close>

text \<open>Identifiers without the separators: no NUL anywhere, no slash and no empty step in the call path.\<close>

definition clean_key :: "'a instance_key_scheme \<Rightarrow> bool" where
  "clean_key k \<longleftrightarrow> CHR 0x00 \<notin> set (ik_graph_id k) \<and> CHR 0x00 \<notin> set (ik_node_id k)
     \<and> list_all (\<lambda>s. s \<noteq> [] \<and> CHR 0x00 \<notin> set s \<and> CHR ''/'' \<notin> set s) (ik_call_path k)"

lemma js_join_slash_inj:
  assumes "list_all (\<lambda>s. s \<noteq> [] \<and> CHR 0x00 \<notin> set s \<and> CHR ''/'' \<notin> set s) xs"
    and "list_all (\<lambda>s. s \<noteq> [] \<and> CHR 0x00 \<notin> set s \<and> CHR ''/'' \<notin> set s) ys"
    and "js_join ''/'' xs = js_join ''/'' ys"
  shows "xs = ys"
proof (cases "xs = [] \<or> ys = []")
  case True
  then show ?thesis using assms by (cases xs; cases ys) (auto elim: js_join.elims dest: sym)
next
  case False
  then show ?thesis using js_join_inj [of xs ys "CHR ''/''"] assms by (auto simp: list_all_iff)
qed

lemma clean_parts:
  assumes "clean_key k"
  shows "\<forall>x\<in>set [ik_graph_id k, js_join ''/'' (ik_call_path k), ik_node_id k,
            (case ik_map_index k of None \<Rightarrow> [] | Some i \<Rightarrow> decimal i)]. CHR 0x00 \<notin> set x"
  using assms js_join_set [of "''/''" "ik_call_path k"]
  by (auto simp: clean_key_def list_all_iff split: option.splits)

text \<open>
  the text under which a session files an instance identifies it: for keys whose ids avoid
  the two separators and whose call path has no empty step, two texts are equal exactly when
  the Graph, the call path, the node and the map index are. The Project is not part of the text.
\<close>

theorem instanceKeyText_identifies:
  assumes "clean_key k" "clean_key k'"
  shows "instanceKeyText k = instanceKeyText k' \<longleftrightarrow>
     ik_graph_id k = ik_graph_id k' \<and> ik_call_path k = ik_call_path k'
     \<and> ik_node_id k = ik_node_id k' \<and> ik_map_index k = ik_map_index k'"
proof
  assume eq: "instanceKeyText k = instanceKeyText k'"
  have parts: "[ik_graph_id k, js_join ''/'' (ik_call_path k), ik_node_id k,
              (case ik_map_index k of None \<Rightarrow> [] | Some i \<Rightarrow> decimal i)]
          = [ik_graph_id k', js_join ''/'' (ik_call_path k'), ik_node_id k',
              (case ik_map_index k' of None \<Rightarrow> [] | Some i \<Rightarrow> decimal i)]"
    by (rule js_join_inj [of _ _ "CHR 0x00"])
      (use eq clean_parts [OF assms(1)] clean_parts [OF assms(2)] in \<open>simp_all add: instanceKeyText_def\<close>)
  moreover from parts have "ik_call_path k = ik_call_path k'"
    using assms by (intro js_join_slash_inj) (simp_all add: clean_key_def)
  moreover from parts have "ik_map_index k = ik_map_index k'"
    by (auto simp: decimal_not_Nil [symmetric] split: option.splits)
  ultimately show "ik_graph_id k = ik_graph_id k' \<and> ik_call_path k = ik_call_path k'
     \<and> ik_node_id k = ik_node_id k' \<and> ik_map_index k = ik_map_index k'" by simp
qed (simp add: instanceKeyText_def)

definition demo_key :: "nat option \<Rightarrow> instance_key" where
  "demo_key i = \<lparr>ik_project_id = ''p1'', ik_graph_id = ''g1'', ik_call_path = [''a'', ''b''], ik_node_id = ''n1'',
     ik_map_index = i\<rparr>"

theorem instanceKeyText_identifies_witness:
  "clean_key (demo_key (Some 1)) \<and> clean_key (demo_key None)
   \<and> instanceKeyText (demo_key (Some 1)) \<noteq> instanceKeyText (demo_key None)"
  using instanceKeyText_identifies [of "demo_key (Some 1)" "demo_key None"]
  by (simp add: clean_key_def demo_key_def)

subsection \<open>Close frames\<close>

text \<open>
  a close frame ends the room for good exactly when it says that access was revoked or the
  Project deleted, by code or by reason, and not that permissions changed; every other frame is
  a reason to reconnect or no reason at all. Surrounding whitespace of the reason is ignored.
\<close>

theorem close_is_terminal_iff:
  "(\<exists>r. terminalReasonFromClose code reason = Some (Terminal r)) \<longleftrightarrow>
     (code = 4004 \<or> code = 4010
       \<or> js_trim reason \<in> {''access_revoked'', ''project_deleted'', ''graph_deleted''})
     \<and> \<not> (code = 4003 \<or> js_trim reason = ''permissions_changed'')"
  by (auto simp: terminalReasonFromClose_def Let_def CLOSE_PERMISSIONS_CHANGED_def CLOSE_ACCESS_REVOKED_def
      CLOSE_PROJECT_DELETED_def CLOSE_PROTOCOL_ERROR_def CLOSE_SLOW_CONSUMER_def)

end
