(* ===== verification/RoomSession.thy ===== *)
theory RoomSession
  imports RoomProtocol
begin

section \<open>The Project room session\<close>

text \<open>
  \<^verbatim>\<open>room/graph-room-session.ts\<close>, the class \<open>ProjectRoomSession\<close>, and \<^verbatim>\<open>room/project-room-url.ts\<close>. The
  session owns the WebSocket, the confirmed head, the reconnect timer and the outbox. A method
  is a function from a session to the session after it and what it did outside: the listeners
  it told, in order, the frames it handed to the socket, the sockets it opened and closed and
  the timer it set. A method body is a list of steps run one after the other.

  A socket is named by the generation that opened it. What the platform answers during a call
  is the environment of the call: the state of the socket, whether a send or the opening of a
  socket throws, the clock and the id the next command gets. Listeners are taken not to call
  the session back while it runs.
\<close>

subsection \<open>Addresses\<close>

definition API_BASE :: string where
  "API_BASE = ''/api''"

text \<open>The protocol and the host of the page; none outside a browser.\<close>

type_synonym page_location = "(string \<times> string) option"

definition projectRoomWebSocketUrl :: "page_location \<Rightarrow> string \<Rightarrow> string \<Rightarrow> string" where
  "projectRoomWebSocketUrl window workspaceId projectId =
     (let path = API_BASE @ ''/v1/workspaces/'' @ encodeURIComponent workspaceId
            @ ''/projects/'' @ encodeURIComponent projectId @ ''/room''
      in case window of
           None \<Rightarrow> path
         | Some (protocol, host) \<Rightarrow> (if protocol = ''https:'' then ''wss:'' else ''ws:'') @ ''//'' @ host @ path)"

subsection \<open>State\<close>

definition PRESENCE_CLIENT_MIN_INTERVAL_MS :: int where
  "PRESENCE_CLIENT_MIN_INTERVAL_MS = 50"

definition KNOWN_SERVER_MESSAGE_TYPES :: "string set" where
  "KNOWN_SERVER_MESSAGE_TYPES =
     {''room.ready'', ''room.rehydrate'', ''room.heartbeat'', ''presence.join'', ''presence.leave'', ''presence.update'',
      ''run.started'', ''run.finished'', ''instances.changed'', ''project.command.accepted'',
      ''project.command.receipt'', ''project.command.rejected''}"

text \<open>
  The options of a session, and what it uses of the platform: \<open>JSON.parse\<close> (a value or the
  message of the error it throws), the text of a number, and the typed reading of heads and
  commands. Delays are whole milliseconds.
\<close>

record session_options =
  so_workspaceId :: string
  so_projectId :: string
  so_reconnectDelayMs :: nat
  so_maxReconnectAttempts :: nat
  so_window :: page_location
  so_json_parse :: "string \<Rightarrow> string option + json"
  so_number_text :: "js_number \<Rightarrow> string"
  so_wire_types :: wire_types

text \<open>
  \<open>ce_socket_open\<close> and \<open>ce_socket_live\<close>: the socket's \<open>readyState\<close> is \<open>OPEN\<close>, or is below \<open>CLOSING\<close>.
  \<open>ce_send_error\<close> and \<open>ce_factory_error\<close>: what the call throws, \<open>None\<close> when it does not; the
  inner option tells an \<open>Error\<close> from another value.
\<close>

record call_env =
  ce_now :: int
  ce_socket_open :: bool
  ce_socket_live :: bool
  ce_send_error :: "room_command_error option option"
  ce_factory_error :: "string option option"
  ce_commandId :: string

record session =
  ss_socket :: "nat option"
  ss_status :: room_status
  ss_terminalReason :: "terminal_reason option"
  ss_lastFailure :: "room_failure option"
  ss_intentionallyClosed :: bool
  ss_reconnectTimer :: bool
  ss_reconnectAttempts :: nat
  ss_generation :: nat
  ss_ready :: "ready_message option"
  ss_head :: "collaborative_head option"
  ss_capabilities :: "string list"
  ss_authorizationVersion :: "nat option"
  ss_participants :: "(string \<times> participant) list"
  ss_presenceSequence :: nat
  ss_lastPresenceSentAt :: int
  ss_activeRuns :: "(string \<times> active_run) list"
  ss_instances :: "(string \<times> instance_state) list"
  ss_outbox :: outbox

record presence_update =
  pu_graph_id :: "string nullish"
  pu_cursor :: "presence_point nullish"
  pu_selected_node_ids :: "string list nullish"
  pu_selected_edge_ids :: "string list nullish"
  pu_activity :: "presence_activity nullish"
  pu_activity_target_ids :: "string list nullish"
  pu_transient_node_positions :: "transient_position list nullish"

record presence_payload =
  pl_graph_id :: "string option"
  pl_presence_sequence :: nat
  pl_cursor :: "presence_point option"
  pl_selected_node_ids :: "string list"
  pl_selected_edge_ids :: "string list"
  pl_activity :: "presence_activity option"
  pl_activity_target_ids :: "string list"
  pl_transient_node_positions :: "transient_position list"

datatype send_result = Written | Threw | NoSocket

datatype session_output =
    OnStatusChange room_status
  | OnReady ready_message
  | OnRehydrate collaborative_head
  | OnCommandAccepted command_accepted_message bool
  | OnPresenceChange "participant list"
  | OnActiveRunsChange "active_run list"
  | OnInstancesChange instances_changed_message
  | OnRunFinished run_finished_message
  | OnAuthorizationVersionChange nat
  | OnFailureChange "room_failure option"
  | OnTerminalClose terminal_reason
  | OutboxDid outbox_effect
  | Frame outgoing_command send_result
  | PresenceFrame presence_payload
  | OpenedSocket string nat
  | ClosedSocket nat "(int \<times> string) option"
  | SetTimer nat
  | ClearedTimer
  | PublishedAgentRoom json
  | SubmissionRefused room_command_error

type_synonym action = "session \<Rightarrow> session \<times> session_output list"

definition new_session :: session where
  "new_session =
     \<lparr>ss_socket = None, ss_status = Idle, ss_terminalReason = None, ss_lastFailure = None,
      ss_intentionallyClosed = False, ss_reconnectTimer = False, ss_reconnectAttempts = 0, ss_generation = 0,
      ss_ready = None, ss_head = None, ss_capabilities = [], ss_authorizationVersion = None, ss_participants = [],
      ss_presenceSequence = 0, ss_lastPresenceSentAt = 0, ss_activeRuns = [], ss_instances = [],
      ss_outbox = empty_outbox\<rparr>"

text \<open>Statements one after the other; a change of fields; a listener told.\<close>

fun run_steps :: "action list \<Rightarrow> action" where
  "run_steps [] s = (s, [])"
| "run_steps (step # steps) s =
     (case step s of (s1, outs1) \<Rightarrow> case run_steps steps s1 of (s2, outs2) \<Rightarrow> (s2, outs1 @ outs2))"

definition set_fields :: "(session \<Rightarrow> session) \<Rightarrow> action" where
  "set_fields f s = (f s, [])"

definition tell :: "session_output \<Rightarrow> action" where
  "tell out s = (s, [out])"

text \<open>\<open>new Map(entries)\<close>, \<open>Map.set\<close> and \<open>Map.delete\<close>, in insertion order.\<close>

definition map_set :: "'k \<Rightarrow> 'v \<Rightarrow> ('k \<times> 'v) list \<Rightarrow> ('k \<times> 'v) list" where
  "map_set k v m = AList.update k v m"

definition map_delete :: "'k \<Rightarrow> ('k \<times> 'v) list \<Rightarrow> ('k \<times> 'v) list" where
  "map_delete k m = filter (\<lambda>(k', _). k' \<noteq> k) m"

definition map_from :: "('k \<times> 'v) list \<Rightarrow> ('k \<times> 'v) list" where
  "map_from entries = fold (\<lambda>(k, v). map_set k v) entries []"

subsection \<open>Reading the session\<close>

definition shouldReplaceCollaborativeHead :: "collaborative_head option \<Rightarrow> collaborative_head \<Rightarrow> bool" where
  "shouldReplaceCollaborativeHead current incoming =
     (case current of
        None \<Rightarrow> True
      | Some c \<Rightarrow> if h_room_epoch c \<noteq> h_room_epoch incoming then True
          else h_collaboration_sequence c \<le> h_collaboration_sequence incoming)"

definition getActor :: "session \<Rightarrow> actor_presentation option" where
  "getActor s = map_option rd_actor (ss_ready s)"

definition getProjectRoomSessionId :: "session \<Rightarrow> string option" where
  "getProjectRoomSessionId s = map_option rd_project_room_session_id (ss_ready s)"

definition getActiveRuns :: "session \<Rightarrow> active_run list" where
  "getActiveRuns s = map snd (ss_activeRuns s)"

definition getInstances :: "session \<Rightarrow> instance_state list" where
  "getInstances s = map snd (ss_instances s)"

definition getParticipants :: "session \<Rightarrow> participant list" where
  "getParticipants s = map snd (ss_participants s)"

definition getRemoteParticipants :: "session \<Rightarrow> participant list" where
  "getRemoteParticipants s =
     filter (\<lambda>p. Some (pa_project_room_session_id p) \<noteq> getProjectRoomSessionId s) (getParticipants s)"

definition canPublishPresence :: "session \<Rightarrow> bool" where
  "canPublishPresence s \<longleftrightarrow>
     ss_status s = Ready \<and> ''publish_presence'' \<in> set (ss_capabilities s) \<and> ss_terminalReason s = None"

definition canSubmitCommands :: "session \<Rightarrow> bool" where
  "canSubmitCommands s \<longleftrightarrow>
     ss_status s = Ready \<and> ss_head s \<noteq> None \<and> ''edit_project'' \<in> set (ss_capabilities s) \<and> ss_terminalReason s = None"

definition canSendCommand :: "call_env \<Rightarrow> session \<Rightarrow> bool" where
  "canSendCommand env s \<longleftrightarrow> canSubmitCommands s \<and> ss_socket s \<noteq> None \<and> ce_socket_open env"

text \<open>The callbacks the constructor gives the outbox: the head, and whether a frame can be sent.\<close>

definition head_pointer_of :: "collaborative_head \<Rightarrow> head_pointer" where
  "head_pointer_of h = \<lparr>hp_room_epoch = h_room_epoch h, hp_collaboration_sequence = h_collaboration_sequence h\<rparr>"

definition outbox_env_of :: "call_env \<Rightarrow> session \<Rightarrow> outbox_env" where
  "outbox_env_of env s = \<lparr>env_head = map_option head_pointer_of (ss_head s), env_canSend = canSendCommand env s\<rparr>"

subsection \<open>Small steps\<close>

definition setStatus :: "room_status \<Rightarrow> action" where
  "setStatus status s =
     (if ss_status s = status then (s, []) else (s\<lparr>ss_status := status\<rparr>, [OnStatusChange status]))"

definition setFailure :: "room_failure option \<Rightarrow> action" where
  "setFailure failure s = (s\<lparr>ss_lastFailure := failure\<rparr>, [OnFailureChange failure])"

definition clearReconnectTimer :: action where
  "clearReconnectTimer s =
     (if \<not> ss_reconnectTimer s then (s, []) else (s\<lparr>ss_reconnectTimer := False\<rparr>, [ClearedTimer]))"

definition emitPresenceChange :: action where
  "emitPresenceChange s = (s, [OnPresenceChange (getParticipants s)])"

definition emitActiveRunsChange :: action where
  "emitActiveRunsChange s = (s, [OnActiveRunsChange (getActiveRuns s)])"

definition upsertParticipant :: "participant \<Rightarrow> action" where
  "upsertParticipant p = run_steps
     [set_fields (\<lambda>s. s\<lparr>ss_participants := map_set (pa_project_room_session_id p) p (ss_participants s)\<rparr>),
      emitPresenceChange]"

definition removeParticipant :: "string \<Rightarrow> action" where
  "removeParticipant sessionId s =
     (if sessionId \<notin> fst ` set (ss_participants s) then (s, [])
      else run_steps
        [set_fields (\<lambda>s. s\<lparr>ss_participants := map_delete sessionId (ss_participants s)\<rparr>),
         emitPresenceChange] s)"

definition clearPresence :: action where
  "clearPresence s =
     (if ss_participants s = [] then (s, [])
      else run_steps [set_fields (\<lambda>s. s\<lparr>ss_participants := []\<rparr>), emitPresenceChange] s)"

text \<open>\<open>ProjectRoomFailureDetail\<close>: a failure without the three fields the session fills in.\<close>

record failure_detail =
  fd_reason :: room_reason
  fd_retryable :: bool
  fd_side :: failure_side
  fd_phase :: failure_phase
  fd_messageType :: "string option"
  fd_protocolVersion :: "js_number option"
  fd_closeCode :: "int option"
  fd_detail :: string

definition failureWithContext :: "session_options \<Rightarrow> failure_detail \<Rightarrow> session \<Rightarrow> room_failure" where
  "failureWithContext opts failure s =
     \<lparr>f_workspaceId = so_workspaceId opts, f_projectId = so_projectId opts,
      f_projectRoomSessionId =
        (case getProjectRoomSessionId s of
           Some i \<Rightarrow> Some i
         | None \<Rightarrow> (case ss_lastFailure s of Some f \<Rightarrow> f_projectRoomSessionId f | None \<Rightarrow> None)),
      f_reason = fd_reason failure, f_retryable = fd_retryable failure, f_side = fd_side failure,
      f_phase = fd_phase failure, f_messageType = fd_messageType failure,
      f_protocolVersion = fd_protocolVersion failure, f_closeCode = fd_closeCode failure,
      f_detail = fd_detail failure\<rparr>"

subsection \<open>The outbox, driven\<close>

text \<open>An outbox operation that only tells its listeners, and one whose frames the session writes.\<close>

definition with_outbox :: "(outbox \<Rightarrow> outbox \<times> outbox_effect list) \<Rightarrow> action" where
  "with_outbox f s =
     (case f (ss_outbox s) of (ob, effects) \<Rightarrow> (s\<lparr>ss_outbox := ob\<rparr>, map OutboxDid effects))"

fun writeSends :: "call_env \<Rightarrow> outgoing_command list \<Rightarrow> action" where
  "writeSends env [] s = (s, [])"
| "writeSends env (send # sends) s =
     (case (case ss_socket s of
              None \<Rightarrow> (s, [Frame send NoSocket])
            | Some _ \<Rightarrow>
                (case ce_send_error env of
                   None \<Rightarrow> (s, [Frame send Written])
                 | Some error \<Rightarrow>
                     (case with_outbox (sendFailed (out_commandId send) error) s of
                        (s1, outs) \<Rightarrow> (s1, Frame send Threw # outs)))) of
        (s1, outs1) \<Rightarrow> (case writeSends env sends s1 of (s2, outs2) \<Rightarrow> (s2, outs1 @ outs2)))"

definition outbox_then_write :: "call_env \<Rightarrow> (outbox_env \<Rightarrow> outbox \<Rightarrow> outbox_step) \<Rightarrow> action" where
  "outbox_then_write env f s =
     (case f (outbox_env_of env s) (ss_outbox s) of (ob, effects, sends) \<Rightarrow>
        (case writeSends env sends (s\<lparr>ss_outbox := ob\<rparr>) of (s', outs) \<Rightarrow> (s', map OutboxDid effects @ outs)))"

subsection \<open>Losing and stopping the connection\<close>

definition close_socket :: "call_env \<Rightarrow> (int \<times> string) option \<Rightarrow> action" where
  "close_socket env how s =
     (case ss_socket s of
        None \<Rightarrow> (s, [])
      | Some g \<Rightarrow> (s\<lparr>ss_socket := None\<rparr>, if ce_socket_live env then [ClosedSocket g how] else []))"

fun reason_text :: "terminal_reason \<Rightarrow> string" where
  "reason_text AccessRevoked = ''access_revoked''"
| "reason_text ProjectDeleted = ''project_deleted''"
| "reason_text ProtocolIncompatible = ''protocol_incompatible''"
| "reason_text ReconnectExhausted = ''reconnect_exhausted''"

definition stopped_error :: "terminal_reason \<Rightarrow> room_command_error" where
  "stopped_error reason =
     \<lparr>err_command_id = [], err_error_code = reason_text reason,
      err_message = ''The Project room closed ('' @ reason_text reason
        @ ''). The displayed Project is not trusted for durable commands.''\<rparr>"

definition stopTraffic :: "session_options \<Rightarrow> call_env \<Rightarrow> terminal_reason \<Rightarrow> failure_detail option \<Rightarrow> action" where
  "stopTraffic opts env reason failure = run_steps
     [set_fields (\<lambda>s. s\<lparr>ss_intentionallyClosed := True\<rparr>),
      clearReconnectTimer,
      set_fields (\<lambda>s. s\<lparr>ss_terminalReason := Some reason\<rparr>),
      (\<lambda>s. case failure of None \<Rightarrow> (s, []) | Some f \<Rightarrow> setFailure (Some (failureWithContext opts f s)) s),
      set_fields (\<lambda>s. s\<lparr>ss_ready := None, ss_capabilities := [], ss_authorizationVersion := None\<rparr>),
      clearPresence,
      set_fields (\<lambda>s. s\<lparr>ss_generation := ss_generation s + 1\<rparr>),
      close_socket env None,
      with_outbox (rejectAll (stopped_error reason)),
      setStatus Stopped,
      tell (OnTerminalClose reason)]"

definition exhausted_detail :: "session_options \<Rightarrow> session \<Rightarrow> failure_detail" where
  "exhausted_detail opts s =
     (let prior = ss_lastFailure s
      in \<lparr>fd_reason = Terminal ReconnectExhausted, fd_retryable = True,
          fd_side = (case prior of Some f \<Rightarrow> f_side f | None \<Rightarrow> SideNetwork),
          fd_phase = (case prior of Some f \<Rightarrow> f_phase f | None \<Rightarrow> PhaseConnect),
          fd_messageType = (case prior of Some f \<Rightarrow> f_messageType f | None \<Rightarrow> None),
          fd_protocolVersion =
            (case prior of
               Some f \<Rightarrow> (case f_protocolVersion f of Some v \<Rightarrow> Some v | None \<Rightarrow> Some (Finite (of_int ROOM_PROTOCOL_VERSION)))
             | None \<Rightarrow> Some (Finite (of_int ROOM_PROTOCOL_VERSION))),
          fd_closeCode = (case prior of Some f \<Rightarrow> f_closeCode f | None \<Rightarrow> None),
          fd_detail = ''Automatic reconnection stopped after '' @ decimal (so_maxReconnectAttempts opts) @ '' attempts.''\<rparr>)"

definition scheduleReconnect :: "session_options \<Rightarrow> call_env \<Rightarrow> action" where
  "scheduleReconnect opts env s =
     (if ss_intentionallyClosed s \<or> ss_terminalReason s \<noteq> None then (s, [])
      else if so_maxReconnectAttempts opts \<le> ss_reconnectAttempts s
      then stopTraffic opts env ReconnectExhausted (Some (exhausted_detail opts s)) s
      else
        (let delay = min (so_reconnectDelayMs opts * 2 ^ ss_reconnectAttempts s) 10000
         in run_steps
              [clearReconnectTimer,
               set_fields (\<lambda>s. s\<lparr>ss_reconnectAttempts := ss_reconnectAttempts s + 1, ss_reconnectTimer := True\<rparr>),
               tell (SetTimer delay)] s))"

definition recoverTraffic :: "session_options \<Rightarrow> call_env \<Rightarrow> failure_detail \<Rightarrow> action" where
  "recoverTraffic opts env failure = run_steps
     [(\<lambda>s. setFailure (Some (failureWithContext opts failure s)) s),
      set_fields (\<lambda>s. s\<lparr>ss_ready := None, ss_capabilities := [], ss_authorizationVersion := None,
                        ss_activeRuns := []\<rparr>),
      tell (OnActiveRunsChange []),
      clearPresence,
      with_outbox (\<lambda>ob. (interruptInFlight ob, [])),
      set_fields (\<lambda>s. s\<lparr>ss_generation := ss_generation s + 1\<rparr>),
      close_socket env None,
      setStatus Unsynchronized,
      scheduleReconnect opts env]"

definition terminal_close_detail :: "terminal_reason \<Rightarrow> int \<Rightarrow> string \<Rightarrow> failure_detail" where
  "terminal_close_detail why code reason =
     \<lparr>fd_reason = Terminal why, fd_retryable = False, fd_side = SideServer, fd_phase = PhaseClose,
      fd_messageType = None, fd_protocolVersion = Some (Finite (of_int ROOM_PROTOCOL_VERSION)), fd_closeCode = Some code,
      fd_detail = (if reason \<noteq> [] then reason
        else ''The server closed the Project room ('' @ reason_text why @ '').'')\<rparr>"

definition lost_close_detail :: "room_reason option \<Rightarrow> int \<Rightarrow> string \<Rightarrow> failure_detail" where
  "lost_close_detail classified code reason =
     \<lparr>fd_reason = (case classified of Some (Recovery r) \<Rightarrow> Recovery r | _ \<Rightarrow> Recovery ConnectionLost),
      fd_retryable = True, fd_side = (if classified = None then SideNetwork else SideServer), fd_phase = PhaseClose,
      fd_messageType = None, fd_protocolVersion = Some (Finite (of_int ROOM_PROTOCOL_VERSION)), fd_closeCode = Some code,
      fd_detail = (if reason \<noteq> [] then reason else ''The Project room connection closed unexpectedly.'')\<rparr>"

definition handleClose :: "session_options \<Rightarrow> call_env \<Rightarrow> int \<Rightarrow> string \<Rightarrow> action" where
  "handleClose opts env code reason s =
     (let classified = terminalReasonFromClose code reason
      in case classified of
           Some (Terminal why) \<Rightarrow> stopTraffic opts env why (Some (terminal_close_detail why code reason)) s
         | _ \<Rightarrow> if ss_intentionallyClosed s then setStatus Idle s
                else recoverTraffic opts env (lost_close_detail classified code reason) s)"

subsection \<open>Opening, closing and presence\<close>

definition connect_failed_detail :: "string option \<Rightarrow> failure_detail" where
  "connect_failed_detail error =
     \<lparr>fd_reason = Recovery ConnectionLost, fd_retryable = True, fd_side = SideNetwork, fd_phase = PhaseConnect,
      fd_messageType = None, fd_protocolVersion = Some (Finite (of_int ROOM_PROTOCOL_VERSION)), fd_closeCode = None,
      fd_detail = (case error of Some message \<Rightarrow> message | None \<Rightarrow> ''The Project room connection could not be opened.'')\<rparr>"

definition openSocket :: "session_options \<Rightarrow> call_env \<Rightarrow> action" where
  "openSocket opts env s =
     (if ss_intentionallyClosed s \<or> ss_terminalReason s \<noteq> None then (s, [])
      else run_steps
        [set_fields (\<lambda>s. s\<lparr>ss_generation := ss_generation s + 1\<rparr>),
         (\<lambda>s. setStatus (if ss_head s \<noteq> None then Reconnecting else Connecting) s),
         (\<lambda>s. case ce_factory_error env of
                Some error \<Rightarrow> recoverTraffic opts env (connect_failed_detail error) s
              | None \<Rightarrow>
                  (s\<lparr>ss_socket := Some (ss_generation s)\<rparr>,
                   [OpenedSocket (projectRoomWebSocketUrl (so_window opts) (so_workspaceId opts) (so_projectId opts))
                      (ss_generation s)]))] s)"

definition connect :: "session_options \<Rightarrow> call_env \<Rightarrow> action" where
  "connect opts env s =
     (if ss_terminalReason s \<noteq> None then (s, [])
      else run_steps
        [set_fields (\<lambda>s. s\<lparr>ss_intentionallyClosed := False\<rparr>), clearReconnectTimer, openSocket opts env] s)"

definition retry :: "session_options \<Rightarrow> call_env \<Rightarrow> action" where
  "retry opts env s =
     (if ss_terminalReason s \<noteq> Some ReconnectExhausted then (s, [])
      else run_steps
        [set_fields (\<lambda>s. s\<lparr>ss_terminalReason := None, ss_intentionallyClosed := False, ss_reconnectAttempts := 0\<rparr>),
         clearReconnectTimer, openSocket opts env] s)"

definition disconnected_error :: room_command_error where
  "disconnected_error = \<lparr>err_command_id = [], err_error_code = ''disconnected'',
     err_message = ''The Project room disconnected before the command completed.''\<rparr>"

definition disconnect :: "call_env \<Rightarrow> action" where
  "disconnect env = run_steps
     [set_fields (\<lambda>s. s\<lparr>ss_intentionallyClosed := True\<rparr>),
      clearReconnectTimer,
      set_fields (\<lambda>s. s\<lparr>ss_generation := ss_generation s + 1\<rparr>),
      close_socket env (Some (1000, ''client_disconnect'')),
      with_outbox (rejectAll disconnected_error),
      with_outbox (\<lambda>ob. (clearLocalCommands ob, [])),
      set_fields (\<lambda>s. s\<lparr>ss_reconnectAttempts := 0\<rparr>),
      setFailure None,
      setStatus Idle,
      set_fields (\<lambda>s. s\<lparr>ss_ready := None\<rparr>),
      clearPresence]"

definition timer_fires :: "session_options \<Rightarrow> call_env \<Rightarrow> action" where
  "timer_fires opts env = run_steps
     [set_fields (\<lambda>s. s\<lparr>ss_reconnectTimer := False\<rparr>),
      (\<lambda>s. if ss_intentionallyClosed s \<or> ss_terminalReason s \<noteq> None then (s, []) else openSocket opts env s)]"

definition nullish_option :: "'a nullish \<Rightarrow> 'a option" where
  "nullish_option x = (case x of Defined v \<Rightarrow> Some v | _ \<Rightarrow> None)"

definition presence_payload_of :: "presence_update \<Rightarrow> nat \<Rightarrow> presence_payload" where
  "presence_payload_of u n =
     \<lparr>pl_graph_id = nullish_option (pu_graph_id u), pl_presence_sequence = n,
      pl_cursor = nullish_option (pu_cursor u), pl_selected_node_ids = nullish_or (pu_selected_node_ids u) [],
      pl_selected_edge_ids = nullish_or (pu_selected_edge_ids u) [], pl_activity = nullish_option (pu_activity u),
      pl_activity_target_ids = nullish_or (pu_activity_target_ids u) [],
      pl_transient_node_positions = nullish_or (pu_transient_node_positions u) []\<rparr>"

definition publishPresence :: "call_env \<Rightarrow> presence_update \<Rightarrow> session \<Rightarrow> (session \<times> session_output list) \<times> bool" where
  "publishPresence env update s =
     (if \<not> canPublishPresence s then ((s, []), False)
      else if 0 < ss_lastPresenceSentAt s
           \<and> ce_now env - ss_lastPresenceSentAt s < PRESENCE_CLIENT_MIN_INTERVAL_MS then ((s, []), False)
      else if ss_socket s = None \<or> \<not> ce_socket_open env then ((s, []), False)
      else
        (let s1 = s\<lparr>ss_presenceSequence := ss_presenceSequence s + 1\<rparr>
         in if ce_send_error env \<noteq> None then ((s1, []), False)
            else ((s1\<lparr>ss_lastPresenceSentAt := ce_now env\<rparr>,
                   [PresenceFrame (presence_payload_of update (ss_presenceSequence s1))]), True)))"

subsection \<open>Heads and commands\<close>

definition replaceHead :: "call_env \<Rightarrow> collaborative_head \<Rightarrow> action" where
  "replaceHead env head s =
     (if \<not> shouldReplaceCollaborativeHead (ss_head s) head
      then (if \<not> pendingReceiptIsCovered (outbox_env_of env s) (ss_outbox s) then (s, [])
            else outbox_then_write env finishHeadRehydration s)
      else run_steps
        [set_fields (\<lambda>s. s\<lparr>ss_head := Some head\<rparr>), outbox_then_write env finishHeadRehydration] s)"

text \<open>The call throws (\<open>Inl\<close> the text of the error) or returns the effective head.\<close>

definition reconcileCheckpointHead ::
    "call_env \<Rightarrow> collaborative_head \<Rightarrow> string \<Rightarrow> session \<Rightarrow> (session \<times> session_output list) \<times> (string + collaborative_head)" where
  "reconcileCheckpointHead env checkpointHead expectedRoomEpoch s =
     (case ss_head s of
        None \<Rightarrow> ((s, []), Inl (''The Project room head is unavailable while reconciling checkpoint epoch ''
                  @ expectedRoomEpoch @ ''.''))
      | Some currentHead \<Rightarrow>
          if h_room_epoch currentHead \<noteq> expectedRoomEpoch then ((s, []), Inr currentHead)
          else if h_room_epoch checkpointHead \<noteq> expectedRoomEpoch
          then ((s, []), Inl (''Checkpoint response epoch '' @ h_room_epoch checkpointHead
                  @ '' does not match submitted command epoch '' @ expectedRoomEpoch @ ''.''))
          else
            (case replaceHead env checkpointHead s of (s1, outs1) \<Rightarrow>
               (case ss_head s1 of
                  None \<Rightarrow> ((s1, outs1), Inl (''The Project room head is unavailable after reconciling checkpoint epoch ''
                            @ expectedRoomEpoch @ ''.''))
                | Some effectiveHead \<Rightarrow>
                    if h_collaboration_sequence checkpointHead < h_collaboration_sequence effectiveHead
                       \<and> h_checkpoint_sequence effectiveHead < h_checkpoint_sequence checkpointHead
                    then
                      (let merged = effectiveHead\<lparr>h_checkpoint_sequence := h_checkpoint_sequence checkpointHead,
                                                  h_checkpoint_revision := h_checkpoint_revision checkpointHead\<rparr>
                       in case replaceHead env merged s1 of (s2, outs2) \<Rightarrow> ((s2, outs1 @ outs2), Inr merged))
                    else ((s1, outs1), Inr effectiveHead))))"

definition not_ready_error :: room_command_error where
  "not_ready_error = \<lparr>err_command_id = [], err_error_code = ''not_ready'',
     err_message = ''The Project room is not ready to accept durable commands.''\<rparr>"

definition submitCommands :: "call_env \<Rightarrow> project_command list \<Rightarrow> action" where
  "submitCommands env commands s =
     (if \<not> canSubmitCommands s \<or> ss_head s = None then (s, [SubmissionRefused not_ready_error])
      else outbox_then_write env (\<lambda>oenv. submit oenv commands (ce_commandId env)) s)"

text \<open>
  What an accepted batch does to the confirmed head: nothing when it is already in it, the
  replayed head when it is the next one and replays, and otherwise a fresh snapshot is needed.
\<close>

datatype head_verdict = Covered | NeedsRefresh | Advanced collaborative_head

definition accepted_head ::
    "(collaborative_head \<Rightarrow> project_command list \<Rightarrow> nat \<Rightarrow> 'e + collaborative_head)
      \<Rightarrow> command_accepted_message \<Rightarrow> collaborative_head option \<Rightarrow> head_verdict" where
  "accepted_head replay message current =
     (case current of
        None \<Rightarrow> NeedsRefresh
      | Some head \<Rightarrow>
          if acc_room_epoch message \<noteq> h_room_epoch head then NeedsRefresh
          else if acc_sequence message \<le> h_collaboration_sequence head then Covered
          else if acc_sequence message \<noteq> h_collaboration_sequence head + 1 then NeedsRefresh
          else case replay head (acc_commands message) (acc_sequence message) of
                 Inl _ \<Rightarrow> NeedsRefresh
               | Inr head' \<Rightarrow> Advanced head')"

definition applyAccepted :: "call_env \<Rightarrow> command_accepted_message \<Rightarrow> action" where
  "applyAccepted env message s =
     (let local = snd (recordAccepted message (ss_outbox s));
          s1 = s\<lparr>ss_outbox := fst (recordAccepted message (ss_outbox s))\<rparr>
      in case accepted_head applyRoomCommandsToHead message (ss_head s1) of
           NeedsRefresh \<Rightarrow> with_outbox requestHeadRefresh s1
         | Covered \<Rightarrow> (s1, [])
         | Advanced head \<Rightarrow> run_steps
             [set_fields (\<lambda>s. s\<lparr>ss_head := Some head\<rparr>),
              tell (OnCommandAccepted message local),
              outbox_then_write env afterHeadApplied] s1)"

subsection \<open>Messages\<close>

definition receive_failure :: "recovery_reason \<Rightarrow> string option \<Rightarrow> js_number option \<Rightarrow> string \<Rightarrow> failure_detail" where
  "receive_failure reason messageType protocolVersion detail =
     \<lparr>fd_reason = Recovery reason, fd_retryable = True, fd_side = SideServer, fd_phase = PhaseReceive,
      fd_messageType = messageType, fd_protocolVersion = protocolVersion, fd_closeCode = None, fd_detail = detail\<rparr>"

definition applyReady :: "session_options \<Rightarrow> call_env \<Rightarrow> ready_message \<Rightarrow> action" where
  "applyReady opts env message s =
     (if rd_workspace_id message \<noteq> so_workspaceId opts \<or> rd_project_id message \<noteq> so_projectId opts
      then recoverTraffic opts env
             (receive_failure ProtocolError (Some ''room.ready'') (Some (Finite 1))
                ''The room-ready message identified a different workspace or Project.'') s
      else
        (let ready = (case ss_head s of
               None \<Rightarrow> message
             | Some head \<Rightarrow> if shouldReplaceCollaborativeHead (Some head) (rd_head message) then message
                 else message\<lparr>rd_head := head\<rparr>)
         in run_steps
              [set_fields (\<lambda>s. s\<lparr>ss_ready := Some ready, ss_head := Some (rd_head ready),
                 ss_capabilities := cs_capabilities (rd_capabilities message),
                 ss_authorizationVersion := Some (cs_authorization_version (rd_capabilities message)),
                 ss_participants := map_from (map (\<lambda>p. (pa_project_room_session_id p, p)) (rd_participants message)),
                 ss_presenceSequence := 0, ss_lastPresenceSentAt := 0,
                 ss_activeRuns := map_from (map (\<lambda>r. (ar_run_id r, r)) (rd_active_runs message)),
                 ss_instances := map_from (map (\<lambda>i. (instanceKeyText i, i)) (rd_instances message)),
                 ss_reconnectAttempts := 0\<rparr>),
               setFailure None,
               setStatus Ready,
               tell (OnReady ready),
               emitActiveRunsChange,
               emitPresenceChange,
               outbox_then_write env finishHeadRehydration] s))"

definition apply_rehydrate :: "call_env \<Rightarrow> collaborative_head \<Rightarrow> action" where
  "apply_rehydrate env head s =
     (case ss_head s of
        Some current \<Rightarrow>
          if \<not> shouldReplaceCollaborativeHead (Some current) head then tell (OnRehydrate current) s
          else run_steps
            [set_fields (\<lambda>s. s\<lparr>ss_head := Some head\<rparr>), tell (OnRehydrate head),
             outbox_then_write env finishHeadRehydration] s
      | None \<Rightarrow> run_steps
            [set_fields (\<lambda>s. s\<lparr>ss_head := Some head\<rparr>), tell (OnRehydrate head),
             outbox_then_write env finishHeadRehydration] s)"

definition apply_instances :: "instances_changed_message \<Rightarrow> (string \<times> instance_state) list \<Rightarrow> (string \<times> instance_state) list" where
  "apply_instances message m =
     fold (\<lambda>i. map_set (instanceKeyText i) i) (ic_changed message)
       (fold (\<lambda>k. map_delete (instanceKeyText k)) (ic_removed message) m)"

fun apply_message :: "session_options \<Rightarrow> call_env \<Rightarrow> server_message \<Rightarrow> action" where
  "apply_message opts env (RoomReady m) = applyReady opts env m"
| "apply_message opts env (RoomRehydrate h) = apply_rehydrate env h"
| "apply_message opts env (PresenceJoin p) = upsertParticipant p"
| "apply_message opts env (PresenceUpdate p) = upsertParticipant p"
| "apply_message opts env (PresenceLeave i) = removeParticipant i"
| "apply_message opts env (RunStarted r) = run_steps
     [set_fields (\<lambda>s. s\<lparr>ss_activeRuns := map_set (ar_run_id r) r (ss_activeRuns s)\<rparr>), emitActiveRunsChange]"
| "apply_message opts env (RunFinished m) = run_steps
     [set_fields (\<lambda>s. s\<lparr>ss_activeRuns := map_delete (rf_run_id m) (ss_activeRuns s)\<rparr>), emitActiveRunsChange,
      tell (OnRunFinished m)]"
| "apply_message opts env (InstancesChanged m) = run_steps
     [set_fields (\<lambda>s. s\<lparr>ss_instances := apply_instances m (ss_instances s)\<rparr>), tell (OnInstancesChange m)]"
| "apply_message opts env (RoomHeartbeat v) = run_steps
     [set_fields (\<lambda>s. s\<lparr>ss_authorizationVersion := Some v\<rparr>), tell (OnAuthorizationVersionChange v)]"
| "apply_message opts env (CommandAccepted m) = applyAccepted env m"
| "apply_message opts env (CommandReceipt m) = outbox_then_write env (\<lambda>oenv. applyReceipt oenv m)"
| "apply_message opts env (CommandRejection m) =
     with_outbox (\<lambda>ob. case applyRejected m ob of (ob', effects, _) \<Rightarrow> (ob', effects))"

definition message_type_of :: "json \<Rightarrow> string option" where
  "message_type_of raw =
     (if isRecord raw \<and> has_property ''type'' raw \<and> isString (getp raw ''type'') then Some (str (getp raw ''type'')) else None)"

definition protocol_version_of :: "json \<Rightarrow> js_number option" where
  "protocol_version_of raw =
     (if isRecord raw \<and> has_property ''protocol_version'' raw
      then (case getp raw ''protocol_version'' of JNumber n \<Rightarrow> Some n | _ \<Rightarrow> None) else None)"

definition incompatible_detail :: "session_options \<Rightarrow> string option \<Rightarrow> js_number option \<Rightarrow> failure_detail" where
  "incompatible_detail opts messageType protocolVersion =
     \<lparr>fd_reason = Terminal ProtocolIncompatible, fd_retryable = False, fd_side = SideClient, fd_phase = PhaseReceive,
      fd_messageType = messageType, fd_protocolVersion = protocolVersion, fd_closeCode = None,
      fd_detail = ''Expected Project-room protocol 1, received ''
        @ (case protocolVersion of Some v \<Rightarrow> so_number_text opts v | None \<Rightarrow> ''no version'') @ ''.''\<rparr>"

definition malformed_failure :: "string option \<Rightarrow> js_number option \<Rightarrow> failure_detail" where
  "malformed_failure messageType protocolVersion =
     receive_failure ProtocolError messageType protocolVersion
       (case messageType of
          Some t \<Rightarrow> if t = [] then ''The server sent a message without a valid type.''
            else ''The server sent a malformed '' @ t @ '' message.''
        | None \<Rightarrow> ''The server sent a message without a valid type.'')"

definition is_agent_type :: "string option \<Rightarrow> bool" where
  "is_agent_type messageType = (case messageType of Some t \<Rightarrow> take 6 t = ''agent.'' | None \<Rightarrow> False)"

definition handle_value :: "session_options \<Rightarrow> call_env \<Rightarrow> json \<Rightarrow> action" where
  "handle_value opts env raw =
     (let messageType = message_type_of raw;
          protocolVersion = protocol_version_of raw
      in if isRecord raw \<and> has_property ''type'' raw \<and> getp raw ''type'' = JString ''room.heartbeat'' then run_steps []
         else if protocolVersion \<noteq> Some (Finite (of_int ROOM_PROTOCOL_VERSION))
         then stopTraffic opts env ProtocolIncompatible (Some (incompatible_detail opts messageType protocolVersion))
         else run_steps
           [(if is_agent_type messageType \<or> messageType = Some ''room.ready'' then tell (PublishedAgentRoom raw) else run_steps []),
            (if is_agent_type messageType then run_steps []
             else if messageType \<noteq> None \<and> the messageType \<notin> KNOWN_SERVER_MESSAGE_TYPES then run_steps []
             else case parseServerRoomMessage (so_wire_types opts) raw of
                    None \<Rightarrow> recoverTraffic opts env
                      (malformed_failure messageType protocolVersion)
                  | Some message \<Rightarrow> apply_message opts env message)])"

definition handleMessage :: "session_options \<Rightarrow> call_env \<Rightarrow> json \<Rightarrow> action" where
  "handleMessage opts env data =
     (case data of
        JString text \<Rightarrow>
          (case so_json_parse opts text of
             Inl error \<Rightarrow> recoverTraffic opts env
               (receive_failure ProtocolError None None
                  (case error of Some message \<Rightarrow> message | None \<Rightarrow> ''The server sent malformed JSON.''))
           | Inr raw \<Rightarrow> handle_value opts env raw)
      | _ \<Rightarrow> handle_value opts env data)"

subsection \<open>Events of a socket\<close>

datatype ws_event = SocketOpen | SocketMessage json | SocketClose int string | SocketError

text \<open>A handler is bound to the socket that was opened in its generation and ignores everything once another is current.\<close>

definition on_socket_event :: "session_options \<Rightarrow> call_env \<Rightarrow> nat \<Rightarrow> ws_event \<Rightarrow> action" where
  "on_socket_event opts env generation event s =
     (if generation \<noteq> ss_generation s \<or> ss_socket s \<noteq> Some generation then (s, [])
      else case event of
        SocketOpen \<Rightarrow> (s, [])
      | SocketMessage data \<Rightarrow> handleMessage opts env data s
      | SocketClose code reason \<Rightarrow> handleClose opts env code reason (s\<lparr>ss_socket := None\<rparr>)
      | SocketError \<Rightarrow> if ss_status s = Ready then setStatus Unsynchronized s else (s, []))"

end
