(* ===== verification/RoomSession_Facts.thy ===== *)
theory RoomSession_Facts
  imports RoomSession RoomProtocol_Facts CommandOutbox_Facts RoomBridge_Facts
begin

section \<open>Correctness of the room session\<close>

text \<open>
  The session as a system of calls and socket events over the outbox and the replay of accepted
  batches: its invariant, the confirmed head, the use of the outbox as its own specification
  allows, the bound on reconnection, and the end of a session.
\<close>

subsection \<open>The state after each step\<close>

named_theorems state_after \<open>the session after a step, as an update of the session before\<close>

lemma run_steps_fst [state_after]:
  "fst (run_steps [] s) = s" "fst (run_steps (f # fs) s) = fst (run_steps fs (fst (f s)))"
  by (simp_all split: prod.splits)

lemma run_steps_snd:
  "snd (run_steps [] s) = []" "snd (run_steps (f # fs) s) = snd (f s) @ snd (run_steps fs (fst (f s)))"
  by (simp_all split: prod.splits)

declare run_steps.simps [simp del]

lemma set_fields_fst [state_after]: "fst (set_fields f s) = f s"
  by (simp add: set_fields_def)

lemma tell_fst [state_after]: "fst (tell out s) = s"
  by (simp add: tell_def)

lemma setStatus_fst [state_after]: "fst (setStatus st s) = s\<lparr>ss_status := st\<rparr>"
  by (auto simp: setStatus_def)

lemma setFailure_fst [state_after]: "fst (setFailure f s) = s\<lparr>ss_lastFailure := f\<rparr>"
  by (simp add: setFailure_def)

lemma clearReconnectTimer_fst [state_after]: "fst (clearReconnectTimer s) = s\<lparr>ss_reconnectTimer := False\<rparr>"
  by (auto simp: clearReconnectTimer_def)

lemma emit_fst [state_after]: "fst (emitPresenceChange s) = s" "fst (emitActiveRunsChange s) = s"
  by (simp_all add: emitPresenceChange_def emitActiveRunsChange_def)

lemma clearPresence_fst [state_after]: "fst (clearPresence s) = s\<lparr>ss_participants := []\<rparr>"
  by (auto simp: clearPresence_def state_after)

lemma close_socket_fst [state_after]: "fst (close_socket env how s) = s\<lparr>ss_socket := None\<rparr>"
  by (auto simp: close_socket_def split: option.splits)

lemma with_outbox_fst [state_after]: "fst (with_outbox f s) = s\<lparr>ss_outbox := fst (f (ss_outbox s))\<rparr>"
  by (simp add: with_outbox_def split: prod.splits)

definition map_delete_key :: "string \<Rightarrow> session \<Rightarrow> session" where
  "map_delete_key i s = s\<lparr>ss_participants := map_delete i (ss_participants s)\<rparr>"

lemma map_delete_absent: "k \<notin> fst ` set m \<Longrightarrow> map_delete k m = m"
  by (induction m) (auto simp: map_delete_def)

lemma participants_fst [state_after]:
  "fst (upsertParticipant p s) = s\<lparr>ss_participants := map_set (pa_project_room_session_id p) p (ss_participants s)\<rparr>"
  "fst (removeParticipant i s) = s\<lparr>ss_participants := map_delete i (ss_participants s)\<rparr>"
  by (auto simp: upsertParticipant_def removeParticipant_def state_after map_delete_absent)

text \<open>Writing frames changes nothing but the outbox, and that only when a send throws.\<close>

lemma writeSends_fst: "\<exists>ob. fst (writeSends env sends s) = s\<lparr>ss_outbox := ob\<rparr>"
proof (induction sends arbitrary: s)
  case Nil
  then show ?case by (intro exI [of _ "ss_outbox s"]) simp
next
  case (Cons send sends)
  obtain s1 outs where first: "(case ss_socket s of
              None \<Rightarrow> (s, [Frame send NoSocket])
            | Some _ \<Rightarrow>
                (case ce_send_error env of
                   None \<Rightarrow> (s, [Frame send Written])
                 | Some error \<Rightarrow>
                     (case with_outbox (sendFailed (out_commandId send) error) s of
                        (s1, outs) \<Rightarrow> (s1, Frame send Threw # outs)))) = (s1, outs)"
    by fastforce
  then have "\<exists>ob1. s1 = s\<lparr>ss_outbox := ob1\<rparr>"
    by (auto simp: with_outbox_def split: option.splits prod.splits intro: exI [of _ "ss_outbox s"])
  then obtain ob1 where s1: "s1 = s\<lparr>ss_outbox := ob1\<rparr>" ..
  from Cons.IH [of s1] obtain ob where "fst (writeSends env sends s1) = s1\<lparr>ss_outbox := ob\<rparr>" ..
  then have "fst (writeSends env (send # sends) s) = s\<lparr>ss_outbox := ob\<rparr>"
    using first s1 by (auto split: prod.splits)
  then show ?case ..
qed

definition driven :: "call_env \<Rightarrow> (outbox_env \<Rightarrow> outbox \<Rightarrow> outbox_step) \<Rightarrow> session \<Rightarrow> outbox" where
  "driven env f s = ss_outbox (fst (outbox_then_write env f s))"

lemma outbox_then_write_fst [state_after]: "fst (outbox_then_write env f s) = s\<lparr>ss_outbox := driven env f s\<rparr>"
proof -
  obtain ob es ss where f: "f (outbox_env_of env s) (ss_outbox s) = (ob, es, ss)" by (rule prod_cases3)
  from writeSends_fst [of env ss "s\<lparr>ss_outbox := ob\<rparr>"]
  obtain ob' where "fst (writeSends env ss (s\<lparr>ss_outbox := ob\<rparr>)) = s\<lparr>ss_outbox := ob'\<rparr>" by auto
  then show ?thesis by (auto simp: driven_def outbox_then_write_def f split: prod.splits)
qed

lemma rejectAll_fst: "fst (rejectAll e ob) = ob\<lparr>ob_inFlight := None, ob_queue := []\<rparr>"
  by (simp add: rejectAll_def)

lemma failureWithContext_frame [simp]:
  "failureWithContext opts f (s\<lparr>ss_intentionallyClosed := b, ss_reconnectTimer := c, ss_terminalReason := r\<rparr>)
     = failureWithContext opts f s"
  by (auto simp: failureWithContext_def getProjectRoomSessionId_def split: option.splits)

lemma stopTraffic_fst [state_after]:
  "fst (stopTraffic opts env reason failure s) =
     s\<lparr>ss_intentionallyClosed := True, ss_reconnectTimer := False, ss_terminalReason := Some reason,
       ss_lastFailure := (case failure of None \<Rightarrow> ss_lastFailure s | Some f \<Rightarrow> Some (failureWithContext opts f s)),
       ss_ready := None, ss_capabilities := [], ss_authorizationVersion := None, ss_participants := [],
       ss_generation := ss_generation s + 1, ss_socket := None,
       ss_outbox := (ss_outbox s)\<lparr>ob_inFlight := None, ob_queue := []\<rparr>, ss_status := Stopped\<rparr>"
  by (cases failure)
     (simp_all add: stopTraffic_def state_after rejectAll_fst)

lemma scheduleReconnect_fst:
  "fst (scheduleReconnect opts env s) =
     (if ss_intentionallyClosed s \<or> ss_terminalReason s \<noteq> None then s
      else if so_maxReconnectAttempts opts \<le> ss_reconnectAttempts s
      then fst (stopTraffic opts env ReconnectExhausted (Some (exhausted_detail opts s)) s)
      else s\<lparr>ss_reconnectTimer := True, ss_reconnectAttempts := ss_reconnectAttempts s + 1\<rparr>)"
  by (simp add: scheduleReconnect_def state_after)

text \<open>A session that lost its connection, before it decides whether to try again.\<close>

definition lost :: "session_options \<Rightarrow> failure_detail \<Rightarrow> session \<Rightarrow> session" where
  "lost opts failure s =
     s\<lparr>ss_lastFailure := Some (failureWithContext opts failure s), ss_ready := None, ss_capabilities := [],
       ss_authorizationVersion := None, ss_activeRuns := [], ss_participants := [],
       ss_outbox := interruptInFlight (ss_outbox s), ss_generation := ss_generation s + 1, ss_socket := None,
       ss_status := Unsynchronized\<rparr>"

lemma recoverTraffic_fst [state_after]:
  "fst (recoverTraffic opts env failure s) = fst (scheduleReconnect opts env (lost opts failure s))"
  by (simp add: recoverTraffic_def state_after lost_def)

lemma openSocket_fst:
  "fst (openSocket opts env s) =
     (if ss_intentionallyClosed s \<or> ss_terminalReason s \<noteq> None then s
      else let s1 = s\<lparr>ss_generation := ss_generation s + 1,
                      ss_status := (if ss_head s \<noteq> None then Reconnecting else Connecting)\<rparr>
           in (case ce_factory_error env of
                 Some error \<Rightarrow> fst (recoverTraffic opts env (connect_failed_detail error) s1)
               | None \<Rightarrow> s1\<lparr>ss_socket := Some (ss_generation s + 1)\<rparr>))"
  by (simp add: openSocket_def state_after split: option.split)

lemma disconnect_fst [state_after]:
  "fst (disconnect env s) =
     s\<lparr>ss_intentionallyClosed := True, ss_reconnectTimer := False, ss_generation := ss_generation s + 1,
       ss_socket := None, ss_outbox := (ss_outbox s)\<lparr>ob_inFlight := None, ob_queue := [], ob_localCommandIds := {}\<rparr>,
       ss_reconnectAttempts := 0, ss_lastFailure := None, ss_status := Idle, ss_ready := None, ss_participants := []\<rparr>"
  by (simp add: disconnect_def state_after rejectAll_fst clearLocalCommands_def)

subsection \<open>Calls and events\<close>

datatype session_op =
    CallConnect
  | CallRetry
  | CallDisconnect
  | CallReplaceHead collaborative_head
  | CallReconcile collaborative_head string
  | CallSubmit "project_command list"
  | CallPublishPresence presence_update
  | EventSocket nat ws_event
  | EventTimer

fun session_call :: "session_options \<Rightarrow> call_env \<times> session_op \<Rightarrow> session \<Rightarrow> session \<times> session_output list" where
  "session_call opts (env, CallConnect) s = connect opts env s"
| "session_call opts (env, CallRetry) s = retry opts env s"
| "session_call opts (env, CallDisconnect) s = disconnect env s"
| "session_call opts (env, CallReplaceHead head) s = replaceHead env head s"
| "session_call opts (env, CallReconcile head epoch) s = fst (reconcileCheckpointHead env head epoch s)"
| "session_call opts (env, CallSubmit commands) s = submitCommands env commands s"
| "session_call opts (env, CallPublishPresence update) s = fst (publishPresence env update s)"
| "session_call opts (env, EventSocket generation event) s = on_socket_event opts env generation event s"
| "session_call opts (env, EventTimer) s = timer_fires opts env s"

text \<open>A new command id is not one the outbox holds, and a timer fires only while it is set.\<close>

fun session_allowed :: "session \<Rightarrow> call_env \<times> session_op \<Rightarrow> bool" where
  "session_allowed s (env, CallSubmit commands) = (ce_commandId env \<notin> qc_commandId ` set (entries (ss_outbox s)))"
| "session_allowed s (env, EventTimer) = ss_reconnectTimer s"
| "session_allowed s _ = True"

subsection \<open>The outbox, used as its interface allows\<close>

text \<open>
  Every change of the session's outbox is a sequence of outbox calls, each allowed when it is
  made, whose outputs are what the session passes on: \<open>outbox_sim\<close> relates the outbox before and
  after a step with the outbox part of the step's outputs.
\<close>

fun outbox_output_of :: "session_output \<Rightarrow> outbox_output option" where
  "outbox_output_of (OutboxDid e) = Some (Effect e)"
| "outbox_output_of (Frame f r) = Some (Send f)"
| "outbox_output_of _ = None"

definition outbox_outputs :: "session_output list \<Rightarrow> outbox_output list" where
  "outbox_outputs outs = List.map_filter outbox_output_of outs"

lemma outbox_outputs_simps [simp]:
  "outbox_outputs [] = []" "outbox_outputs (outs @ outs') = outbox_outputs outs @ outbox_outputs outs'"
  "outbox_outputs (x # outs) = (case outbox_output_of x of None \<Rightarrow> [] | Some y \<Rightarrow> [y]) @ outbox_outputs outs"
  by (simp_all add: outbox_outputs_def List.map_filter_def split: option.splits)

lemma outbox_outputs_effects [simp]: "outbox_outputs (map OutboxDid es) = map Effect es"
  by (induction es) simp_all

definition outbox_sim :: "string multiset \<Rightarrow> outbox \<Rightarrow> session_output list \<Rightarrow> outbox \<Rightarrow> bool" where
  "outbox_sim ids ob outs ob' \<longleftrightarrow>
     (\<exists>calls. run_allowed outbox_call outbox_allowed ob calls
        \<and> snd (run_trace outbox_call ob calls) = ob'
        \<and> sum_list (map entered (fst (run_trace outbox_call ob calls))) = ids
        \<and> trace_outputs (fst (run_trace outbox_call ob calls)) = outbox_outputs outs)"

lemma run_allowed_append:
  "run_allowed step allowed s (xs @ ys) \<longleftrightarrow>
     run_allowed step allowed s xs \<and> run_allowed step allowed (snd (run_trace step s xs)) ys"
  by (induction xs arbitrary: s) (auto split: prod.splits)

lemma run_trace_append:
  "snd (run_trace step s (xs @ ys)) = snd (run_trace step (snd (run_trace step s xs)) ys)"
  "fst (run_trace step s (xs @ ys)) = fst (run_trace step s xs) @ fst (run_trace step (snd (run_trace step s xs)) ys)"
  by (induction xs arbitrary: s) (simp_all add: case_prod_beta)

lemma outbox_sim_trans:
  assumes "outbox_sim ids1 ob outs1 ob1" "outbox_sim ids2 ob1 outs2 ob2"
  shows "outbox_sim (ids1 + ids2) ob (outs1 @ outs2) ob2"
proof -
  obtain c1 c2 where
    "run_allowed outbox_call outbox_allowed ob c1" "snd (run_trace outbox_call ob c1) = ob1"
    "sum_list (map entered (fst (run_trace outbox_call ob c1))) = ids1"
    "trace_outputs (fst (run_trace outbox_call ob c1)) = outbox_outputs outs1"
    "run_allowed outbox_call outbox_allowed ob1 c2" "snd (run_trace outbox_call ob1 c2) = ob2"
    "sum_list (map entered (fst (run_trace outbox_call ob1 c2))) = ids2"
    "trace_outputs (fst (run_trace outbox_call ob1 c2)) = outbox_outputs outs2"
    using assms unfolding outbox_sim_def by blast
  then show ?thesis unfolding outbox_sim_def
    by (intro exI [of _ "c1 @ c2"]) (simp add: run_allowed_append run_trace_append trace_outputs_def)
qed

lemma outbox_sim_call:
  assumes "outbox_allowed ob call" "outbox_call call ob = (ob', os)" "outbox_outputs outs = os" "entered (call, os) = ids"
  shows "outbox_sim ids ob outs ob'"
  using assms unfolding outbox_sim_def
  by (intro exI [of _ "[call]"]) (simp add: trace_outputs_def)

lemma outbox_sim_quiet: "outbox_outputs outs = [] \<Longrightarrow> outbox_sim {#} ob outs ob"
  unfolding outbox_sim_def by (rule exI [of _ "[]"]) (simp add: trace_outputs_def)

text \<open>Relations between states and outputs that compose, and hold of a body when they hold of its steps.\<close>

locale step_relation =
  fixes R :: "session \<Rightarrow> session_output list \<Rightarrow> session \<Rightarrow> bool"
  assumes R_refl: "R s [] s"
    and R_trans: "R s outs1 s1 \<Longrightarrow> R s1 outs2 s2 \<Longrightarrow> R s (outs1 @ outs2) s2"
begin

lemma run_steps_R:
  "(\<And>f t. f \<in> set fs \<Longrightarrow> R t (snd (f t)) (fst (f t))) \<Longrightarrow> R s (snd (run_steps fs s)) (fst (run_steps fs s))"
proof (induction fs arbitrary: s)
  case (Cons f fs)
  have "R s (snd (f s)) (fst (f s))" by (rule Cons.prems) simp
  moreover have "R (fst (f s)) (snd (run_steps fs (fst (f s)))) (fst (run_steps fs (fst (f s))))"
    by (rule Cons.IH) (simp add: Cons.prems)
  ultimately show ?case unfolding run_steps_fst run_steps_snd by (rule R_trans)
qed (simp add: run_steps_fst run_steps_snd R_refl)

end

text \<open>A step of the session that lets the given command ids into the outbox; most steps let none in.\<close>

definition sim_taking :: "string multiset \<Rightarrow> session \<Rightarrow> session_output list \<Rightarrow> session \<Rightarrow> bool" where
  "sim_taking ids s outs s' \<longleftrightarrow> outbox_sim ids (ss_outbox s) outs (ss_outbox s')"

abbreviation sim :: "session \<Rightarrow> session_output list \<Rightarrow> session \<Rightarrow> bool" where
  "sim \<equiv> sim_taking {#}"

lemma sim_quiet: "ss_outbox s' = ss_outbox s \<Longrightarrow> outbox_outputs outs = [] \<Longrightarrow> sim s outs s'"
  using outbox_sim_quiet unfolding sim_taking_def by metis

lemma sim_taking_trans: "sim_taking ids s outs1 s1 \<Longrightarrow> sim s1 outs2 s2 \<Longrightarrow> sim_taking ids s (outs1 @ outs2) s2"
  unfolding sim_taking_def using outbox_sim_trans by fastforce

interpretation outbox_use: step_relation sim
  by unfold_locales (auto intro: sim_quiet sim_taking_trans)

lemma sim_taking_call:
  assumes "outbox_allowed (ss_outbox s) call" "outbox_call call (ss_outbox s) = (ss_outbox s', outbox_outputs outs)"
    and "entered (call, outbox_outputs outs) = ids"
  shows "sim_taking ids s outs s'"
  using assms outbox_sim_call unfolding sim_taking_def by blast

definition takes_none :: "outbox_env \<times> outbox_op \<Rightarrow> bool" where
  "takes_none call \<longleftrightarrow> (\<forall>cs i. snd call \<noteq> OpSubmit cs i)"

lemma takes_none_entered [simp]: "takes_none call \<Longrightarrow> entered (call, os) = {#}"
  by (cases "(call, os)" rule: entered.cases) (auto simp: takes_none_def)

lemma sim_call:
  assumes "takes_none call" "outbox_allowed (ss_outbox s) call"
    and "outbox_call call (ss_outbox s) = (ss_outbox s', outbox_outputs outs)"
  shows "sim s outs s'"
  using assms by (intro sim_taking_call takes_none_entered)

lemma sim_trans: "sim s outs1 s1 \<Longrightarrow> sim s1 outs2 s2 \<Longrightarrow> sim s (outs1 @ outs2) s2"
  by (rule outbox_use.R_trans)

named_theorems sim_steps \<open>steps that use the outbox only through its calls\<close>

lemma sim_set_fields [sim_steps]:
  "ss_outbox (f s) = ss_outbox s \<Longrightarrow> sim s (snd (set_fields f s)) (fst (set_fields f s))"
  by (rule sim_quiet) (simp_all add: set_fields_def)

lemma sim_tell [sim_steps]: "outbox_output_of out = None \<Longrightarrow> sim s (snd (tell out s)) (fst (tell out s))"
  by (rule sim_quiet) (simp_all add: tell_def)

lemma sim_setStatus [sim_steps]: "sim s (snd (setStatus st s)) (fst (setStatus st s))"
  by (rule sim_quiet) (simp_all add: setStatus_def)

lemma sim_setFailure [sim_steps]: "sim s (snd (setFailure f s)) (fst (setFailure f s))"
  by (rule sim_quiet) (simp_all add: setFailure_def)

lemma sim_clearReconnectTimer [sim_steps]: "sim s (snd (clearReconnectTimer s)) (fst (clearReconnectTimer s))"
  by (rule sim_quiet) (simp_all add: clearReconnectTimer_def)

lemma sim_emit [sim_steps]:
  "sim s (snd (emitPresenceChange s)) (fst (emitPresenceChange s))"
  "sim s (snd (emitActiveRunsChange s)) (fst (emitActiveRunsChange s))"
  by (rule sim_quiet; simp add: emitPresenceChange_def emitActiveRunsChange_def)+

lemma sim_clearPresence [sim_steps]: "sim s (snd (clearPresence s)) (fst (clearPresence s))"
  by (rule sim_quiet) (simp_all add: clearPresence_def run_steps_fst run_steps_snd set_fields_def emitPresenceChange_def)

lemma sim_close_socket [sim_steps]: "sim s (snd (close_socket env how s)) (fst (close_socket env how s))"
  by (rule sim_quiet) (simp_all add: close_socket_def split: option.splits)

lemma sim_participants [sim_steps]:
  "sim s (snd (upsertParticipant p s)) (fst (upsertParticipant p s))"
  "sim s (snd (removeParticipant i s)) (fst (removeParticipant i s))"
  by (rule sim_quiet; simp add: upsertParticipant_def removeParticipant_def run_steps_fst run_steps_snd set_fields_def
        emitPresenceChange_def)+

lemma sim_with_outbox:
  assumes "takes_none call" "outbox_allowed (ss_outbox s) call" "outbox_call call (ss_outbox s) = effects_only (f (ss_outbox s))"
  shows "sim s (snd (with_outbox f s)) (fst (with_outbox f s))"
  by (rule sim_call [OF assms(1,2)]) (simp add: assms(3) with_outbox_def effects_only_def split: prod.splits)

lemma sim_rejectAll [sim_steps]: "sim s (snd (with_outbox (rejectAll e) s)) (fst (with_outbox (rejectAll e) s))"
  by (rule sim_with_outbox [where call = "(any, OpRejectAll e)" for any]) (simp_all add: takes_none_def)

lemma sim_requestHeadRefresh [sim_steps]:
  "sim s (snd (with_outbox requestHeadRefresh s)) (fst (with_outbox requestHeadRefresh s))"
  by (rule sim_with_outbox [where call = "(any, OpRequestHeadRefresh)" for any]) (simp_all add: takes_none_def)

lemma sim_sendFailed [sim_steps]:
  "sim s (snd (with_outbox (sendFailed i e) s)) (fst (with_outbox (sendFailed i e) s))"
  by (rule sim_with_outbox [where call = "(any, OpSendFailed i e)" for any]) (simp_all add: takes_none_def)

lemma sim_interrupt [sim_steps]:
  "sim s (snd (with_outbox (\<lambda>ob. (interruptInFlight ob, [])) s)) (fst (with_outbox (\<lambda>ob. (interruptInFlight ob, [])) s))"
  by (rule sim_with_outbox [where call = "(any, OpInterruptInFlight)" for any]) (simp_all add: effects_only_def takes_none_def)

lemma sim_clearLocal [sim_steps]:
  "sim s (snd (with_outbox (\<lambda>ob. (clearLocalCommands ob, [])) s)) (fst (with_outbox (\<lambda>ob. (clearLocalCommands ob, [])) s))"
  by (rule sim_with_outbox [where call = "(any, OpClearLocalCommands)" for any]) (simp_all add: effects_only_def takes_none_def)

text \<open>
  A frame handed to the driver is an output of the outbox call that produced it, so the frames
  come first and the reports of failed sends after them.
\<close>

lemma at_most_one_send:
  assumes "outbox_call (env, op) ob = outputs (ob', es, sends)"
  shows "length sends \<le> 1"
  using outbox_call_gate [of env op ob ob' "map Effect es @ map Send sends"] assms
  by (auto simp: outputs_def gate_open_def)

lemma sim_writeSends:
  assumes "outbox_allowed (ss_outbox s) call" "outbox_call call (ss_outbox s) = outputs (ob', es, sends)"
    and "entered (call, map Effect es @ map Send sends) = ids" "length sends \<le> 1"
  shows "sim_taking ids s (map OutboxDid es @ snd (writeSends env sends (s\<lparr>ss_outbox := ob'\<rparr>)))
           (fst (writeSends env sends (s\<lparr>ss_outbox := ob'\<rparr>)))"
proof (cases sends)
  case Nil
  with assms show ?thesis by (intro sim_taking_call) (simp_all add: outputs_def)
next
  case (Cons m rest)
  with assms(4) have sends: "sends = [m]" by simp
  let ?t = "s\<lparr>ss_outbox := ob'\<rparr>"
  have handed: "sim_taking ids s (map OutboxDid es @ [Frame m r]) ?t" for r
    using assms(1-3) sends by (intro sim_taking_call) (simp_all add: outputs_def)
  show ?thesis
  proof (cases "ss_socket s = None \<or> ce_send_error env = None")
    case True
    then show ?thesis using handed by (auto simp: sends split: option.splits)
  next
    case False
    then obtain g e where "ss_socket s = Some g" "ce_send_error env = Some e" by auto
    then have writes: "writeSends env sends ?t =
        (fst (with_outbox (sendFailed (out_commandId m) e) ?t),
         [Frame m Threw] @ snd (with_outbox (sendFailed (out_commandId m) e) ?t))"
      by (simp add: sends split: prod.splits)
    show ?thesis unfolding writes
      using sim_taking_trans [OF handed [of Threw] sim_sendFailed [of ?t "out_commandId m" e]] by simp
  qed
qed

lemma sim_taking_write:
  assumes "outbox_allowed (ss_outbox s) (outbox_env_of env s, op)"
    and "outbox_call (outbox_env_of env s, op) (ss_outbox s) = outputs (f (outbox_env_of env s) (ss_outbox s))"
  shows "sim_taking (entered ((outbox_env_of env s, op), snd (outputs (f (outbox_env_of env s) (ss_outbox s))))) s
     (snd (outbox_then_write env f s)) (fst (outbox_then_write env f s))"
proof -
  obtain ob es sends where f: "f (outbox_env_of env s) (ss_outbox s) = (ob, es, sends)" by (rule prod_cases3)
  note call = assms(2) [unfolded f]
  show ?thesis
    using sim_writeSends [OF assms(1) call _ at_most_one_send [OF call], of _ env]
    by (auto simp: outbox_then_write_def f outputs_def split: prod.splits)
qed

lemma sim_outbox_then_write:
  assumes "takes_none (outbox_env_of env s, op)" "outbox_allowed (ss_outbox s) (outbox_env_of env s, op)"
    and "outbox_call (outbox_env_of env s, op) (ss_outbox s) = outputs (f (outbox_env_of env s) (ss_outbox s))"
  shows "sim s (snd (outbox_then_write env f s)) (fst (outbox_then_write env f s))"
  using sim_taking_write [of s env op f] assms by simp

lemma sim_finish [sim_steps]:
  "sim s (snd (outbox_then_write env finishHeadRehydration s)) (fst (outbox_then_write env finishHeadRehydration s))"
  by (rule sim_outbox_then_write [where op = OpFinishHeadRehydration]) (simp_all add: takes_none_def)

lemma sim_afterHeadApplied [sim_steps]:
  "sim s (snd (outbox_then_write env afterHeadApplied s)) (fst (outbox_then_write env afterHeadApplied s))"
  by (rule sim_outbox_then_write [where op = OpAfterHeadApplied]) (simp_all add: takes_none_def)

lemma sim_applyReceipt [sim_steps]:
  "sim s (snd (outbox_then_write env (\<lambda>oenv. applyReceipt oenv m) s))
     (fst (outbox_then_write env (\<lambda>oenv. applyReceipt oenv m) s))"
  by (rule sim_outbox_then_write [where op = "OpApplyReceipt m"]) (simp_all add: takes_none_def)

lemma sim_steps_run:
  "(\<And>f t. f \<in> set fs \<Longrightarrow> sim t (snd (f t)) (fst (f t))) \<Longrightarrow> sim s (snd (run_steps fs s)) (fst (run_steps fs s))"
  by (rule outbox_use.run_steps_R)

lemma sim_nothing [sim_steps]: "sim s [] s" "sim s (snd (s, [])) (fst (s, []))"
  by (simp_all add: outbox_use.R_refl)

lemma sim_stopTraffic [sim_steps]:
  "sim s (snd (stopTraffic opts env reason failure s)) (fst (stopTraffic opts env reason failure s))"
  unfolding stopTraffic_def
  by (rule sim_steps_run) (auto split: option.split intro!: sim_steps)

lemma sim_scheduleReconnect [sim_steps]:
  "sim s (snd (scheduleReconnect opts env s)) (fst (scheduleReconnect opts env s))"
  unfolding scheduleReconnect_def Let_def
  by (auto intro!: sim_steps sim_steps_run)

lemma sim_recoverTraffic [sim_steps]:
  "sim s (snd (recoverTraffic opts env failure s)) (fst (recoverTraffic opts env failure s))"
  unfolding recoverTraffic_def
  by (rule sim_steps_run) (auto intro!: sim_steps)

lemma sim_openSocket [sim_steps]: "sim s (snd (openSocket opts env s)) (fst (openSocket opts env s))"
  unfolding openSocket_def
  by (auto intro!: sim_steps sim_steps_run split: option.split) (rule sim_quiet; simp)

lemma sim_replaceHead [sim_steps]: "sim s (snd (replaceHead env head s)) (fst (replaceHead env head s))"
  unfolding replaceHead_def by (auto intro!: sim_steps sim_steps_run)

lemma sim_applyAccepted [sim_steps]: "sim s (snd (applyAccepted env m s)) (fst (applyAccepted env m s))"
proof -
  let ?s1 = "s\<lparr>ss_outbox := fst (recordAccepted m (ss_outbox s))\<rparr>"
  have rest: "sim ?s1 (snd (applyAccepted env m s)) (fst (applyAccepted env m s))"
    unfolding applyAccepted_def Let_def
    by (auto intro!: sim_steps sim_steps_run split: head_verdict.split)
  have "sim s [] ?s1"
    by (rule sim_call [where call = "(any, OpRecordAccepted m)" for any]) (simp_all add: takes_none_def)
  from sim_trans [OF this rest] show ?thesis by simp
qed

lemma sim_applyRejected [sim_steps]:
  "sim s (snd (with_outbox (\<lambda>ob. case applyRejected m ob of (ob', effects, _) \<Rightarrow> (ob', effects)) s))
     (fst (with_outbox (\<lambda>ob. case applyRejected m ob of (ob', effects, _) \<Rightarrow> (ob', effects)) s))"
  by (rule sim_with_outbox [where call = "(any, OpApplyRejected m)" for any])
    (auto simp: applyRejected_def effects_only_def outputs_def Let_def takes_none_def split: option.split)

lemma sim_apply_message [sim_steps]:
  "sim s (snd (apply_message opts env m s)) (fst (apply_message opts env m s))"
  by (cases m)
    (auto simp: applyReady_def apply_rehydrate_def Let_def intro!: sim_steps sim_steps_run split: option.split)

lemma sim_handle_value [sim_steps]:
  "sim s (snd (handle_value opts env raw s)) (fst (handle_value opts env raw s))"
  unfolding handle_value_def Let_def
  by (auto intro!: sim_steps sim_steps_run split: option.split)

lemma sim_on_socket_event [sim_steps]:
  "sim s (snd (on_socket_event opts env g ev s)) (fst (on_socket_event opts env g ev s))"
proof -
  have "sim s outs s'" if "sim (s\<lparr>ss_socket := None\<rparr>) outs s'" for outs s'
    using that by (simp add: sim_taking_def)
  then show ?thesis
    unfolding on_socket_event_def handleMessage_def handleClose_def Let_def
    by (auto intro!: sim_steps split: ws_event.split option.split room_reason.split json.split sum.split)
qed

lemma sim_reconcile:
  "sim s (snd (fst (reconcileCheckpointHead env h e s))) (fst (fst (reconcileCheckpointHead env h e s)))"
  using sim_replaceHead [of s env h] sim_trans [OF sim_replaceHead sim_replaceHead]
  unfolding reconcileCheckpointHead_def Let_def
  by (auto split: option.split prod.split intro!: sim_steps) (metis fst_conv snd_conv sim_replaceHead sim_trans)+

lemma sim_publishPresence:
  "sim s (snd (fst (publishPresence env u s))) (fst (fst (publishPresence env u s)))"
  by (rule sim_quiet) (simp_all add: publishPresence_def Let_def)

subsection \<open>The session refines the outbox\<close>

text \<open>The command ids a call of the session lets into the outbox.\<close>

fun taken :: "(call_env \<times> session_op) \<times> session_output list \<Rightarrow> string multiset" where
  "taken ((env, CallSubmit cs), outs) =
     (if list_ex refuses (outbox_outputs outs) \<or> outs = [SubmissionRefused not_ready_error] then {#} else {#ce_commandId env#})"
| "taken _ = {#}"

lemma writeSends_refuses: "\<not> list_ex refuses (outbox_outputs (snd (writeSends env sends s)))"
  by (induction sends arbitrary: s)
    (auto simp: with_outbox_def sendFailed_def case_prod_beta split: option.split)

lemma list_ex_refuses_Send [simp]: "\<not> list_ex refuses (map Send sends)"
  by (induction sends) simp_all

lemma write_refuses:
  "list_ex refuses (outbox_outputs (snd (outbox_then_write env f s)))
     \<longleftrightarrow> list_ex refuses (snd (outputs (f (outbox_env_of env s) (ss_outbox s))))"
  using writeSends_refuses by (simp add: outbox_then_write_def outputs_def case_prod_beta)

lemma write_not_refused: "snd (outbox_then_write env f s) \<noteq> [SubmissionRefused e]"
proof -
  have "SubmissionRefused e \<notin> set (snd (writeSends env sends t))" for sends t
    by (induction sends arbitrary: t) (auto simp: with_outbox_def case_prod_beta split: option.split)
  then have "SubmissionRefused e \<notin> set (snd (outbox_then_write env f s))"
    by (auto simp: outbox_then_write_def case_prod_beta)
  then show ?thesis by auto
qed

lemma sim_submitCommands:
  assumes "ce_commandId env \<notin> qc_commandId ` set (entries (ss_outbox s))"
  shows "sim_taking (taken ((env, CallSubmit cs), snd (submitCommands env cs s))) s
     (snd (submitCommands env cs s)) (fst (submitCommands env cs s))"
proof (cases "\<not> canSubmitCommands s \<or> ss_head s = None")
  case True
  then show ?thesis by (auto simp: submitCommands_def intro: sim_quiet)
next
  case False
  then show ?thesis
    using sim_taking_write [of s env "OpSubmit cs (ce_commandId env)" "\<lambda>oenv. submit oenv cs (ce_commandId env)"] assms
    by (auto simp: submitCommands_def write_refuses write_not_refused)
qed

text \<open>Every call of the session drives the outbox through calls the outbox allows.\<close>

lemma session_call_sim:
  assumes "session_allowed s (env, op)" "session_call opts (env, op) s = (s', outs)"
  shows "outbox_sim (taken ((env, op), outs)) (ss_outbox s) outs (ss_outbox s')"
proof -
  have "sim_taking (taken ((env, op), snd (session_call opts (env, op) s))) s
          (snd (session_call opts (env, op) s)) (fst (session_call opts (env, op) s))"
  proof (cases op)
    case (CallSubmit cs)
    then show ?thesis using assms(1) sim_submitCommands [of env s cs] by simp
  qed (auto simp: connect_def retry_def disconnect_def timer_fires_def sim_reconcile sim_publishPresence
      intro!: sim_steps sim_steps_run)
  then show ?thesis using assms(2) by (simp add: sim_taking_def)
qed

lemma session_reach_outbox:
  assumes "reach (session_call opts) session_allowed new_session tr s"
  shows "\<exists>otr. reach outbox_call outbox_allowed empty_outbox otr (ss_outbox s)
     \<and> trace_outputs otr = outbox_outputs (trace_outputs tr)
     \<and> sum_list (map entered otr) = sum_list (map taken tr)"
  using assms
proof (induction rule: reach.induct)
  case reach_init
  show ?case by (rule exI [of _ "[]"]) (simp add: new_session_def reach.reach_init)
next
  case (reach_step tr s op s' outs)
  then obtain otr where otr: "reach outbox_call outbox_allowed empty_outbox otr (ss_outbox s)"
    "trace_outputs otr = outbox_outputs (trace_outputs tr)" "sum_list (map entered otr) = sum_list (map taken tr)" by blast
  obtain env c where op: "op = (env, c)" by fastforce
  from session_call_sim reach_step(2,3) obtain calls where calls:
    "run_allowed outbox_call outbox_allowed (ss_outbox s) calls"
    "snd (run_trace outbox_call (ss_outbox s) calls) = ss_outbox s'"
    "sum_list (map entered (fst (run_trace outbox_call (ss_outbox s) calls))) = taken (op, outs)"
    "trace_outputs (fst (run_trace outbox_call (ss_outbox s) calls)) = outbox_outputs outs"
    unfolding op outbox_sim_def by blast
  from reach_run_from [OF otr(1) calls(1)] calls(2)
  have "reach outbox_call outbox_allowed empty_outbox (otr @ fst (run_trace outbox_call (ss_outbox s) calls)) (ss_outbox s')"
    by simp
  with otr(2,3) calls(3,4) show ?case
    by (intro exI [of _ "otr @ fst (run_trace outbox_call (ss_outbox s) calls)"]) (auto simp: trace_outputs_def)
qed

text \<open>
  C15: the session uses the outbox only as the outbox allows. Over any sequence of calls and
  socket events, what the session does with its outbox is a sequence of outbox calls with fresh
  ids whose outputs are exactly the settlements and frames the session passes on; every batch a
  submission lets in is, at any time, either held once and unsettled, or settled exactly once.
\<close>

theorem session_settles_what_it_takes:
  assumes "reach (session_call opts) session_allowed new_session tr s"
  shows "(\<exists>otr. reach outbox_call outbox_allowed empty_outbox otr (ss_outbox s)
            \<and> trace_outputs otr = outbox_outputs (trace_outputs tr))
     \<and> held_ids (ss_outbox s) + sum_list (map settled (outbox_outputs (trace_outputs tr))) = sum_list (map taken tr)"
  using session_reach_outbox [OF assms] outbox_books.reach_conserves by metis

subsection \<open>The invariant of the session\<close>

text \<open>A map filed under the key of its values.\<close>

definition keyed :: "('v \<Rightarrow> 'k) \<Rightarrow> ('k \<times> 'v) list \<Rightarrow> bool" where
  "keyed key m \<longleftrightarrow> distinct (map fst m) \<and> list_all (\<lambda>(k, v). key v = k) m"

lemma keyed_Nil [simp]: "keyed key []"
  by (simp add: keyed_def)

lemma set_map_set: "set (map_set k v m) \<subseteq> insert (k, v) (set m)"
  by (induction m) (auto simp: map_set_def)

lemma keyed_set: "keyed key m \<Longrightarrow> keyed key (map_set (key v) v m)"
  by (auto simp: keyed_def map_set_def distinct_update list_all_iff dest!: set_map_set [unfolded map_set_def, THEN subsetD])

lemma keyed_delete: "keyed key m \<Longrightarrow> keyed key (map_delete k m)"
  by (auto simp: keyed_def map_delete_def list_all_iff distinct_map inj_on_def)

lemma keyed_fold_set: "keyed key m \<Longrightarrow> keyed key (fold (\<lambda>v. map_set (key v) v) vs m)"
  by (induction vs arbitrary: m) (auto intro: keyed_set)

lemma keyed_fold_delete: "keyed key m \<Longrightarrow> keyed key (fold (\<lambda>k. map_delete (f k)) ks m)"
  by (induction ks arbitrary: m) (auto intro: keyed_delete)

lemma map_from_keys: "map_from (map (\<lambda>v. (key v, v)) vs) = fold (\<lambda>v. map_set (key v) v) vs []"
  by (simp add: map_from_def fold_map comp_def)

lemma keyed_map_from: "keyed key (map_from (map (\<lambda>v. (key v, v)) vs))"
  unfolding map_from_keys by (rule keyed_fold_set) simp

text \<open>
  The connection: the current socket is the one of the current generation, there is none while a
  reconnect is pending or after the session was closed, and attempts stay within the limit.
\<close>

definition connection_inv :: "session_options \<Rightarrow> session \<Rightarrow> bool" where
  "connection_inv opts s \<longleftrightarrow>
     (ss_socket s = None \<or> ss_socket s = Some (ss_generation s))
     \<and> (ss_reconnectTimer s \<longrightarrow> ss_socket s = None \<and> \<not> ss_intentionallyClosed s)
     \<and> (ss_intentionallyClosed s \<longrightarrow> ss_socket s = None)
     \<and> ss_reconnectAttempts s \<le> so_maxReconnectAttempts opts"

text \<open>A ready session has a socket, a head and the identity the room gave it.\<close>

definition ready_inv :: "session \<Rightarrow> bool" where
  "ready_inv s \<longleftrightarrow>
     (ss_status s = Ready \<longrightarrow>
        ss_socket s \<noteq> None \<and> ss_ready s \<noteq> None \<and> ss_head s \<noteq> None \<and> ss_terminalReason s = None)"

text \<open>A terminated session is closed, may do nothing and holds nothing.\<close>

definition terminal_inv :: "session \<Rightarrow> bool" where
  "terminal_inv s \<longleftrightarrow>
     (ss_terminalReason s \<noteq> None \<longrightarrow>
        ss_intentionallyClosed s \<and> ss_socket s = None \<and> ss_capabilities s = [] \<and> ss_status s \<in> {Stopped, Idle}
        \<and> entries (ss_outbox s) = [])"

definition store_inv :: "session \<Rightarrow> bool" where
  "store_inv s \<longleftrightarrow>
     keyed pa_project_room_session_id (ss_participants s) \<and> keyed ar_run_id (ss_activeRuns s)
     \<and> keyed instanceKeyText (ss_instances s) \<and> outbox_inv (ss_outbox s)"

definition session_inv :: "session_options \<Rightarrow> session \<Rightarrow> bool" where
  "session_inv opts s \<longleftrightarrow> connection_inv opts s \<and> ready_inv s \<and> terminal_inv s \<and> store_inv s"

lemmas session_inv_defs = session_inv_def connection_inv_def ready_inv_def terminal_inv_def

lemma new_session_inv: "session_inv opts new_session"
  by (simp add: session_inv_defs store_inv_def new_session_def empty_outbox_inv)

text \<open>The outbox keeps its own invariant, because the session uses it as its interface allows.\<close>

lemma outbox_sim_inv: "outbox_sim ids ob outs ob' \<Longrightarrow> outbox_inv ob \<Longrightarrow> outbox_inv ob'"
proof -
  have "run_allowed outbox_call outbox_allowed ob calls \<Longrightarrow> outbox_inv ob
      \<Longrightarrow> outbox_inv (snd (run_trace outbox_call ob calls))" for calls
    by (induction calls arbitrary: ob)
      (auto simp: case_prod_beta intro: outbox_call_inv [OF _ _ prod.collapse [symmetric]])
  then show "outbox_sim ids ob outs ob' \<Longrightarrow> outbox_inv ob \<Longrightarrow> outbox_inv ob'"
    unfolding outbox_sim_def by blast
qed

lemma keyed_apply_instances: "keyed instanceKeyText m \<Longrightarrow> keyed instanceKeyText (apply_instances msg m)"
  unfolding apply_instances_def by (intro keyed_fold_set keyed_fold_delete)

definition maps_inv :: "session \<Rightarrow> bool" where
  "maps_inv s \<longleftrightarrow>
     keyed pa_project_room_session_id (ss_participants s) \<and> keyed ar_run_id (ss_activeRuns s)
     \<and> keyed instanceKeyText (ss_instances s)"

definition control_inv :: "session_options \<Rightarrow> session \<Rightarrow> bool" where
  "control_inv opts s \<longleftrightarrow> connection_inv opts s \<and> ready_inv s \<and> terminal_inv s"

lemma session_inv_split: "session_inv opts s \<longleftrightarrow> control_inv opts s \<and> maps_inv s \<and> outbox_inv (ss_outbox s)"
  by (auto simp: session_inv_def control_inv_def maps_inv_def store_inv_def)

lemmas control_defs = control_inv_def connection_inv_def ready_inv_def terminal_inv_def

lemma maps_frame [simp]:
  "maps_inv (s\<lparr>ss_socket := g\<rparr>) \<longleftrightarrow> maps_inv s" "maps_inv (s\<lparr>ss_status := st\<rparr>) \<longleftrightarrow> maps_inv s"
  by (simp_all add: maps_inv_def)

lemma maps_stop [simp]: "maps_inv s \<Longrightarrow> maps_inv (fst (stopTraffic opts env r f s))"
  by (simp add: maps_inv_def state_after)

lemma maps_recover [simp]: "maps_inv s \<Longrightarrow> maps_inv (fst (recoverTraffic opts env f s))"
  by (auto simp: maps_inv_def state_after scheduleReconnect_fst lost_def)

lemma maps_openSocket [simp]: "maps_inv s \<Longrightarrow> maps_inv (fst (openSocket opts env s))"
  using maps_recover by (auto simp: openSocket_fst Let_def maps_inv_def split: option.split)

lemma control_stop:
  "ss_reconnectAttempts s \<le> so_maxReconnectAttempts opts \<Longrightarrow> control_inv opts (fst (stopTraffic opts env r f s))"
  by (simp add: control_defs state_after entries_def)

lemma control_recover:
  assumes "ss_reconnectAttempts s \<le> so_maxReconnectAttempts opts" "ss_terminalReason s = None"
    and "ss_intentionallyClosed s \<Longrightarrow> \<not> ss_reconnectTimer s"
  shows "control_inv opts (fst (recoverTraffic opts env f s))"
  using assms control_stop [of "lost opts f s" opts]
  by (auto simp: state_after scheduleReconnect_fst control_defs lost_def)

lemma control_openSocket:
  assumes "control_inv opts s" "\<not> ss_reconnectTimer s"
  shows "control_inv opts (fst (openSocket opts env s))"
proof (cases "ss_intentionallyClosed s \<or> ss_terminalReason s \<noteq> None")
  case False
  let ?s1 = "s\<lparr>ss_generation := ss_generation s + 1, ss_status := (if ss_head s \<noteq> None then Reconnecting else Connecting)\<rparr>"
  have failed: "control_inv opts (fst (recoverTraffic opts env f ?s1))" for f
    by (rule control_recover) (use assms False in \<open>simp_all add: control_defs\<close>)
  have opened: "control_inv opts (?s1\<lparr>ss_socket := Some (ss_generation s + 1)\<rparr>)"
    using assms False by (simp add: control_defs)
  show ?thesis
    using failed opened False by (cases "ce_factory_error env") (simp_all add: openSocket_fst Let_def)
qed (use assms in \<open>simp add: openSocket_fst\<close>)

lemma finish_empty: "entries ob = [] \<Longrightarrow> entries (fst (finishHeadRehydration env ob)) = []
     \<and> snd (snd (finishHeadRehydration env ob)) = []"
  by (auto simp: finishHeadRehydration_def entries_def drainQueue_def split: option.splits if_splits)

lemma driven_empty: "entries (ss_outbox s) = [] \<Longrightarrow> entries (driven env finishHeadRehydration s) = []"
  using finish_empty [of "ss_outbox s" "outbox_env_of env s"]
  by (simp add: driven_def outbox_then_write_def case_prod_beta)

lemma control_finish:
  "control_inv opts s \<Longrightarrow> control_inv opts (fst (outbox_then_write env finishHeadRehydration s))"
  by (auto simp: control_defs state_after driven_empty)

lemma control_head: "control_inv opts s \<Longrightarrow> control_inv opts (s\<lparr>ss_head := Some h\<rparr>)"
  by (simp add: control_defs)

lemma control_replaceHead: "control_inv opts s \<Longrightarrow> control_inv opts (fst (replaceHead env h s))"
  by (simp add: replaceHead_def run_steps_fst set_fields_fst control_finish control_head)

lemma maps_replaceHead: "maps_inv s \<Longrightarrow> maps_inv (fst (replaceHead env h s))"
  by (simp add: replaceHead_def state_after maps_inv_def)

text \<open>While there is a socket, the session is neither terminated nor closed, so the outbox is free to change.\<close>

lemma control_outbox:
  "control_inv opts s \<Longrightarrow> ss_terminalReason s = None \<Longrightarrow> control_inv opts (s\<lparr>ss_outbox := ob\<rparr>)"
  by (simp add: control_defs)

definition live :: "session_options \<Rightarrow> session \<Rightarrow> bool" where
  "live opts s \<longleftrightarrow> control_inv opts s \<and> ss_socket s \<noteq> None"

lemma liveD:
  assumes "live opts s"
  shows "control_inv opts s" "ss_terminalReason s = None" "\<not> ss_intentionallyClosed s" "\<not> ss_reconnectTimer s"
    "ss_reconnectAttempts s \<le> so_maxReconnectAttempts opts" "ss_socket s = Some (ss_generation s)"
  using assms by (auto simp: live_def control_defs)

lemma applyReady_fst:
  "fst (applyReady opts env m s) =
     (if rd_workspace_id m \<noteq> so_workspaceId opts \<or> rd_project_id m \<noteq> so_projectId opts
      then fst (recoverTraffic opts env (receive_failure ProtocolError (Some ''room.ready'') (Some (Finite 1))
             ''The room-ready message identified a different workspace or Project.'') s)
      else let head = (case ss_head s of None \<Rightarrow> rd_head m
                       | Some h \<Rightarrow> if shouldReplaceCollaborativeHead (Some h) (rd_head m) then rd_head m else h);
               s1 = s\<lparr>ss_ready := Some (m\<lparr>rd_head := head\<rparr>), ss_head := Some head,
                 ss_capabilities := cs_capabilities (rd_capabilities m),
                 ss_authorizationVersion := Some (cs_authorization_version (rd_capabilities m)),
                 ss_participants := map_from (map (\<lambda>p. (pa_project_room_session_id p, p)) (rd_participants m)),
                 ss_presenceSequence := 0, ss_lastPresenceSentAt := 0,
                 ss_activeRuns := map_from (map (\<lambda>r. (ar_run_id r, r)) (rd_active_runs m)),
                 ss_instances := map_from (map (\<lambda>i. (instanceKeyText i, i)) (rd_instances m)),
                 ss_reconnectAttempts := 0, ss_lastFailure := None, ss_status := Ready\<rparr>
           in s1\<lparr>ss_outbox := driven env finishHeadRehydration s1\<rparr>)"
  by (auto simp: applyReady_def state_after Let_def split: option.split)

lemma apply_rehydrate_fst:
  "fst (apply_rehydrate env h s) =
     (if ss_head s = None \<or> shouldReplaceCollaborativeHead (ss_head s) h
      then s\<lparr>ss_head := Some h, ss_outbox := driven env finishHeadRehydration (s\<lparr>ss_head := Some h\<rparr>)\<rparr> else s)"
  by (auto simp: apply_rehydrate_def state_after split: option.split)

lemma applyAccepted_cases:
  obtains (advanced) h ob where "accepted_head applyRoomCommandsToHead m (ss_head s) = Advanced h"
      "fst (applyAccepted env m s) = s\<lparr>ss_head := Some h, ss_outbox := ob\<rparr>"
  | (kept) ob where "\<And>h. accepted_head applyRoomCommandsToHead m (ss_head s) \<noteq> Advanced h"
      "fst (applyAccepted env m s) = s\<lparr>ss_outbox := ob\<rparr>"
proof (cases "accepted_head applyRoomCommandsToHead m (ss_head s)")
  case (Advanced h)
  then show ?thesis by (intro advanced [of h]) (simp_all add: applyAccepted_def Let_def state_after)
next
  case Covered
  then show ?thesis by (intro kept) (simp_all add: applyAccepted_def Let_def state_after)
next
  case NeedsRefresh
  then show ?thesis by (intro kept) (simp_all add: applyAccepted_def Let_def state_after)
qed

lemma live_message:
  assumes "live opts s"
  shows "control_inv opts (fst (apply_message opts env m s))"
proof (cases m)
  case (RoomReady r)
  show ?thesis
  proof (cases "rd_workspace_id r \<noteq> so_workspaceId opts \<or> rd_project_id r \<noteq> so_projectId opts")
    case True
    then show ?thesis using control_recover liveD [OF assms] by (simp add: RoomReady applyReady_fst)
  next
    case False
    then show ?thesis using liveD [OF assms] by (simp add: RoomReady applyReady_fst Let_def control_defs)
  qed
next
  case (CommandAccepted a)
  show ?thesis
    by (cases rule: applyAccepted_cases [of a s env])
      (use liveD [OF assms] in \<open>simp_all add: CommandAccepted control_outbox control_head\<close>)
next
  case (RoomRehydrate h)
  then show ?thesis
    using liveD [OF assms] control_outbox [OF control_head [OF liveD(1) [OF assms]]]
    by (simp add: apply_rehydrate_fst)
qed (use liveD [OF assms] in \<open>simp_all add: state_after control_defs\<close>)

lemma maps_message: "maps_inv s \<Longrightarrow> maps_inv (fst (apply_message opts env m s))"
proof (cases m)
  case (RoomReady r)
  assume "maps_inv s"
  then show ?thesis
    using maps_recover by (auto simp: RoomReady applyReady_fst Let_def maps_inv_def keyed_map_from)
next
  case (CommandAccepted a)
  assume "maps_inv s"
  then show ?thesis
    by (cases rule: applyAccepted_cases [of a s env]) (simp_all add: CommandAccepted maps_inv_def)
qed (auto simp: state_after maps_inv_def keyed_set keyed_delete apply_rehydrate_fst keyed_apply_instances)

lemma handle_value_cases:
  obtains (ignored) "fst (handle_value opts env raw s) = s"
  | (stopped) r f where "fst (handle_value opts env raw s) = fst (stopTraffic opts env r f s)"
  | (recovered) f where "fst (handle_value opts env raw s) = fst (recoverTraffic opts env f s)"
  | (applied) m where "parseServerRoomMessage (so_wire_types opts) raw = Some m"
      "fst (handle_value opts env raw s) = fst (apply_message opts env m s)"
proof (cases "isRecord raw \<and> has_property ''type'' raw \<and> getp raw ''type'' = JString ''room.heartbeat''")
  case True
  then show ?thesis by (intro ignored) (simp add: handle_value_def Let_def run_steps_fst)
next
  case beat: False
  show ?thesis
  proof (cases "protocol_version_of raw = Some (Finite (of_int ROOM_PROTOCOL_VERSION))")
    case False
    show ?thesis by (rule stopped) (use False beat in \<open>auto simp: handle_value_def Let_def\<close>)
  next
    case version: True
    show ?thesis
    proof (cases "is_agent_type (message_type_of raw)
        \<or> (message_type_of raw \<noteq> None \<and> the (message_type_of raw) \<notin> KNOWN_SERVER_MESSAGE_TYPES)")
      case True
      then show ?thesis using beat version by (intro ignored) (auto simp: handle_value_def Let_def run_steps_fst tell_fst)
    next
      case known: False
      show ?thesis
      proof (cases "parseServerRoomMessage (so_wire_types opts) raw")
        case None
        show ?thesis
          by (rule recovered [of "malformed_failure (message_type_of raw) (protocol_version_of raw)"])
            (use None beat version known in \<open>auto simp: handle_value_def Let_def run_steps_fst tell_fst\<close>)
      next
        case (Some m)
        then show ?thesis using beat version known
          by (intro applied [of m]) (auto simp: handle_value_def Let_def run_steps_fst tell_fst)
      qed
    qed
  qed
qed

lemma handleMessage_cases:
  obtains (ignored) "fst (handleMessage opts env data s) = s"
  | (stopped) r f where "fst (handleMessage opts env data s) = fst (stopTraffic opts env r f s)"
  | (recovered) f where "fst (handleMessage opts env data s) = fst (recoverTraffic opts env f s)"
  | (applied) raw m where "parseServerRoomMessage (so_wire_types opts) raw = Some m"
      "fst (handleMessage opts env data s) = fst (apply_message opts env m s)"
proof (cases "\<exists>t e. data = JString t \<and> so_json_parse opts t = Inl e")
  case True
  then obtain t e where bad: "data = JString t" "so_json_parse opts t = Inl e" by blast
  show ?thesis by (rule recovered) (simp add: handleMessage_def bad)
next
  case False
  then have "\<exists>raw. handleMessage opts env data = handle_value opts env raw"
    by (auto simp: handleMessage_def split: json.split sum.split)
  then obtain raw where raw: "handleMessage opts env data = handle_value opts env raw" ..
  show ?thesis
    by (cases rule: handle_value_cases [of opts env raw s])
      (simp_all add: that(1) that(2) that(3) that(4) raw)
qed

lemma control_socket_event:
  assumes "control_inv opts s"
  shows "control_inv opts (fst (on_socket_event opts env g ev s))"
proof (cases "g \<noteq> ss_generation s \<or> ss_socket s \<noteq> Some g")
  case True
  then show ?thesis using assms by (auto simp: on_socket_event_def)
next
  case False
  with assms have lv: "live opts s" by (auto simp: live_def)
  show ?thesis
  proof (cases ev)
    case (SocketMessage data)
    have "control_inv opts (fst (recoverTraffic opts env f s))" for f
      by (rule control_recover) (use liveD [OF lv] in simp_all)
    then show ?thesis
      by (cases rule: handleMessage_cases [of opts env data s])
        (use False lv SocketMessage in \<open>auto simp: on_socket_event_def live_message control_stop dest: liveD\<close>)
  next
    case (SocketClose code reason)
    have "control_inv opts (fst (recoverTraffic opts env f (s\<lparr>ss_socket := None\<rparr>)))" for f
      by (rule control_recover) (use liveD [OF lv] in simp_all)
    moreover have "control_inv opts (fst (stopTraffic opts env r f (s\<lparr>ss_socket := None\<rparr>)))" for r f
      by (rule control_stop) (use liveD [OF lv] in simp)
    ultimately show ?thesis
      using False liveD [OF lv]
      by (auto simp: on_socket_event_def SocketClose handleClose_def Let_def split: option.split room_reason.split)
  qed (use False liveD [OF lv] in \<open>auto simp: on_socket_event_def state_after control_defs\<close>)
qed

lemma maps_socket_event: "maps_inv s \<Longrightarrow> maps_inv (fst (on_socket_event opts env g ev s))"
proof (cases ev)
  case (SocketMessage data)
  assume m: "maps_inv s"
  show ?thesis
    by (cases rule: handleMessage_cases [of opts env data s])
      (use m in \<open>simp_all add: SocketMessage on_socket_event_def maps_message\<close>)
qed (auto simp: on_socket_event_def handleClose_def Let_def setStatus_fst split: option.split room_reason.split)

definition with_checkpoint :: "collaborative_head \<Rightarrow> collaborative_head \<Rightarrow> collaborative_head" where
  "with_checkpoint h eff = eff\<lparr>h_checkpoint_sequence := h_checkpoint_sequence h,
     h_checkpoint_revision := h_checkpoint_revision h\<rparr>"

lemma reconcile_state:
  "fst (fst (reconcileCheckpointHead env h e s)) =
     (case ss_head s of
        None \<Rightarrow> s
      | Some c \<Rightarrow>
          if h_room_epoch c \<noteq> e \<or> h_room_epoch h \<noteq> e then s
          else let s1 = fst (replaceHead env h s)
               in (case ss_head s1 of
                     None \<Rightarrow> s1
                   | Some eff \<Rightarrow>
                       if h_collaboration_sequence h < h_collaboration_sequence eff
                          \<and> h_checkpoint_sequence eff < h_checkpoint_sequence h
                       then fst (replaceHead env (with_checkpoint h eff) s1) else s1))"
  by (simp add: reconcileCheckpointHead_def case_prod_beta Let_def with_checkpoint_def split: option.split)

lemma reconcile_cases:
  obtains (untouched) "fst (fst (reconcileCheckpointHead env h e s)) = s"
  | (replaced) "fst (fst (reconcileCheckpointHead env h e s)) = fst (replaceHead env h s)"
  | (merged) eff where "ss_head (fst (replaceHead env h s)) = Some eff"
      "fst (fst (reconcileCheckpointHead env h e s))
         = fst (replaceHead env (with_checkpoint h eff) (fst (replaceHead env h s)))"
proof -
  note state = reconcile_state [of env h e s]
  show ?thesis
  proof (cases "ss_head (fst (replaceHead env h s))")
    case None
    then show ?thesis using state untouched replaced by (cases "ss_head s") (auto simp: Let_def split: if_splits)
  next
    case (Some eff)
    then show ?thesis using state untouched replaced merged [OF Some]
      by (cases "ss_head s") (auto simp: Let_def split: if_splits)
  qed
qed

lemma connect_retry_control:
  assumes "control_inv opts s"
  shows "control_inv opts (fst (connect opts env s))" "control_inv opts (fst (retry opts env s))"
proof -
  have "control_inv opts (fst (openSocket opts env (s\<lparr>ss_intentionallyClosed := False, ss_reconnectTimer := False\<rparr>)))"
    if "ss_terminalReason s = None"
    by (rule control_openSocket) (use assms that in \<open>simp_all add: control_defs\<close>)
  then show "control_inv opts (fst (connect opts env s))"
    using assms by (simp add: connect_def run_steps_fst set_fields_fst clearReconnectTimer_fst)
  have "control_inv opts (fst (openSocket opts env (s\<lparr>ss_terminalReason := None, ss_intentionallyClosed := False,
      ss_reconnectAttempts := 0, ss_reconnectTimer := False\<rparr>)))" if "ss_terminalReason s = Some ReconnectExhausted"
    by (rule control_openSocket) (use assms that in \<open>auto simp: control_defs\<close>)
  then show "control_inv opts (fst (retry opts env s))"
    using assms by (simp add: retry_def run_steps_fst set_fields_fst clearReconnectTimer_fst)
qed

lemma control_call:
  assumes "control_inv opts s" "session_allowed s (env, op)"
  shows "control_inv opts (fst (session_call opts (env, op) s))"
proof (cases op)
  case (CallReconcile h e)
  show ?thesis
    by (cases rule: reconcile_cases [of env h e s])
      (use assms in \<open>simp_all add: CallReconcile control_replaceHead\<close>)
next
  case CallDisconnect
  with assms show ?thesis by (simp add: state_after control_defs entries_def)
next
  case (CallSubmit cs)
  then show ?thesis using assms by (auto simp: submitCommands_def canSubmitCommands_def state_after control_defs)
next
  case (CallPublishPresence u)
  then show ?thesis using assms by (auto simp: publishPresence_def Let_def control_defs)
next
  case EventTimer
  have "control_inv opts (fst (openSocket opts env (s\<lparr>ss_reconnectTimer := False\<rparr>)))"
    by (rule control_openSocket) (use assms in \<open>simp_all add: control_defs\<close>)
  moreover have "control_inv opts (s\<lparr>ss_reconnectTimer := False\<rparr>)"
    using assms by (simp add: control_defs)
  ultimately show ?thesis by (simp add: EventTimer timer_fires_def run_steps_fst set_fields_fst)
qed (use assms in \<open>simp_all add: connect_retry_control control_replaceHead control_socket_event\<close>)

lemma maps_call:
  assumes "maps_inv s"
  shows "maps_inv (fst (session_call opts (env, op) s))"
proof -
  have update: "maps_inv t" if "ss_participants t = ss_participants s" "ss_activeRuns t = ss_activeRuns s"
    "ss_instances t = ss_instances s" for t
    using assms that by (simp add: maps_inv_def)
  show ?thesis
  proof (cases op)
    case (CallReconcile h e)
    show ?thesis
      by (cases rule: reconcile_cases [of env h e s]) (use assms in \<open>simp_all add: CallReconcile maps_replaceHead\<close>)
  next
    case CallDisconnect
    with assms show ?thesis by (simp add: state_after maps_inv_def)
  next
    case (CallSubmit cs)
    then show ?thesis using assms by (auto simp: submitCommands_def state_after maps_inv_def)
  next
    case (CallPublishPresence u)
    then show ?thesis using assms by (auto simp: publishPresence_def Let_def maps_inv_def)
  qed (use assms in \<open>auto simp: connect_def retry_def timer_fires_def run_steps_fst set_fields_fst clearReconnectTimer_fst
      maps_socket_event maps_replaceHead update intro!: maps_openSocket\<close>)
qed

lemma session_call_inv:
  assumes "session_inv opts s" "session_allowed s call" "session_call opts call s = (s', outs)"
  shows "session_inv opts s'"
proof -
  obtain env op where call: "call = (env, op)" by fastforce
  have "outbox_inv (ss_outbox s')"
    using outbox_sim_inv [OF session_call_sim [OF assms(2,3) [unfolded call]]] assms(1)
    by (simp add: session_inv_split)
  then show ?thesis
    using assms control_call [of opts s env op] maps_call [of s opts env op]
    by (simp add: session_inv_split call)
qed

interpretation session_sys: invariant_system "session_call opts" session_allowed new_session "session_inv opts" for opts
  by unfold_locales (auto intro: new_session_inv session_call_inv)

text \<open>
  what holds of a session at any time, after any sequence of calls, socket events and timer
  firings. The current socket is the one opened in the current generation; none is left while a
  reconnect is pending or once the session was closed; reconnect attempts stay within the limit;
  a ready session has a socket, a head and an identity and is not terminated; a terminated
  session is closed, without capabilities, and its outbox is empty; participants, Runs and
  instances are filed once each under their own key; and the outbox satisfies its invariant.
\<close>

theorem session_invariant:
  assumes "reach (session_call opts) session_allowed new_session tr s"
  shows "(ss_socket s = None \<or> ss_socket s = Some (ss_generation s))
     \<and> (ss_reconnectTimer s \<or> ss_intentionallyClosed s \<longrightarrow> ss_socket s = None)
     \<and> ss_reconnectAttempts s \<le> so_maxReconnectAttempts opts
     \<and> (ss_status s = Ready \<longrightarrow> ss_socket s \<noteq> None \<and> ss_ready s \<noteq> None \<and> ss_head s \<noteq> None \<and> ss_terminalReason s = None)
     \<and> (ss_terminalReason s \<noteq> None \<longrightarrow> ss_intentionallyClosed s \<and> ss_capabilities s = [] \<and> entries (ss_outbox s) = [])
     \<and> keyed pa_project_room_session_id (ss_participants s) \<and> keyed ar_run_id (ss_activeRuns s)
     \<and> keyed instanceKeyText (ss_instances s) \<and> outbox_inv (ss_outbox s)"
proof -
  have "session_inv opts s" by (rule session_sys.reach_inv [OF assms])
  then show ?thesis unfolding session_inv_defs store_inv_def by blast
qed

subsubsection \<open>A session that connects, submits and loses its connection\<close>

definition demo_options :: session_options where
  "demo_options = \<lparr>so_workspaceId = ''w1'', so_projectId = ''p1'', so_reconnectDelayMs = 750, so_maxReconnectAttempts = 5,
     so_window = None, so_json_parse = (\<lambda>_. Inl None), so_number_text = (\<lambda>_. ''''), so_wire_types = blank_types\<rparr>"

definition demo_call_env :: "string \<Rightarrow> call_env" where
  "demo_call_env i = \<lparr>ce_now = 1000, ce_socket_open = True, ce_socket_live = True, ce_send_error = None,
     ce_factory_error = None, ce_commandId = i\<rparr>"

definition demo_ready_value :: json where
  "demo_ready_value = wire_message blank_printer (RoomReady (demo_ready ''e1'' 7))"

definition demo_session_calls :: "(call_env \<times> session_op) list" where
  "demo_session_calls =
     [(demo_call_env [], CallConnect),
      (demo_call_env [], EventSocket 1 (SocketMessage demo_ready_value)),
      (demo_call_env ''c1'', CallSubmit [PC_RemoveGraph ''g9'']),
      (demo_call_env ''c2'', CallSubmit [PC_RemoveGraph ''g8'']),
      (demo_call_env [], EventSocket 1 (SocketClose 1006 []))]"

definition demo_session_trace :: "((call_env \<times> session_op) \<times> session_output list) list" where
  "demo_session_trace = fst (run_trace (session_call demo_options) new_session demo_session_calls)"

definition demo_session :: session where
  "demo_session = snd (run_trace (session_call demo_options) new_session demo_session_calls)"

lemma demo_session_allowed:
  "run_allowed (session_call demo_options) session_allowed new_session demo_session_calls"
  by code_simp

lemma demo_session_reach:
  "reach (session_call demo_options) session_allowed new_session demo_session_trace demo_session"
  unfolding demo_session_trace_def demo_session_def by (rule reach_run [OF demo_session_allowed])

lemma demo_session_end:
  "ss_reconnectTimer demo_session" "map qc_commandId (entries (ss_outbox demo_session)) = [''c1'', ''c2'']"
  by code_simp+

theorem session_invariant_witness:
  "ss_reconnectTimer demo_session \<and> ss_socket demo_session = None"
  using session_invariant [OF demo_session_reach] demo_session_end(1) by blast

theorem session_settles_what_it_takes_witness:
  "held_ids (ss_outbox demo_session) + sum_list (map settled (outbox_outputs (trace_outputs demo_session_trace)))
     = sum_list (map taken demo_session_trace)"
  using session_settles_what_it_takes [OF demo_session_reach] by blast

end
