(* ===== verification/RoomSession_Safety.thy ===== *)
theory RoomSession_Safety
  imports RoomSession_Facts
begin

section \<open>What the session guarantees to its users\<close>

text \<open>
  The confirmed head and the replicas that follow the same room, when frames are written, how
  reconnection ends, what a terminated session still does, and what a heartbeat does.
\<close>

subsection \<open>Replicas of one room\<close>

text \<open>
  The interface of the replay: an accepted batch keeps the epoch and moves the head to its
  sequence number. Following a stream of accepted batches is stated over it once.
\<close>

fun follow ::
    "(collaborative_head \<Rightarrow> project_command list \<Rightarrow> nat \<Rightarrow> 'e + collaborative_head)
      \<Rightarrow> collaborative_head \<Rightarrow> command_accepted_message list \<Rightarrow> collaborative_head option" where
  "follow replay head [] = Some head"
| "follow replay head (message # messages) =
     (case accepted_head replay message (Some head) of
        Covered \<Rightarrow> follow replay head messages
      | Advanced head' \<Rightarrow> follow replay head' messages
      | NeedsRefresh \<Rightarrow> None)"

text \<open>The log of a room from a sequence number on: consecutive batches of one epoch, none of them empty.\<close>

fun room_log :: "string \<Rightarrow> nat \<Rightarrow> command_accepted_message list \<Rightarrow> bool" where
  "room_log epoch n [] \<longleftrightarrow> True"
| "room_log epoch n (m # ms) \<longleftrightarrow>
     acc_room_epoch m = epoch \<and> acc_sequence m = n + 1 \<and> acc_commands m \<noteq> [] \<and> room_log epoch (n + 1) ms"

lemma room_log_append:
  "room_log epoch n (xs @ ys) \<longleftrightarrow> room_log epoch n xs \<and> room_log epoch (n + length xs) ys"
  by (induction xs arbitrary: n) auto

locale head_replay =
  fixes replay :: "collaborative_head \<Rightarrow> project_command list \<Rightarrow> nat \<Rightarrow> 'e + collaborative_head"
  assumes replay_epoch: "replay h cs n = Inr h' \<Longrightarrow> h_room_epoch h' = h_room_epoch h"
    and replay_sequence: "replay h cs n = Inr h' \<Longrightarrow> cs \<noteq> [] \<Longrightarrow> h_collaboration_sequence h' = n"
begin

lemma advanced_sequence:
  assumes "accepted_head replay m (Some h) = Advanced h'" "acc_commands m \<noteq> []"
  shows "h_room_epoch h' = h_room_epoch h" "h_collaboration_sequence h' = h_collaboration_sequence h + 1"
  using assms replay_epoch replay_sequence
  by (fastforce simp: accepted_head_def split: if_splits sum.splits)+

text \<open>Batches the head already covers change nothing.\<close>

lemma follow_covered:
  assumes "room_log (h_room_epoch h) n ms" "n + length ms \<le> h_collaboration_sequence h"
  shows "follow replay h (ms @ rest) = follow replay h rest"
  using assms by (induction ms arbitrary: n) (auto simp: accepted_head_def)

lemma follow_log:
  assumes "follow replay h ms = Some h'" "room_log (h_room_epoch h) (h_collaboration_sequence h) ms"
  shows "h_room_epoch h' = h_room_epoch h \<and> h_collaboration_sequence h' = h_collaboration_sequence h + length ms"
  using assms
proof (induction ms arbitrary: h)
  case (Cons m ms)
  then obtain h1 where h1: "accepted_head replay m (Some h) = Advanced h1" "follow replay h1 ms = Some h'"
    by (auto simp: accepted_head_def split: head_verdict.splits if_splits sum.splits)
  with advanced_sequence [OF h1(1)] Cons.prems Cons.IH [OF h1(2)] show ?case by auto
qed simp

lemma follow_append:
  "follow replay h (xs @ ys) = (case follow replay h xs of None \<Rightarrow> None | Some h' \<Rightarrow> follow replay h' ys)"
  by (induction xs arbitrary: h) (auto split: head_verdict.split)

text \<open>A replica that starts further on in the log and is sent some of what it already has catches up.\<close>

lemma catch_up:
  assumes log: "room_log (h_room_epoch h) (h_collaboration_sequence h) (old @ again @ new)"
    and start: "follow replay h (old @ again) = Some joined"
  shows "follow replay joined (again @ new) = follow replay h (old @ again @ new)"
proof -
  from log have parts: "room_log (h_room_epoch h) (h_collaboration_sequence h) (old @ again)"
    "room_log (h_room_epoch h) (h_collaboration_sequence h + length old) again"
    by (simp_all add: room_log_append)
  from follow_log [OF start parts(1)]
  have "h_room_epoch joined = h_room_epoch h"
    "h_collaboration_sequence h + length old + length again \<le> h_collaboration_sequence joined" by auto
  then have "follow replay joined (again @ new) = follow replay joined new"
    using parts(2) by (intro follow_covered) simp_all
  moreover have "follow replay h (old @ again @ new) = follow replay joined new"
    using follow_append [of h "old @ again" new] start by simp
  ultimately show ?thesis by simp
qed

end

interpretation room_replay: head_replay applyRoomCommandsToHead
proof
  fix h cs n h'
  assume "applyRoomCommandsToHead h cs n = Inr h'"
  then show "h_room_epoch h' = h_room_epoch h" "cs \<noteq> [] \<Longrightarrow> h_collaboration_sequence h' = n"
    using replay_batch(1,2) [of h cs n h'] by (simp_all add: head_frame_def)
qed

definition deliver :: "call_env \<Rightarrow> command_accepted_message list \<Rightarrow> session \<Rightarrow> session" where
  "deliver env ms s = fold (\<lambda>m t. fst (applyAccepted env m t)) ms s"

lemma applyAccepted_head:
  "ss_head (fst (applyAccepted env m s)) =
     (case accepted_head applyRoomCommandsToHead m (ss_head s) of Advanced h \<Rightarrow> Some h | _ \<Rightarrow> ss_head s)"
  by (cases rule: applyAccepted_cases [of m s env]) (simp_all split: head_verdict.split)

lemma deliver_follow:
  "follow applyRoomCommandsToHead h ms = Some h' \<Longrightarrow> ss_head s = Some h \<Longrightarrow> ss_head (deliver env ms s) = Some h'"
proof (induction ms arbitrary: h s)
  case (Cons m ms)
  then show ?case
    by (cases "accepted_head applyRoomCommandsToHead m (Some h)")
      (auto simp: deliver_def applyAccepted_head)
qed (simp add: deliver_def)


definition demo_batch :: "nat \<Rightarrow> command_accepted_message" where
  "demo_batch n = \<lparr>acc_command_id = ''c'', acc_room_epoch = ''e1'', acc_sequence = n, acc_actor = ada,
     acc_project_room_session_id = None, acc_commands = [PC_AddGraph [char_of (64 + n)] ''New'' Undefined]\<rparr>"

definition demo_at :: "nat \<Rightarrow> collaborative_head" where
  "demo_at n = the (follow applyRoomCommandsToHead (blank_head ''e1'' 7) (map demo_batch [8..<8 + n]))"


subsection \<open>The confirmed head\<close>

definition not_before :: "collaborative_head \<Rightarrow> collaborative_head \<Rightarrow> bool" where
  "not_before h h' \<longleftrightarrow>
     (h_room_epoch h' = h_room_epoch h \<longrightarrow> h_collaboration_sequence h \<le> h_collaboration_sequence h')"

lemma not_before_refl [simp]: "not_before h h"
  by (simp add: not_before_def)

lemma head_frames [simp]:
  "ss_head (fst (stopTraffic opts env r f s)) = ss_head s"
  "ss_head (fst (recoverTraffic opts env d s)) = ss_head s"
  "ss_head (fst (openSocket opts env s)) = ss_head s"
  "ss_head (fst (scheduleReconnect opts env s)) = ss_head s" "ss_head (lost opts d s) = ss_head s"
  by (auto simp: state_after openSocket_fst Let_def scheduleReconnect_fst lost_def split: option.split)

lemma replaced_not_before:
  "shouldReplaceCollaborativeHead (Some h) h' \<Longrightarrow> not_before h h'"
  by (auto simp: shouldReplaceCollaborativeHead_def not_before_def split: if_splits)

lemma replaceHead_head:
  "ss_head (fst (replaceHead env h' s)) = (if shouldReplaceCollaborativeHead (ss_head s) h' then Some h' else ss_head s)"
  by (simp add: replaceHead_def state_after)

lemma accepted_not_before:
  "accepted_head applyRoomCommandsToHead m (Some h) = Advanced h' \<Longrightarrow> not_before h h'"
proof -
  assume adv: "accepted_head applyRoomCommandsToHead m (Some h) = Advanced h'"
  then have replay: "applyRoomCommandsToHead h (acc_commands m) (acc_sequence m) = Inr h'"
    "acc_sequence m = h_collaboration_sequence h + 1"
    by (auto simp: accepted_head_def split: if_splits sum.splits)
  then show ?thesis
    using replay_batch(2) [OF replay(1)] by (cases "acc_commands m = []") (auto simp: not_before_def)
qed

lemma message_head:
  assumes "ss_head s = Some h"
  shows "\<exists>h'. ss_head (fst (apply_message opts env m s)) = Some h' \<and> not_before h h'"
proof (cases m)
  case (CommandAccepted a)
  then show ?thesis using assms accepted_not_before [of a h]
    by (auto simp: applyAccepted_head split: head_verdict.split)
qed (use assms replaced_not_before [of h] in
    \<open>auto simp: applyReady_fst apply_rehydrate_fst Let_def state_after split: option.split\<close>)

lemma reconcile_head:
  assumes "ss_head s = Some h"
  shows "\<exists>h'. ss_head (fst (fst (reconcileCheckpointHead env c e s))) = Some h' \<and> not_before h h'"
proof (cases rule: reconcile_cases [of env c e s])
  case (merged eff)
  then have "ss_head (fst (fst (reconcileCheckpointHead env c e s))) = Some (with_checkpoint c eff)"
    by (simp add: replaceHead_head shouldReplaceCollaborativeHead_def with_checkpoint_def)
  moreover have "not_before h eff"
    using merged(1) assms replaced_not_before [of h c] by (auto simp: replaceHead_head split: if_splits)
  ultimately show ?thesis by (simp add: not_before_def with_checkpoint_def)
qed (use assms replaced_not_before [of h c] in \<open>auto simp: replaceHead_head\<close>)

text \<open>
  C8: the confirmed head never goes back. Whatever a session is called with or receives, once it
  has a head it keeps one, and the head after the call, unless it is of another epoch, has at
  least the sequence number of the head before: a late snapshot, a rehydration, a checkpoint
  response or a duplicate batch cannot undo an accepted one.
\<close>

theorem head_never_goes_back:
  assumes "session_call opts (env, op) s = (s', outs)" and "ss_head s = Some h"
  shows "\<exists>h'. ss_head s' = Some h'
     \<and> (h_room_epoch h' = h_room_epoch h \<longrightarrow> h_collaboration_sequence h \<le> h_collaboration_sequence h')"
proof -
  have "\<exists>h'. ss_head (fst (session_call opts (env, op) s)) = Some h' \<and> not_before h h'"
  proof (cases op)
    case (EventSocket g ev)
    then show ?thesis
    proof (cases ev)
      case (SocketMessage data)
      show ?thesis
        by (cases rule: handleMessage_cases [of opts env data s])
          (use assms(2) message_head [of s h opts env] EventSocket SocketMessage in \<open>auto simp: on_socket_event_def\<close>)
    qed (use assms(2) in \<open>auto simp: on_socket_event_def handleClose_def Let_def setStatus_fst
        split: option.split room_reason.split\<close>)
  next
    case (CallReplaceHead h')
    then show ?thesis using assms(2) replaced_not_before [of h h'] by (auto simp: replaceHead_head)
  next
    case (CallReconcile c e)
    then show ?thesis using reconcile_head [OF assms(2)] by simp
  qed (use assms(2) in \<open>auto simp: connect_def retry_def timer_fires_def submitCommands_def publishPresence_def Let_def
      state_after\<close>)
  then show ?thesis using assms(1) by (simp add: not_before_def)
qed

theorem head_never_goes_back_witness:
  "\<exists>s' outs h'. session_call demo_options (demo_call_env [], CallReplaceHead (blank_head ''e1'' 3)) demo_session = (s', outs)
     \<and> ss_head s' = Some h' \<and> h_room_epoch h' = ''e1'' \<and> 7 \<le> h_collaboration_sequence h'"
proof -
  obtain s' outs where call:
    "session_call demo_options (demo_call_env [], CallReplaceHead (blank_head ''e1'' 3)) demo_session = (s', outs)"
    by fastforce
  have "map_option (\<lambda>h. (h_room_epoch h, h_collaboration_sequence h)) (ss_head demo_session) = Some (''e1'', 7)"
    "map_option h_room_epoch (ss_head (fst (session_call demo_options
       (demo_call_env [], CallReplaceHead (blank_head ''e1'' 3)) demo_session))) = Some ''e1''"
    by code_simp+
  with call head_never_goes_back [OF call] show ?thesis by auto
qed

subsection \<open>When frames are written\<close>

definition no_frames :: "session \<Rightarrow> session_output list \<Rightarrow> session \<Rightarrow> bool" where
  "no_frames s outs s' \<longleftrightarrow> (\<forall>m r. Frame m r \<notin> set outs)"

interpretation silent: step_relation no_frames
  by unfold_locales (auto simp: no_frames_def)

lemma silent_run:
  "(\<And>f t. f \<in> set fs \<Longrightarrow> no_frames t (snd (f t)) (fst (f t))) \<Longrightarrow> no_frames s (snd (run_steps fs s)) (fst (run_steps fs s))"
  by (rule silent.run_steps_R)

named_theorems silent_steps \<open>steps that hand no frame to the socket\<close>

lemma silent_small [silent_steps]:
  "no_frames s (snd (set_fields f s)) t" "no_frames s (snd (setStatus st s)) t" "no_frames s (snd (setFailure fl s)) t"
  "no_frames s (snd (clearReconnectTimer s)) t" "no_frames s (snd (emitPresenceChange s)) t"
  "no_frames s (snd (emitActiveRunsChange s)) t" "no_frames s (snd (close_socket env how s)) t"
  "no_frames s (snd (with_outbox g s)) t" "no_frames s [] t"
  by (auto simp: no_frames_def set_fields_def setStatus_def setFailure_def clearReconnectTimer_def emitPresenceChange_def
      emitActiveRunsChange_def close_socket_def with_outbox_def split: option.split prod.split)

lemma silent_tell [silent_steps]: "(\<And>m r. out \<noteq> Frame m r) \<Longrightarrow> no_frames s (snd (tell out s)) t"
  by (auto simp: no_frames_def tell_def)

lemma silent_clearPresence [silent_steps]: "no_frames s (snd (clearPresence s)) (fst (clearPresence s))"
  by (auto simp: clearPresence_def intro!: silent_run silent_steps)

lemma silent_stopTraffic [silent_steps]:
  "no_frames s (snd (stopTraffic opts env r f s)) (fst (stopTraffic opts env r f s))"
  unfolding stopTraffic_def by (rule silent_run) (auto intro!: silent_steps split: option.split)

lemma silent_scheduleReconnect [silent_steps]:
  "no_frames s (snd (scheduleReconnect opts env s)) (fst (scheduleReconnect opts env s))"
  unfolding scheduleReconnect_def Let_def by (auto intro!: silent_run silent_steps)

lemma silent_recoverTraffic [silent_steps]:
  "no_frames s (snd (recoverTraffic opts env f s)) (fst (recoverTraffic opts env f s))"
  unfolding recoverTraffic_def by (rule silent_run) (auto intro!: silent_steps)

lemma silent_openSocket [silent_steps]: "no_frames s (snd (openSocket opts env s)) (fst (openSocket opts env s))"
  unfolding openSocket_def
  by (auto intro!: silent_run silent_steps split: option.split) (simp add: no_frames_def)

lemma silent_participants [silent_steps]:
  "no_frames s (snd (upsertParticipant p s)) (fst (upsertParticipant p s))"
  "no_frames s (snd (removeParticipant i s)) (fst (removeParticipant i s))"
  by (auto simp: upsertParticipant_def removeParticipant_def intro!: silent_run silent_steps)

text \<open>What a step that may write frames promises: they were written while the session could send, and still can.\<close>

definition frames_ok :: "call_env \<Rightarrow> session_output list \<Rightarrow> session \<Rightarrow> bool" where
  "frames_ok env outs s' \<longleftrightarrow> (\<forall>m r. Frame m r \<in> set outs \<longrightarrow> canSendCommand env s' \<and> r \<noteq> NoSocket)"

lemma frames_ok_silent: "no_frames s outs s' \<Longrightarrow> frames_ok env outs s'"
  by (auto simp: no_frames_def frames_ok_def)

lemma frames_ok_append: "no_frames s outs s1 \<Longrightarrow> frames_ok env outs' s' \<Longrightarrow> frames_ok env (outs @ outs') s'"
  by (auto simp: no_frames_def frames_ok_def)

lemma canSend_outbox [simp]: "canSendCommand env (s\<lparr>ss_outbox := ob\<rparr>) = canSendCommand env s"
  by (simp add: canSendCommand_def canSubmitCommands_def)

lemma writeSends_results:
  "ss_socket s \<noteq> None \<Longrightarrow> Frame m r \<in> set (snd (writeSends env sends s)) \<Longrightarrow> r \<noteq> NoSocket"
  by (induction sends arbitrary: s)
    (force simp: with_outbox_def case_prod_beta split: option.splits)+

lemma frames_ok_write:
  assumes "outbox_call (outbox_env_of env s, op) (ss_outbox s) = outputs (f (outbox_env_of env s) (ss_outbox s))"
  shows "frames_ok env (snd (outbox_then_write env f s)) (fst (outbox_then_write env f s))"
proof -
  obtain ob es sends where f: "f (outbox_env_of env s) (ss_outbox s) = (ob, es, sends)" by (rule prod_cases3)
  show ?thesis
  proof (cases "sends = []")
    case True
    then show ?thesis by (auto simp: frames_ok_def outbox_then_write_def f)
  next
    case False
    then have can: "canSendCommand env s"
      using outbox_call_gate [OF assms [unfolded f outputs_def prod.case]]
      by (simp add: gate_open_def outbox_env_of_def)
    then have "ss_socket s \<noteq> None" by (simp add: canSendCommand_def)
    with can show ?thesis
      using writeSends_results [of "s\<lparr>ss_outbox := ob\<rparr>" _ _ env sends]
      by (auto simp: frames_ok_def outbox_then_write_fst) (auto simp: outbox_then_write_def f case_prod_beta)
  qed
qed

lemma frames_ok_driven:
  "frames_ok env (snd (outbox_then_write env finishHeadRehydration s)) (fst (outbox_then_write env finishHeadRehydration s))"
  "frames_ok env (snd (outbox_then_write env afterHeadApplied s)) (fst (outbox_then_write env afterHeadApplied s))"
  "frames_ok env (snd (outbox_then_write env (\<lambda>e. applyReceipt e m) s)) (fst (outbox_then_write env (\<lambda>e. applyReceipt e m) s))"
  "frames_ok env (snd (outbox_then_write env (\<lambda>e. submit e cs i) s)) (fst (outbox_then_write env (\<lambda>e. submit e cs i) s))"
  by (rule frames_ok_write [where op = OpFinishHeadRehydration], simp)
     (rule frames_ok_write [where op = OpAfterHeadApplied], simp,
      rule frames_ok_write [where op = "OpApplyReceipt m"], simp,
      rule frames_ok_write [where op = "OpSubmit cs i"], simp)

lemma frames_ok_Cons:
  assumes "no_frames s (snd (f s)) (fst (f s))"
    and "frames_ok env (snd (run_steps fs (fst (f s)))) (fst (run_steps fs (fst (f s))))"
  shows "frames_ok env (snd (run_steps (f # fs) s)) (fst (run_steps (f # fs) s))"
  using frames_ok_append [OF assms] by (simp add: run_steps_fst run_steps_snd)

lemma frames_ok_last:
  "frames_ok env (snd (g s)) (fst (g s)) \<Longrightarrow> frames_ok env (snd (run_steps [g] s)) (fst (run_steps [g] s))"
  by (simp add: run_steps_fst run_steps_snd)

lemma frames_ok_nothing: "frames_ok env (snd (run_steps [] s)) (fst (run_steps [] s))"
  by (simp add: run_steps_snd frames_ok_def)

lemma frames_ok_replaceHead: "frames_ok env (snd (replaceHead env h s)) (fst (replaceHead env h s))"
  unfolding replaceHead_def
  by (auto intro!: frames_ok_driven frames_ok_last frames_ok_Cons [OF silent_small(1)] simp: frames_ok_def [of _ "[]"])

lemma canSend_replaceHead: "canSendCommand env s \<Longrightarrow> canSendCommand env (fst (replaceHead env h s))"
  by (auto simp: replaceHead_def state_after canSendCommand_def canSubmitCommands_def)

lemma frames_ok_reconcile:
  "frames_ok env (snd (fst (reconcileCheckpointHead env h e s))) (fst (fst (reconcileCheckpointHead env h e s)))"
proof -
  have "frames_ok env (snd (replaceHead env h s) @ snd (replaceHead env h' (fst (replaceHead env h s))))
      (fst (replaceHead env h' (fst (replaceHead env h s))))" for h'
    using frames_ok_replaceHead [of env h s] frames_ok_replaceHead [of env h' "fst (replaceHead env h s)"] canSend_replaceHead
    by (auto simp: frames_ok_def)
  then show ?thesis
    using frames_ok_replaceHead [of env h s]
    by (auto simp: reconcileCheckpointHead_def case_prod_beta Let_def frames_ok_def split: option.split)
qed

lemma frames_ok_ready: "frames_ok env (snd (applyReady opts env m s)) (fst (applyReady opts env m s))"
proof (cases "rd_workspace_id m \<noteq> so_workspaceId opts \<or> rd_project_id m \<noteq> so_projectId opts")
  case True
  then show ?thesis by (auto simp: applyReady_def intro!: frames_ok_silent silent_steps)
next
  case False
  show ?thesis
    unfolding applyReady_def Let_def if_not_P [OF False]
    by (rule frames_ok_Cons, rule silent_steps)+ (auto intro!: silent_steps frames_ok_Cons frames_ok_last frames_ok_driven)
qed

lemma frames_ok_head_then:
  "frames_ok env (snd (g t)) (fst (g t)) \<Longrightarrow> t = s\<lparr>ss_head := Some h\<rparr> \<Longrightarrow> (\<And>m r. out \<noteq> Frame m r) \<Longrightarrow>
     frames_ok env (snd (run_steps [set_fields (\<lambda>s. s\<lparr>ss_head := Some h\<rparr>), tell out, g] s))
       (fst (run_steps [set_fields (\<lambda>s. s\<lparr>ss_head := Some h\<rparr>), tell out, g] s))"
  by (auto intro!: frames_ok_Cons silent_steps frames_ok_last simp: set_fields_fst tell_fst)

lemma frames_ok_message: "frames_ok env (snd (apply_message opts env m s)) (fst (apply_message opts env m s))"
proof (cases m)
  case (RoomReady r)
  then show ?thesis by (simp add: frames_ok_ready)
next
  case (RoomRehydrate h)
  then show ?thesis
    by (auto simp: apply_rehydrate_def intro!: frames_ok_silent [OF silent_tell] frames_ok_head_then frames_ok_driven
        split: option.split)
next
  case (CommandAccepted a)
  then show ?thesis
    by (auto simp: applyAccepted_def Let_def frames_ok_def [of _ "[]"] intro!: frames_ok_head_then frames_ok_driven
        frames_ok_silent [OF silent_small(8)] split: head_verdict.split)
next
  case (CommandReceipt r)
  then show ?thesis by (simp add: frames_ok_driven)
qed (auto intro!: frames_ok_silent silent_run silent_steps)

lemma frames_ok_agent_first:
  assumes "\<And>t. frames_ok env (snd (g t)) (fst (g t))"
  shows "frames_ok env (snd (run_steps [if b then tell (PublishedAgentRoom raw) else run_steps [], g] s))
      (fst (run_steps [if b then tell (PublishedAgentRoom raw) else run_steps [], g] s))"
proof (rule frames_ok_Cons)
  show "no_frames s (snd ((if b then tell (PublishedAgentRoom raw) else run_steps []) s))
      (fst ((if b then tell (PublishedAgentRoom raw) else run_steps []) s))"
    by (auto intro!: silent_steps silent_run)
qed (rule frames_ok_last, rule assms)

lemma frames_ok_value: "frames_ok env (snd (handle_value opts env raw s)) (fst (handle_value opts env raw s))"
proof -
  let ?rest = "if is_agent_type (message_type_of raw) then run_steps []
     else if message_type_of raw \<noteq> None \<and> the (message_type_of raw) \<notin> KNOWN_SERVER_MESSAGE_TYPES then run_steps []
     else case parseServerRoomMessage (so_wire_types opts) raw of
            None \<Rightarrow> recoverTraffic opts env (malformed_failure (message_type_of raw) (protocol_version_of raw))
          | Some message \<Rightarrow> apply_message opts env message"
  have rest: "frames_ok env (snd (?rest t)) (fst (?rest t))" for t
    using frames_ok_message [of env opts _ t] frames_ok_nothing [of env t] frames_ok_silent [OF silent_recoverTraffic]
    by (simp split: option.split)
  have "frames_ok env (snd (run_steps [if b then tell (PublishedAgentRoom raw) else run_steps [], ?rest] s))
      (fst (run_steps [if b then tell (PublishedAgentRoom raw) else run_steps [], ?rest] s))" for b
    by (rule frames_ok_agent_first) (rule rest)
  then show ?thesis
    using frames_ok_nothing [of env s] frames_ok_silent [OF silent_stopTraffic]
    unfolding handle_value_def Let_def by (subst (1 2) if_distribR, subst (1 2) if_distribR) simp
qed

lemma frames_ok_event:
  "frames_ok env (snd (on_socket_event opts env g ev s)) (fst (on_socket_event opts env g ev s))"
proof (cases ev)
  case (SocketMessage data)
  have "frames_ok env (snd (handleMessage opts env data s)) (fst (handleMessage opts env data s))"
    using frames_ok_value frames_ok_silent [OF silent_recoverTraffic]
    by (auto simp: handleMessage_def split: json.split sum.split)
  then show ?thesis by (simp add: on_socket_event_def SocketMessage frames_ok_def)
next
  case (SocketClose code reason)
  have "frames_ok env (snd (handleClose opts env code reason t)) (fst (handleClose opts env code reason t))" for t
    unfolding handleClose_def Let_def
    by (auto intro!: frames_ok_silent silent_steps split: option.split room_reason.split)
  then show ?thesis by (simp add: on_socket_event_def SocketClose frames_ok_def)
qed (auto simp: on_socket_event_def frames_ok_def setStatus_def)

text \<open>
  a command frame is handed to the socket only by a session that may send it: the session is
  ready, has a head, may edit the Project, is not terminated and has an open socket; no frame is
  ever dropped for want of a socket.
\<close>

theorem frames_only_when_ready:
  assumes "session_call opts (env, op) s = (s', outs)" and "Frame m r \<in> set outs"
  shows "r \<noteq> NoSocket \<and> ss_status s' = Ready \<and> ss_head s' \<noteq> None \<and> ''edit_project'' \<in> set (ss_capabilities s')
     \<and> ss_terminalReason s' = None \<and> ss_socket s' \<noteq> None \<and> ce_socket_open env"
proof -
  have "frames_ok env (snd (session_call opts (env, op) s)) (fst (session_call opts (env, op) s))"
  proof (cases op)
    case (CallSubmit cs)
    then show ?thesis using frames_ok_driven(4) by (auto simp: submitCommands_def frames_ok_def)
  next
    case (CallPublishPresence u)
    then show ?thesis by (auto simp: publishPresence_def Let_def frames_ok_def)
  next
    case CallDisconnect
    show ?thesis unfolding CallDisconnect session_call.simps disconnect_def
      by (rule frames_ok_silent, rule silent_run) (auto intro!: silent_steps)
  next
    case EventTimer
    show ?thesis unfolding EventTimer session_call.simps timer_fires_def
      by (rule frames_ok_silent, rule silent_run) (auto intro!: silent_steps)
  qed (auto simp: connect_def retry_def frames_ok_replaceHead frames_ok_reconcile frames_ok_event
      intro!: frames_ok_silent silent_run silent_steps)
  with assms show ?thesis by (auto simp: frames_ok_def canSendCommand_def canSubmitCommands_def)
qed

definition demo_connected :: session where
  "demo_connected = snd (run_trace (session_call demo_options) new_session (take 2 demo_session_calls))"

definition demo_frame :: outgoing_command where
  "demo_frame = \<lparr>out_commandId = ''c1'', out_message = \<lparr>sub_command_id = ''c1'', sub_room_epoch = ''e1'',
     sub_observed_sequence = 7, sub_commands = [PC_RemoveGraph ''g9'']\<rparr>\<rparr>"

theorem frames_only_when_ready_witness:
  "\<exists>s' outs. session_call demo_options (demo_call_env ''c1'', CallSubmit [PC_RemoveGraph ''g9'']) demo_connected = (s', outs)
     \<and> Frame demo_frame Written \<in> set outs \<and> ss_status s' = Ready"
proof -
  obtain s' outs where call:
    "session_call demo_options (demo_call_env ''c1'', CallSubmit [PC_RemoveGraph ''g9'']) demo_connected = (s', outs)"
    by fastforce
  have "list_ex (\<lambda>out. out = Frame demo_frame Written)
      (snd (session_call demo_options (demo_call_env ''c1'', CallSubmit [PC_RemoveGraph ''g9'']) demo_connected))"
    by code_simp
  then have "Frame demo_frame Written \<in> set outs" unfolding call list_ex_iff by simp
  with call frames_only_when_ready [OF call] show ?thesis by blast
qed

subsection \<open>Reconnection\<close>

text \<open>
  One failed attempt: the timer fires, and either no socket can be opened, or one is opened and
  closes again, with any code that does not end the room, before the room is ready.
\<close>

definition failing_env :: "call_env \<Rightarrow> string option \<Rightarrow> call_env" where
  "failing_env env message = env\<lparr>ce_factory_error := Some message\<rparr>"

lemma failing_env_error [simp]: "ce_factory_error (failing_env env message) = Some message"
  by (simp add: failing_env_def)

definition opening_env :: "call_env \<Rightarrow> call_env" where
  "opening_env env = env\<lparr>ce_factory_error := None\<rparr>"

datatype attempt = CannotOpen "string option" | ClosesAgain int string

fun failed_attempt :: "session_options \<Rightarrow> call_env \<Rightarrow> attempt \<Rightarrow> session \<Rightarrow> session" where
  "failed_attempt opts env (CannotOpen message) s = fst (timer_fires opts (failing_env env message) s)"
| "failed_attempt opts env (ClosesAgain code reason) s =
     (let s1 = fst (timer_fires opts (opening_env env) s)
      in fst (on_socket_event opts env (ss_generation s1) (SocketClose code reason) s1))"

fun lossy :: "attempt \<Rightarrow> bool" where
  "lossy (CannotOpen message) = True"
| "lossy (ClosesAgain code reason) = (\<forall>r. terminalReasonFromClose code reason \<noteq> Some (Terminal r))"

definition waiting :: "session \<Rightarrow> bool" where
  "waiting s \<longleftrightarrow> ss_reconnectTimer s \<and> \<not> ss_intentionallyClosed s \<and> ss_terminalReason s = None"

definition exhausted :: "session \<Rightarrow> bool" where
  "exhausted s \<longleftrightarrow> ss_terminalReason s = Some ReconnectExhausted \<and> ss_status s = Stopped \<and> \<not> ss_reconnectTimer s
     \<and> ss_socket s = None \<and> entries (ss_outbox s) = []"

lemma recover_waits_or_stops:
  assumes "\<not> ss_intentionallyClosed s" "ss_terminalReason s = None"
  shows "if ss_reconnectAttempts s < so_maxReconnectAttempts opts
     then waiting (fst (recoverTraffic opts env f s))
       \<and> ss_reconnectAttempts (fst (recoverTraffic opts env f s)) = ss_reconnectAttempts s + 1
     else exhausted (fst (recoverTraffic opts env f s))"
  using assms
  by (auto simp: state_after scheduleReconnect_fst lost_def waiting_def exhausted_def entries_def)

lemma failed_attempt_step:
  assumes "waiting s" "lossy a"
  shows "if ss_reconnectAttempts s < so_maxReconnectAttempts opts
     then waiting (failed_attempt opts env a s)
       \<and> ss_reconnectAttempts (failed_attempt opts env a s) = ss_reconnectAttempts s + 1
     else exhausted (failed_attempt opts env a s)"
proof -
  define t where "t = s\<lparr>ss_reconnectTimer := False, ss_generation := ss_generation s + 1,
              ss_status := (if ss_head s \<noteq> None then Reconnecting else Connecting)\<rparr>"
  have live: "\<not> ss_intentionallyClosed s" "ss_terminalReason s = None" using assms(1) by (simp_all add: waiting_def)
  then have t: "\<not> ss_intentionallyClosed t" "ss_terminalReason t = None" "ss_reconnectAttempts t = ss_reconnectAttempts s"
    "ss_generation t = ss_generation s + 1"
    by (simp_all add: t_def)
  have fires: "fst (timer_fires opts e s) = (case ce_factory_error e of
      Some m \<Rightarrow> fst (recoverTraffic opts e (connect_failed_detail m) t) | None \<Rightarrow> t\<lparr>ss_socket := Some (ss_generation t)\<rparr>)" for e
    using live by (simp add: t_def timer_fires_def run_steps_fst set_fields_fst openSocket_fst Let_def split: option.split)
  show ?thesis
  proof (cases a)
    case (CannotOpen m)
    then show ?thesis
      using recover_waits_or_stops [of t opts "failing_env env m" "connect_failed_detail m"] t
      by (simp add: fires)
  next
    case (ClosesAgain code reason)
    then have "\<And>r. terminalReasonFromClose code reason \<noteq> Some (Terminal r)" using assms(2) by simp
    then have "failed_attempt opts env a s = fst (recoverTraffic opts env
        (lost_close_detail (terminalReasonFromClose code reason) code reason) (t\<lparr>ss_socket := None\<rparr>))"
      using t by (auto simp: ClosesAgain fires opening_env_def on_socket_event_def handleClose_def Let_def
          split: option.split room_reason.split)
    then show ?thesis using recover_waits_or_stops [of "t\<lparr>ss_socket := None\<rparr>" opts env
          "lost_close_detail (terminalReasonFromClose code reason) code reason"] t by simp
  qed
qed

text \<open>
  C20: reconnection ends. A session that waits for its reconnect timer and whose every further
  attempt fails, because no socket opens or because it closes again before the room is ready,
  stops after the attempts it has left and one more: it is then terminated with
  \<open>reconnect_exhausted\<close>, has no timer and no socket, and every queued command was rejected.
\<close>

theorem reconnection_ends:
  assumes "waiting s" and "ss_reconnectAttempts s \<le> so_maxReconnectAttempts opts"
    and "list_all lossy attempts"
    and "length attempts = so_maxReconnectAttempts opts - ss_reconnectAttempts s + 1"
  shows "exhausted (fold (failed_attempt opts env) attempts s)"
  using assms
proof (induction attempts arbitrary: s)
  case (Cons a attempts)
  note step = failed_attempt_step [OF Cons.prems(1), of a opts env]
  show ?case
  proof (cases "ss_reconnectAttempts s < so_maxReconnectAttempts opts")
    case True
    with step Cons.prems show ?thesis by (auto intro!: Cons.IH)
  next
    case False
    with Cons.prems have "attempts = []" by simp
    with False step Cons.prems show ?thesis by simp
  qed
qed simp

theorem reconnection_ends_witness:
  "exhausted (fold (failed_attempt demo_options (demo_call_env []))
     [CannotOpen None, ClosesAgain 1006 [], CannotOpen None, ClosesAgain 4009 [], CannotOpen None] demo_session)"
proof (rule reconnection_ends)
  show "waiting demo_session" "ss_reconnectAttempts demo_session \<le> so_maxReconnectAttempts demo_options"
    "length [CannotOpen None, ClosesAgain 1006 [], CannotOpen None, ClosesAgain 4009 [], CannotOpen None]
       = so_maxReconnectAttempts demo_options - ss_reconnectAttempts demo_session + 1"
    by code_simp+
  have "terminalReasonFromClose 1006 [] = None" "terminalReasonFromClose 4009 [] = Some (Recovery SlowConsumer)"
    by code_simp+
  then show "list_all lossy [CannotOpen None, ClosesAgain 1006 [], CannotOpen None, ClosesAgain 4009 [], CannotOpen None]"
    by simp
qed

subsection \<open>The end of a session\<close>

text \<open>What a terminated session must not do any more.\<close>

fun traffic :: "session_output \<Rightarrow> bool" where
  "traffic (OpenedSocket url g) = True"
| "traffic (SetTimer d) = True"
| "traffic (PresenceFrame p) = True"
| "traffic (Frame m r) = True"
| "traffic _ = False"

lemma writeSends_traffic: "x \<in> set (snd (writeSends env sends s)) \<Longrightarrow> traffic x \<Longrightarrow> \<exists>m r. x = Frame m r"
  by (induction sends arbitrary: s)
    (force simp: with_outbox_def case_prod_beta split: option.splits)+

lemma outbox_write_traffic:
  "x \<in> set (snd (outbox_then_write env f s)) \<Longrightarrow> traffic x \<Longrightarrow> \<exists>m r. x = Frame m r"
  using writeSends_traffic by (force simp: outbox_then_write_def case_prod_beta)

lemma replaceHead_traffic:
  "x \<in> set (snd (replaceHead env h s)) \<Longrightarrow> traffic x \<Longrightarrow> \<exists>m r. x = Frame m r"
  by (auto simp: replaceHead_def run_steps_snd set_fields_def dest: outbox_write_traffic split: if_splits)

lemma reconcile_traffic:
  "x \<in> set (snd (fst (reconcileCheckpointHead env h e s))) \<Longrightarrow> traffic x \<Longrightarrow> \<exists>m r. x = Frame m r"
  by (auto simp: reconcileCheckpointHead_def case_prod_beta Let_def dest: replaceHead_traffic split: option.splits if_splits)

lemma replaceHead_terminal [simp]: "ss_terminalReason (fst (replaceHead env h s)) = ss_terminalReason s"
  by (simp add: replaceHead_def state_after)

lemma reconcile_terminal: "ss_terminalReason (fst (fst (reconcileCheckpointHead env h e s))) = ss_terminalReason s"
  by (cases rule: reconcile_cases [of env h e s]) simp_all

lemma terminated_call:
  assumes "session_inv opts s" "ss_terminalReason s = Some r" "session_allowed s (env, op)"
    and "op = CallRetry \<Longrightarrow> r \<noteq> ReconnectExhausted"
  shows "ss_terminalReason (fst (session_call opts (env, op) s)) = Some r"
    and "x \<in> set (snd (session_call opts (env, op) s)) \<Longrightarrow> traffic x \<Longrightarrow> \<exists>m r. x = Frame m r"
proof -
  have inv: "ss_socket s = None" "ss_status s \<noteq> Ready" "\<not> ss_reconnectTimer s" "ss_intentionallyClosed s"
    using assms(1,2) by (auto simp: session_inv_defs)
  show "ss_terminalReason (fst (session_call opts (env, op) s)) = Some r"
    using inv assms(2-4)
    by (cases op) (auto simp: connect_def retry_def state_after reconcile_terminal submitCommands_def canSubmitCommands_def
        publishPresence_def canPublishPresence_def on_socket_event_def)
  assume "x \<in> set (snd (session_call opts (env, op) s))" "traffic x"
  then show "\<exists>m r. x = Frame m r"
    using inv assms(2-4)
    by (cases op) (auto simp: connect_def retry_def submitCommands_def canSubmitCommands_def publishPresence_def
        canPublishPresence_def on_socket_event_def disconnect_def run_steps_snd set_fields_def clearReconnectTimer_def
        close_socket_def with_outbox_def setFailure_def setStatus_def clearPresence_def emitPresenceChange_def
        dest: replaceHead_traffic reconcile_traffic split: if_splits prod.splits option.splits)
qed

text \<open>
  the end of a session is final. Once a session is terminated, no call, event or timer
  changes the reason, opens a socket, sets a timer or writes a frame; the one exception is
  \<open>retry\<close> after \<open>reconnect_exhausted\<close>.
\<close>

theorem terminated_is_final:
  assumes "reach (session_call opts) session_allowed new_session tr s" and "ss_terminalReason s = Some r"
    and "session_allowed s (env, op)" and "op = CallRetry \<longrightarrow> r \<noteq> ReconnectExhausted"
    and "session_call opts (env, op) s = (s', outs)"
  shows "ss_terminalReason s' = Some r \<and> \<not> list_ex traffic outs"
proof -
  note inv = session_sys.reach_inv [OF assms(1)]
  have keeps: "ss_terminalReason s' = Some r"
    using terminated_call(1) [OF inv assms(2,3)] assms(4,5) by simp
  have "\<not> traffic x" if "x \<in> set outs" for x
    using terminated_call(2) [OF inv assms(2,3), of x] assms(4,5) that frames_only_when_ready [OF assms(5)] keeps
    by auto
  with keeps show ?thesis by (simp add: list_ex_iff)
qed

definition demo_revoked_calls :: "(call_env \<times> session_op) list" where
  "demo_revoked_calls = take 4 demo_session_calls @ [(demo_call_env [], EventSocket 1 (SocketClose 4004 []))]"

theorem terminated_is_final_witness:
  "\<exists>s s' outs. ss_terminalReason s = Some AccessRevoked \<and> connect demo_options (demo_call_env []) s = (s', outs)
     \<and> ss_terminalReason s' = Some AccessRevoked \<and> \<not> list_ex traffic outs"
proof -
  let ?s = "snd (run_trace (session_call demo_options) new_session demo_revoked_calls)"
  have "run_allowed (session_call demo_options) session_allowed new_session demo_revoked_calls"
    "ss_terminalReason ?s = Some AccessRevoked"
    by code_simp+
  then have reached: "reach (session_call demo_options) session_allowed new_session
      (fst (run_trace (session_call demo_options) new_session demo_revoked_calls)) ?s"
    and ended: "ss_terminalReason ?s = Some AccessRevoked" by (blast intro: reach_run)+
  obtain s' outs where call: "connect demo_options (demo_call_env []) ?s = (s', outs)" by fastforce
  then have "session_call demo_options (demo_call_env [], CallConnect) ?s = (s', outs)" by simp
  from terminated_is_final [OF reached ended _ _ this] call ended show ?thesis by auto
qed

subsection \<open>Checkpoints and heartbeats\<close>

lemma checkpoint_replaces:
  "ss_head t = Some eff \<Longrightarrow> ss_head (fst (replaceHead env (with_checkpoint c eff) t)) = Some (with_checkpoint c eff)"
  by (simp add: replaceHead_head shouldReplaceCollaborativeHead_def with_checkpoint_def)

text \<open>
  reconciling a checkpoint response. A session whose epoch moved on keeps its head and
  returns it; a response of another epoch is refused and changes nothing; otherwise the call
  returns the head the session then has, which is no older than either head and at least as
  far checkpointed as the response.
\<close>

theorem reconcile_keeps_the_newest:
  assumes "ss_head s = Some cur" and "reconcileCheckpointHead env c e s = ((s', outs), result)"
  shows "case result of
      Inl error \<Rightarrow> h_room_epoch cur = e \<and> h_room_epoch c \<noteq> e \<and> s' = s \<and> outs = []
    | Inr h \<Rightarrow> ss_head s' = Some h
        \<and> (if h_room_epoch cur \<noteq> e then h = cur \<and> s' = s
           else h_room_epoch h = e \<and> h_collaboration_sequence cur \<le> h_collaboration_sequence h
             \<and> h_collaboration_sequence c \<le> h_collaboration_sequence h
             \<and> h_checkpoint_sequence c \<le> h_checkpoint_sequence h)"
proof (cases "h_room_epoch cur = e \<and> h_room_epoch c = e")
  case False
  with assms show ?thesis by (auto simp: reconcileCheckpointHead_def split: if_splits)
next
  case True
  let ?eff = "if h_collaboration_sequence cur \<le> h_collaboration_sequence c then c else cur"
  have eff: "ss_head (fst (replaceHead env c s)) = Some ?eff"
    using True assms(1) by (simp add: replaceHead_head shouldReplaceCollaborativeHead_def)
  show ?thesis
  proof (cases "h_collaboration_sequence c < h_collaboration_sequence ?eff \<and> h_checkpoint_sequence ?eff < h_checkpoint_sequence c")
    case newer: True
    have "ss_head (fst (replaceHead env (with_checkpoint c ?eff) (fst (replaceHead env c s)))) = Some (with_checkpoint c ?eff)"
      by (rule checkpoint_replaces [OF eff])
    with newer True assms eff show ?thesis
      by (auto simp: reconcileCheckpointHead_def case_prod_beta Let_def with_checkpoint_def [symmetric] split: if_splits)
        (simp_all add: with_checkpoint_def)
  next
    case settled: False
    with True assms eff show ?thesis
      by (auto simp: reconcileCheckpointHead_def case_prod_beta Let_def split: if_splits)
  qed
qed

theorem reconcile_keeps_the_newest_witness:
  "\<exists>s' outs h. reconcileCheckpointHead (demo_call_env []) ((blank_head ''e1'' 5)\<lparr>h_checkpoint_sequence := 5\<rparr>) ''e1'' demo_connected
       = ((s', outs), Inr h) \<and> ss_head s' = Some h \<and> 5 \<le> h_checkpoint_sequence h"
proof -
  let ?c = "(blank_head ''e1'' 5)\<lparr>h_checkpoint_sequence := 5\<rparr>"
  obtain s' outs result where call: "reconcileCheckpointHead (demo_call_env []) ?c ''e1'' demo_connected = ((s', outs), result)"
    by (metis prod.collapse)
  have cur: "ss_head demo_connected = Some (blank_head ''e1'' 7)" by code_simp
  have "h_room_epoch ?c = ''e1''" "h_room_epoch (blank_head ''e1'' 7) = ''e1''" "h_checkpoint_sequence ?c = 5"
    by (simp_all add: blank_head_def)
  with reconcile_keeps_the_newest [OF cur call] call show ?thesis by (cases result) auto
qed

text \<open>
  a heartbeat changes nothing. A message whose type is \<open>room.heartbeat\<close> is dropped before it is
  parsed, whatever else it holds: the authorization version it carries never reaches the session
  and no listener is told.
\<close>

theorem heartbeat_is_dropped:
  assumes "getp raw ''type'' = JString ''room.heartbeat''"
  shows "on_socket_event opts env g (SocketMessage raw) s = (s, [])"
proof -
  from assms obtain props where "raw = JObject props" "map_of props ''type'' = Some (JString ''room.heartbeat'')"
    by (auto simp: getp_def split: json.splits option.splits)
  then have "handle_value opts env raw = run_steps []"
    by (simp add: handle_value_def Let_def has_property_def getp_def)
  with \<open>raw = JObject props\<close> show ?thesis
    by (simp add: on_socket_event_def handleMessage_def run_steps.simps)
qed

theorem heartbeat_is_dropped_witness:
  "parseServerRoomMessage blank_types (wire_message blank_printer (RoomHeartbeat 9)) = Some (RoomHeartbeat 9)
   \<and> on_socket_event demo_options (demo_call_env []) 1 (SocketMessage (wire_message blank_printer (RoomHeartbeat 9))) demo_connected
     = (demo_connected, [])"
proof
  show "parseServerRoomMessage blank_types (wire_message blank_printer (RoomHeartbeat 9)) = Some (RoomHeartbeat 9)"
    by code_simp
  show "on_socket_event demo_options (demo_call_env []) 1 (SocketMessage (wire_message blank_printer (RoomHeartbeat 9))) demo_connected
     = (demo_connected, [])"
    by (rule heartbeat_is_dropped) (simp add: wire_message_def)
qed

end
