(* ===== verification/Handles.thy ===== *)
theory Handles
  imports GraphDocument Js_Text
begin

section \<open>Typed handles and connection routes\<close>

text \<open>
  \<^verbatim>\<open>canvas/handles.ts\<close> and \<^verbatim>\<open>canvas/artifact-type-key.ts\<close>: the id of a handle carries the type of its
  port, a connection is checked from the two ids alone, and the routes that can satisfy a
  connection are found by a breadth-first search over the registry's conversions. \<open>Number(text)\<close>
  and \<open>localeCompare\<close> are parameters; where a definition needs both they are fields of \<open>text_platform\<close>.
\<close>

subsection \<open>Artifact types and the registry\<close>

definition artifactTypeKey :: "artifact_type_key \<Rightarrow> string" where
  "artifactTypeKey t = type_id t @ ''@'' @ int_text (type_schema_version t)"

record conversion_spec =
  cv_key :: graph_conversion
  cv_source :: artifact_type_key
  cv_target :: artifact_type_key
  cv_title :: string

record field_projection =
  fp_path :: "string list"
  fp_target :: artifact_type_key
  fp_title :: string

record artifact_type_spec =
  ats_key :: artifact_type_key
  ats_field_projections :: "field_projection list"

record text_platform =
  tp_number :: "string \<Rightarrow> js_number"
  tp_compare :: "string \<Rightarrow> string \<Rightarrow> int"

subsection \<open>Handle ids\<close>

datatype port_shape = One | Many

datatype port_direction = Input | Output

datatype feed_intent = WholeFeed | ProjectionFeed "string list"

datatype handle_type = Concrete artifact_type_key | Generic string

record port_meta =
  pm_portName :: string
  pm_type :: handle_type
  pm_shape :: port_shape
  pm_direction :: port_direction
  pm_plugId :: "string option"
  pm_alsoAccepts :: "artifact_type_key list option"
  pm_feed :: "feed_intent option"

fun shape_text :: "port_shape \<Rightarrow> string" where
  "shape_text One = ''one''"
| "shape_text Many = ''many''"

fun direction_text :: "port_direction \<Rightarrow> string" where
  "direction_text Input = ''input''"
| "direction_text Output = ''output''"

fun encodeHandleFeedSegment :: "feed_intent \<Rightarrow> string" where
  "encodeHandleFeedSegment WholeFeed = ''feed=whole''"
| "encodeHandleFeedSegment (ProjectionFeed path) = ''feed=proj/'' @ js_join ''/'' (map encodeURIComponent path)"

definition encodeHandleAlsoAcceptsSegment :: "artifact_type_key list \<Rightarrow> string" where
  "encodeHandleAlsoAcceptsSegment accepted =
     ''also='' @ js_join '','' (map (\<lambda>key. encodeURIComponent (artifactTypeKey key)) accepted)"

text \<open>The type parts of an id; an empty variable counts as none, and an absent type joins as empty text.\<close>

fun type_parts :: "handle_type \<Rightarrow> string list" where
  "type_parts (Concrete t) = [type_id t, int_text (type_schema_version t)]"
| "type_parts (Generic variable) = (if variable = [] then [[], []] else [encodeURIComponent variable, ''$generic''])"

definition encodeHandleId :: "port_meta \<Rightarrow> string" where
  "encodeHandleId port =
     js_join ''::''
       ([pm_portName port] @ type_parts (pm_type port) @ [shape_text (pm_shape port), direction_text (pm_direction port)]
        @ (case pm_plugId port of Some p \<Rightarrow> if p = [] then [] else [p] | None \<Rightarrow> [])
        @ (case pm_alsoAccepts port of Some ts \<Rightarrow> if ts = [] then [] else [encodeHandleAlsoAcceptsSegment ts] | None \<Rightarrow> [])
        @ (case pm_feed port of Some f \<Rightarrow> [encodeHandleFeedSegment f] | None \<Rightarrow> []))"

text \<open>\<open>Number.isInteger\<close>, with the integer.\<close>

definition integer_of :: "js_number \<Rightarrow> int option" where
  "integer_of n = (case n of Finite r \<Rightarrow> if of_int \<lfloor>r\<rfloor> = r then Some \<lfloor>r\<rfloor> else None | _ \<Rightarrow> None)"

text \<open>The text before and after the last \<open>@\<close>.\<close>

definition split_last_at :: "string \<Rightarrow> (string \<times> string) option" where
  "split_last_at s =
     (if CHR ''@'' \<in> set s
      then Some (rev (tl (dropWhile (\<lambda>c. c \<noteq> CHR ''@'') (rev s))), rev (takeWhile (\<lambda>c. c \<noteq> CHR ''@'') (rev s)))
      else None)"

definition decode_accepted :: "(string \<Rightarrow> js_number) \<Rightarrow> string \<Rightarrow> artifact_type_key option" where
  "decode_accepted number entry =
     (case decodeURIComponent entry of
        None \<Rightarrow> None
      | Some decoded \<Rightarrow>
          (case split_last_at decoded of
             None \<Rightarrow> None
           | Some (typeId, version) \<Rightarrow>
               if typeId = [] then None
               else (case integer_of (number version) of
                       None \<Rightarrow> None
                     | Some v \<Rightarrow> Some \<lparr>type_id = typeId, type_schema_version = v\<rparr>)))"

fun map_option_list :: "('a \<Rightarrow> 'b option) \<Rightarrow> 'a list \<Rightarrow> 'b list option" where
  "map_option_list f [] = Some []"
| "map_option_list f (x # xs) =
     (case f x of None \<Rightarrow> None
      | Some y \<Rightarrow> (case map_option_list f xs of None \<Rightarrow> None | Some ys \<Rightarrow> Some (y # ys)))"

definition starts_with :: "string \<Rightarrow> string \<Rightarrow> bool" where
  "starts_with prefix s \<longleftrightarrow> take (length prefix) s = prefix"

definition decodeHandleAlsoAcceptsSegment :: "(string \<Rightarrow> js_number) \<Rightarrow> string \<Rightarrow> artifact_type_key list option" where
  "decodeHandleAlsoAcceptsSegment number segment =
     (let body = drop (length ''also='') segment
      in if body = [] then None else map_option_list (decode_accepted number) (js_split '','' body))"

definition decodeHandleFeedSegment :: "string \<Rightarrow> feed_intent option" where
  "decodeHandleFeedSegment segment =
     (if \<not> starts_with ''feed='' segment then None
      else
        (let body = drop (length ''feed='') segment
         in if body = ''whole'' then Some WholeFeed
            else if \<not> starts_with ''proj/'' body then None
            else case map_option_list decodeURIComponent
                        (filter (\<lambda>part. part \<noteq> []) (js_split ''/'' (drop (length ''proj/'') body))) of
                   None \<Rightarrow> None
                 | Some path \<Rightarrow> if path = [] then None else Some (ProjectionFeed path)))"

type_synonym segments = "string option \<times> feed_intent option \<times> artifact_type_key list option"

fun decode_segments :: "(string \<Rightarrow> js_number) \<Rightarrow> string list \<Rightarrow> segments \<Rightarrow> segments option" where
  "decode_segments number [] acc = Some acc"
| "decode_segments number (segment # rest) (plugId, feed, alsoAccepts) =
     (if starts_with ''feed='' segment
      then (if feed \<noteq> None then None
            else case decodeHandleFeedSegment segment of
                   None \<Rightarrow> None
                 | Some f \<Rightarrow> decode_segments number rest (plugId, Some f, alsoAccepts))
      else if starts_with ''also='' segment
      then (if alsoAccepts \<noteq> None then None
            else case decodeHandleAlsoAcceptsSegment number segment of
                   None \<Rightarrow> None
                 | Some ts \<Rightarrow> decode_segments number rest (plugId, feed, Some ts))
      else if segment = [] \<or> plugId \<noteq> None then None
      else decode_segments number rest (Some segment, feed, alsoAccepts))"

definition decode_shape :: "string \<Rightarrow> port_shape option" where
  "decode_shape s = (if s = ''one'' then Some One else if s = ''many'' then Some Many else None)"

definition decode_direction :: "string \<Rightarrow> port_direction option" where
  "decode_direction s = (if s = ''input'' then Some Input else if s = ''output'' then Some Output else None)"

definition decodeHandleId :: "(string \<Rightarrow> js_number) \<Rightarrow> string option \<Rightarrow> port_meta option" where
  "decodeHandleId number handle =
     (case handle of
        None \<Rightarrow> None
      | Some txt \<Rightarrow>
          if txt = [] then None
          else
            (case js_split ''::'' txt of
               portName # typePart # versionPart # shape # direction # segments \<Rightarrow>
                 if 3 < length segments then None
                 else
                   (case (decode_shape shape, decode_direction direction, decode_segments number segments (None, None, None)) of
                      (Some s, Some d, Some (plugId, feed, alsoAccepts)) \<Rightarrow>
                        if versionPart = ''$generic''
                        then (case decodeURIComponent typePart of
                                None \<Rightarrow> None
                              | Some variable \<Rightarrow>
                                  if variable = [] then None
                                  else Some \<lparr>pm_portName = portName, pm_type = Generic variable, pm_shape = s,
                                         pm_direction = d, pm_plugId = plugId, pm_alsoAccepts = None, pm_feed = feed\<rparr>)
                        else (case integer_of (number versionPart) of
                                None \<Rightarrow> None
                              | Some v \<Rightarrow>
                                  Some \<lparr>pm_portName = portName,
                                    pm_type = Concrete \<lparr>type_id = typePart, type_schema_version = v\<rparr>, pm_shape = s,
                                    pm_direction = d, pm_plugId = plugId, pm_alsoAccepts = alsoAccepts, pm_feed = feed\<rparr>)
                    | _ \<Rightarrow> None)
             | _ \<Rightarrow> None))"

definition canonicalHandleId :: "(string \<Rightarrow> js_number) \<Rightarrow> string option \<Rightarrow> string option" where
  "canonicalHandleId number handle =
     (case decodeHandleId number handle of
        None \<Rightarrow> handle
      | Some decoded \<Rightarrow> if pm_feed decoded = None then handle else Some (encodeHandleId (decoded\<lparr>pm_feed := None\<rparr>)))"

fun decodedHandleArtifactType :: "port_meta \<Rightarrow> artifact_type_key option" where
  "decodedHandleArtifactType handle = (case pm_type handle of Concrete t \<Rightarrow> Some t | Generic _ \<Rightarrow> None)"

definition acceptedHandleArtifactTypes :: "port_meta \<Rightarrow> artifact_type_key list" where
  "acceptedHandleArtifactTypes handle =
     (case decodedHandleArtifactType handle of
        None \<Rightarrow> []
      | Some primary \<Rightarrow> primary # (case pm_alsoAccepts handle of Some ts \<Rightarrow> ts | None \<Rightarrow> []))"

definition handleAcceptsArtifactType :: "port_meta \<Rightarrow> artifact_type_key \<Rightarrow> bool" where
  "handleAcceptsArtifactType handle t =
     list_ex (\<lambda>candidate. artifactTypeKey candidate = artifactTypeKey t) (acceptedHandleArtifactTypes handle)"

record connection =
  cn_sourceHandle :: "string option"
  cn_targetHandle :: "string option"

definition connectionIsValid :: "(string \<Rightarrow> js_number) \<Rightarrow> connection \<Rightarrow> bool" where
  "connectionIsValid number conn =
     (case (decodeHandleId number (cn_sourceHandle conn), decodeHandleId number (cn_targetHandle conn)) of
        (Some s, Some t) \<Rightarrow>
          (let sourceType = decodedHandleArtifactType s; targetType = decodedHandleArtifactType t
           in if sourceType = None \<and> targetType = None then False
              else pm_direction s = Output \<and> pm_direction t = Input
                \<and> (sourceType = None \<or> targetType = None \<or> handleAcceptsArtifactType t (the sourceType))
                \<and> pm_shape s = pm_shape t)
      | _ \<Rightarrow> False)"

definition connectionArtifactContractIsValid :: "(string \<Rightarrow> js_number) \<Rightarrow> connection \<Rightarrow> bool" where
  "connectionArtifactContractIsValid number conn =
     (case (decodeHandleId number (cn_sourceHandle conn), decodeHandleId number (cn_targetHandle conn)) of
        (Some s, Some t) \<Rightarrow>
          (case (decodedHandleArtifactType s, decodedHandleArtifactType t) of
             (Some sourceType, Some _) \<Rightarrow>
               pm_direction s = Output \<and> pm_direction t = Input \<and> handleAcceptsArtifactType t sourceType
           | _ \<Rightarrow> False)
      | _ \<Rightarrow> False)"

definition projectionCandidatesForConnection ::
    "(string \<Rightarrow> js_number) \<Rightarrow> connection \<Rightarrow> artifact_type_spec list \<Rightarrow> field_projection list" where
  "projectionCandidatesForConnection number conn artifactTypes =
     (case (decodeHandleId number (cn_sourceHandle conn), decodeHandleId number (cn_targetHandle conn)) of
        (Some s, Some t) \<Rightarrow>
          (case (decodedHandleArtifactType s, decodedHandleArtifactType t) of
             (Some sourceType, Some _) \<Rightarrow>
               if pm_direction s \<noteq> Output \<or> pm_direction t \<noteq> Input \<or> handleAcceptsArtifactType t sourceType then []
               else (case find (\<lambda>a. artifactTypeKey (ats_key a) = artifactTypeKey sourceType) artifactTypes of
                       None \<Rightarrow> []
                     | Some a \<Rightarrow> filter (\<lambda>p. handleAcceptsArtifactType t (fp_target p)) (ats_field_projections a))
           | _ \<Rightarrow> [])
      | _ \<Rightarrow> [])"

subsection \<open>Routes\<close>

datatype binding_endpoint = SourceEndpoint | TargetEndpoint

record connection_binding =
  tb_endpoint :: binding_endpoint
  tb_variable :: string
  tb_artifactType :: artifact_type_key

datatype connection_route =
    RExact "conversion_spec list" "connection_binding option"
  | RProjection field_projection "conversion_spec list" "connection_binding option"
  | RConversion "conversion_spec list" "connection_binding option"
  | RProjectionConversion field_projection "conversion_spec list" "connection_binding option"

record route_selection =
  rs_projection :: "string list option"
  rs_conversionPath :: "graph_conversion list"

definition MAX_CONVERSION_PATH_LENGTH :: nat where
  "MAX_CONVERSION_PATH_LENGTH = 8"

definition MAX_CONVERSION_SEARCH_STATES :: nat where
  "MAX_CONVERSION_SEARCH_STATES = 4096"

definition MAX_CONVERSION_PATH_CANDIDATES :: nat where
  "MAX_CONVERSION_PATH_CANDIDATES = 256"

definition artifactTypeMatches :: "artifact_type_key \<Rightarrow> string \<Rightarrow> int \<Rightarrow> bool" where
  "artifactTypeMatches t typeId schemaVersion \<longleftrightarrow> type_id t = typeId \<and> type_schema_version t = schemaVersion"

text \<open>\<open>Array.sort\<close>: stable, by a comparator that is negative, zero or positive.\<close>

fun insert_by :: "('a \<Rightarrow> 'a \<Rightarrow> int) \<Rightarrow> 'a \<Rightarrow> 'a list \<Rightarrow> 'a list" where
  "insert_by cmp x [] = [x]"
| "insert_by cmp x (y # ys) = (if cmp x y \<le> 0 then x # y # ys else y # insert_by cmp x ys)"

definition js_sort :: "('a \<Rightarrow> 'a \<Rightarrow> int) \<Rightarrow> 'a list \<Rightarrow> 'a list" where
  "js_sort cmp xs = foldr (insert_by cmp) xs []"

type_synonym locale_compare = "string \<Rightarrow> string \<Rightarrow> int"

definition compareConversions :: "locale_compare \<Rightarrow> conversion_spec \<Rightarrow> conversion_spec \<Rightarrow> int" where
  "compareConversions compare left right =
     (let byId = compare (conv_id (cv_key left)) (conv_id (cv_key right))
      in if byId \<noteq> 0 then byId else conv_version (cv_key left) - conv_version (cv_key right))"

fun compareConversionPaths :: "locale_compare \<Rightarrow> conversion_spec list \<Rightarrow> conversion_spec list \<Rightarrow> int" where
  "compareConversionPaths compare (step # left) (other # right) =
     (let comparison = compareConversions compare step other
      in if comparison \<noteq> 0 then comparison else compareConversionPaths compare left right)"
| "compareConversionPaths compare left right = int (length left) - int (length right)"

text \<open>The index of the conversions by the key of their source type.\<close>

definition conversionsBySource :: "conversion_spec list \<Rightarrow> string \<Rightarrow> conversion_spec list option" where
  "conversionsBySource conversions =
     foldl (\<lambda>m conversion.
         let sourceKey = artifactTypeKey (cv_source conversion);
             outgoing = (case m sourceKey of Some known \<Rightarrow> known | None \<Rightarrow> [])
         in m(sourceKey \<mapsto> outgoing @ [conversion]))
       Map.empty conversions"

record search_state =
  ss_artifactType :: artifact_type_key
  ss_conversionPath :: "conversion_spec list"
  ss_visited :: "string list"

text \<open>
  The two inner loops over one state's conversions and over the frontier; the accumulator holds
  the number of expanded states, the completed paths and the next frontier, and \<open>None\<close> is the
  early \<open>return null\<close>.
\<close>

type_synonym search_acc = "nat \<times> conversion_spec list list \<times> search_state list"

fun expand_state :: "string \<Rightarrow> search_state \<Rightarrow> conversion_spec list \<Rightarrow> search_acc \<Rightarrow> search_acc option" where
  "expand_state targetKey state [] acc = Some acc"
| "expand_state targetKey state (conversion # rest) (expandedStates, completed, nextFrontier) =
     (let nextKey = artifactTypeKey (cv_target conversion);
          conversionPath = ss_conversionPath state @ [conversion]
      in if nextKey \<in> set (ss_visited state)
         then expand_state targetKey state rest (expandedStates, completed, nextFrontier)
         else if expandedStates + 1 > MAX_CONVERSION_SEARCH_STATES then None
         else if nextKey = targetKey
         then (if length completed + 1 > MAX_CONVERSION_PATH_CANDIDATES then None
               else expand_state targetKey state rest (expandedStates + 1, completed @ [conversionPath], nextFrontier))
         else expand_state targetKey state rest
                (expandedStates + 1, completed,
                 nextFrontier @ [\<lparr>ss_artifactType = cv_target conversion, ss_conversionPath = conversionPath,
                                   ss_visited = ss_visited state @ [nextKey]\<rparr>]))"

fun expand_frontier ::
    "(string \<Rightarrow> conversion_spec list option) \<Rightarrow> string \<Rightarrow> search_state list \<Rightarrow> search_acc \<Rightarrow> search_acc option" where
  "expand_frontier index targetKey [] acc = Some acc"
| "expand_frontier index targetKey (state # rest) acc =
     (case expand_state targetKey state
             (case index (artifactTypeKey (ss_artifactType state)) of Some outgoing \<Rightarrow> outgoing | None \<Rightarrow> []) acc of
        None \<Rightarrow> None
      | Some acc1 \<Rightarrow> expand_frontier index targetKey rest acc1)"

fun search_levels ::
    "locale_compare \<Rightarrow> (string \<Rightarrow> conversion_spec list option) \<Rightarrow> string \<Rightarrow> nat \<Rightarrow> nat \<Rightarrow> search_state list
       \<Rightarrow> conversion_spec list list option" where
  "search_levels compare index targetKey 0 expandedStates frontier = Some []"
| "search_levels compare index targetKey (Suc remaining) expandedStates frontier =
     (case expand_frontier index targetKey frontier (expandedStates, [], []) of
        None \<Rightarrow> None
      | Some (expanded, completed, nextFrontier) \<Rightarrow>
          if completed \<noteq> [] then Some (js_sort (compareConversionPaths compare) completed)
          else if nextFrontier = [] then Some []
          else search_levels compare index targetKey remaining expanded nextFrontier)"

definition start_state :: "artifact_type_key \<Rightarrow> search_state" where
  "start_state source = \<lparr>ss_artifactType = source, ss_conversionPath = [], ss_visited = [artifactTypeKey source]\<rparr>"

definition shortestConversionPaths ::
    "locale_compare \<Rightarrow> artifact_type_key \<Rightarrow> artifact_type_key \<Rightarrow> conversion_spec list \<Rightarrow> conversion_spec list list option" where
  "shortestConversionPaths compare source target conversions =
     (if artifactTypeKey source = artifactTypeKey target then Some [[]]
      else search_levels compare (conversionsBySource (js_sort (compareConversions compare) conversions))
             (artifactTypeKey target) MAX_CONVERSION_PATH_LENGTH 0 [start_state source])"

fun shortestConversionPathsToAny ::
    "locale_compare \<Rightarrow> artifact_type_key \<Rightarrow> artifact_type_key list \<Rightarrow> conversion_spec list \<Rightarrow> conversion_spec list list option" where
  "shortestConversionPathsToAny compare source [] conversions = Some []"
| "shortestConversionPathsToAny compare source (target # targets) conversions =
     (case shortestConversionPaths compare source target conversions of
        None \<Rightarrow> None
      | Some paths \<Rightarrow>
          (case shortestConversionPathsToAny compare source targets conversions of
             None \<Rightarrow> None
           | Some others \<Rightarrow> Some (paths @ others)))"

definition connectionRoute ::
    "field_projection option \<Rightarrow> conversion_spec list \<Rightarrow> connection_binding option \<Rightarrow> connection_route" where
  "connectionRoute projection conversionPath binding =
     (case projection of
        Some p \<Rightarrow> if conversionPath \<noteq> [] then RProjectionConversion p conversionPath binding
                   else RProjection p conversionPath binding
      | None \<Rightarrow> if conversionPath \<noteq> [] then RConversion conversionPath binding
                 else RExact conversionPath binding)"

text \<open>A map keeps the place of a key's first entry and the value of its last.\<close>

definition sortedConversionTargetTypes :: "locale_compare \<Rightarrow> conversion_spec list \<Rightarrow> artifact_type_key list" where
  "sortedConversionTargetTypes compare conversions =
     js_sort (\<lambda>left right. compare (artifactTypeKey left) (artifactTypeKey right))
       (map snd (foldl (\<lambda>byKey conversion.
                    obj_set (artifactTypeKey (cv_target conversion)) (cv_target conversion) byKey) [] conversions))"

definition target_binding :: "string \<Rightarrow> artifact_type_key \<Rightarrow> connection_binding" where
  "target_binding variable t = \<lparr>tb_endpoint = TargetEndpoint, tb_variable = variable, tb_artifactType = t\<rparr>"

fun push_generic_routes ::
    "(conversion_spec list \<Rightarrow> connection_route) \<Rightarrow> conversion_spec list list \<Rightarrow> connection_route list
       \<Rightarrow> connection_route list option" where
  "push_generic_routes route [] routes = Some routes"
| "push_generic_routes route (conversionPath # paths) routes =
     (if length routes + 1 > MAX_CONVERSION_PATH_CANDIDATES then None
      else push_generic_routes route paths (routes @ [route conversionPath]))"

fun generic_target_loop ::
    "locale_compare \<Rightarrow> artifact_type_key \<Rightarrow> field_projection option \<Rightarrow> string \<Rightarrow> conversion_spec list
       \<Rightarrow> artifact_type_key list \<Rightarrow> connection_route list \<Rightarrow> connection_route list option" where
  "generic_target_loop compare sourceType projection variable conversions [] routes = Some routes"
| "generic_target_loop compare sourceType projection variable conversions (targetType # targets) routes =
     (if artifactTypeKey sourceType = artifactTypeKey targetType
      then generic_target_loop compare sourceType projection variable conversions targets routes
      else case shortestConversionPaths compare sourceType targetType conversions of
             None \<Rightarrow> None
           | Some conversionPaths \<Rightarrow>
               (case push_generic_routes
                       (\<lambda>conversionPath. connectionRoute projection conversionPath (Some (target_binding variable targetType)))
                       conversionPaths routes of
                  None \<Rightarrow> None
                | Some routes1 \<Rightarrow>
                    generic_target_loop compare sourceType projection variable conversions targets routes1))"

definition genericTargetRoutesFrom ::
    "locale_compare \<Rightarrow> artifact_type_key \<Rightarrow> field_projection option \<Rightarrow> string \<Rightarrow> conversion_spec list
       \<Rightarrow> connection_route list option" where
  "genericTargetRoutesFrom compare sourceType projection variable conversions =
     generic_target_loop compare sourceType projection variable conversions
       (sortedConversionTargetTypes compare conversions)
       [connectionRoute projection [] (Some (target_binding variable sourceType))]"

text \<open>The loop over the sorted projections that both kinds of target share: it ends the call on a null result or past the candidate bound.\<close>

fun projection_routes_loop ::
    "(field_projection \<Rightarrow> connection_route list option) \<Rightarrow> field_projection list \<Rightarrow> connection_route list
       \<Rightarrow> connection_route list" where
  "projection_routes_loop routesFrom [] routes = routes"
| "projection_routes_loop routesFrom (projection # rest) routes =
     (case routesFrom projection of
        None \<Rightarrow> []
      | Some projectionRoutes \<Rightarrow>
          if length routes + length projectionRoutes > MAX_CONVERSION_PATH_CANDIDATES then []
          else projection_routes_loop routesFrom rest (routes @ projectionRoutes))"

definition compareProjections :: "locale_compare \<Rightarrow> field_projection \<Rightarrow> field_projection \<Rightarrow> int" where
  "compareProjections compare left right =
     (let byPath = compare (js_join ''.'' (fp_path left)) (js_join ''.'' (fp_path right))
      in if byPath \<noteq> 0 then byPath else compare (fp_title left) (fp_title right))"

definition artifact_projections :: "artifact_type_spec list \<Rightarrow> artifact_type_key \<Rightarrow> field_projection list" where
  "artifact_projections artifactTypes sourceType =
     (case find (\<lambda>a. artifactTypeKey (ats_key a) = artifactTypeKey sourceType) artifactTypes of
        Some a \<Rightarrow> ats_field_projections a
      | None \<Rightarrow> [])"

definition generic_target_routes ::
    "locale_compare \<Rightarrow> artifact_type_key \<Rightarrow> string \<Rightarrow> artifact_type_spec list \<Rightarrow> conversion_spec list
       \<Rightarrow> connection_route list" where
  "generic_target_routes compare sourceType variable artifactTypes conversions =
     (case genericTargetRoutesFrom compare sourceType None variable conversions of
        None \<Rightarrow> []
      | Some routes \<Rightarrow>
          projection_routes_loop
            (\<lambda>p. genericTargetRoutesFrom compare (fp_target p) (Some p) variable conversions)
            (js_sort (compareProjections compare) (artifact_projections artifactTypes sourceType)) routes)"

definition concrete_target_routes ::
    "locale_compare \<Rightarrow> artifact_type_key \<Rightarrow> artifact_type_key list \<Rightarrow> artifact_type_spec list \<Rightarrow> conversion_spec list
       \<Rightarrow> connection_route list" where
  "concrete_target_routes compare sourceType targetTypes artifactTypes conversions =
     (if list_ex (\<lambda>candidate. artifactTypeKey candidate = artifactTypeKey sourceType) targetTypes
      then [RExact [] None]
      else case shortestConversionPathsToAny compare sourceType targetTypes conversions of
             None \<Rightarrow> []
           | Some wholeOutputPaths \<Rightarrow>
               (let routes = map (\<lambda>conversionPath. connectionRoute None conversionPath None) wholeOutputPaths
                in if length routes > MAX_CONVERSION_PATH_CANDIDATES then []
                   else projection_routes_loop
                          (\<lambda>p. map_option (map (\<lambda>conversionPath. connectionRoute (Some p) conversionPath None))
                                 (shortestConversionPathsToAny compare (fp_target p) targetTypes conversions))
                          (js_sort (compareProjections compare) (artifact_projections artifactTypes sourceType)) routes))"

definition connectionRoutesFor ::
    "text_platform \<Rightarrow> connection \<Rightarrow> artifact_type_spec list \<Rightarrow> conversion_spec list \<Rightarrow> connection_route list" where
  "connectionRoutesFor platform conn artifactTypes conversions =
     (case (decodeHandleId (tp_number platform) (cn_sourceHandle conn),
            decodeHandleId (tp_number platform) (cn_targetHandle conn)) of
        (Some source, Some target) \<Rightarrow>
          if pm_direction source \<noteq> Output \<or> pm_direction target \<noteq> Input then []
          else
            (case (pm_type source, pm_type target) of
               (Generic _, Generic _) \<Rightarrow> []
             | (Generic sourceVariable, Concrete targetType) \<Rightarrow>
                 [connectionRoute None []
                    (Some \<lparr>tb_endpoint = SourceEndpoint, tb_variable = sourceVariable, tb_artifactType = targetType\<rparr>)]
             | (Concrete sourceType, Generic targetVariable) \<Rightarrow>
                 generic_target_routes (tp_compare platform) sourceType targetVariable artifactTypes conversions
             | (Concrete sourceType, Concrete _) \<Rightarrow>
                 concrete_target_routes (tp_compare platform) sourceType (acceptedHandleArtifactTypes target)
                   artifactTypes conversions)
      | _ \<Rightarrow> [])"

text \<open>The replay of a stored selection: the loop carries the current type, the keys seen and the path so far.\<close>

fun replay_conversions ::
    "conversion_spec list \<Rightarrow> graph_conversion list \<Rightarrow> artifact_type_key \<Rightarrow> string list \<Rightarrow> conversion_spec list
       \<Rightarrow> (artifact_type_key \<times> conversion_spec list) option" where
  "replay_conversions conversions [] current visited conversionPath = Some (current, conversionPath)"
| "replay_conversions conversions (requested # rest) current visited conversionPath =
     (case find (\<lambda>c. conv_id (cv_key c) = conv_id requested \<and> conv_version (cv_key c) = conv_version requested) conversions of
        None \<Rightarrow> None
      | Some conversion \<Rightarrow>
          if artifactTypeKey (cv_source conversion) \<noteq> artifactTypeKey current then None
          else let nextKey = artifactTypeKey (cv_target conversion)
               in if nextKey \<in> set visited then None
                  else replay_conversions conversions rest (cv_target conversion) (visited @ [nextKey])
                         (conversionPath @ [conversion]))"

definition connectionRouteForSelection ::
    "(string \<Rightarrow> js_number) \<Rightarrow> connection \<Rightarrow> artifact_type_spec list \<Rightarrow> conversion_spec list \<Rightarrow> route_selection
       \<Rightarrow> connection_route option" where
  "connectionRouteForSelection number conn artifactTypes conversions selection =
     (case (decodeHandleId number (cn_sourceHandle conn), decodeHandleId number (cn_targetHandle conn)) of
        (Some source, Some target) \<Rightarrow>
          (case (decodedHandleArtifactType source, decodedHandleArtifactType target) of
             (Some sourceType, Some _) \<Rightarrow>
               if pm_direction source \<noteq> Output \<or> pm_direction target \<noteq> Input
                 \<or> length (rs_conversionPath selection) > MAX_CONVERSION_PATH_LENGTH then None
               else
                 (let projection = (case rs_projection selection of
                        None \<Rightarrow> None
                      | Some path \<Rightarrow> find (\<lambda>p. fp_path p = path) (artifact_projections artifactTypes sourceType));
                      start = (case projection of Some p \<Rightarrow> fp_target p | None \<Rightarrow> sourceType)
                  in if rs_projection selection \<noteq> None \<and> projection = None then None
                     else case replay_conversions conversions (rs_conversionPath selection) start [artifactTypeKey start] [] of
                            None \<Rightarrow> None
                          | Some (current, conversionPath) \<Rightarrow>
                              if list_ex (\<lambda>candidate. artifactTypeMatches current (type_id candidate) (type_schema_version candidate))
                                   (acceptedHandleArtifactTypes target)
                              then Some (connectionRoute projection conversionPath None)
                              else None)
           | _ \<Rightarrow> None)
      | _ \<Rightarrow> None)"

fun route_conversionPath :: "connection_route \<Rightarrow> conversion_spec list" where
  "route_conversionPath (RExact path _) = path"
| "route_conversionPath (RProjection _ path _) = path"
| "route_conversionPath (RConversion path _) = path"
| "route_conversionPath (RProjectionConversion _ path _) = path"

fun route_projection :: "connection_route \<Rightarrow> field_projection option" where
  "route_projection (RProjection p _ _) = Some p"
| "route_projection (RProjectionConversion p _ _) = Some p"
| "route_projection _ = None"

definition connectionRouteSelection :: "connection_route \<Rightarrow> route_selection" where
  "connectionRouteSelection route =
     \<lparr>rs_projection = map_option fp_path (route_projection route),
      rs_conversionPath = map cv_key (route_conversionPath route)\<rparr>"

definition connectionRouteDeliveredArtifactType :: "connection_route \<Rightarrow> artifact_type_key option" where
  "connectionRouteDeliveredArtifactType route =
     (if route_conversionPath route \<noteq> [] then Some (cv_target (last (route_conversionPath route)))
      else case route of RProjection p _ _ \<Rightarrow> Some (fp_target p) | _ \<Rightarrow> None)"

definition connectionRouteMatchesSelection :: "connection_route \<Rightarrow> route_selection \<Rightarrow> bool" where
  "connectionRouteMatchesSelection route selection =
     (let candidate = connectionRouteSelection route
      in rs_projection candidate = rs_projection selection
         \<and> length (rs_conversionPath candidate) = length (rs_conversionPath selection)
         \<and> list_all2 (\<lambda>c d. conv_id c = conv_id d \<and> conv_version c = conv_version d)
             (rs_conversionPath candidate) (rs_conversionPath selection))"

end
