(* ===== verification/Handles_Facts.thy ===== *)
theory Handles_Facts
  imports Handles "HOL-Library.Multiset"
begin

section \<open>Handles and routes: what the ids and the search guarantee\<close>

text \<open>
  Type keys identify types; an encoded handle decodes to the port it came from; the bounded
  search returns exactly the shortest conversion chains; and every route offered for a
  connection replays from the selection that is stored for it.
\<close>

subsection \<open>Keys and sorting\<close>

lemma split_at_last_unique:
  assumes "x @ c # v = y @ c # w" "c \<notin> set v" "c \<notin> set w"
  shows "x = y \<and> v = w"
proof -
  from assms(1) have "rev v @ c # rev x = rev w @ c # rev y"
    by (metis append_Cons append_Nil append_assoc rev.simps(2) rev_append)
  with assms(2,3) append_sep_inj [of c "rev v" "rev w" "rev x" "rev y"] show ?thesis by simp
qed

lemma artifactTypeKey_inj [simp]: "artifactTypeKey s = artifactTypeKey t \<longleftrightarrow> s = t"
proof
  assume "artifactTypeKey s = artifactTypeKey t"
  moreover have "CHR ''@'' \<notin> set (int_text n)" for n by (rule not_in_int_text) simp
  ultimately have "type_id s = type_id t \<and> int_text (type_schema_version s) = int_text (type_schema_version t)"
    by (intro split_at_last_unique [of _ "CHR ''@''"]) (simp_all add: artifactTypeKey_def)
  then show "s = t" by (simp add: artifact_type_key.equality)
qed simp

lemma mset_insert_by [simp]: "mset (insert_by cmp x xs) = add_mset x (mset xs)"
  by (induction xs) simp_all

lemma mset_js_sort [simp]: "mset (js_sort cmp xs) = mset xs"
  by (induction xs) (simp_all add: js_sort_def)

lemma set_js_sort [simp]: "set (js_sort cmp xs) = set xs"
  by (metis mset_js_sort set_mset_mset)

lemma length_js_sort [simp]: "length (js_sort cmp xs) = length xs"
  by (metis mset_js_sort size_mset)

lemma distinct_js_sort [simp]: "distinct (js_sort cmp xs) = distinct xs"
  by (metis mset_js_sort mset_eq_imp_distinct_iff)

definition outgoing_of :: "conversion_spec list \<Rightarrow> artifact_type_key \<Rightarrow> conversion_spec list" where
  "outgoing_of conversions t = filter (\<lambda>c. cv_source c = t) conversions"

lemma conversionsBySource_snoc:
  "conversionsBySource (cs @ [c]) =
     (let k = artifactTypeKey (cv_source c)
      in (conversionsBySource cs)(k \<mapsto> (case conversionsBySource cs k of Some known \<Rightarrow> known | None \<Rightarrow> []) @ [c]))"
  by (simp add: conversionsBySource_def)

lemma conversionsBySource_lookup:
  "(case conversionsBySource cs (artifactTypeKey t) of Some known \<Rightarrow> known | None \<Rightarrow> []) = outgoing_of cs t"
proof (induction cs rule: rev_induct)
  case Nil
  then show ?case by (simp add: conversionsBySource_def outgoing_of_def)
next
  case (snoc c cs)
  then show ?case by (cases "cv_source c = t") (auto simp: conversionsBySource_snoc Let_def outgoing_of_def)
qed

subsection \<open>One level of the search\<close>

text \<open>The states one conversion away from a state, and those of a whole frontier, without the counters.\<close>

definition extend_state :: "search_state \<Rightarrow> conversion_spec \<Rightarrow> search_state" where
  "extend_state st c = \<lparr>ss_artifactType = cv_target c, ss_conversionPath = ss_conversionPath st @ [c],
     ss_visited = ss_visited st @ [artifactTypeKey (cv_target c)]\<rparr>"

definition fresh_steps :: "conversion_spec list \<Rightarrow> search_state \<Rightarrow> search_state list" where
  "fresh_steps cs st = map (extend_state st) (filter (\<lambda>c. artifactTypeKey (cv_target c) \<notin> set (ss_visited st)) cs)"

definition next_states :: "conversion_spec list \<Rightarrow> search_state list \<Rightarrow> search_state list" where
  "next_states cs frontier = concat (map (\<lambda>st. fresh_steps (outgoing_of cs (ss_artifactType st)) st) frontier)"

definition arrived :: "string \<Rightarrow> search_state \<Rightarrow> bool" where
  "arrived targetKey st \<longleftrightarrow> artifactTypeKey (ss_artifactType st) = targetKey"

definition settle :: "string \<Rightarrow> search_state list \<Rightarrow> search_acc \<Rightarrow> search_acc option" where
  "settle targetKey sts acc =
     (case acc of (n, completed, nextFrontier) \<Rightarrow>
        if n + length sts \<le> MAX_CONVERSION_SEARCH_STATES
           \<and> length completed + length (filter (arrived targetKey) sts) \<le> MAX_CONVERSION_PATH_CANDIDATES
        then Some (n + length sts, completed @ map ss_conversionPath (filter (arrived targetKey) sts),
                   nextFrontier @ filter (\<lambda>st. \<not> arrived targetKey st) sts)
        else None)"

definition acc_ok :: "search_acc \<Rightarrow> bool" where
  "acc_ok acc \<longleftrightarrow> fst acc \<le> MAX_CONVERSION_SEARCH_STATES \<and> length (fst (snd acc)) \<le> MAX_CONVERSION_PATH_CANDIDATES"

lemma settle_Cons:
  "acc_ok acc \<Longrightarrow> settle k (st # sts) acc = Option.bind (settle k [st] acc) (settle k sts)"
  by (auto simp: settle_def acc_ok_def split: prod.splits)

lemma settle_append:
  "acc_ok acc \<Longrightarrow> settle k (xs @ ys) acc = Option.bind (settle k xs acc) (settle k ys)"
  by (auto simp: settle_def acc_ok_def split: prod.splits)

lemma settle_acc_ok: "settle k sts acc = Some acc' \<Longrightarrow> acc_ok acc'"
  by (auto simp: settle_def acc_ok_def split: prod.splits if_splits)

lemma settle_Nil: "acc_ok acc \<Longrightarrow> settle k [] acc = Some acc"
  by (auto simp: settle_def acc_ok_def split: prod.splits)

lemma settle_one:
  "settle k [st] (n, completed, nextFrontier) =
     (if n + 1 > MAX_CONVERSION_SEARCH_STATES then None
      else if arrived k st
      then (if length completed + 1 > MAX_CONVERSION_PATH_CANDIDATES then None
            else Some (n + 1, completed @ [ss_conversionPath st], nextFrontier))
      else if length completed \<le> MAX_CONVERSION_PATH_CANDIDATES then Some (n + 1, completed, nextFrontier @ [st])
      else None)"
  by (auto simp: settle_def)

lemma expand_state_settles:
  "acc_ok acc \<Longrightarrow> expand_state k st cs acc = settle k (fresh_steps cs st) acc"
proof (induction k st cs acc rule: expand_state.induct)
  case (1 k st acc)
  then show ?case by (simp add: fresh_steps_def settle_Nil)
next
  case (2 k st c rest n completed nextFrontier)
  let ?acc = "(n, completed, nextFrontier)" and ?new = "extend_state st c"
  show ?case
  proof (cases "artifactTypeKey (cv_target c) \<in> set (ss_visited st)")
    case True
    with "2.IH"(1) "2.prems" show ?thesis by (simp add: fresh_steps_def)
  next
    case fresh: False
    then have steps: "fresh_steps (c # rest) st = ?new # fresh_steps rest st" by (simp add: fresh_steps_def)
    have key: "arrived k ?new \<longleftrightarrow> artifactTypeKey (cv_target c) = k" by (simp add: arrived_def extend_state_def)
    have path: "ss_conversionPath ?new = ss_conversionPath st @ [c]" by (simp add: extend_state_def)
    have ok: "acc_ok (n + 1, completed @ [ss_conversionPath st @ [c]], nextFrontier)"
      if "n + 1 \<le> MAX_CONVERSION_SEARCH_STATES" "length completed + 1 \<le> MAX_CONVERSION_PATH_CANDIDATES"
      using that by (simp add: acc_ok_def)
    have ok': "acc_ok (n + 1, completed, nextFrontier @ [?new])" if "n + 1 \<le> MAX_CONVERSION_SEARCH_STATES"
      using that "2.prems" by (simp add: acc_ok_def)
    have "length completed \<le> MAX_CONVERSION_PATH_CANDIDATES" using "2.prems" by (simp add: acc_ok_def)
    then show ?thesis
      unfolding steps settle_Cons [OF "2.prems", of k ?new] settle_one key
      using fresh "2.IH"(2,3) ok ok' by (auto simp: Let_def path extend_state_def [symmetric])
  qed
qed

lemma expand_frontier_settles:
  "acc_ok acc \<Longrightarrow> expand_frontier (conversionsBySource cs) k frontier acc = settle k (next_states cs frontier) acc"
proof (induction frontier arbitrary: acc)
  case Nil
  then show ?case by (simp add: next_states_def settle_Nil)
next
  case (Cons st frontier)
  let ?here = "fresh_steps (outgoing_of cs (ss_artifactType st)) st"
  have "next_states cs (st # frontier) = ?here @ next_states cs frontier" by (simp add: next_states_def)
  then have "settle k (next_states cs (st # frontier)) acc = Option.bind (settle k ?here acc) (settle k (next_states cs frontier))"
    using settle_append [OF Cons.prems] by simp
  with Cons show ?case
    by (auto simp: conversionsBySource_lookup expand_state_settles split: option.splits dest: settle_acc_ok)
qed

subsection \<open>Chains of conversions\<close>

fun chain :: "conversion_spec list \<Rightarrow> artifact_type_key \<Rightarrow> conversion_spec list \<Rightarrow> artifact_type_key \<Rightarrow> bool" where
  "chain cs a [] b \<longleftrightarrow> a = b"
| "chain cs a (c # path) b \<longleftrightarrow> c \<in> set cs \<and> cv_source c = a \<and> chain cs (cv_target c) path b"

definition types_along :: "artifact_type_key \<Rightarrow> conversion_spec list \<Rightarrow> artifact_type_key list" where
  "types_along a path = a # map cv_target path"

definition end_type :: "artifact_type_key \<Rightarrow> conversion_spec list \<Rightarrow> artifact_type_key" where
  "end_type a path = last (types_along a path)"

definition simple_chain :: "conversion_spec list \<Rightarrow> artifact_type_key \<Rightarrow> conversion_spec list \<Rightarrow> bool" where
  "simple_chain cs a path \<longleftrightarrow> chain cs a path (end_type a path) \<and> distinct (types_along a path)"

lemma end_type_simps [simp]:
  "end_type a [] = a" "end_type a (c # path) = end_type (cv_target c) path" "end_type a (path @ [c]) = cv_target c"
  by (simp_all add: end_type_def types_along_def)

lemma chain_end: "chain cs a path b \<Longrightarrow> end_type a path = b"
  by (induction path arbitrary: a) simp_all

lemma chain_append: "chain cs a (p @ q) b \<longleftrightarrow> (\<exists>m. chain cs a p m \<and> chain cs m q b)"
  by (induction p arbitrary: a) auto

lemma types_along_snoc [simp]: "types_along a (p @ [c]) = types_along a p @ [cv_target c]"
  by (simp add: types_along_def)

lemma simple_chain_Nil [simp]: "simple_chain cs a []"
  by (simp add: simple_chain_def types_along_def)

lemma simple_chain_snoc:
  "simple_chain cs a (p @ [c]) \<longleftrightarrow>
     simple_chain cs a p \<and> c \<in> set cs \<and> cv_source c = end_type a p \<and> cv_target c \<notin> set (types_along a p)"
  by (auto simp: simple_chain_def chain_append) (metis chain_end)+

text \<open>A chain that visits a type twice has a shorter one beside it, so shortest chains are simple.\<close>

lemma chain_shortcut:
  assumes "chain cs a p b" "\<not> distinct (types_along a p)"
  shows "\<exists>q. chain cs a q b \<and> length q < length p"
  using assms
proof (induction p arbitrary: a)
  case (Cons c p)
  show ?case
  proof (cases "a \<in> set (types_along (cv_target c) p)")
    case True
    then obtain p1 p2 where p: "c # p = p1 @ p2" "p1 \<noteq> []" "end_type a p1 = a"
    proof (cases "cv_target c = a")
      case True
      then show ?thesis using that [of "[c]" p] by simp
    next
      case False
      with \<open>a \<in> _\<close> obtain d where "d \<in> set p" "cv_target d = a" by (auto simp: types_along_def)
      then obtain r s where "p = r @ d # s" by (meson split_list)
      then show ?thesis using that [of "c # r @ [d]" s] \<open>cv_target d = a\<close> end_type_simps(3) [of a "c # r" d] by simp
    qed
    from Cons.prems(1) p(1) obtain m where "chain cs a p1 m" "chain cs m p2 b" by (metis chain_append)
    moreover from this(1) p(3) have "m = a" by (auto dest: chain_end)
    ultimately show ?thesis using p by (metis length_append less_add_same_cancel2 length_greater_0_conv)
  next
    case False
    then have "\<not> distinct (types_along (cv_target c) p)" using Cons.prems(2) by (auto simp: types_along_def)
    with Cons obtain q where "chain cs (cv_target c) q b" "length q < length p" by auto
    with Cons.prems(1) show ?thesis by (intro exI [of _ "c # q"]) simp
  qed
qed (simp add: types_along_def)

lemma shortest_is_simple:
  assumes "chain cs a p b" "\<And>q. chain cs a q b \<Longrightarrow> length p \<le> length q"
  shows "simple_chain cs a p"
proof -
  have "distinct (types_along a p)"
  proof (rule ccontr)
    assume "\<not> distinct (types_along a p)"
    with chain_shortcut assms(1) obtain q where "chain cs a q b" "length q < length p" by blast
    with assms(2) [of q] show False by simp
  qed
  with assms(1) chain_end [OF assms(1)] show ?thesis by (simp add: simple_chain_def)
qed

lemma simple_below:
  "chain cs a p b \<Longrightarrow> \<exists>q. simple_chain cs a q \<and> end_type a q = b \<and> length q \<le> length p"
proof (induction p rule: measure_induct_rule [where f = length])
  case (less p)
  show ?case
  proof (cases "distinct (types_along a p)")
    case True
    with less.prems chain_end [OF less.prems] show ?thesis by (auto simp: simple_chain_def)
  next
    case False
    with less.prems chain_shortcut obtain q where "chain cs a q b" "length q < length p" by blast
    with less.IH [of q] show ?thesis by force
  qed
qed

subsection \<open>The levels of the search\<close>

definition state_of :: "artifact_type_key \<Rightarrow> conversion_spec list \<Rightarrow> search_state" where
  "state_of a p = \<lparr>ss_artifactType = end_type a p, ss_conversionPath = p,
     ss_visited = map artifactTypeKey (types_along a p)\<rparr>"

definition level :: "conversion_spec list \<Rightarrow> artifact_type_key \<Rightarrow> nat \<Rightarrow> conversion_spec list set" where
  "level cs a d = {p. simple_chain cs a p \<and> length p = d}"

lemma level_0 [simp]: "level cs a 0 = {[]}"
  by (auto simp: level_def)

lemma extend_state_of [simp]: "extend_state (state_of a p) c = state_of a (p @ [c])"
  by (simp add: extend_state_def state_of_def)

lemma ss_state_of [simp]:
  "ss_artifactType (state_of a p) = end_type a p" "ss_conversionPath (state_of a p) = p"
  by (simp_all add: state_of_def)

lemma key_visited: "artifactTypeKey t \<in> set (ss_visited (state_of a p)) \<longleftrightarrow> t \<in> set (types_along a p)"
  by (auto simp: state_of_def image_iff)

lemma level_Suc:
  "level cs a (Suc d) = {p @ [c] | p c. p \<in> level cs a d \<and> c \<in> set (outgoing_of cs (end_type a p))
     \<and> cv_target c \<notin> set (types_along a p)}"
proof (intro set_eqI iffI)
  fix q
  assume "q \<in> level cs a (Suc d)"
  then have "length q = Suc d" and q: "simple_chain cs a q" by (simp_all add: level_def)
  then obtain p c where "q = p @ [c]" "length p = d" by (metis append_butlast_last_id diff_Suc_1 length_0_conv length_butlast nat.distinct(1))
  with q show "q \<in> {p @ [c] | p c. p \<in> level cs a d \<and> c \<in> set (outgoing_of cs (end_type a p))
     \<and> cv_target c \<notin> set (types_along a p)}"
    by (auto simp: level_def simple_chain_snoc outgoing_of_def)
qed (auto simp: level_def simple_chain_snoc outgoing_of_def)

lemma next_states_level:
  assumes "set frontier = state_of a ` level cs a d"
  shows "set (next_states cs frontier) = state_of a ` level cs a (Suc d)"
  using assms by (force simp: next_states_def fresh_steps_def level_Suc key_visited)

lemma next_states_distinct:
  assumes "distinct cs" "distinct frontier" "set frontier = state_of a ` level cs a d"
  shows "distinct (next_states cs frontier)"
proof -
  have inj: "inj_on (state_of a) A" for A by (rule inj_onI) (metis ss_state_of(2))
  obtain ps where ps: "frontier = map (state_of a) ps" "set ps \<subseteq> level cs a d" "distinct ps"
  proof (rule that [of "map ss_conversionPath frontier"])
    show "frontier = map (state_of a) (map ss_conversionPath frontier)"
      unfolding map_map using assms(3) by (intro map_idI [symmetric]) auto
    show "set (map ss_conversionPath frontier) \<subseteq> level cs a d" using assms(3) by auto
    show "distinct (map ss_conversionPath frontier)"
      using assms(2,3) by (auto simp: distinct_map inj_on_def)
  qed
  have one: "distinct (fresh_steps (outgoing_of cs (end_type a p)) (state_of a p))" for p
    using assms(1)
    by (auto simp: fresh_steps_def distinct_map outgoing_of_def inj_on_def dest: arg_cong [of _ _ ss_conversionPath])
  have parent: "butlast (ss_conversionPath st) = p" if "st \<in> set (fresh_steps cs' (state_of a p))" for st cs' p
    using that by (auto simp: fresh_steps_def)
  have parents: "butlast (ss_conversionPath st) \<in> set qs" if "st \<in> set (next_states cs (map (state_of a) qs))" for st qs
    using that by (auto simp: next_states_def dest: parent)
  from ps(3) have "distinct (next_states cs (map (state_of a) ps))"
  proof (induction ps)
    case (Cons p ps)
    have "set (fresh_steps (outgoing_of cs (end_type a p)) (state_of a p)) \<inter> set (next_states cs (map (state_of a) ps)) = {}"
      using Cons.prems parents [of _ ps] parent [of _ "outgoing_of cs (end_type a p)" p] by force
    with Cons one [of p] show ?case by (simp add: next_states_def)
  qed (simp add: next_states_def)
  with ps(1) show ?thesis by simp
qed

lemma level_empty_stays: "level cs a d = {} \<Longrightarrow> d \<le> e \<Longrightarrow> level cs a e = {}"
  by (induction e) (auto simp: level_Suc le_Suc_eq)

lemma simple_chain_length: "level cs a (Suc d) = {} \<Longrightarrow> simple_chain cs a p \<Longrightarrow> length p \<le> d"
  using level_empty_stays [of cs a "Suc d" "length p"] by (force simp: level_def not_less_eq_eq)

definition shortest_simple ::
    "conversion_spec list \<Rightarrow> artifact_type_key \<Rightarrow> artifact_type_key \<Rightarrow> nat \<Rightarrow> conversion_spec list set" where
  "shortest_simple cs a b bound =
     {p. simple_chain cs a p \<and> end_type a p = b \<and> length p \<le> bound
       \<and> (\<forall>q. simple_chain cs a q \<and> end_type a q = b \<longrightarrow> length p \<le> length q)}"

text \<open>One round of the outer loop, given that no chain of the earlier levels reached the target.\<close>

lemma round_result:
  assumes frontier: "set frontier = state_of a ` level cs a d"
    and ok: "n \<le> MAX_CONVERSION_SEARCH_STATES"
    and run: "expand_frontier (conversionsBySource cs) (artifactTypeKey b) frontier (n, [], []) = Some (n', completed, next)"
  shows "set completed = {p \<in> level cs a (Suc d). end_type a p = b}"
    and "completed = [] \<Longrightarrow> next = next_states cs frontier"
    and "n' = n + length (next_states cs frontier)" and "n' \<le> MAX_CONVERSION_SEARCH_STATES"
proof -
  have "acc_ok (n, [], [])" using ok by (simp add: acc_ok_def)
  with run have res: "settle (artifactTypeKey b) (next_states cs frontier) (n, [], []) = Some (n', completed, next)"
    by (simp add: expand_frontier_settles)
  note sets = next_states_level [OF frontier]
  from res have completed: "completed = map ss_conversionPath (filter (arrived (artifactTypeKey b)) (next_states cs frontier))"
    and nxt: "next = filter (\<lambda>st. \<not> arrived (artifactTypeKey b) st) (next_states cs frontier)"
    by (auto simp: settle_def split: if_splits)
  show "set completed = {p \<in> level cs a (Suc d). end_type a p = b}"
    by (force simp: completed sets arrived_def)
  show "completed = [] \<Longrightarrow> next = next_states cs frontier"
    by (auto simp: completed nxt filter_empty_conv)
  from res show "n' = n + length (next_states cs frontier)" "n' \<le> MAX_CONVERSION_SEARCH_STATES"
    by (auto simp: settle_def split: if_splits)
qed

lemma search_levels_exact:
  assumes "set frontier = state_of a ` level cs a d" "n \<le> MAX_CONVERSION_SEARCH_STATES"
    and "\<And>p. simple_chain cs a p \<Longrightarrow> length p \<le> d \<Longrightarrow> end_type a p \<noteq> b"
    and "search_levels compare (conversionsBySource cs) (artifactTypeKey b) r n frontier = Some ps"
  shows "set ps = shortest_simple cs a b (d + r)"
  using assms
proof (induction r arbitrary: d n frontier)
  case 0
  then show ?case by (force simp: shortest_simple_def)
next
  case (Suc r)
  from Suc.prems(4) obtain n' completed nxt where
    run: "expand_frontier (conversionsBySource cs) (artifactTypeKey b) frontier (n, [], []) = Some (n', completed, nxt)"
    and ps: "(if completed \<noteq> [] then Some (js_sort (compareConversionPaths compare) completed)
        else if nxt = [] then Some []
        else search_levels compare (conversionsBySource cs) (artifactTypeKey b) r n' nxt) = Some ps"
    by (auto split: option.splits)
  note round = round_result [OF Suc.prems(1,2) run]
  have later: "length q > d" if "simple_chain cs a q" "end_type a q = b" for q
    using Suc.prems(3) [of q] that by force
  show ?case
  proof (cases "completed = []")
    case False
    then obtain q where "q \<in> level cs a (Suc d)" "end_type a q = b" using round(1) by (cases completed) auto
    then have q: "simple_chain cs a q" "length q = Suc d" "end_type a q = b" by (simp_all add: level_def)
    have "set completed = shortest_simple cs a b (d + Suc r)"
    proof (intro set_eqI iffI)
      fix p
      assume "p \<in> shortest_simple cs a b (d + Suc r)"
      then have p: "simple_chain cs a p" "end_type a p = b" "length p \<le> Suc d"
        using q by (auto simp: shortest_simple_def)
      with later [of p] show "p \<in> set completed" by (simp add: round(1) level_def)
    next
      fix p
      assume "p \<in> set completed"
      then have "simple_chain cs a p" "length p = Suc d" "end_type a p = b" by (simp_all add: round(1) level_def)
      with later show "p \<in> shortest_simple cs a b (d + Suc r)" by (simp add: shortest_simple_def Suc_le_eq)
    qed
    moreover from ps False have "ps = js_sort (compareConversionPaths compare) completed" by simp
    ultimately show ?thesis by (simp only: set_js_sort)
  next
    case True
    with round(1) have none: "end_type a p \<noteq> b" if "simple_chain cs a p" "length p = Suc d" for p
      using that by (auto simp: level_def)
    have none': "end_type a p \<noteq> b" if "simple_chain cs a p" "length p \<le> Suc d" for p
      using none [OF that(1)] Suc.prems(3) [OF that(1)] that(2) by (auto simp: le_Suc_eq)
    have nxt: "set nxt = state_of a ` level cs a (Suc d)"
      using round(2) [OF True] next_states_level [OF Suc.prems(1)] by simp
    show ?thesis
    proof (cases "nxt = []")
      case empty: True
      with nxt have "level cs a (Suc d) = {}" by auto
      then have "length p \<le> d" if "simple_chain cs a p" for p using that by (rule simple_chain_length)
      with Suc.prems(3) have "shortest_simple cs a b (d + Suc r) = {}" by (auto simp: shortest_simple_def)
      with ps True empty show ?thesis by simp
    next
      case False
      with ps True have "search_levels compare (conversionsBySource cs) (artifactTypeKey b) r n' nxt = Some ps" by simp
      from Suc.IH [OF nxt round(4) none' this] show ?thesis by simp
    qed
  qed
qed

lemma search_levels_answers:
  assumes "distinct cs" "distinct frontier" "set frontier = state_of a ` level cs a d"
    and "n + (\<Sum>j<r. card (level cs a (Suc d + j))) \<le> MAX_CONVERSION_PATH_CANDIDATES"
  shows "\<exists>ps. search_levels compare (conversionsBySource cs) (artifactTypeKey b) r n frontier = Some ps"
  using assms
proof (induction r arbitrary: d n frontier)
  case (Suc r)
  have sum: "(\<Sum>j<Suc r. card (level cs a (Suc d + j))) = card (level cs a (Suc d)) + (\<Sum>j<r. card (level cs a (Suc (Suc d) + j)))"
    by (simp add: sum.lessThan_Suc_shift del: sum.lessThan_Suc)
  have inj: "inj_on (state_of a) A" for A by (rule inj_onI) (metis ss_state_of(2))
  let ?next = "next_states cs frontier"
  note sets = next_states_level [OF Suc.prems(3)] and dist = next_states_distinct [OF Suc.prems(1-3)]
  have len: "length ?next = card (level cs a (Suc d))"
    using distinct_card [OF dist] by (simp add: sets card_image [OF inj])
  have small: "MAX_CONVERSION_PATH_CANDIDATES \<le> MAX_CONVERSION_SEARCH_STATES"
    by (simp add: MAX_CONVERSION_PATH_CANDIDATES_def MAX_CONVERSION_SEARCH_STATES_def)
  have bound: "n + length ?next \<le> MAX_CONVERSION_PATH_CANDIDATES" using Suc.prems(4) sum len by simp
  moreover have "length (filter (arrived (artifactTypeKey b)) ?next) \<le> length ?next" by (rule length_filter_le)
  ultimately obtain completed nxt where run:
      "expand_frontier (conversionsBySource cs) (artifactTypeKey b) frontier (n, [], []) = Some (n + length ?next, completed, nxt)"
    using small expand_frontier_settles [of "(n, [], [])" cs "artifactTypeKey b" frontier]
    by (auto simp: acc_ok_def settle_def)
  have n: "n \<le> MAX_CONVERSION_SEARCH_STATES" using bound small by simp
  show ?case
  proof (cases "completed = []")
    case True
    with round_result(2) [OF Suc.prems(3) n run] have "nxt = ?next" by simp
    moreover have "\<exists>ps. search_levels compare (conversionsBySource cs) (artifactTypeKey b) r (n + length ?next) ?next = Some ps"
      using Suc.prems(4) sum len by (intro Suc.IH [OF Suc.prems(1) dist sets]) simp
    ultimately show ?thesis using run True by simp
  qed (simp add: run)
qed simp

subsection \<open>What the search returns\<close>

lemma chain_cong_set: "set cs = set cs' \<Longrightarrow> chain cs a p b \<longleftrightarrow> chain cs' a p b"
  by (induction p arbitrary: a) auto

lemma simple_chain_cong_set: "set cs = set cs' \<Longrightarrow> simple_chain cs a p \<longleftrightarrow> simple_chain cs' a p"
  by (simp add: simple_chain_def chain_cong_set [of cs cs'])

lemma shortest_simple_chains:
  "shortest_simple cs a b bound =
     {p. chain cs a p b \<and> length p \<le> bound \<and> (\<forall>q. chain cs a q b \<longrightarrow> length p \<le> length q)}"
proof (intro set_eqI iffI)
  fix p
  assume p: "p \<in> shortest_simple cs a b bound"
  have "length p \<le> length q" if "chain cs a q b" for q
    using simple_below [OF that] p by (auto simp: shortest_simple_def)
  with p show "p \<in> {p. chain cs a p b \<and> length p \<le> bound \<and> (\<forall>q. chain cs a q b \<longrightarrow> length p \<le> length q)}"
    by (auto simp: shortest_simple_def simple_chain_def)
next
  fix p
  assume p: "p \<in> {p. chain cs a p b \<and> length p \<le> bound \<and> (\<forall>q. chain cs a q b \<longrightarrow> length p \<le> length q)}"
  then have "simple_chain cs a p" by (intro shortest_is_simple [of _ _ _ b]) auto
  moreover have "end_type a p = b" using p by (auto dest: chain_end)
  moreover have "length p \<le> length q" if "simple_chain cs a q" "end_type a q = b" for q
    using p that by (auto simp: simple_chain_def)
  ultimately show "p \<in> shortest_simple cs a b bound" using p by (auto simp: shortest_simple_def)
qed

lemma start_state_of: "[start_state a] = map (state_of a) [[]]"
  by (simp add: start_state_def state_of_def types_along_def)

lemma search_sound_complete:
  assumes "shortestConversionPaths compare a b cs = Some ps"
  shows "set ps = shortest_simple cs a b MAX_CONVERSION_PATH_LENGTH"
proof (cases "a = b")
  case True
  have "p \<in> shortest_simple cs a a MAX_CONVERSION_PATH_LENGTH \<longleftrightarrow> p = []" for p
    by (cases p) (simp_all add: shortest_simple_def exI [of _ "[]"])
  then have "shortest_simple cs a a MAX_CONVERSION_PATH_LENGTH = {[]}" by blast
  with True assms show ?thesis by (simp add: shortestConversionPaths_def) (metis list.simps(15) set_empty)
next
  case False
  let ?sorted = "js_sort (compareConversions compare) cs"
  have "set ps = shortest_simple ?sorted a b (0 + MAX_CONVERSION_PATH_LENGTH)"
    using assms False by (intro search_levels_exact [of "[start_state a]" a _ _ 0])
      (simp_all add: shortestConversionPaths_def start_state_of)
  then show ?thesis by (simp add: shortest_simple_def simple_chain_cong_set [OF set_js_sort])
qed

lemma chain_in: "chain cs a p b \<Longrightarrow> set p \<subseteq> set cs"
  by (induction p arbitrary: a) auto

lemma finite_level: "finite (level cs a d)"
proof -
  have "level cs a d \<subseteq> {p. set p \<subseteq> set cs \<and> length p = d}"
    by (auto simp: level_def simple_chain_def dest: chain_in)
  then show ?thesis using finite_lists_length_eq [of "set cs" d] finite_subset by blast
qed

lemma levels_card:
  "(\<Sum>j<r. card (level cs a (Suc j))) = card {p. simple_chain cs a p \<and> p \<noteq> [] \<and> length p \<le> r}"
proof -
  have "{p. simple_chain cs a p \<and> p \<noteq> [] \<and> length p \<le> r} = (\<Union>j<r. level cs a (Suc j))"
  proof (intro set_eqI iffI)
    fix p
    assume "p \<in> {p. simple_chain cs a p \<and> p \<noteq> [] \<and> length p \<le> r}"
    then show "p \<in> (\<Union>j<r. level cs a (Suc j))" by (cases p) (auto simp: level_def Suc_le_eq)
  qed (auto simp: level_def)
  moreover have "card (\<Union>j<r. level cs a (Suc j)) = (\<Sum>j<r. card (level cs a (Suc j)))"
    by (intro card_UN_disjoint) (auto simp: finite_level, auto simp: level_def)
  ultimately show ?thesis by simp
qed

lemma search_answers_small:
  assumes "distinct cs" "card {p. simple_chain cs a p \<and> p \<noteq> [] \<and> length p \<le> MAX_CONVERSION_PATH_LENGTH} \<le> MAX_CONVERSION_PATH_CANDIDATES"
  shows "\<exists>ps. shortestConversionPaths compare a b cs = Some ps"
proof -
  let ?sorted = "js_sort (compareConversions compare) cs"
  have "0 + (\<Sum>j<MAX_CONVERSION_PATH_LENGTH. card (level ?sorted a (Suc 0 + j))) \<le> MAX_CONVERSION_PATH_CANDIDATES"
    using assms(2) by (simp add: levels_card simple_chain_cong_set [OF set_js_sort])
  then have "\<exists>ps. search_levels compare (conversionsBySource ?sorted) (artifactTypeKey b) MAX_CONVERSION_PATH_LENGTH 0 [start_state a] = Some ps"
    using assms(1) by (intro search_levels_answers [of _ _ a 0]) (simp_all add: start_state_of)
  then show ?thesis by (simp add: shortestConversionPaths_def)
qed

text \<open>
  C10: The bounded breadth-first search of the workbench is exact: whatever it returns is the set of
  all conversion chains from the source to the target type that are as short as possible, cut off at
  eight hops, whatever the collation used to order them; and it does return a result (never the null
  of an exhausted budget) for a registry without duplicates in which at most 256 simple chains of at
  most eight hops leave the source.
\<close>

theorem search_is_exact:
  "(\<forall>ps. shortestConversionPaths compare a b cs = Some ps \<longrightarrow>
      set ps = {p. chain cs a p b \<and> length p \<le> 8 \<and> (\<forall>q. chain cs a q b \<longrightarrow> length p \<le> length q)})
   \<and> (distinct cs \<and> card {p. simple_chain cs a p \<and> p \<noteq> [] \<and> length p \<le> 8} \<le> 256 \<longrightarrow>
      (\<exists>ps. shortestConversionPaths compare a b cs = Some ps))"
  using search_sound_complete [of compare a b cs] search_answers_small [of cs a compare b]
  unfolding shortest_simple_chains MAX_CONVERSION_PATH_LENGTH_def MAX_CONVERSION_PATH_CANDIDATES_def by blast

definition demo_type :: "string \<Rightarrow> artifact_type_key" where
  "demo_type name = \<lparr>type_id = name, type_schema_version = 1\<rparr>"

definition demo_conversion :: "string \<Rightarrow> string \<Rightarrow> string \<Rightarrow> conversion_spec" where
  "demo_conversion name from to = \<lparr>cv_key = \<lparr>conv_id = name, conv_version = 1\<rparr>, cv_source = demo_type from,
     cv_target = demo_type to, cv_title = name\<rparr>"

definition demo_conversions :: "conversion_spec list" where
  "demo_conversions =
     [demo_conversion ''parse'' ''text'' ''json'', demo_conversion ''rows'' ''json'' ''table'',
      demo_conversion ''csv'' ''text'' ''lines'', demo_conversion ''split'' ''lines'' ''table'',
      demo_conversion ''back'' ''json'' ''text'']"

definition by_length :: locale_compare where
  "by_length s t = int (length s) - int (length t)"

theorem search_is_exact_witness:
  "set [[demo_conversion ''csv'' ''text'' ''lines'', demo_conversion ''split'' ''lines'' ''table''],
        [demo_conversion ''parse'' ''text'' ''json'', demo_conversion ''rows'' ''json'' ''table'']]
     = {p. chain demo_conversions (demo_type ''text'') p (demo_type ''table'') \<and> length p \<le> 8
          \<and> (\<forall>q. chain demo_conversions (demo_type ''text'') q (demo_type ''table'') \<longrightarrow> length p \<le> length q)}"
proof -
  have "shortestConversionPaths by_length (demo_type ''text'') (demo_type ''table'') demo_conversions =
    Some [[demo_conversion ''csv'' ''text'' ''lines'', demo_conversion ''split'' ''lines'' ''table''],
          [demo_conversion ''parse'' ''text'' ''json'', demo_conversion ''rows'' ''json'' ''table'']]"
    by code_simp
  then show ?thesis by (rule search_is_exact [THEN conjunct1, rule_format])
qed

subsection \<open>Offered routes replay\<close>

lemma find_by_key: "distinct (map f xs) \<Longrightarrow> x \<in> set xs \<Longrightarrow> find (\<lambda>y. f y = f x) xs = Some x"
  by (induction xs) auto

lemma same_conversion_key: "conv_id k = conv_id l \<and> conv_version k = conv_version l \<longleftrightarrow> k = (l :: graph_conversion)"
  by (metis graph_conversion.equality unit.exhaust)

lemma replay_chain:
  assumes "distinct (map cv_key cs)" "chain cs a path b" "artifactTypeKey a \<in> set visited"
    and "set visited \<inter> artifactTypeKey ` cv_target ` set path = {}" "distinct (map cv_target path)"
  shows "replay_conversions cs (map cv_key path) a visited before = Some (b, before @ path)"
  using assms
proof (induction path arbitrary: a visited before)
  case (Cons c path)
  then have found: "find (\<lambda>d. cv_key d = cv_key c) cs = Some c" by (intro find_by_key) auto
  have "replay_conversions cs (map cv_key path) (cv_target c) (visited @ [artifactTypeKey (cv_target c)]) (before @ [c])
      = Some (b, (before @ [c]) @ path)"
    using Cons.prems by (intro Cons.IH) auto
  with found Cons.prems show ?case by (auto simp: same_conversion_key)
qed simp

lemma replay_simple_chain:
  assumes "distinct (map cv_key cs)" "simple_chain cs a path"
  shows "replay_conversions cs (map cv_key path) a [artifactTypeKey a] [] = Some (end_type a path, path)"
  using assms replay_chain [of cs a path "end_type a path" "[artifactTypeKey a]" "[]"]
  by (auto simp: simple_chain_def types_along_def image_iff)

text \<open>Where an offered route comes from: the whole output or a projection, then a shortest chain to an accepted type.\<close>

definition offered :: "conversion_spec list \<Rightarrow> artifact_type_key \<Rightarrow> artifact_type_key list \<Rightarrow> field_projection list \<Rightarrow> connection_route \<Rightarrow> bool" where
  "offered cs source targets projections route \<longleftrightarrow>
     (\<exists>projection path. route = connectionRoute projection path None
        \<and> (case projection of Some p \<Rightarrow> p \<in> set projections | None \<Rightarrow> True)
        \<and> (let start = (case projection of Some p \<Rightarrow> fp_target p | None \<Rightarrow> source)
           in simple_chain cs start path \<and> end_type start path \<in> set targets \<and> length path \<le> MAX_CONVERSION_PATH_LENGTH))"

lemma paths_to_any:
  "shortestConversionPathsToAny compare a targets cs = Some ps \<Longrightarrow> p \<in> set ps \<Longrightarrow>
     simple_chain cs a p \<and> end_type a p \<in> set targets \<and> length p \<le> MAX_CONVERSION_PATH_LENGTH"
proof (induction targets arbitrary: ps)
  case (Cons t targets)
  then show ?case
    using search_sound_complete [of compare a t cs] by (auto simp: shortest_simple_def split: option.splits)
qed simp

lemma projection_routes_loop_set:
  "route \<in> set (projection_routes_loop from ps routes) \<Longrightarrow>
     route \<in> set routes \<or> (\<exists>p\<in>set ps. \<exists>rs. from p = Some rs \<and> route \<in> set rs)"
  by (induction ps arbitrary: routes) (fastforce split: option.splits if_splits dest: sym [of "Some _"])+

lemma concrete_routes_offered:
  assumes "route \<in> set (concrete_target_routes compare source targets ats cs)"
  shows "offered cs source targets (artifact_projections ats source) route"
proof (cases "source \<in> set targets")
  case True
  then have "list_ex (\<lambda>t. t = source) targets" by (auto simp: list_ex_iff)
  with assms have "route = connectionRoute None [] None" by (simp add: concrete_target_routes_def connectionRoute_def)
  with True show ?thesis unfolding offered_def by (intro exI [of _ None] exI [of _ "[]"]) simp
next
  case False
  then have "\<not> list_ex (\<lambda>t. t = source) targets" by (auto simp: list_ex_iff)
  with assms obtain whole where whole: "shortestConversionPathsToAny compare source targets cs = Some whole"
    and route: "route \<in> set (projection_routes_loop
        (\<lambda>p. map_option (map (\<lambda>path. connectionRoute (Some p) path None)) (shortestConversionPathsToAny compare (fp_target p) targets cs))
        (js_sort (compareProjections compare) (artifact_projections ats source))
        (map (\<lambda>path. connectionRoute None path None) whole))"
    by (auto simp: concrete_target_routes_def Let_def split: option.splits if_splits dest!: sym [of "Some _"])
  from projection_routes_loop_set [OF route] show ?thesis
  proof
    assume "route \<in> set (map (\<lambda>path. connectionRoute None path None) whole)"
    then obtain path where "path \<in> set whole" "route = connectionRoute None path None" by auto
    with paths_to_any [OF whole] show ?thesis unfolding offered_def by (intro exI [of _ None] exI [of _ path]) simp
  next
    assume "\<exists>p\<in>set (js_sort (compareProjections compare) (artifact_projections ats source)). \<exists>rs.
        map_option (map (\<lambda>path. connectionRoute (Some p) path None)) (shortestConversionPathsToAny compare (fp_target p) targets cs) = Some rs
        \<and> route \<in> set rs"
    then obtain p paths path where "p \<in> set (artifact_projections ats source)" "path \<in> set paths"
      and run: "shortestConversionPathsToAny compare (fp_target p) targets cs = Some paths"
      and "route = connectionRoute (Some p) path None" by auto
    with paths_to_any [OF run] show ?thesis unfolding offered_def by (intro exI [of _ "Some p"] exI [of _ path]) simp
  qed
qed

lemma connectionRoute_parts [simp]:
  "route_conversionPath (connectionRoute projection path binding) = path"
  "route_projection (connectionRoute projection path binding) = projection"
  by (simp_all add: connectionRoute_def split: option.split)

lemma connectionRoute_delivers:
  "connectionRouteDeliveredArtifactType (connectionRoute projection path binding) =
     (if path \<noteq> [] then Some (cv_target (last path)) else map_option fp_target projection)"
  by (simp add: connectionRouteDeliveredArtifactType_def) (simp add: connectionRoute_def split: option.split)

lemma end_type_last: "end_type a path = (if path = [] then a else cv_target (last path))"
  by (simp add: end_type_def types_along_def last_map)

lemma accepts_iff: "handleAcceptsArtifactType h t \<longleftrightarrow> t \<in> set (acceptedHandleArtifactTypes h)"
  by (auto simp: handleAcceptsArtifactType_def list_ex_iff)

lemma matches_iff: "artifactTypeMatches t (type_id u) (type_schema_version u) \<longleftrightarrow> t = u"
  by (metis artifactTypeMatches_def artifact_type_key.equality unit.exhaust)

lemma projections_distinct:
  "\<forall>a\<in>set ats. distinct (map fp_path (ats_field_projections a)) \<Longrightarrow> distinct (map fp_path (artifact_projections ats t))"
  by (auto simp: artifact_projections_def find_Some_iff split: option.splits)

text \<open>
  C12: Every route the workbench offers for a connection between two ports of concrete types can be
  replayed: what is stored for it (the projection's path and the conversions' keys) is turned back into
  the very same route, and the type it delivers is one the input accepts. The registry must name every
  conversion by its own key and every projection of a type by its own path.
\<close>

theorem offered_routes_replay:
  assumes "decodeHandleId (tp_number platform) (cn_sourceHandle conn) = Some source" "pm_type source = Concrete sourceType"
    and "decodeHandleId (tp_number platform) (cn_targetHandle conn) = Some target" "pm_type target = Concrete targetType"
    and "distinct (map cv_key cs)" "\<forall>a\<in>set ats. distinct (map fp_path (ats_field_projections a))"
    and "route \<in> set (connectionRoutesFor platform conn ats cs)"
  shows "connectionRouteForSelection (tp_number platform) conn ats cs (connectionRouteSelection route) = Some route
    \<and> handleAcceptsArtifactType target
          (case connectionRouteDeliveredArtifactType route of Some t \<Rightarrow> t | None \<Rightarrow> sourceType)"
proof -
  have directions: "pm_direction source = Output" "pm_direction target = Input"
    using assms(1,3,7) by (auto simp: connectionRoutesFor_def split: if_splits)
  have "route \<in> set (concrete_target_routes (tp_compare platform) sourceType (acceptedHandleArtifactTypes target) ats cs)"
    using assms(1-4,7) directions by (simp add: connectionRoutesFor_def)
  from concrete_routes_offered [OF this] obtain projection path start where
    route: "route = connectionRoute projection path None"
    and proj: "case projection of Some p \<Rightarrow> p \<in> set (artifact_projections ats sourceType) | None \<Rightarrow> True"
    and start: "start = (case projection of Some p \<Rightarrow> fp_target p | None \<Rightarrow> sourceType)"
    and path: "simple_chain cs start path" "end_type start path \<in> set (acceptedHandleArtifactTypes target)"
      "length path \<le> MAX_CONVERSION_PATH_LENGTH"
    by (auto simp: offered_def Let_def)
  have replay: "replay_conversions cs (map cv_key path) start [artifactTypeKey start] [] = Some (end_type start path, path)"
    by (rule replay_simple_chain) (use assms(5) path(1) in simp_all)
  have found: "find (\<lambda>q. fp_path q = fp_path p) (artifact_projections ats sourceType) = Some p" if "projection = Some p" for p
    using that proj by (intro find_by_key projections_distinct [OF assms(6)]) simp
  have accepted: "list_ex (\<lambda>c. end_type start path = c) (acceptedHandleArtifactTypes target)"
    using path(2) by (auto simp: list_ex_iff)
  have "connectionRouteForSelection (tp_number platform) conn ats cs (connectionRouteSelection route) = Some route"
    using assms(1-4) directions path(3) replay accepted start
    by (cases projection)
      (simp_all add: connectionRouteForSelection_def connectionRouteSelection_def route found Let_def matches_iff)
  moreover have "handleAcceptsArtifactType target
       (case connectionRouteDeliveredArtifactType route of Some t \<Rightarrow> t | None \<Rightarrow> sourceType)"
    using path(2) start
    by (cases projection) (auto simp: accepts_iff route connectionRoute_delivers end_type_last split: if_splits)
  ultimately show ?thesis by blast
qed

definition demo_number :: "string \<Rightarrow> js_number" where
  "demo_number s = (if s \<noteq> [] \<and> list_all (\<lambda>c. c \<in> set ''0123456789'') s then Finite (of_nat (decimal_value s)) else NaN)"

definition demo_platform :: text_platform where
  "demo_platform = \<lparr>tp_number = demo_number, tp_compare = by_length\<rparr>"

definition demo_output :: port_meta where
  "demo_output = \<lparr>pm_portName = ''out'', pm_type = Concrete (demo_type ''text''), pm_shape = One, pm_direction = Output,
     pm_plugId = None, pm_alsoAccepts = None, pm_feed = Some (ProjectionFeed [''a/b'', ''c''])\<rparr>"

definition demo_input :: port_meta where
  "demo_input = \<lparr>pm_portName = ''rows'', pm_type = Concrete (demo_type ''table''), pm_shape = One, pm_direction = Input,
     pm_plugId = Some ''plug-1'', pm_alsoAccepts = Some [demo_type ''json''], pm_feed = None\<rparr>"

definition demo_connection :: connection where
  "demo_connection = \<lparr>cn_sourceHandle = Some (encodeHandleId demo_output), cn_targetHandle = Some (encodeHandleId demo_input)\<rparr>"

definition demo_artifact_types :: "artifact_type_spec list" where
  "demo_artifact_types =
     [\<lparr>ats_key = demo_type ''text'',
       ats_field_projections = [\<lparr>fp_path = [''body''], fp_target = demo_type ''lines'', fp_title = ''Body''\<rparr>]\<rparr>]"

definition demo_route :: connection_route where
  "demo_route = RProjectionConversion \<lparr>fp_path = [''body''], fp_target = demo_type ''lines'', fp_title = ''Body''\<rparr>
     [demo_conversion ''split'' ''lines'' ''table''] None"

theorem offered_routes_replay_witness:
  "connectionRouteForSelection (tp_number demo_platform) demo_connection demo_artifact_types demo_conversions
     (connectionRouteSelection demo_route) = Some demo_route"
proof -
  have source: "decodeHandleId (tp_number demo_platform) (cn_sourceHandle demo_connection) = Some demo_output" by code_simp
  have target: "decodeHandleId (tp_number demo_platform) (cn_targetHandle demo_connection) = Some demo_input" by code_simp
  have types: "pm_type demo_output = Concrete (demo_type ''text'')" "pm_type demo_input = Concrete (demo_type ''table'')"
    by (simp_all add: demo_output_def demo_input_def)
  have keys: "distinct (map cv_key demo_conversions)" by code_simp
  have paths: "\<forall>a\<in>set demo_artifact_types. distinct (map fp_path (ats_field_projections a))" by code_simp
  have offered: "demo_route \<in> set (connectionRoutesFor demo_platform demo_connection demo_artifact_types demo_conversions)"
    by code_simp
  from offered_routes_replay [OF source types(1) target types(2) keys paths offered] show ?thesis by blast
qed

subsection \<open>Handle ids decode to their ports\<close>

definition encodable :: "(string \<Rightarrow> js_number) \<Rightarrow> port_meta \<Rightarrow> bool" where
  "encodable number p \<longleftrightarrow>
     CHR '':'' \<notin> set (pm_portName p)
     \<and> (case pm_type p of
          Concrete t \<Rightarrow> CHR '':'' \<notin> set (type_id t) \<and> number (int_text (type_schema_version t)) = Finite (of_int (type_schema_version t))
        | Generic variable \<Rightarrow> variable \<noteq> [] \<and> pm_alsoAccepts p = None)
     \<and> (case pm_plugId p of
          Some plug \<Rightarrow> plug \<noteq> [] \<and> CHR '':'' \<notin> set plug \<and> \<not> starts_with ''feed='' plug \<and> \<not> starts_with ''also='' plug
        | None \<Rightarrow> True)
     \<and> (case pm_alsoAccepts p of
          Some ts \<Rightarrow> ts \<noteq> [] \<and> list_all (\<lambda>t. type_id t \<noteq> []
            \<and> number (int_text (type_schema_version t)) = Finite (of_int (type_schema_version t))) ts
        | None \<Rightarrow> True)
     \<and> (case pm_feed p of Some (ProjectionFeed path) \<Rightarrow> path \<noteq> [] \<and> [] \<notin> set path | _ \<Rightarrow> True)"

lemma hex_digit_unreserved: "n < 16 \<Longrightarrow> unreserved (hex_digit n)"
  by (auto simp: hex_digit_def unreserved_def Let_def)

lemma set_encode_char: "c \<in> set (encode_char d) \<Longrightarrow> unreserved c \<or> c = CHR ''%''"
proof -
  define n where "n = (of_char d :: nat)"
  then have "n < 256" by simp
  then have "192 + n div 64 \<le> 195" using div_le_mono [of n 255 64] by simp
  from div_le_mono [OF this, of 16] have high: "(192 + n div 64) div 16 < 16" by simp
  assume "c \<in> set (encode_char d)"
  with high \<open>n < 256\<close> show ?thesis
    by (auto simp: encode_char_def n_def [symmetric] Let_def percent_def intro!: hex_digit_unreserved split: if_splits)
qed

lemma set_encoded: "c \<in> set (encodeURIComponent s) \<Longrightarrow> unreserved c \<or> c = CHR ''%''"
  using set_encode_char by (fastforce simp: encodeURIComponent_def)

lemma separators_encoded [simp]:
  "CHR '':'' \<notin> set (encodeURIComponent s)" "CHR '','' \<notin> set (encodeURIComponent s)" "CHR ''/'' \<notin> set (encodeURIComponent s)"
  using set_encoded [of "CHR '':''" s] set_encoded [of "CHR '',''" s] set_encoded [of "CHR ''/''" s]
  by (auto simp: unreserved_def Let_def)

lemma encoded_empty [simp]: "encodeURIComponent s = [] \<longleftrightarrow> s = []"
  by (cases s) (simp_all add: encodeURIComponent_def encode_char_def percent_def Let_def)

lemma empty_encoded [simp]: "[] = encodeURIComponent s \<longleftrightarrow> s = []"
  by (metis encoded_empty)

lemma map_option_list_map: "(\<And>x. x \<in> set xs \<Longrightarrow> f (g x) = Some x) \<Longrightarrow> map_option_list f (map g xs) = Some xs"
  by (induction xs) auto

lemma split_last_at_key: "split_last_at (artifactTypeKey t) = Some (type_id t, int_text (type_schema_version t))"
proof -
  have no_at: "CHR ''@'' \<notin> set (int_text n)" for n by (rule not_in_int_text) simp
  have "dropWhile (\<lambda>c. c \<noteq> CHR ''@'') (rev v @ CHR ''@'' # x) = CHR ''@'' # x"
    "takeWhile (\<lambda>c. c \<noteq> CHR ''@'') (rev v @ CHR ''@'' # x) = rev v" if "CHR ''@'' \<notin> set v" for v x
    using that by (auto simp: dropWhile_append takeWhile_append in_set_conv_decomp)
  with no_at show ?thesis by (simp add: split_last_at_def artifactTypeKey_def)
qed

lemma decode_accepted_key:
  "type_id t \<noteq> [] \<Longrightarrow> number (int_text (type_schema_version t)) = Finite (of_int (type_schema_version t)) \<Longrightarrow>
     decode_accepted number (encodeURIComponent (artifactTypeKey t)) = Some t"
  by (simp add: decode_accepted_def split_last_at_key integer_of_def)

lemma also_round_trip:
  assumes "ts \<noteq> []" "list_all (\<lambda>t. type_id t \<noteq> [] \<and> number (int_text (type_schema_version t)) = Finite (of_int (type_schema_version t))) ts"
  shows "decodeHandleAlsoAcceptsSegment number (encodeHandleAlsoAcceptsSegment ts) = Some ts"
proof -
  let ?parts = "map (\<lambda>t. encodeURIComponent (artifactTypeKey t)) ts"
  have split: "js_split '','' (js_join '','' ?parts) = ?parts"
    using assms(1) by (intro split_join) auto
  have "js_join '','' ?parts \<noteq> []"
    using assms(1) by (cases ts rule: remdups_adj.cases) (auto simp: artifactTypeKey_def)
  moreover have "map_option_list (decode_accepted number) ?parts = Some ts"
    using assms(2) by (intro map_option_list_map decode_accepted_key) (auto simp: list_all_iff)
  ultimately show ?thesis
    by (simp add: decodeHandleAlsoAcceptsSegment_def encodeHandleAlsoAcceptsSegment_def Let_def split)
qed

lemma feed_round_trip:
  assumes "case feed of ProjectionFeed path \<Rightarrow> path \<noteq> [] \<and> [] \<notin> set path | _ \<Rightarrow> True"
  shows "decodeHandleFeedSegment (encodeHandleFeedSegment feed) = Some feed"
proof (cases feed)
  case (ProjectionFeed path)
  let ?parts = "map encodeURIComponent path"
  have path: "path \<noteq> []" "[] \<notin> set path" using assms ProjectionFeed by auto
  then have "js_split ''/'' (js_join ''/'' ?parts) = ?parts" by (intro split_join) auto
  moreover have "filter (\<lambda>part. part \<noteq> []) ?parts = ?parts" using path(2) by (auto intro!: filter_True)
  moreover have "map_option_list decodeURIComponent ?parts = Some path" by (intro map_option_list_map) simp
  ultimately show ?thesis
    using path(1) by (simp add: ProjectionFeed decodeHandleFeedSegment_def starts_with_def Let_def)
qed (simp add: decodeHandleFeedSegment_def starts_with_def Let_def)

definition handle_segments :: "port_meta \<Rightarrow> string list" where
  "handle_segments p =
     (case pm_plugId p of Some q \<Rightarrow> if q = [] then [] else [q] | None \<Rightarrow> [])
     @ (case pm_alsoAccepts p of Some ts \<Rightarrow> if ts = [] then [] else [encodeHandleAlsoAcceptsSegment ts] | None \<Rightarrow> [])
     @ (case pm_feed p of Some f \<Rightarrow> [encodeHandleFeedSegment f] | None \<Rightarrow> [])"

lemma also_prefix [simp]:
  "starts_with ''also='' (encodeHandleAlsoAcceptsSegment ts)" "\<not> starts_with ''feed='' (encodeHandleAlsoAcceptsSegment ts)"
  by (simp_all add: starts_with_def encodeHandleAlsoAcceptsSegment_def)

lemma feed_prefix [simp]: "starts_with ''feed='' (encodeHandleFeedSegment f)"
  by (cases f) (simp_all add: starts_with_def)

lemma decode_handle_segments:
  assumes "encodable number p"
  shows "decode_segments number (handle_segments p) (None, None, None) = Some (pm_plugId p, pm_feed p, pm_alsoAccepts p)"
proof -
  have feed: "decode_segments number (case pm_feed p of Some f \<Rightarrow> [encodeHandleFeedSegment f] | None \<Rightarrow> []) (plug, None, more)
      = Some (plug, pm_feed p, more)" for plug more
  proof (cases "pm_feed p")
    case (Some f)
    with assms have "decodeHandleFeedSegment (encodeHandleFeedSegment f) = Some f"
      by (intro feed_round_trip) (simp add: encodable_def)
    with Some show ?thesis by simp
  qed simp
  have accepted: "decode_segments number ((case pm_alsoAccepts p of Some ts \<Rightarrow> if ts = [] then [] else [encodeHandleAlsoAcceptsSegment ts] | None \<Rightarrow> [])
        @ (case pm_feed p of Some f \<Rightarrow> [encodeHandleFeedSegment f] | None \<Rightarrow> [])) (plug, None, None)
      = Some (plug, pm_feed p, pm_alsoAccepts p)" for plug
    using assms feed [of plug "pm_alsoAccepts p"] by (cases "pm_alsoAccepts p") (simp_all add: encodable_def also_round_trip)
  show ?thesis
    using assms accepted [of "pm_plugId p"] by (cases "pm_plugId p") (simp_all add: encodable_def handle_segments_def)
qed

lemma segments_clean: "encodable number p \<Longrightarrow> x \<in> set (handle_segments p) \<Longrightarrow> CHR '':'' \<notin> set x"
proof -
  have joined: "CHR '':'' \<notin> set (js_join [c] (map (\<lambda>t. encodeURIComponent (f t)) ts))" if "c \<noteq> CHR '':''" for c ts and f :: "'a \<Rightarrow> string"
    using that js_join_set [of "[c]" "map (\<lambda>t. encodeURIComponent (f t)) ts"] by auto
  have "CHR '':'' \<notin> set (encodeHandleFeedSegment f)" for f
    using joined [of "CHR ''/''" "\<lambda>x. x"] by (cases f) simp_all
  moreover have "CHR '':'' \<notin> set (encodeHandleAlsoAcceptsSegment ts)" for ts
    using joined [of "CHR '',''" artifactTypeKey ts] by (simp add: encodeHandleAlsoAcceptsSegment_def)
  moreover assume "encodable number p" "x \<in> set (handle_segments p)"
  ultimately show ?thesis by (auto simp: handle_segments_def encodable_def split: option.splits if_splits)
qed

lemma decode_texts [simp]:
  "decode_shape (shape_text s) = Some s" "decode_direction (direction_text d) = Some d"
  by (cases s, simp_all add: decode_shape_def) (cases d, simp_all add: decode_direction_def)

lemma int_text_not_generic: "int_text n \<noteq> ''$generic''"
proof
  assume eq: "int_text n = ''$generic''"
  have "CHR ''$'' \<notin> set (int_text n)" by (rule not_in_int_text) simp
  with eq show False by simp
qed

lemma handle_decodes: "encodable number p \<Longrightarrow> decodeHandleId number (Some (encodeHandleId p)) = Some p"
proof -
  assume ok: "encodable number p"
  let ?head = "[pm_portName p] @ type_parts (pm_type p) @ [shape_text (pm_shape p), direction_text (pm_direction p)]"
  let ?parts = "?head @ handle_segments p"
  have enc: "encodeHandleId p = js_join ''::'' ?parts" by (simp add: encodeHandleId_def handle_segments_def)
  have "CHR '':'' \<notin> set (int_text n)" for n by (rule not_in_int_text) simp
  then have types: "x \<in> set (type_parts (pm_type p)) \<Longrightarrow> CHR '':'' \<notin> set x" for x
    using ok by (auto simp: encodable_def split: handle_type.splits if_splits)
  have texts: "CHR '':'' \<notin> set (shape_text s)" "CHR '':'' \<notin> set (direction_text d)" for s d
    by (cases s, simp_all) (cases d, simp_all)
  have "\<forall>x\<in>set ?parts. CHR '':'' \<notin> set x"
    using types texts segments_clean [OF ok] ok by (auto simp: encodable_def)
  then have split: "js_split ''::'' (encodeHandleId p) = ?parts" unfolding enc by (intro split_join) auto
  have "encodeHandleId p \<noteq> []" unfolding enc by (cases "pm_type p") (auto simp: numeral_eq_Suc)
  moreover have "length (handle_segments p) \<le> 3" by (simp add: handle_segments_def split: option.split)
  ultimately show "decodeHandleId number (Some (encodeHandleId p)) = Some p"
    using ok
    by (cases "pm_type p") (simp_all add: decodeHandleId_def split decode_handle_segments int_text_not_generic integer_of_def encodable_def)
qed

text \<open>
  The id of a handle carries its whole port: decoding an encoded port gives the port back, with its
  plug, its further accepted types and its feed intent, and the canonical id is the encoding of the port
  without the feed. The names may not hold a colon (the separator), a plug id may not look like one of
  the two prefixed segments, and the platform must read back the text of the versions.
\<close>

theorem handle_round_trip:
  assumes "encodable number p"
  shows "decodeHandleId number (Some (encodeHandleId p)) = Some p
    \<and> canonicalHandleId number (Some (encodeHandleId p)) = Some (encodeHandleId (p\<lparr>pm_feed := None\<rparr>))"
proof -
  have "encodeHandleId (p\<lparr>pm_feed := None\<rparr>) = encodeHandleId p" if "pm_feed p = None"
    using that by (simp add: encodeHandleId_def)
  with handle_decodes [OF assms] show ?thesis by (cases "pm_feed p") (simp_all add: canonicalHandleId_def)
qed

theorem handle_round_trip_witness:
  "decodeHandleId demo_number (Some (encodeHandleId demo_output)) = Some demo_output
   \<and> canonicalHandleId demo_number (Some (encodeHandleId demo_output)) = Some ''out::text::1::one::output''"
proof -
  have "encodable demo_number demo_output" by code_simp
  moreover have "encodeHandleId (demo_output\<lparr>pm_feed := None\<rparr>) = ''out::text::1::one::output''" by code_simp
  ultimately show ?thesis using handle_round_trip [of demo_number demo_output] by simp
qed

end
