(* ===== verification/NodeLayout.thy ===== *)
theory NodeLayout
  imports GraphDocument
begin

section \<open>Sizes of node cards\<close>

text \<open>
  \<^verbatim>\<open>canvas/node-layout.ts\<close>: the three sizes a person may set on a card, clamped between a floor
  that keeps the card usable and a ceiling no layer may pass, on the way into and out of the
  stored graph. An absent field is \<open>None\<close>.
\<close>

record workflow_node_layout =
  wl_width :: "js_number option"
  wl_bodyHeight :: "js_number option"
  wl_appendixHeight :: "js_number option"

definition DEFAULT_NODE_WIDTH :: rat where "DEFAULT_NODE_WIDTH = 300"
definition DEFAULT_APPENDIX_HEIGHT :: rat where "DEFAULT_APPENDIX_HEIGHT = 230"
definition NODE_WIDTH_MIN :: rat where "NODE_WIDTH_MIN = 260"
definition BODY_HEIGHT_MIN :: rat where "BODY_HEIGHT_MIN = 96"
definition APPENDIX_HEIGHT_MIN :: rat where "APPENDIX_HEIGHT_MIN = 120"
definition LAYOUT_DIMENSION_MAX :: rat where "LAYOUT_DIMENSION_MAX = 16384"

definition clamp_size :: "js_number option \<Rightarrow> rat \<Rightarrow> rat \<Rightarrow> js_number option" where
  "clamp_size v lo hi = (case v of Some (Finite r) \<Rightarrow> Some (Finite (min hi (max lo r))) | _ \<Rightarrow> None)"

definition clampNodeLayout :: "workflow_node_layout option \<Rightarrow> workflow_node_layout option" where
  "clampNodeLayout layout =
     (case layout of
        None \<Rightarrow> None
      | Some l \<Rightarrow>
          (let width = clamp_size (wl_width l) NODE_WIDTH_MIN LAYOUT_DIMENSION_MAX;
               bodyHeight = clamp_size (wl_bodyHeight l) BODY_HEIGHT_MIN LAYOUT_DIMENSION_MAX;
               appendixHeight = clamp_size (wl_appendixHeight l) APPENDIX_HEIGHT_MIN LAYOUT_DIMENSION_MAX
           in if width \<noteq> None \<or> bodyHeight \<noteq> None \<or> appendixHeight \<noteq> None
              then Some \<lparr>wl_width = width, wl_bodyHeight = bodyHeight, wl_appendixHeight = appendixHeight\<rparr>
              else None))"

definition or_else :: "'a option \<Rightarrow> 'a option \<Rightarrow> 'a option" where
  "or_else x y = (case x of Some v \<Rightarrow> Some v | None \<Rightarrow> y)"

definition mergeNodeLayout :: "workflow_node_layout option \<Rightarrow> workflow_node_layout \<Rightarrow> workflow_node_layout option" where
  "mergeNodeLayout current patch = clampNodeLayout (Some
     \<lparr>wl_width = or_else (wl_width patch) (Option.bind current wl_width),
      wl_bodyHeight = or_else (wl_bodyHeight patch) (Option.bind current wl_bodyHeight),
      wl_appendixHeight = or_else (wl_appendixHeight patch) (Option.bind current wl_appendixHeight)\<rparr>)"

definition null_of :: "'a option \<Rightarrow> 'a nullish" where
  "null_of x = (case x of Some v \<Rightarrow> Defined v | None \<Rightarrow> Null)"

definition undefined_of :: "'a nullish \<Rightarrow> 'a option" where
  "undefined_of x = (case x of Defined v \<Rightarrow> Some v | _ \<Rightarrow> None)"

lemma nullish_of_simps [simp]:
  "null_of None = Null" "null_of (Some v) = Defined v" "undefined_of Undefined = None" "undefined_of Null = None"
  "undefined_of (Defined v) = Some v" "undefined_of (null_of x) = x" "null_of (undefined_of n) = or_null n"
  by (simp_all add: null_of_def undefined_of_def split: option.split nullish.split)

definition serializeNodeLayout :: "workflow_node_layout option \<Rightarrow> node_layout nullish" where
  "serializeNodeLayout layout =
     (case clampNodeLayout layout of
        None \<Rightarrow> Null
      | Some l \<Rightarrow> Defined \<lparr>lay_appendix_height = null_of (wl_appendixHeight l),
                          lay_body_height = null_of (wl_bodyHeight l), lay_width = null_of (wl_width l)\<rparr>)"

definition hydrateNodeLayout :: "node_layout nullish \<Rightarrow> workflow_node_layout option" where
  "hydrateNodeLayout layout =
     (case layout of
        Defined l \<Rightarrow> clampNodeLayout (Some
          \<lparr>wl_width = undefined_of (lay_width l), wl_bodyHeight = undefined_of (lay_body_height l),
           wl_appendixHeight = undefined_of (lay_appendix_height l)\<rparr>)
      | _ \<Rightarrow> None)"

definition resolvedNodeWidth :: "workflow_node_layout option \<Rightarrow> js_number" where
  "resolvedNodeWidth layout = (case Option.bind layout wl_width of Some w \<Rightarrow> w | None \<Rightarrow> Finite DEFAULT_NODE_WIDTH)"

definition resolvedBodyHeight :: "workflow_node_layout option \<Rightarrow> js_number option" where
  "resolvedBodyHeight layout = Option.bind layout wl_bodyHeight"

definition resolvedAppendixHeight :: "workflow_node_layout option \<Rightarrow> js_number" where
  "resolvedAppendixHeight layout =
     (case Option.bind layout wl_appendixHeight of Some h \<Rightarrow> h | None \<Rightarrow> Finite DEFAULT_APPENDIX_HEIGHT)"

subsection \<open>Clamped sizes stay clamped\<close>

lemma clamp_size_idem: "lo \<le> hi \<Longrightarrow> clamp_size (clamp_size v lo hi) lo hi = clamp_size v lo hi"
  by (auto simp: clamp_size_def split: option.splits js_number.splits)

lemmas layout_bounds = NODE_WIDTH_MIN_def BODY_HEIGHT_MIN_def APPENDIX_HEIGHT_MIN_def LAYOUT_DIMENSION_MAX_def

lemma clampNodeLayout_idem [simp]: "clampNodeLayout (clampNodeLayout layout) = clampNodeLayout layout"
  by (cases layout) (simp_all add: clampNodeLayout_def Let_def clamp_size_idem layout_bounds)

text \<open>Storing a layout and reading it back gives the clamped layout, whatever the numbers were.\<close>

lemma hydrate_serialize_layout: "hydrateNodeLayout (serializeNodeLayout layout) = clampNodeLayout layout"
proof (cases "clampNodeLayout layout")
  case (Some l)
  then have "clampNodeLayout (Some l) = Some l" using clampNodeLayout_idem [of layout] by simp
  with Some show ?thesis by (cases l) (simp add: hydrateNodeLayout_def serializeNodeLayout_def)
qed (simp add: hydrateNodeLayout_def serializeNodeLayout_def)

definition size_within :: "js_number option \<Rightarrow> rat \<Rightarrow> bool" where
  "size_within v lo = (case v of None \<Rightarrow> True | Some (Finite r) \<Rightarrow> lo \<le> r \<and> r \<le> LAYOUT_DIMENSION_MAX | _ \<Rightarrow> False)"

definition layout_ok :: "workflow_node_layout \<Rightarrow> bool" where
  "layout_ok l \<longleftrightarrow> size_within (wl_width l) NODE_WIDTH_MIN \<and> size_within (wl_bodyHeight l) BODY_HEIGHT_MIN
     \<and> size_within (wl_appendixHeight l) APPENDIX_HEIGHT_MIN
     \<and> (wl_width l \<noteq> None \<or> wl_bodyHeight l \<noteq> None \<or> wl_appendixHeight l \<noteq> None)"

lemma clamp_size_within: "lo \<le> LAYOUT_DIMENSION_MAX \<Longrightarrow> size_within (clamp_size v lo LAYOUT_DIMENSION_MAX) lo"
  by (auto simp: clamp_size_def size_within_def split: option.splits js_number.splits)

lemma clamped_ok: "clampNodeLayout layout = Some l \<Longrightarrow> layout_ok l"
proof -
  have "NODE_WIDTH_MIN \<le> LAYOUT_DIMENSION_MAX" "BODY_HEIGHT_MIN \<le> LAYOUT_DIMENSION_MAX" "APPENDIX_HEIGHT_MIN \<le> LAYOUT_DIMENSION_MAX"
    by (simp_all add: layout_bounds)
  note within = this [THEN clamp_size_within]
  show "clampNodeLayout layout = Some l \<Longrightarrow> layout_ok l"
    by (cases layout, simp_all add: clampNodeLayout_def Let_def layout_ok_def within del: not_None_eq split: if_splits)
      (drule sym, simp add: within del: not_None_eq)
qed

lemma ok_clamped: "layout_ok l \<Longrightarrow> clampNodeLayout (Some l) = Some l"
proof -
  have "clamp_size v lo LAYOUT_DIMENSION_MAX = v" if "size_within v lo" for v lo
    using that by (auto simp: clamp_size_def size_within_def split: option.splits js_number.splits)
  then show "layout_ok l \<Longrightarrow> clampNodeLayout (Some l) = Some l"
    by (auto simp: clampNodeLayout_def layout_ok_def Let_def)
qed

end
