(* ===== verification/WorkflowNodes.thy ===== *)
theory WorkflowNodes
  imports Handles NodeLayout RunResults Worklist
begin

section \<open>Canvas nodes: ports, plugs and node data\<close>

text \<open>
  The node model of the canvas: \<^verbatim>\<open>canvas/types.ts\<close>, \<^verbatim>\<open>canvas/input-plugs.ts\<close>,
  \<^verbatim>\<open>canvas/query-artifact-tables.ts\<close>, \<^verbatim>\<open>canvas/schema-builder.ts\<close> and \<^verbatim>\<open>model/collection-spec.ts\<close>.
  An object used as a dictionary is a list of entries in insertion order. The fields of a node's
  data that are only displayed (secret states, callbacks, collaborator colours) are left out.
  Identifiers drawn at random are arguments.
\<close>

subsection \<open>Specifications\<close>

record port =
  po_name :: string
  po_direction :: port_direction
  po_shape :: port_shape
  po_accepted_shapes :: "port_shape list"
  po_artifact_type :: "artifact_type_key nullish"
  po_artifact_type_variable :: "string nullish"
  po_also_accepts :: "artifact_type_key list option"
  po_instance_plugs :: bool
  po_required :: bool
  po_variadic :: bool
  po_shape_field :: "string nullish"

record node_spec =
  ns_operator_id :: string
  ns_operator_version :: int
  ns_plugin_slug :: string
  ns_title :: string
  ns_description :: string
  ns_catalog_visible :: bool
  ns_runnable :: bool
  ns_config_schema :: json
  ns_inputs :: "port list"
  ns_outputs :: "port list"
  ns_secret_inputs :: json

record node_registry =
  nr_nodes :: "node_spec list"
  nr_artifact_types :: "artifact_type_spec list"
  nr_artifact_conversions :: "conversion_spec list"

subsection \<open>Node data\<close>

record workflow_input_plug =
  wp_id :: string
  wp_portName :: string

record compatibility_endpoint =
  ce_portName :: string
  ce_plugId :: "string option"

datatype incompatible_status = Unsupported | Invalid

datatype node_compatibility =
    Supported
  | Incompatible incompatible_status "string list" "compatibility_endpoint list" "compatibility_endpoint list" saved_graph_node

type_synonym artifact_type_bindings = "(string \<times> artifact_type_key) list"

record workflow_node_data =
  wd_spec :: node_spec
  wd_compatibility :: node_compatibility
  wd_artifactTypeBindings :: artifact_type_bindings
  wd_inputPlugs :: "workflow_input_plug list"
  wd_mappedInputPorts :: "string list"
  wd_config :: js_object
  wd_layout :: "workflow_node_layout option"
  wd_run :: "run_node_result option"
  wd_execution :: node_execution
  wd_progress :: "node_progress option"
  wd_x :: json
  wd_y :: json

record edge_route_offset =
  eo_x :: js_number
  eo_y :: js_number

record workflow_edge_data =
  we_enabled :: bool
  we_collectionMode :: collection_mode
  we_projection :: "string list option"
  we_conversionPath :: "graph_conversion list option"
  we_routeOffset :: "point option"
  we_sourcePortName :: "string option"
  we_targetPortName :: "string option"
  we_targetPlugId :: "string nullish"
  we_compatibilityIssues :: "string list option"

record workflow_edge =
  wg_id :: string
  wg_source :: string
  wg_sourceHandle :: "string option"
  wg_target :: string
  wg_targetHandle :: "string option"
  wg_data :: "workflow_edge_data option"

record workflow_node =
  wn_id :: string
  wn_position :: point
  wn_selected :: bool
  wn_data :: workflow_node_data

record edge_transport =
  et_collection_mode :: collection_mode
  et_projection :: "string list nullish"
  et_conversion_path :: "graph_conversion list"

definition serializeWorkflowEdgeTransport :: "workflow_edge_data option \<Rightarrow> edge_transport" where
  "serializeWorkflowEdgeTransport data =
     \<lparr>et_collection_mode = (case data of Some d \<Rightarrow> we_collectionMode d | None \<Rightarrow> Direct),
      et_projection = null_of (Option.bind data we_projection),
      et_conversion_path = map project_conversion (case Option.bind data we_conversionPath of Some p \<Rightarrow> p | None \<Rightarrow> [])\<rparr>"

fun workflowNodeIsSupported :: "workflow_node_data \<Rightarrow> bool" where
  "workflowNodeIsSupported data \<longleftrightarrow> wd_compatibility data = Supported"

definition compatibilityHandleId :: "port_direction \<Rightarrow> compatibility_endpoint \<Rightarrow> string" where
  "compatibilityHandleId direction endpoint =
     js_join ''::''
       [''$compatibility'', direction_text direction, encodeURIComponent (ce_portName endpoint),
        (case ce_plugId endpoint of Some p \<Rightarrow> if p = [] then [] else encodeURIComponent p | None \<Rightarrow> [])]"

text \<open>The value of a key that may be absent, and a text that counts as none when empty.\<close>

definition obj_get :: "string \<Rightarrow> js_object \<Rightarrow> json" where
  "obj_get k obj = (case map_of obj k of Some v \<Rightarrow> v | None \<Rightarrow> JUndefined)"

definition non_empty :: "string nullish \<Rightarrow> string option" where
  "non_empty s = (case s of Defined t \<Rightarrow> if t = [] then None else Some t | _ \<Rightarrow> None)"

definition shape_of_json :: "json \<Rightarrow> port_shape option" where
  "shape_of_json v = (case v of JString s \<Rightarrow> decode_shape s | _ \<Rightarrow> None)"

definition resolve_port_shape :: "js_object \<Rightarrow> port \<Rightarrow> port" where
  "resolve_port_shape config port =
     (case non_empty (po_shape_field port) of
        None \<Rightarrow> port
      | Some field \<Rightarrow>
          (case shape_of_json (obj_get field config) of
             None \<Rightarrow> port
           | Some shape \<Rightarrow> port\<lparr>po_shape := shape, po_accepted_shapes := [shape]\<rparr>))"

definition resolveInstancePortShapes :: "node_spec \<Rightarrow> js_object \<Rightarrow> node_spec" where
  "resolveInstancePortShapes spec config =
     (if \<not> list_ex (\<lambda>port. non_empty (po_shape_field port) \<noteq> None) (ns_inputs spec @ ns_outputs spec) then spec
      else spec\<lparr>ns_inputs := map (resolve_port_shape config) (ns_inputs spec),
                ns_outputs := map (resolve_port_shape config) (ns_outputs spec)\<rparr>)"

definition GIS_COMPOSE_MAP_OPERATOR_ID :: string where
  "GIS_COMPOSE_MAP_OPERATOR_ID = ''gis.map.compose''"

definition defaultNodeLayout :: "node_spec \<Rightarrow> workflow_node_layout option" where
  "defaultNodeLayout spec =
     (if ns_operator_id spec = GIS_COMPOSE_MAP_OPERATOR_ID
      then Some \<lparr>wl_width = Some (Finite 620), wl_bodyHeight = None, wl_appendixHeight = Some (Finite 420)\<rparr>
      else None)"

fun schemaRecord :: "json \<Rightarrow> js_object option" where
  "schemaRecord (JObject obj) = Some obj"
| "schemaRecord _ = None"

definition defaultNodeConfig :: "node_spec \<Rightarrow> js_object" where
  "defaultNodeConfig spec =
     (case schemaRecord (ns_config_schema spec) of
        None \<Rightarrow> []
      | Some schema \<Rightarrow>
          (case schemaRecord (obj_get ''properties'' schema) of
             None \<Rightarrow> []
           | Some properties \<Rightarrow>
               foldl (\<lambda>config (name, propertyValue).
                   case schemaRecord propertyValue of
                     None \<Rightarrow> config
                   | Some property \<Rightarrow>
                       (case map_of property ''default'' of None \<Rightarrow> config | Some v \<Rightarrow> obj_set name v config))
                 [] properties))"

subsection \<open>Input plugs\<close>

definition createWorkflowInputPlug :: "string \<Rightarrow> string \<Rightarrow> workflow_input_plug" where
  "createWorkflowInputPlug uuid portName = \<lparr>wp_id = uuid, wp_portName = portName\<rparr>"

text \<open>\<open>uuids n\<close> is the n-th identifier drawn during the call.\<close>

definition initialInputPlugs :: "(nat \<Rightarrow> string) \<Rightarrow> node_spec \<Rightarrow> workflow_input_plug list" where
  "initialInputPlugs uuids spec =
     (let ports = filter (\<lambda>port. po_instance_plugs port \<and> po_required port) (ns_inputs spec)
      in map (\<lambda>(n, port). createWorkflowInputPlug (uuids n) (po_name port)) (enumerate 0 ports))"

definition inputPlugsForPort :: "workflow_input_plug list \<Rightarrow> string \<Rightarrow> workflow_input_plug list" where
  "inputPlugsForPort inputPlugs portName = filter (\<lambda>plug. wp_portName plug = portName) inputPlugs"

definition find_last_index :: "('a \<Rightarrow> bool) \<Rightarrow> 'a list \<Rightarrow> nat option" where
  "find_last_index P xs = map_option (\<lambda>k. length xs - 1 - k) (find_index P (rev xs))"

definition appendInputPlug :: "string \<Rightarrow> workflow_input_plug list \<Rightarrow> string \<Rightarrow> workflow_input_plug list" where
  "appendInputPlug uuid inputPlugs portName =
     (let nextPlug = createWorkflowInputPlug uuid portName
      in case find_last_index (\<lambda>plug. wp_portName plug = portName) inputPlugs of
           None \<Rightarrow> inputPlugs @ [nextPlug]
         | Some k \<Rightarrow> take (Suc k) inputPlugs @ nextPlug # drop (Suc k) inputPlugs)"

definition removeInputPlug :: "workflow_input_plug list \<Rightarrow> string \<Rightarrow> workflow_input_plug list" where
  "removeInputPlug inputPlugs plugId = filter (\<lambda>plug. wp_id plug \<noteq> plugId) inputPlugs"

text \<open>
  Moving the element at one index to another with two splices, the shape three functions share;
  the requested index is clamped to the list.
\<close>

definition clamp_index :: "int \<Rightarrow> nat \<Rightarrow> nat" where
  "clamp_index toIndex len = nat (max 0 (min toIndex (int len - 1)))"

definition move_to :: "'a list \<Rightarrow> nat \<Rightarrow> nat \<Rightarrow> 'a list" where
  "move_to xs i j =
     (let rest = take i xs @ drop (Suc i) xs in take j rest @ xs ! i # drop j rest)"

definition move_matching :: "('a \<Rightarrow> bool) \<Rightarrow> 'a list \<Rightarrow> int \<Rightarrow> 'a list" where
  "move_matching P xs toIndex =
     (case find_index P xs of
        None \<Rightarrow> xs
      | Some fromIndex \<Rightarrow>
          if length xs < 2 then xs
          else let boundedIndex = clamp_index toIndex (length xs)
               in if fromIndex = boundedIndex then xs else move_to xs fromIndex boundedIndex)"

text \<open>
  The elements that satisfy a test are replaced, in order, by those of another list. The early
  returns of \<open>reorderInputPlug\<close> are those of \<open>move_matching\<close>: refilling with the plugs themselves
  changes nothing.
\<close>

fun refill :: "('a \<Rightarrow> bool) \<Rightarrow> 'a list \<Rightarrow> 'a list \<Rightarrow> 'a list" where
  "refill P [] ys = []"
| "refill P (x # xs) ys =
     (if \<not> P x then x # refill P xs ys
      else case ys of [] \<Rightarrow> x # refill P xs [] | y # ys' \<Rightarrow> y # refill P xs ys')"

definition reorderInputPlug :: "workflow_input_plug list \<Rightarrow> string \<Rightarrow> string \<Rightarrow> int \<Rightarrow> workflow_input_plug list" where
  "reorderInputPlug inputPlugs portName plugId toIndex =
     (let portPlugs = inputPlugsForPort inputPlugs portName;
          reordered = move_matching (\<lambda>plug. wp_id plug = plugId) portPlugs toIndex
      in refill (\<lambda>plug. wp_portName plug = portName) inputPlugs reordered)"

text \<open>Plugs of one port are replaced as a block at the place of the first of them.\<close>

definition reconcile_port_plugs ::
    "workflow_input_plug list \<Rightarrow> workflow_input_plug list \<Rightarrow> string \<Rightarrow> workflow_input_plug list" where
  "reconcile_port_plugs inputPlugs desiredPlugs portName =
     (let other = (\<lambda>plug. wp_portName plug \<noteq> portName);
          withoutPort = filter other inputPlugs;
          insertionIndex = (case find_index (\<lambda>plug. wp_portName plug = portName) inputPlugs of
              None \<Rightarrow> length withoutPort
            | Some k \<Rightarrow> length (filter other (take k inputPlugs)))
      in take insertionIndex withoutPort @ desiredPlugs @ drop insertionIndex withoutPort)"

subsection \<open>Schema builder fields and query relations\<close>

definition SCHEMA_BUILDER_INPUT_PORT :: string where
  "SCHEMA_BUILDER_INPUT_PORT = ''schemas''"

definition SCHEMA_FIELD_KINDS :: "string list" where
  "SCHEMA_FIELD_KINDS = [''string'', ''integer'', ''number'', ''boolean'', ''sequence'', ''schema'']"

definition SCHEMA_SEQUENCE_ITEM_KINDS :: "string list" where
  "SCHEMA_SEQUENCE_ITEM_KINDS = [''string'', ''integer'', ''number'', ''boolean'', ''schema'']"

record schema_builder_field =
  sf_id :: string
  sf_name :: string
  sf_kind :: string
  sf_required :: bool
  sf_description :: string
  sf_item_kind :: "string option"

definition schema_field_of :: "js_object \<Rightarrow> string list \<Rightarrow> schema_builder_field option" where
  "schema_field_of obj seenIds =
     (case (obj_get ''id'' obj, obj_get ''name'' obj, obj_get ''kind'' obj, obj_get ''required'' obj, obj_get ''description'' obj) of
        (JString fieldId, JString name, JString kind, JBool required, JString description) \<Rightarrow>
          if fieldId = [] \<or> fieldId \<in> set seenIds \<or> kind \<notin> set SCHEMA_FIELD_KINDS then None
          else if kind = ''sequence''
          then (case obj_get ''item_kind'' obj of
                  JString itemKind \<Rightarrow>
                    if itemKind \<in> set SCHEMA_SEQUENCE_ITEM_KINDS
                    then Some \<lparr>sf_id = fieldId, sf_name = name, sf_kind = kind, sf_required = required,
                               sf_description = description, sf_item_kind = Some itemKind\<rparr>
                    else None
                | _ \<Rightarrow> None)
          else Some \<lparr>sf_id = fieldId, sf_name = name, sf_kind = kind, sf_required = required,
                     sf_description = description, sf_item_kind = None\<rparr>
      | _ \<Rightarrow> None)"

fun read_schema_fields :: "json list \<Rightarrow> string list \<Rightarrow> schema_builder_field list" where
  "read_schema_fields [] seenIds = []"
| "read_schema_fields (item # items) seenIds =
     (case Option.bind (schemaRecord item) (\<lambda>obj. schema_field_of obj seenIds) of
        None \<Rightarrow> read_schema_fields items seenIds
      | Some f \<Rightarrow> f # read_schema_fields items (seenIds @ [sf_id f]))"

fun schemaBuilderFields :: "json \<Rightarrow> schema_builder_field list" where
  "schemaBuilderFields (JArray items) = read_schema_fields items []"
| "schemaBuilderFields _ = []"

definition createSchemaBuilderField :: "nat \<Rightarrow> string \<Rightarrow> schema_builder_field" where
  "createSchemaBuilderField index uuid =
     \<lparr>sf_id = uuid, sf_name = ''field_'' @ decimal (index + 1), sf_kind = ''string'', sf_required = False,
      sf_description = [], sf_item_kind = None\<rparr>"

definition schemaFieldConsumesInput :: "schema_builder_field \<Rightarrow> bool" where
  "schemaFieldConsumesInput field \<longleftrightarrow>
     sf_kind field = ''schema'' \<or> (sf_kind field = ''sequence'' \<and> sf_item_kind field = Some ''schema'')"

definition withSchemaFieldKind :: "schema_builder_field \<Rightarrow> string \<Rightarrow> schema_builder_field" where
  "withSchemaFieldKind field kind =
     (if kind = ''sequence'' then field\<lparr>sf_kind := kind, sf_item_kind := Some ''string''\<rparr>
      else field\<lparr>sf_kind := kind, sf_item_kind := None\<rparr>)"

definition moveSchemaBuilderField :: "schema_builder_field list \<Rightarrow> string \<Rightarrow> int \<Rightarrow> schema_builder_field list" where
  "moveSchemaBuilderField rows fieldId toIndex = move_matching (\<lambda>field. sf_id field = fieldId) rows toIndex"

definition reconcileSchemaFieldInputPlugs ::
    "workflow_input_plug list \<Rightarrow> schema_builder_field list \<Rightarrow> string \<Rightarrow> workflow_input_plug list" where
  "reconcileSchemaFieldInputPlugs inputPlugs rows portName =
     reconcile_port_plugs inputPlugs
       (map (\<lambda>field. \<lparr>wp_id = sf_id field, wp_portName = portName\<rparr>) (filter schemaFieldConsumesInput rows)) portName"

definition ARTIFACT_QUERY_OPERATOR_ID :: string where
  "ARTIFACT_QUERY_OPERATOR_ID = ''sql.artifacts.query''"

definition ARTIFACT_QUERY_RELATIONS_PORT :: string where
  "ARTIFACT_QUERY_RELATIONS_PORT = ''relations''"

record query_relation =
  qr_id :: string
  qr_alias :: string

fun read_relations :: "json list \<Rightarrow> string list \<Rightarrow> query_relation list" where
  "read_relations [] seenIds = []"
| "read_relations (item # items) seenIds =
     (case schemaRecord item of
        None \<Rightarrow> read_relations items seenIds
      | Some relation \<Rightarrow>
          (case (obj_get ''id'' relation, obj_get ''alias'' relation) of
             (JString relationId, JString alias) \<Rightarrow>
               if relationId = [] \<or> relationId \<in> set seenIds then read_relations items seenIds
               else \<lparr>qr_id = relationId, qr_alias = alias\<rparr> # read_relations items (seenIds @ [relationId])
           | _ \<Rightarrow> read_relations items seenIds))"

fun artifactQueryRelations :: "json \<Rightarrow> query_relation list" where
  "artifactQueryRelations (JArray items) = read_relations items []"
| "artifactQueryRelations _ = []"

text \<open>\<open>toLowerCase\<close> on the characters of the model: ASCII and the Latin-1 letters.\<close>

definition to_lower :: "char \<Rightarrow> char" where
  "to_lower c =
     (let n = (of_char c :: nat)
      in if (65 \<le> n \<and> n \<le> 90) \<or> (192 \<le> n \<and> n \<le> 222 \<and> n \<noteq> 215) then char_of (n + 32) else c)"

definition relation_alias :: "nat \<Rightarrow> string" where
  "relation_alias n = ''relation_'' @ decimal n"

lemma relation_alias_inj [simp]: "relation_alias m = relation_alias n \<longleftrightarrow> m = n"
  by (simp add: relation_alias_def)

lemma taken_aliases_shrink:
  assumes "relation_alias n \<in> set aliases"
  shows "card (set aliases \<inter> relation_alias ` {Suc n..}) < card (set aliases \<inter> relation_alias ` {n..})"
proof (rule psubset_card_mono)
  have "relation_alias n \<notin> relation_alias ` {Suc n..}" by auto
  moreover have "relation_alias n \<in> set aliases \<inter> relation_alias ` {n..}" using assms by auto
  ultimately show "set aliases \<inter> relation_alias ` {Suc n..} \<subset> set aliases \<inter> relation_alias ` {n..}"
    by (auto simp: psubset_eq dest: Suc_leD)
qed simp

text \<open>The loop that skips taken aliases; it ends because the list is finite.\<close>

function free_alias :: "string list \<Rightarrow> nat \<Rightarrow> nat" where
  "free_alias aliases n = (if relation_alias n \<in> set aliases then free_alias aliases (Suc n) else n)"
  by pat_completeness auto

termination
  by (relation "measure (\<lambda>(aliases, n). card (set aliases \<inter> relation_alias ` {n..}))")
    (simp_all add: taken_aliases_shrink)

declare free_alias.simps [simp del]

definition createArtifactQueryRelation :: "nat \<Rightarrow> string \<Rightarrow> query_relation list \<Rightarrow> query_relation" where
  "createArtifactQueryRelation index uuid existingRelations =
     (let aliases = map (\<lambda>relation. map to_lower (qr_alias relation)) existingRelations
      in \<lparr>qr_id = uuid, qr_alias = relation_alias (free_alias aliases (index + 1))\<rparr>)"

definition removeArtifactQueryRelation :: "query_relation list \<Rightarrow> string \<Rightarrow> query_relation list" where
  "removeArtifactQueryRelation relations relationId =
     (if length relations \<le> 1 then relations else filter (\<lambda>relation. qr_id relation \<noteq> relationId) relations)"

definition moveArtifactQueryRelation :: "query_relation list \<Rightarrow> string \<Rightarrow> int \<Rightarrow> query_relation list" where
  "moveArtifactQueryRelation relations relationId toIndex =
     move_matching (\<lambda>relation. qr_id relation = relationId) relations toIndex"

definition reconcileArtifactQueryRelationInputPlugs ::
    "workflow_input_plug list \<Rightarrow> query_relation list \<Rightarrow> workflow_input_plug list" where
  "reconcileArtifactQueryRelationInputPlugs inputPlugs relations =
     reconcile_port_plugs inputPlugs
       (map (\<lambda>relation. \<lparr>wp_id = qr_id relation, wp_portName = ARTIFACT_QUERY_RELATIONS_PORT\<rparr>) relations)
       ARTIFACT_QUERY_RELATIONS_PORT"

subsection \<open>Creating node data\<close>

definition relation_json :: "query_relation \<Rightarrow> json" where
  "relation_json relation = JObject [(''id'', JString (qr_id relation)), (''alias'', JString (qr_alias relation))]"

definition idle_execution :: node_execution where
  "idle_execution = \<lparr>ex_status = Idle, ex_error = None\<rparr>"

definition fresh_node_data :: "node_spec \<Rightarrow> workflow_input_plug list \<Rightarrow> js_object \<Rightarrow> workflow_node_data" where
  "fresh_node_data spec inputPlugs config =
     \<lparr>wd_spec = spec, wd_compatibility = Supported, wd_artifactTypeBindings = [], wd_inputPlugs = inputPlugs,
      wd_mappedInputPorts = [], wd_config = config, wd_layout = defaultNodeLayout spec, wd_run = None,
      wd_execution = idle_execution, wd_progress = None, wd_x = JUndefined, wd_y = JUndefined\<rparr>"

definition createWorkflowNodeData :: "(nat \<Rightarrow> string) \<Rightarrow> node_spec \<Rightarrow> input_plug list option \<Rightarrow> workflow_node_data" where
  "createWorkflowNodeData uuids spec savedInputPlugs =
     (let config = defaultNodeConfig spec
      in case savedInputPlugs of
           Some plugs \<Rightarrow>
             fresh_node_data spec (map (\<lambda>plug. \<lparr>wp_id = plug_id plug, wp_portName = plug_port plug\<rparr>) plugs) config
         | None \<Rightarrow>
             (let inputPlugs = initialInputPlugs uuids spec
              in if ns_operator_id spec \<noteq> ARTIFACT_QUERY_OPERATOR_ID then fresh_node_data spec inputPlugs config
                 else let relation = createArtifactQueryRelation 0
                            (case find (\<lambda>plug. wp_portName plug = ARTIFACT_QUERY_RELATIONS_PORT) inputPlugs of
                               Some plug \<Rightarrow> wp_id plug | None \<Rightarrow> uuids (length inputPlugs)) []
                      in fresh_node_data spec (reconcileArtifactQueryRelationInputPlugs inputPlugs [relation])
                           (obj_set ''relations'' (JArray [relation_json relation]) config)))"

subsection \<open>Ports and bindings\<close>

definition portArtifactTypeVariable :: "port \<Rightarrow> string nullish" where
  "portArtifactTypeVariable port = or_null (po_artifact_type_variable port)"

definition portArtifactType :: "port \<Rightarrow> artifact_type_key option" where
  "portArtifactType port = undefined_of (po_artifact_type port)"

definition resolvedPortArtifactType :: "port \<Rightarrow> artifact_type_bindings \<Rightarrow> artifact_type_key option" where
  "resolvedPortArtifactType port bindings =
     (case portArtifactType port of
        Some t \<Rightarrow> Some t
      | None \<Rightarrow> (case non_empty (portArtifactTypeVariable port) of Some v \<Rightarrow> map_of bindings v | None \<Rightarrow> None))"

definition acceptedPortShapes :: "port \<Rightarrow> port_shape list" where
  "acceptedPortShapes port = (if po_accepted_shapes port \<noteq> [] then po_accepted_shapes port else [po_shape port])"

definition portHasInstancePlugs :: "port \<Rightarrow> bool" where
  "portHasInstancePlugs port \<longleftrightarrow> po_direction port = Input \<and> po_instance_plugs port"

text \<open>\<open>portMetaForPort\<close> throws for a port with neither a type nor a variable.\<close>

definition portMetaForPort ::
    "port \<Rightarrow> port_shape \<Rightarrow> string option \<Rightarrow> artifact_type_bindings \<Rightarrow> string + port_meta" where
  "portMetaForPort port shape plugId bindings =
     (let plug = (case plugId of Some p \<Rightarrow> if p = [] then None else Some p | None \<Rightarrow> None)
      in case resolvedPortArtifactType port bindings of
           Some t \<Rightarrow>
             Inr \<lparr>pm_portName = po_name port, pm_type = Concrete t, pm_shape = shape, pm_direction = po_direction port,
                  pm_plugId = plug,
                  pm_alsoAccepts = (case po_also_accepts port of Some ts \<Rightarrow> if ts = [] then None else Some ts | None \<Rightarrow> None),
                  pm_feed = None\<rparr>
         | None \<Rightarrow>
             (case non_empty (portArtifactTypeVariable port) of
                None \<Rightarrow> Inl (''Cannot encode port '' @ po_name port @ '': it has no artifact type or artifact type variable'')
              | Some variable \<Rightarrow>
                  Inr \<lparr>pm_portName = po_name port, pm_type = Generic variable, pm_shape = shape,
                       pm_direction = po_direction port, pm_plugId = plug, pm_alsoAccepts = None, pm_feed = None\<rparr>))"

definition effectivePortShape :: "workflow_node_data \<Rightarrow> port \<Rightarrow> port_shape" where
  "effectivePortShape data port =
     (if wd_mappedInputPorts data = [] then po_shape port
      else if po_direction port = Output then Many
      else if po_name port \<in> set (wd_mappedInputPorts data) then Many
      else po_shape port)"

definition collectionModesForShapes :: "port_shape \<Rightarrow> port \<Rightarrow> port_shape \<Rightarrow> collection_mode list" where
  "collectionModesForShapes sourceShape targetPort targetShape =
     (let instancePlugs = portHasInstancePlugs targetPort
      in (if sourceShape \<in> set (acceptedPortShapes targetPort) \<or> (\<not> instancePlugs \<and> sourceShape = targetShape)
          then [Direct] else [])
         @ (if sourceShape = Many \<and> \<not> instancePlugs
              \<and> ((targetShape = One \<and> Many \<notin> set (acceptedPortShapes targetPort))
                 \<or> (po_shape targetPort = Many \<and> \<not> po_variadic targetPort))
            then [MapItems] else []))"

definition declaredArtifactTypeVariables :: "node_spec \<Rightarrow> string list" where
  "declaredArtifactTypeVariables spec =
     js_set (concat (map (\<lambda>port. case non_empty (portArtifactTypeVariable port) of Some v \<Rightarrow> [v] | None \<Rightarrow> [])
                       (ns_inputs spec @ ns_outputs spec)))"

definition operatorKey :: "string \<Rightarrow> int \<Rightarrow> string" where
  "operatorKey operatorId operatorVersion = operatorId @ ''@'' @ int_text operatorVersion"

text \<open>
  The \<open>in\<close> operator also sees the keys an object inherits from \<open>Object.prototype\<close>.
\<close>

definition object_prototype_keys :: "string list" where
  "object_prototype_keys =
     [''constructor'', ''__defineGetter__'', ''__defineSetter__'', ''hasOwnProperty'', ''__lookupGetter__'',
      ''__lookupSetter__'', ''isPrototypeOf'', ''propertyIsEnumerable'', ''toString'', ''valueOf'', ''__proto__'',
      ''toLocaleString'']"

definition in_object :: "string \<Rightarrow> (string \<times> 'v) list \<Rightarrow> bool" where
  "in_object k obj \<longleftrightarrow> k \<in> fst ` set obj \<or> k \<in> set object_prototype_keys"

definition resetArtifactTypeBinding :: "workflow_node_data \<Rightarrow> string \<Rightarrow> bool \<Rightarrow> workflow_node_data" where
  "resetArtifactTypeBinding data variable hasIncidentEdges =
     (if hasIncidentEdges \<or> \<not> in_object variable (wd_artifactTypeBindings data) then data
      else data\<lparr>wd_artifactTypeBindings := filter (\<lambda>(k, v). k \<noteq> variable) (wd_artifactTypeBindings data),
                wd_run := None, wd_execution := idle_execution, wd_progress := None\<rparr>)"

definition bindArtifactTypeVariable :: "workflow_node_data \<Rightarrow> string \<Rightarrow> artifact_type_key \<Rightarrow> string + workflow_node_data" where
  "bindArtifactTypeVariable data variable artifactType =
     (if variable \<notin> set (declaredArtifactTypeVariables (wd_spec data))
      then Inl (''Cannot bind artifact type variable '' @ variable @ '': it is not declared by ''
                @ operatorKey (ns_operator_id (wd_spec data)) (ns_operator_version (wd_spec data)))
      else Inr (data\<lparr>wd_artifactTypeBindings := obj_set variable artifactType (wd_artifactTypeBindings data)\<rparr>))"

definition updateNodeRun :: "workflow_node_data \<Rightarrow> run_node_result option \<Rightarrow> workflow_node_data" where
  "updateNodeRun data run =
     data\<lparr>wd_run := run,
          wd_execution := (case run of
             Some r \<Rightarrow> \<lparr>ex_status = execution_status_of (rr_status r), ex_error = rr_error r\<rparr>
           | None \<Rightarrow> wd_execution data)\<rparr>"

subsection \<open>Serialisation for a run\<close>

definition serializeInputPlugs :: "workflow_node_data \<Rightarrow> input_plug list" where
  "serializeInputPlugs data = map (\<lambda>plug. \<lparr>plug_id = wp_id plug, plug_port = wp_portName plug\<rparr>) (wd_inputPlugs data)"

definition serializeArtifactTypeBindings :: "locale_compare \<Rightarrow> workflow_node_data \<Rightarrow> artifact_type_binding list" where
  "serializeArtifactTypeBindings compare data =
     map (\<lambda>(variable, t). \<lparr>bind_variable = variable, bind_artifact_type = t\<rparr>)
       (js_sort (\<lambda>left right. compare (fst left) (fst right)) (wd_artifactTypeBindings data))"

definition finite_number :: "json \<Rightarrow> js_number" where
  "finite_number v = (case v of JNumber (Finite r) \<Rightarrow> Finite r | _ \<Rightarrow> Finite 0)"

definition nodePosition :: "workflow_node_data \<Rightarrow> point" where
  "nodePosition data = \<lparr>pt_x = finite_number (wd_x data), pt_y = finite_number (wd_y data)\<rparr>"

definition serializeRunNode ::
    "locale_compare \<Rightarrow> string \<Rightarrow> workflow_node_data \<Rightarrow> string set option \<Rightarrow> string + saved_graph_node" where
  "serializeRunNode compare nodeId data activeInputPlugIds =
     (if \<not> workflowNodeIsSupported data
      then Inl (''Cannot serialize unsupported node '' @ nodeId @ '' (''
                @ operatorKey (ns_operator_id (wd_spec data)) (ns_operator_version (wd_spec data)) @ '') for execution'')
      else Inr
        \<lparr>n_id = nodeId, n_kind = Builtin, n_operator_id = ns_operator_id (wd_spec data),
         n_operator_version = ns_operator_version (wd_spec data), n_config = Defined (wd_config data),
         n_artifact_type_bindings = serializeArtifactTypeBindings compare data,
         n_input_plugs = (case activeInputPlugIds of
             Some active \<Rightarrow> filter (\<lambda>plug. plug_id plug \<in> active) (serializeInputPlugs data)
           | None \<Rightarrow> serializeInputPlugs data),
         n_layout = Undefined, n_position = nodePosition data\<rparr>)"

subsection \<open>Collections\<close>

definition COLLECTION_OPERATOR_ID :: string where
  "COLLECTION_OPERATOR_ID = ''sequence.collect''"

definition COLLECTION_PORT :: string where
  "COLLECTION_PORT = ''items''"

definition isCollectionSpec :: "node_spec option \<Rightarrow> bool" where
  "isCollectionSpec spec = (case spec of Some s \<Rightarrow> ns_operator_id s = COLLECTION_OPERATOR_ID | None \<Rightarrow> False)"

definition isCollectionNode :: "workflow_node \<Rightarrow> bool" where
  "isCollectionNode node \<longleftrightarrow> workflowNodeIsSupported (wn_data node) \<and> isCollectionSpec (Some (wd_spec (wn_data node)))"

end
