(* ===== verification/ConfigSchema.thy ===== *)
theory ConfigSchema
  imports WorkflowNodes
begin

section \<open>Checking a node's configuration against its schema\<close>

text \<open>
  \<^verbatim>\<open>canvas/config-schema.ts\<close>: the configuration of a node is checked against the JSON Schema its
  operator publishes. Every schema the check visits is a part of the root schema, so it is named
  by its place in the root; two places are the same exactly when the code compares the same object
  with itself. \<open>RegExp\<close> and the text of numbers and values are parameters; a key that an object only
  inherits is not read.
\<close>

record schema_platform =
  sp_regex :: "string \<Rightarrow> string \<Rightarrow> bool option"
  sp_number :: "js_number \<Rightarrow> string"
  sp_text :: "json \<Rightarrow> string"

record config_issue =
  ci_fieldName :: "string option"
  ci_message :: string

subsection \<open>Places in a schema\<close>

datatype place_step = Key string | Item nat

fun step_into :: "json \<Rightarrow> place_step \<Rightarrow> json" where
  "step_into (JObject obj) (Key k) = obj_get k obj"
| "step_into (JArray items) (Item n) = (if n < length items then items ! n else JUndefined)"
| "step_into _ _ = JUndefined"

definition json_at :: "json \<Rightarrow> place_step list \<Rightarrow> json" where
  "json_at whole place = foldl step_into whole place"

definition replace_all :: "string \<Rightarrow> string \<Rightarrow> string \<Rightarrow> string" where
  "replace_all old new s = js_join new (js_split old s)"

definition reference_place :: "string \<Rightarrow> place_step list" where
  "reference_place reference =
     map (\<lambda>segment. Key (replace_all ''~0'' ''~'' (replace_all ''~1'' ''/'' segment))) (js_split ''/'' (drop 2 reference))"

text \<open>The schema at a place, read as an object; every place the check visits is one.\<close>

definition schema_obj :: "json \<Rightarrow> place_step list \<Rightarrow> js_object" where
  "schema_obj whole place = (case schemaRecord (json_at whole place) of Some obj \<Rightarrow> obj | None \<Rightarrow> [])"

definition resolveSchema :: "json \<Rightarrow> place_step list \<Rightarrow> place_step list" where
  "resolveSchema whole place =
     (case obj_get ''$ref'' (schema_obj whole place) of
        JString reference \<Rightarrow>
          if \<not> starts_with ''#/'' reference then place
          else if schemaRecord (json_at whole (reference_place reference)) \<noteq> None then reference_place reference
          else place
      | _ \<Rightarrow> place)"

subsection \<open>Values\<close>

definition js_less :: "js_number \<Rightarrow> js_number \<Rightarrow> bool" where
  "js_less x y =
     (case (x, y) of
        (NaN, _) \<Rightarrow> False | (_, NaN) \<Rightarrow> False
      | (Finite a, Finite b) \<Rightarrow> a < b
      | (NegInfinity, NegInfinity) \<Rightarrow> False | (NegInfinity, _) \<Rightarrow> True
      | (_, PosInfinity) \<Rightarrow> x \<noteq> PosInfinity
      | _ \<Rightarrow> False)"

definition js_less_eq :: "js_number \<Rightarrow> js_number \<Rightarrow> bool" where
  "js_less_eq x y \<longleftrightarrow> js_less x y \<or> (x = y \<and> x \<noteq> NaN)"

fun schemaMatchesType :: "json \<Rightarrow> json \<Rightarrow> bool" where
  "schemaMatchesType (JArray types) v = list_ex (\<lambda>candidate. schemaMatchesType candidate v) types"
| "schemaMatchesType (JString t) v =
     (if t = ''null'' then v = JNull
      else if t = ''object'' then schemaRecord v \<noteq> None
      else if t = ''array'' then (case v of JArray _ \<Rightarrow> True | _ \<Rightarrow> False)
      else if t = ''string'' then (case v of JString _ \<Rightarrow> True | _ \<Rightarrow> False)
      else if t = ''boolean'' then (case v of JBool _ \<Rightarrow> True | _ \<Rightarrow> False)
      else if t = ''integer'' then (case v of JNumber n \<Rightarrow> integer_of n \<noteq> None | _ \<Rightarrow> False)
      else if t = ''number'' then (case v of JNumber (Finite _) \<Rightarrow> True | _ \<Rightarrow> False)
      else True)"
| "schemaMatchesType _ v = True"

text \<open>What \<open>JSON.stringify\<close> keeps of a value: two values have the same text exactly when this is the same.\<close>

fun json_norm :: "json \<Rightarrow> json" where
  "json_norm (JArray items) = JArray (map (\<lambda>item. if item = JUndefined then JNull else json_norm item) items)"
| "json_norm (JObject obj) = JObject (map (\<lambda>(k, v). (k, json_norm v)) (filter (\<lambda>(k, v). v \<noteq> JUndefined) obj))"
| "json_norm (JNumber n) = (case n of Finite _ \<Rightarrow> JNumber n | _ \<Rightarrow> JNull)"
| "json_norm v = v"

fun is_object :: "json \<Rightarrow> bool" where
  "is_object (JArray _) = True"
| "is_object (JObject _) = True"
| "is_object _ = False"

definition sameJsonValue :: "json \<Rightarrow> json \<Rightarrow> bool" where
  "sameJsonValue left right \<longleftrightarrow>
     (if is_object left then is_object right \<and> json_norm left = json_norm right else left = right)"

subsection \<open>The check\<close>

definition issue :: "string option \<Rightarrow> string \<Rightarrow> config_issue" where
  "issue fieldName message = \<lparr>ci_fieldName = fieldName, ci_message = message\<rparr>"

text \<open>The branches of one keyword, with the issues each of them reports.\<close>

definition shortest_branch :: "config_issue list list \<Rightarrow> config_issue list" where
  "shortest_branch branchIssues =
     foldl (\<lambda>best current. if length current < length best then current else best)
       (case branchIssues of first # _ \<Rightarrow> first | [] \<Rightarrow> []) branchIssues"

definition keyword_issues :: "string \<Rightarrow> string option \<Rightarrow> config_issue list list \<Rightarrow> config_issue list" where
  "keyword_issues keyword fieldName branchIssues =
     (let matching = filter (\<lambda>branch. branch = []) branchIssues
      in if keyword = ''allOf'' then concat branchIssues
         else if (keyword = ''anyOf'' \<and> matching = []) \<or> (keyword = ''oneOf'' \<and> length matching \<noteq> 1)
         then (if shortest_branch branchIssues \<noteq> [] then shortest_branch branchIssues
               else [issue fieldName ''Value must match exactly one schema.''])
         else [])"

definition literal_issues :: "js_object \<Rightarrow> string option \<Rightarrow> json \<Rightarrow> config_issue list" where
  "literal_issues schema fieldName v =
     (case obj_get ''enum'' schema of
        JArray candidates \<Rightarrow>
          if list_ex (\<lambda>candidate. sameJsonValue candidate v) candidates then []
          else [issue fieldName ''Choose one of the allowed values.'']
      | _ \<Rightarrow> [])
     @ (case map_of schema ''const'' of
          Some c \<Rightarrow> if sameJsonValue c v then [] else [issue fieldName ''Use the required literal value.'']
        | None \<Rightarrow> [])"

definition bound_issue ::
    "schema_platform \<Rightarrow> js_object \<Rightarrow> string option \<Rightarrow> string \<Rightarrow> (js_number \<Rightarrow> bool) \<Rightarrow> string \<Rightarrow> string \<Rightarrow> config_issue list" where
  "bound_issue pf schema fieldName keyword violated before after =
     (case obj_get keyword schema of
        JNumber n \<Rightarrow> if violated n then [issue fieldName (before @ sp_number pf n @ after)] else []
      | _ \<Rightarrow> [])"

definition number_issues :: "schema_platform \<Rightarrow> js_object \<Rightarrow> string option \<Rightarrow> js_number \<Rightarrow> config_issue list" where
  "number_issues pf schema fieldName v =
     bound_issue pf schema fieldName ''minimum'' (\<lambda>n. js_less v n) ''Must be at least '' ''.''
     @ bound_issue pf schema fieldName ''maximum'' (\<lambda>n. js_less n v) ''Must be at most '' ''.''
     @ bound_issue pf schema fieldName ''exclusiveMinimum'' (\<lambda>n. js_less_eq v n) ''Must be greater than '' ''.''
     @ bound_issue pf schema fieldName ''exclusiveMaximum'' (\<lambda>n. js_less_eq n v) ''Must be less than '' ''.''"

definition size_number :: "nat \<Rightarrow> js_number" where
  "size_number n = Finite (of_nat n)"

definition string_issues :: "schema_platform \<Rightarrow> js_object \<Rightarrow> string option \<Rightarrow> string \<Rightarrow> config_issue list" where
  "string_issues pf schema fieldName s =
     bound_issue pf schema fieldName ''minLength'' (\<lambda>n. js_less (size_number (length s)) n) ''Use at least '' '' characters.''
     @ bound_issue pf schema fieldName ''maxLength'' (\<lambda>n. js_less n (size_number (length s))) ''Use at most '' '' characters.''
     @ (case obj_get ''pattern'' schema of
          JString pattern \<Rightarrow>
            (case sp_regex pf pattern s of
               Some True \<Rightarrow> []
             | Some False \<Rightarrow> [issue fieldName ''Value does not match the required format.'']
             | None \<Rightarrow> [issue fieldName ''The schema contains an invalid pattern.''])
        | _ \<Rightarrow> [])"

definition required_names :: "js_object \<Rightarrow> string list" where
  "required_names schema =
     (case obj_get ''required'' schema of
        JArray names \<Rightarrow> List.map_filter (\<lambda>name. case name of JString s \<Rightarrow> Some s | _ \<Rightarrow> None) names
      | _ \<Rightarrow> [])"

definition named :: "string option \<Rightarrow> string \<Rightarrow> string option" where
  "named fieldName name = (case fieldName of Some f \<Rightarrow> Some f | None \<Rightarrow> Some name)"

text \<open>
  The three parts that descend take the check of a part as an argument: \<open>check place value field\<close>.
\<close>

type_synonym part_check = "place_step list \<Rightarrow> json \<Rightarrow> string option \<Rightarrow> config_issue list"

definition branch_issues :: "part_check \<Rightarrow> json \<Rightarrow> place_step list \<Rightarrow> string \<Rightarrow> string option \<Rightarrow> json \<Rightarrow> config_issue list" where
  "branch_issues check whole place keyword fieldName v =
     (case obj_get keyword (schema_obj whole place) of
        JArray branches \<Rightarrow>
          keyword_issues keyword fieldName
            (map (\<lambda>n. if schemaRecord (branches ! n) \<noteq> None then check (place @ [Key keyword, Item n]) v fieldName
                      else [issue fieldName ''Invalid schema branch.'']) [0..<length branches])
      | _ \<Rightarrow> [])"

definition object_issues :: "part_check \<Rightarrow> json \<Rightarrow> place_step list \<Rightarrow> string option \<Rightarrow> js_object \<Rightarrow> config_issue list" where
  "object_issues check whole place fieldName obj =
     (let schema = schema_obj whole place;
          properties = schemaRecord (obj_get ''properties'' schema);
          declared = (case properties of Some ps \<Rightarrow> ps | None \<Rightarrow> [])
      in concat (map (\<lambda>name. if name \<in> fst ` set obj then [] else [issue (Some name) ''This field is required.'']) (required_names schema))
         @ concat (map (\<lambda>(name, property).
              if name \<in> fst ` set obj \<and> schemaRecord property \<noteq> None
              then check (place @ [Key ''properties'', Key name]) (obj_get name obj) (named fieldName name) else []) declared)
         @ concat (map (\<lambda>(name, child).
              if properties \<noteq> None \<and> name \<in> fst ` set declared then []
              else if obj_get ''additionalProperties'' schema = JBool False then [issue (Some name) ''This key is not allowed.'']
              else if schemaRecord (obj_get ''additionalProperties'' schema) \<noteq> None
              then check (place @ [Key ''additionalProperties'']) child (named fieldName name)
              else []) obj))"

definition item_place :: "json \<Rightarrow> place_step list \<Rightarrow> nat \<Rightarrow> place_step list" where
  "item_place whole place n =
     (if json_at whole (place @ [Key ''prefixItems'', Item n]) \<in> {JUndefined, JNull} then place @ [Key ''items'']
      else place @ [Key ''prefixItems'', Item n])"

definition array_issues :: "schema_platform \<Rightarrow> part_check \<Rightarrow> json \<Rightarrow> place_step list \<Rightarrow> string option \<Rightarrow> json list \<Rightarrow> config_issue list" where
  "array_issues pf check whole place fieldName items =
     (let schema = schema_obj whole place
      in bound_issue pf schema fieldName ''minItems'' (\<lambda>n. js_less (size_number (length items)) n) ''Provide at least '' '' items.''
         @ bound_issue pf schema fieldName ''maxItems'' (\<lambda>n. js_less n (size_number (length items))) ''Provide at most '' '' items.''
         @ concat (map (\<lambda>n. if schemaRecord (json_at whole (item_place whole place n)) \<noteq> None
                            then check (item_place whole place n) (items ! n) fieldName else []) [0..<length items]))"

text \<open>
  \<open>configValueIssues\<close> counts its depth up to 64; the first argument is what is left of it, so the
  check ends by itself and 0 is the depth that reports a schema nested too deep.
\<close>

fun configValueIssues :: "nat \<Rightarrow> schema_platform \<Rightarrow> json \<Rightarrow> part_check" where
  "configValueIssues 0 pf whole place v fieldName = [issue fieldName ''Schema nesting is too deep.'']"
| "configValueIssues (Suc left) pf whole place v fieldName =
     (let check = configValueIssues left pf whole;
          schema = schema_obj whole place;
          reference = resolveSchema whole place;
          issues = (if reference \<noteq> place then check reference v fieldName else [])
      in if \<not> schemaMatchesType (obj_get ''type'' schema) v
         then issues @ [issue fieldName (''Expected '' @ sp_text pf (obj_get ''type'' schema) @ ''.'')]
         else issues
              @ concat (map (\<lambda>keyword. branch_issues check whole place keyword fieldName v) [''allOf'', ''anyOf'', ''oneOf''])
              @ literal_issues schema fieldName v
              @ (case v of
                   JNumber n \<Rightarrow> number_issues pf schema fieldName n
                 | JString s \<Rightarrow> string_issues pf schema fieldName s
                 | JObject obj \<Rightarrow> object_issues check whole place fieldName obj
                 | JArray items \<Rightarrow> array_issues pf check whole place fieldName items
                 | _ \<Rightarrow> []))"

definition validateConfig :: "schema_platform \<Rightarrow> json \<Rightarrow> json \<Rightarrow> config_issue list" where
  "validateConfig pf rawSchema config =
     (if schemaRecord rawSchema = None then [] else configValueIssues 65 pf rawSchema [] config None)"

subsection \<open>Fields a person can edit\<close>

record number_tuple_item =
  ti_title :: string
  ti_type :: string
  ti_minimum :: "js_number option"
  ti_maximum :: "js_number option"

record schema_field_base =
  xf_name :: string
  xf_title :: string
  xf_description :: "string option"
  xf_required :: bool
  xf_nullable :: bool

record string_list_constraints =
  sl_minItems :: "js_number option"
  sl_maxItems :: "js_number option"
  sl_itemMinLength :: "js_number option"
  sl_itemMaxLength :: "js_number option"
  sl_itemPattern :: "string option"

record scalar_constraints =
  sc_type :: string
  sc_enumValues :: "json list option"
  sc_textarea :: bool
  sc_sql :: bool
  sc_minimum :: "js_number option"
  sc_maximum :: "js_number option"
  sc_minLength :: "js_number option"
  sc_maxLength :: "js_number option"
  sc_pattern :: "string option"

datatype schema_field =
    ScalarField schema_field_base scalar_constraints
  | NumberTupleField schema_field_base "number_tuple_item list"
  | StringListField schema_field_base string_list_constraints

definition number_value :: "json \<Rightarrow> js_number option" where
  "number_value v = (case v of JNumber n \<Rightarrow> Some n | _ \<Rightarrow> None)"

definition string_value :: "json \<Rightarrow> string option" where
  "string_value v = (case v of JString s \<Rightarrow> Some s | _ \<Rightarrow> None)"

text \<open>A schema that is one value branch or null is edited as the value branch.\<close>

definition editableSchema :: "json \<Rightarrow> place_step list \<Rightarrow> place_step list \<times> bool" where
  "editableSchema whole place =
     (let resolved = resolveSchema whole place
      in case obj_get ''anyOf'' (schema_obj whole resolved) of
           JArray [first, second] \<Rightarrow>
             (case (schemaRecord first, schemaRecord second) of
                (Some a, Some b) \<Rightarrow>
                  (let isNull = (\<lambda>obj. obj_get ''type'' obj = JString ''null'')
                   in if isNull a \<and> \<not> isNull b then (resolveSchema whole (resolved @ [Key ''anyOf'', Item 1]), True)
                      else if isNull b \<and> \<not> isNull a then (resolveSchema whole (resolved @ [Key ''anyOf'', Item 0]), True)
                      else (resolved, False))
              | _ \<Rightarrow> (resolved, False))
         | _ \<Rightarrow> (resolved, False))"

definition tuple_item :: "json \<Rightarrow> place_step list \<Rightarrow> nat \<Rightarrow> json \<Rightarrow> number_tuple_item option" where
  "tuple_item whole place n rawItem =
     (if schemaRecord rawItem = None then None
      else let item = schema_obj whole (resolveSchema whole (place @ [Key ''prefixItems'', Item n]))
           in case obj_get ''type'' item of
                JString t \<Rightarrow>
                  if t \<noteq> ''number'' \<and> t \<noteq> ''integer'' then None
                  else Some \<lparr>ti_title = (case obj_get ''title'' item of JString s \<Rightarrow> s | _ \<Rightarrow> ''Value '' @ decimal (n + 1)),
                             ti_type = t, ti_minimum = number_value (obj_get ''minimum'' item),
                             ti_maximum = number_value (obj_get ''maximum'' item)\<rparr>
              | _ \<Rightarrow> None)"

definition fixedNumberTupleItems :: "json \<Rightarrow> place_step list \<Rightarrow> number_tuple_item list option" where
  "fixedNumberTupleItems whole place =
     (let schema = schema_obj whole place
      in case (obj_get ''prefixItems'' schema, obj_get ''minItems'' schema, obj_get ''maxItems'' schema) of
           (JArray items, JNumber lo, JNumber hi) \<Rightarrow>
             if obj_get ''type'' schema \<noteq> JString ''array'' \<or> integer_of lo = None \<or> integer_of hi = None \<or> lo \<noteq> hi
                \<or> lo \<noteq> size_number (length items) \<or> items = [] then None
             else map_option_list (\<lambda>(n, item). tuple_item whole place n item) (enumerate 0 items)
         | _ \<Rightarrow> None)"

definition stringListConstraints :: "json \<Rightarrow> place_step list \<Rightarrow> string_list_constraints option" where
  "stringListConstraints whole place =
     (let schema = schema_obj whole place
      in if obj_get ''type'' schema \<noteq> JString ''array'' \<or> schemaRecord (obj_get ''items'' schema) = None then None
         else let items = schema_obj whole (resolveSchema whole (place @ [Key ''items'']))
              in if obj_get ''type'' items \<noteq> JString ''string'' then None
                 else Some \<lparr>sl_minItems = number_value (obj_get ''minItems'' schema),
                            sl_maxItems = number_value (obj_get ''maxItems'' schema),
                            sl_itemMinLength = number_value (obj_get ''minLength'' items),
                            sl_itemMaxLength = number_value (obj_get ''maxLength'' items),
                            sl_itemPattern = string_value (obj_get ''pattern'' items)\<rparr>)"

text \<open>The expression \<open>/api.?key|token|secret/i\<close>; a dot does not match a line break.\<close>

definition secret_at :: "string \<Rightarrow> bool" where
  "secret_at s \<longleftrightarrow>
     starts_with ''token'' s \<or> starts_with ''secret'' s \<or> starts_with ''apikey'' s
     \<or> (starts_with ''api'' s \<and> starts_with ''key'' (drop 4 s) \<and> s ! 3 \<notin> {CHR 0x0A, CHR 0x0D})"

fun names_secret :: "string \<Rightarrow> bool" where
  "names_secret [] = False"
| "names_secret (c # s) \<longleftrightarrow> secret_at (map to_lower (c # s)) \<or> names_secret s"

definition enum_values :: "js_object \<Rightarrow> json list option" where
  "enum_values property =
     (case obj_get ''enum'' property of
        JArray values \<Rightarrow> Some (filter (\<lambda>v. string_value v \<noteq> None \<or> number_value v \<noteq> None) values)
      | _ \<Rightarrow> None)"

definition candidate_type :: "js_object \<Rightarrow> string option" where
  "candidate_type property =
     (case obj_get ''type'' property of
        JString t \<Rightarrow> Some t
      | _ \<Rightarrow>
          (case enum_values property of
             None \<Rightarrow> None
           | Some values \<Rightarrow>
               if list_all (\<lambda>v. number_value v \<noteq> None) values then Some ''number''
               else if values \<noteq> [] then Some ''string'' else None))"

definition schema_field_at :: "json \<Rightarrow> string list \<Rightarrow> string \<Rightarrow> json \<Rightarrow> schema_field option" where
  "schema_field_at whole required name rawProperty =
     (if names_secret name \<or> schemaRecord rawProperty = None then None
      else
        let metadataPlace = resolveSchema whole [Key ''properties'', Key name];
            metadata = schema_obj whole metadataPlace;
            (place, nullable) = editableSchema whole metadataPlace;
            property = schema_obj whole place;
            common = \<lparr>xf_name = name,
              xf_title = (case obj_get ''title'' metadata of JString s \<Rightarrow> s | _ \<Rightarrow> replace_all ''_'' '' '' name),
              xf_description = (case obj_get ''description'' metadata of
                  JString s \<Rightarrow> Some s | _ \<Rightarrow> string_value (obj_get ''description'' property)),
              xf_required = name \<in> set required, xf_nullable = nullable\<rparr>
        in case fixedNumberTupleItems whole place of
             Some items \<Rightarrow> Some (NumberTupleField common items)
           | None \<Rightarrow>
               (case stringListConstraints whole place of
                  Some constraints \<Rightarrow> Some (StringListField common constraints)
                | None \<Rightarrow>
                    (case candidate_type property of
                       None \<Rightarrow> None
                     | Some t \<Rightarrow>
                         if t \<notin> {''string'', ''integer'', ''number'', ''boolean''} then None
                         else Some (ScalarField common
                           \<lparr>sc_type = t, sc_enumValues = enum_values property,
                            sc_textarea = (obj_get ''format'' property = JString ''textarea''),
                            sc_sql = (obj_get ''contentMediaType'' property = JString ''application/sql''),
                            sc_minimum = number_value (obj_get ''minimum'' property),
                            sc_maximum = number_value (obj_get ''maximum'' property),
                            sc_minLength = number_value (obj_get ''minLength'' property),
                            sc_maxLength = number_value (obj_get ''maxLength'' property),
                            sc_pattern = string_value (obj_get ''pattern'' property)\<rparr>))))"

definition schemaFields :: "json \<Rightarrow> schema_field list" where
  "schemaFields rawSchema =
     (case schemaRecord rawSchema of
        None \<Rightarrow> []
      | Some schema \<Rightarrow>
          (case schemaRecord (obj_get ''properties'' schema) of
             None \<Rightarrow> []
           | Some properties \<Rightarrow>
               List.map_filter (\<lambda>(name, rawProperty). schema_field_at rawSchema (required_names schema) name rawProperty) properties))"

subsection \<open>What a configuration without issues satisfies\<close>

text \<open>The parts of a schema a value must satisfy whenever it satisfies the schema.\<close>

inductive descends :: "json \<Rightarrow> place_step list \<times> json \<Rightarrow> place_step list \<times> json \<Rightarrow> bool" for whole where
  reference: "resolveSchema whole place \<noteq> place \<Longrightarrow> descends whole (place, v) (resolveSchema whole place, v)"
| all_of: "obj_get ''allOf'' (schema_obj whole place) = JArray branches \<Longrightarrow> n < length branches \<Longrightarrow>
    schemaRecord (branches ! n) \<noteq> None \<Longrightarrow> descends whole (place, v) (place @ [Key ''allOf'', Item n], v)"
| property: "obj_get ''properties'' (schema_obj whole place) = JObject properties \<Longrightarrow> (name, JObject child) \<in> set properties \<Longrightarrow>
    name \<in> fst ` set obj \<Longrightarrow> descends whole (place, JObject obj) (place @ [Key ''properties'', Key name], obj_get name obj)"
| item: "n < length items \<Longrightarrow> schemaRecord (json_at whole (item_place whole place n)) \<noteq> None \<Longrightarrow>
    descends whole (place, JArray items) (item_place whole place n, items ! n)"

definition satisfied_here :: "schema_platform \<Rightarrow> json \<Rightarrow> place_step list \<times> json \<Rightarrow> bool" where
  "satisfied_here pf whole pv =
     (case pv of (place, v) \<Rightarrow>
        let schema = schema_obj whole place
        in schemaMatchesType (obj_get ''type'' schema) v
           \<and> (\<forall>candidates. obj_get ''enum'' schema = JArray candidates \<longrightarrow> (\<exists>c\<in>set candidates. sameJsonValue c v))
           \<and> (\<forall>c. map_of schema ''const'' = Some c \<longrightarrow> sameJsonValue c v)
           \<and> (\<forall>n bound. v = JNumber n \<and> obj_get ''minimum'' schema = JNumber bound \<longrightarrow> \<not> js_less n bound)
           \<and> (\<forall>n bound. v = JNumber n \<and> obj_get ''maximum'' schema = JNumber bound \<longrightarrow> \<not> js_less bound n)
           \<and> (\<forall>s bound. v = JString s \<and> obj_get ''maxLength'' schema = JNumber bound \<longrightarrow> \<not> js_less bound (size_number (length s)))
           \<and> (\<forall>s pattern. v = JString s \<and> obj_get ''pattern'' schema = JString pattern \<longrightarrow> sp_regex pf pattern s = Some True)
           \<and> (\<forall>items bound. v = JArray items \<and> obj_get ''maxItems'' schema = JNumber bound \<longrightarrow> \<not> js_less bound (size_number (length items)))
           \<and> (\<forall>obj. v = JObject obj \<longrightarrow> set (required_names schema) \<subseteq> fst ` set obj
                \<and> (\<forall>properties. obj_get ''additionalProperties'' schema = JBool False \<and> obj_get ''properties'' schema = JObject properties \<longrightarrow>
                     fst ` set obj \<subseteq> fst ` set properties)))"

lemma no_issues_here:
  assumes "configValueIssues (Suc left) pf whole place v fieldName = []"
  shows "schemaMatchesType (obj_get ''type'' (schema_obj whole place)) v"
    and "resolveSchema whole place \<noteq> place \<Longrightarrow> configValueIssues left pf whole (resolveSchema whole place) v fieldName = []"
    and "branch_issues (configValueIssues left pf whole) whole place ''allOf'' fieldName v = []"
    and "literal_issues (schema_obj whole place) fieldName v = []"
    and "v = JNumber n \<Longrightarrow> number_issues pf (schema_obj whole place) fieldName n = []"
    and "v = JString s \<Longrightarrow> string_issues pf (schema_obj whole place) fieldName s = []"
    and "v = JObject obj \<Longrightarrow> object_issues (configValueIssues left pf whole) whole place fieldName obj = []"
    and "v = JArray items \<Longrightarrow> array_issues pf (configValueIssues left pf whole) whole place fieldName items = []"
  using assms by (auto simp: Let_def split: if_splits)

lemma bound_issue_Nil:
  "bound_issue pf schema fieldName keyword violated before after = [] \<longleftrightarrow> (\<forall>n. obj_get keyword schema = JNumber n \<longrightarrow> \<not> violated n)"
  by (auto simp: bound_issue_def split: json.splits)

lemma literal_issues_Nil:
  "literal_issues schema fieldName v = [] \<longleftrightarrow>
     (\<forall>candidates. obj_get ''enum'' schema = JArray candidates \<longrightarrow> (\<exists>c\<in>set candidates. sameJsonValue c v))
     \<and> (\<forall>c. map_of schema ''const'' = Some c \<longrightarrow> sameJsonValue c v)"
  by (auto simp: literal_issues_def list_ex_iff split: json.splits option.splits if_splits)

lemma string_issues_pattern:
  "string_issues pf schema fieldName s = [] \<Longrightarrow> obj_get ''pattern'' schema = JString pattern \<Longrightarrow> sp_regex pf pattern s = Some True"
  by (auto simp: string_issues_def split: option.splits bool.splits)

lemma object_issues_keys:
  assumes "object_issues check whole place fieldName obj = []"
  shows "set (required_names (schema_obj whole place)) \<subseteq> fst ` set obj"
    and "obj_get ''additionalProperties'' (schema_obj whole place) = JBool False \<Longrightarrow>
      obj_get ''properties'' (schema_obj whole place) = JObject properties \<Longrightarrow> fst ` set obj \<subseteq> fst ` set properties"
  using assms by (auto simp: object_issues_def Let_def split: if_splits)

lemma object_issues_property:
  assumes "object_issues check whole place fieldName obj = []" "obj_get ''properties'' (schema_obj whole place) = JObject properties"
    and "(name, JObject child) \<in> set properties" "name \<in> fst ` set obj"
  shows "check (place @ [Key ''properties'', Key name]) (obj_get name obj) (named fieldName name) = []"
proof -
  let ?g = "\<lambda>(name, property). if name \<in> fst ` set obj \<and> schemaRecord property \<noteq> None
              then check (place @ [Key ''properties'', Key name]) (obj_get name obj) (named fieldName name) else []"
  from assms(1,2) have "concat (map ?g properties) = []" by (simp add: object_issues_def Let_def)
  then have "\<forall>x\<in>set properties. ?g x = []" by (simp only: concat_eq_Nil_conv set_map ball_simps)
  from bspec [OF this assms(3)] assms(4) show ?thesis by simp
qed

lemma no_issues_satisfied:
  assumes "configValueIssues (Suc left) pf whole place v fieldName = []"
  shows "satisfied_here pf whole (place, v)"
proof -
  note here = no_issues_here [OF assms]
  let ?s = "schema_obj whole place"
  have "\<not> js_less n bound" if "v = JNumber n" "obj_get ''minimum'' ?s = JNumber bound" for n bound
    using here(5) [OF that(1)] that(2) by (simp add: number_issues_def bound_issue_Nil)
  moreover have "\<not> js_less bound n" if "v = JNumber n" "obj_get ''maximum'' ?s = JNumber bound" for n bound
    using here(5) [OF that(1)] that(2) by (simp add: number_issues_def bound_issue_Nil)
  moreover have "\<not> js_less bound (size_number (length t))" if "v = JString t" "obj_get ''maxLength'' ?s = JNumber bound" for t bound
    using here(6) [OF that(1)] that(2) by (simp add: string_issues_def bound_issue_Nil)
  moreover have "\<not> js_less bound (size_number (length items))" if "v = JArray items" "obj_get ''maxItems'' ?s = JNumber bound" for items bound
    using here(8) [OF that(1)] that(2) by (simp add: array_issues_def Let_def bound_issue_Nil)
  ultimately show ?thesis
    using here(1) here(4) [unfolded literal_issues_Nil] string_issues_pattern [OF here(6)] object_issues_keys [OF here(7)]
    by (simp add: satisfied_here_def Let_def)
qed

lemma no_issues_descends:
  assumes "descends whole (place, v) (place', v')" "configValueIssues (Suc left) pf whole place v fieldName = []"
  shows "\<exists>fieldName'. configValueIssues left pf whole place' v' fieldName' = []"
  using assms(1)
proof cases
  case reference
  with no_issues_here(2) [OF assms(2)] show ?thesis by auto
next
  case (all_of branches n)
  have "branch_issues (configValueIssues left pf whole) whole place ''allOf'' fieldName v = []"
    by (rule no_issues_here(3) [OF assms(2)])
  with all_of have "configValueIssues left pf whole (place @ [Key ''allOf'', Item n]) v fieldName = []"
    by (auto simp: branch_issues_def keyword_issues_def Let_def)
  with all_of show ?thesis by auto
next
  case (property properties name child obj)
  have "object_issues (configValueIssues left pf whole) whole place fieldName obj = []"
    by (rule no_issues_here(7) [OF assms(2)]) (use property in simp)
  from object_issues_property [OF this] property
  have "configValueIssues left pf whole (place @ [Key ''properties'', Key name]) (obj_get name obj) (named fieldName name) = []"
    by blast
  with property show ?thesis by auto
next
  case (item n items)
  have "array_issues pf (configValueIssues left pf whole) whole place fieldName items = []"
    by (rule no_issues_here(8) [OF assms(2)]) (use item in simp)
  with item have "configValueIssues left pf whole (item_place whole place n) (items ! n) fieldName = []"
    by (auto simp: array_issues_def Let_def)
  with item show ?thesis by auto
qed

lemma no_issues_deep:
  "(descends whole ^^ k) (place, v) pv \<Longrightarrow> configValueIssues left pf whole place v fieldName = [] \<Longrightarrow>
     k < left \<and> satisfied_here pf whole pv"
proof (induction k arbitrary: place v left fieldName)
  case 0
  then show ?case using no_issues_satisfied by (cases left) auto
next
  case (Suc k)
  from Suc.prems(1) obtain place' v' where step: "descends whole (place, v) (place', v')" and rest: "(descends whole ^^ k) (place', v') pv"
    using relpowp_Suc_D2 [OF Suc.prems(1)] by auto
  obtain less where left: "left = Suc less" using Suc.prems(2) by (cases left) auto
  from no_issues_descends [OF step Suc.prems(2) [unfolded left]] Suc.IH [OF rest] show ?case by (auto simp: left)
qed


definition demo_schema_platform :: schema_platform where
  "demo_schema_platform = \<lparr>sp_regex = (\<lambda>_ _. Some True), sp_number = (\<lambda>_. ''n''), sp_text = (\<lambda>_. ''t'')\<rparr>"

definition demo_schema :: json where
  "demo_schema = JObject
     [(''type'', JString ''object''),
      (''properties'', JObject [(''mode'', JObject [(''$ref'', JString ''#/$defs/Mode'')])]),
      (''required'', JArray [JString ''mode'']),
      (''$defs'', JObject [(''Mode'', JObject [(''enum'', JArray [JString ''fast'', JString ''safe''])])])]"


end
