(* ===== verification/ExecutionPlan.thy ===== *)
theory ExecutionPlan
  imports ConfigSchema
begin

section \<open>What a run asks for, and whether it may start\<close>

text \<open>
  \<^verbatim>\<open>model/execution-plan.ts\<close>: the nodes and edges a run covers for each scope, the checks made before
  it is requested, and the targets it names. The ancestors of a selection are found by the loop of
  \<open>Worklist\<close>, backwards along the edges.
\<close>

datatype run_scope = ScopeAll | ScopeSelected | ScopeSelectedWithDependencies

record execution_subgraph =
  es_nodeIds :: "string list"
  es_nodes :: "workflow_node list"
  es_edges :: "workflow_edge list"

record missing_input =
  mi_nodeId :: string
  mi_nodeTitle :: string
  mi_portName :: string

record validation_issue =
  vi_nodeId :: "string option"
  vi_message :: string

definition edge_active :: "workflow_edge \<Rightarrow> bool" where
  "edge_active edge = (case wg_data edge of Some data \<Rightarrow> we_enabled data | None \<Rightarrow> True)"

definition originSatisfiesSlot :: "saved_graph_origin \<Rightarrow> string \<Rightarrow> string \<Rightarrow> string option \<Rightarrow> bool" where
  "originSatisfiesSlot origin nodeId portName plugId \<longleftrightarrow>
     o_to_node origin = nodeId \<and> o_to_port origin = portName \<and> undefined_of (o_to_plug origin) = plugId"

definition ancestor_live :: "workflow_node list \<Rightarrow> string \<Rightarrow> workflow_edge \<Rightarrow> bool" where
  "ancestor_live nodes targetNodeId edge \<longleftrightarrow>
     edge_active edge \<and> wg_target edge = targetNodeId \<and> wg_source edge \<in> set (map wn_id nodes)"

definition selectedNodeAndAncestorIds :: "workflow_node list \<Rightarrow> workflow_edge list \<Rightarrow> string list" where
  "selectedNodeAndAncestorIds nodes edges =
     (let selected = js_set (map wn_id (filter wn_selected nodes))
      in worklist (ancestor_live nodes) wg_source edges selected selected)"

definition executionSubgraphFor :: "run_scope \<Rightarrow> workflow_node list \<Rightarrow> workflow_edge list \<Rightarrow> execution_subgraph" where
  "executionSubgraphFor scope nodes edges =
     (let activeEdges = filter edge_active edges;
          nodeIds = (case scope of
              ScopeAll \<Rightarrow> js_set (map wn_id nodes)
            | ScopeSelectedWithDependencies \<Rightarrow> selectedNodeAndAncestorIds nodes activeEdges
            | ScopeSelected \<Rightarrow> js_set (map wn_id (filter wn_selected nodes)))
      in \<lparr>es_nodeIds = nodeIds,
          es_nodes = filter (\<lambda>node. wn_id node \<in> set nodeIds) nodes,
          es_edges = (case scope of
              ScopeAll \<Rightarrow> activeEdges
            | ScopeSelectedWithDependencies \<Rightarrow>
                filter (\<lambda>edge. wg_source edge \<in> set nodeIds \<and> wg_target edge \<in> set nodeIds) activeEdges
            | ScopeSelected \<Rightarrow> filter (\<lambda>edge. wg_target edge \<in> set nodeIds) activeEdges)\<rparr>)"

subsection \<open>Required inputs\<close>

definition plug_fed ::
    "(string \<Rightarrow> js_number) \<Rightarrow> workflow_edge list \<Rightarrow> saved_graph_origin list \<Rightarrow> string \<Rightarrow> string \<Rightarrow> workflow_input_plug \<Rightarrow> bool" where
  "plug_fed number edges origins nodeId portName plug \<longleftrightarrow>
     list_ex (\<lambda>edge. edge_active edge \<and> wg_target edge = nodeId
       \<and> Option.bind (decodeHandleId number (wg_targetHandle edge)) pm_plugId = Some (wp_id plug)) edges
     \<or> list_ex (\<lambda>origin. originSatisfiesSlot origin nodeId portName (Some (wp_id plug))) origins"

definition port_fed ::
    "(string \<Rightarrow> js_number) \<Rightarrow> workflow_edge list \<Rightarrow> saved_graph_origin list \<Rightarrow> string \<Rightarrow> string \<Rightarrow> bool" where
  "port_fed number edges origins nodeId portName \<longleftrightarrow>
     list_ex (\<lambda>edge. edge_active edge \<and> wg_target edge = nodeId
       \<and> map_option pm_portName (decodeHandleId number (wg_targetHandle edge)) = Some portName) edges
     \<or> list_ex (\<lambda>origin. originSatisfiesSlot origin nodeId portName None) origins"

definition missing_at :: "workflow_node \<Rightarrow> string \<Rightarrow> missing_input" where
  "missing_at node portName =
     \<lparr>mi_nodeId = wn_id node, mi_nodeTitle = ns_title (wd_spec (wn_data node)), mi_portName = portName\<rparr>"

definition missing_for_port ::
    "(string \<Rightarrow> js_number) \<Rightarrow> workflow_edge list \<Rightarrow> saved_graph_origin list \<Rightarrow> workflow_node \<Rightarrow> port \<Rightarrow> missing_input list" where
  "missing_for_port number edges origins node port =
     (if portHasInstancePlugs port
      then (if \<not> po_required port then []
            else let plugs = inputPlugsForPort (wd_inputPlugs (wn_data node)) (po_name port);
                     filled = map (plug_fed number edges origins (wn_id node) (po_name port)) plugs
                 in if plugs = [] then [missing_at node (po_name port)]
                    else if isCollectionNode node
                    then (if list_ex (\<lambda>x. x) filled then [] else [missing_at node (po_name port)])
                    else concat (map (\<lambda>(index, plug).
                           if filled ! index then [] else [missing_at node (po_name port @ '' input '' @ decimal (index + 1))])
                           (enumerate 0 plugs)))
      else if \<not> po_required port then []
      else if port_fed number edges origins (wn_id node) (po_name port) then []
      else [missing_at node (po_name port)])"

definition missingRequiredInputsFor ::
    "(string \<Rightarrow> js_number) \<Rightarrow> workflow_node list \<Rightarrow> workflow_edge list \<Rightarrow> saved_graph_origin list \<Rightarrow> missing_input list" where
  "missingRequiredInputsFor number nodes edges origins =
     concat (map (\<lambda>node. concat (map (missing_for_port number edges origins node) (ns_inputs (wd_spec (wn_data node))))) nodes)"

subsection \<open>The checks before a run\<close>

definition compatibility_text :: "workflow_node_data \<Rightarrow> string" where
  "compatibility_text data =
     (case wd_compatibility data of
        Supported \<Rightarrow> ''The node is unavailable.''
      | Incompatible _ issues _ _ _ \<Rightarrow> js_join '' '' issues)"

definition config_issues :: "schema_platform \<Rightarrow> workflow_node \<Rightarrow> config_issue list" where
  "config_issues pf node = validateConfig pf (ns_config_schema (wd_spec (wn_data node))) (JObject (wd_config (wn_data node)))"

fun first_config_issue :: "schema_platform \<Rightarrow> workflow_node list \<Rightarrow> validation_issue option" where
  "first_config_issue pf [] = None"
| "first_config_issue pf (node # nodes) =
     (case config_issues pf node of
        [] \<Rightarrow> first_config_issue pf nodes
      | i # _ \<Rightarrow> Some \<lparr>vi_nodeId = Some (wn_id node),
                       vi_message = ''Cannot run '' @ ns_title (wd_spec (wn_data node)) @ '': '' @ ci_message i\<rparr>)"

definition edge_issues :: "workflow_edge \<Rightarrow> string list" where
  "edge_issues edge = (case Option.bind (wg_data edge) we_compatibilityIssues of Some issues \<Rightarrow> issues | None \<Rightarrow> [])"

definition executionValidationIssue ::
    "(string \<Rightarrow> js_number) \<Rightarrow> schema_platform \<Rightarrow> run_scope \<Rightarrow> workflow_node list \<Rightarrow> workflow_edge list
       \<Rightarrow> saved_graph_origin list \<Rightarrow> validation_issue option" where
  "executionValidationIssue number pf scope executionNodes executionEdges origins =
     (if executionNodes = []
      then Some \<lparr>vi_nodeId = None,
        vi_message = (if scope \<noteq> ScopeAll then ''Select at least one node before running a selection.''
                      else ''Add at least one node before running the workflow.'')\<rparr>
      else case find (\<lambda>node. \<not> workflowNodeIsSupported (wn_data node)) executionNodes of
        Some node \<Rightarrow> Some \<lparr>vi_nodeId = Some (wn_id node),
          vi_message = ''Cannot run '' @ ns_title (wd_spec (wn_data node)) @ '': '' @ compatibility_text (wn_data node)\<rparr>
      | None \<Rightarrow>
          (case first_config_issue pf executionNodes of
             Some i \<Rightarrow> Some i
           | None \<Rightarrow>
               (case find (\<lambda>edge. edge_issues edge \<noteq> [] \<and> wg_source edge \<in> set (map wn_id executionNodes)
                              \<and> wg_target edge \<in> set (map wn_id executionNodes)) executionEdges of
                  Some edge \<Rightarrow> Some \<lparr>vi_nodeId = Some (wg_target edge),
                    vi_message = ''Cannot run connection '' @ wg_id edge @ '': '' @ js_join '' '' (edge_issues edge)\<rparr>
                | None \<Rightarrow>
                    (case missingRequiredInputsFor number executionNodes executionEdges origins of
                       [] \<Rightarrow> None
                     | first # _ \<Rightarrow> Some \<lparr>vi_nodeId = Some (mi_nodeId first),
                         vi_message = mi_nodeTitle first @ ''.'' @ mi_portName first @ '' is required but unconnected in this run.''\<rparr>))))"

definition runTargetsFor :: "execution_subgraph \<Rightarrow> run_target list" where
  "runTargetsFor execution = map (\<lambda>node. \<lparr>rt_node_id = wn_id node, rt_call_path = []\<rparr>) (es_nodes execution)"

end
