(* ===== verification/NodeCommands.thy ===== *)
theory NodeCommands
  imports WorkflowNodes GraphDocument_Facts
begin

section \<open>From canvas gestures to document commands\<close>

text \<open>
  The translation of canvas values into stored ones (\<^verbatim>\<open>canvas/graph-document-adapter.ts\<close>) and the
  gestures on one node (\<^verbatim>\<open>ui/workbench-node-commands.ts\<close>), each a list of the batches it hands to
  the document, with what it tells the rest of the workbench.
\<close>

subsection \<open>Commands that add\<close>

definition saved_plug :: "workflow_input_plug \<Rightarrow> input_plug" where
  "saved_plug plug = \<lparr>plug_id = wp_id plug, plug_port = wp_portName plug\<rparr>"

definition addNodeCommand :: "string \<Rightarrow> workflow_node_data \<Rightarrow> point \<Rightarrow> graph_command" where
  "addNodeCommand nodeId data position = AddNode
     \<lparr>n_id = nodeId, n_kind = Builtin, n_operator_id = ns_operator_id (wd_spec data),
      n_operator_version = ns_operator_version (wd_spec data), n_config = Defined (wd_config data),
      n_artifact_type_bindings =
        map (\<lambda>(variable, t). \<lparr>bind_variable = variable, bind_artifact_type = t\<rparr>) (wd_artifactTypeBindings data),
      n_input_plugs = map saved_plug (wd_inputPlugs data), n_layout = serializeNodeLayout (wd_layout data),
      n_position = \<lparr>pt_x = pt_x position, pt_y = pt_y position\<rparr>\<rparr>"

record node_connection =
  nc_source :: string
  nc_target :: string
  nc_sourceHandle :: "string option"
  nc_targetHandle :: "string option"

definition addEdgeCommand ::
    "(string \<Rightarrow> js_number) \<Rightarrow> node_connection \<Rightarrow> workflow_edge_data option \<Rightarrow> string \<Rightarrow> string + graph_command" where
  "addEdgeCommand number conn data edgeId =
     (case (decodeHandleId number (nc_sourceHandle conn), decodeHandleId number (nc_targetHandle conn)) of
        (Some source, Some target) \<Rightarrow>
          if nc_source conn = [] \<or> nc_target conn = [] \<or> pm_portName source = [] \<or> pm_portName target = []
          then Inl ''Cannot author an edge without typed endpoint handles''
          else Inr (AddEdge
            \<lparr>e_id = edgeId, e_from_node = nc_source conn, e_from_port = pm_portName source,
             e_to_node = nc_target conn, e_to_port = pm_portName target, e_to_plug = null_of (pm_plugId target),
             e_enabled = (case data of Some d \<Rightarrow> we_enabled d | None \<Rightarrow> True),
             e_collection_mode = (case data of Some d \<Rightarrow> we_collectionMode d | None \<Rightarrow> Direct),
             e_projection = null_of (Option.bind data we_projection),
             e_conversion_path = map project_conversion (case Option.bind data we_conversionPath of Some p \<Rightarrow> p | None \<Rightarrow> []),
             e_route_offset = null_of (Option.bind data we_routeOffset)\<rparr>)
      | _ \<Rightarrow> Inl ''Cannot author an edge without typed endpoint handles'')"

subsection \<open>Gestures on one node\<close>

record node_subject =
  sj_id :: string
  sj_config :: js_object
  sj_inputPlugs :: "workflow_input_plug list"

text \<open>
  What a gesture does: the batches it applies, the nodes whose secret states it forgets, and
  whether it clears the pending connection route and the visible run error.
\<close>

record gesture =
  ge_batches :: "graph_command list list"
  ge_forgets :: "string list"
  ge_clears :: bool

definition nothing :: gesture where
  "nothing = \<lparr>ge_batches = [], ge_forgets = [], ge_clears = False\<rparr>"

definition hasIncidentEdges :: "(string \<times> string) list \<Rightarrow> string \<Rightarrow> bool" where
  "hasIncidentEdges edges nodeId = list_ex (\<lambda>(source, target). source = nodeId \<or> target = nodeId) edges"

definition updateConfigurationAndInputPlugs ::
    "node_subject list \<Rightarrow> string \<Rightarrow> workflow_input_plug list \<Rightarrow> (js_object \<Rightarrow> js_object) \<Rightarrow> gesture" where
  "updateConfigurationAndInputPlugs nodes nodeId inputPlugs configuration =
     (case find (\<lambda>candidate. sj_id candidate = nodeId) nodes of
        None \<Rightarrow> nothing
      | Some node \<Rightarrow>
          \<lparr>ge_batches = [[UpdateNodeConfigurationAndInputPlugs nodeId (configuration (sj_config node)) (map saved_plug inputPlugs)]],
           ge_forgets = [], ge_clears = True\<rparr>)"

definition removeNode :: "string \<Rightarrow> gesture" where
  "removeNode nodeId = \<lparr>ge_batches = [[RemoveNodes [nodeId]]], ge_forgets = [nodeId], ge_clears = True\<rparr>"

definition addNodeInputPlug :: "string \<Rightarrow> node_subject list \<Rightarrow> string \<Rightarrow> string \<Rightarrow> gesture" where
  "addNodeInputPlug uuid nodes nodeId portName =
     (case find (\<lambda>candidate. sj_id candidate = nodeId) nodes of
        None \<Rightarrow> nothing
      | Some node \<Rightarrow>
          (case rev (appendInputPlug uuid (sj_inputPlugs node) portName) of
             [] \<Rightarrow> nothing
           | plug # _ \<Rightarrow> nothing\<lparr>ge_batches := [[AddInputPlug nodeId (saved_plug plug)]]\<rparr>))"

definition removeNodeInputPlug :: "string \<Rightarrow> string \<Rightarrow> gesture" where
  "removeNodeInputPlug nodeId plugId = \<lparr>ge_batches = [[RemoveInputPlug nodeId plugId]], ge_forgets = [], ge_clears = True\<rparr>"

definition reorderNodeInputPlug :: "string \<Rightarrow> string \<Rightarrow> string \<Rightarrow> int \<Rightarrow> gesture" where
  "reorderNodeInputPlug nodeId portName plugId toIndex =
     nothing\<lparr>ge_batches := [[ReorderInputPlug nodeId portName plugId toIndex]]\<rparr>"

definition field_json :: "schema_builder_field \<Rightarrow> json" where
  "field_json field = JObject
     ([(''id'', JString (sf_id field)), (''name'', JString (sf_name field)), (''kind'', JString (sf_kind field)),
       (''required'', JBool (sf_required field)), (''description'', JString (sf_description field))]
      @ (case sf_item_kind field of Some k \<Rightarrow> [(''item_kind'', JString k)] | None \<Rightarrow> []))"

definition updateSchemaBuilderFields ::
    "node_subject list \<Rightarrow> string \<Rightarrow> schema_builder_field list \<Rightarrow> workflow_input_plug list \<Rightarrow> gesture" where
  "updateSchemaBuilderFields nodes nodeId rows inputPlugs =
     updateConfigurationAndInputPlugs nodes nodeId inputPlugs (obj_set ''fields'' (JArray (map field_json rows)))"

definition updateArtifactQueryRelations ::
    "node_subject list \<Rightarrow> string \<Rightarrow> query_relation list \<Rightarrow> workflow_input_plug list \<Rightarrow> gesture" where
  "updateArtifactQueryRelations nodes nodeId relations inputPlugs =
     updateConfigurationAndInputPlugs nodes nodeId inputPlugs (obj_set ''relations'' (JArray (map relation_json relations)))"

definition resetNodeArtifactTypeBinding :: "(string \<times> string) list \<Rightarrow> string \<Rightarrow> string \<Rightarrow> gesture" where
  "resetNodeArtifactTypeBinding edges nodeId variable =
     (if hasIncidentEdges edges nodeId then nothing
      else \<lparr>ge_batches = [[ResetArtifactTypeBinding nodeId variable]], ge_forgets = [], ge_clears = True\<rparr>)"

definition bindNodeArtifactTypeBinding :: "(string \<times> string) list \<Rightarrow> string \<Rightarrow> string \<Rightarrow> artifact_type_key \<Rightarrow> gesture" where
  "bindNodeArtifactTypeBinding edges nodeId variable artifactType =
     (if hasIncidentEdges edges nodeId then nothing
      else \<lparr>ge_batches = [[BindArtifactType nodeId variable artifactType]], ge_forgets = [], ge_clears = True\<rparr>)"

subsection \<open>Moving and adding plugs\<close>

lemma refill_same [simp]: "refill P xs (filter P xs) = xs"
  by (induction xs) simp_all

lemma refill_all: "(\<And>x. x \<in> set xs \<Longrightarrow> P x) \<Longrightarrow> length ys = length xs \<Longrightarrow> refill P xs ys = ys"
  by (induction xs arbitrary: ys) (auto split: list.split)

lemma find_index_map: "find_index P (map f xs) = find_index (\<lambda>x. P (f x)) xs"
  by (induction xs) simp_all

lemma find_index_cong: "(\<And>x. x \<in> set xs \<Longrightarrow> P x = Q x) \<Longrightarrow> find_index P xs = find_index Q xs"
  by (induction xs) simp_all

lemma move_to_same: "i < length xs \<Longrightarrow> move_to xs i i = xs"
  by (simp add: move_to_def id_take_nth_drop [symmetric])

lemma move_matching_found:
  assumes "find_index P xs = Some i"
  shows "move_matching P xs k = move_to xs i (clamp_index k (length xs))"
proof -
  have i: "i < length xs" using find_index_Some [OF assms] by blast
  show ?thesis
  proof (cases "length xs < 2")
    case True
    with i have "length xs = 1" "i = 0" by auto
    then show ?thesis using assms move_to_same [OF i] by (simp add: move_matching_def clamp_index_def)
  next
    case False
    then show ?thesis using assms move_to_same [OF i] by (auto simp: move_matching_def Let_def)
  qed
qed

lemma move_to_map: "i < length xs \<Longrightarrow> map f (move_to xs i j) = move_to (map f xs) i j"
  by (simp add: move_to_def take_map drop_map)

lemma length_move_to: "i < length xs \<Longrightarrow> length (move_to xs i j) = length xs"
  by (simp add: move_to_def)

text \<open>When every plug of a node belongs to the same port, the canvas and the document agree on a move.\<close>

lemma reorder_one_port:
  assumes "\<And>plug. plug \<in> set plugs \<Longrightarrow> wp_portName plug = portName" "p \<in> wp_id ` set plugs"
  shows "reorder_plugs (map saved_plug plugs) portName p k = Inr (map saved_plug (reorderInputPlug plugs portName p k))"
proof -
  obtain i where i: "find_index (\<lambda>plug. wp_id plug = p) plugs = Some i"
    using assms(2) find_index_None [of "\<lambda>plug. wp_id plug = p" plugs] by fastforce
  then have len: "i < length plugs" using find_index_Some by blast
  have same: "find_index (\<lambda>plug. plug_id plug = p \<and> plug_port plug = portName) (map saved_plug plugs) = Some i"
    unfolding find_index_map i [symmetric] by (rule find_index_cong) (simp add: saved_plug_def assms(1))
  have plugs: "inputPlugsForPort plugs portName = plugs"
    using assms(1) by (simp add: inputPlugsForPort_def)
  have "reorderInputPlug plugs portName p k = move_to plugs i (clamp_index k (length plugs))"
    using assms(1) len by (simp add: reorderInputPlug_def plugs move_matching_found [OF i] refill_all length_move_to)
  then show ?thesis
    using len by (simp add: reorder_plugs_cases same Let_def move_to_def clamp_index_def nth_map take_map drop_map)
qed

text \<open>
  The document counts the requested index over all plugs of the node. With at least as many plugs of
  other ports in front, a plug lands before every other plug of its own port, whatever index the card
  asked for.
\<close>

lemma find_index_append:
  "find_index P (xs @ ys) = (case find_index P xs of Some i \<Rightarrow> Some i | None \<Rightarrow> map_option (\<lambda>k. length xs + k) (find_index P ys))"
  by (cases "find_index P ys"; induction xs) (auto split: option.split)

lemma reorder_later_port:
  assumes "\<And>plug. plug \<in> set others \<Longrightarrow> wp_portName plug \<noteq> portName" "\<And>plug. plug \<in> set mine \<Longrightarrow> wp_portName plug = portName"
    and "find_index (\<lambda>plug. wp_id plug = p) mine = Some i" "0 \<le> k" "k \<le> int (length others)"
  shows "\<exists>plugs. reorder_plugs (map saved_plug (others @ mine)) portName p k = Inr plugs
    \<and> filter (\<lambda>plug. plug_port plug = portName) plugs
      = map saved_plug (mine ! i # take i mine @ drop (Suc i) mine)"
proof -
  let ?P = "\<lambda>plug. plug_id plug = p \<and> plug_port plug = portName"
  have i: "i < length mine" using find_index_Some [OF assms(3)] by blast
  have none: "find_index ?P (map saved_plug others) = None"
    using assms(1) by (auto simp: find_index_None saved_plug_def)
  have "find_index ?P (map saved_plug mine) = find_index (\<lambda>plug. wp_id plug = p) mine"
    unfolding find_index_map by (rule find_index_cong) (simp add: saved_plug_def assms(2))
  with none assms(3) have found: "find_index ?P (map saved_plug (others @ mine)) = Some (length others + i)"
    by (simp add: find_index_append)
  define j where "j = nat k"
  have j: "nat (max 0 (min k (int (length (others @ mine)) - 1))) = j" "j \<le> length others"
    using assms(4,5) i by (auto simp: j_def)
  have other: "filter (\<lambda>plug. plug_port plug = portName) (map saved_plug xs) = []" if "set xs \<subseteq> set others" for xs
    using that assms(1) by (auto simp: filter_empty_conv saved_plug_def)
  have own: "filter (\<lambda>plug. plug_port plug = portName) (map saved_plug xs) = map saved_plug xs" if "set xs \<subseteq> set mine" for xs
    using that assms(2) by (intro filter_True) (auto simp: saved_plug_def subset_iff)
  have "reorder_plugs (map saved_plug (others @ mine)) portName p k
      = Inr (map saved_plug (take j others @ mine ! i # drop j others @ take i mine @ drop (Suc i) mine))"
    using i j by (simp add: reorder_plugs_cases found [unfolded map_append] Let_def take_map drop_map nth_append)
  moreover have "filter (\<lambda>plug. plug_port plug = portName)
      (map saved_plug (take j others @ mine ! i # drop j others @ take i mine @ drop (Suc i) mine))
      = map saved_plug (mine ! i # take i mine @ drop (Suc i) mine)"
    using other [OF set_take_subset, of j] other [OF set_drop_subset, of j] own [OF set_take_subset, of i]
      own [OF set_drop_subset, of "Suc i"] assms(2) [OF nth_mem [OF i]]
    by (simp add: saved_plug_def)
  ultimately show ?thesis by blast
qed

text \<open>
  A card numbers the plugs of one port, the document all plugs of the node. On a node whose plugs
  all belong to one port the command a card sends moves the plug exactly as the canvas does; on a node
  with another port's plugs in front, as many as the requested index, every such command puts the plug
  first among its port's plugs, also when it was to move down by one.
\<close>

theorem reorder_gesture:
  "((\<forall>plug\<in>set plugs. wp_portName plug = portName) \<and> p \<in> wp_id ` set plugs \<longrightarrow>
      reorder_plugs (map saved_plug plugs) portName p k = Inr (map saved_plug (reorderInputPlug plugs portName p k)))
   \<and> ((\<forall>plug\<in>set others. wp_portName plug \<noteq> portName) \<and> (\<forall>plug\<in>set mine. wp_portName plug = portName)
      \<and> find_index (\<lambda>plug. wp_id plug = p) mine = Some i \<and> 0 \<le> k \<and> k \<le> int (length others) \<longrightarrow>
      (\<exists>saved. reorder_plugs (map saved_plug (others @ mine)) portName p k = Inr saved
        \<and> filter (\<lambda>plug. plug_port plug = portName) saved = map saved_plug (mine ! i # take i mine @ drop (Suc i) mine)))"
  using reorder_one_port [of plugs portName p k] reorder_later_port [of others portName mine p i k] by blast

definition demo_input_plug :: "string \<Rightarrow> string \<Rightarrow> workflow_input_plug" where
  "demo_input_plug name port = \<lparr>wp_id = name, wp_portName = port\<rparr>"

theorem reorder_gesture_witness:
  "reorder_plugs (map saved_plug [demo_input_plug ''b1'' ''b'', demo_input_plug ''b2'' ''b'']) ''b'' ''b1'' 1
      = Inr (map saved_plug [demo_input_plug ''b2'' ''b'', demo_input_plug ''b1'' ''b''])
   \<and> (\<exists>saved. reorder_plugs (map saved_plug [demo_input_plug ''a'' ''a'', demo_input_plug ''b1'' ''b'', demo_input_plug ''b2'' ''b'']) ''b'' ''b1'' 1 = Inr saved
        \<and> filter (\<lambda>plug. plug_port plug = ''b'') saved = map saved_plug [demo_input_plug ''b1'' ''b'', demo_input_plug ''b2'' ''b''])"
  using reorder_gesture [of "[demo_input_plug ''b1'' ''b'', demo_input_plug ''b2'' ''b'']" "''b''" "''b1''" 1
      "[demo_input_plug ''a'' ''a'']" "[demo_input_plug ''b1'' ''b'', demo_input_plug ''b2'' ''b'']" 0]
  by (simp add: demo_input_plug_def reorderInputPlug_def inputPlugsForPort_def move_matching_def clamp_index_def move_to_def)

lemma last_index:
  assumes "xs \<noteq> []" "\<exists>x\<in>set xs. P x"
  shows "\<exists>k. find_last_index P xs = Some k \<and> k < length xs \<and> (k = length xs - 1 \<longleftrightarrow> P (last xs))"
proof -
  obtain y ys where y: "rev xs = y # ys" using assms(1) by (cases "rev xs") auto
  then have last: "y = last xs" by (metis last_rev list.sel(1) rev_rev_ident hd_rev)
  obtain i where i: "find_index P (rev xs) = Some i" using assms(2) find_index_None [of P "rev xs"] by fastforce
  then have "i < length xs" using find_index_Some [OF i] by simp
  moreover have "i = 0 \<longleftrightarrow> P (last xs)" using i unfolding y last by (auto split: if_splits)
  ultimately show ?thesis by (auto simp: find_last_index_def i)
qed

text \<open>
  Adding a plug on a card sends the new plug only when the port has no plug yet or owns the last
  plug of the node; otherwise the command adds a second copy of the node's last plug, which belongs to
  another port.
\<close>

theorem add_plug_gesture:
  assumes "find (\<lambda>candidate. sj_id candidate = nodeId) nodes = Some node"
  shows "addNodeInputPlug uuid nodes nodeId portName = nothing\<lparr>ge_batches :=
    [[AddInputPlug nodeId
        (if inputPlugsForPort (sj_inputPlugs node) portName = [] \<or> wp_portName (last (sj_inputPlugs node)) = portName
         then \<lparr>plug_id = uuid, plug_port = portName\<rparr> else saved_plug (last (sj_inputPlugs node)))]]\<rparr>"
proof (cases "inputPlugsForPort (sj_inputPlugs node) portName = []")
  case True
  then have "find_index (\<lambda>plug. wp_portName plug = portName) (rev (sj_inputPlugs node)) = None"
    by (simp add: inputPlugsForPort_def filter_empty_conv find_index_None)
  with True assms show ?thesis
    by (simp add: addNodeInputPlug_def appendInputPlug_def find_last_index_def createWorkflowInputPlug_def saved_plug_def)
next
  case False
  let ?plugs = "sj_inputPlugs node"
  have some: "?plugs \<noteq> []" "\<exists>plug\<in>set ?plugs. wp_portName plug = portName"
    using False by (auto simp: inputPlugsForPort_def filter_empty_conv)
  from last_index [OF this] obtain k where
    k: "find_last_index (\<lambda>plug. wp_portName plug = portName) ?plugs = Some k" "k < length ?plugs"
      "k = length ?plugs - 1 \<longleftrightarrow> wp_portName (last ?plugs) = portName" by blast
  show ?thesis
  proof (cases "k = length ?plugs - 1")
    case True
    then have "drop (Suc k) ?plugs = []" using k(2) by simp
    with k True assms show ?thesis
      by (simp add: addNodeInputPlug_def appendInputPlug_def createWorkflowInputPlug_def saved_plug_def)
  next
    case last: False
    with k(2) obtain plug rest where tail: "rev (drop (Suc k) ?plugs) = plug # rest" by (cases "rev (drop (Suc k) ?plugs)") auto
    then have "plug = last (drop (Suc k) ?plugs)" by (metis hd_rev list.sel(1))
    then have "plug = last ?plugs" using last k(2) by (simp add: last_drop)
    with k last False tail assms show ?thesis by (simp add: addNodeInputPlug_def appendInputPlug_def)
  qed
qed

theorem add_plug_gesture_witness:
  "ge_batches (addNodeInputPlug ''new''
      [\<lparr>sj_id = ''n'', sj_config = [], sj_inputPlugs = [demo_input_plug ''a1'' ''a'', demo_input_plug ''b1'' ''b'']\<rparr>] ''n'' ''a'')
   = [[AddInputPlug ''n'' \<lparr>plug_id = ''b1'', plug_port = ''b''\<rparr>]]"
proof -
  let ?node = "\<lparr>sj_id = ''n'', sj_config = [], sj_inputPlugs = [demo_input_plug ''a1'' ''a'', demo_input_plug ''b1'' ''b'']\<rparr>"
  have "find (\<lambda>candidate. sj_id candidate = ''n'') [?node] = Some ?node" by simp
  from add_plug_gesture [OF this, of "''new''" "''a''"] show ?thesis
    by (simp add: demo_input_plug_def inputPlugsForPort_def saved_plug_def)
qed

end
