(* ===== verification/SavedGraph.thy ===== *)
theory SavedGraph
  imports NodeCommands
begin

section \<open>Opening a stored graph on the canvas\<close>

text \<open>
  \<^verbatim>\<open>canvas/saved-graph.ts\<close>: a stored graph becomes canvas nodes and edges against the live registry.
  A node that no longer fits its operator stays, marked incompatible and with its stored form kept;
  an edge between two supported nodes must satisfy every rule of the canvas or the whole graph is
  refused. A refusal is the text after the common prefix that quotes the graph's name; an error of
  \<open>portMetaForPort\<close> is not caught. Colours and stroke styles are left out.
\<close>

datatype hydration_error = HydrationError string | PortError string

type_synonym 'a hydration = "hydration_error + 'a"

record hydrated_graph =
  hg_nodes :: "workflow_node list"
  hg_edges :: "workflow_edge list"

subsection \<open>Stored runs\<close>

definition runs_by_node :: "run_node_result list \<Rightarrow> string \<Rightarrow> run_node_result option" where
  "runs_by_node nodeRuns = js_map (map (\<lambda>run. (rr_node_id run, run)) (filter (\<lambda>run. rr_status run = RunSucceeded) nodeRuns))"

definition withMaterializedNodeRuns :: "workflow_node list \<Rightarrow> run_node_result list \<Rightarrow> workflow_node list" where
  "withMaterializedNodeRuns nodes nodeRuns =
     map (\<lambda>node. let run = runs_by_node nodeRuns (wn_id node)
                 in node\<lparr>wn_data := (wn_data node)
                      \<lparr>wd_run := run,
                       wd_execution := (if run = None then idle_execution else \<lparr>ex_status = Succeeded, ex_error = None\<rparr>)\<rparr>\<rparr>) nodes"

subsection \<open>Incompatible nodes\<close>

definition plug_option :: "string nullish \<Rightarrow> string option" where
  "plug_option = non_empty"

definition compatibilityEndpoints ::
    "saved_graph_node \<Rightarrow> saved_graph_edge list \<Rightarrow> compatibility_endpoint list \<times> compatibility_endpoint list" where
  "compatibilityEndpoints savedNode savedEdges =
     (let plugs = foldl (\<lambda>inputs plug.
            obj_set (plug_port plug @ ''::'' @ plug_id plug) \<lparr>ce_portName = plug_port plug, ce_plugId = Some (plug_id plug)\<rparr> inputs)
            [] (n_input_plugs savedNode);
          inputs = foldl (\<lambda>inputs edge.
            if e_to_node edge = n_id savedNode
            then obj_set (e_to_port edge @ ''::'' @ nullish_or (e_to_plug edge) [])
                   \<lparr>ce_portName = e_to_port edge, ce_plugId = plug_option (e_to_plug edge)\<rparr> inputs
            else inputs) plugs savedEdges;
          outputs = foldl (\<lambda>outputs edge.
            if e_from_node edge = n_id savedNode
            then obj_set (e_from_port edge) \<lparr>ce_portName = e_from_port edge, ce_plugId = None\<rparr> outputs
            else outputs) [] savedEdges
      in (map snd inputs, map snd outputs))"

definition unavailableNodeSpec :: "saved_graph_node \<Rightarrow> node_spec" where
  "unavailableNodeSpec savedNode =
     \<lparr>ns_operator_id = n_operator_id savedNode, ns_operator_version = n_operator_version savedNode,
      ns_plugin_slug = ''unavailable'', ns_title = n_operator_id savedNode,
      ns_description = ''Saved operator '' @ operatorKey (n_operator_id savedNode) (n_operator_version savedNode)
        @ '' is not available in the live registry.'',
      ns_catalog_visible = False, ns_runnable = False, ns_config_schema = JObject [], ns_inputs = [], ns_outputs = [],
      ns_secret_inputs = JUndefined\<rparr>"

definition no_uuids :: "nat \<Rightarrow> string" where
  "no_uuids n = []"

definition stored_bindings :: "artifact_type_binding list \<Rightarrow> artifact_type_bindings" where
  "stored_bindings bindings = foldl (\<lambda>found binding. obj_set (bind_variable binding) (bind_artifact_type binding) found) [] bindings"

definition incompatibleNodeData ::
    "saved_graph_node \<Rightarrow> saved_graph_edge list \<Rightarrow> incompatible_status \<Rightarrow> string list \<Rightarrow> node_spec \<Rightarrow> workflow_node_data" where
  "incompatibleNodeData savedNode savedEdges status issues spec =
     (let endpoints = compatibilityEndpoints savedNode savedEdges
      in (createWorkflowNodeData no_uuids spec (Some (n_input_plugs savedNode)))
           \<lparr>wd_compatibility := Incompatible status issues (fst endpoints) (snd endpoints) savedNode,
            wd_artifactTypeBindings := stored_bindings (n_artifact_type_bindings savedNode),
            wd_config := nullish_or (n_config savedNode) [],
            wd_layout := hydrateNodeLayout (n_layout savedNode)\<rparr>)"

subsection \<open>What a stored node must satisfy\<close>

fun require_bindings ::
    "string \<Rightarrow> string list \<Rightarrow> string list \<Rightarrow> artifact_type_binding list \<Rightarrow> artifact_type_bindings \<Rightarrow> artifact_type_bindings hydration" where
  "require_bindings nodeId declared registryTypes [] bindings = Inr bindings"
| "require_bindings nodeId declared registryTypes (binding # rest) bindings =
     (let variable = bind_variable binding; bindingKey = artifactTypeKey (bind_artifact_type binding)
      in if variable \<notin> set declared
         then Inl (HydrationError (''node '' @ nodeId @ '' binds undeclared artifact type variable '' @ variable))
         else if in_object variable bindings
         then Inl (HydrationError (''node '' @ nodeId @ '' binds artifact type variable '' @ variable @ '' more than once''))
         else if bindingKey \<notin> set registryTypes
         then Inl (HydrationError (''node '' @ nodeId @ '' binds unavailable artifact type '' @ bindingKey))
         else require_bindings nodeId declared registryTypes rest (obj_set variable (bind_artifact_type binding) bindings))"

definition requireArtifactTypeBindings ::
    "saved_graph_node \<Rightarrow> node_spec \<Rightarrow> node_registry \<Rightarrow> artifact_type_bindings hydration" where
  "requireArtifactTypeBindings savedNode spec registry =
     require_bindings (n_id savedNode) (declaredArtifactTypeVariables spec)
       (map (\<lambda>artifact. artifactTypeKey (ats_key artifact)) (nr_artifact_types registry))
       (n_artifact_type_bindings savedNode) []"

fun require_plugs :: "string \<Rightarrow> node_spec \<Rightarrow> input_plug list \<Rightarrow> string list \<Rightarrow> unit hydration" where
  "require_plugs nodeId spec [] plugIds = Inr ()"
| "require_plugs nodeId spec (plug # rest) plugIds =
     (case find (\<lambda>candidate. po_name candidate = plug_port plug) (ns_inputs spec) of
        None \<Rightarrow> Inl (HydrationError (''node '' @ nodeId @ '' input plug '' @ plug_id plug @ '' references non-instance input '' @ plug_port plug))
      | Some port \<Rightarrow>
          if \<not> portHasInstancePlugs port
          then Inl (HydrationError (''node '' @ nodeId @ '' input plug '' @ plug_id plug @ '' references non-instance input '' @ plug_port plug))
          else if plug_id plug \<in> set plugIds
          then Inl (HydrationError (''node '' @ nodeId @ '' has duplicate input plug id '' @ plug_id plug))
          else require_plugs nodeId spec rest (plugIds @ [plug_id plug]))"

definition requireInputPlugs :: "saved_graph_node \<Rightarrow> node_spec \<Rightarrow> input_plug list hydration" where
  "requireInputPlugs savedNode spec =
     bind_result (require_plugs (n_id savedNode) spec (n_input_plugs savedNode) []) (\<lambda>_. Inr (n_input_plugs savedNode))"

definition supportedNodeData :: "saved_graph_node \<Rightarrow> node_spec \<Rightarrow> node_registry \<Rightarrow> workflow_node_data hydration" where
  "supportedNodeData savedNode spec registry =
     bind_result (requireInputPlugs savedNode spec) (\<lambda>inputPlugs.
     bind_result (requireArtifactTypeBindings savedNode spec registry) (\<lambda>bindings.
       let config = nullish_or (n_config savedNode) []
       in Inr ((createWorkflowNodeData no_uuids spec (Some inputPlugs))
            \<lparr>wd_artifactTypeBindings := bindings, wd_config := config,
             wd_spec := resolveInstancePortShapes spec config,
             wd_layout := (case hydrateNodeLayout (n_layout savedNode) of
                Some layout \<Rightarrow> Some layout | None \<Rightarrow> defaultNodeLayout spec)\<rparr>)))"

definition hydrate_node_data ::
    "saved_graph_edge list \<Rightarrow> node_registry \<Rightarrow> saved_graph_node \<Rightarrow> workflow_node_data hydration" where
  "hydrate_node_data savedEdges registry savedNode =
     (let operatorIdentity = operatorKey (n_operator_id savedNode) (n_operator_version savedNode);
          specs = js_map (map (\<lambda>spec. (operatorKey (ns_operator_id spec) (ns_operator_version spec), spec)) (nr_nodes registry))
      in if n_kind savedNode = Module
         then Inr (incompatibleNodeData savedNode savedEdges Unsupported
           [''Operator '' @ operatorIdentity @ '' is a Module, a node type that is no longer supported. This saved node is preserved but cannot run.'']
           (unavailableNodeSpec savedNode))
         else case specs operatorIdentity of
           None \<Rightarrow> Inr (incompatibleNodeData savedNode savedEdges Unsupported
             [''Operator '' @ operatorIdentity @ '' is unavailable. This saved node is preserved but cannot run.'']
             (unavailableNodeSpec savedNode))
         | Some spec \<Rightarrow>
             (case supportedNodeData savedNode spec registry of
                Inr data \<Rightarrow> Inr data
              | Inl (HydrationError issue) \<Rightarrow> Inr (incompatibleNodeData savedNode savedEdges Invalid [issue] spec)
              | Inl err \<Rightarrow> Inl err))"

fun hydrate_nodes ::
    "saved_graph_edge list \<Rightarrow> node_registry \<Rightarrow> saved_graph_node list \<Rightarrow> string list \<Rightarrow> workflow_node list hydration" where
  "hydrate_nodes savedEdges registry [] nodeIds = Inr []"
| "hydrate_nodes savedEdges registry (savedNode # rest) nodeIds =
     (if n_id savedNode \<in> set nodeIds then Inl (HydrationError (''duplicate node id '' @ n_id savedNode))
      else bind_result (hydrate_node_data savedEdges registry savedNode) (\<lambda>data.
           bind_result (hydrate_nodes savedEdges registry rest (nodeIds @ [n_id savedNode])) (\<lambda>nodes.
             Inr (\<lparr>wn_id = n_id savedNode,
                   wn_position = \<lparr>pt_x = pt_x (n_position savedNode), pt_y = pt_y (n_position savedNode)\<rparr>,
                   wn_selected = False, wn_data = data\<rparr> # nodes))))"

subsection \<open>Removed ports\<close>

text \<open>Nodes are found by id; ids are distinct once \<open>hydrate_nodes\<close> has returned.\<close>

definition node_by_id :: "workflow_node list \<Rightarrow> string \<Rightarrow> workflow_node option" where
  "node_by_id nodes = js_map (map (\<lambda>node. (wn_id node, node)) nodes)"

definition set_node_data :: "workflow_node list \<Rightarrow> string \<Rightarrow> workflow_node_data \<Rightarrow> workflow_node list" where
  "set_node_data nodes nodeId data = map (\<lambda>node. if wn_id node = nodeId then node\<lparr>wn_data := data\<rparr> else node) nodes"

text \<open>One end of a stored edge whose port the node's operator no longer has makes the node invalid.\<close>

definition invalidate_end ::
    "saved_graph_document \<Rightarrow> (node_spec \<Rightarrow> port list) \<Rightarrow> string \<Rightarrow> string \<Rightarrow> string \<Rightarrow> workflow_node list \<Rightarrow> workflow_node list" where
  "invalidate_end document ports nodeId portName issue nodes =
     (case node_by_id nodes nodeId of
        None \<Rightarrow> nodes
      | Some node \<Rightarrow>
          if workflowNodeIsSupported (wn_data node) \<and> \<not> list_ex (\<lambda>port. po_name port = portName) (ports (wd_spec (wn_data node)))
          then (case js_map (map (\<lambda>saved. (n_id saved, saved)) (sd_nodes document)) nodeId of
                  None \<Rightarrow> nodes
                | Some savedNode \<Rightarrow>
                    set_node_data nodes nodeId
                      (incompatibleNodeData savedNode (sd_edges document) Invalid [issue] (wd_spec (wn_data node))))
          else nodes)"

definition invalidate_ends :: "saved_graph_document \<Rightarrow> workflow_node list \<Rightarrow> saved_graph_edge \<Rightarrow> workflow_node list" where
  "invalidate_ends document nodes edge =
     (if node_by_id nodes (e_from_node edge) = None \<or> node_by_id nodes (e_to_node edge) = None then nodes
      else invalidate_end document ns_inputs (e_to_node edge) (e_to_port edge)
             (''Saved connection '' @ e_id edge @ '' references removed input '' @ e_to_port edge @ ''.'')
             (invalidate_end document ns_outputs (e_from_node edge) (e_from_port edge)
               (''Saved connection '' @ e_id edge @ '' references removed output '' @ e_from_port edge @ ''.'') nodes))"

subsection \<open>Mapped inputs\<close>

text \<open>The map edge of an input is remembered with its place in the list, which stands for its identity.\<close>

type_synonym map_edges = "(string \<times> string) \<Rightarrow> (nat \<times> saved_graph_edge) option"

fun collect_map_edges :: "(nat \<times> saved_graph_edge) list \<Rightarrow> map_edges \<Rightarrow> map_edges hydration" where
  "collect_map_edges [] mapped = Inr mapped"
| "collect_map_edges ((n, edge) # rest) mapped =
     (if e_collection_mode edge \<noteq> MapItems then collect_map_edges rest mapped
      else case mapped (e_to_node edge, e_to_port edge) of
             Some (_, existing) \<Rightarrow> Inl (HydrationError
               (''node '' @ e_to_node edge @ '' has more than one map edge into input '' @ e_to_port edge @ '': '' @ e_id existing
                @ '' targets input '' @ e_to_port existing @ '' and '' @ e_id edge @ '' targets input '' @ e_to_port edge
                @ ''; only one edge per input may drive mapped execution''))
           | None \<Rightarrow> collect_map_edges rest (mapped((e_to_node edge, e_to_port edge) \<mapsto> (n, edge))))"

definition mapped_node_ids :: "saved_graph_document \<Rightarrow> string list" where
  "mapped_node_ids document =
     map e_to_node (filter (\<lambda>edge. e_collection_mode edge = MapItems) (sd_edges document))
     @ map o_to_node (filter (\<lambda>origin. o_collection_mode origin = MapItems) (sd_origins document))"

subsection \<open>Edges\<close>

definition requireEdgeEndpoint :: "workflow_node list \<Rightarrow> saved_graph_edge \<Rightarrow> (workflow_node \<times> workflow_node) hydration" where
  "requireEdgeEndpoint nodes edge =
     (case node_by_id nodes (e_from_node edge) of
        None \<Rightarrow> Inl (HydrationError (''edge '' @ e_id edge @ '' references missing source node '' @ e_from_node edge))
      | Some sourceNode \<Rightarrow>
          (case node_by_id nodes (e_to_node edge) of
             None \<Rightarrow> Inl (HydrationError (''edge '' @ e_id edge @ '' references missing target node '' @ e_to_node edge))
           | Some targetNode \<Rightarrow> Inr (sourceNode, targetNode)))"

definition port_handle :: "port \<Rightarrow> port_shape \<Rightarrow> string option \<Rightarrow> workflow_node_data \<Rightarrow> string hydration" where
  "port_handle port shape plugId data =
     (case portMetaForPort port shape plugId (wd_artifactTypeBindings data) of
        Inl err \<Rightarrow> Inl (PortError err)
      | Inr meta \<Rightarrow> Inr (encodeHandleId meta))"

definition connectionRouteIsValid ::
    "(string \<Rightarrow> js_number) \<Rightarrow> saved_graph_edge \<Rightarrow> workflow_node_data \<Rightarrow> workflow_node_data \<Rightarrow> node_registry \<Rightarrow> bool hydration" where
  "connectionRouteIsValid number edge sourceData targetData registry =
     (case (find (\<lambda>port. po_name port = e_from_port edge) (ns_outputs (wd_spec sourceData)),
            find (\<lambda>port. po_name port = e_to_port edge) (ns_inputs (wd_spec targetData))) of
        (Some sourcePort, Some targetPort) \<Rightarrow>
          bind_result (port_handle sourcePort (po_shape sourcePort) None sourceData) (\<lambda>sourceHandle.
          bind_result (port_handle targetPort (po_shape targetPort) (undefined_of (e_to_plug edge)) targetData) (\<lambda>targetHandle.
            Inr (connectionRouteForSelection number
                   \<lparr>cn_sourceHandle = Some sourceHandle, cn_targetHandle = Some targetHandle\<rparr>
                   (nr_artifact_types registry) (nr_artifact_conversions registry)
                   \<lparr>rs_projection = undefined_of (e_projection edge), rs_conversionPath = e_conversion_path edge\<rparr> \<noteq> None)))
      | _ \<Rightarrow> Inr False)"

fun node_issues :: "workflow_node \<Rightarrow> string list" where
  "node_issues node =
     (case wd_compatibility (wn_data node) of
        Supported \<Rightarrow> []
      | Incompatible _ issues _ _ _ \<Rightarrow> map (\<lambda>issue. wn_id node @ '': '' @ issue) issues)"

text \<open>The two handles of an edge with at least one incompatible end.\<close>

definition incompatible_handles ::
    "string list \<Rightarrow> saved_graph_edge \<Rightarrow> workflow_node \<Rightarrow> workflow_node \<Rightarrow> port option \<Rightarrow> port option \<Rightarrow> (string \<times> string) hydration" where
  "incompatible_handles mappedNodeIds edge sourceNode targetNode sourcePort targetPort =
     bind_result (case sourcePort of
         Some port \<Rightarrow> port_handle port (if wn_id sourceNode \<in> set mappedNodeIds then Many else po_shape port) None (wn_data sourceNode)
       | None \<Rightarrow> Inr (compatibilityHandleId Output \<lparr>ce_portName = e_from_port edge, ce_plugId = None\<rparr>)) (\<lambda>sourceHandle.
     bind_result (case targetPort of
         Some port \<Rightarrow> port_handle port (po_shape port) (undefined_of (e_to_plug edge)) (wn_data targetNode)
       | None \<Rightarrow> Inr (compatibilityHandleId Input \<lparr>ce_portName = e_to_port edge, ce_plugId = plug_option (e_to_plug edge)\<rparr>)) (\<lambda>targetHandle.
       Inr (sourceHandle, targetHandle)))"

text \<open>The plug rule of an edge into a supported node; it returns the occupied plugs after it.\<close>

definition claim_plug ::
    "saved_graph_edge \<Rightarrow> workflow_node \<Rightarrow> port \<Rightarrow> string list \<Rightarrow> string list hydration" where
  "claim_plug edge targetNode targetPort occupied =
     (if portHasInstancePlugs targetPort
      then (case find (\<lambda>plug. Defined (wp_id plug) = e_to_plug edge \<and> wp_portName plug = po_name targetPort) (wd_inputPlugs (wn_data targetNode)) of
              None \<Rightarrow> Inl (HydrationError (''edge '' @ e_id edge @ '' references missing input plug '' @ nullish_or (e_to_plug edge) ''null''))
            | Some plug \<Rightarrow>
                (let plugKey = wn_id targetNode @ ''::'' @ wp_id plug
                 in if plugKey \<in> set occupied
                    then Inl (HydrationError (''multiple edges target input plug '' @ wp_id plug @ '' on node '' @ wn_id targetNode))
                    else Inr (occupied @ [plugKey])))
      else (case e_to_plug edge of
              Defined p \<Rightarrow> Inl (HydrationError (''edge '' @ e_id edge @ '' assigns input plug '' @ p @ '' to non-instance input '' @ po_name targetPort))
            | _ \<Rightarrow> Inr occupied))"

definition mode_text :: "collection_mode \<Rightarrow> string" where
  "mode_text mode = (case mode of Direct \<Rightarrow> ''direct'' | MapItems \<Rightarrow> ''map'')"

definition quoted :: "string \<Rightarrow> string" where
  "quoted s = CHR 39 # s @ [CHR 39]"

definition check_mode :: "saved_graph_edge \<Rightarrow> port_shape \<Rightarrow> port \<Rightarrow> port_shape \<Rightarrow> unit hydration" where
  "check_mode edge sourceShape targetPort targetShape =
     (let expected = collectionModesForShapes sourceShape targetPort targetShape
      in if e_collection_mode edge \<in> set expected then Inr ()
         else Inl (HydrationError (''edge '' @ e_id edge @ '' uses collection mode '' @ quoted (mode_text (e_collection_mode edge))
                @ '' for source shape '' @ quoted (shape_text sourceShape) @ '' and target shape '' @ quoted (shape_text targetShape)
                @ '', expected ''
                @ (if expected \<noteq> [] then js_join '' or '' (map (\<lambda>mode. quoted (mode_text mode)) expected)
                   else ''no supported collection mode''))))"

definition source_shape :: "string list \<Rightarrow> workflow_node \<Rightarrow> port \<Rightarrow> port_shape" where
  "source_shape mappedNodeIds sourceNode sourcePort =
     (if wn_id sourceNode \<in> set mappedNodeIds then Many else po_shape sourcePort)"

definition target_shape :: "map_edges \<Rightarrow> nat \<Rightarrow> workflow_node \<Rightarrow> port \<Rightarrow> port_shape" where
  "target_shape mapEdges n targetNode targetPort =
     (case mapEdges (wn_id targetNode, po_name targetPort) of
        Some (m, other) \<Rightarrow> if m \<noteq> n \<and> e_to_port other = po_name targetPort then Many else po_shape targetPort
      | None \<Rightarrow> po_shape targetPort)"

text \<open>An edge between two supported nodes: its handles and the occupied plugs after it.\<close>

definition supported_edge ::
    "(string \<Rightarrow> js_number) \<Rightarrow> node_registry \<Rightarrow> map_edges \<Rightarrow> string list \<Rightarrow> nat \<Rightarrow> saved_graph_edge \<Rightarrow> workflow_node
       \<Rightarrow> workflow_node \<Rightarrow> port \<Rightarrow> port \<Rightarrow> string list \<Rightarrow> (string \<times> string \<times> string list) hydration" where
  "supported_edge number registry mapEdges mappedNodeIds n edge sourceNode targetNode sourcePort targetPort occupied =
     bind_result (claim_plug edge targetNode targetPort occupied) (\<lambda>occupied1.
     let sourceShape = source_shape mappedNodeIds sourceNode sourcePort
     in bind_result (check_mode edge sourceShape targetPort (target_shape mapEdges n targetNode targetPort)) (\<lambda>_.
     bind_result (connectionRouteIsValid number edge (wn_data sourceNode) (wn_data targetNode) registry) (\<lambda>valid.
       if \<not> valid then Inl (HydrationError (''edge '' @ e_id edge @ '' has an incompatible artifact route''))
       else bind_result (port_handle sourcePort sourceShape None (wn_data sourceNode)) (\<lambda>sourceHandle.
            bind_result (port_handle targetPort (po_shape targetPort) (undefined_of (e_to_plug edge)) (wn_data targetNode)) (\<lambda>targetHandle.
              Inr (sourceHandle, targetHandle, occupied1))))))"

definition hydrated_edge :: "saved_graph_edge \<Rightarrow> string \<Rightarrow> string \<Rightarrow> string list \<Rightarrow> workflow_edge" where
  "hydrated_edge edge sourceHandle targetHandle issues =
     \<lparr>wg_id = e_id edge, wg_source = e_from_node edge, wg_sourceHandle = Some sourceHandle,
      wg_target = e_to_node edge, wg_targetHandle = Some targetHandle,
      wg_data = Some
        \<lparr>we_enabled = e_enabled edge, we_collectionMode = e_collection_mode edge,
         we_projection = undefined_of (e_projection edge),
         we_conversionPath = Some (map project_conversion (e_conversion_path edge)),
         we_routeOffset = undefined_of (e_route_offset edge),
         we_sourcePortName = Some (e_from_port edge), we_targetPortName = Some (e_to_port edge),
         we_targetPlugId = or_null (e_to_plug edge),
         we_compatibilityIssues = (if issues = [] then None else Some issues)\<rparr>\<rparr>"

definition supported_port :: "workflow_node \<Rightarrow> (node_spec \<Rightarrow> port list) \<Rightarrow> string \<Rightarrow> port option" where
  "supported_port node ports portName =
     (if workflowNodeIsSupported (wn_data node) then find (\<lambda>port. po_name port = portName) (ports (wd_spec (wn_data node))) else None)"

definition hydrate_edge ::
    "(string \<Rightarrow> js_number) \<Rightarrow> node_registry \<Rightarrow> workflow_node list \<Rightarrow> map_edges \<Rightarrow> string list \<Rightarrow> nat \<Rightarrow> saved_graph_edge
       \<Rightarrow> string list \<Rightarrow> (workflow_edge \<times> string list) hydration" where
  "hydrate_edge number registry nodes mapEdges mappedNodeIds n edge occupied =
     bind_result (requireEdgeEndpoint nodes edge) (\<lambda>(sourceNode, targetNode).
       let sourceSupported = workflowNodeIsSupported (wn_data sourceNode);
           targetSupported = workflowNodeIsSupported (wn_data targetNode);
           sourcePort = supported_port sourceNode ns_outputs (e_from_port edge);
           targetPort = supported_port targetNode ns_inputs (e_to_port edge)
       in if sourceSupported \<and> sourcePort = None
          then Inl (HydrationError (''edge '' @ e_id edge @ '' references missing output ''
                 @ ns_operator_id (wd_spec (wn_data sourceNode)) @ ''.'' @ e_from_port edge))
          else if targetSupported \<and> targetPort = None
          then Inl (HydrationError (''edge '' @ e_id edge @ '' references missing input ''
                 @ ns_operator_id (wd_spec (wn_data targetNode)) @ ''.'' @ e_to_port edge))
          else case (sourcePort, targetPort) of
            (Some sp, Some tp) \<Rightarrow>
              bind_result (supported_edge number registry mapEdges mappedNodeIds n edge sourceNode targetNode sp tp occupied)
                (\<lambda>(sourceHandle, targetHandle, occupied1). Inr (hydrated_edge edge sourceHandle targetHandle [], occupied1))
          | _ \<Rightarrow>
              bind_result (incompatible_handles mappedNodeIds edge sourceNode targetNode sourcePort targetPort)
                (\<lambda>(sourceHandle, targetHandle).
                   Inr (hydrated_edge edge sourceHandle targetHandle (node_issues sourceNode @ node_issues targetNode), occupied)))"

fun hydrate_edges ::
    "(string \<Rightarrow> js_number) \<Rightarrow> node_registry \<Rightarrow> workflow_node list \<Rightarrow> map_edges \<Rightarrow> string list
       \<Rightarrow> (nat \<times> saved_graph_edge) list \<Rightarrow> string list \<Rightarrow> string list \<Rightarrow> workflow_edge list hydration" where
  "hydrate_edges number registry nodes mapEdges mappedNodeIds [] edgeIds occupied = Inr []"
| "hydrate_edges number registry nodes mapEdges mappedNodeIds ((n, edge) # rest) edgeIds occupied =
     (if e_id edge \<in> set edgeIds then Inl (HydrationError (''duplicate edge id '' @ e_id edge))
      else bind_result (hydrate_edge number registry nodes mapEdges mappedNodeIds n edge occupied) (\<lambda>(canvasEdge, occupied1).
           bind_result (hydrate_edges number registry nodes mapEdges mappedNodeIds rest (edgeIds @ [e_id edge]) occupied1) (\<lambda>canvasEdges.
             Inr (canvasEdge # canvasEdges))))"

definition hydrateSavedGraph ::
    "(string \<Rightarrow> js_number) \<Rightarrow> saved_graph_document \<Rightarrow> node_registry \<Rightarrow> run_node_result list \<Rightarrow> hydrated_graph hydration" where
  "hydrateSavedGraph number document registry nodeRuns =
     bind_result (hydrate_nodes (sd_edges document) registry (sd_nodes document) []) (\<lambda>opened.
       let nodes = foldl (invalidate_ends document) opened (sd_edges document)
       in bind_result (collect_map_edges (enumerate 0 (sd_edges document)) Map.empty) (\<lambda>mapEdges.
          bind_result (hydrate_edges number registry nodes mapEdges (mapped_node_ids document) (enumerate 0 (sd_edges document)) [] [])
            (\<lambda>edges. Inr \<lparr>hg_nodes = withMaterializedNodeRuns nodes nodeRuns, hg_edges = edges\<rparr>)))"

definition hydrateAuthoredGraphDocument ::
    "(string \<Rightarrow> js_number) \<Rightarrow> authored_graph_document \<Rightarrow> node_registry \<Rightarrow> run_node_result list \<Rightarrow> hydrated_graph hydration" where
  "hydrateAuthoredGraphDocument number document registry nodeRuns =
     hydrateSavedGraph number (gd_document (createGraphDraft document Undefined)) registry nodeRuns"

end
