(* ===== verification/SavedGraph_Facts.thy ===== *)
theory SavedGraph_Facts
  imports SavedGraph Handles_Facts
begin

section \<open>Opening a stored graph loses nothing\<close>

text \<open>
  Every stored node and edge has one canvas node and edge, in order; an incompatible node keeps its
  stored form, and a supported one carries enough to be stored again as it was. The same holds for
  edges, whose ends are read back from their handles.
\<close>

subsection \<open>Keys\<close>

lemma operatorKey_inj [simp]: "operatorKey i v = operatorKey j w \<longleftrightarrow> i = j \<and> v = w"
proof
  assume "operatorKey i v = operatorKey j w"
  moreover have "CHR ''@'' \<notin> set (int_text n)" for n by (rule not_in_int_text) simp
  ultimately have "i = j \<and> int_text v = int_text w"
    by (intro split_at_last_unique [of _ "CHR ''@''"]) (simp_all add: operatorKey_def)
  then show "i = j \<and> v = w" by simp
qed simp

lemma obj_set_new: "k \<notin> fst ` set obj \<Longrightarrow> obj_set k v obj = obj @ [(k, v)]"
  by (induction obj) (auto simp: obj_set_def)

lemma js_map_distinct:
  assumes "distinct (map f xs)" "x \<in> set xs"
  shows "js_map (map (\<lambda>x. (f x, g x)) xs) (f x) = Some (g x)"
proof -
  have "distinct (map fst (rev (map (\<lambda>x. (f x, g x)) xs)))" using assms(1) by (simp add: rev_map [symmetric] comp_def)
  moreover have "(f x, g x) \<in> set (rev (map (\<lambda>x. (f x, g x)) xs))" using assms(2) by auto
  ultimately show ?thesis unfolding js_map_def by (rule map_of_is_SomeI)
qed

lemma js_map_of_list: "js_map (map (\<lambda>x. (f x, g x)) xs) k = Some y \<Longrightarrow> \<exists>x\<in>set xs. f x = k \<and> g x = y"
  by (drule js_map_SomeD) auto

subsection \<open>Stored nodes\<close>

definition binding_entry :: "artifact_type_binding \<Rightarrow> string \<times> artifact_type_key" where
  "binding_entry b = (bind_variable b, bind_artifact_type b)"

lemma require_bindings_Inr:
  "require_bindings nodeId declared types bs acc = Inr found \<Longrightarrow>
     found = acc @ map binding_entry bs \<and> (\<forall>b\<in>set bs. artifactTypeKey (bind_artifact_type b) \<in> set types)"
proof (induction bs arbitrary: acc)
  case (Cons b bs)
  then have fresh: "bind_variable b \<notin> fst ` set acc" "artifactTypeKey (bind_artifact_type b) \<in> set types"
    and rest: "require_bindings nodeId declared types bs (obj_set (bind_variable b) (bind_artifact_type b) acc) = Inr found"
    by (auto simp: Let_def in_object_def split: if_splits)
  from Cons.IH [OF rest] fresh show ?case by (simp add: obj_set_new binding_entry_def)
qed simp

lemma require_plugs_Inr:
  "require_plugs nodeId spec plugs ids = Inr u \<Longrightarrow> distinct (map plug_id plugs) \<and> set (map plug_id plugs) \<inter> set ids = {}"
  by (induction plugs arbitrary: ids) (fastforce split: option.splits if_splits)+

definition canvas_plug :: "input_plug \<Rightarrow> workflow_input_plug" where
  "canvas_plug plug = \<lparr>wp_id = plug_id plug, wp_portName = plug_port plug\<rparr>"

lemma saved_canvas_plug [simp]: "saved_plug (canvas_plug plug) = plug"
  by (simp add: saved_plug_def canvas_plug_def)

lemma createWorkflowNodeData_saved:
  "createWorkflowNodeData uuids spec (Some plugs) = fresh_node_data spec (map canvas_plug plugs) (defaultNodeConfig spec)"
  by (simp add: createWorkflowNodeData_def canvas_plug_def [abs_def])

lemma resolved_spec [simp]:
  "ns_operator_id (resolveInstancePortShapes spec config) = ns_operator_id spec"
  "ns_operator_version (resolveInstancePortShapes spec config) = ns_operator_version spec"
  by (simp_all add: resolveInstancePortShapes_def)

text \<open>What is known of the data of a supported node.\<close>

definition opened_as :: "node_registry \<Rightarrow> saved_graph_node \<Rightarrow> workflow_node_data \<Rightarrow> bool" where
  "opened_as registry saved data \<longleftrightarrow>
     (\<exists>spec\<in>set (nr_nodes registry). ns_operator_id spec = n_operator_id saved \<and> ns_operator_version spec = n_operator_version saved
        \<and> wd_spec data = resolveInstancePortShapes spec (nullish_or (n_config saved) [])
        \<and> wd_inputPlugs data = map canvas_plug (n_input_plugs saved) \<and> distinct (map plug_id (n_input_plugs saved))
        \<and> wd_artifactTypeBindings data = map binding_entry (n_artifact_type_bindings saved)
        \<and> (\<forall>b\<in>set (n_artifact_type_bindings saved). bind_artifact_type b \<in> ats_key ` set (nr_artifact_types registry))
        \<and> wd_config data = nullish_or (n_config saved) []
        \<and> wd_layout data = (case hydrateNodeLayout (n_layout saved) of Some l \<Rightarrow> Some l | None \<Rightarrow> defaultNodeLayout spec)
        \<and> wd_compatibility data = Supported)"

definition kept_as :: "saved_graph_node \<Rightarrow> workflow_node_data \<Rightarrow> bool" where
  "kept_as saved data \<longleftrightarrow> (\<exists>status issues inputs outputs. wd_compatibility data = Incompatible status issues inputs outputs saved)"

lemma supportedNodeData_Inr:
  assumes "supportedNodeData saved spec registry = Inr data" "spec \<in> set (nr_nodes registry)"
    and "ns_operator_id spec = n_operator_id saved" "ns_operator_version spec = n_operator_version saved"
  shows "opened_as registry saved data"
proof -
  from assms(1) obtain bindings where plugs: "require_plugs (n_id saved) spec (n_input_plugs saved) [] = Inr ()"
    and bindings: "requireArtifactTypeBindings saved spec registry = Inr bindings"
    and data: "data = (createWorkflowNodeData no_uuids spec (Some (n_input_plugs saved)))
            \<lparr>wd_artifactTypeBindings := bindings, wd_config := nullish_or (n_config saved) [],
             wd_spec := resolveInstancePortShapes spec (nullish_or (n_config saved) []),
             wd_layout := (case hydrateNodeLayout (n_layout saved) of Some l \<Rightarrow> Some l | None \<Rightarrow> defaultNodeLayout spec)\<rparr>"
    by (auto simp: supportedNodeData_def requireInputPlugs_def bind_result_Inr_iff Let_def)
  have entries: "bindings = map binding_entry (n_artifact_type_bindings saved)"
    and types: "\<forall>b\<in>set (n_artifact_type_bindings saved). bind_artifact_type b \<in> ats_key ` set (nr_artifact_types registry)"
    using require_bindings_Inr [OF bindings [unfolded requireArtifactTypeBindings_def]] by (auto simp: image_iff)
  have "distinct (map plug_id (n_input_plugs saved))" using require_plugs_Inr [OF plugs] by simp
  with assms(2-4) entries types show ?thesis
    unfolding opened_as_def by (intro bexI [of _ spec]) (simp_all add: data createWorkflowNodeData_saved fresh_node_data_def)
qed

lemma incompatibleNodeData_kept [simp]: "kept_as saved (incompatibleNodeData saved edges status issues spec)"
  by (simp add: kept_as_def incompatibleNodeData_def Let_def)

lemma hydrate_node_data_cases:
  assumes "hydrate_node_data edges registry saved = Inr data"
  shows "opened_as registry saved data \<or> kept_as saved data"
proof (cases "n_kind saved = Module")
  case True
  with assms show ?thesis by (auto simp: hydrate_node_data_def Let_def)
next
  case kind: False
  let ?specs = "js_map (map (\<lambda>spec. (operatorKey (ns_operator_id spec) (ns_operator_version spec), spec)) (nr_nodes registry))"
  show ?thesis
  proof (cases "?specs (operatorKey (n_operator_id saved) (n_operator_version saved))")
    case None
    with assms kind show ?thesis by (auto simp: hydrate_node_data_def Let_def)
  next
    case (Some spec)
    then have spec: "spec \<in> set (nr_nodes registry)" "ns_operator_id spec = n_operator_id saved" "ns_operator_version spec = n_operator_version saved"
      by (auto dest!: js_map_of_list)
    show ?thesis
    proof (cases "supportedNodeData saved spec registry")
      case (Inr d)
      with assms kind Some have "d = data" by (simp add: hydrate_node_data_def Let_def)
      with supportedNodeData_Inr [OF Inr spec] show ?thesis by simp
    next
      case (Inl err)
      with assms kind Some show ?thesis by (cases err) (auto simp: hydrate_node_data_def Let_def)
    qed
  qed
qed

definition opened_node :: "node_registry \<Rightarrow> saved_graph_node \<Rightarrow> workflow_node \<Rightarrow> bool" where
  "opened_node registry saved node \<longleftrightarrow>
     wn_id node = n_id saved \<and> wn_position node = n_position saved
     \<and> (opened_as registry saved (wn_data node) \<or> kept_as saved (wn_data node))"

lemma hydrate_nodes_opened:
  "hydrate_nodes edges registry saved ids = Inr nodes \<Longrightarrow>
     list_all2 (opened_node registry) saved nodes \<and> distinct (map n_id saved) \<and> set (map n_id saved) \<inter> set ids = {}"
proof (induction saved arbitrary: ids nodes)
  case (Cons s saved)
  then obtain data rest where data: "hydrate_node_data edges registry s = Inr data"
    and rest: "hydrate_nodes edges registry saved (ids @ [n_id s]) = Inr rest" and fresh: "n_id s \<notin> set ids"
    and nodes: "nodes = \<lparr>wn_id = n_id s, wn_position = \<lparr>pt_x = pt_x (n_position s), pt_y = pt_y (n_position s)\<rparr>,
                   wn_selected = False, wn_data = data\<rparr> # rest"
    by (auto simp: bind_result_Inr_iff split: if_splits)
  from Cons.IH [OF rest] fresh hydrate_node_data_cases [OF data] show ?case
    by (auto simp: nodes opened_node_def)
qed simp

subsection \<open>Nodes with removed ports and stored runs\<close>

lemma set_node_data_opened:
  assumes "list_all2 (opened_node registry) saved nodes" "distinct (map n_id saved)"
    and "js_map (map (\<lambda>s. (n_id s, s)) saved) i = Some s" "kept_as s data"
  shows "list_all2 (opened_node registry) saved (set_node_data nodes i data)"
  unfolding set_node_data_def list.rel_map
proof (rule list.rel_mono_strong [OF assms(1)])
  fix s' node
  assume "s' \<in> set saved" and opened: "opened_node registry s' node"
  show "opened_node registry s' (if wn_id node = i then node\<lparr>wn_data := data\<rparr> else node)"
  proof (cases "wn_id node = i")
    case True
    with opened have "n_id s' = i" by (simp add: opened_node_def)
    with js_map_distinct [OF assms(2) \<open>s' \<in> set saved\<close>, of "\<lambda>s. s"] assms(3) have "s' = s" by simp
    with opened assms(4) True show ?thesis by (simp add: opened_node_def)
  qed (use opened in simp)
qed

lemma invalidate_end_opened:
  assumes "list_all2 (opened_node registry) (sd_nodes document) nodes" "distinct (map n_id (sd_nodes document))"
  shows "list_all2 (opened_node registry) (sd_nodes document) (invalidate_end document ports i portName issue nodes)"
  using assms
  by (auto simp: invalidate_end_def intro!: set_node_data_opened split: option.splits)

lemma invalidate_all_opened:
  assumes "list_all2 (opened_node registry) (sd_nodes document) nodes" "distinct (map n_id (sd_nodes document))"
  shows "list_all2 (opened_node registry) (sd_nodes document) (foldl (invalidate_ends document) nodes edges)"
  using assms(1)
proof (induction edges arbitrary: nodes)
  case (Cons e edges)
  have "list_all2 (opened_node registry) (sd_nodes document) (invalidate_ends document nodes e)"
    unfolding invalidate_ends_def using Cons.prems by (auto intro!: invalidate_end_opened assms(2))
  then show ?case using Cons.IH by simp
qed simp

lemma opened_with_run [simp]:
  "opened_as registry saved (data\<lparr>wd_run := run, wd_execution := ex\<rparr>) = opened_as registry saved data"
  "kept_as saved (data\<lparr>wd_run := run, wd_execution := ex\<rparr>) = kept_as saved data"
  by (simp_all add: opened_as_def kept_as_def)

lemma runs_opened:
  "list_all2 (opened_node registry) saved nodes \<Longrightarrow> list_all2 (opened_node registry) saved (withMaterializedNodeRuns nodes runs)"
  by (simp add: withMaterializedNodeRuns_def Let_def list.rel_map opened_node_def [abs_def])

subsection \<open>Storing an opened node again\<close>

definition stable_layout :: "saved_graph_node \<Rightarrow> bool" where
  "stable_layout saved =
     (case n_layout saved of
        Defined l \<Rightarrow> layout_ok \<lparr>wl_width = undefined_of (lay_width l), wl_bodyHeight = undefined_of (lay_body_height l),
                             wl_appendixHeight = undefined_of (lay_appendix_height l)\<rparr>
      | _ \<Rightarrow> n_operator_id saved \<noteq> GIS_COMPOSE_MAP_OPERATOR_ID)"

definition reauthors_node :: "saved_graph_node \<Rightarrow> workflow_node \<Rightarrow> bool" where
  "reauthors_node saved node \<longleftrightarrow>
     wn_id node = n_id saved
     \<and> (case wd_compatibility (wn_data node) of
          Incompatible _ _ _ _ persisted \<Rightarrow> persisted = saved
        | Supported \<Rightarrow>
            n_kind saved = Builtin \<and> stable_layout saved \<longrightarrow>
              addNodeCommand (wn_id node) (wn_data node) (wn_position node) = AddNode (projectSavedGraphNode saved))"

lemma stored_layout:
  assumes "stable_layout saved" "ns_operator_id spec = n_operator_id saved"
  shows "serializeNodeLayout (case hydrateNodeLayout (n_layout saved) of Some l \<Rightarrow> Some l | None \<Rightarrow> defaultNodeLayout spec)
       = projectSavedGraphLayout (n_layout saved)"
proof (cases "n_layout saved")
  case (Defined l)
  let ?l = "\<lparr>wl_width = undefined_of (lay_width l), wl_bodyHeight = undefined_of (lay_body_height l),
       wl_appendixHeight = undefined_of (lay_appendix_height l)\<rparr>"
  have "clampNodeLayout (Some ?l) = Some ?l" using assms(1) Defined by (intro ok_clamped) (simp add: stable_layout_def)
  then show ?thesis by (simp add: Defined hydrateNodeLayout_def serializeNodeLayout_def projectSavedGraphLayout_def)
qed (use assms in \<open>simp_all add: stable_layout_def hydrateNodeLayout_def defaultNodeLayout_def serializeNodeLayout_def
       clampNodeLayout_def projectSavedGraphLayout_def\<close>)

lemma projected_bindings [simp]:
  "map (\<lambda>(variable, t). \<lparr>bind_variable = variable, bind_artifact_type = t\<rparr>) (map binding_entry bs) = bs"
  unfolding map_map by (rule map_idI) (simp add: binding_entry_def)

lemma saved_canvas_plugs [simp]: "map saved_plug (map canvas_plug plugs) = plugs"
  unfolding map_map by (rule map_idI) simp

lemma opened_node_reauthors: "opened_node registry saved node \<Longrightarrow> reauthors_node saved node"
proof -
  assume node: "opened_node registry saved node"
  then consider "opened_as registry saved (wn_data node)" | "kept_as saved (wn_data node)" by (auto simp: opened_node_def)
  then show ?thesis
  proof cases
    case 1
    then obtain spec where "ns_operator_id spec = n_operator_id saved" "ns_operator_version spec = n_operator_version saved"
      and data: "wd_spec (wn_data node) = resolveInstancePortShapes spec (nullish_or (n_config saved) [])"
        "wd_inputPlugs (wn_data node) = map canvas_plug (n_input_plugs saved)"
        "wd_artifactTypeBindings (wn_data node) = map binding_entry (n_artifact_type_bindings saved)"
        "wd_config (wn_data node) = nullish_or (n_config saved) []" "wd_compatibility (wn_data node) = Supported"
        "wd_layout (wn_data node) = (case hydrateNodeLayout (n_layout saved) of Some l \<Rightarrow> Some l | None \<Rightarrow> defaultNodeLayout spec)"
      by (auto simp: opened_as_def)
    with node stored_layout [of saved spec] show ?thesis
      by (simp add: reauthors_node_def opened_node_def addNodeCommand_def projectSavedGraphNode_def del: map_map)
  next
    case 2
    with node show ?thesis by (auto simp: kept_as_def reauthors_node_def opened_node_def)
  qed
qed

subsection \<open>Storing an opened edge again\<close>

definition clean_text :: "string \<Rightarrow> bool" where
  "clean_text s \<longleftrightarrow> s \<noteq> [] \<and> CHR '':'' \<notin> set s"

definition clean_type :: "(string \<Rightarrow> js_number) \<Rightarrow> artifact_type_key \<Rightarrow> bool" where
  "clean_type number t \<longleftrightarrow> clean_text (type_id t) \<and> number (int_text (type_schema_version t)) = Finite (of_int (type_schema_version t))"

definition clean_plug :: "string \<Rightarrow> bool" where
  "clean_plug p \<longleftrightarrow> clean_text p \<and> \<not> starts_with ''feed='' p \<and> \<not> starts_with ''also='' p"

definition clean_port :: "(string \<Rightarrow> js_number) \<Rightarrow> port \<Rightarrow> bool" where
  "clean_port number port \<longleftrightarrow>
     clean_text (po_name port)
     \<and> (case po_artifact_type port of Defined t \<Rightarrow> clean_type number t | _ \<Rightarrow> True)
     \<and> (case po_also_accepts port of Some ts \<Rightarrow> list_all (clean_type number) ts | None \<Rightarrow> True)"

definition clean_registry :: "(string \<Rightarrow> js_number) \<Rightarrow> node_registry \<Rightarrow> bool" where
  "clean_registry number registry \<longleftrightarrow>
     list_all (\<lambda>spec. list_all (clean_port number) (ns_inputs spec @ ns_outputs spec)) (nr_nodes registry)
     \<and> list_all (\<lambda>artifact. clean_type number (ats_key artifact)) (nr_artifact_types registry)"

definition clean_edge :: "saved_graph_edge \<Rightarrow> bool" where
  "clean_edge edge \<longleftrightarrow>
     e_from_node edge \<noteq> [] \<and> e_to_node edge \<noteq> [] \<and> (case e_to_plug edge of Defined p \<Rightarrow> clean_plug p | _ \<Rightarrow> True)"

lemma port_meta_encodable:
  assumes "clean_port number port" "\<forall>(v, t)\<in>set bindings. clean_type number t" "\<forall>p. plug = Some p \<longrightarrow> clean_plug p"
    and "portMetaForPort port shape plug bindings = Inr meta"
  shows "encodable number meta \<and> pm_portName meta = po_name port \<and> pm_plugId meta = plug"
proof -
  have plug: "(case plug of Some p \<Rightarrow> if p = [] then None else Some p | None \<Rightarrow> None) = plug"
    using assms(3) by (auto simp: clean_plug_def clean_text_def split: option.split)
  have resolved: "clean_type number t" if "resolvedPortArtifactType port bindings = Some t" for t
    using that assms(1,2)
    by (auto simp: resolvedPortArtifactType_def portArtifactType_def clean_port_def undefined_of_def
        split: option.splits nullish.splits dest!: map_of_SomeD)
  have plug_ok: "case plug of Some p \<Rightarrow> p \<noteq> [] \<and> CHR '':'' \<notin> set p \<and> \<not> starts_with ''feed='' p \<and> \<not> starts_with ''also='' p | None \<Rightarrow> True"
    using assms(3) by (auto simp: clean_plug_def clean_text_def split: option.split)
  show ?thesis
  proof (cases "resolvedPortArtifactType port bindings")
    case (Some t)
    with assms(4) plug have "meta = \<lparr>pm_portName = po_name port, pm_type = Concrete t, pm_shape = shape, pm_direction = po_direction port,
        pm_plugId = plug, pm_alsoAccepts = (case po_also_accepts port of Some ts \<Rightarrow> if ts = [] then None else Some ts | None \<Rightarrow> None),
        pm_feed = None\<rparr>"
      by (simp add: portMetaForPort_def Let_def)
    with resolved [OF Some] plug_ok assms(1) show ?thesis
      by (auto simp: encodable_def clean_port_def clean_type_def clean_text_def list_all_iff split: option.splits)
  next
    case None
    with assms(4) plug obtain variable where "meta = \<lparr>pm_portName = po_name port, pm_type = Generic variable, pm_shape = shape,
        pm_direction = po_direction port, pm_plugId = plug, pm_alsoAccepts = None, pm_feed = None\<rparr>" "variable \<noteq> []"
      by (auto simp: portMetaForPort_def Let_def non_empty_def split: option.splits nullish.splits if_splits)
    with plug_ok assms(1) show ?thesis by (auto simp: encodable_def clean_port_def clean_text_def)
  qed
qed

lemma port_handle_decodes:
  assumes "clean_port number port" "\<forall>(v, t)\<in>set (wd_artifactTypeBindings data). clean_type number t"
    and "\<forall>p. plug = Some p \<longrightarrow> clean_plug p" "port_handle port shape plug data = Inr handle"
  shows "\<exists>meta. decodeHandleId number (Some handle) = Some meta \<and> pm_portName meta = po_name port \<and> pm_plugId meta = plug"
proof -
  from assms(4) obtain meta where meta: "portMetaForPort port shape plug (wd_artifactTypeBindings data) = Inr meta"
    and handle: "handle = encodeHandleId meta"
    by (auto simp: port_handle_def split: sum.splits)
  from port_meta_encodable [OF assms(1-3) meta] show ?thesis
    using handle_decodes [of number meta] handle by auto
qed

text \<open>The ports and bindings of an opened node come from the registry.\<close>

lemma clean_resolve: "clean_port number (resolve_port_shape config port) = clean_port number port"
  by (simp add: resolve_port_shape_def clean_port_def split: option.split)

lemma clean_resolved_spec:
  "list_all (clean_port number) (ns_inputs spec @ ns_outputs spec) \<Longrightarrow>
     list_all (clean_port number) (ns_inputs (resolveInstancePortShapes spec config) @ ns_outputs (resolveInstancePortShapes spec config))"
  by (auto simp: resolveInstancePortShapes_def list_all_iff clean_resolve)

lemma opened_node_clean:
  assumes "opened_node registry saved node" "clean_registry number registry" "workflowNodeIsSupported (wn_data node)"
  shows "\<forall>port\<in>set (ns_inputs (wd_spec (wn_data node)) @ ns_outputs (wd_spec (wn_data node))). clean_port number port"
    and "\<forall>(v, t)\<in>set (wd_artifactTypeBindings (wn_data node)). clean_type number t"
proof -
  have "opened_as registry saved (wn_data node)" using assms(1,3) by (auto simp: opened_node_def kept_as_def)
  then obtain spec where spec: "spec \<in> set (nr_nodes registry)" "wd_spec (wn_data node) = resolveInstancePortShapes spec (nullish_or (n_config saved) [])"
    and bindings: "wd_artifactTypeBindings (wn_data node) = map binding_entry (n_artifact_type_bindings saved)"
      "\<forall>b\<in>set (n_artifact_type_bindings saved). bind_artifact_type b \<in> ats_key ` set (nr_artifact_types registry)"
    by (auto simp: opened_as_def)
  from spec(1) assms(2) have "list_all (clean_port number) (ns_inputs spec @ ns_outputs spec)"
    by (auto simp: clean_registry_def list_all_iff)
  from clean_resolved_spec [OF this] spec(2)
  show "\<forall>port\<in>set (ns_inputs (wd_spec (wn_data node)) @ ns_outputs (wd_spec (wn_data node))). clean_port number port"
    by (simp add: list_all_iff)
  show "\<forall>(v, t)\<in>set (wd_artifactTypeBindings (wn_data node)). clean_type number t"
    using bindings assms(2) by (fastforce simp: clean_registry_def list_all_iff binding_entry_def)
qed

definition opened_edge :: "workflow_node list \<Rightarrow> saved_graph_edge \<Rightarrow> workflow_edge \<Rightarrow> bool" where
  "opened_edge nodes saved edge \<longleftrightarrow>
     (\<exists>s t sh th issues. node_by_id nodes (e_from_node saved) = Some s \<and> node_by_id nodes (e_to_node saved) = Some t
        \<and> edge = hydrated_edge saved sh th issues
        \<and> (workflowNodeIsSupported (wn_data s) \<and> workflowNodeIsSupported (wn_data t) \<longrightarrow>
            (\<exists>sp tp shape. find (\<lambda>port. po_name port = e_from_port saved) (ns_outputs (wd_spec (wn_data s))) = Some sp
               \<and> find (\<lambda>port. po_name port = e_to_port saved) (ns_inputs (wd_spec (wn_data t))) = Some tp
               \<and> port_handle sp shape None (wn_data s) = Inr sh
               \<and> port_handle tp (po_shape tp) (undefined_of (e_to_plug saved)) (wn_data t) = Inr th)))"

lemma supported_edge_handles:
  "supported_edge number registry mapEdges mapped n edge s t sp tp occupied = Inr (sh, th, occupied') \<Longrightarrow>
     port_handle sp (source_shape mapped s sp) None (wn_data s) = Inr sh
     \<and> port_handle tp (po_shape tp) (undefined_of (e_to_plug edge)) (wn_data t) = Inr th"
  by (auto simp: supported_edge_def Let_def bind_result_Inr_iff split: if_splits)

lemma hydrate_edge_opened:
  assumes "hydrate_edge number registry nodes mapEdges mapped n saved occupied = Inr (edge, occupied')"
  shows "opened_edge nodes saved edge"
proof -
  from assms obtain s t where ends: "requireEdgeEndpoint nodes saved = Inr (s, t)"
    by (auto simp: hydrate_edge_def bind_result_Inr_iff)
  then have nodes: "node_by_id nodes (e_from_node saved) = Some s" "node_by_id nodes (e_to_node saved) = Some t"
    by (auto simp: requireEdgeEndpoint_def split: option.splits)
  show ?thesis
  proof (cases "workflowNodeIsSupported (wn_data s) \<and> workflowNodeIsSupported (wn_data t)")
    case True
    with assms ends obtain sp tp sh th where ports:
        "find (\<lambda>port. po_name port = e_from_port saved) (ns_outputs (wd_spec (wn_data s))) = Some sp"
        "find (\<lambda>port. po_name port = e_to_port saved) (ns_inputs (wd_spec (wn_data t))) = Some tp"
      and run: "supported_edge number registry mapEdges mapped n saved s t sp tp occupied = Inr (sh, th, occupied')"
      and edge: "edge = hydrated_edge saved sh th []"
      by (auto simp: hydrate_edge_def supported_port_def Let_def bind_result_Inr_iff split: option.splits if_splits)
    from nodes ports edge supported_edge_handles [OF run] show ?thesis unfolding opened_edge_def by blast
  next
    case False
    with assms ends obtain sh th issues where "edge = hydrated_edge saved sh th issues"
      by (auto simp: hydrate_edge_def supported_port_def Let_def bind_result_Inr_iff split: option.splits if_splits)
    with nodes False show ?thesis unfolding opened_edge_def by blast
  qed
qed

lemma hydrate_edges_opened:
  "hydrate_edges number registry nodes mapEdges mapped nes ids occupied = Inr edges \<Longrightarrow>
     list_all2 (opened_edge nodes) (map snd nes) edges \<and> distinct (map e_id (map snd nes)) \<and> set (map e_id (map snd nes)) \<inter> set ids = {}"
proof (induction nes arbitrary: ids occupied edges)
  case (Cons ne nes)
  obtain n saved where ne: "ne = (n, saved)" by (cases ne)
  with Cons.prems obtain edge occupied' rest where
    edge: "hydrate_edge number registry nodes mapEdges mapped n saved occupied = Inr (edge, occupied')"
    and rest: "hydrate_edges number registry nodes mapEdges mapped nes (ids @ [e_id saved]) occupied' = Inr rest"
    and "edges = edge # rest" "e_id saved \<notin> set ids"
    by (auto simp: bind_result_Inr_iff split: if_splits)
  with Cons.IH [OF rest] hydrate_edge_opened [OF edge] show ?case by (auto simp: ne)
qed simp

definition supported_in :: "workflow_node list \<Rightarrow> string \<Rightarrow> bool" where
  "supported_in nodes i = list_ex (\<lambda>node. wn_id node = i \<and> workflowNodeIsSupported (wn_data node)) nodes"

definition reauthors_edge :: "(string \<Rightarrow> js_number) \<Rightarrow> workflow_node list \<Rightarrow> saved_graph_edge \<Rightarrow> workflow_edge \<Rightarrow> bool" where
  "reauthors_edge number nodes saved edge \<longleftrightarrow>
     wg_id edge = e_id saved \<and> wg_source edge \<in> wn_id ` set nodes \<and> wg_target edge \<in> wn_id ` set nodes
     \<and> (supported_in nodes (wg_source edge) \<and> supported_in nodes (wg_target edge) \<longrightarrow>
        addEdgeCommand number
          \<lparr>nc_source = wg_source edge, nc_target = wg_target edge, nc_sourceHandle = wg_sourceHandle edge, nc_targetHandle = wg_targetHandle edge\<rparr>
          (wg_data edge) (wg_id edge) = Inr (AddEdge (projectSavedGraphEdge saved)))"

lemma node_by_id_Some: "node_by_id nodes i = Some node \<Longrightarrow> node \<in> set nodes \<and> wn_id node = i"
  by (auto simp: node_by_id_def dest!: js_map_of_list)

lemma supported_in_unique:
  "distinct (map wn_id nodes) \<Longrightarrow> node_by_id nodes i = Some node \<Longrightarrow> supported_in nodes i \<Longrightarrow> workflowNodeIsSupported (wn_data node)"
  by (auto simp: supported_in_def list_ex_iff distinct_map inj_on_def dest!: node_by_id_Some)

lemma opened_edge_reauthors:
  assumes nodes: "list_all2 (opened_node registry) saved_nodes nodes" "distinct (map wn_id nodes)"
    and clean: "clean_registry number registry" "clean_edge saved" and edge: "opened_edge nodes saved edge"
  shows "reauthors_edge number nodes saved edge"
proof -
  from edge obtain s t sh th issues where ends: "node_by_id nodes (e_from_node saved) = Some s" "node_by_id nodes (e_to_node saved) = Some t"
    and e: "edge = hydrated_edge saved sh th issues"
    and handles: "workflowNodeIsSupported (wn_data s) \<and> workflowNodeIsSupported (wn_data t) \<Longrightarrow>
            \<exists>sp tp shape. find (\<lambda>port. po_name port = e_from_port saved) (ns_outputs (wd_spec (wn_data s))) = Some sp
               \<and> find (\<lambda>port. po_name port = e_to_port saved) (ns_inputs (wd_spec (wn_data t))) = Some tp
               \<and> port_handle sp shape None (wn_data s) = Inr sh
               \<and> port_handle tp (po_shape tp) (undefined_of (e_to_plug saved)) (wn_data t) = Inr th"
    unfolding opened_edge_def by blast
  note members = ends [THEN node_by_id_Some]
  have "addEdgeCommand number
      \<lparr>nc_source = e_from_node saved, nc_target = e_to_node saved, nc_sourceHandle = Some sh, nc_targetHandle = Some th\<rparr>
      (wg_data edge) (e_id saved) = Inr (AddEdge (projectSavedGraphEdge saved))"
    if "workflowNodeIsSupported (wn_data s)" "workflowNodeIsSupported (wn_data t)"
  proof -
    from members nodes(1) obtain s0 t0 where opened: "opened_node registry s0 s" "opened_node registry t0 t"
      by (metis list_all2_set_right)
    from handles that obtain sp tp shape where ports: "find (\<lambda>port. po_name port = e_from_port saved) (ns_outputs (wd_spec (wn_data s))) = Some sp"
        "find (\<lambda>port. po_name port = e_to_port saved) (ns_inputs (wd_spec (wn_data t))) = Some tp"
      and h: "port_handle sp shape None (wn_data s) = Inr sh" "port_handle tp (po_shape tp) (undefined_of (e_to_plug saved)) (wn_data t) = Inr th"
      by blast
    have sp: "sp \<in> set (ns_outputs (wd_spec (wn_data s)))" "po_name sp = e_from_port saved"
      and tp: "tp \<in> set (ns_inputs (wd_spec (wn_data t)))" "po_name tp = e_to_port saved"
      using ports by (auto simp: find_Some_iff)
    note s_clean = opened_node_clean [OF opened(1) clean(1) that(1)] and t_clean = opened_node_clean [OF opened(2) clean(1) that(2)]
    have plug: "\<forall>p. undefined_of (e_to_plug saved) = Some p \<longrightarrow> clean_plug p"
      using clean(2) by (auto simp: clean_edge_def undefined_of_def split: nullish.splits)
    have sp_clean: "clean_port number sp" and tp_clean: "clean_port number tp" using s_clean(1) t_clean(1) sp(1) tp(1) by auto
    obtain sm where sm: "decodeHandleId number (Some sh) = Some sm" "pm_portName sm = e_from_port saved"
      using port_handle_decodes [OF sp_clean s_clean(2) _ h(1)] sp(2) by auto
    obtain tm where tm: "decodeHandleId number (Some th) = Some tm" "pm_portName tm = e_to_port saved" "pm_plugId tm = undefined_of (e_to_plug saved)"
      using port_handle_decodes [OF tp_clean t_clean(2) plug h(2)] tp(2) by auto
    have "e_from_port saved \<noteq> []" "e_to_port saved \<noteq> []"
      using sp_clean tp_clean sp(2) tp(2) by (auto simp: clean_port_def clean_text_def)
    with sm tm clean(2) show ?thesis
      by (simp add: addEdgeCommand_def e hydrated_edge_def projectSavedGraphEdge_def clean_edge_def)
  qed
  moreover have "e_from_node saved \<in> wn_id ` set nodes" "e_to_node saved \<in> wn_id ` set nodes"
    using members by (metis image_eqI)+
  ultimately show ?thesis using supported_in_unique [OF nodes(2) ends(1)] supported_in_unique [OF nodes(2) ends(2)]
    by (auto simp: reauthors_edge_def e hydrated_edge_def)
qed

subsection \<open>The whole graph\<close>

lemma map_snd_enumerate [simp]: "map snd (enumerate n xs) = xs"
  by (simp add: enumerate_eq_zip)

lemma opened_ids: "list_all2 (opened_node registry) saved nodes \<Longrightarrow> map wn_id nodes = map n_id saved"
  by (induction rule: list_all2_induct) (auto simp: opened_node_def)

lemma runs_ids [simp]: "map wn_id (withMaterializedNodeRuns nodes runs) = map wn_id nodes"
  by (simp add: withMaterializedNodeRuns_def Let_def)

lemma runs_supported [simp]: "supported_in (withMaterializedNodeRuns nodes runs) i = supported_in nodes i"
  by (simp add: supported_in_def withMaterializedNodeRuns_def Let_def list_ex_iff)

lemma runs_reauthors [simp]: "reauthors_edge number (withMaterializedNodeRuns nodes runs) = reauthors_edge number nodes"
proof -
  have "wn_id ` set (withMaterializedNodeRuns nodes runs) = wn_id ` set nodes"
    by (metis list.set_map runs_ids)
  then show ?thesis by (intro ext) (simp add: reauthors_edge_def)
qed

lemma hydrateSavedGraph_parts:
  assumes "hydrateSavedGraph number document registry runs = Inr graph"
  obtains nodes mapEdges where "list_all2 (opened_node registry) (sd_nodes document) nodes" "distinct (map n_id (sd_nodes document))"
    and "collect_map_edges (enumerate 0 (sd_edges document)) Map.empty = Inr mapEdges"
    and "hydrate_edges number registry nodes mapEdges (mapped_node_ids document) (enumerate 0 (sd_edges document)) [] [] = Inr (hg_edges graph)"
    and "hg_nodes graph = withMaterializedNodeRuns nodes runs"
proof -
  from assms obtain opened mapEdges edges where
    opened: "hydrate_nodes (sd_edges document) registry (sd_nodes document) [] = Inr opened"
    and rest: "collect_map_edges (enumerate 0 (sd_edges document)) Map.empty = Inr mapEdges"
      "hydrate_edges number registry (foldl (invalidate_ends document) opened (sd_edges document)) mapEdges (mapped_node_ids document)
         (enumerate 0 (sd_edges document)) [] [] = Inr edges"
      "graph = \<lparr>hg_nodes = withMaterializedNodeRuns (foldl (invalidate_ends document) opened (sd_edges document)) runs, hg_edges = edges\<rparr>"
    by (auto simp: hydrateSavedGraph_def bind_result_Inr_iff Let_def)
  from hydrate_nodes_opened [OF opened] have "list_all2 (opened_node registry) (sd_nodes document) opened" "distinct (map n_id (sd_nodes document))"
    by simp_all
  from that [OF invalidate_all_opened [OF this] this(2) rest(1)] rest(2,3) show ?thesis by simp
qed


definition demo_port :: "string \<Rightarrow> port_direction \<Rightarrow> string \<Rightarrow> bool \<Rightarrow> port" where
  "demo_port name direction artifact plugs =
     \<lparr>po_name = name, po_direction = direction, po_shape = One, po_accepted_shapes = [One], po_artifact_type = Defined (demo_type artifact),
      po_artifact_type_variable = Undefined, po_also_accepts = None, po_instance_plugs = plugs, po_required = True, po_variadic = False,
      po_shape_field = Undefined\<rparr>"

definition demo_spec :: "string \<Rightarrow> port list \<Rightarrow> port list \<Rightarrow> node_spec" where
  "demo_spec operator inputs outputs =
     \<lparr>ns_operator_id = operator, ns_operator_version = 1, ns_plugin_slug = ''demo'', ns_title = operator, ns_description = [],
      ns_catalog_visible = True, ns_runnable = True, ns_config_schema = JObject [], ns_inputs = inputs, ns_outputs = outputs,
      ns_secret_inputs = JUndefined\<rparr>"

definition demo_registry :: node_registry where
  "demo_registry =
     \<lparr>nr_nodes = [demo_spec ''text.read'' [] [demo_port ''out'' Output ''text'' False],
                  demo_spec ''table.show'' [demo_port ''rows'' Input ''table'' True] []],
      nr_artifact_types = demo_artifact_types, nr_artifact_conversions = demo_conversions\<rparr>"

definition demo_saved_node :: "string \<Rightarrow> string \<Rightarrow> input_plug list \<Rightarrow> saved_graph_node" where
  "demo_saved_node name operator plugs =
     \<lparr>n_id = name, n_kind = Builtin, n_operator_id = operator, n_operator_version = 1, n_config = Defined [],
      n_artifact_type_bindings = [], n_input_plugs = plugs, n_layout = Null, n_position = \<lparr>pt_x = Finite 0, pt_y = Finite 0\<rparr>\<rparr>"

definition demo_saved_edge :: "string \<Rightarrow> string \<Rightarrow> string \<Rightarrow> string nullish \<Rightarrow> graph_conversion list \<Rightarrow> saved_graph_edge" where
  "demo_saved_edge name target port plug path =
     \<lparr>e_id = name, e_from_node = ''read'', e_from_port = ''out'', e_to_node = target, e_to_port = port, e_to_plug = plug,
      e_enabled = True, e_collection_mode = Direct, e_projection = Null, e_conversion_path = path, e_route_offset = Null\<rparr>"

definition demo_saved :: saved_graph_document where
  "demo_saved =
     \<lparr>sd_schema_version = 7,
      sd_nodes = [demo_saved_node ''read'' ''text.read'' [],
                  demo_saved_node ''show'' ''table.show'' [\<lparr>plug_id = ''p1'', plug_port = ''rows''\<rparr>],
                  demo_saved_node ''old'' ''text.gone'' []],
      sd_edges = [demo_saved_edge ''e1'' ''show'' ''rows'' (Defined ''p1'') [\<lparr>conv_id = ''csv'', conv_version = 1\<rparr>, \<lparr>conv_id = ''split'', conv_version = 1\<rparr>],
                  demo_saved_edge ''e2'' ''old'' ''in'' Null []],
      sd_origins = [], sd_agents = Null, sd_presentation = Null\<rparr>"


subsection \<open>The rules an opened graph obeys\<close>

lemma collect_map_edges_Inr:
  "collect_map_edges nes mapped = Inr found \<Longrightarrow>
     distinct (map (\<lambda>e. (e_to_node e, e_to_port e)) (filter (\<lambda>e. e_collection_mode e = MapItems) (map snd nes)))
     \<and> (\<forall>e\<in>set (map snd nes). e_collection_mode e = MapItems \<longrightarrow> mapped (e_to_node e, e_to_port e) = None)"
proof (induction nes mapped rule: collect_map_edges.induct)
  case (2 n edge rest mapped)
  show ?case
  proof (cases "e_collection_mode edge = MapItems")
    case True
    with "2.prems" have free: "mapped (e_to_node edge, e_to_port edge) = None"
      and rest: "collect_map_edges rest (mapped((e_to_node edge, e_to_port edge) \<mapsto> (n, edge))) = Inr found"
      by (auto split: option.splits)
    have tail: "mapped (e_to_node e, e_to_port e) = None \<and> (e_to_node e, e_to_port e) \<noteq> (e_to_node edge, e_to_port edge)"
      if "e \<in> set (map snd rest)" "e_collection_mode e = MapItems" for e
      using bspec [OF conjunct2 [OF "2.IH"(2) [OF _ free rest]] that(1)] True that(2) by (simp split: if_splits)
    then have "(e_to_node edge, e_to_port edge) \<notin> (\<lambda>e. (e_to_node e, e_to_port e)) ` {e \<in> set (map snd rest). e_collection_mode e = MapItems}"
      by force
    with "2.IH"(2) [OF _ free rest] True free tail show ?thesis by simp
  next
    case False
    with 2 show ?thesis by auto
  qed
qed simp

text \<open>The plugs claimed so far are distinct, and each edge between supported nodes adds its own.\<close>

definition claimed :: "workflow_node list \<Rightarrow> saved_graph_edge \<Rightarrow> string option" where
  "claimed nodes edge =
     (case (node_by_id nodes (e_from_node edge), node_by_id nodes (e_to_node edge)) of
        (Some s, Some t) \<Rightarrow>
          if workflowNodeIsSupported (wn_data s) \<and> workflowNodeIsSupported (wn_data t)
          then (case e_to_plug edge of Defined p \<Rightarrow> Some (e_to_node edge @ ''::'' @ p) | _ \<Rightarrow> None)
          else None
      | _ \<Rightarrow> None)"

lemma claim_plug_Inr:
  "claim_plug edge node port occupied = Inr occupied' \<Longrightarrow>
     (case e_to_plug edge of
        Defined p \<Rightarrow> occupied' = occupied @ [wn_id node @ ''::'' @ p] \<and> wn_id node @ ''::'' @ p \<notin> set occupied
      | _ \<Rightarrow> occupied' = occupied)"
  by (auto simp: claim_plug_def Let_def find_Some_iff split: if_splits option.splits nullish.splits dest: sym)

lemma hydrate_edge_claims:
  assumes "hydrate_edge number registry nodes mapEdges mapped n saved occupied = Inr (edge, occupied')"
  shows "case claimed nodes saved of Some key \<Rightarrow> occupied' = occupied @ [key] \<and> key \<notin> set occupied | None \<Rightarrow> occupied' = occupied"
proof -
  from assms obtain s t where ends: "requireEdgeEndpoint nodes saved = Inr (s, t)"
    by (auto simp: hydrate_edge_def bind_result_Inr_iff)
  then have nodes: "node_by_id nodes (e_from_node saved) = Some s" "node_by_id nodes (e_to_node saved) = Some t"
    by (auto simp: requireEdgeEndpoint_def split: option.splits)
  then have t_id: "wn_id t = e_to_node saved" by (auto dest: node_by_id_Some)
  show ?thesis
  proof (cases "workflowNodeIsSupported (wn_data s) \<and> workflowNodeIsSupported (wn_data t)")
    case True
    with assms ends obtain sp tp sh th where
      run: "supported_edge number registry mapEdges mapped n saved s t sp tp occupied = Inr (sh, th, occupied')"
      by (auto simp: hydrate_edge_def supported_port_def Let_def bind_result_Inr_iff split: option.splits if_splits)
    then have "claim_plug saved t tp occupied = Inr occupied'"
      by (auto simp: supported_edge_def Let_def bind_result_Inr_iff split: if_splits)
    from claim_plug_Inr [OF this] nodes True t_id show ?thesis by (auto simp: claimed_def split: nullish.splits)
  next
    case False
    with assms ends have "occupied' = occupied"
      by (auto simp: hydrate_edge_def supported_port_def Let_def bind_result_Inr_iff split: option.splits if_splits)
    moreover from nodes False have "claimed nodes saved = None" by (auto simp: claimed_def)
    ultimately show ?thesis by simp
  qed
qed

lemma hydrate_edges_claims:
  "hydrate_edges number registry nodes mapEdges mapped nes ids occupied = Inr edges \<Longrightarrow>
     distinct (List.map_filter (claimed nodes) (map snd nes)) \<and> set (List.map_filter (claimed nodes) (map snd nes)) \<inter> set occupied = {}"
proof (induction nes arbitrary: ids occupied edges)
  case (Cons ne nes)
  obtain n saved where ne: "ne = (n, saved)" by (cases ne)
  with Cons.prems obtain edge occupied' rest where
    edge: "hydrate_edge number registry nodes mapEdges mapped n saved occupied = Inr (edge, occupied')"
    and rest: "hydrate_edges number registry nodes mapEdges mapped nes (ids @ [e_id saved]) occupied' = Inr rest"
    by (auto simp: bind_result_Inr_iff split: if_splits)
  from Cons.IH [OF rest] hydrate_edge_claims [OF edge] show ?case
    by (cases "claimed nodes saved") (auto simp: ne map_filter_simps)
qed (simp add: map_filter_simps)

text \<open>What an edge between two supported nodes satisfies, against the nodes of the canvas.\<close>

definition edge_obeys ::
    "(string \<Rightarrow> js_number) \<Rightarrow> node_registry \<Rightarrow> string list \<Rightarrow> map_edges \<Rightarrow> workflow_node list \<Rightarrow> nat \<times> saved_graph_edge \<Rightarrow> bool" where
  "edge_obeys number registry mapped mapEdges nodes ne =
     (case ne of (n, e) \<Rightarrow>
        (case (node_by_id nodes (e_from_node e), node_by_id nodes (e_to_node e)) of
           (Some s, Some t) \<Rightarrow>
             workflowNodeIsSupported (wn_data s) \<and> workflowNodeIsSupported (wn_data t) \<longrightarrow>
               (case (find (\<lambda>port. po_name port = e_from_port e) (ns_outputs (wd_spec (wn_data s))),
                      find (\<lambda>port. po_name port = e_to_port e) (ns_inputs (wd_spec (wn_data t)))) of
                  (Some sp, Some tp) \<Rightarrow>
                    e_collection_mode e \<in> set (collectionModesForShapes (source_shape mapped s sp) tp (target_shape mapEdges n t tp))
                    \<and> connectionRouteIsValid number e (wn_data s) (wn_data t) registry = Inr True
                    \<and> (portHasInstancePlugs tp \<longleftrightarrow> undefined_of (e_to_plug e) \<noteq> None)
                    \<and> (\<forall>p. e_to_plug e = Defined p \<longrightarrow> p \<in> wp_id ` set (inputPlugsForPort (wd_inputPlugs (wn_data t)) (po_name tp)))
                | _ \<Rightarrow> False)
         | _ \<Rightarrow> False))"

lemma claim_plug_plugs:
  "claim_plug edge node port occupied = Inr occupied' \<Longrightarrow>
     (portHasInstancePlugs port \<longleftrightarrow> undefined_of (e_to_plug edge) \<noteq> None)
     \<and> (\<forall>p. e_to_plug edge = Defined p \<longrightarrow> p \<in> wp_id ` set (inputPlugsForPort (wd_inputPlugs (wn_data node)) (po_name port)))"
proof -
  have found: "plug \<in> set xs \<and> P plug" if "find P xs = Some plug" for P xs and plug :: workflow_input_plug
    using that by (auto simp: find_Some_iff)
  show "claim_plug edge node port occupied = Inr occupied' \<Longrightarrow> ?thesis"
    by (cases "e_to_plug edge")
      (auto simp: claim_plug_def Let_def inputPlugsForPort_def image_iff split: if_splits option.splits dest!: found)
qed

lemma hydrate_edge_obeys:
  assumes "hydrate_edge number registry nodes mapEdges mapped n saved occupied = Inr (edge, occupied')"
  shows "edge_obeys number registry mapped mapEdges nodes (n, saved)"
proof -
  from assms obtain s t where ends: "requireEdgeEndpoint nodes saved = Inr (s, t)"
    by (auto simp: hydrate_edge_def bind_result_Inr_iff)
  then have nodes: "node_by_id nodes (e_from_node saved) = Some s" "node_by_id nodes (e_to_node saved) = Some t"
    by (auto simp: requireEdgeEndpoint_def split: option.splits)
  show ?thesis
  proof (cases "workflowNodeIsSupported (wn_data s) \<and> workflowNodeIsSupported (wn_data t)")
    case True
    with assms ends obtain sp tp sh th where ports:
        "find (\<lambda>port. po_name port = e_from_port saved) (ns_outputs (wd_spec (wn_data s))) = Some sp"
        "find (\<lambda>port. po_name port = e_to_port saved) (ns_inputs (wd_spec (wn_data t))) = Some tp"
      and run: "supported_edge number registry mapEdges mapped n saved s t sp tp occupied = Inr (sh, th, occupied')"
      by (auto simp: hydrate_edge_def supported_port_def Let_def bind_result_Inr_iff split: option.splits if_splits)
    from run have "claim_plug saved t tp occupied = Inr occupied'"
      and "check_mode saved (source_shape mapped s sp) tp (target_shape mapEdges n t tp) = Inr ()"
      and "connectionRouteIsValid number saved (wn_data s) (wn_data t) registry = Inr True"
      by (auto simp: supported_edge_def Let_def bind_result_Inr_iff split: if_splits)
    with claim_plug_plugs [of saved t tp occupied occupied'] nodes ports show ?thesis
      by (simp add: edge_obeys_def check_mode_def Let_def split: if_splits)
  qed (use nodes in \<open>auto simp: edge_obeys_def\<close>)
qed

lemma hydrate_edges_obey:
  "hydrate_edges number registry nodes mapEdges mapped nes ids occupied = Inr edges \<Longrightarrow>
     \<forall>ne\<in>set nes. edge_obeys number registry mapped mapEdges nodes ne"
proof (induction nes arbitrary: ids occupied edges)
  case (Cons ne nes)
  obtain n saved where ne: "ne = (n, saved)" by (cases ne)
  with Cons.prems obtain edge occupied' rest where
    edge: "hydrate_edge number registry nodes mapEdges mapped n saved occupied = Inr (edge, occupied')"
    and rest: "hydrate_edges number registry nodes mapEdges mapped nes (ids @ [e_id saved]) occupied' = Inr rest"
    by (auto simp: bind_result_Inr_iff split: if_splits)
  from Cons.IH [OF rest] hydrate_edge_obeys [OF edge] show ?case by (simp add: ne)
qed simp

definition with_run :: "run_node_result list \<Rightarrow> workflow_node \<Rightarrow> workflow_node" where
  "with_run runs node = (let run = runs_by_node runs (wn_id node)
     in node\<lparr>wn_data := (wn_data node)\<lparr>wd_run := run,
          wd_execution := (if run = None then idle_execution else \<lparr>ex_status = Succeeded, ex_error = None\<rparr>)\<rparr>\<rparr>)"

lemma withMaterializedNodeRuns_map: "withMaterializedNodeRuns nodes runs = map (with_run runs) nodes"
  by (simp add: withMaterializedNodeRuns_def with_run_def)

lemma node_by_id_runs: "node_by_id (map (with_run runs) nodes) i = map_option (with_run runs) (node_by_id nodes i)"
proof -
  have "node_by_id (map (with_run runs) nodes) i = map_of (map (\<lambda>(k, v). (k, with_run runs v)) (rev (map (\<lambda>node. (wn_id node, node)) nodes))) i"
    by (simp add: node_by_id_def js_map_def comp_def with_run_def Let_def rev_map)
  then show ?thesis by (simp add: map_of_map node_by_id_def js_map_def)
qed

lemma with_run_sel [simp]:
  "wn_id (with_run runs node) = wn_id node" "wd_spec (wn_data (with_run runs node)) = wd_spec (wn_data node)"
  "wd_compatibility (wn_data (with_run runs node)) = wd_compatibility (wn_data node)"
  "wd_artifactTypeBindings (wn_data (with_run runs node)) = wd_artifactTypeBindings (wn_data node)"
  "wd_inputPlugs (wn_data (with_run runs node)) = wd_inputPlugs (wn_data node)"
  by (simp_all add: with_run_def Let_def)

lemma edge_obeys_runs:
  "edge_obeys number registry mapped mapEdges (withMaterializedNodeRuns nodes runs) ne = edge_obeys number registry mapped mapEdges nodes ne"
  by (auto simp: edge_obeys_def withMaterializedNodeRuns_map node_by_id_runs source_shape_def target_shape_def
      connectionRouteIsValid_def port_handle_def split: option.split prod.split)

lemma claimed_runs: "claimed (withMaterializedNodeRuns nodes runs) = claimed nodes"
  by (intro ext) (simp add: claimed_def withMaterializedNodeRuns_map node_by_id_runs split: option.split)

text \<open>
  C31: An opened graph obeys the rules of the canvas: every input is fed by at most one map edge; no two
  edges between supported nodes claim the same plug; and every such edge joins ports their operators have,
  uses a collection mode the two shapes allow, follows an artifact route the registry still offers, and
  names a plug of its input exactly when that input takes plugs.
\<close>

theorem opened_graph_obeys:
  assumes "hydrateSavedGraph number document registry runs = Inr graph"
  shows "distinct (map (\<lambda>e. (e_to_node e, e_to_port e)) (filter (\<lambda>e. e_collection_mode e = MapItems) (sd_edges document)))
    \<and> distinct (List.map_filter (claimed (hg_nodes graph)) (sd_edges document))
    \<and> (\<exists>mapEdges. collect_map_edges (enumerate 0 (sd_edges document)) Map.empty = Inr mapEdges
        \<and> (\<forall>ne\<in>set (enumerate 0 (sd_edges document)).
             edge_obeys number registry (mapped_node_ids document) mapEdges (hg_nodes graph) ne))"
proof -
  from hydrateSavedGraph_parts [OF assms] obtain nodes mapEdges where
    maps: "collect_map_edges (enumerate 0 (sd_edges document)) Map.empty = Inr mapEdges"
    and edges: "hydrate_edges number registry nodes mapEdges (mapped_node_ids document) (enumerate 0 (sd_edges document)) [] [] = Inr (hg_edges graph)"
    and graph: "hg_nodes graph = withMaterializedNodeRuns nodes runs" by blast
  show ?thesis
    using collect_map_edges_Inr [OF maps] hydrate_edges_claims [OF edges] hydrate_edges_obey [OF edges] maps
    by (simp add: graph claimed_runs edge_obeys_runs)
qed

theorem opened_graph_obeys_witness:
  "\<exists>graph. hydrateSavedGraph demo_number demo_saved demo_registry [] = Inr graph
     \<and> List.map_filter (claimed (hg_nodes graph)) (sd_edges demo_saved) = [''show::p1'']
     \<and> distinct (List.map_filter (claimed (hg_nodes graph)) (sd_edges demo_saved))"
proof -
  have "returns (hydrateSavedGraph demo_number demo_saved demo_registry [])
      (\<lambda>graph. List.map_filter (claimed (hg_nodes graph)) (sd_edges demo_saved) = [''show::p1''])"
    by code_simp
  from this [unfolded returns_iff] obtain graph where run: "hydrateSavedGraph demo_number demo_saved demo_registry [] = Inr graph"
    and plugs: "List.map_filter (claimed (hg_nodes graph)) (sd_edges demo_saved) = [''show::p1'']"
    by (elim exE conjE)
  have "distinct (List.map_filter (claimed (hg_nodes graph)) (sd_edges demo_saved))"
    by (rule opened_graph_obeys [OF run, THEN conjunct2, THEN conjunct1])
  with run plugs show ?thesis by (intro exI [of _ graph] conjI)
qed

text \<open>Nodes alone never keep a graph from opening: with distinct ids and no edges it always opens.\<close>

lemma hydrate_node_data_total: "\<exists>data. hydrate_node_data edges registry saved = Inr data"
proof -
  have bindings: "require_bindings i declared types bs acc \<noteq> Inl (PortError err)" for i declared types bs acc err
    by (induction bs arbitrary: acc) (auto simp: Let_def)
  have plugs: "require_plugs i spec ps ids \<noteq> Inl (PortError err)" for i spec ps ids err
    by (induction ps arbitrary: ids) (auto split: option.split)
  have "supportedNodeData saved spec registry \<noteq> Inl (PortError err)" for spec err
    using bindings plugs
    by (auto simp: supportedNodeData_def requireInputPlugs_def requireArtifactTypeBindings_def bind_result_def Let_def split: sum.splits)
  then show ?thesis
    by (auto simp: hydrate_node_data_def Let_def split: option.split sum.split hydration_error.split)
qed

lemma hydrate_nodes_total:
  "distinct (map n_id saved) \<Longrightarrow> set (map n_id saved) \<inter> set ids = {} \<Longrightarrow> \<exists>nodes. hydrate_nodes edges registry saved ids = Inr nodes"
proof (induction saved arbitrary: ids)
  case (Cons s saved)
  obtain data where data: "hydrate_node_data edges registry s = Inr data" using hydrate_node_data_total by blast
  obtain nodes where nodes: "hydrate_nodes edges registry saved (ids @ [n_id s]) = Inr nodes"
    using Cons.IH [of "ids @ [n_id s]"] Cons.prems by auto
  show ?case using Cons.prems data nodes by simp
qed simp

text \<open>
  The nodes of a stored graph never keep it from being opened, whatever the registry says of their
  operators, plugs and type bindings: with distinct ids and no edges the graph opens.
\<close>

theorem nodes_always_open:
  assumes "distinct (map n_id (sd_nodes document))" "sd_edges document = []"
  shows "\<exists>graph. hydrateSavedGraph number document registry runs = Inr graph"
  using hydrate_nodes_total [OF assms(1), of "[]" "[]" registry] assms(2)
  by (auto simp: hydrateSavedGraph_def Let_def)

theorem nodes_always_open_witness:
  "\<exists>graph. hydrateSavedGraph demo_number (demo_saved\<lparr>sd_edges := []\<rparr>)
     \<lparr>nr_nodes = [], nr_artifact_types = [], nr_artifact_conversions = []\<rparr> [] = Inr graph"
  by (rule nodes_always_open) (simp_all add: demo_saved_def demo_saved_node_def)

end
