(* ===== verification/ExecutionPlan_Facts.thy ===== *)
theory ExecutionPlan_Facts
  imports ExecutionPlan SavedGraph_Facts
begin

section \<open>Runs cover what they read\<close>

text \<open>
  The nodes a run covers are exactly the selection and its ancestors, and a run that passes the checks
  has nothing missing: its nodes are supported and configured, and every required input is fed from
  inside the run or by an origin.
\<close>

subsection \<open>The ancestors of a selection\<close>

text \<open>An enabled edge makes its target depend on its source, when the source is on the canvas.\<close>

definition depends_on :: "workflow_node list \<Rightarrow> workflow_edge list \<Rightarrow> (string \<times> string) set" where
  "depends_on nodes edges =
     {(wg_target e, wg_source e) | e. e \<in> set edges \<and> edge_active e \<and> wg_source e \<in> wn_id ` set nodes}"

lemma ancestor_step_rel: "step_rel (ancestor_live nodes) wg_source edges = depends_on nodes edges"
  unfolding step_rel_def depends_on_def ancestor_live_def by auto

lemma ancestors_exact:
  "set (selectedNodeAndAncestorIds nodes edges) = (depends_on nodes edges)\<^sup>* `` (wn_id ` {node \<in> set nodes. wn_selected node})"
  by (simp add: selectedNodeAndAncestorIds_def Let_def worklist_closure ancestor_step_rel)

lemma depends_on_active [simp]: "depends_on nodes (filter edge_active edges) = depends_on nodes edges"
  by (auto simp: depends_on_def)

lemma ancestors_on_canvas: "set (selectedNodeAndAncestorIds nodes edges) \<subseteq> wn_id ` set nodes"
proof -
  have "j \<in> wn_id ` set nodes" if "(i, j) \<in> (depends_on nodes edges)\<^sup>*" "i \<in> wn_id ` set nodes" for i j
    using that by (induction rule: rtrancl_induct) (auto simp: depends_on_def)
  then show ?thesis by (force simp: ancestors_exact)
qed

text \<open>
  A run of a selection with its dependencies covers exactly the selected nodes and everything they
  depend on through enabled edges, and its edges are exactly the enabled edges between covered nodes;
  every enabled edge into a covered node from a node of the canvas is among them, so nothing a covered
  node reads is left out.
\<close>

theorem dependencies_are_closed:
  assumes "plan = executionSubgraphFor ScopeSelectedWithDependencies nodes edges"
  shows "set (es_nodeIds plan) = (depends_on nodes edges)\<^sup>* `` (wn_id ` {node \<in> set nodes. wn_selected node})
    \<and> wn_id ` set (es_nodes plan) = set (es_nodeIds plan)
    \<and> set (es_edges plan) = {e \<in> set edges. edge_active e \<and> wg_source e \<in> set (es_nodeIds plan) \<and> wg_target e \<in> set (es_nodeIds plan)}
    \<and> (\<forall>e\<in>set edges. edge_active e \<and> wg_target e \<in> set (es_nodeIds plan) \<and> wg_source e \<in> wn_id ` set nodes \<longrightarrow> e \<in> set (es_edges plan))"
proof -
  have ids: "es_nodeIds plan = selectedNodeAndAncestorIds nodes (filter edge_active edges)"
    by (simp add: assms executionSubgraphFor_def Let_def)
  have exact: "set (es_nodeIds plan) = (depends_on nodes edges)\<^sup>* `` (wn_id ` {node \<in> set nodes. wn_selected node})"
    by (simp add: ids ancestors_exact)
  have sub: "set (es_nodeIds plan) \<subseteq> wn_id ` set nodes" unfolding ids by (rule ancestors_on_canvas)
  have es: "set (es_edges plan) = {e \<in> set edges. edge_active e \<and> wg_source e \<in> set (es_nodeIds plan) \<and> wg_target e \<in> set (es_nodeIds plan)}"
    by (auto simp: assms executionSubgraphFor_def Let_def)
  have ns: "wn_id ` set (es_nodes plan) = set (es_nodeIds plan)"
    using sub by (auto simp: assms executionSubgraphFor_def Let_def)
  have "wg_source e \<in> set (es_nodeIds plan)"
    if "e \<in> set edges" "edge_active e" "wg_target e \<in> set (es_nodeIds plan)" "wg_source e \<in> wn_id ` set nodes" for e
  proof -
    have "(wg_target e, wg_source e) \<in> depends_on nodes edges" using that by (auto simp: depends_on_def)
    with that(3) show ?thesis unfolding exact by (auto intro: rtrancl_into_rtrancl)
  qed
  with exact ns es show ?thesis by simp
qed

definition demo_open_nodes :: "workflow_node list" where
  "demo_open_nodes =
     (case hydrateSavedGraph demo_number demo_saved demo_registry [] of
        Inr graph \<Rightarrow> map (\<lambda>node. node\<lparr>wn_selected := wn_id node = ''show''\<rparr>) (hg_nodes graph) | Inl _ \<Rightarrow> [])"

definition demo_open_edges :: "workflow_edge list" where
  "demo_open_edges =
     (case hydrateSavedGraph demo_number demo_saved demo_registry [] of Inr graph \<Rightarrow> hg_edges graph | Inl _ \<Rightarrow> [])"

definition demo_plan :: execution_subgraph where
  "demo_plan = executionSubgraphFor ScopeSelectedWithDependencies demo_open_nodes demo_open_edges"

theorem dependencies_are_closed_witness:
  "wn_id ` set (es_nodes demo_plan) = set (es_nodeIds demo_plan) \<and> es_nodeIds demo_plan = [''show'', ''read'']"
proof -
  have "es_nodeIds demo_plan = [''show'', ''read'']" by code_simp
  with dependencies_are_closed [OF demo_plan_def] show ?thesis by blast
qed

subsection \<open>What a run that passes the checks has\<close>

lemma first_config_issue_None: "first_config_issue pf nodes = None \<longleftrightarrow> (\<forall>node\<in>set nodes. config_issues pf node = [])"
  by (induction nodes) (auto split: list.split)

text \<open>When an input lacks nothing.\<close>

definition input_ready ::
    "(string \<Rightarrow> js_number) \<Rightarrow> workflow_edge list \<Rightarrow> saved_graph_origin list \<Rightarrow> workflow_node \<Rightarrow> port \<Rightarrow> bool" where
  "input_ready number edges origins node port \<longleftrightarrow>
     (if portHasInstancePlugs port
      then (let plugs = inputPlugsForPort (wd_inputPlugs (wn_data node)) (po_name port)
            in plugs \<noteq> []
               \<and> (if isCollectionNode node then list_ex (plug_fed number edges origins (wn_id node) (po_name port)) plugs
                  else list_all (plug_fed number edges origins (wn_id node) (po_name port)) plugs))
      else port_fed number edges origins (wn_id node) (po_name port))"

lemma missing_for_port_Nil:
  "missing_for_port number edges origins node port = [] \<longleftrightarrow> (po_required port \<longrightarrow> input_ready number edges origins node port)"
proof -
  have "list_all P xs \<longleftrightarrow> (\<forall>x\<in>set (enumerate 0 xs). map P xs ! fst x)" for P :: "workflow_input_plug \<Rightarrow> bool" and xs
    unfolding enumerate_eq_zip set_zip list_all_length by fastforce
  then show ?thesis
    by (auto simp: missing_for_port_def input_ready_def Let_def case_prod_beta list_ex_iff split: if_splits)
qed

lemma validation_None:
  assumes "executionValidationIssue number pf scope nodes edges origins = None"
  shows "nodes \<noteq> [] \<and> (\<forall>node\<in>set nodes. workflowNodeIsSupported (wn_data node) \<and> config_issues pf node = []
           \<and> (\<forall>port\<in>set (ns_inputs (wd_spec (wn_data node))). po_required port \<longrightarrow> input_ready number edges origins node port))
    \<and> (\<forall>e\<in>set edges. wg_source e \<in> wn_id ` set nodes \<and> wg_target e \<in> wn_id ` set nodes \<longrightarrow> edge_issues e = [])"
proof -
  from assms have "nodes \<noteq> []" and supported: "find (\<lambda>node. \<not> workflowNodeIsSupported (wn_data node)) nodes = None"
    and config: "first_config_issue pf nodes = None"
    and edge: "find (\<lambda>edge. edge_issues edge \<noteq> [] \<and> wg_source edge \<in> set (map wn_id nodes) \<and> wg_target edge \<in> set (map wn_id nodes)) edges = None"
    and missing: "missingRequiredInputsFor number nodes edges origins = []"
    unfolding executionValidationIssue_def by (auto split: if_splits option.splits list.splits)
  from missing have "\<forall>node\<in>set nodes. \<forall>port\<in>set (ns_inputs (wd_spec (wn_data node))). missing_for_port number edges origins node port = []"
    by (simp add: missingRequiredInputsFor_def)
  with \<open>nodes \<noteq> []\<close> supported config edge show ?thesis
    by (auto simp: missing_for_port_Nil first_config_issue_None find_None_iff)
qed

text \<open>
  C33: A run of a selection with its dependencies that passes the checks has at least one node; every
  node of it is supported, has a configuration without issues, and has each required input ready: every
  plug of an input with plugs is fed (one of them for a collection), any other input is fed, by an origin
  or by an enabled edge; and every such edge starts at a node of the same run whenever its source is on the
  canvas at all.
\<close>

theorem checked_run_is_ready:
  assumes "plan = executionSubgraphFor ScopeSelectedWithDependencies nodes edges"
    and "executionValidationIssue number pf ScopeSelectedWithDependencies (es_nodes plan) (es_edges plan) origins = None"
  shows "es_nodes plan \<noteq> [] \<and> runTargetsFor plan \<noteq> []
    \<and> (\<forall>node\<in>set (es_nodes plan). workflowNodeIsSupported (wn_data node) \<and> config_issues pf node = []
        \<and> (\<forall>port\<in>set (ns_inputs (wd_spec (wn_data node))). po_required port \<longrightarrow> input_ready number (es_edges plan) origins node port))
    \<and> (\<forall>e\<in>set (es_edges plan). edge_active e \<and> edge_issues e = [] \<and> wg_source e \<in> wn_id ` set (es_nodes plan))"
proof -
  note checked = validation_None [OF assms(2)]
  have edges: "edge_active e \<and> wg_source e \<in> set (es_nodeIds plan) \<and> wg_target e \<in> set (es_nodeIds plan)" if "e \<in> set (es_edges plan)" for e
    using that by (auto simp: assms(1) executionSubgraphFor_def Let_def)
  have "set (es_nodeIds plan) \<subseteq> wn_id ` set nodes"
    using ancestors_on_canvas by (simp add: assms(1) executionSubgraphFor_def Let_def)
  then have ids: "wn_id ` set (es_nodes plan) = set (es_nodeIds plan)"
    by (auto simp: assms(1) executionSubgraphFor_def Let_def)
  have "edge_active e \<and> edge_issues e = [] \<and> wg_source e \<in> wn_id ` set (es_nodes plan)" if "e \<in> set (es_edges plan)" for e
    using edges [OF that] checked that unfolding ids by blast
  with checked show ?thesis by (simp add: runTargetsFor_def)
qed

theorem checked_run_is_ready_witness:
  "runTargetsFor demo_plan \<noteq> []
   \<and> list_all (\<lambda>e. edge_active e \<and> edge_issues e = [] \<and> wg_source e \<in> wn_id ` set (es_nodes demo_plan)) (es_edges demo_plan)"
proof -
  have "executionValidationIssue demo_number demo_schema_platform ScopeSelectedWithDependencies (es_nodes demo_plan) (es_edges demo_plan) [] = None"
    by code_simp
  from checked_run_is_ready [OF demo_plan_def this] show ?thesis unfolding list_all_iff by blast
qed

end
