(* ===== verification/GraphAuthoring.thy ===== *)
theory GraphAuthoring
  imports ExecutionPlan SavedGraph_Facts
begin

section \<open>Which connections a canvas accepts\<close>

text \<open>
  The rules of \<^verbatim>\<open>model/graph-authoring.ts\<close> that decide whether an edge may be drawn: the collection
  modes two ports allow, the plug it needs, the input it may not share and the cycle it may not close;
  and the descendants of a node. The functions that only build titles and labels are not modelled.
  The depth-first search for a cycle is a loop over an explicit stack whose first element is its top.
\<close>

subsection \<open>Shapes and modes\<close>

definition edge_maps :: "workflow_edge \<Rightarrow> bool" where
  "edge_maps edge = (case wg_data edge of Some data \<Rightarrow> we_collectionMode data = MapItems | None \<Rightarrow> False)"

definition handle_port :: "(string \<Rightarrow> js_number) \<Rightarrow> string option \<Rightarrow> string option" where
  "handle_port number handle = map_option pm_portName (decodeHandleId number handle)"

definition handle_plug :: "(string \<Rightarrow> js_number) \<Rightarrow> string option \<Rightarrow> string option" where
  "handle_plug number handle = Option.bind (decodeHandleId number handle) pm_plugId"

definition mappedInputPortsForNode ::
    "(string \<Rightarrow> js_number) \<Rightarrow> string \<Rightarrow> workflow_edge list \<Rightarrow> bool \<Rightarrow> saved_graph_origin list \<Rightarrow> string list" where
  "mappedInputPortsForNode number nodeId edges includeDisabledEdges origins =
     concat (map (\<lambda>edge.
       if wg_target edge \<noteq> nodeId \<or> (\<not> includeDisabledEdges \<and> \<not> edge_active edge) \<or> \<not> edge_maps edge then []
       else case handle_port number (wg_targetHandle edge) of
              Some portName \<Rightarrow> if portName = [] then [] else [portName]
            | None \<Rightarrow> []) edges)
     @ map o_to_port (filter (\<lambda>origin. o_to_node origin = nodeId \<and> o_collection_mode origin = MapItems) origins)"

definition effectiveShapeForPort ::
    "(string \<Rightarrow> js_number) \<Rightarrow> workflow_node \<Rightarrow> port \<Rightarrow> workflow_edge list \<Rightarrow> bool \<Rightarrow> saved_graph_origin list \<Rightarrow> port_shape" where
  "effectiveShapeForPort number node port edges includeDisabledEdges origins =
     effectivePortShape
       ((wn_data node)\<lparr>wd_mappedInputPorts :=
          mappedInputPortsForNode number (wn_id node) edges includeDisabledEdges origins\<rparr>) port"

definition node_named :: "workflow_node list \<Rightarrow> string \<Rightarrow> workflow_node option" where
  "node_named nodes nodeId = find (\<lambda>node. wn_id node = nodeId) nodes"

definition port_named :: "port list \<Rightarrow> string option \<Rightarrow> port option" where
  "port_named ports portName = find (\<lambda>port. Some (po_name port) = portName) ports"

definition collectionModesForConnection ::
    "(string \<Rightarrow> js_number) \<Rightarrow> node_connection \<Rightarrow> workflow_node list \<Rightarrow> workflow_edge list \<Rightarrow> saved_graph_origin list
       \<Rightarrow> collection_mode list" where
  "collectionModesForConnection number conn nodes edges origins =
     (case (node_named nodes (nc_source conn), node_named nodes (nc_target conn)) of
        (Some sourceNode, Some targetNode) \<Rightarrow>
          if \<not> workflowNodeIsSupported (wn_data sourceNode) \<or> \<not> workflowNodeIsSupported (wn_data targetNode) then []
          else
            (case (port_named (ns_outputs (wd_spec (wn_data sourceNode))) (handle_port number (nc_sourceHandle conn)),
                   port_named (ns_inputs (wd_spec (wn_data targetNode))) (handle_port number (nc_targetHandle conn))) of
               (Some sourcePort, Some targetPort) \<Rightarrow>
                 collectionModesForShapes (effectiveShapeForPort number sourceNode sourcePort edges True origins)
                   targetPort (effectiveShapeForPort number targetNode targetPort edges True origins)
             | _ \<Rightarrow> [])
      | _ \<Rightarrow> [])"

definition collectionModeForConnection ::
    "(string \<Rightarrow> js_number) \<Rightarrow> node_connection \<Rightarrow> workflow_node list \<Rightarrow> workflow_edge list \<Rightarrow> saved_graph_origin list
       \<Rightarrow> collection_mode option" where
  "collectionModeForConnection number conn nodes edges origins =
     (case collectionModesForConnection number conn nodes edges origins of mode # _ \<Rightarrow> Some mode | [] \<Rightarrow> None)"

subsection \<open>The search for a cycle\<close>

text \<open>\<open>edge.id !== existingEdgeId\<close>: the edges beside the one being redrawn.\<close>

definition other_edge :: "string option \<Rightarrow> workflow_edge \<Rightarrow> bool" where
  "other_edge existingEdgeId edge \<longleftrightarrow> Some (wg_id edge) \<noteq> existingEdgeId"

function search_source :: "workflow_edge list \<Rightarrow> string option \<Rightarrow> string \<Rightarrow> string list \<Rightarrow> string list \<Rightarrow> bool" where
  "search_source edges existingEdgeId source visited [] = False"
| "search_source edges existingEdgeId source visited (nodeId # pending) =
     (if nodeId = [] \<or> nodeId \<in> set visited then search_source edges existingEdgeId source visited pending
      else if nodeId = source then True
      else search_source edges existingEdgeId source (visited @ [nodeId])
             (rev (map wg_target (filter (\<lambda>edge. other_edge existingEdgeId edge \<and> wg_source edge = nodeId) edges)) @ pending))"
  by pat_completeness auto
termination
proof (relation "measures [\<lambda>(edges, ex, s, visited, pending). card ((wg_target ` set edges \<union> set pending) - set visited),
                           \<lambda>(edges, ex, s, visited, pending). length pending]", goal_cases)
  case (2 edges ex s visited nodeId pending)
  have "card ((wg_target ` set edges \<union> set pending) - set visited)
      \<le> card ((wg_target ` set edges \<union> set (nodeId # pending)) - set visited)"
    by (rule card_mono) auto
  then show ?case by auto
next
  case (3 edges ex s visited nodeId pending)
  have "card ((wg_target ` set edges \<union> set (rev (map wg_target (filter (\<lambda>edge. other_edge ex edge \<and> wg_source edge = nodeId) edges)) @ pending))
          - set (visited @ [nodeId]))
      < card ((wg_target ` set edges \<union> set (nodeId # pending)) - set visited)"
    by (rule psubset_card_mono) (use 3 in auto)
  then show ?case by simp
qed simp

subsection \<open>Accepting a connection\<close>

definition input_of :: "(string \<Rightarrow> js_number) \<Rightarrow> workflow_node list \<Rightarrow> string \<Rightarrow> string option \<Rightarrow> (workflow_node \<times> port) option" where
  "input_of number nodes target targetHandle =
     Option.bind (node_named nodes target) (\<lambda>node.
       map_option (Pair node) (port_named (ns_inputs (wd_spec (wn_data node))) (handle_port number targetHandle)))"

definition plug_fits :: "port_meta \<Rightarrow> workflow_node \<Rightarrow> port \<Rightarrow> bool" where
  "plug_fits target targetNode input =
     (if portHasInstancePlugs input
      then (case pm_plugId target of
              None \<Rightarrow> False
            | Some plugId \<Rightarrow> plugId \<noteq> [] \<and>
                list_ex (\<lambda>plug. wp_id plug = plugId \<and> wp_portName plug = po_name input) (wd_inputPlugs (wn_data targetNode)))
      else (case pm_plugId target of None \<Rightarrow> True | Some plugId \<Rightarrow> plugId = []))"

definition input_taken ::
    "(string \<Rightarrow> js_number) \<Rightarrow> node_connection \<Rightarrow> port_meta \<Rightarrow> port \<Rightarrow> workflow_edge list \<Rightarrow> string option \<Rightarrow> bool" where
  "input_taken number conn target input edges existingEdgeId =
     (if portHasInstancePlugs input
      then list_ex (\<lambda>edge. other_edge existingEdgeId edge \<and> wg_target edge = nc_target conn
                     \<and> handle_plug number (wg_targetHandle edge) = pm_plugId target) edges
      else if po_variadic input then False
      else list_ex (\<lambda>edge. other_edge existingEdgeId edge \<and> wg_target edge = nc_target conn
                     \<and> handle_port number (wg_targetHandle edge) = Some (pm_portName target)) edges)"

definition map_taken ::
    "(string \<Rightarrow> js_number) \<Rightarrow> node_connection \<Rightarrow> port_meta \<Rightarrow> workflow_edge list \<Rightarrow> string option \<Rightarrow> bool" where
  "map_taken number conn target edges existingEdgeId =
     list_ex (\<lambda>edge. other_edge existingEdgeId edge \<and> wg_target edge = nc_target conn
                \<and> handle_port number (wg_targetHandle edge) = Some (pm_portName target) \<and> edge_maps edge) edges"

definition isConnectionAccepted ::
    "text_platform \<Rightarrow> node_connection \<Rightarrow> workflow_node list \<Rightarrow> workflow_edge list \<Rightarrow> artifact_type_spec list
       \<Rightarrow> conversion_spec list \<Rightarrow> string option \<Rightarrow> saved_graph_origin list \<Rightarrow> bool" where
  "isConnectionAccepted platform conn nodes edges artifactTypes artifactConversions existingEdgeId origins =
     (let number = tp_number platform
      in case collectionModeForConnection number conn nodes edges origins of
           None \<Rightarrow> False
         | Some collectionMode \<Rightarrow>
             if connectionRoutesFor platform \<lparr>cn_sourceHandle = nc_sourceHandle conn, cn_targetHandle = nc_targetHandle conn\<rparr>
                  artifactTypes artifactConversions = [] then False
             else
               (case (decodeHandleId number (nc_targetHandle conn),
                      input_of number nodes (nc_target conn) (nc_targetHandle conn)) of
                  (Some target, Some (targetNode, input)) \<Rightarrow>
                    if \<not> plug_fits target targetNode input then False
                    else if collectionMode = MapItems \<and> map_taken number conn target edges existingEdgeId then False
                    else if search_source edges existingEdgeId (nc_source conn) [] [nc_target conn] then False
                    else \<not> input_taken number conn target input edges existingEdgeId
                | _ \<Rightarrow> False))"

subsection \<open>Descendants\<close>

definition descendant_live :: "string \<Rightarrow> workflow_edge \<Rightarrow> bool" where
  "descendant_live sourceNodeId edge \<longleftrightarrow> edge_active edge \<and> wg_source edge = sourceNodeId"

definition nodeAndDescendantIds :: "string \<Rightarrow> workflow_edge list \<Rightarrow> string list" where
  "nodeAndDescendantIds nodeId edges = worklist descendant_live wg_target edges [nodeId] [nodeId]"

subsection \<open>What the search finds\<close>

definition kept_rel :: "workflow_edge list \<Rightarrow> string option \<Rightarrow> (string \<times> string) set" where
  "kept_rel edges existingEdgeId = {(wg_source e, wg_target e) | e. e \<in> set edges \<and> other_edge existingEdgeId e}"

text \<open>The nodes visited have all their successors visited or pending; the source is never visited.\<close>

lemma search_source_reaches:
  assumes "source \<notin> set visited" and "[] \<notin> set pending \<union> wg_target ` set edges"
    and "kept_rel edges existingEdgeId `` set visited \<subseteq> set visited \<union> set pending"
  shows "search_source edges existingEdgeId source visited pending
     \<longleftrightarrow> source \<in> (kept_rel edges existingEdgeId)\<^sup>* `` (set visited \<union> set pending)"
  using assms
proof (induction edges existingEdgeId source visited pending rule: search_source.induct)
  case (1 edges existingEdgeId source visited)
  have "(kept_rel edges existingEdgeId)\<^sup>* `` set visited = set visited"
    by (rule Image_closed_trancl) (use 1 in simp)
  with 1 show ?case by simp
next
  case (2 edges existingEdgeId source visited nodeId pending)
  let ?R = "kept_rel edges existingEdgeId"
  let ?next = "rev (map wg_target (filter (\<lambda>edge. other_edge existingEdgeId edge \<and> wg_source edge = nodeId) edges))"
  have succ: "set ?next = ?R `` {nodeId}" by (auto simp: kept_rel_def)
  have named: "nodeId \<noteq> []" using "2.prems"(2) by auto
  consider "nodeId \<in> set visited" | "nodeId \<notin> set visited" "nodeId = source" | "nodeId \<notin> set visited" "nodeId \<noteq> source" by blast
  then show ?case
  proof cases
    case 1
    then have "set visited \<union> set (nodeId # pending) = set visited \<union> set pending" by auto
    with 1 2 show ?thesis by simp
  next
    case 2
    with named show ?thesis by auto
  next
    case 3
    have "?R\<^sup>* `` (set (visited @ [nodeId]) \<union> set (?next @ pending)) = ?R\<^sup>* `` (set visited \<union> set (nodeId # pending))"
    proof -
      have "?R\<^sup>* `` set ?next \<subseteq> ?R\<^sup>* `` {nodeId}"
        unfolding succ by (auto intro: converse_rtrancl_into_rtrancl)
      then show ?thesis by (auto simp: Image_Un)
    qed
    moreover have "search_source edges existingEdgeId source (visited @ [nodeId]) (?next @ pending)
        \<longleftrightarrow> source \<in> ?R\<^sup>* `` (set (visited @ [nodeId]) \<union> set (?next @ pending))"
      by (rule "2.IH"(2)) (use 3 named "2.prems" succ in \<open>auto\<close>)
    ultimately show ?thesis using 3 named by (simp add: search_source.simps(2))
  qed
qed

declare search_source.simps(2) [simp del]

lemma search_source_exact:
  assumes "target \<noteq> []" and "[] \<notin> wg_target ` set edges"
  shows "search_source edges existingEdgeId source [] [target] \<longleftrightarrow> (target, source) \<in> (kept_rel edges existingEdgeId)\<^sup>*"
  using search_source_reaches [of source "[]" "[target]" edges existingEdgeId] assms by simp

lemma descendant_step_rel: "step_rel descendant_live wg_target edges = kept_rel (filter edge_active edges) None"
  by (auto simp: step_rel_def descendant_live_def kept_rel_def other_edge_def)

lemma descendants_closure: "set (nodeAndDescendantIds nodeId edges) = (kept_rel (filter edge_active edges) None)\<^sup>* `` {nodeId}"
  using worklist_closure [of descendant_live wg_target edges "[nodeId]"]
  by (simp add: nodeAndDescendantIds_def descendant_step_rel)

subsection \<open>The rules a canvas keeps\<close>

text \<open>
  The input an edge alone may feed: a plug of its node, or the input itself when it has no plugs and
  takes a single edge. Edges into a variadic input may share it.
\<close>

definition exclusive_input :: "(string \<Rightarrow> js_number) \<Rightarrow> workflow_node list \<Rightarrow> workflow_edge \<Rightarrow> (string \<times> string option \<times> string option) option" where
  "exclusive_input number nodes edge =
     (case input_of number nodes (wg_target edge) (wg_targetHandle edge) of
        None \<Rightarrow> None
      | Some (node, input) \<Rightarrow>
          if portHasInstancePlugs input then Some (wg_target edge, None, handle_plug number (wg_targetHandle edge))
          else if po_variadic input then None
          else Some (wg_target edge, handle_port number (wg_targetHandle edge), None))"

lemma accepted_parts:
  assumes "isConnectionAccepted platform conn nodes edges artifactTypes conversions existingEdgeId origins"
  obtains target node input where "decodeHandleId (tp_number platform) (nc_targetHandle conn) = Some target"
    and "input_of (tp_number platform) nodes (nc_target conn) (nc_targetHandle conn) = Some (node, input)"
    and "plug_fits target node input"
    and "\<not> search_source edges existingEdgeId (nc_source conn) [] [nc_target conn]"
    and "\<not> input_taken (tp_number platform) conn target input edges existingEdgeId"
  using assms unfolding isConnectionAccepted_def Let_def by (auto split: option.splits if_splits prod.splits)

lemma not_taken_exclusive:
  assumes target: "decodeHandleId number (nc_targetHandle conn) = Some target"
    and input: "input_of number nodes (nc_target conn) (nc_targetHandle conn) = Some (node, input)"
    and free: "\<not> input_taken number conn target input edges existingEdgeId"
    and new: "wg_target edge = nc_target conn" "wg_targetHandle edge = nc_targetHandle conn"
    and other: "e \<in> set edges" "other_edge existingEdgeId e"
    and slot: "exclusive_input number nodes edge = Some slot"
  shows "exclusive_input number nodes e \<noteq> Some slot"
proof
  assume same: "exclusive_input number nodes e = Some slot"
  from slot same input new have "wg_target e = nc_target conn"
    and "if portHasInstancePlugs input then handle_plug number (wg_targetHandle e) = pm_plugId target
         else handle_port number (wg_targetHandle e) = Some (pm_portName target)"
    by (auto simp: exclusive_input_def handle_plug_def handle_port_def target split: option.splits if_splits prod.splits)
  with free other slot input new show False
    by (auto simp: input_taken_def list_ex_iff exclusive_input_def split: if_splits)
qed

definition drawn :: "workflow_edge list \<Rightarrow> string option \<Rightarrow> workflow_edge \<Rightarrow> workflow_edge list" where
  "drawn edges existingEdgeId edge = filter (other_edge existingEdgeId) edges @ [edge]"

lemma kept_rel_drawn: "kept_rel (drawn edges existingEdgeId edge) None = insert (wg_source edge, wg_target edge) (kept_rel edges existingEdgeId)"
  by (auto simp: kept_rel_def drawn_def other_edge_def)

definition demo_canvas_node :: "string \<Rightarrow> node_spec \<Rightarrow> workflow_input_plug list \<Rightarrow> workflow_node" where
  "demo_canvas_node nodeId spec plugs =
     \<lparr>wn_id = nodeId, wn_position = \<lparr>pt_x = Finite 0, pt_y = Finite 0\<rparr>, wn_selected = False, wn_data = fresh_node_data spec plugs []\<rparr>"

definition demo_nodes :: "workflow_node list" where
  "demo_nodes =
     [demo_canvas_node ''read'' (demo_spec ''text.read'' [] [demo_port ''out'' Output ''text'' False]) [],
      demo_canvas_node ''show'' (demo_spec ''text.show'' [demo_port ''rows'' Input ''text'' True] []) [demo_input_plug ''p1'' ''rows'']]"

definition demo_meta :: "string \<Rightarrow> port_direction \<Rightarrow> string option \<Rightarrow> port_meta" where
  "demo_meta name direction plug =
     \<lparr>pm_portName = name, pm_type = Concrete (demo_type ''text''), pm_shape = One, pm_direction = direction, pm_plugId = plug,
      pm_alsoAccepts = None, pm_feed = None\<rparr>"

definition demo_wire :: "string \<Rightarrow> string \<Rightarrow> workflow_edge" where
  "demo_wire edgeId target =
     \<lparr>wg_id = edgeId, wg_source = ''read'', wg_sourceHandle = Some (encodeHandleId (demo_meta ''out'' Output None)),
      wg_target = target, wg_targetHandle = Some (encodeHandleId (demo_meta ''rows'' Input (Some ''p1''))), wg_data = None\<rparr>"

definition demo_edges :: "workflow_edge list" where
  "demo_edges = [demo_wire ''e1'' ''show'', demo_wire ''e2'' ''old'']"

definition demo_redraw :: node_connection where
  "demo_redraw = \<lparr>nc_source = ''read'', nc_target = ''show'',
     nc_sourceHandle = Some (encodeHandleId (demo_meta ''out'' Output None)),
     nc_targetHandle = Some (encodeHandleId (demo_meta ''rows'' Input (Some ''p1'')))\<rparr>"

lemma demo_redraw_ends:
  "wg_source (demo_wire ''e1'' ''show'') = nc_source demo_redraw" "wg_target (demo_wire ''e1'' ''show'') = nc_target demo_redraw"
  "wg_targetHandle (demo_wire ''e1'' ''show'') = nc_targetHandle demo_redraw"
  "nc_target demo_redraw \<noteq> []" "[] \<notin> wg_target ` set demo_edges"
  by (simp_all add: demo_redraw_def demo_wire_def demo_edges_def)

lemma demo_redraw_acyclic: "acyclic (kept_rel demo_edges (Some ''e1''))"
proof -
  have "kept_rel demo_edges (Some ''e1'')
      = set (map (\<lambda>e. (wg_source e, wg_target e)) (filter (other_edge (Some ''e1'')) demo_edges))"
    by (auto simp: kept_rel_def)
  also have "\<dots> = {(''read'', ''old'')}" by (simp del: set_filter set_map add: demo_edges_def demo_wire_def other_edge_def)
  finally have "kept_rel demo_edges (Some ''e1'') = {(''read'', ''old'')}" .
  moreover have "acyclic {}" by (simp add: acyclic_def)
  ultimately show ?thesis by (simp add: acyclic_insert)
qed

lemma demo_routes:
  "connectionRoutesFor demo_platform \<lparr>cn_sourceHandle = nc_sourceHandle demo_redraw, cn_targetHandle = nc_targetHandle demo_redraw\<rparr> [] [] \<noteq> []"
  by code_simp

text \<open>
  C13: Drawing an accepted connection, in place of the edge being redrawn if there is one, keeps the canvas
  free of cycles (disabled edges counted) and keeps every plug, and every single input without plugs, fed
  by at most one edge. Node ids are not empty: the search skips an empty id.
\<close>

theorem accepted_connection_keeps_rules:
  assumes "isConnectionAccepted platform conn nodes edges artifactTypes conversions existingEdgeId origins"
    and "nc_target conn \<noteq> []" and "[] \<notin> wg_target ` set edges"
    and "wg_source edge = nc_source conn" and "wg_target edge = nc_target conn" and "wg_targetHandle edge = nc_targetHandle conn"
    and "acyclic (kept_rel edges existingEdgeId)"
    and "distinct (List.map_filter (exclusive_input (tp_number platform) nodes) (filter (other_edge existingEdgeId) edges))"
  shows "acyclic (kept_rel (drawn edges existingEdgeId edge) None)
    \<and> distinct (List.map_filter (exclusive_input (tp_number platform) nodes) (drawn edges existingEdgeId edge))"
proof
  from assms(1) obtain target node input where target: "decodeHandleId (tp_number platform) (nc_targetHandle conn) = Some target"
    and input: "input_of (tp_number platform) nodes (nc_target conn) (nc_targetHandle conn) = Some (node, input)"
    and search: "\<not> search_source edges existingEdgeId (nc_source conn) [] [nc_target conn]"
    and free: "\<not> input_taken (tp_number platform) conn target input edges existingEdgeId"
    by (rule accepted_parts)
  show "acyclic (kept_rel (drawn edges existingEdgeId edge) None)"
    using search assms(7) by (simp add: kept_rel_drawn acyclic_insert assms(4,5) search_source_exact [OF assms(2,3)])
  have "exclusive_input (tp_number platform) nodes e \<noteq> Some slot"
    if "exclusive_input (tp_number platform) nodes edge = Some slot" "e \<in> set edges" "other_edge existingEdgeId e" for e slot
    by (rule not_taken_exclusive [OF target input free assms(5,6) that(2,3,1)])
  then show "distinct (List.map_filter (exclusive_input (tp_number platform) nodes) (drawn edges existingEdgeId edge))"
    using assms(8) by (auto simp: drawn_def map_filter_def split: option.split)
qed

theorem accepted_connection_keeps_rules_witness:
  "acyclic (kept_rel (drawn demo_edges (Some ''e1'') (demo_wire ''e1'' ''show'')) None)
   \<and> distinct (List.map_filter (exclusive_input (tp_number demo_platform) demo_nodes) (drawn demo_edges (Some ''e1'') (demo_wire ''e1'' ''show'')))"
proof -
  have "isConnectionAccepted demo_platform demo_redraw demo_nodes demo_edges [] [] (Some ''e1'') []"
    by code_simp
  moreover have "distinct (List.map_filter (exclusive_input (tp_number demo_platform) demo_nodes) (filter (other_edge (Some ''e1'')) demo_edges))"
    by code_simp
  ultimately show ?thesis
    by (intro accepted_connection_keeps_rules [OF _ demo_redraw_ends(4,5,1-3) demo_redraw_acyclic])
qed



end
