(* ===== verification/ArtifactViewers.thy ===== *)
theory ArtifactViewers
  imports WorkflowNodes RoomBridge
begin

section \<open>Artifact cards and notes on the canvas\<close>

text \<open>
  The presentation of a graph as the canvas holds it: \<^verbatim>\<open>canvas/artifact-viewer.ts\<close> (reading a stored
  presentation and storing one), \<^verbatim>\<open>canvas/annotations.ts\<close>, \<^verbatim>\<open>canvas/artifact-viewer-edits.ts\<close> and the
  binding type of \<^verbatim>\<open>canvas/artifact-interactions.ts\<close>. Callbacks, ephemeral selections and the constant
  node and edge types of the canvas library are left out; the sizes the browser measured for a card are
  fields of it. An artifact reference is the JSON value the presentation stores.
\<close>

subsection \<open>State\<close>

record viewer_node =
  vn_id :: string
  vn_position :: point
  vn_layout :: "workflow_node_layout option"
  vn_mode :: "string option"
  vn_artifactRef :: json
  vn_selected :: bool
  vn_measuredWidth :: "js_number option"
  vn_measuredHeight :: "js_number option"

record viewer_edge_data =
  vd_sourcePortName :: string
  vd_projection :: "string list option"
  vd_routeOffset :: "point option"

record viewer_edge =
  ve_id :: string
  ve_source :: string
  ve_target :: string
  ve_targetHandle :: "string option"
  ve_data :: "viewer_edge_data option"

record viewer_binding =
  vb_id :: string
  vb_sourceViewerId :: string
  vb_targetViewerId :: string
  vb_mappings :: "(string \<times> string) list"
  vb_effects :: "string list"
  vb_emptySelection :: string

record annotation_layout =
  al_width :: js_number
  al_height :: js_number

record annotation_node =
  at_id :: string
  at_position :: point
  at_kind :: string
  at_layout :: annotation_layout
  at_text :: string
  at_color :: string
  at_selected :: bool

record viewer_canvas_state =
  vs_nodes :: "viewer_node list"
  vs_edges :: "viewer_edge list"
  vs_bindings :: "viewer_binding list"
  vs_annotations :: "annotation_node list"

definition ARTIFACT_VIEWER_INPUT_HANDLE :: string where
  "ARTIFACT_VIEWER_INPUT_HANDLE = ''artifact-viewer-input''"

definition is_finite :: "js_number \<Rightarrow> bool" where
  "is_finite v = (case v of Finite _ \<Rightarrow> True | _ \<Rightarrow> False)"

subsection \<open>Annotations\<close>

definition DEFAULT_ANNOTATION_COLOR :: string where
  "DEFAULT_ANNOTATION_COLOR = ''#475569''"

definition ANNOTATION_KINDS :: "string list" where
  "ANNOTATION_KINDS = [''text'', ''rectangle'', ''ellipse'']"

definition DEFAULT_ANNOTATION_LAYOUT :: "string \<Rightarrow> annotation_layout" where
  "DEFAULT_ANNOTATION_LAYOUT kind =
     (if kind = ''text'' then \<lparr>al_width = Finite 240, al_height = Finite 120\<rparr>
      else if kind = ''rectangle'' then \<lparr>al_width = Finite 160, al_height = Finite 120\<rparr>
      else \<lparr>al_width = Finite 160, al_height = Finite 160\<rparr>)"

definition TEXT_MAX :: nat where
  "TEXT_MAX = 8000"

definition HEX_DIGITS :: string where
  "HEX_DIGITS = ''0123456789ABCDEFabcdef''"

definition is_hex_color :: "string \<Rightarrow> bool" where
  "is_hex_color value \<longleftrightarrow> length value = 7 \<and> hd value = CHR ''#''
     \<and> list_all (\<lambda>c. c \<in> set HEX_DIGITS) (tl value)"

definition normalizeAnnotationColor :: "string \<Rightarrow> string" where
  "normalizeAnnotationColor value =
     (if value = [] then DEFAULT_ANNOTATION_COLOR
      else if is_hex_color value then map to_lower value
      else DEFAULT_ANNOTATION_COLOR)"

text \<open>\<open>Math.min(hi, Math.max(lo, value))\<close>, where a \<open>NaN\<close> operand gives \<open>NaN\<close>.\<close>

definition clamp_number :: "rat \<Rightarrow> rat \<Rightarrow> js_number \<Rightarrow> js_number" where
  "clamp_number lo hi value =
     (case value of Finite r \<Rightarrow> Finite (min hi (max lo r)) | PosInfinity \<Rightarrow> Finite hi | NegInfinity \<Rightarrow> Finite (min hi lo) | NaN \<Rightarrow> NaN)"

definition clampAnnotationLayout :: "annotation_layout \<Rightarrow> annotation_layout" where
  "clampAnnotationLayout layout =
     \<lparr>al_width = clamp_number 24 16384 (al_width layout), al_height = clamp_number 24 16384 (al_height layout)\<rparr>"

fun read_annotations :: "presentation_annotation list \<Rightarrow> string list \<Rightarrow> annotation_node list" where
  "read_annotations [] seen = []"
| "read_annotations (annotation # rest) seen =
     (if an_id annotation = [] \<or> an_id annotation \<in> set seen \<or> an_kind annotation \<notin> set ANNOTATION_KINDS
        \<or> \<not> is_finite (pt_x (an_position annotation)) \<or> \<not> is_finite (pt_y (an_position annotation))
        \<or> \<not> is_finite (pt_x (an_layout annotation)) \<or> \<not> is_finite (pt_y (an_layout annotation))
      then read_annotations rest seen
      else \<lparr>at_id = an_id annotation, at_position = an_position annotation, at_kind = an_kind annotation,
            at_layout = clampAnnotationLayout \<lparr>al_width = pt_x (an_layout annotation), al_height = pt_y (an_layout annotation)\<rparr>,
            at_text = (if an_kind annotation = ''text'' then an_text annotation else []),
            at_color = normalizeAnnotationColor (an_color annotation), at_selected = False\<rparr>
           # read_annotations rest (seen @ [an_id annotation]))"

definition annotationsFromPresentation :: "graph_presentation nullish \<Rightarrow> annotation_node list" where
  "annotationsFromPresentation presentation =
     (case presentation of Defined p \<Rightarrow> read_annotations (p_annotations p) [] | _ \<Rightarrow> [])"

definition serialize_annotation :: "annotation_node \<Rightarrow> presentation_annotation" where
  "serialize_annotation node =
     (let layout = clampAnnotationLayout (at_layout node)
      in \<lparr>an_id = at_id node, an_kind = at_kind node, an_color = normalizeAnnotationColor (at_color node),
          an_text = (if at_kind node = ''text'' then take TEXT_MAX (at_text node) else []),
          an_position = at_position node, an_layout = \<lparr>pt_x = al_width layout, pt_y = al_height layout\<rparr>\<rparr>)"

definition serializeAnnotations :: "annotation_node list \<Rightarrow> presentation_annotation list" where
  "serializeAnnotations nodes = map serialize_annotation nodes"

definition newline :: string where
  "newline = [char_of (10 :: nat)]"

definition createAnnotationNode :: "string \<Rightarrow> point \<Rightarrow> string \<Rightarrow> annotation_node" where
  "createAnnotationNode kind position annotationId =
     \<lparr>at_id = annotationId, at_position = position, at_kind = kind, at_layout = DEFAULT_ANNOTATION_LAYOUT kind,
      at_text = (if kind = ''text'' then ''## Note'' @ newline @ newline @ ''Describe this part of the graph.'' else []),
      at_color = DEFAULT_ANNOTATION_COLOR, at_selected = True\<rparr>"

subsection \<open>Storing the cards\<close>

definition serialize_viewer :: "viewer_node \<Rightarrow> presentation_viewer" where
  "serialize_viewer node =
     \<lparr>v_id = vn_id node, v_position = vn_position node, v_layout = serializeNodeLayout (vn_layout node),
      v_mode = null_of (vn_mode node), v_artifact_ref = vn_artifactRef node\<rparr>"

definition serialize_link :: "viewer_edge \<Rightarrow> presentation_link" where
  "serialize_link edge =
     \<lparr>l_id = ve_id edge, l_source_node_id = ve_source edge,
      l_source_port_name = (case ve_data edge of Some d \<Rightarrow> vd_sourcePortName d | None \<Rightarrow> []),
      l_target_viewer_id = ve_target edge, l_projection = null_of (Option.bind (ve_data edge) vd_projection),
      l_route_offset = null_of (Option.bind (ve_data edge) vd_routeOffset)\<rparr>"

definition stored_mappings :: "(string \<times> string) list \<Rightarrow> (string \<times> string) list" where
  "stored_mappings mappings = concat (map (\<lambda>(sourceField, targetField).
     if js_trim sourceField = [] \<or> js_trim targetField = [] then [] else [(js_trim sourceField, js_trim targetField)]) mappings)"

definition serialize_binding :: "viewer_binding \<Rightarrow> presentation_binding" where
  "serialize_binding binding =
     \<lparr>b_id = vb_id binding, b_source_viewer_id = vb_sourceViewerId binding, b_target_viewer_id = vb_targetViewerId binding,
      b_mappings = stored_mappings (vb_mappings binding), b_effects = vb_effects binding,
      b_empty_selection = vb_emptySelection binding\<rparr>"

definition presentationFromArtifactViewers :: "viewer_canvas_state \<Rightarrow> graph_presentation" where
  "presentationFromArtifactViewers state =
     \<lparr>p_viewers = map serialize_viewer (vs_nodes state), p_links = map serialize_link (vs_edges state),
      p_bindings = map serialize_binding (vs_bindings state), p_annotations = serializeAnnotations (vs_annotations state)\<rparr>"

subsection \<open>Reading a stored presentation\<close>

fun read_viewers :: "presentation_viewer list \<Rightarrow> string list \<Rightarrow> viewer_node list" where
  "read_viewers [] nodeIds = []"
| "read_viewers (viewer # rest) nodeIds =
     (if v_id viewer = [] \<or> v_id viewer \<in> set nodeIds
        \<or> \<not> is_finite (pt_x (v_position viewer)) \<or> \<not> is_finite (pt_y (v_position viewer))
      then read_viewers rest nodeIds
      else \<lparr>vn_id = v_id viewer, vn_position = v_position viewer, vn_layout = hydrateNodeLayout (or_null (v_layout viewer)),
            vn_mode = undefined_of (v_mode viewer), vn_artifactRef = v_artifact_ref viewer, vn_selected = False,
            vn_measuredWidth = None, vn_measuredHeight = None\<rparr>
           # read_viewers rest (nodeIds @ [v_id viewer]))"

fun read_links :: "string list \<Rightarrow> presentation_link list \<Rightarrow> string list \<Rightarrow> string list \<Rightarrow> viewer_edge list" where
  "read_links nodeIds [] edgeIds connectedViewerIds = []"
| "read_links nodeIds (link # rest) edgeIds connectedViewerIds =
     (if l_id link = [] \<or> l_id link \<in> set edgeIds \<or> l_source_node_id link = [] \<or> l_source_port_name link = []
        \<or> l_target_viewer_id link \<notin> set nodeIds \<or> l_target_viewer_id link \<in> set connectedViewerIds
      then read_links nodeIds rest edgeIds connectedViewerIds
      else \<lparr>ve_id = l_id link, ve_source = l_source_node_id link, ve_target = l_target_viewer_id link,
            ve_targetHandle = Some ARTIFACT_VIEWER_INPUT_HANDLE,
            ve_data = Some
              \<lparr>vd_sourcePortName = l_source_port_name link,
               vd_projection = (case l_projection link of Defined path \<Rightarrow> if path = [] then None else Some path | _ \<Rightarrow> None),
               vd_routeOffset = undefined_of (l_route_offset link)\<rparr>\<rparr>
           # read_links nodeIds rest (edgeIds @ [l_id link]) (connectedViewerIds @ [l_target_viewer_id link]))"

definition VIEWER_EFFECTS :: "string list" where
  "VIEWER_EFFECTS = [''filter'', ''highlight'', ''focus'']"

definition read_effects :: "string list \<Rightarrow> string list" where
  "read_effects effects = filter (\<lambda>effect. effect \<in> set VIEWER_EFFECTS) (js_set effects)"

fun read_bindings :: "string list \<Rightarrow> presentation_binding list \<Rightarrow> string list \<Rightarrow> viewer_binding list" where
  "read_bindings nodeIds [] bindingIds = []"
| "read_bindings nodeIds (binding # rest) bindingIds =
     (if b_id binding = [] \<or> b_id binding \<in> set bindingIds \<or> b_source_viewer_id binding \<notin> set nodeIds
        \<or> b_target_viewer_id binding \<notin> set nodeIds \<or> b_source_viewer_id binding = b_target_viewer_id binding
        \<or> read_effects (b_effects binding) = []
      then read_bindings nodeIds rest bindingIds
      else \<lparr>vb_id = b_id binding, vb_sourceViewerId = b_source_viewer_id binding, vb_targetViewerId = b_target_viewer_id binding,
            vb_mappings = filter (\<lambda>(sourceField, targetField). sourceField \<noteq> [] \<and> targetField \<noteq> []) (b_mappings binding),
            vb_effects = read_effects (b_effects binding), vb_emptySelection = b_empty_selection binding\<rparr>
           # read_bindings nodeIds rest (bindingIds @ [b_id binding]))"

definition artifactViewersFromPresentation :: "graph_presentation nullish \<Rightarrow> viewer_canvas_state" where
  "artifactViewersFromPresentation presentation =
     (let nodes = (case presentation of Defined p \<Rightarrow> read_viewers (p_viewers p) [] | _ \<Rightarrow> []);
          nodeIds = map vn_id nodes
      in \<lparr>vs_nodes = nodes,
          vs_edges = (case presentation of Defined p \<Rightarrow> read_links nodeIds (p_links p) [] [] | _ \<Rightarrow> []),
          vs_bindings = (case presentation of Defined p \<Rightarrow> read_bindings nodeIds (p_bindings p) [] | _ \<Rightarrow> []),
          vs_annotations = annotationsFromPresentation presentation\<rparr>)"

subsection \<open>Edits\<close>

definition withViewerLayout :: "viewer_canvas_state \<Rightarrow> string \<Rightarrow> workflow_node_layout option \<Rightarrow> viewer_canvas_state" where
  "withViewerLayout state nodeId layout =
     state\<lparr>vs_nodes := map (\<lambda>node. if vn_id node = nodeId then node\<lparr>vn_layout := layout\<rparr> else node) (vs_nodes state)\<rparr>"

definition withViewerMode :: "viewer_canvas_state \<Rightarrow> string \<Rightarrow> string \<Rightarrow> viewer_canvas_state" where
  "withViewerMode state nodeId mode =
     state\<lparr>vs_nodes := map (\<lambda>node. if vn_id node = nodeId then node\<lparr>vn_mode := Some mode\<rparr> else node) (vs_nodes state)\<rparr>"

definition edge_data_of :: "viewer_edge \<Rightarrow> viewer_edge_data" where
  "edge_data_of edge =
     (case ve_data edge of Some d \<Rightarrow> d | None \<Rightarrow> \<lparr>vd_sourcePortName = [], vd_projection = None, vd_routeOffset = None\<rparr>)"

definition withViewerEdge :: "viewer_canvas_state \<Rightarrow> string \<Rightarrow> string list nullish \<Rightarrow> viewer_canvas_state" where
  "withViewerEdge state edgeId projection =
     state\<lparr>vs_edges := map (\<lambda>edge.
       if ve_id edge = edgeId
       then edge\<lparr>ve_data := Some ((edge_data_of edge)\<lparr>vd_projection :=
              (case projection of Undefined \<Rightarrow> Option.bind (ve_data edge) vd_projection | Null \<Rightarrow> None | Defined path \<Rightarrow> Some path)\<rparr>)\<rparr>
       else edge)
       (vs_edges state)\<rparr>"

definition withViewerEdgeRoute :: "viewer_canvas_state \<Rightarrow> string \<Rightarrow> point \<Rightarrow> viewer_canvas_state" where
  "withViewerEdgeRoute state edgeId routeOffset =
     state\<lparr>vs_edges := map (\<lambda>edge.
       if ve_id edge = edgeId then edge\<lparr>ve_data := Some ((edge_data_of edge)\<lparr>vd_routeOffset := Some routeOffset\<rparr>)\<rparr> else edge)
       (vs_edges state)\<rparr>"

definition withViewerBinding :: "viewer_canvas_state \<Rightarrow> string \<Rightarrow> viewer_binding \<Rightarrow> viewer_canvas_state" where
  "withViewerBinding state bindingId binding =
     state\<lparr>vs_bindings := map (\<lambda>candidate. if vb_id candidate = bindingId then binding else candidate) (vs_bindings state)\<rparr>"

definition withoutViewer :: "viewer_canvas_state \<Rightarrow> string \<Rightarrow> viewer_canvas_state" where
  "withoutViewer state nodeId =
     state\<lparr>vs_nodes := filter (\<lambda>node. vn_id node \<noteq> nodeId) (vs_nodes state),
           vs_edges := filter (\<lambda>edge. ve_source edge \<noteq> nodeId \<and> ve_target edge \<noteq> nodeId) (vs_edges state),
           vs_bindings := filter (\<lambda>binding. vb_sourceViewerId binding \<noteq> nodeId \<and> vb_targetViewerId binding \<noteq> nodeId)
             (vs_bindings state)\<rparr>"

definition withoutViewerEdgesFromNodes :: "viewer_canvas_state \<Rightarrow> string list \<Rightarrow> viewer_canvas_state" where
  "withoutViewerEdgesFromNodes state removedNodeIds =
     (if removedNodeIds = [] then state
      else let edges = filter (\<lambda>edge. ve_source edge \<notin> set removedNodeIds) (vs_edges state)
           in if length edges = length (vs_edges state) then state else state\<lparr>vs_edges := edges\<rparr>)"

definition withAnnotationLayout :: "viewer_canvas_state \<Rightarrow> string \<Rightarrow> annotation_layout \<Rightarrow> viewer_canvas_state" where
  "withAnnotationLayout state nodeId layout =
     state\<lparr>vs_annotations := map (\<lambda>node. if at_id node = nodeId then node\<lparr>at_layout := layout\<rparr> else node) (vs_annotations state)\<rparr>"

definition withAnnotationText :: "viewer_canvas_state \<Rightarrow> string \<Rightarrow> string \<Rightarrow> viewer_canvas_state" where
  "withAnnotationText state nodeId txt =
     state\<lparr>vs_annotations := map (\<lambda>node. if at_id node = nodeId then node\<lparr>at_text := txt\<rparr> else node) (vs_annotations state)\<rparr>"

definition withAnnotationColor :: "viewer_canvas_state \<Rightarrow> string \<Rightarrow> string \<Rightarrow> viewer_canvas_state" where
  "withAnnotationColor state nodeId color =
     state\<lparr>vs_annotations := map (\<lambda>node. if at_id node = nodeId then node\<lparr>at_color := color\<rparr> else node) (vs_annotations state)\<rparr>"

definition withoutAnnotation :: "viewer_canvas_state \<Rightarrow> string \<Rightarrow> viewer_canvas_state" where
  "withoutAnnotation state nodeId =
     state\<lparr>vs_annotations := filter (\<lambda>node. at_id node \<noteq> nodeId) (vs_annotations state)\<rparr>"

end
