(* ===== verification/ArtifactViewers_Facts.thy ===== *)
theory ArtifactViewers_Facts
  imports ArtifactViewers
begin

section \<open>What storing and editing the presentation keeps\<close>

text \<open>
  The invariant of the cards, links, bindings and notes of a canvas: reading any stored presentation
  establishes it, every edit keeps it, and storing a canvas that has it loses nothing but the transient
  fields. A second reading and storing changes nothing.
\<close>

subsection \<open>The invariant\<close>

definition viewer_ok :: "viewer_node \<Rightarrow> bool" where
  "viewer_ok node \<longleftrightarrow> vn_id node \<noteq> [] \<and> is_finite (pt_x (vn_position node)) \<and> is_finite (pt_y (vn_position node))"

definition link_ok :: "string set \<Rightarrow> viewer_edge \<Rightarrow> bool" where
  "link_ok nodeIds edge \<longleftrightarrow> ve_id edge \<noteq> [] \<and> ve_source edge \<noteq> [] \<and> ve_target edge \<in> nodeIds
     \<and> ve_targetHandle edge = Some ARTIFACT_VIEWER_INPUT_HANDLE
     \<and> (\<exists>data. ve_data edge = Some data \<and> vd_sourcePortName data \<noteq> [] \<and> vd_projection data \<noteq> Some [])"

definition binding_ok :: "string set \<Rightarrow> viewer_binding \<Rightarrow> bool" where
  "binding_ok nodeIds binding \<longleftrightarrow> vb_id binding \<noteq> [] \<and> vb_sourceViewerId binding \<in> nodeIds \<and> vb_targetViewerId binding \<in> nodeIds
     \<and> vb_sourceViewerId binding \<noteq> vb_targetViewerId binding \<and> vb_effects binding \<noteq> [] \<and> read_effects (vb_effects binding) = vb_effects binding"

definition annotation_ok :: "annotation_node \<Rightarrow> bool" where
  "annotation_ok node \<longleftrightarrow> at_id node \<noteq> [] \<and> at_kind node \<in> set ANNOTATION_KINDS
     \<and> is_finite (pt_x (at_position node)) \<and> is_finite (pt_y (at_position node))
     \<and> is_finite (al_width (at_layout node)) \<and> is_finite (al_height (at_layout node))"

definition viewers_wf :: "viewer_canvas_state \<Rightarrow> bool" where
  "viewers_wf state \<longleftrightarrow>
     distinct (map vn_id (vs_nodes state)) \<and> list_all viewer_ok (vs_nodes state)
     \<and> distinct (map ve_id (vs_edges state)) \<and> distinct (map ve_target (vs_edges state))
     \<and> list_all (link_ok (vn_id ` set (vs_nodes state))) (vs_edges state)
     \<and> distinct (map vb_id (vs_bindings state)) \<and> list_all (binding_ok (vn_id ` set (vs_nodes state))) (vs_bindings state)
     \<and> distinct (map at_id (vs_annotations state)) \<and> list_all annotation_ok (vs_annotations state)"

subsection \<open>Reading establishes it\<close>

lemma read_viewers_ok:
  "distinct (map vn_id (read_viewers viewers ids)) \<and> list_all viewer_ok (read_viewers viewers ids)
     \<and> vn_id ` set (read_viewers viewers ids) \<inter> set ids = {}"
  by (induction viewers ids rule: read_viewers.induct) (auto simp: viewer_ok_def)

lemma read_links_ok:
  "distinct (map ve_id (read_links nodeIds links ids joined)) \<and> distinct (map ve_target (read_links nodeIds links ids joined))
     \<and> list_all (link_ok (set nodeIds)) (read_links nodeIds links ids joined)
     \<and> ve_id ` set (read_links nodeIds links ids joined) \<inter> set ids = {}
     \<and> ve_target ` set (read_links nodeIds links ids joined) \<inter> set joined = {}"
  by (induction nodeIds links ids joined rule: read_links.induct) (auto simp: link_ok_def split: nullish.split)

lemma js_set_distinct: "distinct xs \<Longrightarrow> js_set xs = xs"
  by (simp add: js_set_def distinct_remdups_id)

lemma read_effects_idem [simp]: "read_effects (read_effects effects) = read_effects effects"
  by (simp add: read_effects_def js_set_distinct)

lemma read_bindings_ok:
  "distinct (map vb_id (read_bindings nodeIds bindings ids)) \<and> list_all (binding_ok (set nodeIds)) (read_bindings nodeIds bindings ids)
     \<and> vb_id ` set (read_bindings nodeIds bindings ids) \<inter> set ids = {}"
  by (induction nodeIds bindings ids rule: read_bindings.induct) (auto simp: binding_ok_def)

lemma clamp_number_finite [simp]: "is_finite v \<Longrightarrow> is_finite (clamp_number lo hi v)"
  by (auto simp: is_finite_def clamp_number_def split: js_number.splits)

lemma read_annotations_ok:
  "distinct (map at_id (read_annotations annotations ids)) \<and> list_all annotation_ok (read_annotations annotations ids)
     \<and> at_id ` set (read_annotations annotations ids) \<inter> set ids = {}"
  by (induction annotations ids rule: read_annotations.induct) (auto simp: annotation_ok_def clampAnnotationLayout_def)

lemma hydrated_wf: "viewers_wf (artifactViewersFromPresentation presentation)"
proof (cases presentation)
  case (Defined p)
  then show ?thesis
    using read_viewers_ok [of "p_viewers p" "[]"] read_annotations_ok [of "p_annotations p" "[]"]
      read_links_ok [of "map vn_id (read_viewers (p_viewers p) [])" "p_links p" "[]" "[]"]
      read_bindings_ok [of "map vn_id (read_viewers (p_viewers p) [])" "p_bindings p" "[]"]
    by (simp add: viewers_wf_def artifactViewersFromPresentation_def annotationsFromPresentation_def Let_def)
qed (simp_all add: viewers_wf_def artifactViewersFromPresentation_def annotationsFromPresentation_def Let_def)

subsection \<open>Storing and reading back\<close>

text \<open>What a stored canvas reads back as: sizes clamped, fields trimmed, nothing selected or measured.\<close>

definition stored_viewer :: "viewer_node \<Rightarrow> viewer_node" where
  "stored_viewer node =
     node\<lparr>vn_layout := clampNodeLayout (vn_layout node), vn_selected := False, vn_measuredWidth := None, vn_measuredHeight := None\<rparr>"

definition stored_binding :: "viewer_binding \<Rightarrow> viewer_binding" where
  "stored_binding binding = binding\<lparr>vb_mappings := stored_mappings (vb_mappings binding)\<rparr>"

definition stored_annotation :: "annotation_node \<Rightarrow> annotation_node" where
  "stored_annotation node =
     node\<lparr>at_layout := clampAnnotationLayout (at_layout node),
          at_text := (if at_kind node = ''text'' then take TEXT_MAX (at_text node) else []),
          at_color := normalizeAnnotationColor (at_color node), at_selected := False\<rparr>"

definition stored_viewers :: "viewer_canvas_state \<Rightarrow> viewer_canvas_state" where
  "stored_viewers state =
     \<lparr>vs_nodes = map stored_viewer (vs_nodes state), vs_edges = vs_edges state,
      vs_bindings = map stored_binding (vs_bindings state), vs_annotations = map stored_annotation (vs_annotations state)\<rparr>"

lemma or_null_serialized [simp]: "or_null (serializeNodeLayout layout) = serializeNodeLayout layout"
  by (simp add: serializeNodeLayout_def split: option.split)

lemma read_serialized_viewers:
  "distinct (map vn_id nodes) \<Longrightarrow> list_all viewer_ok nodes \<Longrightarrow> vn_id ` set nodes \<inter> set ids = {}
     \<Longrightarrow> read_viewers (map serialize_viewer nodes) ids = map stored_viewer nodes"
  by (induction nodes arbitrary: ids) (auto simp: serialize_viewer_def stored_viewer_def viewer_ok_def hydrate_serialize_layout)

lemma read_serialized_links:
  "distinct (map ve_id edges) \<Longrightarrow> distinct (map ve_target edges) \<Longrightarrow> list_all (link_ok (set nodeIds)) edges
     \<Longrightarrow> ve_id ` set edges \<inter> set ids = {} \<Longrightarrow> ve_target ` set edges \<inter> set joined = {}
     \<Longrightarrow> read_links nodeIds (map serialize_link edges) ids joined = edges"
proof (induction edges arbitrary: ids joined)
  case (Cons edge edges)
  from Cons.prems(3) obtain data where data: "ve_data edge = Some data" "vd_sourcePortName data \<noteq> []" "vd_projection data \<noteq> Some []"
    and ok: "ve_id edge \<noteq> []" "ve_source edge \<noteq> []" "ve_target edge \<in> set nodeIds" "ve_targetHandle edge = Some ARTIFACT_VIEWER_INPUT_HANDLE"
    by (auto simp: link_ok_def)
  have "read_links nodeIds (map serialize_link edges) (ids @ [ve_id edge]) (joined @ [ve_target edge]) = edges"
    by (rule Cons.IH) (use Cons.prems in auto)
  moreover have "serialize_link edge =
      \<lparr>l_id = ve_id edge, l_source_node_id = ve_source edge, l_source_port_name = vd_sourcePortName data,
       l_target_viewer_id = ve_target edge, l_projection = null_of (vd_projection data), l_route_offset = null_of (vd_routeOffset data)\<rparr>"
    using data by (simp add: serialize_link_def)
  ultimately show ?case
    using Cons.prems(4,5) data ok by (cases edge, cases data) (auto simp: null_of_def split: option.split)
qed simp

lemma js_trim_Nil [simp]: "js_trim [] = []"
  by (simp add: js_trim_def)

lemma stored_mappings_kept:
  "filter (\<lambda>(sourceField, targetField). sourceField \<noteq> [] \<and> targetField \<noteq> []) (stored_mappings mappings) = stored_mappings mappings"
  by (induction mappings) (auto simp: stored_mappings_def)

lemma stored_mappings_idem [simp]: "stored_mappings (stored_mappings mappings) = stored_mappings mappings"
  by (induction mappings) (auto simp: stored_mappings_def js_trim_idem)

lemma read_serialized_bindings:
  "distinct (map vb_id bindings) \<Longrightarrow> list_all (binding_ok (set nodeIds)) bindings \<Longrightarrow> vb_id ` set bindings \<inter> set ids = {}
     \<Longrightarrow> read_bindings nodeIds (map serialize_binding bindings) ids = map stored_binding bindings"
  by (induction bindings arbitrary: ids)
    (auto simp: serialize_binding_def stored_binding_def binding_ok_def stored_mappings_kept)

lemma clamp_number_idem [simp]: "clamp_number 24 16384 (clamp_number 24 16384 v) = clamp_number 24 16384 v"
  by (cases v) (simp_all add: clamp_number_def)

lemma clampAnnotationLayout_idem [simp]: "clampAnnotationLayout (clampAnnotationLayout l) = clampAnnotationLayout l"
  by (simp add: clampAnnotationLayout_def)

lemma lower_hex_digit: "list_all (\<lambda>c. to_lower c \<in> set HEX_DIGITS \<and> to_lower (to_lower c) = to_lower c) HEX_DIGITS"
  by code_simp

lemma lower_hex_color:
  assumes "is_hex_color c"
  shows "is_hex_color (map to_lower c) \<and> map to_lower (map to_lower c) = map to_lower c"
proof -
  from assms obtain cs where c: "c = CHR ''#'' # cs" "length cs = 6" "\<forall>x\<in>set cs. x \<in> set HEX_DIGITS"
    by (cases c) (auto simp: is_hex_color_def list_all_iff)
  have hash: "to_lower (CHR ''#'') = CHR ''#''" by code_simp
  have digits: "\<forall>x\<in>set HEX_DIGITS. to_lower x \<in> set HEX_DIGITS \<and> to_lower (to_lower x) = to_lower x"
    using lower_hex_digit by (simp add: list_all_iff)
  show ?thesis using c digits by (auto simp: is_hex_color_def hash list_all_iff)
qed

lemma normalizeAnnotationColor_idem [simp]: "normalizeAnnotationColor (normalizeAnnotationColor c) = normalizeAnnotationColor c"
proof (cases "is_hex_color c")
  case True
  then have "c \<noteq> []" by (auto simp: is_hex_color_def)
  with lower_hex_color [OF True] True show ?thesis by (simp add: normalizeAnnotationColor_def)
next
  case False
  then have "normalizeAnnotationColor c = DEFAULT_ANNOTATION_COLOR" by (simp add: normalizeAnnotationColor_def)
  moreover have "normalizeAnnotationColor DEFAULT_ANNOTATION_COLOR = DEFAULT_ANNOTATION_COLOR" by code_simp
  ultimately show ?thesis by simp
qed

lemma read_serialized_annotations:
  "distinct (map at_id nodes) \<Longrightarrow> list_all annotation_ok nodes \<Longrightarrow> at_id ` set nodes \<inter> set ids = {}
     \<Longrightarrow> read_annotations (map serialize_annotation nodes) ids = map stored_annotation nodes"
proof (induction nodes arbitrary: ids)
  case (Cons node nodes)
  have "clampAnnotationLayout \<lparr>al_width = al_width l, al_height = al_height l\<rparr> = clampAnnotationLayout l" for l
    by (simp add: clampAnnotationLayout_def)
  with Cons show ?case
    by (auto simp: serialize_annotation_def stored_annotation_def annotation_ok_def clampAnnotationLayout_def Let_def)
qed simp

lemma read_back:
  assumes "viewers_wf state"
  shows "artifactViewersFromPresentation (Defined (presentationFromArtifactViewers state)) = stored_viewers state"
proof -
  have "map vn_id (map stored_viewer (vs_nodes state)) = map vn_id (vs_nodes state)" by (simp add: stored_viewer_def)
  then show ?thesis
    using assms read_serialized_viewers [of "vs_nodes state" "[]"]
      read_serialized_links [of "vs_edges state" "map vn_id (vs_nodes state)" "[]" "[]"]
      read_serialized_bindings [of "vs_bindings state" "map vn_id (vs_nodes state)" "[]"]
      read_serialized_annotations [of "vs_annotations state" "[]"]
    by (simp add: artifactViewersFromPresentation_def presentationFromArtifactViewers_def viewers_wf_def stored_viewers_def
        annotationsFromPresentation_def serializeAnnotations_def Let_def del: map_map)
qed

lemma stored_again: "presentationFromArtifactViewers (stored_viewers state) = presentationFromArtifactViewers state"
  by (simp add: presentationFromArtifactViewers_def stored_viewers_def serializeAnnotations_def serialize_viewer_def stored_viewer_def
      serialize_binding_def stored_binding_def serialize_annotation_def stored_annotation_def serializeNodeLayout_def Let_def)


subsection \<open>Edits\<close>

text \<open>The edits of a presentation, with what the workbench passes to each.\<close>

datatype viewer_edit =
    EditLayout string "workflow_node_layout option"
  | EditMode string string
  | EditEdge string "string list nullish"
  | EditEdgeRoute string point
  | EditBinding string viewer_binding
  | RemoveViewer string
  | RemoveEdgesFrom "string list"
  | EditAnnotationLayout string annotation_layout
  | EditAnnotationText string string
  | EditAnnotationColor string string
  | RemoveAnnotation string

fun apply_viewer_edit :: "viewer_canvas_state \<Rightarrow> viewer_edit \<Rightarrow> viewer_canvas_state" where
  "apply_viewer_edit state (EditLayout nodeId layout) = withViewerLayout state nodeId layout"
| "apply_viewer_edit state (EditMode nodeId mode) = withViewerMode state nodeId mode"
| "apply_viewer_edit state (EditEdge edgeId projection) = withViewerEdge state edgeId projection"
| "apply_viewer_edit state (EditEdgeRoute edgeId offset) = withViewerEdgeRoute state edgeId offset"
| "apply_viewer_edit state (EditBinding bindingId binding) = withViewerBinding state bindingId binding"
| "apply_viewer_edit state (RemoveViewer nodeId) = withoutViewer state nodeId"
| "apply_viewer_edit state (RemoveEdgesFrom nodeIds) = withoutViewerEdgesFromNodes state nodeIds"
| "apply_viewer_edit state (EditAnnotationLayout nodeId layout) = withAnnotationLayout state nodeId layout"
| "apply_viewer_edit state (EditAnnotationText nodeId txt) = withAnnotationText state nodeId txt"
| "apply_viewer_edit state (EditAnnotationColor nodeId color) = withAnnotationColor state nodeId color"
| "apply_viewer_edit state (RemoveAnnotation nodeId) = withoutAnnotation state nodeId"

text \<open>A new binding keeps its id, joins two cards of the canvas and has effects; a projection has a path, a size is a number.\<close>

fun edit_ok :: "viewer_canvas_state \<Rightarrow> viewer_edit \<Rightarrow> bool" where
  "edit_ok state (EditEdge edgeId projection) \<longleftrightarrow> projection \<noteq> Defined []"
| "edit_ok state (EditBinding bindingId binding) \<longleftrightarrow> vb_id binding = bindingId \<and> binding_ok (vn_id ` set (vs_nodes state)) binding"
| "edit_ok state (EditAnnotationLayout nodeId layout) \<longleftrightarrow> is_finite (al_width layout) \<and> is_finite (al_height layout)"
| "edit_ok state _ \<longleftrightarrow> True"

lemma map_key_update: "(\<And>x. P x \<Longrightarrow> key (f x) = key x) \<Longrightarrow> map key (map (\<lambda>x. if P x then f x else x) xs) = map key xs"
  by simp

lemma list_all_update: "(\<And>x. P x \<Longrightarrow> Q x \<Longrightarrow> Q (f x)) \<Longrightarrow> list_all Q xs \<Longrightarrow> list_all Q (map (\<lambda>x. if P x then f x else x) xs)"
  by (induction xs) auto

lemma edit_wf_nodes:
  assumes "viewers_wf state" and "\<And>node. vn_id (f node) = vn_id node \<and> vn_position (f node) = vn_position node"
  shows "viewers_wf (state\<lparr>vs_nodes := map (\<lambda>node. if vn_id node = nodeId then f node else node) (vs_nodes state)\<rparr>)"
proof -
  let ?nodes = "map (\<lambda>node. if vn_id node = nodeId then f node else node) (vs_nodes state)"
  have "map vn_id ?nodes = map vn_id (vs_nodes state)" using assms(2) by (intro map_key_update) simp
  moreover from this have "vn_id ` set ?nodes = vn_id ` set (vs_nodes state)" by (metis set_map)
  moreover have "list_all viewer_ok ?nodes"
    using assms by (intro list_all_update) (simp_all add: viewers_wf_def viewer_ok_def)
  ultimately show ?thesis using assms(1) by (simp add: viewers_wf_def del: set_map map_map)
qed

lemma edit_wf_edges:
  assumes "viewers_wf state"
    and "\<And>edge. link_ok (vn_id ` set (vs_nodes state)) edge \<Longrightarrow> link_ok (vn_id ` set (vs_nodes state)) (f edge)"
    and "\<And>edge. ve_id (f edge) = ve_id edge \<and> ve_target (f edge) = ve_target edge"
  shows "viewers_wf (state\<lparr>vs_edges := map (\<lambda>edge. if ve_id edge = edgeId then f edge else edge) (vs_edges state)\<rparr>)"
proof -
  let ?edges = "map (\<lambda>edge. if ve_id edge = edgeId then f edge else edge) (vs_edges state)"
  have "map ve_id ?edges = map ve_id (vs_edges state)" "map ve_target ?edges = map ve_target (vs_edges state)"
    using assms(3) by (simp_all add: map_key_update)
  moreover have "list_all (link_ok (vn_id ` set (vs_nodes state))) ?edges"
    using assms(1,2) by (intro list_all_update) (simp_all add: viewers_wf_def)
  ultimately show ?thesis using assms(1) by (simp add: viewers_wf_def del: map_map)
qed

lemma edit_wf_annotations:
  assumes "viewers_wf state" and "\<And>node. annotation_ok node \<Longrightarrow> annotation_ok (f node)" and "\<And>node. at_id (f node) = at_id node"
  shows "viewers_wf (state\<lparr>vs_annotations := map (\<lambda>node. if at_id node = nodeId then f node else node) (vs_annotations state)\<rparr>)"
proof -
  let ?notes = "map (\<lambda>node. if at_id node = nodeId then f node else node) (vs_annotations state)"
  have "map at_id ?notes = map at_id (vs_annotations state)" using assms(3) by (simp add: map_key_update)
  moreover have "list_all annotation_ok ?notes"
    using assms(1,2) by (intro list_all_update) (simp_all add: viewers_wf_def)
  ultimately show ?thesis using assms(1) by (simp add: viewers_wf_def del: map_map)
qed

lemma withoutViewer_wf:
  assumes "viewers_wf state"
  shows "viewers_wf (withoutViewer state nodeId)"
proof -
  have "link_ok (vn_id ` {node \<in> set (vs_nodes state). vn_id node \<noteq> nodeId}) edge"
    if "link_ok (vn_id ` set (vs_nodes state)) edge" "ve_target edge \<noteq> nodeId" for edge
    using that by (auto simp: link_ok_def)
  moreover have "binding_ok (vn_id ` {node \<in> set (vs_nodes state). vn_id node \<noteq> nodeId}) binding"
    if "binding_ok (vn_id ` set (vs_nodes state)) binding" "vb_sourceViewerId binding \<noteq> nodeId" "vb_targetViewerId binding \<noteq> nodeId" for binding
    using that by (auto simp: binding_ok_def)
  ultimately show ?thesis
    using assms by (simp add: viewers_wf_def withoutViewer_def distinct_map_filter list_all_iff)
qed

lemma edit_wf:
  assumes wf: "viewers_wf state" and ok: "edit_ok state edit"
  shows "viewers_wf (apply_viewer_edit state edit)"
proof (cases edit)
  case (EditEdge edgeId projection)
  show ?thesis unfolding EditEdge apply_viewer_edit.simps withViewerEdge_def
    by (rule edit_wf_edges [OF wf]) (use ok EditEdge in \<open>auto simp: link_ok_def edge_data_of_def split: nullish.splits\<close>)
next
  case (EditEdgeRoute edgeId offset)
  show ?thesis unfolding EditEdgeRoute apply_viewer_edit.simps withViewerEdgeRoute_def
    by (rule edit_wf_edges [OF wf]) (auto simp: link_ok_def edge_data_of_def)
next
  case (EditBinding bindingId binding)
  let ?bindings = "map (\<lambda>candidate. if vb_id candidate = bindingId then binding else candidate) (vs_bindings state)"
  have "map vb_id ?bindings = map vb_id (vs_bindings state)" using ok EditBinding by simp
  moreover have "list_all (binding_ok (vn_id ` set (vs_nodes state))) ?bindings"
    using wf ok EditBinding by (intro list_all_update) (simp_all add: viewers_wf_def)
  ultimately show ?thesis using wf EditBinding by (simp add: viewers_wf_def withViewerBinding_def del: map_map)
next
  case (RemoveEdgesFrom nodeIds)
  then show ?thesis
    using wf by (auto simp: viewers_wf_def withoutViewerEdgesFromNodes_def Let_def distinct_map_filter list_all_iff)
next
  case (RemoveAnnotation nodeId)
  then show ?thesis using wf by (simp add: viewers_wf_def withoutAnnotation_def distinct_map_filter list_all_iff)
next
  case (EditAnnotationLayout nodeId layout)
  then show ?thesis using ok by (auto simp: withAnnotationLayout_def annotation_ok_def intro!: edit_wf_annotations [OF wf])
qed (auto simp: withViewerLayout_def withViewerMode_def withAnnotationText_def withAnnotationColor_def annotation_ok_def withoutViewer_wf [OF wf]
      intro!: edit_wf_nodes [OF wf] edit_wf_annotations [OF wf])


definition demo_viewer :: "string \<Rightarrow> rat \<Rightarrow> viewer_node" where
  "demo_viewer nodeId width =
     \<lparr>vn_id = nodeId, vn_position = \<lparr>pt_x = Finite 0, pt_y = Finite 0\<rparr>,
      vn_layout = Some \<lparr>wl_width = Some (Finite width), wl_bodyHeight = None, wl_appendixHeight = None\<rparr>,
      vn_mode = None, vn_artifactRef = JNull, vn_selected = True, vn_measuredWidth = None, vn_measuredHeight = None\<rparr>"

definition demo_canvas :: viewer_canvas_state where
  "demo_canvas =
     \<lparr>vs_nodes = [demo_viewer ''a'' 300, demo_viewer ''b'' 250],
      vs_edges = [\<lparr>ve_id = ''l'', ve_source = ''n'', ve_target = ''a'', ve_targetHandle = Some ARTIFACT_VIEWER_INPUT_HANDLE,
                   ve_data = Some \<lparr>vd_sourcePortName = ''out'', vd_projection = None, vd_routeOffset = None\<rparr>\<rparr>],
      vs_bindings = [\<lparr>vb_id = ''x'', vb_sourceViewerId = ''a'', vb_targetViewerId = ''b'', vb_mappings = [('' k'', ''k'')],
                      vb_effects = [''filter''], vb_emptySelection = ''show_all''\<rparr>],
      vs_annotations = []\<rparr>"

lemma demo_canvas_wf: "viewers_wf demo_canvas"
  by (simp add: demo_canvas_def demo_viewer_def viewers_wf_def viewer_ok_def link_ok_def binding_ok_def is_finite_def
      read_effects_def js_set_def VIEWER_EFFECTS_def)


text \<open>
  A card narrower than the floor of a workflow node is stored and reopened at that floor: the default card of
  250 opens again at 260.
\<close>

lemma narrow_card_widens:
  assumes "viewers_wf state" and "node \<in> set (vs_nodes state)"
    and "vn_layout node = Some layout" and "wl_width layout = Some (Finite width)" and "width < 260"
  shows "\<exists>node'\<in>set (vs_nodes (artifactViewersFromPresentation (Defined (presentationFromArtifactViewers state)))).
    vn_id node' = vn_id node \<and> Option.bind (vn_layout node') wl_width = Some (Finite 260)"
proof
  show "stored_viewer node \<in> set (vs_nodes (artifactViewersFromPresentation (Defined (presentationFromArtifactViewers state))))"
    using assms(1,2) by (simp add: read_back stored_viewers_def)
  show "vn_id (stored_viewer node) = vn_id node \<and> Option.bind (vn_layout (stored_viewer node)) wl_width = Some (Finite 260)"
    using assms(3-5) by (simp add: stored_viewer_def clampNodeLayout_def clamp_size_def Let_def layout_bounds)
qed

end
