(* ===== verification/ArtifactCards.thy ===== *)
theory ArtifactCards
  imports ArtifactViewers_Facts Handles_Facts
begin

section \<open>What artifact cards present, and grouping them\<close>

text \<open>
  \<^verbatim>\<open>canvas/artifact-card.ts\<close> and \<^verbatim>\<open>model/artifact-grouping.ts\<close>. The value of a card is a single artifact
  reference or a sequence of them; both are JSON objects told apart by \<open>item_refs\<close>, as in the code, and
  fields are compared as JSON values. Positions are added and multiplied exactly, where the code uses
  doubles. Random ids are arguments. The functions that only name a type for display are not modelled.
\<close>

subsection \<open>Numbers\<close>

fun js_add :: "js_number \<Rightarrow> js_number \<Rightarrow> js_number" where
  "js_add (Finite a) (Finite b) = Finite (a + b)"
| "js_add NaN _ = NaN"
| "js_add _ NaN = NaN"
| "js_add PosInfinity NegInfinity = NaN"
| "js_add NegInfinity PosInfinity = NaN"
| "js_add PosInfinity _ = PosInfinity"
| "js_add _ PosInfinity = PosInfinity"
| "js_add NegInfinity _ = NegInfinity"
| "js_add _ NegInfinity = NegInfinity"

text \<open>A natural number times a number.\<close>

definition js_times :: "nat \<Rightarrow> js_number \<Rightarrow> js_number" where
  "js_times n v = (case v of Finite r \<Rightarrow> Finite (of_nat n * r) | _ \<Rightarrow> if n = 0 then NaN else v)"

text \<open>\<open>Math.min\<close> and \<open>Math.max\<close> of two numbers.\<close>

definition js_min :: "js_number \<Rightarrow> js_number \<Rightarrow> js_number" where
  "js_min a b =
     (case (a, b) of
        (NaN, _) \<Rightarrow> NaN | (_, NaN) \<Rightarrow> NaN | (PosInfinity, _) \<Rightarrow> b | (_, PosInfinity) \<Rightarrow> a
      | (NegInfinity, _) \<Rightarrow> NegInfinity | (_, NegInfinity) \<Rightarrow> NegInfinity | (Finite r, Finite s) \<Rightarrow> Finite (min r s))"

definition js_max :: "js_number \<Rightarrow> js_number \<Rightarrow> js_number" where
  "js_max a b =
     (case (a, b) of
        (NaN, _) \<Rightarrow> NaN | (_, NaN) \<Rightarrow> NaN | (NegInfinity, _) \<Rightarrow> b | (_, NegInfinity) \<Rightarrow> a
      | (PosInfinity, _) \<Rightarrow> PosInfinity | (_, PosInfinity) \<Rightarrow> PosInfinity | (Finite r, Finite s) \<Rightarrow> Finite (max r s))"

definition js_minimum :: "js_number list \<Rightarrow> js_number" where
  "js_minimum vs = foldr js_min vs PosInfinity"

definition js_maximum :: "js_number list \<Rightarrow> js_number" where
  "js_maximum vs = foldr js_max vs NegInfinity"

text \<open>The sign of \<open>a - b\<close> as a comparator reads it: \<open>NaN\<close> counts as zero.\<close>

definition number_order :: "js_number \<Rightarrow> js_number \<Rightarrow> int" where
  "number_order a b =
     (case (a, b) of
        (Finite r, Finite s) \<Rightarrow> (if r < s then -1 else if s < r then 1 else 0)
      | (NaN, _) \<Rightarrow> 0 | (_, NaN) \<Rightarrow> 0 | (PosInfinity, PosInfinity) \<Rightarrow> 0 | (NegInfinity, NegInfinity) \<Rightarrow> 0
      | (PosInfinity, _) \<Rightarrow> 1 | (_, PosInfinity) \<Rightarrow> -1 | (NegInfinity, _) \<Rightarrow> -1 | (_, NegInfinity) \<Rightarrow> 1)"

text \<open>Cards from top to bottom, and from left to right within a row.\<close>

definition reading_order :: "point \<Rightarrow> point \<Rightarrow> int" where
  "reading_order p q =
     (let dy = number_order (pt_y p) (pt_y q) in if dy \<noteq> 0 then dy else number_order (pt_x p) (pt_x q))"

text \<open>\<open>Math.ceil(Math.sqrt(n))\<close>.\<close>

definition ceil_sqrt :: "nat \<Rightarrow> nat" where
  "ceil_sqrt n = hd (filter (\<lambda>c. n \<le> c * c) [0..<Suc n])"

subsection \<open>Card values\<close>

definition value_field :: "string \<Rightarrow> json \<Rightarrow> json" where
  "value_field name value = (case value of JObject entries \<Rightarrow> obj_get name entries | _ \<Rightarrow> JUndefined)"

definition ref_id :: "json \<Rightarrow> json" where
  "ref_id = value_field ''artifact_id''"

definition is_sequence :: "json \<Rightarrow> bool" where
  "is_sequence value = (case value of JObject entries \<Rightarrow> in_object ''item_refs'' entries | _ \<Rightarrow> False)"

definition DEFAULT_ARTIFACT_CARD_WIDTH :: rat where "DEFAULT_ARTIFACT_CARD_WIDTH = 250"
definition DEFAULT_ARTIFACT_TABLE_CARD_WIDTH :: rat where "DEFAULT_ARTIFACT_TABLE_CARD_WIDTH = 600"
definition DEFAULT_ARTIFACT_TABLE_BODY_HEIGHT :: rat where "DEFAULT_ARTIFACT_TABLE_BODY_HEIGHT = 360"

definition artifactCardMediaHeight :: "js_number \<Rightarrow> js_number" where
  "artifactCardMediaHeight width = (case width of Finite r \<Rightarrow> Finite (of_int \<lfloor>r * 3 / 4 + 1 / 2\<rfloor>) | v \<Rightarrow> v)"

definition cardArtifactRefs :: "json \<Rightarrow> json list" where
  "cardArtifactRefs value =
     (case value of
        JObject entries \<Rightarrow>
          if in_object ''item_refs'' entries then (case obj_get ''item_refs'' entries of JArray refs \<Rightarrow> refs | _ \<Rightarrow> [])
          else [value]
      | _ \<Rightarrow> [])"

definition shareOneArtifactType :: "json \<Rightarrow> json \<Rightarrow> bool" where
  "shareOneArtifactType a b \<longleftrightarrow>
     value_field ''artifact_type'' a = value_field ''artifact_type'' b \<and> value_field ''schema_version'' a = value_field ''schema_version'' b"

definition sequence_id_of :: "json \<Rightarrow> string \<Rightarrow> string" where
  "sequence_id_of previous uuid =
     (case value_field ''sequence_id'' previous of JString s \<Rightarrow> if s = [] then uuid else s | _ \<Rightarrow> uuid)"

definition artifactCardValue :: "json list \<Rightarrow> json \<Rightarrow> bool \<Rightarrow> string \<Rightarrow> json" where
  "artifactCardValue refs previous asSequence uuid =
     (case refs of
        [] \<Rightarrow> JNull
      | first # _ \<Rightarrow>
          if list_ex (\<lambda>ref. \<not> shareOneArtifactType ref first) refs then JNull
          else if length refs = 1 \<and> \<not> asSequence \<and> \<not> is_sequence previous then first
          else JObject
            [(''artifact_type'', value_field ''artifact_type'' first), (''schema_version'', value_field ''schema_version'' first),
             (''item_refs'', JArray refs), (''ordered'', JBool True), (''index_key'', JString ''order_index''),
             (''sequence_id'', JString (sequence_id_of previous uuid))])"

fun first_by_id :: "json list \<Rightarrow> json list \<Rightarrow> json list" where
  "first_by_id seen [] = []"
| "first_by_id seen (ref # refs) =
     (if ref_id ref \<in> set seen then first_by_id seen refs else ref # first_by_id (seen @ [ref_id ref]) refs)"

definition collectArtifactCardRefs :: "(point \<times> json) list \<Rightarrow> json list option" where
  "collectArtifactCardRefs cards =
     (let refs = first_by_id [] (concat (map (\<lambda>card. cardArtifactRefs (snd card))
                   (js_sort (\<lambda>l r. reading_order (fst l) (fst r)) cards)))
      in case refs of
           [] \<Rightarrow> None
         | first # _ \<Rightarrow> if list_all (\<lambda>ref. shareOneArtifactType ref first) refs then Some refs else None)"

definition selectionCollectsIntoSequence :: "json list \<Rightarrow> bool" where
  "selectionCollectsIntoSequence values =
     (case values of [] \<Rightarrow> False | [first] \<Rightarrow> \<not> is_sequence first | _ \<Rightarrow> True)"

definition mergedArtifactCardValue :: "json \<Rightarrow> json \<Rightarrow> string \<Rightarrow> json" where
  "mergedArtifactCardValue target dropped uuid =
     (let targetRefs = cardArtifactRefs target;
          added = filter (\<lambda>ref. ref_id ref \<notin> set (map ref_id targetRefs)) (cardArtifactRefs dropped)
      in if added = [] then JNull else artifactCardValue (targetRefs @ added) target False uuid)"

definition canMergeIntoCard :: "json \<Rightarrow> json \<Rightarrow> bool" where
  "canMergeIntoCard target dropped \<longleftrightarrow> mergedArtifactCardValue target dropped [] \<noteq> JNull"

definition moveArtifactCardRef :: "json list \<Rightarrow> int \<Rightarrow> int \<Rightarrow> json list" where
  "moveArtifactCardRef refs index delta =
     (let target = min (int (length refs) - 1) (max 0 (index + delta))
      in if index < 0 \<or> index \<ge> int (length refs) \<or> index = target then refs
         else move_to refs (nat index) (nat target))"

definition isTableArtifact :: "json \<Rightarrow> bool" where
  "isTableArtifact ref \<longleftrightarrow>
     value_field ''artifact_type'' ref = JString ''table.data'' \<and> value_field ''schema_version'' ref = JNumber (Finite 1)"

definition IMAGE_ARTIFACT_TYPES :: "string list" where
  "IMAGE_ARTIFACT_TYPES =
     [''image.raster'', ''image.pixmap'', ''geo.raster_scan'', ''file.png'', ''file.jpeg'', ''file.tiff'', ''file.webp'', ''file.bmp'']"

definition isImageArtifact :: "json \<Rightarrow> string nullish \<Rightarrow> bool" where
  "isImageArtifact ref contentType =
     (case non_empty contentType of
        Some t \<Rightarrow> starts_with ''image/'' (map to_lower t)
      | None \<Rightarrow> value_field ''artifact_type'' ref \<in> set (map JString IMAGE_ARTIFACT_TYPES))"

definition artifactTypeFor :: "json \<Rightarrow> artifact_type_spec list \<Rightarrow> artifact_type_spec option" where
  "artifactTypeFor ref artifactTypes =
     find (\<lambda>candidate. JString (type_id (ats_key candidate)) = value_field ''artifact_type'' ref
             \<and> JNumber (Finite (of_int (type_schema_version (ats_key candidate)))) = value_field ''schema_version'' ref) artifactTypes"

definition presentsArtifacts :: "json \<Rightarrow> bool" where
  "presentsArtifacts value \<longleftrightarrow> value \<noteq> JNull \<and> value \<noteq> JUndefined"

definition cardArtifactIds :: "json \<Rightarrow> json list" where
  "cardArtifactIds value = map ref_id (cardArtifactRefs value)"

definition originCarriesCardArtifacts :: "json \<Rightarrow> json \<Rightarrow> bool" where
  "originCarriesCardArtifacts originValue cardValue \<longleftrightarrow>
     cardArtifactIds cardValue \<noteq> [] \<and> cardArtifactRefs originValue \<noteq> []
     \<and> list_all (\<lambda>ref. ref_id ref \<in> set (cardArtifactIds cardValue)) (cardArtifactRefs originValue)"

subsection \<open>Grouping\<close>

definition isProducerFeed :: "viewer_edge \<Rightarrow> string list \<Rightarrow> bool" where
  "isProducerFeed edge cardIds \<longleftrightarrow>
     ve_targetHandle edge = Some ARTIFACT_VIEWER_INPUT_HANDLE \<and> ve_target edge \<in> set cardIds"

text \<open>\<open>values?.[card.id] ?? card.data.artifactRef\<close>: the live output of a card, else what it stores.\<close>

definition shown_value :: "(string \<times> json) list \<Rightarrow> viewer_node \<Rightarrow> json" where
  "shown_value values node =
     (case obj_get (vn_id node) values of JUndefined \<Rightarrow> vn_artifactRef node | JNull \<Rightarrow> vn_artifactRef node | v \<Rightarrow> v)"

definition grouping_disabled ::
    "viewer_node list \<Rightarrow> viewer_canvas_state \<Rightarrow> saved_graph_origin list \<Rightarrow> (string \<times> json) list \<Rightarrow> bool \<Rightarrow> bool" where
  "grouping_disabled cards state origins values allowProducerFeeds =
     (let ids = map vn_id cards;
          artifactIds = concat (map (\<lambda>card. map ref_id (cardArtifactRefs (shown_value values card))) cards)
      in list_ex (\<lambda>edge. (ve_source edge \<in> set ids \<or> ve_target edge \<in> set ids)
                     \<and> \<not> (allowProducerFeeds \<and> isProducerFeed edge ids)) (vs_edges state)
         \<or> list_ex (\<lambda>binding. vb_sourceViewerId binding \<in> set ids \<or> vb_targetViewerId binding \<in> set ids) (vs_bindings state)
         \<or> list_ex (\<lambda>origin. list_ex (\<lambda>ref. ref_id ref \<in> set artifactIds) (cardArtifactRefs (o_value origin))) origins)"

definition artifactGroupingDisabledReason ::
    "viewer_node list \<Rightarrow> viewer_canvas_state \<Rightarrow> saved_graph_origin list \<Rightarrow> (string \<times> json) list \<Rightarrow> bool \<Rightarrow> string option" where
  "artifactGroupingDisabledReason cards state origins values allowProducerFeeds =
     (if grouping_disabled cards state origins values allowProducerFeeds
      then Some ''Disconnect these artifacts before grouping or ungrouping.'' else None)"

definition card_layout :: "js_number \<Rightarrow> workflow_node_layout option" where
  "card_layout width = Some \<lparr>wl_width = Some width, wl_bodyHeight = None, wl_appendixHeight = None\<rparr>"

definition card_id :: "string \<Rightarrow> string" where
  "card_id uuid = ''artifact-viewer-'' @ uuid"

definition new_card :: "string \<Rightarrow> point \<Rightarrow> js_number \<Rightarrow> json \<Rightarrow> viewer_node" where
  "new_card uuid position width value =
     \<lparr>vn_id = card_id uuid, vn_position = position, vn_layout = card_layout width, vn_mode = None,
      vn_artifactRef = value, vn_selected = True, vn_measuredWidth = None, vn_measuredHeight = None\<rparr>"

definition selected_cards :: "(string \<times> json) list \<Rightarrow> viewer_node list \<Rightarrow> (point \<times> json) list" where
  "selected_cards values selected =
     concat (map (\<lambda>node. if presentsArtifacts (shown_value values node) then [(vn_position node, shown_value values node)] else []) selected)"

definition stack_of :: "string \<Rightarrow> viewer_node list \<Rightarrow> json \<Rightarrow> viewer_node" where
  "stack_of cardUuid selected value = new_card cardUuid
     \<lparr>pt_x = js_minimum (map (\<lambda>node. pt_x (vn_position node)) selected),
      pt_y = js_minimum (map (\<lambda>node. pt_y (vn_position node)) selected)\<rparr>
     (Finite DEFAULT_ARTIFACT_CARD_WIDTH) value"

definition collectArtifactCards ::
    "string \<Rightarrow> string \<Rightarrow> viewer_canvas_state \<Rightarrow> saved_graph_origin list \<Rightarrow> (string \<times> json) list \<Rightarrow> viewer_canvas_state" where
  "collectArtifactCards sequenceUuid cardUuid state origins values =
     (let selected = filter vn_selected (vs_nodes state); cards = selected_cards values selected
      in if artifactGroupingDisabledReason selected state origins values True \<noteq> None then state
         else if length cards \<noteq> length selected \<or> length cards < 1 then state
         else
           (case collectArtifactCardRefs cards of
              None \<Rightarrow> state
            | Some refs \<Rightarrow>
                let value = artifactCardValue refs JNull True sequenceUuid; removed = map vn_id selected
                in if value = JNull then state
                   else state\<lparr>vs_nodes := filter (\<lambda>node. \<not> vn_selected node) (vs_nodes state) @ [stack_of cardUuid selected value],
                              vs_edges := filter (\<lambda>edge. ve_source edge \<notin> set removed \<and> ve_target edge \<notin> set removed)
                                (vs_edges state)\<rparr>))"

definition layout_width :: "viewer_node \<Rightarrow> js_number option" where
  "layout_width node = Option.bind (vn_layout node) wl_width"

definition width_or :: "viewer_node \<Rightarrow> rat \<Rightarrow> js_number" where
  "width_or node fallback = (case layout_width node of Some w \<Rightarrow> w | None \<Rightarrow> Finite fallback)"

text \<open>The cell of a grid with the given corner and pitch.\<close>

definition grid_cell :: "point \<Rightarrow> js_number \<Rightarrow> js_number \<Rightarrow> nat \<Rightarrow> nat \<Rightarrow> point" where
  "grid_cell corner pitchX pitchY columns index =
     \<lparr>pt_x = js_add (pt_x corner) (js_times (index mod columns) pitchX),
      pt_y = js_add (pt_y corner) (js_times (index div columns) pitchY)\<rparr>"

definition ungroupArtifactCard ::
    "(nat \<Rightarrow> string) \<Rightarrow> viewer_canvas_state \<Rightarrow> saved_graph_origin list \<Rightarrow> string \<Rightarrow> viewer_canvas_state" where
  "ungroupArtifactCard uuids state origins nodeId =
     (case find (\<lambda>node. vn_id node = nodeId) (vs_nodes state) of
        None \<Rightarrow> state
      | Some stack \<Rightarrow>
          let value = vn_artifactRef stack; refs = cardArtifactRefs value
          in if \<not> is_sequence value \<or> artifactGroupingDisabledReason [stack] state origins [] False \<noteq> None \<or> refs = [] then state
             else
               let table = isTableArtifact value;
                   width = (if table then js_max (width_or stack DEFAULT_ARTIFACT_TABLE_CARD_WIDTH) (Finite DEFAULT_ARTIFACT_TABLE_CARD_WIDTH)
                            else width_or stack DEFAULT_ARTIFACT_CARD_WIDTH);
                   bodyHeight = (if table then Finite DEFAULT_ARTIFACT_TABLE_BODY_HEIGHT else artifactCardMediaHeight width);
                   columns = ceil_sqrt (length refs);
                   cards = map (\<lambda>(index, ref).
                       new_card (uuids index)
                         (grid_cell (vn_position stack) (js_add (js_max width (Finite 300)) (Finite 64)) (js_add bodyHeight (Finite 88)) columns index)
                         width ref) (enumerate 0 refs)
               in state\<lparr>vs_nodes := map (\<lambda>node. node\<lparr>vn_selected := False\<rparr>) (filter (\<lambda>node. vn_id node \<noteq> nodeId) (vs_nodes state)) @ cards\<rparr>)"

definition card_width :: "viewer_node \<Rightarrow> js_number" where
  "card_width node = (case vn_measuredWidth node of Some w \<Rightarrow> w | None \<Rightarrow> width_or node DEFAULT_ARTIFACT_CARD_WIDTH)"

definition card_height :: "viewer_node \<Rightarrow> js_number" where
  "card_height node =
     (case vn_measuredHeight node of
        Some h \<Rightarrow> h
      | None \<Rightarrow> js_add (artifactCardMediaHeight (width_or node DEFAULT_ARTIFACT_CARD_WIDTH)) (Finite 24))"

definition tidyArtifactCards :: "viewer_canvas_state \<Rightarrow> viewer_canvas_state" where
  "tidyArtifactCards state =
     (let picked = filter vn_selected (vs_nodes state)
      in if length picked < 2 then state
         else
           let selected = js_sort (\<lambda>a b. reading_order (vn_position a) (vn_position b)) picked;
               columns = ceil_sqrt (length selected);
               corner = \<lparr>pt_x = js_minimum (map (\<lambda>node. pt_x (vn_position node)) selected),
                         pt_y = js_minimum (map (\<lambda>node. pt_y (vn_position node)) selected)\<rparr>;
               pitchX = js_add (js_maximum (map card_width selected)) (Finite 64);
               pitchY = js_add (js_maximum (map card_height selected)) (Finite 64);
               positions = js_map (map (\<lambda>(index, node). (vn_id node, grid_cell corner pitchX pitchY columns index)) (enumerate 0 selected))
           in state\<lparr>vs_nodes := map (\<lambda>node. case positions (vn_id node) of Some position \<Rightarrow> node\<lparr>vn_position := position\<rparr> | None \<Rightarrow> node)
                (vs_nodes state)\<rparr>)"

end
