(* ===== verification/ArtifactCards_Facts.thy ===== *)
theory ArtifactCards_Facts
  imports ArtifactCards
begin

section \<open>Grouping loses no artifact, tidying leaves no overlap\<close>

text \<open>
  Collecting the selected cards into a stack and ungrouping the stack again gives each artifact back once,
  and keeps the invariant of the canvas; tidying moves the selected cards apart and changes nothing else.
\<close>

subsection \<open>References\<close>

lemma first_by_id_ids:
  "set (map ref_id (first_by_id seen refs)) = set (map ref_id refs) - set seen \<and> distinct (map ref_id (first_by_id seen refs))
     \<and> set (first_by_id seen refs) \<subseteq> set refs"
proof (induction seen refs rule: first_by_id.induct)
  case (2 seen ref refs)
  then show ?case by (cases "ref_id ref \<in> set seen") auto
qed simp

lemma sequence_refs [simp]:
  "cardArtifactRefs (JObject [(''artifact_type'', a), (''schema_version'', b), (''item_refs'', JArray refs), c]) = refs"
  "is_sequence (JObject [(''artifact_type'', a), (''schema_version'', b), (''item_refs'', JArray refs), c])"
  by (simp_all add: cardArtifactRefs_def is_sequence_def in_object_def obj_get_def)

lemma collected_value:
  assumes "artifactCardValue refs JNull True uuid \<noteq> JNull"
  shows "cardArtifactRefs (artifactCardValue refs JNull True uuid) = refs \<and> is_sequence (artifactCardValue refs JNull True uuid)"
  using assms
  by (auto simp: artifactCardValue_def cardArtifactRefs_def is_sequence_def in_object_def obj_get_def split: list.splits if_splits)

lemma collected_refs:
  assumes "collectArtifactCardRefs cards = Some refs"
  shows "refs \<noteq> [] \<and> distinct (map ref_id refs) \<and> set (map ref_id refs) = (\<Union>(p, value)\<in>set cards. ref_id ` set (cardArtifactRefs value))"
proof -
  let ?all = "concat (map (\<lambda>card. cardArtifactRefs (snd card)) (js_sort (\<lambda>l r. reading_order (fst l) (fst r)) cards))"
  from assms have "refs = first_by_id [] ?all" "refs \<noteq> []"
    by (auto simp: collectArtifactCardRefs_def Let_def split: list.splits if_splits)
  with first_by_id_ids [of "[]" ?all] show ?thesis by (auto simp: case_prod_beta)
qed

subsection \<open>Collecting\<close>

lemma selected_cards_all:
  "length (selected_cards values selected) \<le> length selected
   \<and> (length (selected_cards values selected) = length selected
        \<longrightarrow> selected_cards values selected = map (\<lambda>node. (vn_position node, shown_value values node)) selected)"
  by (induction selected) (auto simp: selected_cards_def)

lemma collect_cases:
  assumes "collectArtifactCards sequenceUuid cardUuid state origins values = after" and "after \<noteq> state"
    and "selected = filter vn_selected (vs_nodes state)"
  obtains stacked refs where
    "after = state\<lparr>vs_nodes := filter (\<lambda>node. \<not> vn_selected node) (vs_nodes state) @ [stack_of cardUuid selected stacked],
       vs_edges := filter (\<lambda>edge. ve_source edge \<notin> vn_id ` set selected \<and> ve_target edge \<notin> vn_id ` set selected) (vs_edges state)\<rparr>"
    and "\<not> grouping_disabled selected state origins values True"
    and "cardArtifactRefs stacked = refs" and "is_sequence stacked" and "refs \<noteq> []" and "distinct (map ref_id refs)"
    and "set (map ref_id refs) = (\<Union>node\<in>set selected. ref_id ` set (cardArtifactRefs (shown_value values node)))"
    and "selected \<noteq> []"
proof -
  note parts = assms(1,2) [unfolded collectArtifactCards_def Let_def assms(3) [symmetric] artifactGroupingDisabledReason_def]
  from parts have free: "\<not> grouping_disabled selected state origins values True" by (auto split: if_splits)
  with parts have all: "length (selected_cards values selected) = length selected" and some: "selected_cards values selected \<noteq> []"
    by (auto split: if_splits)
  from parts free all some obtain refs where refs: "collectArtifactCardRefs (selected_cards values selected) = Some refs"
    by (cases "collectArtifactCardRefs (selected_cards values selected)") (auto split: if_splits)
  let ?merged = "artifactCardValue refs JNull True sequenceUuid"
  from parts free all some refs have made: "?merged \<noteq> JNull" by (auto split: if_splits)
  show thesis
  proof (rule that [of ?merged refs])
    show "after = state\<lparr>vs_nodes := filter (\<lambda>node. \<not> vn_selected node) (vs_nodes state) @ [stack_of cardUuid selected ?merged],
       vs_edges := filter (\<lambda>edge. ve_source edge \<notin> vn_id ` set selected \<and> ve_target edge \<notin> vn_id ` set selected) (vs_edges state)\<rparr>"
      using parts(1) free all some refs made by (simp split: if_splits)
    show "cardArtifactRefs ?merged = refs" "is_sequence ?merged" using collected_value [OF made] by simp_all
    show "set (map ref_id refs) = (\<Union>node\<in>set selected. ref_id ` set (cardArtifactRefs (shown_value values node)))"
      using collected_refs [OF refs] selected_cards_all [of "values" selected] all by auto
    show "selected \<noteq> []" using all some by auto
  qed (use free collected_refs [OF refs] in simp_all)
qed

lemma find_snoc: "\<forall>x\<in>set xs. \<not> P x \<Longrightarrow> P y \<Longrightarrow> find P (xs @ [y]) = Some y"
  by (induction xs) auto

lemma map_snd_enumerated: "map snd (enumerate n xs) = xs"
  by (simp add: enumerate_eq_zip)

lemma js_minimum_finite: "vs \<noteq> [] \<Longrightarrow> list_all is_finite vs \<Longrightarrow> is_finite (js_minimum vs)"
proof (induction vs)
  case (Cons v vs)
  then show ?case
    by (cases "vs = []") (auto simp: js_minimum_def js_min_def is_finite_def split: js_number.splits)
qed simp

lemma stack_of_sel [simp]:
  "vn_id (stack_of uuid selected shown) = card_id uuid" "vn_artifactRef (stack_of uuid selected shown) = shown"
  by (simp_all add: stack_of_def new_card_def)

lemma stack_of_ok: "selected \<noteq> [] \<Longrightarrow> list_all viewer_ok selected \<Longrightarrow> viewer_ok (stack_of uuid selected shown)"
  by (auto simp: viewer_ok_def stack_of_def new_card_def card_id_def list_all_iff intro!: js_minimum_finite)

lemma grouping_freeD:
  assumes "\<not> grouping_disabled cards state origins values allow"
  shows "binding \<in> set (vs_bindings state) \<Longrightarrow>
      vb_sourceViewerId binding \<notin> vn_id ` set cards \<and> vb_targetViewerId binding \<notin> vn_id ` set cards"
    and "origin \<in> set origins \<Longrightarrow> ref \<in> set (cardArtifactRefs (o_value origin)) \<Longrightarrow> node \<in> set cards
      \<Longrightarrow> ref_id ref \<notin> ref_id ` set (cardArtifactRefs (shown_value values node))"
  using assms unfolding grouping_disabled_def Let_def list_ex_iff by force+

lemma collect_wf:
  assumes wf: "viewers_wf state" and fresh: "card_id cardUuid \<notin> vn_id ` set (vs_nodes state)"
    and collected: "collectArtifactCards sequenceUuid cardUuid state origins values = after"
  shows "viewers_wf after"
proof (cases "after = state")
  case False
  let ?selected = "filter vn_selected (vs_nodes state)"
  let ?kept = "filter (\<lambda>node. \<not> vn_selected node) (vs_nodes state)"
  obtain stacked refs where
    after: "after = state\<lparr>vs_nodes := ?kept @ [stack_of cardUuid ?selected stacked],
       vs_edges := filter (\<lambda>edge. ve_source edge \<notin> vn_id ` set ?selected \<and> ve_target edge \<notin> vn_id ` set ?selected) (vs_edges state)\<rparr>"
    and free: "\<not> grouping_disabled ?selected state origins values True"
    and "cardArtifactRefs stacked = refs" and "is_sequence stacked" and "refs \<noteq> []" and "distinct (map ref_id refs)"
    and "set (map ref_id refs) = (\<Union>node\<in>set ?selected. ref_id ` set (cardArtifactRefs (shown_value values node)))"
    and some: "?selected \<noteq> []"
    by (rule collect_cases [OF collected False refl])
  have split: "vn_id ` set (vs_nodes state) = vn_id ` set ?selected \<union> vn_id ` set ?kept" by auto
  have ids: "vn_id ` set (vs_nodes after) = insert (card_id cardUuid) (vn_id ` set ?kept)" by (auto simp: after)
  have "link_ok (vn_id ` set (vs_nodes after)) edge" if "edge \<in> set (vs_edges after)" for edge
    using that wf unfolding ids by (auto simp: after viewers_wf_def list_all_iff link_ok_def split)
  moreover have "binding_ok (vn_id ` set (vs_nodes after)) binding" if "binding \<in> set (vs_bindings after)" for binding
  proof -
    from that have "binding \<in> set (vs_bindings state)" by (simp add: after)
    with grouping_freeD(1) [OF free this] wf show ?thesis
      unfolding ids by (auto simp: viewers_wf_def list_all_iff binding_ok_def split)
  qed
  moreover have "distinct (map vn_id (vs_nodes after)) \<and> list_all viewer_ok (vs_nodes after)"
    using wf fresh stack_of_ok [OF some] by (auto simp: after viewers_wf_def distinct_map_filter list_all_iff)
  ultimately show ?thesis
    using wf by (simp add: viewers_wf_def list_all_iff) (simp add: after distinct_map_filter)
qed (use wf in simp)

lemma ungroup_refs:
  assumes "find (\<lambda>node. vn_id node = nodeId) (vs_nodes state) = Some stack" and "is_sequence (vn_artifactRef stack)"
    and "cardArtifactRefs (vn_artifactRef stack) \<noteq> []" and "\<not> grouping_disabled [stack] state origins [] False"
  shows "map vn_artifactRef (vs_nodes (ungroupArtifactCard uuids state origins nodeId))
    = map vn_artifactRef (filter (\<lambda>node. vn_id node \<noteq> nodeId) (vs_nodes state)) @ cardArtifactRefs (vn_artifactRef stack)"
  using assms map_snd_enumerated [of 0 "cardArtifactRefs (vn_artifactRef stack)"]
  by (simp add: ungroupArtifactCard_def artifactGroupingDisabledReason_def Let_def new_card_def case_prod_beta comp_def)


definition demo_ref :: "string \<Rightarrow> json" where
  "demo_ref artifactId = JObject [(''artifact_id'', JString artifactId), (''artifact_type'', JString ''scalar.text''), (''schema_version'', JNumber (Finite 1))]"

definition demo_card :: "string \<Rightarrow> rat \<Rightarrow> json \<Rightarrow> viewer_node" where
  "demo_card uuid x shown = new_card uuid \<lparr>pt_x = Finite x, pt_y = Finite 0\<rparr> (Finite 250) shown"

definition demo_cards :: viewer_canvas_state where
  "demo_cards = \<lparr>vs_nodes = [demo_card ''1'' 300 (demo_ref ''b''), demo_card ''2'' 0 (demo_ref ''a'')], vs_edges = [], vs_bindings = [], vs_annotations = []\<rparr>"

lemma demo_cards_wf: "viewers_wf demo_cards"
  by (simp add: demo_cards_def demo_card_def new_card_def card_id_def viewers_wf_def viewer_ok_def is_finite_def)


subsection \<open>Tidying\<close>

definition cards_apart :: "viewer_node \<Rightarrow> viewer_node \<Rightarrow> bool" where
  "cards_apart a b \<longleftrightarrow>
     (\<exists>ax ay aw ah bx by bw bh. vn_position a = \<lparr>pt_x = Finite ax, pt_y = Finite ay\<rparr> \<and> card_width a = Finite aw \<and> card_height a = Finite ah
        \<and> vn_position b = \<lparr>pt_x = Finite bx, pt_y = Finite by\<rparr> \<and> card_width b = Finite bw \<and> card_height b = Finite bh
        \<and> (ax + aw + 64 \<le> bx \<or> bx + bw + 64 \<le> ax \<or> ay + ah + 64 \<le> by \<or> by + bh + 64 \<le> ay))"

definition sized :: "viewer_node \<Rightarrow> bool" where
  "sized node \<longleftrightarrow> (\<exists>w h. card_width node = Finite w \<and> 0 \<le> w \<and> card_height node = Finite h \<and> 0 \<le> h)"

lemma js_maximum_bound:
  "vs \<noteq> [] \<Longrightarrow> \<forall>v\<in>set vs. \<exists>r\<ge>0. v = Finite r \<Longrightarrow> \<exists>m\<ge>0. js_maximum vs = Finite m \<and> (\<forall>r. Finite r \<in> set vs \<longrightarrow> r \<le> m)"
proof (induction vs)
  case (Cons v vs)
  then obtain r where r: "v = Finite r" "0 \<le> r" by auto
  show ?case
  proof (cases "vs = []")
    case True
    with r show ?thesis by (auto simp: js_maximum_def js_max_def)
  next
    case False
    with Cons obtain m where "0 \<le> m" "js_maximum vs = Finite m" "\<forall>r. Finite r \<in> set vs \<longrightarrow> r \<le> m" by auto
    with r show ?thesis by (intro exI [of _ "max r m"]) (auto simp: js_maximum_def js_max_def max_def)
  qed
qed simp

lemma grid_step:
  assumes "i < (j :: nat)" and "0 \<le> (pitch :: rat)"
  shows "of_nat i * pitch + pitch \<le> of_nat j * pitch"
proof -
  have "of_nat (Suc i) * pitch \<le> of_nat j * pitch"
    using assms by (intro mult_right_mono) simp_all
  then show ?thesis by (simp add: algebra_simps)
qed

lemma grid_cells_apart:
  assumes "i \<noteq> j" and "0 \<le> px" and "0 \<le> py"
    and "grid_cell \<lparr>pt_x = Finite x, pt_y = Finite y\<rparr> (Finite px) (Finite py) columns i = \<lparr>pt_x = Finite ax, pt_y = Finite ay\<rparr>"
    and "grid_cell \<lparr>pt_x = Finite x, pt_y = Finite y\<rparr> (Finite px) (Finite py) columns j = \<lparr>pt_x = Finite bx, pt_y = Finite by\<rparr>"
  shows "ax + px \<le> bx \<or> bx + px \<le> ax \<or> ay + py \<le> by \<or> by + py \<le> ay"
proof -
  have "i mod columns \<noteq> j mod columns \<or> i div columns \<noteq> j div columns"
    using assms(1) by (metis div_mult_mod_eq)
  then consider "i mod columns < j mod columns" | "j mod columns < i mod columns" | "i div columns < j div columns" | "j div columns < i div columns"
    by linarith
  then show ?thesis
    using assms(4,5) grid_step [OF _ assms(2), of "i mod columns" "j mod columns"] grid_step [OF _ assms(2), of "j mod columns" "i mod columns"]
      grid_step [OF _ assms(3), of "i div columns" "j div columns"] grid_step [OF _ assms(3), of "j div columns" "i div columns"]
    by cases (auto simp: grid_cell_def js_times_def algebra_simps)
qed

lemma is_finite_iff: "is_finite v \<longleftrightarrow> (\<exists>r. v = Finite r)"
  by (cases v) (simp_all add: is_finite_def)

lemma js_map_indexed:
  assumes "distinct (map key xs)" and "i < length xs"
  shows "js_map (map (\<lambda>(index, x). (key x, f index)) (enumerate 0 xs)) (key (xs ! i)) = Some (f i)"
proof -
  let ?entries = "map (\<lambda>(index, x). (key x, f index)) (enumerate 0 xs)"
  have "map fst ?entries = map (key \<circ> snd) (enumerate 0 xs)" by (simp add: case_prod_beta comp_def)
  then have "map fst ?entries = map key xs" by (simp only: map_map [symmetric] map_snd_enumerated)
  then have "distinct (map fst (rev ?entries))" using assms(1) by (simp flip: rev_map)
  moreover have "(i, xs ! i) \<in> set (enumerate 0 xs)" using assms(2) by (simp add: in_set_enumerate_eq)
  then have "(key (xs ! i), f i) \<in> set (rev ?entries)" by force
  ultimately show ?thesis unfolding js_map_def by (rule map_of_is_SomeI)
qed

lemma js_map_other: "k \<notin> key ` set xs \<Longrightarrow> js_map (map (\<lambda>(index, x). (key x, f index)) (enumerate 0 xs)) k = None"
  by (auto simp: js_map_None_iff in_set_enumerate_eq)

text \<open>The cells of a tidied selection: one for each selected card, in reading order.\<close>

lemma tidy_cells:
  assumes wf: "viewers_wf state" and many: "2 \<le> length (filter vn_selected (vs_nodes state))"
    and sizes: "\<forall>node\<in>set (vs_nodes state). vn_selected node \<longrightarrow> sized node"
  obtains x y px py columns index where
    "vs_nodes (tidyArtifactCards state) = map (\<lambda>node. if vn_selected node
       then node\<lparr>vn_position := grid_cell \<lparr>pt_x = Finite x, pt_y = Finite y\<rparr> (Finite px) (Finite py) columns (index node)\<rparr> else node) (vs_nodes state)"
    and "inj_on index {node \<in> set (vs_nodes state). vn_selected node}" and "0 \<le> px" and "0 \<le> py"
    and "\<forall>node\<in>set (vs_nodes state). \<forall>w h. vn_selected node \<and> card_width node = Finite w \<and> card_height node = Finite h
      \<longrightarrow> w + 64 \<le> px \<and> h + 64 \<le> py"
proof -
  let ?picked = "filter vn_selected (vs_nodes state)"
  let ?selected = "js_sort (\<lambda>a b. reading_order (vn_position a) (vn_position b)) ?picked"
  have some: "?selected \<noteq> []" using many by (metis length_js_sort list.size(3) not_numeral_le_zero)
  have ids: "distinct (map vn_id ?selected)"
    using wf by (simp add: viewers_wf_def distinct_map_filter distinct_map distinct_filter inj_on_def)
  have "list_all is_finite (map (\<lambda>node. pt_x (vn_position node)) ?selected)" "list_all is_finite (map (\<lambda>node. pt_y (vn_position node)) ?selected)"
    using wf by (auto simp: viewers_wf_def list_all_iff viewer_ok_def)
  with some have "is_finite (js_minimum (map (\<lambda>node. pt_x (vn_position node)) ?selected))"
    "is_finite (js_minimum (map (\<lambda>node. pt_y (vn_position node)) ?selected))"
    by (auto intro: js_minimum_finite)
  then obtain x y where corner: "js_minimum (map (\<lambda>node. pt_x (vn_position node)) ?selected) = Finite x"
    "js_minimum (map (\<lambda>node. pt_y (vn_position node)) ?selected) = Finite y"
    unfolding is_finite_iff by blast
  have "\<forall>v\<in>set (map card_width ?selected). \<exists>r\<ge>0. v = Finite r" "\<forall>v\<in>set (map card_height ?selected). \<exists>r\<ge>0. v = Finite r"
    using sizes by (auto simp: sized_def)
  with some obtain w h where bounds: "0 \<le> w" "js_maximum (map card_width ?selected) = Finite w" "\<forall>r. Finite r \<in> set (map card_width ?selected) \<longrightarrow> r \<le> w"
    "0 \<le> h" "js_maximum (map card_height ?selected) = Finite h" "\<forall>r. Finite r \<in> set (map card_height ?selected) \<longrightarrow> r \<le> h"
    using js_maximum_bound [of "map card_width ?selected"] js_maximum_bound [of "map card_height ?selected"] by auto
  let ?cell = "grid_cell \<lparr>pt_x = Finite x, pt_y = Finite y\<rparr> (Finite (w + 64)) (Finite (h + 64)) (ceil_sqrt (length ?selected))"
  define index where "index node = (SOME i. i < length ?selected \<and> ?selected ! i = node)" for node
  have index: "index node < length ?selected \<and> ?selected ! index node = node" if "node \<in> set (vs_nodes state)" "vn_selected node" for node
  proof -
    from that have "node \<in> set ?selected" by simp
    then have "\<exists>i. i < length ?selected \<and> ?selected ! i = node" by (metis in_set_conv_nth)
    then show ?thesis unfolding index_def by (rule someI_ex)
  qed
  let ?positions = "js_map (map (\<lambda>(index, node). (vn_id node, ?cell index)) (enumerate 0 ?selected))"
  have placed: "?positions (vn_id node) = (if vn_selected node then Some (?cell (index node)) else None)" if "node \<in> set (vs_nodes state)" for node
  proof (cases "vn_selected node")
    case True
    with js_map_indexed [OF ids, of "index node" ?cell] index [OF that True] show ?thesis by simp
  next
    case False
    with that wf have "vn_id node \<notin> vn_id ` set ?selected"
      by (auto simp: viewers_wf_def distinct_map inj_on_def)
    with False js_map_other [of "vn_id node" vn_id ?selected ?cell] show ?thesis by simp
  qed
  show thesis
  proof (rule that [of x y "w + 64" "h + 64" "ceil_sqrt (length ?selected)" index])
    show "vs_nodes (tidyArtifactCards state) = map (\<lambda>node. if vn_selected node then node\<lparr>vn_position := ?cell (index node)\<rparr> else node) (vs_nodes state)"
      using many placed by (simp add: tidyArtifactCards_def Let_def corner bounds(2,5))
    show "inj_on index {node \<in> set (vs_nodes state). vn_selected node}"
      using index by (metis (mono_tags, lifting) inj_onI mem_Collect_eq)
    show "\<forall>node\<in>set (vs_nodes state). \<forall>cw ch. vn_selected node \<and> card_width node = Finite cw \<and> card_height node = Finite ch
      \<longrightarrow> cw + 64 \<le> w + 64 \<and> ch + 64 \<le> h + 64"
    proof (intro ballI allI impI)
      fix node cw ch
      assume "node \<in> set (vs_nodes state)" "vn_selected node \<and> card_width node = Finite cw \<and> card_height node = Finite ch"
      then have "Finite cw \<in> set (map card_width ?selected)" "Finite ch \<in> set (map card_height ?selected)" by force+
      with bounds(3,6) show "cw + 64 \<le> w + 64 \<and> ch + 64 \<le> h + 64" by simp
    qed
  qed (use bounds(1,4) in simp_all)
qed

text \<open>
  C38: Tidying puts the selected cards of measured or default size into cells of a grid at least 64 apart, so no
  two of them overlap, changes nothing but their positions, and leaves every other card where it was.
\<close>

theorem tidy_never_overlaps:
  assumes "viewers_wf state" and "2 \<le> length (filter vn_selected (vs_nodes state))"
    and "\<forall>node\<in>set (vs_nodes state). vn_selected node \<longrightarrow> sized node"
  shows "(\<forall>a\<in>set (vs_nodes (tidyArtifactCards state)). \<forall>b\<in>set (vs_nodes (tidyArtifactCards state)).
            vn_selected a \<and> vn_selected b \<and> vn_id a \<noteq> vn_id b \<longrightarrow> cards_apart a b)
    \<and> list_all2 (\<lambda>before after. \<exists>p. after = before\<lparr>vn_position := p\<rparr> \<and> (vn_selected before \<or> after = before))
        (vs_nodes state) (vs_nodes (tidyArtifactCards state))"
proof -
  obtain x y px py columns index where
    nodes: "vs_nodes (tidyArtifactCards state) = map (\<lambda>node. if vn_selected node
       then node\<lparr>vn_position := grid_cell \<lparr>pt_x = Finite x, pt_y = Finite y\<rparr> (Finite px) (Finite py) columns (index node)\<rparr> else node) (vs_nodes state)"
    and inj: "inj_on index {node \<in> set (vs_nodes state). vn_selected node}" and pitch: "0 \<le> px" "0 \<le> py"
    and room: "\<forall>node\<in>set (vs_nodes state). \<forall>w h. vn_selected node \<and> card_width node = Finite w \<and> card_height node = Finite h
      \<longrightarrow> w + 64 \<le> px \<and> h + 64 \<le> py"
    by (rule tidy_cells [OF assms])
  let ?cell = "grid_cell \<lparr>pt_x = Finite x, pt_y = Finite y\<rparr> (Finite px) (Finite py) columns"
  have size_kept: "card_width (node\<lparr>vn_position := p\<rparr>) = card_width node" "card_height (node\<lparr>vn_position := p\<rparr>) = card_height node" for node p
    by (simp_all add: card_width_def card_height_def width_or_def layout_width_def split: option.split)
  have cell: "\<exists>cx cy. ?cell i = \<lparr>pt_x = Finite cx, pt_y = Finite cy\<rparr>" for i
    by (simp add: grid_cell_def js_times_def)
  have "cards_apart (a\<lparr>vn_position := ?cell (index a)\<rparr>) (b\<lparr>vn_position := ?cell (index b)\<rparr>)"
    if a: "a \<in> set (vs_nodes state)" "vn_selected a" and b: "b \<in> set (vs_nodes state)" "vn_selected b" and "vn_id a \<noteq> vn_id b" for a b
  proof -
    from that(5) a b inj have "index a \<noteq> index b" by (auto dest: inj_onD)
    obtain ax ay bx "by" where cells: "?cell (index a) = \<lparr>pt_x = Finite ax, pt_y = Finite ay\<rparr>" "?cell (index b) = \<lparr>pt_x = Finite bx, pt_y = Finite by\<rparr>"
      using cell by metis
    obtain aw ah bw bh where sizes: "card_width a = Finite aw" "card_height a = Finite ah" "card_width b = Finite bw" "card_height b = Finite bh"
      using assms(3) [THEN bspec, OF a(1)] assms(3) [THEN bspec, OF b(1)] a(2) b(2) by (auto simp: sized_def)
    have "ax + px \<le> bx \<or> bx + px \<le> ax \<or> ay + py \<le> by \<or> by + py \<le> ay"
      by (rule grid_cells_apart [OF \<open>index a \<noteq> index b\<close> pitch cells])
    moreover have "aw + 64 \<le> px \<and> ah + 64 \<le> py" "bw + 64 \<le> px \<and> bh + 64 \<le> py" using room a b sizes by blast+
    ultimately have "ax + aw + 64 \<le> bx \<or> bx + bw + 64 \<le> ax \<or> ay + ah + 64 \<le> by \<or> by + bh + 64 \<le> ay" by linarith
    then show ?thesis unfolding cards_apart_def size_kept using sizes cells by auto
  qed
  moreover have "\<exists>p. node = node\<lparr>vn_position := p\<rparr>" for node :: viewer_node
    by (rule exI [of _ "vn_position node"]) simp
  ultimately show ?thesis
    unfolding nodes by (auto simp: list_all2_map2 intro!: list_all2_refl split: if_splits)
qed

theorem tidy_never_overlaps_witness:
  "cards_apart (vs_nodes (tidyArtifactCards demo_cards) ! 0) (vs_nodes (tidyArtifactCards demo_cards) ! 1)"
proof -
  have many: "2 \<le> length (filter vn_selected (vs_nodes demo_cards))" by code_simp
  have sizes: "\<forall>node\<in>set (vs_nodes demo_cards). vn_selected node \<longrightarrow> sized node"
    by (simp add: demo_cards_def demo_card_def new_card_def sized_def card_width_def card_height_def width_or_def layout_width_def
        card_layout_def artifactCardMediaHeight_def)
  have shape: "map (\<lambda>node. (vn_id node, vn_selected node)) (vs_nodes (tidyArtifactCards demo_cards)) = [(card_id ''1'', True), (card_id ''2'', True)]"
    by code_simp
  then obtain a b where nodes: "vs_nodes (tidyArtifactCards demo_cards) = [a, b]" and "vn_id a \<noteq> vn_id b" "vn_selected a" "vn_selected b"
    by (auto simp: map_eq_Cons_conv card_id_def)
  with tidy_never_overlaps [OF demo_cards_wf many sizes] show ?thesis by simp
qed

end
