(* ===== verification/LibraryTree.thy ===== *)
theory LibraryTree
  imports ArtifactCards
begin

section \<open>The Library tree of the side panel\<close>

text \<open>
  \<^verbatim>\<open>ui/side-panel/library-tree.ts\<close> and \<^verbatim>\<open>ui/side-panel/library-selection.ts\<close>: the folder tree built from the
  flat lists of folders and artifacts, the rows it shows, and the selection over those rows.
  \<open>localeCompare\<close> and \<open>Date.parse\<close> are parameters. The recursion over folders follows parent links of the
  server's listing and may not end for a listing with repeated ids, so it counts fuel; the functions that
  only format a line of text are not modelled.
\<close>

subsection \<open>Folders, artifacts and rows\<close>

record library_folder =
  lf_id :: string
  lf_parent :: "string option"
  lf_name :: string

record library_item =
  li_artifact_id :: string
  li_artifact_type :: string
  li_content_type :: "string nullish"
  li_name :: string
  li_folder :: "string option"
  li_original_filename :: "string nullish"
  li_saved_at :: string
  li_uploaded :: bool

datatype library_file_icon = ImageIcon | TableIcon | TextIcon | ModelIcon | OtherIcon

datatype library_sort = SortName | SortRecent

datatype library_tree_node =
    LibraryFile string "string option" nat library_file_icon library_item
  | LibraryFolder string "string option" string nat string "library_tree_node list" nat nat

record library_platform =
  lp_compare :: locale_compare
  lp_parse_date :: "string \<Rightarrow> js_number"

record library_input =
  in_folders :: "library_folder list"
  in_items :: "library_item list"
  in_query :: "string option"
  in_sort :: "library_sort option"

definition libraryFolderKey :: "string \<Rightarrow> string" where
  "libraryFolderKey folderId = ''folder:'' @ folderId"

definition libraryFileKey :: "string \<Rightarrow> string" where
  "libraryFileKey artifactId = ''file:'' @ artifactId"

subsection \<open>Text\<close>

definition lower :: "string \<Rightarrow> string" where
  "lower s = map to_lower s"

definition ends_with :: "string \<Rightarrow> string \<Rightarrow> bool" where
  "ends_with suffix s \<longleftrightarrow> length suffix \<le> length s \<and> drop (length s - length suffix) s = suffix"

definition contains :: "string \<Rightarrow> string \<Rightarrow> bool" where
  "contains s needle = list_ex (\<lambda>i. starts_with needle (drop i s)) [0..<Suc (length s)]"

text \<open>\<open>s.split(/\s+/)\<close>.\<close>

function space_split :: "string \<Rightarrow> string list" where
  "space_split s =
     (let rest = dropWhile (\<lambda>c. \<not> is_space c) s
      in takeWhile (\<lambda>c. \<not> is_space c) s # (if rest = [] then [] else space_split (dropWhile is_space rest)))"
  by pat_completeness auto
termination
proof (relation "measure length", goal_cases)
  case (2 s rest)
  then obtain c cs where rest: "rest = c # cs" by (metis neq_Nil_conv)
  with 2(1) have "is_space c" by (metis dropWhile_eq_Cons_conv)
  then have "length (dropWhile is_space rest) < length rest" using rest by (simp add: length_dropWhile_le le_imp_less_Suc)
  moreover have "length rest \<le> length s" using 2(1) by (simp add: length_dropWhile_le)
  ultimately show ?case by simp
qed simp

declare space_split.simps [simp del]

subsection \<open>Icons and the filter\<close>

definition ICON_BY_ARTIFACT_TYPE :: "(string \<times> library_file_icon) list" where
  "ICON_BY_ARTIFACT_TYPE =
     [(''image.raster'', ImageIcon), (''image.pixmap'', ImageIcon), (''geo.raster_scan'', ImageIcon),
      (''table.data'', TableIcon), (''table.csv'', TableIcon), (''geo.feature_collection'', TableIcon),
      (''text.txt'', TextIcon), (''scalar.text'', TextIcon), (''document.page'', TextIcon),
      (''model.artifact'', ModelIcon), (''model.weights'', ModelIcon), (''model.embedding'', ModelIcon),
      (''module.reference'', ModelIcon), (''graph.reference'', ModelIcon)]"

definition artifactTypeId :: "library_item \<Rightarrow> string" where
  "artifactTypeId item = hd (js_split ''@'' (li_artifact_type item))"

definition contentTypeOf :: "library_item \<Rightarrow> string" where
  "contentTypeOf item = lower (nullish_or (li_content_type item) [])"

definition isItemImage :: "library_item \<Rightarrow> bool" where
  "isItemImage item = starts_with ''image/'' (contentTypeOf item)"

definition isItemText :: "library_item \<Rightarrow> bool" where
  "isItemText item =
     (let contentType = contentTypeOf item
      in starts_with ''text/'' contentType \<or> contentType = ''application/json'' \<or> ends_with ''+json'' contentType
         \<or> contentType = ''application/csv'' \<or> contentType = ''application/x-ndjson'')"

definition libraryFileIcon :: "library_item \<Rightarrow> library_file_icon" where
  "libraryFileIcon item =
     (if isItemImage item then ImageIcon
      else case map_of ICON_BY_ARTIFACT_TYPE (artifactTypeId item) of
             Some mapped \<Rightarrow> mapped
           | None \<Rightarrow>
               if starts_with ''text/csv'' (contentTypeOf item) \<or> contains (contentTypeOf item) ''tab-separated'' then TableIcon
               else if isItemText item then TextIcon else OtherIcon)"

definition matchesQuery :: "library_item \<Rightarrow> string \<Rightarrow> bool" where
  "matchesQuery item needle =
     (if needle = [] then True
      else let haystack = lower (js_join '' '' [li_name item, nullish_or (li_original_filename item) [], li_artifact_type item])
           in list_all (contains haystack) (space_split needle))"

subsection \<open>Orders\<close>

definition folder_order :: "library_platform \<Rightarrow> library_folder \<Rightarrow> library_folder \<Rightarrow> int" where
  "folder_order platform a b = lp_compare platform (lf_name a) (lf_name b)"

definition byName :: "library_platform \<Rightarrow> library_item \<Rightarrow> library_item \<Rightarrow> int" where
  "byName platform a b = lp_compare platform (li_name a) (li_name b)"

definition byRecent :: "library_platform \<Rightarrow> library_item \<Rightarrow> library_item \<Rightarrow> int" where
  "byRecent platform a b =
     (case (lp_parse_date platform (li_saved_at b), lp_parse_date platform (li_saved_at a)) of
        (Finite later, Finite earlier) \<Rightarrow>
          if later = earlier then byName platform a b else if later < earlier then -1 else 1
      | _ \<Rightarrow> 0)"

subsection \<open>Building the tree\<close>

definition groupBy :: "'a list \<Rightarrow> ('a \<Rightarrow> 'k) \<Rightarrow> 'k \<Rightarrow> 'a list option" where
  "groupBy vs keyOf =
     foldl (\<lambda>groups v. groups(keyOf v \<mapsto> (case groups (keyOf v) of Some g \<Rightarrow> g @ [v] | None \<Rightarrow> [v]))) Map.empty vs"

definition needle_of :: "library_input \<Rightarrow> string" where
  "needle_of input = lower (js_trim (case in_query input of Some query \<Rightarrow> query | None \<Rightarrow> []))"

definition library_place :: "library_input \<Rightarrow> library_item \<Rightarrow> string option" where
  "library_place input item =
     (case li_folder item of
        Some folderId \<Rightarrow> if folderId \<in> set (map lf_id (in_folders input)) then Some folderId else None
      | None \<Rightarrow> None)"

definition child_folders :: "library_input \<Rightarrow> string option \<Rightarrow> library_folder list" where
  "child_folders input folderId = (case groupBy (in_folders input) lf_parent folderId of Some g \<Rightarrow> g | None \<Rightarrow> [])"

definition child_items :: "library_input \<Rightarrow> string option \<Rightarrow> library_item list" where
  "child_items input folderId = (case groupBy (in_items input) (library_place input) folderId of Some g \<Rightarrow> g | None \<Rightarrow> [])"

definition itemOrder :: "library_platform \<Rightarrow> library_input \<Rightarrow> library_item \<Rightarrow> library_item \<Rightarrow> int" where
  "itemOrder platform input = (if in_sort input = Some SortRecent then byRecent platform else byName platform)"

definition fileNodes :: "library_platform \<Rightarrow> library_input \<Rightarrow> string option \<Rightarrow> nat \<Rightarrow> bool \<Rightarrow> library_tree_node list" where
  "fileNodes platform input folderId depth revealed =
     map (\<lambda>item. LibraryFile (libraryFileKey (li_artifact_id item)) folderId depth (libraryFileIcon item) item)
       (filter (\<lambda>item. revealed \<or> matchesQuery item (needle_of input))
         (js_sort (itemOrder platform input) (child_items input folderId)))"

definition folder_matches :: "library_input \<Rightarrow> library_folder \<Rightarrow> bool" where
  "folder_matches input folder \<longleftrightarrow> needle_of input = [] \<or> contains (lower (lf_name folder)) (needle_of input)"

fun node_total :: "library_tree_node \<Rightarrow> nat" where
  "node_total (LibraryFolder _ _ _ _ _ _ totalCount _) = totalCount"
| "node_total (LibraryFile _ _ _ _ _) = 0"

fun node_matched :: "library_tree_node \<Rightarrow> nat" where
  "node_matched (LibraryFolder _ _ _ _ _ _ _ matched) = matched"
| "node_matched (LibraryFile _ _ _ _ _) = 1"

primrec folderNode ::
    "nat \<Rightarrow> library_platform \<Rightarrow> library_input \<Rightarrow> library_folder \<Rightarrow> nat \<Rightarrow> bool \<Rightarrow> (library_tree_node \<times> bool) option" where
  "folderNode 0 platform input folder depth revealedByAncestor = None"
| "folderNode (Suc fuel) platform input folder depth revealedByAncestor =
     (let revealed = revealedByAncestor \<or> folder_matches input folder
      in case map_option_list (\<lambda>child. folderNode fuel platform input child (depth + 1) revealed)
                (js_sort (folder_order platform) (child_folders input (Some (lf_id folder)))) of
           None \<Rightarrow> None
         | Some built \<Rightarrow>
             let files = fileNodes platform input (Some (lf_id folder)) (depth + 1) revealed;
                 nodes = map fst (filter snd built) @ files;
                 totalCount = length (child_items input (Some (lf_id folder))) + sum_list (map (\<lambda>b. node_total (fst b)) built);
                 matched = sum_list (map (\<lambda>b. node_matched (fst b)) built) + length files
             in Some (LibraryFolder (libraryFolderKey (lf_id folder)) (lf_parent folder) (lf_id folder) depth (lf_name folder)
                        nodes totalCount matched, revealed \<or> matched > 0))"

definition buildLibraryTree :: "nat \<Rightarrow> library_platform \<Rightarrow> library_input \<Rightarrow> library_tree_node list option" where
  "buildLibraryTree fuel platform input =
     (case map_option_list (\<lambda>folder. folderNode fuel platform input folder 0 False)
             (js_sort (folder_order platform) (child_folders input None)) of
        None \<Rightarrow> None
      | Some built \<Rightarrow> Some (map fst (filter snd built) @ fileNodes platform input None 0 False))"

fun row_key :: "library_tree_node \<Rightarrow> string" where
  "row_key (LibraryFile key _ _ _ _) = key"
| "row_key (LibraryFolder key _ _ _ _ _ _ _) = key"

fun flattenLibraryRows :: "string list \<Rightarrow> library_tree_node list \<Rightarrow> library_tree_node list" where
  "flattenLibraryRows collapsed [] = []"
| "flattenLibraryRows collapsed (LibraryFile key parent depth icon item # rest) =
     LibraryFile key parent depth icon item # flattenLibraryRows collapsed rest"
| "flattenLibraryRows collapsed (LibraryFolder key parent folderId depth name nodes totalCount matched # rest) =
     LibraryFolder key parent folderId depth name nodes totalCount matched
     # (if key \<in> set collapsed then [] else flattenLibraryRows collapsed nodes) @ flattenLibraryRows collapsed rest"

definition countLibraryArtifacts :: "library_tree_node list \<Rightarrow> nat" where
  "countLibraryArtifacts roots = sum_list (map node_matched roots)"

subsection \<open>Names and paths\<close>

definition new_folder_name :: "nat \<Rightarrow> string" where
  "new_folder_name suffix = ''New folder '' @ decimal suffix"

lemma lower_decimal: "map to_lower (decimal n) = decimal n"
proof (rule map_idI)
  fix c assume "c \<in> set (decimal n)"
  then obtain d where "d < 10" "c = char_of (48 + d :: nat)" using digit_char by blast
  then show "to_lower c = c" by (simp add: to_lower_def)
qed

lemma lower_new_folder_inj [simp]: "lower (new_folder_name m) = lower (new_folder_name n) \<longleftrightarrow> m = n"
  by (simp add: lower_def new_folder_name_def lower_decimal)

lemma taken_names_shrink:
  fixes f :: "nat \<Rightarrow> 'a"
  assumes "finite A" and "inj f" and "f n \<in> A"
  shows "card (A \<inter> f ` {Suc n..}) < card (A \<inter> f ` {n..})"
proof (rule psubset_card_mono)
  have "f n \<notin> f ` {Suc n..}" using assms(2) by (auto dest: injD)
  moreover have "f n \<in> A \<inter> f ` {n..}" using assms(3) by auto
  ultimately show "A \<inter> f ` {Suc n..} \<subset> A \<inter> f ` {n..}" by (auto simp: psubset_eq dest: Suc_leD)
qed (use assms(1) in simp)

function free_suffix :: "string list \<Rightarrow> nat \<Rightarrow> nat" where
  "free_suffix taken suffix = (if lower (new_folder_name suffix) \<in> set taken then free_suffix taken (Suc suffix) else suffix)"
  by pat_completeness auto
termination
proof (relation "measure (\<lambda>(taken, suffix). card (set taken \<inter> (\<lambda>n. lower (new_folder_name n)) ` {suffix..}))", goal_cases)
  case (2 taken suffix)
  then show ?case
    using taken_names_shrink [of "set taken" "\<lambda>n. lower (new_folder_name n)" suffix] by (simp add: inj_def)
qed simp

declare free_suffix.simps [simp del]

definition uniqueLibraryFolderName :: "library_folder list \<Rightarrow> string option \<Rightarrow> string" where
  "uniqueLibraryFolderName folders parentId =
     (let taken = map (\<lambda>folder. lower (lf_name folder)) (filter (\<lambda>folder. lf_parent folder = parentId) folders)
      in if lower ''New folder'' \<in> set taken then new_folder_name (free_suffix taken 2) else ''New folder'')"

text \<open>
  The walk to the root, with the set that guards a corrupt listing. Every folder on the walk comes from the
  list; the test that it does only makes the recursion total.
\<close>

function path_to_root :: "library_folder list \<Rightarrow> string list \<Rightarrow> library_folder option \<Rightarrow> string list" where
  "path_to_root folders visited None = []"
| "path_to_root folders visited (Some current) =
     (if lf_id current \<in> set visited \<or> current \<notin> set folders then []
      else path_to_root folders (visited @ [lf_id current])
             (case lf_parent current of None \<Rightarrow> None | Some parentId \<Rightarrow> js_map (map (\<lambda>f. (lf_id f, f)) folders) parentId)
           @ [lf_name current])"
  by pat_completeness auto
termination
proof (relation "measure (\<lambda>(folders, visited, current). card (lf_id ` set folders - set visited))", goal_cases)
  case (2 folders visited current)
  have "card (lf_id ` set folders - set (visited @ [lf_id current])) < card (lf_id ` set folders - set visited)"
    by (rule psubset_card_mono) (use 2 in auto)
  then show ?case by simp
qed simp

definition libraryFolderPath :: "library_folder list \<Rightarrow> string option \<Rightarrow> string list" where
  "libraryFolderPath folders folderId =
     path_to_root folders [] (case folderId of None \<Rightarrow> None | Some i \<Rightarrow> js_map (map (\<lambda>f. (lf_id f, f)) folders) i)"

subsection \<open>Selection\<close>

datatype selection_gesture = PlainClick | ToggleClick | RangeClick

record library_selection =
  sl_ids :: "string list"
  sl_anchor :: "string option"

definition emptyLibrarySelection :: library_selection where
  "emptyLibrarySelection = \<lparr>sl_ids = [], sl_anchor = None\<rparr>"

definition isLibraryItemSelected :: "library_selection \<Rightarrow> string \<Rightarrow> bool" where
  "isLibraryItemSelected selection artifactId \<longleftrightarrow> artifactId \<in> set (sl_ids selection)"

definition libraryClickGesture :: "bool \<Rightarrow> bool \<Rightarrow> bool \<Rightarrow> selection_gesture" where
  "libraryClickGesture metaKey ctrlKey shiftKey =
     (if shiftKey then RangeClick else if metaKey \<or> ctrlKey then ToggleClick else PlainClick)"

definition applyLibrarySelection :: "library_selection \<Rightarrow> string \<Rightarrow> selection_gesture \<Rightarrow> string list \<Rightarrow> library_selection" where
  "applyLibrarySelection selection artifactId gesture visible =
     (case gesture of
        PlainClick \<Rightarrow> \<lparr>sl_ids = [artifactId], sl_anchor = Some artifactId\<rparr>
      | ToggleClick \<Rightarrow>
          (let ids = (if artifactId \<in> set (sl_ids selection) then filter (\<lambda>i. i \<noteq> artifactId) (sl_ids selection)
                      else sl_ids selection @ [artifactId])
           in if ids = [] then emptyLibrarySelection else \<lparr>sl_ids = ids, sl_anchor = Some artifactId\<rparr>)
      | RangeClick \<Rightarrow>
          (case (Option.bind (sl_anchor selection) (\<lambda>anchor. find_index (\<lambda>i. i = anchor) visible), find_index (\<lambda>i. i = artifactId) visible) of
             (Some from_index, Some to_index) \<Rightarrow>
               (let start = min from_index to_index; stop = max from_index to_index
                in \<lparr>sl_ids = take (Suc stop - start) (drop start visible), sl_anchor = sl_anchor selection\<rparr>)
           | _ \<Rightarrow> \<lparr>sl_ids = [artifactId], sl_anchor = Some artifactId\<rparr>))"

definition pruneLibrarySelection :: "library_selection \<Rightarrow> string list \<Rightarrow> library_selection" where
  "pruneLibrarySelection selection existingIds =
     (let ids = filter (\<lambda>i. i \<in> set existingIds) (sl_ids selection)
      in if ids = []
         then (if sl_ids selection = [] \<and> sl_anchor selection = None then selection else emptyLibrarySelection)
         else let anchor = (case sl_anchor selection of
                      Some a \<Rightarrow> if a \<in> set existingIds then Some a else if length ids = 1 then Some (hd ids) else None
                    | None \<Rightarrow> if length ids = 1 then Some (hd ids) else None)
              in if anchor = sl_anchor selection \<and> ids = sl_ids selection then selection
                 else \<lparr>sl_ids = ids, sl_anchor = anchor\<rparr>)"

definition removeFromLibrarySelection :: "library_selection \<Rightarrow> string list \<Rightarrow> library_selection" where
  "removeFromLibrarySelection selection artifactIds =
     (let ids = filter (\<lambda>i. i \<notin> set artifactIds) (sl_ids selection)
      in if length ids = length (sl_ids selection) then selection
         else if ids = [] then emptyLibrarySelection
         else \<lparr>sl_ids = ids,
               sl_anchor = (case sl_anchor selection of Some a \<Rightarrow> if a \<notin> set artifactIds then Some a else None | None \<Rightarrow> None)\<rparr>)"

definition orderedLibrarySelection :: "library_selection \<Rightarrow> string list \<Rightarrow> string list" where
  "orderedLibrarySelection selection visible =
     (let shown = filter (\<lambda>i. i \<in> set (sl_ids selection)) visible
      in shown @ filter (\<lambda>i. i \<notin> set shown) (sl_ids selection))"

end
