(* ===== verification/LibraryTree_Facts.thy ===== *)
theory LibraryTree_Facts
  imports LibraryTree GraphDocument_Facts "HOL-Library.Multiset"
begin

section \<open>The Library tree shows every artifact it can reach once\<close>

text \<open>
  The recursion over folders follows the chains of parents that end at the root. Such a chain is determined
  by its last folder, so the tree visits each reachable folder once, and fuel for one more folder than the
  listing has is always enough.
\<close>

subsection \<open>Children\<close>

lemma groupBy_lookup:
  "groupBy vs keyOf k = (if filter (\<lambda>v. keyOf v = k) vs = [] then None else Some (filter (\<lambda>v. keyOf v = k) vs))"
proof (induction vs rule: rev_induct)
  case (snoc v vs)
  have "groupBy (vs @ [v]) keyOf
      = (groupBy vs keyOf)(keyOf v \<mapsto> (case groupBy vs keyOf (keyOf v) of Some g \<Rightarrow> g @ [v] | None \<Rightarrow> [v]))"
    by (simp add: groupBy_def)
  with snoc show ?case by (auto simp: fun_upd_def)
qed (simp add: groupBy_def)

lemma child_folders_eq: "child_folders input k = filter (\<lambda>f. lf_parent f = k) (in_folders input)"
  by (auto simp: child_folders_def groupBy_lookup split: option.split)

lemma child_items_eq: "child_items input k = filter (\<lambda>item. library_place input item = k) (in_items input)"
  by (auto simp: child_items_def groupBy_lookup split: option.split)

subsection \<open>Chains of parents\<close>

inductive rooted :: "library_folder list \<Rightarrow> library_folder list \<Rightarrow> bool" for folders where
  rooted_root: "f \<in> set folders \<Longrightarrow> lf_parent f = None \<Longrightarrow> rooted folders [f]"
| rooted_child: "rooted folders path \<Longrightarrow> f \<in> set folders \<Longrightarrow> lf_parent f = Some (lf_id (last path)) \<Longrightarrow> rooted folders (path @ [f])"

inductive_cases rooted_snocE: "rooted folders (path @ [f])"

lemma rooted_nonempty [simp]: "\<not> rooted folders []"
  by (auto elim: rooted.cases)

lemma rooted_subset: "rooted folders path \<Longrightarrow> set path \<subseteq> set folders"
  by (induction rule: rooted.induct) auto

lemma rooted_last: "rooted folders path \<Longrightarrow> last path \<in> set folders"
  by (cases rule: rooted.cases) auto

lemma rooted_prefix: "rooted folders path \<Longrightarrow> f \<in> set path \<Longrightarrow> \<exists>pre. rooted folders (pre @ [f]) \<and> length pre < length path"
proof (induction rule: rooted.induct)
  case (rooted_root g)
  then show ?case by (intro exI [of _ "[]"]) (auto intro: rooted.rooted_root)
next
  case (rooted_child path g)
  show ?case
  proof (cases "f = g")
    case True
    with rooted_child show ?thesis by (intro exI [of _ path]) (auto intro: rooted.rooted_child)
  next
    case False
    with rooted_child show ?thesis by (auto intro: less_SucI)
  qed
qed

lemma same_folder: "distinct (map lf_id folders) \<Longrightarrow> f \<in> set folders \<Longrightarrow> g \<in> set folders \<Longrightarrow> lf_id f = lf_id g \<Longrightarrow> f = g"
  by (auto simp: distinct_map inj_on_def)

lemma rooted_unique:
  assumes "distinct (map lf_id folders)" and "rooted folders p" and "rooted folders q" and "last p = last q"
  shows "p = q"
  using assms(2-4)
proof (induction arbitrary: q rule: rooted.induct)
  case (rooted_root f)
  from \<open>rooted folders q\<close> show ?case by cases (use rooted_root in auto)
next
  case (rooted_child path f)
  from \<open>rooted folders q\<close> show ?case
  proof cases
    case (rooted_child path' f')
    with rooted_child.hyps rooted_child.prems(2) have "lf_id (last path) = lf_id (last path')" by simp
    then have "last path = last path'"
      using same_folder [OF assms(1)] rooted_last rooted_child.hyps(1) rooted_child(2) by blast
    then show ?thesis using rooted_child.IH rooted_child rooted_child.prems(2) by simp
  qed (use rooted_child in auto)
qed

lemma rooted_distinct:
  assumes "distinct (map lf_id folders)" and "rooted folders path"
  shows "distinct path \<and> length path \<le> length folders"
proof -
  have "distinct path" using assms(2)
  proof (induction rule: rooted.induct)
    case (rooted_child path f)
    have "f \<notin> set path"
    proof
      assume "f \<in> set path"
      from rooted_prefix [OF rooted_child.hyps(1) this] obtain pre where "rooted folders (pre @ [f])" "length pre < length path" by blast
      moreover have "rooted folders (path @ [f])" using rooted_child by (auto intro: rooted.rooted_child)
      ultimately show False using rooted_unique [OF assms(1), of "pre @ [f]" "path @ [f]"] by simp
    qed
    with rooted_child show ?case by simp
  qed simp
  moreover from this have "length path \<le> length folders"
    using card_mono [OF _ rooted_subset [OF assms(2)]] card_length [of folders] by (simp add: distinct_card)
  ultimately show ?thesis ..
qed

subsection \<open>The folders the recursion visits\<close>

primrec subpaths :: "nat \<Rightarrow> library_platform \<Rightarrow> library_input \<Rightarrow> library_folder list \<Rightarrow> library_folder list list" where
  "subpaths 0 platform input path = []"
| "subpaths (Suc fuel) platform input path =
     path # concat (map (\<lambda>child. subpaths fuel platform input (path @ [child]))
       (js_sort (folder_order platform) (child_folders input (Some (lf_id (last path))))))"

lemma subpaths_extend: "q \<in> set (subpaths fuel platform input path) \<Longrightarrow> \<exists>below. q = path @ below"
proof (induction fuel arbitrary: path)
  case (Suc fuel)
  then show ?case by fastforce
qed simp

lemma subpaths_rooted:
  "rooted (in_folders input) path \<Longrightarrow> q \<in> set (subpaths fuel platform input path) \<Longrightarrow> rooted (in_folders input) q"
proof (induction fuel arbitrary: path)
  case (Suc fuel)
  have "rooted (in_folders input) (path @ [child])" if "child \<in> set (child_folders input (Some (lf_id (last path))))" for child
    using that Suc.prems(1) by (auto simp: child_folders_eq intro: rooted.rooted_child)
  with Suc show ?case by auto
qed simp

lemma distinct_concat_disjoint:
  assumes "distinct xs" and "\<And>x. x \<in> set xs \<Longrightarrow> distinct (f x)"
    and "\<And>x y. x \<in> set xs \<Longrightarrow> y \<in> set xs \<Longrightarrow> x \<noteq> y \<Longrightarrow> set (f x) \<inter> set (f y) = {}"
  shows "distinct (concat (map f xs))"
  using assms by (induction xs) fastforce+

lemma subpaths_distinct: "distinct (in_folders input) \<Longrightarrow> distinct (subpaths fuel platform input path)"
proof (induction fuel arbitrary: path)
  case (Suc fuel)
  have apart: "set (subpaths fuel platform input (path @ [x])) \<inter> set (subpaths fuel platform input (path @ [y])) = {}" if "x \<noteq> y" for x y
    using that subpaths_extend [of _ fuel platform input "path @ [x]"] subpaths_extend [of _ fuel platform input "path @ [y]"] by force
  have "path \<notin> set (subpaths fuel platform input (path @ [x]))" for x
    using subpaths_extend [of path fuel platform input "path @ [x]"] by auto
  moreover have "distinct (concat (map (\<lambda>child. subpaths fuel platform input (path @ [child]))
       (js_sort (folder_order platform) (child_folders input (Some (lf_id (last path)))))))"
    by (rule distinct_concat_disjoint) (use Suc apart in \<open>auto simp: child_folders_eq\<close>)
  ultimately show ?case by auto
qed simp

lemma subpaths_complete:
  "rooted (in_folders input) (path @ below) \<Longrightarrow> path \<noteq> [] \<Longrightarrow> length below < fuel \<Longrightarrow> path @ below \<in> set (subpaths fuel platform input path)"
proof (induction fuel arbitrary: path below)
  case (Suc fuel)
  show ?case
  proof (cases below)
    case (Cons child rest)
    have "rooted folders (p @ r) \<Longrightarrow> p \<noteq> [] \<Longrightarrow> r \<noteq> [] \<Longrightarrow> lf_parent (hd r) = Some (lf_id (last p)) \<and> hd r \<in> set folders" for folders p r
    proof (induction r arbitrary: p rule: rev_induct)
      case (snoc x xs)
      have "rooted folders ((p @ xs) @ [x])" using snoc.prems(1) by simp
      then show ?case
      proof cases
        case (rooted_child path' f)
        then have "path' = p @ xs" "f = x" by simp_all
        with rooted_child snoc show ?thesis by (cases xs) auto
      qed (use snoc.prems in simp)
    qed simp
    from this [OF Suc.prems(1,2)] Cons have "child \<in> set (child_folders input (Some (lf_id (last path))))"
      by (simp add: child_folders_eq)
    moreover have "(path @ [child]) @ rest \<in> set (subpaths fuel platform input (path @ [child]))"
      by (rule Suc.IH) (use Suc.prems Cons in simp_all)
    ultimately show ?thesis using Cons by auto
  qed simp
qed simp

subsection \<open>The recursion always ends\<close>

lemma map_option_list_Some: "map_option_list f xs = Some ys \<Longrightarrow> list_all2 (\<lambda>x y. f x = Some y) xs ys"
  by (induction xs arbitrary: ys) (auto split: option.splits)

lemma map_option_list_total: "\<forall>x\<in>set xs. \<exists>y. f x = Some y \<Longrightarrow> \<exists>ys. map_option_list f xs = Some ys"
  by (induction xs) auto

lemma folderNode_total:
  assumes "distinct (map lf_id (in_folders input))"
  shows "rooted (in_folders input) path \<Longrightarrow> length (in_folders input) < length path + fuel
    \<Longrightarrow> \<exists>built. folderNode fuel platform input (last path) depth revealed = Some built"
proof (induction fuel arbitrary: path depth revealed)
  case 0
  then show ?case using rooted_distinct [OF assms 0(1)] by simp
next
  case (Suc fuel)
  have "\<exists>built. folderNode fuel platform input child d r = Some built"
    if "child \<in> set (js_sort (folder_order platform) (child_folders input (Some (lf_id (last path)))))" for child d r
  proof -
    from that Suc.prems(1) have "rooted (in_folders input) (path @ [child])"
      by (auto simp: child_folders_eq intro: rooted.rooted_child)
    from Suc.IH [OF this] Suc.prems(2) show ?thesis by simp
  qed
  then obtain built where "map_option_list (\<lambda>child. folderNode fuel platform input child (depth + 1) (revealed \<or> folder_matches input (last path)))
      (js_sort (folder_order platform) (child_folders input (Some (lf_id (last path))))) = Some built"
    using map_option_list_total [of "js_sort (folder_order platform) (child_folders input (Some (lf_id (last path))))"
        "\<lambda>child. folderNode fuel platform input child (depth + 1) (revealed \<or> folder_matches input (last path))"] by blast
  then show ?case by (simp add: Let_def)
qed

subsection \<open>The artifacts a built folder holds\<close>

fun files_of :: "library_tree_node list \<Rightarrow> library_item list" where
  "files_of [] = []"
| "files_of (LibraryFile _ _ _ _ item # rest) = item # files_of rest"
| "files_of (LibraryFolder _ _ _ _ _ nodes _ _ # rest) = files_of nodes @ files_of rest"

lemma files_of_append [simp]: "files_of (xs @ ys) = files_of xs @ files_of ys"
  by (induction xs rule: files_of.induct) auto

lemma files_of_Cons: "files_of (x # xs) = files_of [x] @ files_of xs"
  using files_of_append [of "[x]" xs] by simp

lemma files_of_map: "files_of (map f xs) = concat (map (\<lambda>x. files_of [f x]) xs)"
  by (induction xs) (simp, metis concat.simps(2) files_of_Cons list.simps(9))

definition path_items :: "library_input \<Rightarrow> library_folder list \<Rightarrow> library_item list" where
  "path_items input path =
     filter (\<lambda>item. list_ex (folder_matches input) path \<or> matchesQuery item (needle_of input)) (child_items input (Some (lf_id (last path))))"

lemma files_of_fileNodes:
  "mset (files_of (fileNodes platform input place depth revealed))
     = mset (filter (\<lambda>item. revealed \<or> matchesQuery item (needle_of input)) (child_items input place))
   \<and> length (fileNodes platform input place depth revealed) = length (files_of (fileNodes platform input place depth revealed))"
proof -
  have "files_of (map (\<lambda>item. LibraryFile (k item) place depth (i item) item) items) = items" for items and k :: "library_item \<Rightarrow> string" and i
    by (induction items) auto
  then show ?thesis by (simp add: fileNodes_def mset_filter)
qed

lemma sum_hidden:
  assumes "\<forall>b\<in>set built. files_of [fst b] \<noteq> [] \<longrightarrow> snd b"
  shows "mset (files_of (map fst (filter snd built))) = (\<Sum>b\<leftarrow>built. mset (files_of [fst b]))"
  using assms
proof (induction built)
  case (Cons b built)
  show ?case
  proof (cases "snd b")
    case True
    have "files_of (fst b # map fst (filter snd built)) = files_of [fst b] @ files_of (map fst (filter snd built))" by (rule files_of_Cons)
    with Cons True show ?thesis by simp
  next
    case False
    with Cons.prems have "files_of [fst b] = []" by auto
    with Cons False show ?thesis by simp
  qed
qed simp

lemma sum_list_all2: "list_all2 (\<lambda>x y. f x = g y) xs ys \<Longrightarrow> (\<Sum>x\<leftarrow>xs. f x) = (\<Sum>y\<leftarrow>ys. g y)"
  by (induction rule: list_all2_induct) auto

lemma sum_list_concat: "(\<Sum>q\<leftarrow>concat (map f xs). g q) = (\<Sum>x\<leftarrow>xs. \<Sum>q\<leftarrow>f x. g q)"
  for g :: "'a \<Rightarrow> 'b :: comm_monoid_add"
  by (induction xs) auto

lemma folderNode_files:
  "folderNode fuel platform input (last path) depth (list_ex (folder_matches input) (butlast path)) = Some (node, shown) \<Longrightarrow> path \<noteq> []
   \<Longrightarrow> mset (files_of [node]) = (\<Sum>q\<leftarrow>subpaths fuel platform input path. mset (path_items input q))
     \<and> node_matched node = length (files_of [node]) \<and> (files_of [node] \<noteq> [] \<longrightarrow> shown)"
proof (induction fuel arbitrary: path depth node shown)
  case (Suc fuel)
  let ?children = "js_sort (folder_order platform) (child_folders input (Some (lf_id (last path))))"
  let ?revealed = "list_ex (folder_matches input) path"
  have revealed: "list_ex (folder_matches input) (butlast path) \<or> folder_matches input (last path) \<longleftrightarrow> ?revealed"
    using Suc.prems(2) by (cases path rule: rev_cases) auto
  from Suc.prems(1) revealed obtain built where
    built: "map_option_list (\<lambda>child. folderNode fuel platform input child (depth + 1) ?revealed) ?children = Some built"
    by (auto simp: Let_def split: option.splits)
  let ?files = "fileNodes platform input (Some (lf_id (last path))) (depth + 1) ?revealed"
  from Suc.prems(1) revealed built have node: "\<exists>k p d i n t. node = LibraryFolder k p i d n (map fst (filter snd built) @ ?files) t
      (sum_list (map (\<lambda>b. node_matched (fst b)) built) + length ?files)"
    and shown: "shown \<longleftrightarrow> ?revealed \<or> sum_list (map (\<lambda>b. node_matched (fst b)) built) + length ?files > 0"
    by (auto simp: Let_def)
  have each: "list_all2 (\<lambda>child b. mset (files_of [fst b]) = (\<Sum>q\<leftarrow>subpaths fuel platform input (path @ [child]). mset (path_items input q))
      \<and> node_matched (fst b) = length (files_of [fst b]) \<and> (files_of [fst b] \<noteq> [] \<longrightarrow> snd b)) ?children built"
    using map_option_list_Some [OF built]
    by (rule list_all2_mono) (use Suc.IH [of "_ @ [_]"] Suc.prems(2) in fastforce)
  from list_all2_set_right [OF each]
  have hidden: "\<forall>b\<in>set built. files_of [fst b] \<noteq> [] \<longrightarrow> snd b" and counted: "\<forall>b\<in>set built. node_matched (fst b) = length (files_of [fst b])"
    by fast+
  have below: "(\<Sum>child\<leftarrow>?children. \<Sum>q\<leftarrow>subpaths fuel platform input (path @ [child]). mset (path_items input q)) = (\<Sum>b\<leftarrow>built. mset (files_of [fst b]))"
    by (rule sum_list_all2) (use each in \<open>auto elim: list_all2_mono\<close>)
  have all: "mset (files_of [node]) = (\<Sum>b\<leftarrow>built. mset (files_of [fst b])) + mset (path_items input path)"
    using node sum_hidden [OF hidden] files_of_fileNodes [of platform input "Some (lf_id (last path))" "depth + 1" ?revealed]
    by (auto simp: path_items_def)
  have "length (files_of (map fst (filter snd built))) = sum_list (map (\<lambda>b. node_matched (fst b)) built)"
  proof -
    have "size (\<Sum>b\<leftarrow>built. mset (files_of [fst b])) = sum_list (map (\<lambda>b. length (files_of [fst b])) built)"
      by (induction built) auto
    moreover have "sum_list (map (\<lambda>b. length (files_of [fst b])) built) = sum_list (map (\<lambda>b. node_matched (fst b)) built)"
      using counted by (intro arg_cong [of _ _ sum_list] map_cong) simp_all
    ultimately show ?thesis using sum_hidden [OF hidden] by (metis size_mset)
  qed
  then have matched: "node_matched node = length (files_of [node])"
    using node files_of_fileNodes [of platform input "Some (lf_id (last path))" "depth + 1" ?revealed] by auto
  moreover have "node_matched node = sum_list (map (\<lambda>b. node_matched (fst b)) built) + length ?files" using node by auto
  ultimately have "files_of [node] \<noteq> [] \<longrightarrow> shown" using shown by (metis length_greater_0_conv)
  with all below matched show ?case
    by (simp add: sum_list_concat add.commute)
qed simp

subsection \<open>The whole tree\<close>

definition tree_paths :: "nat \<Rightarrow> library_platform \<Rightarrow> library_input \<Rightarrow> library_folder list list" where
  "tree_paths fuel platform input =
     concat (map (\<lambda>root. subpaths fuel platform input [root]) (js_sort (folder_order platform) (child_folders input None)))"

lemma tree_paths_distinct:
  assumes "distinct (map lf_id (in_folders input))"
  shows "distinct (tree_paths fuel platform input)"
  unfolding tree_paths_def
proof (rule distinct_concat_disjoint)
  have "distinct (in_folders input)" using assms by (simp add: distinct_map)
  then show "distinct (js_sort (folder_order platform) (child_folders input None))" by (simp add: child_folders_eq)
  show "distinct (subpaths fuel platform input [root])" for root by (rule subpaths_distinct) fact
  show "set (subpaths fuel platform input [x]) \<inter> set (subpaths fuel platform input [y]) = {}" if "x \<noteq> y" for x y
    using that subpaths_extend [of _ fuel platform input "[x]"] subpaths_extend [of _ fuel platform input "[y]"] by force
qed

lemma rooted_hd: "rooted folders path \<Longrightarrow> hd path \<in> set folders \<and> lf_parent (hd path) = None"
proof (induction rule: rooted.induct)
  case (rooted_child path f)
  then show ?case by (cases path) auto
qed simp

lemma set_tree_paths:
  assumes "distinct (map lf_id (in_folders input))" and "length (in_folders input) < fuel"
  shows "set (tree_paths fuel platform input) = {path. rooted (in_folders input) path}"
proof (intro equalityI subsetI)
  fix path assume "path \<in> set (tree_paths fuel platform input)"
  then obtain root where "root \<in> set (child_folders input None)" "path \<in> set (subpaths fuel platform input [root])"
    by (auto simp: tree_paths_def)
  then show "path \<in> {path. rooted (in_folders input) path}"
    by (auto simp: child_folders_eq intro: subpaths_rooted rooted_root)
next
  fix path assume "path \<in> {path. rooted (in_folders input) path}"
  then have rooted: "rooted (in_folders input) path" by simp
  then obtain root rest where path: "path = [root] @ rest" by (cases path) auto
  have "root \<in> set (child_folders input None)" using rooted_hd [OF rooted] path by (simp add: child_folders_eq)
  moreover have "[root] @ rest \<in> set (subpaths fuel platform input [root])"
    by (rule subpaths_complete) (use rooted path rooted_distinct [OF assms(1) rooted] assms(2) in auto)
  ultimately show "path \<in> set (tree_paths fuel platform input)" by (auto simp: tree_paths_def path)
qed

lemma mset_filter_disj:
  "(\<And>x. \<not> (A x \<and> B x)) \<Longrightarrow> mset (filter (\<lambda>x. A x \<or> B x) xs) = mset (filter A xs) + mset (filter B xs)"
  by (induction xs) auto

lemma group_sum:
  assumes "distinct (map key qs)"
  shows "(\<Sum>q\<leftarrow>qs. mset (filter (\<lambda>x. P q x \<and> place x = Some (key q)) xs))
    = mset (filter (\<lambda>x. \<exists>q\<in>set qs. P q x \<and> place x = Some (key q)) xs)"
  using assms
proof (induction qs)
  case (Cons q qs)
  from mset_filter_disj [of "\<lambda>x. P q x \<and> place x = Some (key q)" "\<lambda>x. \<exists>q\<in>set qs. P q x \<and> place x = Some (key q)"] Cons
  show ?case by (force simp: mset_filter)
qed simp

text \<open>Whether an artifact is shown: it sits at the root, or in a folder whose chain of parents ends there.\<close>

definition shown_item :: "library_input \<Rightarrow> library_item \<Rightarrow> bool" where
  "shown_item input item \<longleftrightarrow>
     (case library_place input item of
        None \<Rightarrow> matchesQuery item (needle_of input)
      | Some folderId \<Rightarrow> \<exists>path. rooted (in_folders input) path \<and> lf_id (last path) = folderId
          \<and> (list_ex (folder_matches input) path \<or> matchesQuery item (needle_of input)))"

definition row_item :: "library_tree_node \<Rightarrow> library_item option" where
  "row_item row = (case row of LibraryFile _ _ _ _ item \<Rightarrow> Some item | _ \<Rightarrow> None)"

lemma files_of_flat: "List.map_filter row_item (flattenLibraryRows [] roots) = files_of roots"
  by (induction "[] :: string list" roots rule: flattenLibraryRows.induct) (auto simp: map_filter_def row_item_def)

lemma count_files: "\<forall>n\<in>set ns. node_matched n = length (files_of [n]) \<Longrightarrow> countLibraryArtifacts ns = length (files_of ns)"
proof (induction ns)
  case (Cons n ns)
  have "files_of (n # ns) = files_of [n] @ files_of ns" by (rule files_of_Cons)
  with Cons show ?case by (simp add: countLibraryArtifacts_def)
qed (simp add: countLibraryArtifacts_def)

lemma fileNodes_counted: "n \<in> set (fileNodes platform input place depth revealed) \<Longrightarrow> node_matched n = length (files_of [n])"
  by (auto simp: fileNodes_def)

lemma path_items_sum:
  assumes "distinct (map lf_id (in_folders input))" and "length (in_folders input) < fuel"
  shows "(\<Sum>q\<leftarrow>tree_paths fuel platform input. mset (path_items input q))
    + mset (filter (\<lambda>item. matchesQuery item (needle_of input)) (child_items input None)) = mset (filter (shown_item input) (in_items input))"
proof -
  let ?paths = "tree_paths fuel platform input"
  let ?P = "\<lambda>q item. list_ex (folder_matches input) q \<or> matchesQuery item (needle_of input)"
  have "inj_on (\<lambda>q. lf_id (last q)) (set ?paths)"
    unfolding set_tree_paths [OF assms]
    using same_folder [OF assms(1)] rooted_unique [OF assms(1)] rooted_last by (metis (mono_tags, lifting) inj_onI mem_Collect_eq)
  then have "distinct (map (\<lambda>q. lf_id (last q)) ?paths)" using tree_paths_distinct [OF assms(1)] by (simp add: distinct_map)
  from group_sum [OF this, of ?P "library_place input" "in_items input"]
  have "(\<Sum>q\<leftarrow>?paths. mset (path_items input q)) = mset (filter (\<lambda>item. \<exists>q\<in>set ?paths. ?P q item \<and> library_place input item = Some (lf_id (last q))) (in_items input))"
    by (simp add: path_items_def child_items_eq conj_commute)
  moreover have "mset (filter (\<lambda>item. (\<exists>q\<in>set ?paths. ?P q item \<and> library_place input item = Some (lf_id (last q)))
          \<or> matchesQuery item (needle_of input) \<and> library_place input item = None) (in_items input))
      = mset (filter (\<lambda>item. \<exists>q\<in>set ?paths. ?P q item \<and> library_place input item = Some (lf_id (last q))) (in_items input))
        + mset (filter (\<lambda>item. matchesQuery item (needle_of input)) (child_items input None))"
    unfolding child_items_eq filter_filter by (subst mset_filter_disj) (auto simp: conj_commute)
  moreover have "shown_item input item \<longleftrightarrow> (\<exists>q\<in>set ?paths. ?P q item \<and> library_place input item = Some (lf_id (last q)))
          \<or> matchesQuery item (needle_of input) \<and> library_place input item = None" for item
    unfolding set_tree_paths [OF assms] shown_item_def by (auto split: option.split)
  ultimately show ?thesis by simp
qed



definition example_folders :: "library_folder list" where
  "example_folders =
     [\<lparr>lf_id = ''f1'', lf_parent = None, lf_name = ''Scans''\<rparr>, \<lparr>lf_id = ''f2'', lf_parent = Some ''f1'', lf_name = ''Raw''\<rparr>,
      \<lparr>lf_id = ''f3'', lf_parent = Some ''gone'', lf_name = ''Lost''\<rparr>]"

definition example_item :: "string \<Rightarrow> string option \<Rightarrow> library_item" where
  "example_item i folder =
     \<lparr>li_artifact_id = i, li_artifact_type = ''text.txt@1'', li_content_type = Undefined, li_name = i, li_folder = folder,
      li_original_filename = Undefined, li_saved_at = ''2024'', li_uploaded = True\<rparr>"

definition example_input :: library_input where
  "example_input =
     \<lparr>in_folders = example_folders,
      in_items = [example_item ''a'' (Some ''f2''), example_item ''b'' None, example_item ''c'' (Some ''f9''), example_item ''d'' (Some ''f3'')],
      in_query = None, in_sort = None\<rparr>"

definition example_library_platform :: library_platform where
  "example_library_platform = \<lparr>lp_compare = (\<lambda>a b. int (length a) - int (length b)), lp_parse_date = (\<lambda>_. NaN)\<rparr>"


text \<open>
  An artifact filed in a folder whose parent the listing lacks is in no row: the folder is known, so the
  artifact does not fall back to the root, and no chain of parents reaches the folder.
\<close>

lemma orphaned_artifact_hidden:
  "map_option (List.map_filter row_item \<circ> flattenLibraryRows []) (buildLibraryTree 4 example_library_platform example_input)
     = Some [example_item ''a'' (Some ''f2''), example_item ''b'' None, example_item ''c'' (Some ''f9'')]"
  by code_simp

subsection \<open>The selection\<close>

lemma in_slice:
  "m \<le> i \<Longrightarrow> i \<le> n \<Longrightarrow> n < length xs \<Longrightarrow> xs ! i \<in> set (take (Suc n - m) (drop m xs))"
  by (auto simp: in_set_conv_nth intro!: exI [of _ "i - m"])

lemma toggle_ids:
  "sl_ids (applyLibrarySelection selection artifactId ToggleClick visible)
     = (if artifactId \<in> set (sl_ids selection) then filter (\<lambda>i. i \<noteq> artifactId) (sl_ids selection) else sl_ids selection @ [artifactId])"
  by (simp add: applyLibrarySelection_def Let_def emptyLibrarySelection_def)

text \<open>
  A selection without repeated ids stays one under every click, when the Library is refreshed and when
  artifacts are removed; a click other than a toggle leaves the clicked row selected and selects no row the
  tree does not show beside it, a refresh keeps exactly the artifacts that still exist, and the order in
  which a selection is deleted or dragged is a rearrangement of it.
\<close>

theorem library_selection_sound:
  assumes "distinct (sl_ids selection)" and "distinct visible"
  shows "distinct (sl_ids (applyLibrarySelection selection artifactId gesture visible))
    \<and> (gesture \<noteq> ToggleClick \<longrightarrow> isLibraryItemSelected (applyLibrarySelection selection artifactId gesture visible) artifactId
        \<and> set (sl_ids (applyLibrarySelection selection artifactId gesture visible)) \<subseteq> insert artifactId (set visible))
    \<and> (gesture = ToggleClick \<longrightarrow> (\<forall>i. isLibraryItemSelected (applyLibrarySelection selection artifactId gesture visible) i
          \<longleftrightarrow> (if i = artifactId then \<not> isLibraryItemSelected selection i else isLibraryItemSelected selection i)))
    \<and> sl_ids (pruneLibrarySelection selection existing) = filter (\<lambda>i. i \<in> set existing) (sl_ids selection)
    \<and> sl_ids (removeFromLibrarySelection selection gone) = filter (\<lambda>i. i \<notin> set gone) (sl_ids selection)
    \<and> mset (orderedLibrarySelection selection visible) = mset (sl_ids selection)"
proof (intro conjI)
  show "distinct (sl_ids (applyLibrarySelection selection artifactId gesture visible))"
    using assms by (auto simp: applyLibrarySelection_def Let_def emptyLibrarySelection_def split: selection_gesture.split option.split)
  show "gesture \<noteq> ToggleClick \<longrightarrow> isLibraryItemSelected (applyLibrarySelection selection artifactId gesture visible) artifactId
        \<and> set (sl_ids (applyLibrarySelection selection artifactId gesture visible)) \<subseteq> insert artifactId (set visible)"
  proof (cases gesture)
    case RangeClick
    have "artifactId \<in> set (take (Suc (max m n) - min m n) (drop (min m n) visible))"
      if "m < length visible" "find_index (\<lambda>i. i = artifactId) visible = Some n" for m n
      using in_slice [of "min m n" n "max m n" visible] find_index_Some [OF that(2)] that(1) by auto
    then show ?thesis using RangeClick
      by (auto simp: applyLibrarySelection_def isLibraryItemSelected_def Let_def split: option.split bind_splits
          dest: find_index_Some in_set_takeD in_set_dropD)
  qed (simp_all add: applyLibrarySelection_def isLibraryItemSelected_def)
  show "gesture = ToggleClick \<longrightarrow> (\<forall>i. isLibraryItemSelected (applyLibrarySelection selection artifactId gesture visible) i
          \<longleftrightarrow> (if i = artifactId then \<not> isLibraryItemSelected selection i else isLibraryItemSelected selection i))"
    by (simp add: isLibraryItemSelected_def toggle_ids)
  show "sl_ids (pruneLibrarySelection selection existing) = filter (\<lambda>i. i \<in> set existing) (sl_ids selection)"
    by (simp add: pruneLibrarySelection_def Let_def emptyLibrarySelection_def)
  show "sl_ids (removeFromLibrarySelection selection gone) = filter (\<lambda>i. i \<notin> set gone) (sl_ids selection)"
    by (auto simp: removeFromLibrarySelection_def Let_def emptyLibrarySelection_def dest!: filter_same_length)
  have "set (orderedLibrarySelection selection visible) = set (sl_ids selection)"
    "distinct (orderedLibrarySelection selection visible)"
    using assms by (auto simp: orderedLibrarySelection_def Let_def)
  then show "mset (orderedLibrarySelection selection visible) = mset (sl_ids selection)"
    using assms(1) by (simp add: set_eq_iff_mset_eq_distinct)
qed

lemma library_selection_sound_witness:
  "isLibraryItemSelected (applyLibrarySelection \<lparr>sl_ids = [''c''], sl_anchor = Some ''c''\<rparr> ''a'' RangeClick [''a'', ''b'', ''c'']) ''a''"
  using library_selection_sound [of "\<lparr>sl_ids = [''c''], sl_anchor = Some ''c''\<rparr>" "[''a'', ''b'', ''c'']" "''a''" RangeClick] by simp

end
