(* ===== verification/InstanceStates.thy ===== *)
theory InstanceStates
  imports ExecutionPlan RoomProtocol "HOL-Library.Multiset"
begin

section \<open>Instance states and stored results on the canvas\<close>

text \<open>
  \<^verbatim>\<open>ui/run-execution/state.ts\<close>: the state the server derives for a node instance, the stored result in the
  shape a card reads, their publication onto the canvas, and the pool that reads results with at most six
  requests in flight. The two reads of the server are parameters. The order in which requests settle is
  not determined, so the pool is a step relation whose steps are settlements.
\<close>

definition instanceStateIsTerminal :: "instance_state_name \<Rightarrow> bool" where
  "instanceStateIsTerminal state \<longleftrightarrow>
     state = instance_state_name.Fresh \<or> state = instance_state_name.Stale \<or> state = instance_state_name.Failed"

fun overlayStatusForInstance :: "instance_state_name \<Rightarrow> node_execution_status" where
  "overlayStatusForInstance instance_state_name.Fresh = node_execution_status.Succeeded"
| "overlayStatusForInstance instance_state_name.Queued = node_execution_status.Queued"
| "overlayStatusForInstance instance_state_name.Running = node_execution_status.Running"
| "overlayStatusForInstance instance_state_name.Failed = node_execution_status.Failed"
| "overlayStatusForInstance instance_state_name.Stale = node_execution_status.Idle"

definition isRootInstance :: "instance_state \<Rightarrow> bool" where
  "isRootInstance instance' \<longleftrightarrow> ik_call_path instance' = [] \<and> ik_map_index instance' = None"

text \<open>The map from node ids, as the list of its entries in insertion order.\<close>

definition instanceStateByNodeId :: "instance_state list \<Rightarrow> (string \<times> instance_state) list" where
  "instanceStateByNodeId instances =
     foldl (\<lambda>byNodeId instance'. if isRootInstance instance' then obj_set (ik_node_id instance') instance' byNodeId else byNodeId)
       [] instances"

subsection \<open>Stored results\<close>

record instance_result =
  ir_instance :: instance_state
  ir_result_fingerprint :: "string option"
  ir_outputs :: "js_object option"
  ir_created_at :: "string option"

definition isSequenceValue :: "json \<Rightarrow> bool" where
  "isSequenceValue value = isArray (getp value ''item_refs'')"

definition portArtifact :: "json \<Rightarrow> run_port_artifact" where
  "portArtifact value =
     \<lparr>ra_artifact_id = str (getp value ''artifact_id''), ra_artifact_type = str (getp value ''artifact_type''),
      ra_schema_version = \<lfloor>num (getp value ''schema_version'')\<rfloor>,
      ra_content_hash = (let contentHash = getp value ''content_hash'' in if absent contentHash then None else Some (str contentHash))\<rparr>"

definition runPortOutputs :: "js_object option \<Rightarrow> run_port_output list" where
  "runPortOutputs outputs =
     (case outputs of
        None \<Rightarrow> []
      | Some entries \<Rightarrow>
          concat (map (\<lambda>(port, value).
            if \<not> isRecord value then []
            else if isSequenceValue value
            then [\<lparr>ro_port = port, ro_kind = SequenceOutput, ro_artifacts = map portArtifact (items (getp value ''item_refs'')), ro_value = value\<rparr>]
            else [\<lparr>ro_port = port, ro_kind = SingleOutput, ro_artifacts = [portArtifact value], ro_value = value\<rparr>]) entries))"

definition no_error_details :: string where
  "no_error_details = ''This node failed without error details.''"

definition instance_error :: "instance_state \<Rightarrow> string option" where
  "instance_error instance' =
     (if is_state instance' = instance_state_name.Failed
      then Some (case is_error instance' of Some e \<Rightarrow> e | None \<Rightarrow> no_error_details) else None)"

definition truthy_text :: "string option \<Rightarrow> bool" where
  "truthy_text s \<longleftrightarrow> s \<noteq> None \<and> s \<noteq> Some []"

definition runNodeResultFromInstance :: "instance_result \<Rightarrow> run_node_result option" where
  "runNodeResultFromInstance instanceResult =
     (let instance' = ir_instance instanceResult; failed = (is_state instance' = instance_state_name.Failed)
      in if \<not> truthy_text (ir_result_fingerprint instanceResult) \<and> \<not> failed then None
         else Some
           \<lparr>rr_node_id = ik_node_id instance',
            rr_status = (if failed then run_status.RunFailed else run_status.RunSucceeded),
            rr_error = instance_error instance',
            rr_outputs = runPortOutputs (ir_outputs instanceResult),
            rr_result_fingerprint = ir_result_fingerprint instanceResult,
            rr_created_at = ir_created_at instanceResult\<rparr>)"

subsection \<open>Publication\<close>

definition with_instance_state :: "(string \<times> instance_state) list \<Rightarrow> workflow_node \<Rightarrow> workflow_node" where
  "with_instance_state states node =
     (case map_of states (wn_id node) of
        None \<Rightarrow> node
      | Some instance' \<Rightarrow>
          let status = overlayStatusForInstance (is_state instance')
          in if ex_status (wd_execution (wn_data node)) = status then node
             else node\<lparr>wn_data := (wn_data node)\<lparr>wd_execution := \<lparr>ex_status = status, ex_error = instance_error instance'\<rparr>\<rparr>\<rparr>)"

definition withInstanceStates :: "workflow_node list \<Rightarrow> (string \<times> instance_state) list \<Rightarrow> workflow_node list" where
  "withInstanceStates nodes states = map (with_instance_state states) nodes"

definition with_instance_result :: "(string \<rightharpoonup> run_node_result) \<Rightarrow> workflow_node \<Rightarrow> workflow_node" where
  "with_instance_result results node =
     (case results (wn_id node) of None \<Rightarrow> node | Some result \<Rightarrow> node\<lparr>wn_data := (wn_data node)\<lparr>wd_run := Some result\<rparr>\<rparr>)"

definition withInstanceResults :: "workflow_node list \<Rightarrow> (string \<rightharpoonup> run_node_result) \<Rightarrow> workflow_node list" where
  "withInstanceResults nodes results = map (with_instance_result results) nodes"

subsection \<open>Reading with a limit\<close>

text \<open>
  A runner of \<open>mapWithLimit\<close> waits for the work on an item, has left its loop, or was rejected by the work.
  What the work on an item gives is a parameter: \<open>Inl\<close> a rejection, \<open>Inr None\<close> the value null.
\<close>

datatype 'i runner = Working 'i | Left | Rejected

record ('i, 'r) pool =
  po_next :: nat
  po_runners :: "'i runner list"
  po_results :: "'r list"

definition next_turn :: "'i list \<Rightarrow> nat \<Rightarrow> 'i runner \<times> nat" where
  "next_turn items' nextIndex = (if nextIndex < length items' then (Working (items' ! nextIndex), nextIndex + 1) else (Left, nextIndex))"

primrec start_runners :: "'i list \<Rightarrow> nat \<Rightarrow> ('i, 'r) pool \<Rightarrow> ('i, 'r) pool" where
  "start_runners items' 0 s = s"
| "start_runners items' (Suc k) s =
     (let (runner, nextIndex) = next_turn items' (po_next s)
      in start_runners items' k (s\<lparr>po_next := nextIndex, po_runners := po_runners s @ [runner]\<rparr>))"

definition pool_start :: "nat \<Rightarrow> 'i list \<Rightarrow> ('i, 'r) pool" where
  "pool_start limit items' =
     start_runners items' (min limit (length items')) \<lparr>po_next = 0, po_runners = [], po_results = []\<rparr>"

definition settle_runner :: "('i \<Rightarrow> 'e + 'r option) \<Rightarrow> 'i list \<Rightarrow> nat \<Rightarrow> 'i \<Rightarrow> ('i, 'r) pool \<Rightarrow> ('i, 'r) pool" where
  "settle_runner work items' k item s =
     (case work item of
        Inl e \<Rightarrow> s\<lparr>po_runners := (po_runners s)[k := Rejected]\<rparr>
      | Inr result \<Rightarrow>
          let (runner, nextIndex) = next_turn items' (po_next s)
          in s\<lparr>po_next := nextIndex, po_runners := (po_runners s)[k := runner],
               po_results := po_results s @ (case result of Some r \<Rightarrow> [r] | None \<Rightarrow> [])\<rparr>)"

inductive pool_step :: "('i \<Rightarrow> 'e + 'r option) \<Rightarrow> 'i list \<Rightarrow> ('i, 'r) pool \<Rightarrow> ('i, 'r) pool \<Rightarrow> bool"
  for work items' where
  settles: "k < length (po_runners s) \<Longrightarrow> po_runners s ! k = Working item \<Longrightarrow> pool_step work items' s (settle_runner work items' k item s)"

text \<open>\<open>Promise.all\<close>: the pool has resolved when every runner has left, and is rejected as soon as one was.\<close>

definition pool_resolved :: "('i, 'r) pool \<Rightarrow> bool" where
  "pool_resolved s \<longleftrightarrow> list_all (\<lambda>runner. runner = Left) (po_runners s)"

subsection \<open>What a snapshot reads\<close>

definition INSTANCE_RESULT_CONCURRENCY :: nat where "INSTANCE_RESULT_CONCURRENCY = 6"

definition wanted_instance :: "string list option \<Rightarrow> (string \<rightharpoonup> string) option \<Rightarrow> instance_state \<Rightarrow> bool" where
  "wanted_instance onlyNodeIds loadedFingerprints instance' \<longleftrightarrow>
     isRootInstance instance' \<and> is_last_result_fingerprint instance' \<noteq> None
     \<and> (case onlyNodeIds of None \<Rightarrow> True | Some ids \<Rightarrow> ik_node_id instance' \<in> set ids)
     \<and> (case loadedFingerprints of None \<Rightarrow> True | Some loaded \<Rightarrow> loaded (ik_node_id instance') \<noteq> is_last_result_fingerprint instance')"

record instance_snapshot =
  sn_instances :: "instance_state list"
  sn_results :: "run_node_result list"

text \<open>The snapshots a reading of the listed instances can end with, one for every order of settlement.\<close>

inductive snapshot_loaded ::
    "(instance_state \<Rightarrow> 'e + instance_result) \<Rightarrow> instance_state list \<Rightarrow> string list option \<Rightarrow> (string \<rightharpoonup> string) option
       \<Rightarrow> instance_snapshot \<Rightarrow> bool"
  for getInstanceResult instances onlyNodeIds loadedFingerprints where
  loaded: "(pool_step (\<lambda>instance'. map_sum id runNodeResultFromInstance (getInstanceResult instance'))
              (filter (wanted_instance onlyNodeIds loadedFingerprints) instances))\<^sup>*\<^sup>*
            (pool_start INSTANCE_RESULT_CONCURRENCY (filter (wanted_instance onlyNodeIds loadedFingerprints) instances)) s
     \<Longrightarrow> pool_resolved s
     \<Longrightarrow> snapshot_loaded getInstanceResult instances onlyNodeIds loadedFingerprints \<lparr>sn_instances = instances, sn_results = po_results s\<rparr>"

end
