(* ===== verification/NodeSecrets.thy ===== *)
theory NodeSecrets
  imports ConfigSchema RoomProtocol
begin

section \<open>Secret inputs of nodes\<close>

text \<open>
  \<^verbatim>\<open>canvas/node-secrets.ts\<close>: the write-only inputs an operator declares, read without trusting the metadata,
  and whether the node on the canvas is still the binding the saved graph holds. \<open>JSON.stringify\<close> is compared
  through \<open>json_norm\<close>, which is the same for two values exactly when their texts are.
\<close>

record secret_input =
  si_name :: string
  si_title :: string
  si_description :: "string option"
  si_configDependencies :: "string list"

datatype secret_state = SecretUnknown | SecretLoading | Unconfigured | Configured | SecretStale | Applying | Removing | SecretError

record remote_secret_status =
  rss_node_id :: string
  rss_name :: string
  rss_configured :: bool

definition optional_text :: "json \<Rightarrow> bool" where
  "optional_text value \<longleftrightarrow> absent value \<or> isString value"

definition secret_input_of :: "string list \<Rightarrow> json \<Rightarrow> secret_input option" where
  "secret_input_of seen rawInput =
     (case rawInput of
        JObject _ \<Rightarrow>
          let name = getp rawInput ''name''; dependencies = getp rawInput ''config_dependencies''; title = getp rawInput ''title''
          in if \<not> isString name \<or> str name = [] \<or> str name \<in> set seen \<or> \<not> isArray dependencies
               \<or> \<not> list_all (\<lambda>dependency. isString dependency \<and> str dependency \<noteq> []) (items dependencies) then None
             else if \<not> optional_text title \<or> \<not> optional_text (getp rawInput ''description'') then None
             else Some
               \<lparr>si_name = str name,
                si_title = (if isString title \<and> str title \<noteq> [] then str title
                            else map (\<lambda>c. if c = CHR ''_'' then CHR '' '' else c) (str name)),
                si_description = (case getp rawInput ''description'' of JString text' \<Rightarrow> Some text' | _ \<Rightarrow> None),
                si_configDependencies = map str (items dependencies)\<rparr>
      | _ \<Rightarrow> None)"

fun read_secret_inputs :: "string list \<Rightarrow> json list \<Rightarrow> secret_input list" where
  "read_secret_inputs seen [] = []"
| "read_secret_inputs seen (rawInput # rest) =
     (case secret_input_of seen rawInput of
        None \<Rightarrow> read_secret_inputs seen rest
      | Some input \<Rightarrow> input # read_secret_inputs (seen @ [si_name input]) rest)"

definition nodeSecretInputs :: "node_spec \<Rightarrow> secret_input list" where
  "nodeSecretInputs spec = (case ns_secret_inputs spec of JArray rawInputs \<Rightarrow> read_secret_inputs [] rawInputs | _ \<Rightarrow> [])"

definition nodeSecretDependencyRevision :: "secret_input \<Rightarrow> js_object \<Rightarrow> json" where
  "nodeSecretDependencyRevision input config =
     json_norm (JArray (map (\<lambda>dependency.
       JArray [JString dependency,
               (case map_of config dependency of Some v \<Rightarrow> if absent v then JNull else v | None \<Rightarrow> JNull)])
       (si_configDependencies input)))"

definition nodeSecretBindingReady :: "secret_input \<Rightarrow> workflow_node \<Rightarrow> saved_graph_node option \<Rightarrow> bool" where
  "nodeSecretBindingReady input currentNode savedNode =
     (case savedNode of
        None \<Rightarrow> False
      | Some saved \<Rightarrow>
          wn_id currentNode = n_id saved
          \<and> ns_operator_id (wd_spec (wn_data currentNode)) = n_operator_id saved
          \<and> ns_operator_version (wd_spec (wn_data currentNode)) = n_operator_version saved
          \<and> nodeSecretDependencyRevision input (wd_config (wn_data currentNode))
              = nodeSecretDependencyRevision input (nullish_or (n_config saved) []))"

definition reconciledNodeSecretStatuses ::
    "node_spec \<Rightarrow> string \<Rightarrow> remote_secret_status list \<Rightarrow> (string \<times> secret_state) list" where
  "reconciledNodeSecretStatuses spec nodeId remote =
     (let remoteByName = js_map (map (\<lambda>status. (rss_name status, status)) (filter (\<lambda>status. rss_node_id status = nodeId) remote))
      in map (\<lambda>input. (si_name input,
           (case remoteByName (si_name input) of
              Some status \<Rightarrow> if rss_configured status then Configured else Unconfigured
            | None \<Rightarrow> Unconfigured)))
         (nodeSecretInputs spec))"

subsection \<open>Facts\<close>

lemma read_secret_inputs_distinct:
  "distinct (map si_name (read_secret_inputs seen rawInputs))
   \<and> set (map si_name (read_secret_inputs seen rawInputs)) \<inter> set seen = {}"
proof (induction seen rawInputs rule: read_secret_inputs.induct)
  case (2 seen rawInput rest)
  show ?case
  proof (cases "secret_input_of seen rawInput")
    case None
    with 2 show ?thesis by simp
  next
    case (Some input)
    then have "si_name input \<notin> set seen"
      by (auto simp: secret_input_of_def Let_def split: json.splits if_splits)
    with Some 2(2) [OF Some] show ?thesis by auto
  qed
qed simp

lemma nodeSecretInputs_distinct: "distinct (map si_name (nodeSecretInputs spec))"
  using read_secret_inputs_distinct by (simp add: nodeSecretInputs_def split: json.split)

text \<open>A changed configuration value outside the declared dependencies never invalidates the binding.\<close>

lemma binding_ignores_other_fields:
  assumes "\<And>dependency. dependency \<in> set (si_configDependencies input) \<Longrightarrow> map_of config dependency = map_of config' dependency"
  shows "nodeSecretDependencyRevision input config = nodeSecretDependencyRevision input config'"
  using assms by (simp add: nodeSecretDependencyRevision_def)

end
