(* ===== verification/RunSurface.thy ===== *)
theory RunSurface
  imports InstanceStates NodeSecrets
begin

section \<open>The run surface of the workbench\<close>

text \<open>
  \<^verbatim>\<open>ui/useRunExecution.ts\<close> as operations on one state: the refs and states of the hook, with the canvas nodes it
  publishes to. An asynchronous operation is split where it awaits: a \<open>_start\<close> that reads the state and
  gives what the request captures, and a \<open>_finish\<close> that continues with the answer, in whatever state the
  surface then is. The API calls, the clock and the poll timer are outside; the value of the React state
  \<open>ownRun\<close> and of its ref are one field, as every operation of a mounted surface sets both.
\<close>

datatype run_lifecycle = LifeRunning | LifeSucceeded | LifeFailed | LifeCancelled | LifeInterrupted

record run_response =
  rn_id :: string
  rn_graph_id :: string
  rn_status :: run_lifecycle
  rn_error :: "string option"
  rn_targets :: "run_target list"
  rn_created_at :: string

record active_saved_graph =
  ag_id :: string
  ag_graphId :: string
  ag_revision :: int
  ag_nodes :: "saved_graph_node list"

record own_run =
  ow_runId :: string
  ow_scope :: run_scope
  ow_graphId :: string
  ow_targets :: "run_target list"

record run_surface =
  sf_mounted :: bool
  sf_projectId :: "string option"
  sf_activeGraph :: "active_saved_graph option"
  sf_fingerprint :: string
  sf_generation :: nat
  sf_ownRun :: "own_run option"
  sf_ownRunStatus :: "run_lifecycle option"
  sf_startedFingerprint :: string
  sf_loaded :: "string \<rightharpoonup> string"
  sf_results :: "string \<rightharpoonup> run_node_result"
  sf_states :: "string \<rightharpoonup> instance_state_name"
  sf_activeRuns :: "run_response list"
  sf_nodes :: "workflow_node list"
  sf_runError :: "string option"
  sf_announcement :: string

definition isTerminalRunStatus :: "run_lifecycle \<Rightarrow> bool" where
  "isTerminalRunStatus status \<longleftrightarrow>
     status = LifeSucceeded \<or> status = LifeFailed \<or> status = LifeCancelled \<or> status = LifeInterrupted"

fun status_text :: "run_lifecycle \<Rightarrow> string" where
  "status_text LifeRunning = ''running''"
| "status_text LifeSucceeded = ''succeeded''"
| "status_text LifeFailed = ''failed''"
| "status_text LifeCancelled = ''cancelled''"
| "status_text LifeInterrupted = ''interrupted''"

definition runFailureMessage :: "run_response \<Rightarrow> string" where
  "runFailureMessage run =
     (if truthy_text (rn_error run) then the (rn_error run)
      else case rn_status run of
        LifeFailed \<Rightarrow> ''The Run failed. Its instances show why.''
      | LifeCancelled \<Rightarrow> ''The Run was cancelled.''
      | LifeInterrupted \<Rightarrow> ''The Run was interrupted before it finished. Running it again resumes from what is already fresh.''
      | _ \<Rightarrow> ''The Run ended without making its targets fresh.'')"

subsection \<open>Publishing instances\<close>

record publish_request =
  pq_graph :: active_saved_graph
  pq_generation :: nat
  pq_loaded :: "string \<rightharpoonup> string"
  pq_onlyNodeIds :: "string list option"

definition publish_start :: "run_surface \<Rightarrow> active_saved_graph option \<Rightarrow> string list option \<Rightarrow> publish_request option" where
  "publish_start s activeGraph onlyNodeIds =
     (case activeGraph of
        None \<Rightarrow> None
      | Some graph \<Rightarrow>
          if \<not> truthy_text (sf_projectId s) then None
          else Some \<lparr>pq_graph = graph, pq_generation = sf_generation s, pq_loaded = sf_loaded s, pq_onlyNodeIds = onlyNodeIds\<rparr>)"

definition still_current :: "run_surface \<Rightarrow> publish_request \<Rightarrow> bool" where
  "still_current s rq \<longleftrightarrow>
     sf_mounted s \<and> pq_generation rq = sf_generation s
     \<and> (case sf_activeGraph s of
          None \<Rightarrow> False
        | Some graph \<Rightarrow> ag_graphId graph = ag_graphId (pq_graph rq) \<and> ag_revision graph = ag_revision (pq_graph rq))"

definition published_fingerprints :: "(string \<times> instance_state) list \<Rightarrow> (string \<rightharpoonup> string) \<Rightarrow> string \<rightharpoonup> string" where
  "published_fingerprints byNodeId loaded =
     foldl (\<lambda>fingerprints (nodeId, instance').
       if truthy_text (is_last_result_fingerprint instance') then fingerprints(nodeId := is_last_result_fingerprint instance')
       else fingerprints(nodeId := None)) loaded byNodeId"

definition published_results :: "run_node_result list \<Rightarrow> (string \<rightharpoonup> run_node_result) \<Rightarrow> string \<rightharpoonup> run_node_result" where
  "published_results read results = foldl (\<lambda>m result. m(rr_node_id result \<mapsto> result)) results read"

definition publish_finish :: "run_surface \<Rightarrow> publish_request \<Rightarrow> string + instance_snapshot \<Rightarrow> run_surface" where
  "publish_finish s rq answer =
     (case answer of
        Inl message \<Rightarrow>
          if sf_mounted s \<and> pq_generation rq = sf_generation s then s\<lparr>sf_runError := Some message\<rparr> else s
      | Inr snapshot \<Rightarrow>
          if \<not> still_current s rq then s
          else
            let byNodeId = instanceStateByNodeId (sn_instances snapshot);
                results = published_results (sn_results snapshot) (sf_results s)
            in s\<lparr>sf_loaded := published_fingerprints byNodeId (pq_loaded rq),
                 sf_results := results,
                 sf_states := map_of (map (\<lambda>(nodeId, instance'). (nodeId, is_state instance')) byNodeId),
                 sf_nodes := withInstanceResults (withInstanceStates (sf_nodes s) byNodeId) results\<rparr>)"

text \<open>The effect that follows a change of Graph or Project, before it publishes.\<close>

definition open_surface :: "run_surface \<Rightarrow> run_surface" where
  "open_surface s =
     s\<lparr>sf_generation := sf_generation s + 1, sf_loaded := Map.empty, sf_results := Map.empty, sf_states := Map.empty,
       sf_activeRuns := []\<rparr>"

definition refreshActiveRuns_finish :: "run_surface \<Rightarrow> run_response list option \<Rightarrow> run_surface" where
  "refreshActiveRuns_finish s answer =
     (case answer of None \<Rightarrow> s | Some runs \<Rightarrow> if sf_mounted s then s\<lparr>sf_activeRuns := runs\<rparr> else s)"

subsection \<open>This tab's own run\<close>

definition settleOwnRun_start :: "run_surface \<Rightarrow> own_run option" where
  "settleOwnRun_start s = (if truthy_text (sf_projectId s) then sf_ownRun s else None)"

text \<open>The answer to the read of a pending run, and whether the document has moved when it ended the run.\<close>

definition settleOwnRun_finish :: "run_surface \<Rightarrow> own_run \<Rightarrow> run_response option \<Rightarrow> run_surface \<times> (bool \<times> run_response) option" where
  "settleOwnRun_finish s pending answer =
     (case answer of
        None \<Rightarrow> (s, None)
      | Some run \<Rightarrow>
          if \<not> sf_mounted s \<or> map_option ow_runId (sf_ownRun s) \<noteq> Some (ow_runId pending) then (s, None)
          else if \<not> isTerminalRunStatus (rn_status run) then (s\<lparr>sf_ownRunStatus := Some (rn_status run)\<rparr>, None)
          else (s\<lparr>sf_ownRun := None, sf_ownRunStatus := None\<rparr>, Some (sf_fingerprint s \<noteq> sf_startedFingerprint s, run)))"

definition settleOwnRun_announce :: "run_surface \<Rightarrow> bool \<times> run_response \<Rightarrow> run_surface" where
  "settleOwnRun_announce s ended =
     (case ended of (documentMoved, run) \<Rightarrow>
        if \<not> sf_mounted s then s
        else if documentMoved
        then s\<lparr>sf_runError := Some
                 (if rn_status run = LifeCancelled
                  then ''The Run was cancelled. The graph had already moved, so its nodes show the state that move left them in.''
                  else ''The graph changed while the Run was going. Its results are stored, and the nodes it touched read as stale.''),
               sf_announcement := ''Run '' @ status_text (rn_status run) @ '', and the graph had already moved.''\<rparr>
        else if rn_status run = LifeSucceeded then s\<lparr>sf_announcement := ''Run made its targets fresh.''\<rparr>
        else s\<lparr>sf_runError := Some (runFailureMessage run), sf_announcement := ''Run '' @ status_text (rn_status run) @ ''.''\<rparr>)"

subsection \<open>Starting a run\<close>

record run_context =
  rc_registryAvailable :: bool
  rc_edges :: "workflow_edge list"
  rc_origins :: "saved_graph_origin list"
  rc_canRunSavedGraph :: bool
  rc_secretStatuses :: "string \<Rightarrow> string \<Rightarrow> secret_state option"
  rc_number :: "string \<Rightarrow> js_number"
  rc_platform :: schema_platform

datatype run_decision =
    Ignored
  | RefusedRun string
  | RefusedNode string string
  | RequestRun "run_target list"

definition secret_backed :: "workflow_node list \<Rightarrow> (workflow_node \<times> secret_input list) list" where
  "secret_backed nodes = filter (\<lambda>(node, inputs). inputs \<noteq> []) (map (\<lambda>node. (node, nodeSecretInputs (wd_spec (wn_data node)))) nodes)"

definition changed_binding :: "saved_graph_node list \<Rightarrow> workflow_node \<times> secret_input list \<Rightarrow> (workflow_node \<times> secret_input) option" where
  "changed_binding savedNodes backed =
     (case backed of (node, inputs) \<Rightarrow>
        map_option (Pair node)
          (find (\<lambda>input. \<not> nodeSecretBindingReady input node (find (\<lambda>candidate. n_id candidate = wn_id node) savedNodes)) inputs))"

fun first_changed_binding :: "saved_graph_node list \<Rightarrow> (workflow_node \<times> secret_input list) list \<Rightarrow> (workflow_node \<times> secret_input) option" where
  "first_changed_binding savedNodes [] = None"
| "first_changed_binding savedNodes (backed # rest) =
     (case changed_binding savedNodes backed of Some found \<Rightarrow> Some found | None \<Rightarrow> first_changed_binding savedNodes rest)"

definition secret_missing :: "(string \<Rightarrow> string \<Rightarrow> secret_state option) \<Rightarrow> workflow_node \<times> secret_input list \<Rightarrow> bool" where
  "secret_missing statuses backed =
     (case backed of (node, inputs) \<Rightarrow> list_ex (\<lambda>input. statuses (wn_id node) (si_name input) \<noteq> Some Configured) inputs)"

definition node_title :: "workflow_node \<Rightarrow> string" where
  "node_title node = ns_title (wd_spec (wn_data node))"

definition runWorkflow_decision :: "run_context \<Rightarrow> run_surface \<Rightarrow> run_scope \<Rightarrow> run_decision" where
  "runWorkflow_decision ctx s scope =
     (if \<not> rc_registryAvailable ctx \<or> sf_ownRun s \<noteq> None then Ignored
      else case (truthy_text (sf_projectId s), sf_activeGraph s) of
        (True, Some activeGraph) \<Rightarrow>
          let execution = executionSubgraphFor scope (sf_nodes s) (rc_edges ctx);
              backed = secret_backed (es_nodes execution)
          in (case executionValidationIssue (rc_number ctx) (rc_platform ctx) scope (es_nodes execution) (es_edges execution) (rc_origins ctx) of
                Some found \<Rightarrow>
                  if truthy_text (vi_nodeId found) then RefusedNode (the (vi_nodeId found)) (vi_message found)
                  else RefusedRun (vi_message found)
              | None \<Rightarrow>
                  if backed \<noteq> [] \<and> \<not> rc_canRunSavedGraph ctx
                  then RefusedRun ''Save the graph before running nodes that use stored secrets.''
                  else (case first_changed_binding (ag_nodes activeGraph) backed of
                          Some (node, input) \<Rightarrow>
                            RefusedRun (''Save the graph before running '' @ node_title node @ '': its '' @ si_title input
                              @ '' binding is new or changed.'')
                        | None \<Rightarrow>
                            (case find (secret_missing (rc_secretStatuses ctx)) backed of
                               Some (node, _) \<Rightarrow>
                                 RefusedRun (''Configure every required secret for '' @ node_title node @ '' before running.'')
                             | None \<Rightarrow> RequestRun (runTargetsFor execution))))
      | _ \<Rightarrow> RefusedRun ''Save the graph before running it.'')"

definition runWorkflow_start :: "run_context \<Rightarrow> run_surface \<Rightarrow> run_scope \<Rightarrow> run_surface" where
  "runWorkflow_start ctx s scope =
     (case runWorkflow_decision ctx s scope of
        Ignored \<Rightarrow> s
      | RefusedRun message \<Rightarrow> s\<lparr>sf_runError := Some message\<rparr>
      | RefusedNode nodeId message \<Rightarrow>
          s\<lparr>sf_runError := None,
            sf_nodes := map (\<lambda>node. if wn_id node = nodeId
              then node\<lparr>wn_data := (wn_data node)\<lparr>wd_execution := \<lparr>ex_status = node_execution_status.Failed, ex_error = Some message\<rparr>\<rparr>\<rparr>
              else node) (sf_nodes s)\<rparr>
      | RequestRun _ \<Rightarrow> s\<lparr>sf_runError := None, sf_announcement := []\<rparr>)"

definition runWorkflow_finish :: "run_surface \<Rightarrow> run_scope \<Rightarrow> string + run_response \<Rightarrow> run_surface" where
  "runWorkflow_finish s scope answer =
     (if \<not> sf_mounted s then s
      else case answer of
        Inl message \<Rightarrow> s\<lparr>sf_runError := Some message\<rparr>
      | Inr run \<Rightarrow>
          s\<lparr>sf_generation := sf_generation s + 1, sf_startedFingerprint := sf_fingerprint s,
            sf_ownRun := Some \<lparr>ow_runId = rn_id run, ow_scope = scope, ow_graphId = rn_graph_id run, ow_targets = rn_targets run\<rparr>,
            sf_ownRunStatus := Some (rn_status run)\<rparr>)"

definition cancelCurrentRun_start :: "run_surface \<Rightarrow> string option" where
  "cancelCurrentRun_start s = map_option ow_runId (settleOwnRun_start s)"

definition cancelCurrentRun_finish :: "run_surface \<Rightarrow> string + run_response \<Rightarrow> run_surface" where
  "cancelCurrentRun_finish s answer =
     (if \<not> sf_mounted s then s
      else case answer of
        Inl message \<Rightarrow> s\<lparr>sf_runError := Some message\<rparr>
      | Inr cancelled \<Rightarrow> s\<lparr>sf_ownRunStatus := Some (rn_status cancelled), sf_announcement := ''Cancelling this Run.''\<rparr>)"

definition unmount_surface :: "run_surface \<Rightarrow> run_surface" where
  "unmount_surface s = s\<lparr>sf_mounted := False, sf_ownRun := None\<rparr>"

subsection \<open>The list of active runs\<close>

definition summary_of :: "run_response \<Rightarrow> active_run" where
  "summary_of run =
     \<lparr>ar_run_id = rn_id run, ar_graph_id = rn_graph_id run, ar_targets = rn_targets run, ar_starter = None,
      ar_started_at = rn_created_at run, ar_cancellable = True\<rparr>"

definition add_summary :: "(string \<times> active_run) list \<Rightarrow> active_run \<Rightarrow> (string \<times> active_run) list" where
  "add_summary summaries run = (if map_of summaries (ar_run_id run) \<noteq> None then summaries else obj_set (ar_run_id run) run summaries)"

definition visibleActiveRuns :: "string \<Rightarrow> active_run list option \<Rightarrow> run_response list \<Rightarrow> own_run option \<Rightarrow> active_run list" where
  "visibleActiveRuns now roomActiveRuns activeRuns ownRun =
     (let fromRoom = foldl (\<lambda>summaries run. obj_set (ar_run_id run) run summaries) [] (case roomActiveRuns of Some runs \<Rightarrow> runs | None \<Rightarrow> []);
          listed = foldl (\<lambda>summaries run. add_summary summaries (summary_of run)) fromRoom activeRuns
      in map snd (case ownRun of
           None \<Rightarrow> listed
         | Some pending \<Rightarrow> add_summary listed
             \<lparr>ar_run_id = ow_runId pending, ar_graph_id = ow_graphId pending, ar_targets = ow_targets pending, ar_starter = None,
              ar_started_at = now, ar_cancellable = True\<rparr>))"

subsection \<open>Rejections\<close>

record api_error =
  ae_code :: "string option"
  ae_detail :: "string option"
  ae_message :: string

definition runRejectionMessage :: "api_error \<Rightarrow> string" where
  "runRejectionMessage err =
     (let message = (if truthy_text (ae_detail err) then ae_detail err else None);
          or_say = (\<lambda>fallback. case message of Some m \<Rightarrow> m | None \<Rightarrow> fallback)
      in if ae_code err = Some ''unknown_graph'' then ''This Graph is no longer in the Project. Reload it before running.''
         else if ae_code err = Some ''unknown_target''
         then ''A node this Run was asked for is no longer on the canvas. Select the nodes again.''
         else if ae_code err = Some ''unknown_operator'' then or_say ''A node in this Run is not in the live node registry.''
         else if ae_code err = Some ''invalid_document'' then or_say ''The Graph cannot be run as it is saved.''
         else or_say (ae_message err))"

end
