(* ===== verification/InstanceStates_Facts.thy ===== *)
theory InstanceStates_Facts
  imports InstanceStates
begin

section \<open>The reading pool returns every result, whatever the order of settlement\<close>

text \<open>
  Invariants of \<open>mapWithLimit\<close> by rule induction over its settlements: never more requests in flight than the
  limit, no item read twice or left out, and no run longer than the list of items.
\<close>

definition working :: "'i runner list \<Rightarrow> 'i list" where
  "working runners = concat (map (\<lambda>runner. case runner of Working item \<Rightarrow> [item] | _ \<Rightarrow> []) runners)"

definition gives :: "('i \<Rightarrow> 'e + 'r option) \<Rightarrow> 'i list \<Rightarrow> 'r list" where
  "gives work xs = concat (map (\<lambda>item. case work item of Inr (Some r) \<Rightarrow> [r] | _ \<Rightarrow> []) xs)"

lemma working_append [simp]: "working (xs @ ys) = working xs @ working ys"
  by (simp add: working_def)

lemma working_simps [simp]:
  "working [] = []" "working (Working item # xs) = item # working xs" "working (Left # xs) = working xs" "working (Rejected # xs) = working xs"
  by (simp_all add: working_def)

lemma gives_append [simp]: "gives work (xs @ ys) = gives work xs @ gives work ys"
  by (simp add: gives_def)

lemma gives_Nil [simp]: "gives work [] = []"
  by (simp add: gives_def)

lemma gives_Cons: "gives work (x # xs) = gives work [x] @ gives work xs"
  by (simp add: gives_def)

lemma mset_gives: "mset (gives work xs) = (\<Sum>x\<in>#mset xs. mset (gives work [x]))"
proof (induction xs)
  case (Cons x xs)
  then show ?case using gives_Cons [of work x xs] by simp
qed simp

lemma mset_gives_cong: "mset xs = mset ys \<Longrightarrow> mset (gives work xs) = mset (gives work ys)"
  by (simp add: mset_gives [of work xs] mset_gives [of work ys])

lemma working_update:
  "k < length xs \<Longrightarrow> xs ! k = Working item \<Longrightarrow> mset (working (xs[k := r])) + {#item#} = mset (working xs) + mset (working [r])"
proof (induction xs arbitrary: k)
  case (Cons x xs)
  have split: "working (y # ys) = working [y] @ working ys" for y and ys :: "'a runner list" by (cases y) simp_all
  show ?case
  proof (cases k)
    case 0
    then show ?thesis using Cons.prems split [of r xs] by simp
  next
    case (Suc j)
    then show ?thesis using Cons.IH [of j] Cons.prems split [of x "xs[j := r]"] split [of x xs] by simp
  qed
qed simp

lemma working_length: "length (working xs) \<le> length xs"
  by (induction xs) (auto split: runner.split simp: working_def)

definition pool_inv :: "('i \<Rightarrow> 'e + 'r option) \<Rightarrow> 'i list \<Rightarrow> ('i, 'r) pool \<Rightarrow> bool" where
  "pool_inv work items' s \<longleftrightarrow>
     mset (po_results s) + mset (gives work (working (po_runners s))) + mset (gives work (drop (po_next s) items')) = mset (gives work items')
     \<and> po_next s \<le> length items' \<and> (Left \<in> set (po_runners s) \<longrightarrow> po_next s = length items')"

lemma next_turn_cases:
  assumes "next_turn items' n = (runner, m)" and "n \<le> length items'"
  obtains item where "runner = Working item" "m = Suc n" "drop n items' = item # drop m items'" "m \<le> length items'"
  | "runner = Left" "m = n" "n = length items'"
  using assms by (auto simp: next_turn_def Cons_nth_drop_Suc split: if_splits)

lemma pool_inv_start_runners:
  "pool_inv work items' s \<Longrightarrow> pool_inv work items' (start_runners items' k s)
     \<and> length (po_runners (start_runners items' k s)) = length (po_runners s) + k"
proof (induction k arbitrary: s)
  case (Suc k)
  obtain runner m where turn: "next_turn items' (po_next s) = (runner, m)" by fastforce
  have "pool_inv work items' (s\<lparr>po_next := m, po_runners := po_runners s @ [runner]\<rparr>)"
    using turn
  proof (rule next_turn_cases)
    show "po_next s \<le> length items'" using Suc.prems by (simp add: pool_inv_def)
  next
    fix item assume "runner = Working item" "m = Suc (po_next s)" "drop (po_next s) items' = item # drop m items'" "m \<le> length items'"
    then show ?thesis using Suc.prems gives_Cons [of work item "drop m items'"]
      by (auto simp: pool_inv_def ac_simps)
  next
    assume "runner = Left" "m = po_next s" "po_next s = length items'"
    then show ?thesis using Suc.prems by (auto simp: pool_inv_def)
  qed
  from Suc.IH [OF this] show ?case by (simp add: turn)
qed simp

lemma pool_inv_start:
  fixes work :: "'i \<Rightarrow> 'e + 'r option"
  shows "pool_inv work items' (pool_start limit items') \<and> length (po_runners (pool_start limit items' :: ('i, 'r) pool)) = min limit (length items')"
proof -
  have "pool_inv work items' \<lparr>po_next = 0, po_runners = [], po_results = []\<rparr>" by (simp add: pool_inv_def)
  from pool_inv_start_runners [OF this] show ?thesis by (simp add: pool_start_def)
qed

lemma gives_working_update:
  assumes "k < length xs" and "xs ! k = Working item"
  shows "mset (gives work (working (xs[k := r]))) + mset (gives work [item]) = mset (gives work (working xs)) + mset (gives work (working [r]))"
proof -
  have "mset (working (xs[k := r]) @ [item]) = mset (working xs @ working [r])" using working_update [OF assms] by simp
  from mset_gives_cong [OF this] show ?thesis by simp
qed

lemma pool_inv_step: "pool_step work items' s t \<Longrightarrow> pool_inv work items' s \<Longrightarrow> pool_inv work items' t \<and> length (po_runners t) = length (po_runners s)"
proof (induction rule: pool_step.induct)
  case (settles k s item)
  note update = gives_working_update [OF settles(1,2), of work]
  from settles(2) have item: "Working item \<in> set (po_runners s)" using settles(1) by (metis nth_mem)
  show ?case
  proof (cases "work item")
    case (Inl e)
    then have "gives work [item] = []" by (simp add: gives_def)
    with update [of Rejected] settles(3) Inl show ?thesis
      using set_update_subset_insert [of "po_runners s" k Rejected] by (auto simp: pool_inv_def settle_runner_def)
  next
    case (Inr result)
    then have got: "gives work [item] = (case result of Some r \<Rightarrow> [r] | None \<Rightarrow> [])" by (simp add: gives_def split: option.split)
    obtain runner m where turn: "next_turn items' (po_next s) = (runner, m)" by fastforce
    let ?t = "s\<lparr>po_next := m, po_runners := (po_runners s)[k := runner], po_results := po_results s @ gives work [item]\<rparr>"
    have "pool_inv work items' ?t"
      using turn
    proof (rule next_turn_cases)
      show "po_next s \<le> length items'" using settles(3) by (simp add: pool_inv_def)
    next
      fix item' assume here: "runner = Working item'" "m = Suc (po_next s)" "drop (po_next s) items' = item' # drop m items'" "m \<le> length items'"
      have "Left \<notin> set (po_runners s)" using settles(3) here by (auto simp: pool_inv_def)
      then have "Left \<notin> set ((po_runners s)[k := runner])" using here(1) set_update_subset_insert [of "po_runners s" k runner] by auto
      moreover have "mset (gives work (working (po_runners s))) + mset (gives work (drop (po_next s) items'))
          = mset (gives work [item]) + mset (gives work (working ((po_runners s)[k := runner]))) + mset (gives work (drop m items'))"
        using update [of runner] here gives_Cons [of work item' "drop m items'"] by (simp add: ac_simps)
      ultimately show ?thesis using settles(3) here(4) by (simp add: pool_inv_def ac_simps)
    next
      assume here: "runner = Left" "m = po_next s" "po_next s = length items'"
      with settles(3) update [of runner] show ?thesis by (simp add: pool_inv_def ac_simps)
    qed
    with Inr turn got show ?thesis by (simp add: settle_runner_def)
  qed
qed

lemma pool_reachable:
  assumes "(pool_step work items')\<^sup>*\<^sup>* (pool_start limit items') s"
  shows "pool_inv work items' s \<and> length (po_runners s) = min limit (length items')"
  using assms
proof (induction rule: rtranclp_induct)
  case (step s t)
  then show ?case using pool_inv_step [OF step(2)] by simp
qed (rule pool_inv_start)

text \<open>Every settlement uses up one unit of this measure.\<close>

definition pool_work :: "'i list \<Rightarrow> ('i, 'r) pool \<Rightarrow> nat" where
  "pool_work items' s = length (working (po_runners s)) + (length items' - po_next s)"

lemma pool_work_step:
  assumes "pool_step work items' s t" and "pool_inv work items' s"
  shows "Suc (pool_work items' t) = pool_work items' s"
  using assms
proof (induction rule: pool_step.induct)
  case (settles k s item)
  have size: "Suc (length (working ((po_runners s)[k := r]))) = length (working (po_runners s)) + length (working [r])" for r
    using arg_cong [OF working_update [OF settles(1,2), of r], of size] by simp
  show ?case
  proof (cases "work item")
    case (Inl e)
    with size [of Rejected] show ?thesis by (simp add: pool_work_def settle_runner_def)
  next
    case (Inr result)
    obtain runner m where turn: "next_turn items' (po_next s) = (runner, m)" by fastforce
    then have "length (working [runner]) + (length items' - m) = length items' - po_next s"
      using settles(3) by (auto simp: next_turn_def split: if_splits)
    with size [of runner] Inr turn show ?thesis by (simp add: pool_work_def settle_runner_def)
  qed
qed

subsection \<open>Every reading ends with every result\<close>

definition honest_runner :: "('i \<Rightarrow> 'e + 'r option) \<Rightarrow> 'i list \<Rightarrow> 'i runner \<Rightarrow> bool" where
  "honest_runner work items' runner \<longleftrightarrow>
     (case runner of Working item \<Rightarrow> item \<in> set items' | Left \<Rightarrow> True | Rejected \<Rightarrow> (\<exists>item\<in>set items'. isl (work item)))"

lemma next_turn_honest: "next_turn items' n = (runner, m) \<Longrightarrow> honest_runner work items' runner"
  by (auto simp: next_turn_def honest_runner_def split: if_splits)

lemma start_runners_honest:
  "list_all (honest_runner work items') (po_runners s) \<Longrightarrow> list_all (honest_runner work items') (po_runners (start_runners items' k s))"
proof (induction k arbitrary: s)
  case (Suc k)
  obtain runner m where turn: "next_turn items' (po_next s) = (runner, m)" by fastforce
  with Suc next_turn_honest [OF turn, of work] show ?case by simp
qed simp

lemma settle_honest:
  assumes "list_all (honest_runner work items') (po_runners s)" and "k < length (po_runners s)" and "po_runners s ! k = Working item"
  shows "list_all (honest_runner work items') (po_runners (settle_runner work items' k item s))"
proof -
  have item: "item \<in> set items'" using assms by (auto simp: list_all_length honest_runner_def)
  obtain runner m where turn: "next_turn items' (po_next s) = (runner, m)" by fastforce
  have update: "list_all (honest_runner work items') ((po_runners s)[k := r])" if "honest_runner work items' r" for r
    using assms(1) that by (metis list_all_length length_list_update nth_list_update_eq nth_list_update_neq)
  show ?thesis
  proof (cases "work item")
    case (Inl e)
    then have "honest_runner work items' Rejected" using item by (auto simp: honest_runner_def intro!: bexI [of _ item])
    with Inl update show ?thesis by (simp add: settle_runner_def)
  next
    case (Inr result)
    with turn update next_turn_honest [OF turn, of work] show ?thesis by (simp add: settle_runner_def)
  qed
qed

lemma pool_honest:
  assumes "(pool_step work items')\<^sup>*\<^sup>* (pool_start limit items') s"
  shows "list_all (honest_runner work items') (po_runners s)"
  using assms
proof (induction rule: rtranclp_induct)
  case base
  then show ?case by (simp add: pool_start_def start_runners_honest)
next
  case (step s t)
  from step(2,3) show ?case by (induction rule: pool_step.induct) (simp add: settle_honest)
qed

lemma start_runners_work:
  "po_next s \<le> length items' \<Longrightarrow> pool_work items' (start_runners items' k s) = pool_work items' s"
proof (induction k arbitrary: s)
  case (Suc k)
  obtain runner m where turn: "next_turn items' (po_next s) = (runner, m)" by fastforce
  then have "m \<le> length items' \<and> pool_work items' (s\<lparr>po_next := m, po_runners := po_runners s @ [runner]\<rparr>) = pool_work items' s"
    using Suc.prems by (auto simp: next_turn_def pool_work_def split: if_splits)
  with Suc.IH turn show ?case by simp
qed simp

lemma pool_steps_work:
  "(pool_step work items' ^^ n) (pool_start limit items') s \<Longrightarrow> n + pool_work items' s = length items'"
proof (induction n arbitrary: s)
  case 0
  then show ?case using start_runners_work [of "\<lparr>po_next = 0, po_runners = [], po_results = []\<rparr>" items'] 
    by (auto simp: pool_start_def pool_work_def)
next
  case (Suc n)
  then obtain s' where steps: "(pool_step work items' ^^ n) (pool_start limit items') s'" and step: "pool_step work items' s' s" by auto
  have "pool_inv work items' s'" using pool_reachable steps by (metis relpowp_imp_rtranclp)
  from pool_work_step [OF step this] Suc.IH [OF steps] show ?case by simp
qed

lemma resolved_all_left: "pool_resolved s \<Longrightarrow> working (po_runners s) = [] \<and> (po_runners s \<noteq> [] \<longrightarrow> Left \<in> set (po_runners s))"
proof -
  have "list_all (\<lambda>runner. runner = Left) rs \<Longrightarrow> working rs = []" for rs :: "'a runner list" by (induction rs) auto
  then show "pool_resolved s \<Longrightarrow> working (po_runners s) = [] \<and> (po_runners s \<noteq> [] \<longrightarrow> Left \<in> set (po_runners s))"
    by (cases "po_runners s") (auto simp: pool_resolved_def)
qed

lemma pool_resolved_complete:
  assumes "0 < limit" and "(pool_step work items')\<^sup>*\<^sup>* (pool_start limit items') s" and "pool_resolved s"
  shows "working (po_runners s) = [] \<and> po_next s = length items' \<and> mset (po_results s) = mset (gives work items')"
proof -
  note reachable = pool_reachable [OF assms(2)]
  have "working (po_runners s) = []" "po_next s = length items'"
    using resolved_all_left [OF assms(3)] reachable assms(1) by (auto simp: pool_inv_def min_def split: if_splits)
  then show ?thesis using reachable by (simp add: pool_inv_def)
qed

text \<open>
  C27: Reading a list of instances with a limit never has more requests in flight than the limit, and
  every order of settlement ends after at most one settlement per item. When the pool has resolved it has
  asked for every item once and holds exactly the results that are not null; when no request is rejected
  a pool that has not resolved always has a request left to settle.
\<close>

theorem reading_pool_complete:
  assumes "0 < limit" and "(pool_step work items' ^^ n) (pool_start limit items') s"
  shows "n \<le> length items' \<and> length (working (po_runners s)) \<le> limit
    \<and> (pool_resolved s \<longrightarrow> n = length items' \<and> mset (po_results s) = mset (gives work items'))
    \<and> (list_all (\<lambda>item. \<not> isl (work item)) items' \<longrightarrow> pool_resolved s \<or> (\<exists>t. pool_step work items' s t))"
proof (intro conjI impI)
  have reach: "(pool_step work items')\<^sup>*\<^sup>* (pool_start limit items') s" using assms(2) by (rule relpowp_imp_rtranclp)
  note reachable = pool_reachable [OF reach] and steps = pool_steps_work [OF assms(2)]
  show "n \<le> length items'" using steps by simp
  show "length (working (po_runners s)) \<le> limit" using working_length [of "po_runners s"] reachable by simp
  show "n = length items'" and "mset (po_results s) = mset (gives work items')" if "pool_resolved s"
    using pool_resolved_complete [OF assms(1) reach that] steps by (simp_all add: pool_work_def)
  assume fine: "list_all (\<lambda>item. \<not> isl (work item)) items'"
  show "pool_resolved s \<or> (\<exists>t. pool_step work items' s t)"
  proof (rule disjCI)
    assume "\<not> (\<exists>t. pool_step work items' s t)"
    then have "po_runners s ! k \<noteq> Working item" if "k < length (po_runners s)" for k item using that by (meson pool_step.settles)
    moreover have "po_runners s ! k \<noteq> Rejected" if "k < length (po_runners s)" for k
    proof -
      have "honest_runner work items' (po_runners s ! k)" using pool_honest [OF reach] that by (simp add: list_all_length)
      then show ?thesis using fine by (auto simp: honest_runner_def list_all_iff)
    qed
    ultimately have "po_runners s ! k = Left" if "k < length (po_runners s)" for k
      using that by (cases "po_runners s ! k") simp_all
    then show "pool_resolved s" by (simp add: pool_resolved_def list_all_length)
  qed
qed

text \<open>Two requests at once over three items, the second of which has no result: the second settles first.\<close>

definition demo_work :: "nat \<Rightarrow> string + nat option" where
  "demo_work item = (if item = 2 then Inr None else Inr (Some (10 * item)))"

definition demo_pool :: "(nat, nat) pool" where
  "demo_pool = settle_runner demo_work [1, 2, 3] 0 1 (settle_runner demo_work [1, 2, 3] 1 3 (settle_runner demo_work [1, 2, 3] 1 2 (pool_start 2 [1, 2, 3])))"

lemma demo_pool_steps: "(pool_step demo_work [1, 2, 3] ^^ 3) (pool_start 2 [1, 2, 3]) demo_pool"
proof -
  let ?s0 = "pool_start 2 [1, 2, 3] :: (nat, nat) pool"
  let ?s1 = "settle_runner demo_work [1, 2, 3] 1 2 ?s0"
  let ?s2 = "settle_runner demo_work [1, 2, 3] 1 3 ?s1"
  have "pool_step demo_work [1, 2, 3] ?s0 ?s1" by (rule pool_step.settles) code_simp+
  moreover have "pool_step demo_work [1, 2, 3] ?s1 ?s2" by (rule pool_step.settles) code_simp+
  moreover have "pool_step demo_work [1, 2, 3] ?s2 demo_pool" unfolding demo_pool_def by (rule pool_step.settles) code_simp+
  ultimately show ?thesis by (auto simp: numeral_3_eq_3 OO_def)
qed

lemma reading_pool_complete_witness: "po_results demo_pool = [30, 10] \<and> mset (po_results demo_pool) = mset (gives demo_work [1, 2, 3])"
proof
  show "po_results demo_pool = [30, 10]" by code_simp
  have "pool_resolved demo_pool" by code_simp
  then show "mset (po_results demo_pool) = mset (gives demo_work [1, 2, 3])"
    using reading_pool_complete [OF _ demo_pool_steps] by simp
qed

end
