(* ===== verification/RunSurface_Facts.thy ===== *)
theory RunSurface_Facts
  imports RunSurface InstanceStates_Facts GraphAuthoring
begin

section \<open>What the run surface shows is what is stored\<close>

text \<open>
  The surface reads a result again only when its fingerprint has moved. The lemmas show that this loses
  nothing while refreshes do not overlap: what the surface holds under a fingerprint is the result stored
  under it, so after a refresh every card carries the outputs of the instance's last result and the
  overlay of its state. The examples at the end show what happens when they do overlap, and when two
  starts do.
\<close>

subsection \<open>Maps of a publication\<close>

lemma find_SomeD: "find P xs = Some x \<Longrightarrow> x \<in> set xs \<and> P x"
  by (induction xs) (auto split: if_splits)

lemma find_absent: "k \<notin> f ` set xs \<Longrightarrow> find (\<lambda>x. f x = k) xs = None"
  by (induction xs) auto

lemma obj_set_distinct: "distinct (map fst obj) \<Longrightarrow> distinct (map fst (obj_set k v obj))"
  by (simp add: obj_set_def distinct_update)

lemma published_fingerprints_lookup:
  "distinct (map fst byNodeId) \<Longrightarrow> published_fingerprints byNodeId loaded n =
     (case map_of byNodeId n of
        None \<Rightarrow> loaded n
      | Some instance' \<Rightarrow> if truthy_text (is_last_result_fingerprint instance') then is_last_result_fingerprint instance' else None)"
proof (induction byNodeId arbitrary: loaded)
  case (Cons entry rest)
  obtain k i where entry: "entry = (k, i)" by fastforce
  let ?loaded = "if truthy_text (is_last_result_fingerprint i) then loaded(k := is_last_result_fingerprint i) else loaded(k := None)"
  have "published_fingerprints (entry # rest) loaded = published_fingerprints rest ?loaded"
    by (simp add: published_fingerprints_def entry)
  moreover have "map_of rest k = None" using Cons.prems entry by (metis distinct.simps(2) fst_conv list.simps(9) map_of_eq_None_iff list.set_map)
  ultimately show ?case using Cons.IH [of ?loaded] Cons.prems entry by (auto split: option.split)
qed (simp add: published_fingerprints_def)

lemma published_results_lookup:
  "distinct (map rr_node_id read) \<Longrightarrow> published_results read results n =
     (case find (\<lambda>result. rr_node_id result = n) read of Some result \<Rightarrow> Some result | None \<Rightarrow> results n)"
proof (induction read arbitrary: results)
  case (Cons r read)
  have "published_results (r # read) results = published_results read (results(rr_node_id r \<mapsto> r))"
    by (simp add: published_results_def)
  moreover have "find (\<lambda>result. rr_node_id result = rr_node_id r) read = None" using Cons.prems by (simp add: find_absent)
  ultimately show ?case using Cons.IH [of "results(rr_node_id r \<mapsto> r)"] Cons.prems by (auto simp: fun_upd_def split: option.splits)
qed (simp add: published_results_def)

lemma obj_set_fold_lookup:
  "distinct (map key xs) \<Longrightarrow> distinct (map fst acc) \<Longrightarrow>
     distinct (map fst (foldl (\<lambda>obj x. obj_set (key x) x obj) acc xs))
     \<and> map_of (foldl (\<lambda>obj x. obj_set (key x) x obj) acc xs) n = (case find (\<lambda>x. key x = n) xs of Some x \<Rightarrow> Some x | None \<Rightarrow> map_of acc n)"
proof (induction xs arbitrary: acc)
  case (Cons x xs)
  have "find (\<lambda>y. key y = key x) xs = None" using Cons.prems by (simp add: find_absent)
  with Cons.IH [of "obj_set (key x) x acc"] Cons.prems show ?case
    by (auto simp: obj_set_distinct obj_set_get split: option.split)
qed simp

lemma byNodeId_lookup:
  assumes "distinct (map ik_node_id (filter isRootInstance instances))"
  shows "distinct (map fst (instanceStateByNodeId instances))
    \<and> map_of (instanceStateByNodeId instances) n = find (\<lambda>i. isRootInstance i \<and> ik_node_id i = n) instances"
proof -
  have fold: "foldl (\<lambda>byNodeId i. if isRootInstance i then obj_set (ik_node_id i) i byNodeId else byNodeId) acc is'
      = foldl (\<lambda>byNodeId i. obj_set (ik_node_id i) i byNodeId) acc (filter isRootInstance is')" for acc is'
    by (induction is' arbitrary: acc) auto
  have "find (\<lambda>i. ik_node_id i = n) (filter isRootInstance instances) = find (\<lambda>i. isRootInstance i \<and> ik_node_id i = n) instances"
    by (induction instances) auto
  with obj_set_fold_lookup [OF assms, of "[]" n] show ?thesis by (simp add: instanceStateByNodeId_def fold split: option.split_asm)
qed

subsection \<open>Refreshes that do not overlap\<close>

text \<open>
  What the two endpoints promise: an instance is listed once, a listed fingerprint is not empty, and reading
  the result of a listed instance gives the outputs stored for its node under the fingerprint it last
  produced. A result once stored under a fingerprint does not change.
\<close>

definition server_reads ::
    "(string \<Rightarrow> string \<Rightarrow> js_object option) \<Rightarrow> instance_state list \<Rightarrow> (instance_state \<Rightarrow> string + instance_result) \<Rightarrow> bool" where
  "server_reads store instances getInstanceResult \<longleftrightarrow>
     distinct (map ik_node_id (filter isRootInstance instances))
     \<and> (\<forall>i\<in>set instances. \<forall>f. is_last_result_fingerprint i = Some f \<longrightarrow> f \<noteq> []
          \<and> (\<exists>result. getInstanceResult i = Inr result \<and> ik_node_id (ir_instance result) = ik_node_id i
                \<and> ir_result_fingerprint result = Some f \<and> ir_outputs result = store (ik_node_id i) f))"

definition holds_stored :: "(string \<Rightarrow> string \<Rightarrow> js_object option) \<Rightarrow> string \<Rightarrow> string \<Rightarrow> run_node_result option \<Rightarrow> bool" where
  "holds_stored store n f result \<longleftrightarrow>
     (\<exists>r. result = Some r \<and> rr_outputs r = runPortOutputs (store n f) \<and> rr_result_fingerprint r = Some f)"

definition surface_inv :: "(string \<Rightarrow> string \<Rightarrow> js_object option) \<Rightarrow> run_surface \<Rightarrow> bool" where
  "surface_inv store s \<longleftrightarrow> (\<forall>n f. sf_loaded s n = Some f \<longrightarrow> holds_stored store n f (sf_results s n))"

text \<open>One refresh whose request is made and answered in the same state.\<close>

inductive refreshed ::
    "(string \<Rightarrow> string \<Rightarrow> js_object option) \<Rightarrow> instance_state list \<Rightarrow> run_surface \<Rightarrow> run_surface \<Rightarrow> bool"
  for store instances where
  refreshed: "server_reads store instances getInstanceResult \<Longrightarrow> sf_mounted s \<Longrightarrow> publish_start s (sf_activeGraph s) None = Some rq
    \<Longrightarrow> snapshot_loaded getInstanceResult instances None (Some (pq_loaded rq)) snapshot
    \<Longrightarrow> refreshed store instances s (publish_finish s rq (Inr snapshot))"

lemma gives_distinct:
  assumes "\<And>x r. x \<in> set xs \<Longrightarrow> work x = Inr (Some r) \<Longrightarrow> h r = k x" and "distinct (map k xs)"
  shows "distinct (map h (gives work xs))"
proof -
  have "h ` set (gives work xs) \<subseteq> k ` set xs" if "\<And>x r. x \<in> set xs \<Longrightarrow> work x = Inr (Some r) \<Longrightarrow> h r = k x" for xs
    using that by (force simp: gives_def split: sum.splits option.splits)
  with assms show ?thesis
  proof (induction xs)
    case (Cons x xs)
    from Cons.prems(3) [of xs] Cons.prems(1) have "h ` set (gives work xs) \<subseteq> k ` set xs" by simp
    moreover have "distinct (map h (gives work xs))" using Cons by simp
    moreover have "gives work [x] = [] \<or> (\<exists>r. gives work [x] = [r] \<and> h r = k x)"
      using Cons.prems(1) [of x] by (auto simp: gives_def split: sum.splits option.splits)
    ultimately show ?case using Cons.prems(2) gives_Cons [of work x xs] by auto
  qed simp
qed

lemma snapshot_results:
  assumes "snapshot_loaded getInstanceResult instances onlyNodeIds loaded snapshot"
  shows "sn_instances snapshot = instances \<and> mset (sn_results snapshot) =
    mset (gives (\<lambda>i. map_sum id runNodeResultFromInstance (getInstanceResult i)) (filter (wanted_instance onlyNodeIds loaded) instances))"
  using assms
proof cases
  case (loaded s)
  have "0 < INSTANCE_RESULT_CONCURRENCY" by (simp add: INSTANCE_RESULT_CONCURRENCY_def)
  from pool_resolved_complete [OF this loaded(2,3)] show ?thesis by (simp add: loaded(1))
qed

lemma refreshed_lookup:
  assumes "server_reads store instances getInstanceResult"
    and "snapshot_loaded getInstanceResult instances None (Some loaded) snapshot"
  shows "distinct (map rr_node_id (sn_results snapshot))
    \<and> (case find (\<lambda>result. rr_node_id result = n) (sn_results snapshot) of
         Some r \<Rightarrow> \<exists>i f. find (\<lambda>i. isRootInstance i \<and> ik_node_id i = n) instances = Some i \<and> is_last_result_fingerprint i = Some f
           \<and> holds_stored store n f (Some r)
       | None \<Rightarrow> \<forall>i f. find (\<lambda>i. isRootInstance i \<and> ik_node_id i = n) instances = Some i \<longrightarrow> is_last_result_fingerprint i = Some f \<longrightarrow> loaded n = Some f)"
proof -
  let ?wanted = "filter (wanted_instance None (Some loaded)) instances"
  let ?work = "\<lambda>i. map_sum id runNodeResultFromInstance (getInstanceResult i)"
  note results = snapshot_results [OF assms(2)]
  have reads: "\<exists>r. ?work i = Inr (Some r) \<and> rr_node_id r = ik_node_id i \<and> holds_stored store (ik_node_id i) f (Some r)"
    if "i \<in> set instances" "is_last_result_fingerprint i = Some f" for i f
  proof -
    from assms(1) that obtain result where "getInstanceResult i = Inr result" "ik_node_id (ir_instance result) = ik_node_id i"
      "ir_result_fingerprint result = Some f" "ir_outputs result = store (ik_node_id i) f" "f \<noteq> []"
      unfolding server_reads_def by blast
    then show ?thesis by (simp add: runNodeResultFromInstance_def truthy_text_def holds_stored_def Let_def)
  qed
  have same: "i = j" if "i \<in> set instances" "j \<in> set instances" "isRootInstance i" "isRootInstance j" "ik_node_id i = ik_node_id j" for i j
    using assms(1) that by (auto simp: server_reads_def distinct_map inj_on_def)
  have found: "find (\<lambda>i. isRootInstance i \<and> ik_node_id i = n) instances = Some i" if "i \<in> set instances" "isRootInstance i" "ik_node_id i = n" for i
  proof -
    have "find (\<lambda>i. isRootInstance i \<and> ik_node_id i = n) instances \<noteq> None" using that unfolding find_None_iff by blast
    then obtain j where "find (\<lambda>i. isRootInstance i \<and> ik_node_id i = n) instances = Some j" by blast
    moreover from this have "j \<in> set instances" "isRootInstance j" "ik_node_id j = n" by (auto dest: find_SomeD)
    ultimately show ?thesis using same that by blast
  qed
  have each: "\<exists>i f. i \<in> set ?wanted \<and> is_last_result_fingerprint i = Some f \<and> ?work i = Inr (Some r)" if "r \<in> set (sn_results snapshot)" for r
  proof -
    have "r \<in> set (gives ?work ?wanted)" using that mset_eq_setD results by blast
    then obtain i where "i \<in> set ?wanted" "?work i = Inr (Some r)" by (auto simp: gives_def split: sum.splits option.splits)
    then show ?thesis by (auto simp: wanted_instance_def)
  qed
  have "distinct (map rr_node_id (gives ?work ?wanted))"
  proof (rule gives_distinct)
    show "rr_node_id r = ik_node_id i" if "i \<in> set ?wanted" "?work i = Inr (Some r)" for i r
      using that reads [of i] by (fastforce simp: wanted_instance_def)
    have "?wanted = filter (wanted_instance None (Some loaded)) (filter isRootInstance instances)"
      by (induction instances) (auto simp: wanted_instance_def)
    moreover have "distinct (map ik_node_id (filter isRootInstance instances))" using assms(1) by (simp add: server_reads_def)
    note distinct_map_filter [OF this, of "wanted_instance None (Some loaded)"]
    ultimately show "distinct (map ik_node_id ?wanted)" by (simp only:)
  qed
  then have distinct: "distinct (map rr_node_id (sn_results snapshot))" using results by (metis mset_map mset_eq_imp_distinct_iff)
  show ?thesis
  proof (cases "find (\<lambda>result. rr_node_id result = n) (sn_results snapshot)")
    case None
    have "loaded n = Some f" if i: "i \<in> set instances" "isRootInstance i" "ik_node_id i = n" "is_last_result_fingerprint i = Some f" for i f
    proof (rule ccontr)
      assume "loaded n \<noteq> Some f"
      then have wanted: "i \<in> set ?wanted" using i by (simp add: wanted_instance_def)
      from reads [OF i(1,4)] obtain r where "?work i = Inr (Some r)" "rr_node_id r = n" using i(3) by blast
      with wanted have "r \<in> set (gives ?work ?wanted)" by (force simp: gives_def)
      then have "r \<in> set (sn_results snapshot)" using mset_eq_setD results by blast
      with None \<open>rr_node_id r = n\<close> show False by (simp add: find_None_iff)
    qed
    then show ?thesis using distinct None by (auto dest!: find_SomeD)
  next
    case (Some r)
    then have "r \<in> set (sn_results snapshot)" "rr_node_id r = n" by (auto dest: find_SomeD)
    from each [OF this(1)] obtain i f where i: "i \<in> set ?wanted" "is_last_result_fingerprint i = Some f" "?work i = Inr (Some r)" by blast
    with reads [of i f] have "ik_node_id i = n" "holds_stored store n f (Some r)" using \<open>rr_node_id r = n\<close> by auto
    with found [of i] i Some distinct show ?thesis by (auto simp: wanted_instance_def)
  qed
qed

lemma publish_same_state:
  "sf_mounted s \<Longrightarrow> publish_start s (sf_activeGraph s) None = Some rq \<Longrightarrow> still_current s rq \<and> pq_loaded rq = sf_loaded s"
  by (auto simp: publish_start_def still_current_def split: option.splits if_splits)

lemma refresh_keeps_inv:
  assumes "refreshed store instances s t" and "surface_inv store s"
  shows "surface_inv store t
    \<and> (\<forall>n i f. find (\<lambda>i. isRootInstance i \<and> ik_node_id i = n) instances = Some i \<longrightarrow> is_last_result_fingerprint i = Some f
         \<longrightarrow> holds_stored store n f (sf_results t n))
    \<and> sf_nodes t = withInstanceResults (withInstanceStates (sf_nodes s) (instanceStateByNodeId instances)) (sf_results t)"
  using assms(1)
proof cases
  case (refreshed getInstanceResult rq snapshot)
  note current = publish_same_state [OF refreshed(3,4)]
  have snapshot: "snapshot_loaded getInstanceResult instances None (Some (sf_loaded s)) snapshot" using refreshed(5) current by simp
  have once: "distinct (map ik_node_id (filter isRootInstance instances))" using refreshed(2) by (simp add: server_reads_def)
  note lookup = refreshed_lookup [OF refreshed(2) snapshot] and byNode = byNodeId_lookup [OF once]
  have instances: "sn_instances snapshot = instances" using snapshot_results [OF snapshot] by simp
  have t: "sf_results t = published_results (sn_results snapshot) (sf_results s)"
    "sf_loaded t = published_fingerprints (instanceStateByNodeId instances) (sf_loaded s)"
    "sf_nodes t = withInstanceResults (withInstanceStates (sf_nodes s) (instanceStateByNodeId instances)) (sf_results t)"
    using current by (simp_all add: refreshed(1) publish_finish_def Let_def instances)
  have results: "sf_results t n = (case find (\<lambda>result. rr_node_id result = n) (sn_results snapshot) of Some r \<Rightarrow> Some r | None \<Rightarrow> sf_results s n)" for n
    using lookup published_results_lookup t(1) by simp
  have loaded: "sf_loaded t n = (case find (\<lambda>i. isRootInstance i \<and> ik_node_id i = n) instances of None \<Rightarrow> sf_loaded s n
      | Some i \<Rightarrow> if truthy_text (is_last_result_fingerprint i) then is_last_result_fingerprint i else None)" for n
    using byNode published_fingerprints_lookup t(2) by simp
  have listed: "holds_stored store n f (sf_results t n)"
    if "find (\<lambda>i. isRootInstance i \<and> ik_node_id i = n) instances = Some i" "is_last_result_fingerprint i = Some f" for n i f
  proof (cases "find (\<lambda>result. rr_node_id result = n) (sn_results snapshot)")
    case None
    then have "sf_loaded s n = Some f" using conjunct2 [OF lookup [of n]] that by simp
    then show ?thesis using None assms(2) results [of n] by (simp add: surface_inv_def)
  next
    case (Some r)
    then show ?thesis using conjunct2 [OF lookup [of n]] that results [of n] by auto
  qed
  have "holds_stored store n f (sf_results t n)" if "sf_loaded t n = Some f" for n f
  proof (cases "find (\<lambda>i. isRootInstance i \<and> ik_node_id i = n) instances")
    case None
    then have "find (\<lambda>result. rr_node_id result = n) (sn_results snapshot) = None"
      using conjunct2 [OF lookup [of n]] by (cases "find (\<lambda>result. rr_node_id result = n) (sn_results snapshot)") auto
    then show ?thesis using None that loaded [of n] results [of n] assms(2) by (simp add: surface_inv_def)
  next
    case (Some i)
    then show ?thesis using that loaded [of n] listed by (auto split: if_splits)
  qed
  then show ?thesis using listed t(3) by (simp add: surface_inv_def)
qed

text \<open>
  A surface starts, or is opened on another Graph, with nothing loaded. Between refreshes anything may happen that
  leaves the read results alone: edits of the canvas, a run of this tab, a change of the active revision.
\<close>

inductive surface_reachable :: "(string \<Rightarrow> string \<Rightarrow> js_object option) \<Rightarrow> run_surface \<Rightarrow> bool" for store where
  reach_open: "sf_loaded s = Map.empty \<Longrightarrow> surface_reachable store s"
| reach_refresh: "surface_reachable store s \<Longrightarrow> refreshed store instances s t \<Longrightarrow> surface_reachable store t"
| reach_other: "surface_reachable store s \<Longrightarrow> sf_loaded t = sf_loaded s \<Longrightarrow> sf_results t = sf_results s \<Longrightarrow> surface_reachable store t"

lemma other_operations_keep_reads:
  "sf_loaded (runWorkflow_start ctx s scope) = sf_loaded s \<and> sf_results (runWorkflow_start ctx s scope) = sf_results s"
  "sf_loaded (runWorkflow_finish s scope answer) = sf_loaded s \<and> sf_results (runWorkflow_finish s scope answer) = sf_results s"
  "sf_loaded (fst (settleOwnRun_finish s pending read)) = sf_loaded s \<and> sf_results (fst (settleOwnRun_finish s pending read)) = sf_results s"
  "sf_loaded (settleOwnRun_announce s ended) = sf_loaded s \<and> sf_results (settleOwnRun_announce s ended) = sf_results s"
  "sf_loaded (cancelCurrentRun_finish s answer) = sf_loaded s \<and> sf_results (cancelCurrentRun_finish s answer) = sf_results s"
  "sf_loaded (refreshActiveRuns_finish s runs) = sf_loaded s \<and> sf_results (refreshActiveRuns_finish s runs) = sf_results s"
  "sf_loaded (publish_finish s rq (Inl message)) = sf_loaded s \<and> sf_results (publish_finish s rq (Inl message)) = sf_results s"
  "sf_loaded (open_surface s) = Map.empty"
  by (simp_all add: runWorkflow_start_def runWorkflow_finish_def settleOwnRun_finish_def settleOwnRun_announce_def
      cancelCurrentRun_finish_def refreshActiveRuns_finish_def publish_finish_def open_surface_def
      split: run_decision.split sum.split option.split prod.split)

lemma surface_reachable_inv: "surface_reachable store s \<Longrightarrow> surface_inv store s"
proof (induction rule: surface_reachable.induct)
  case (reach_refresh s instances t)
  then show ?case using refresh_keeps_inv by blast
qed (simp_all add: surface_inv_def)

lemma with_instance_simps [simp]:
  "wn_id (with_instance_state states node) = wn_id node"
  "wn_id (with_instance_result results node) = wn_id node"
  "wd_execution (wn_data (with_instance_result results node)) = wd_execution (wn_data node)"
  by (simp_all add: with_instance_state_def with_instance_result_def Let_def split: option.split)

lemma with_instance_state_status:
  "map_of states (wn_id node) = Some i \<Longrightarrow> ex_status (wd_execution (wn_data (with_instance_state states node))) = overlayStatusForInstance (is_state i)"
  by (simp add: with_instance_state_def Let_def)

lemma with_instance_result_run:
  "results (wn_id node) = Some r \<Longrightarrow> wd_run (wn_data (with_instance_result results node)) = Some r"
  by (simp add: with_instance_result_def)


subsection \<open>A concrete refresh\<close>

definition demo_instance :: "instance_state_name \<Rightarrow> string \<Rightarrow> string option \<Rightarrow> instance_state" where
  "demo_instance state f err =
     \<lparr>ik_project_id = ''p'', ik_graph_id = ''g'', ik_call_path = [], ik_node_id = ''show'', ik_map_index = None,
      is_state = state, is_fingerprint = f, is_last_result_fingerprint = Some f, is_error = err\<rparr>"

definition demo_store :: "string \<Rightarrow> string \<Rightarrow> js_object option" where
  "demo_store n f = Some [(''out'', JObject [(''artifact_id'', JString f), (''artifact_type'', JString ''text'')])]"

definition demo_read :: "instance_state \<Rightarrow> string + instance_result" where
  "demo_read i = Inr \<lparr>ir_instance = i, ir_result_fingerprint = is_last_result_fingerprint i,
     ir_outputs = Option.bind (is_last_result_fingerprint i) (demo_store (ik_node_id i)), ir_created_at = None\<rparr>"

definition demo_graph :: active_saved_graph where
  "demo_graph = \<lparr>ag_id = ''s'', ag_graphId = ''g'', ag_revision = 4, ag_nodes = []\<rparr>"

definition demo_surface :: run_surface where
  "demo_surface =
     \<lparr>sf_mounted = True, sf_projectId = Some ''p'', sf_activeGraph = Some demo_graph, sf_fingerprint = ''x'', sf_generation = 1,
      sf_ownRun = None, sf_ownRunStatus = None, sf_startedFingerprint = [], sf_loaded = Map.empty, sf_results = Map.empty,
      sf_states = Map.empty, sf_activeRuns = [], sf_nodes = [demo_canvas_node ''show'' (demo_spec ''table.show'' [] []) []],
      sf_runError = None, sf_announcement = []\<rparr>"

definition demo_request :: publish_request where
  "demo_request = \<lparr>pq_graph = demo_graph, pq_generation = 1, pq_loaded = Map.empty, pq_onlyNodeIds = None\<rparr>"

definition demo_result :: "instance_state_name \<Rightarrow> string \<Rightarrow> run_node_result" where
  "demo_result state f = the (runNodeResultFromInstance (projr (demo_read (demo_instance state f None))))"

definition demo_snapshot :: "instance_state_name \<Rightarrow> string \<Rightarrow> instance_snapshot" where
  "demo_snapshot state f = \<lparr>sn_instances = [demo_instance state f None], sn_results = [demo_result state f]\<rparr>"

lemma demo_result_some: "f \<noteq> [] \<Longrightarrow> map_sum id runNodeResultFromInstance (demo_read (demo_instance state f None)) = Inr (Some (demo_result state f))"
  by (simp add: demo_result_def demo_read_def demo_instance_def runNodeResultFromInstance_def truthy_text_def Let_def)

lemma demo_snapshot_loaded:
  assumes "f \<noteq> []" and "loaded ''show'' \<noteq> Some f"
  shows "snapshot_loaded demo_read [demo_instance state f None] None (Some loaded) (demo_snapshot state f)"
proof -
  let ?i = "demo_instance state f None"
  let ?work = "\<lambda>i. map_sum id runNodeResultFromInstance (demo_read i)"
  have wanted: "filter (wanted_instance None (Some loaded)) [?i] = [?i]"
    using assms(2) by (simp add: wanted_instance_def demo_instance_def isRootInstance_def)
  let ?s = "pool_start INSTANCE_RESULT_CONCURRENCY [?i] :: (instance_state, run_node_result) pool"
  have start: "?s = \<lparr>po_next = 1, po_runners = [Working ?i], po_results = []\<rparr>"
    by (simp add: pool_start_def INSTANCE_RESULT_CONCURRENCY_def next_turn_def)
  have "pool_step ?work [?i] ?s (settle_runner ?work [?i] 0 ?i ?s)" by (rule pool_step.settles) (simp_all add: start)
  moreover have "settle_runner ?work [?i] 0 ?i ?s = \<lparr>po_next = 1, po_runners = [Left], po_results = [demo_result state f]\<rparr>"
    by (simp add: settle_runner_def demo_result_some [OF assms(1)] start next_turn_def)
  ultimately have "(pool_step ?work [?i])\<^sup>*\<^sup>* ?s \<lparr>po_next = 1, po_runners = [Left], po_results = [demo_result state f]\<rparr>" by auto
  from snapshot_loaded.loaded [where getInstanceResult = demo_read and instances = "[?i]" and onlyNodeIds = None and loadedFingerprints = "Some loaded",
      unfolded wanted, OF this]
  show ?thesis by (simp add: pool_resolved_def demo_snapshot_def)
qed

lemma demo_server: "f \<noteq> [] \<Longrightarrow> server_reads demo_store [demo_instance state f None] demo_read"
  by (simp add: server_reads_def demo_instance_def demo_read_def isRootInstance_def)

lemma demo_refreshed:
  "refreshed demo_store [demo_instance instance_state_name.Fresh ''f1'' None] demo_surface
     (publish_finish demo_surface demo_request (Inr (demo_snapshot instance_state_name.Fresh ''f1'')))"
  by (rule refreshed.refreshed [OF demo_server _ _ demo_snapshot_loaded])
     (simp_all add: demo_surface_def demo_request_def publish_start_def truthy_text_def)


subsection \<open>What overlapping reads and starts do\<close>

text \<open>
  Two refreshes that start from the same state: the first is answered with an older result, the second with a
  newer one and earlier. The surface then holds the older state, fingerprint and outputs until the
  next refresh.
\<close>

lemma late_answer_shows_older_result:
  "let newer = publish_finish demo_surface demo_request (Inr (demo_snapshot instance_state_name.Fresh ''f2''));
       after = publish_finish newer demo_request (Inr (demo_snapshot instance_state_name.Stale ''f1''))
   in sf_loaded newer ''show'' = Some ''f2'' \<and> sf_loaded after ''show'' = Some ''f1''
      \<and> sf_results after ''show'' = Some (demo_result instance_state_name.Stale ''f1'')"
  by code_simp

text \<open>
  A result is keyed by its fingerprint alone, so an instance that fails while it keeps its last result is not
  read again: its card goes on holding the result of the run that succeeded.
\<close>

lemma failure_is_not_read_again:
  "\<not> wanted_instance None (Some (\<lambda>n. Some f)) (demo_instance instance_state_name.Failed f err)"
  by (simp add: wanted_instance_def demo_instance_def)

text \<open>The error of a failure that follows a failure is not shown: the overlay has not changed.\<close>

lemma second_failure_keeps_first_error:
  assumes "ex_status (wd_execution (wn_data node)) = node_execution_status.Failed"
    and "map_of states (wn_id node) = Some i" and "is_state i = instance_state_name.Failed"
  shows "with_instance_state states node = node"
  using assms by (simp add: with_instance_state_def)

text \<open>
  The guard against a second run reads the ref that only the answer to the start sets: a second start made
  while the first is being answered is requested too, and the first run is then no longer the tab's own.
\<close>

lemma runWorkflow_start_keeps:
  "runWorkflow_decision ctx s scope = RequestRun targets \<Longrightarrow> runWorkflow_decision ctx (runWorkflow_start ctx s scope) scope = RequestRun targets"
proof -
  assume request: "runWorkflow_decision ctx s scope = RequestRun targets"
  have "runWorkflow_decision ctx (s\<lparr>sf_runError := None, sf_announcement := []\<rparr>) scope = runWorkflow_decision ctx s scope"
    by (simp add: runWorkflow_decision_def cong: bool.case_cong option.case_cong)
  then show ?thesis using request by (simp add: runWorkflow_start_def)
qed

lemma second_start_forgets_first_run:
  assumes "runWorkflow_decision ctx s scope = RequestRun targets" and "sf_mounted s" and "rn_id first \<noteq> rn_id second"
  shows "runWorkflow_decision ctx (runWorkflow_start ctx s scope) scope = RequestRun targets
    \<and> cancelCurrentRun_start (runWorkflow_finish (runWorkflow_finish (runWorkflow_start ctx (runWorkflow_start ctx s scope) scope)
          scope (Inr first)) scope (Inr second)) \<noteq> Some (rn_id first)"
proof
  note again = runWorkflow_start_keeps [OF assms(1)]
  show "runWorkflow_decision ctx (runWorkflow_start ctx s scope) scope = RequestRun targets" by (fact again)
  have "sf_mounted (runWorkflow_start ctx (runWorkflow_start ctx s scope) scope)"
    using assms(1,2) again by (simp add: runWorkflow_start_def)
  then show "cancelCurrentRun_start (runWorkflow_finish (runWorkflow_finish (runWorkflow_start ctx (runWorkflow_start ctx s scope) scope)
          scope (Inr first)) scope (Inr second)) \<noteq> Some (rn_id first)"
    using assms(3) by (auto simp: cancelCurrentRun_start_def settleOwnRun_start_def runWorkflow_finish_def)
qed

subsection \<open>A requested run is ready\<close>

lemma first_changed_None:
  "first_changed_binding savedNodes backed = None \<longleftrightarrow>
     (\<forall>(node, inputs)\<in>set backed. \<forall>input\<in>set inputs.
        nodeSecretBindingReady input node (find (\<lambda>candidate. n_id candidate = wn_id node) savedNodes))"
  by (induction backed) (auto simp: changed_binding_def find_None_iff split: option.splits dest: find_SomeD)

lemma secret_backed_iff:
  "(node, inputs) \<in> set (secret_backed nodes) \<longleftrightarrow> node \<in> set nodes \<and> inputs = nodeSecretInputs (wd_spec (wn_data node)) \<and> inputs \<noteq> []"
  by (auto simp: secret_backed_def)

text \<open>
  C35: A run is only ever requested when the registry is available, this tab has no run of its own, a saved
  Graph is open in a Project, the checks of the execution plan pass for the nodes of the scope, and every secret input of those
  nodes is configured and bound exactly as the saved Graph has it, which must then be runnable; the run asks for
  exactly the nodes of the scope.
\<close>

theorem requested_run_is_ready:
  assumes "runWorkflow_decision ctx s scope = RequestRun targets"
  shows "rc_registryAvailable ctx \<and> sf_ownRun s = None
    \<and> (\<exists>activeGraph. sf_activeGraph s = Some activeGraph \<and> truthy_text (sf_projectId s)
        \<and> executionValidationIssue (rc_number ctx) (rc_platform ctx) scope
            (es_nodes (executionSubgraphFor scope (sf_nodes s) (rc_edges ctx)))
            (es_edges (executionSubgraphFor scope (sf_nodes s) (rc_edges ctx))) (rc_origins ctx) = None
        \<and> (\<forall>node\<in>set (es_nodes (executionSubgraphFor scope (sf_nodes s) (rc_edges ctx))).
             \<forall>input\<in>set (nodeSecretInputs (wd_spec (wn_data node))).
               rc_canRunSavedGraph ctx
               \<and> nodeSecretBindingReady input node (find (\<lambda>candidate. n_id candidate = wn_id node) (ag_nodes activeGraph))
               \<and> rc_secretStatuses ctx (wn_id node) (si_name input) = Some Configured))
    \<and> targets = map (\<lambda>node. \<lparr>rt_node_id = wn_id node, rt_call_path = []\<rparr>)
        (es_nodes (executionSubgraphFor scope (sf_nodes s) (rc_edges ctx)))"
proof -
  let ?execution = "executionSubgraphFor scope (sf_nodes s) (rc_edges ctx)"
  let ?backed = "secret_backed (es_nodes ?execution)"
  from assms obtain activeGraph where graph: "rc_registryAvailable ctx" "sf_ownRun s = None" "truthy_text (sf_projectId s)"
      "sf_activeGraph s = Some activeGraph"
    and valid: "executionValidationIssue (rc_number ctx) (rc_platform ctx) scope (es_nodes ?execution) (es_edges ?execution) (rc_origins ctx) = None"
    and saved: "?backed \<noteq> [] \<longrightarrow> rc_canRunSavedGraph ctx"
    and bound: "first_changed_binding (ag_nodes activeGraph) ?backed = None"
    and ready: "find (secret_missing (rc_secretStatuses ctx)) ?backed = None"
    and targets: "targets = runTargetsFor ?execution"
    by (auto simp: runWorkflow_decision_def Let_def split: if_splits option.splits bool.splits)
  have "rc_canRunSavedGraph ctx \<and> nodeSecretBindingReady input node (find (\<lambda>candidate. n_id candidate = wn_id node) (ag_nodes activeGraph))
      \<and> rc_secretStatuses ctx (wn_id node) (si_name input) = Some Configured"
    if "node \<in> set (es_nodes ?execution)" "input \<in> set (nodeSecretInputs (wd_spec (wn_data node)))" for node input
  proof -
    have backed: "(node, nodeSecretInputs (wd_spec (wn_data node))) \<in> set ?backed" using that by (auto simp: secret_backed_iff)
    then have "rc_canRunSavedGraph ctx" using saved by (metis empty_iff list.set(1))
    moreover have "nodeSecretBindingReady input node (find (\<lambda>candidate. n_id candidate = wn_id node) (ag_nodes activeGraph))"
      using bound backed that(2) unfolding first_changed_None by blast
    moreover have "\<not> secret_missing (rc_secretStatuses ctx) (node, nodeSecretInputs (wd_spec (wn_data node)))"
      using ready backed unfolding find_None_iff by blast
    ultimately show ?thesis using that(2) by (auto simp: secret_missing_def list_ex_iff)
  qed
  with graph valid targets show ?thesis by (auto simp: runTargetsFor_def)
qed

definition demo_context :: run_context where
  "demo_context =
     \<lparr>rc_registryAvailable = True, rc_edges = [], rc_origins = [], rc_canRunSavedGraph = True, rc_secretStatuses = (\<lambda>_ _. None),
      rc_number = (\<lambda>_. NaN), rc_platform = demo_schema_platform\<rparr>"

lemma requested_run_is_ready_witness:
  "runWorkflow_decision demo_context demo_surface ScopeAll = RequestRun [\<lparr>rt_node_id = ''show'', rt_call_path = []\<rparr>]
   \<and> sf_ownRun demo_surface = None"
proof -
  have "runWorkflow_decision demo_context demo_surface ScopeAll = RequestRun [\<lparr>rt_node_id = ''show'', rt_call_path = []\<rparr>]"
    by code_simp
  with requested_run_is_ready [OF this] show ?thesis by blast
qed

end
