(* ===== verification/GraphLifecycle.thy ===== *)
theory GraphLifecycle
  imports RunSurface SavedGraph ArtifactViewers
begin

section \<open>Saving, opening and deleting a graph\<close>

text \<open>
  The fingerprints of \<^verbatim>\<open>canvas/saved-graph.ts\<close>, the unsaved-work policy of \<^verbatim>\<open>ui/saved-graph-dirtiness.ts\<close> and the
  hook \<^verbatim>\<open>ui/useSavedGraphLifecycle.ts\<close> as operations on one state that holds its refs and states together with the
  document and the cards of the canvas. As in \<open>RunSurface\<close> an asynchronous operation is split at its
  awaits, and what an operation tells other parts of the workbench is a list of effects. A fingerprint is the
  value whose JSON text the code compares: \<open>json_norm\<close> of a value is the same exactly when the text is. Nodes and
  cards have a fixed set of members, so only their free-form members, the configuration and the reference of an
  artifact, need the recursive normal form; coordinates are taken as finite, since JSON writes every other number as null.
\<close>

subsection \<open>Fingerprints\<close>

fun sortedRecord :: "locale_compare \<Rightarrow> json \<Rightarrow> json" where
  "sortedRecord compare (JArray items') = JArray (map (sortedRecord compare) items')"
| "sortedRecord compare (JObject obj) =
     JObject (filter (\<lambda>(k, v). v \<noteq> JUndefined) (js_sort (\<lambda>l r. compare (fst l) (fst r))
       (map (\<lambda>(k, v). (k, sortedRecord compare v)) obj)))"
| "sortedRecord compare v = v"

definition stringified :: "locale_compare \<Rightarrow> json \<Rightarrow> json" where
  "stringified compare value = json_norm (sortedRecord compare value)"

definition sorted_by :: "locale_compare \<Rightarrow> ('a \<Rightarrow> string) \<Rightarrow> 'a list \<Rightarrow> 'a list" where
  "sorted_by compare key xs = js_sort (\<lambda>left right. compare (key left) (key right)) xs"

definition fingerprint_node :: "locale_compare \<Rightarrow> saved_graph_node \<Rightarrow> saved_graph_node" where
  "fingerprint_node compare node =
     node\<lparr>n_config := (case n_config node of
       Defined config \<Rightarrow> (case stringified compare (JObject config) of JObject entries' \<Rightarrow> Defined entries' | _ \<Rightarrow> Undefined)
     | other \<Rightarrow> other)\<rparr>"

definition fingerprint_viewer :: "locale_compare \<Rightarrow> presentation_viewer \<Rightarrow> presentation_viewer" where
  "fingerprint_viewer compare viewer = viewer\<lparr>v_artifact_ref := stringified compare (v_artifact_ref viewer)\<rparr>"

record graph_fingerprint =
  fp_name :: string
  fp_schema_version :: int
  fp_nodes :: "saved_graph_node list"
  fp_edges :: "saved_graph_edge list"
  fp_presentation :: "graph_presentation option"

definition savedGraphExecutionFingerprint :: "locale_compare \<Rightarrow> graph_draft \<Rightarrow> graph_fingerprint" where
  "savedGraphExecutionFingerprint compare graph =
     \<lparr>fp_name = gd_name graph, fp_schema_version = sd_schema_version (gd_document graph),
      fp_nodes = map (fingerprint_node compare) (sorted_by compare n_id (sd_nodes (gd_document graph))),
      fp_edges = sorted_by compare e_id (sd_edges (gd_document graph)), fp_presentation = None\<rparr>"

definition savedGraphFingerprint :: "locale_compare \<Rightarrow> graph_draft \<Rightarrow> graph_fingerprint" where
  "savedGraphFingerprint compare graph =
     (let presentation = nullish_or (sd_presentation (gd_document graph)) emptyGraphPresentation
      in \<lparr>fp_name = gd_name graph, fp_schema_version = sd_schema_version (gd_document graph),
          fp_nodes = map (fingerprint_node compare) (sorted_by compare n_id (sd_nodes (gd_document graph))),
          fp_edges = sorted_by compare e_id (sd_edges (gd_document graph)),
          fp_presentation = Some
            \<lparr>p_viewers = map (fingerprint_viewer compare) (sorted_by compare v_id (p_viewers presentation)),
             p_links = sorted_by compare l_id (p_links presentation),
             p_bindings = sorted_by compare b_id (p_bindings presentation),
             p_annotations = sorted_by compare an_id (p_annotations presentation)\<rparr>\<rparr>)"

subsection \<open>The unsaved-work policy\<close>

definition NEW_GRAPH_NAME :: string where "NEW_GRAPH_NAME = ''Untitled workflow''"

record dirtiness_input =
  di_document :: authored_graph_document
  di_presentation :: graph_presentation
  di_hasActiveGraph :: bool
  di_currentFingerprint :: graph_fingerprint
  di_savedFingerprint :: "graph_fingerprint option"
  di_currentExecutionFingerprint :: graph_fingerprint
  di_savedExecutionFingerprint :: "graph_fingerprint option"
  di_hasUnsyncedRoomEdits :: bool
  di_saving :: bool
  di_openingGraphId :: "string option"
  di_deletingGraphId :: "string option"

record dirtiness =
  dy_hasUnsavedDraft :: bool
  dy_isDirty :: bool
  dy_workAtRisk :: bool
  dy_canMaterializeSavedGraph :: bool
  dy_persistenceOperationBusy :: bool

definition savedGraphDirtiness :: "dirtiness_input \<Rightarrow> dirtiness" where
  "savedGraphDirtiness input =
     (let hasUnsavedDraft = (d_nodes (di_document input) \<noteq> [] \<or> d_edges (di_document input) \<noteq> []
            \<or> p_viewers (di_presentation input) \<noteq> [] \<or> p_links (di_presentation input) \<noteq> [] \<or> p_bindings (di_presentation input) \<noteq> []
            \<or> js_trim (d_name (di_document input)) \<noteq> NEW_GRAPH_NAME)
      in \<lparr>dy_hasUnsavedDraft = hasUnsavedDraft,
          dy_isDirty = (if di_hasActiveGraph input then di_savedFingerprint input \<noteq> Some (di_currentFingerprint input) else hasUnsavedDraft),
          dy_workAtRisk = (if di_hasActiveGraph input then di_hasUnsyncedRoomEdits input else hasUnsavedDraft),
          dy_canMaterializeSavedGraph =
            (di_hasActiveGraph input \<and> di_savedExecutionFingerprint input = Some (di_currentExecutionFingerprint input)),
          dy_persistenceOperationBusy = (di_saving input \<or> truthy_text (di_openingGraphId input) \<or> truthy_text (di_deletingGraphId input))\<rparr>)"

subsection \<open>The graph a head opens\<close>

definition openGraphOf :: "collaborative_head \<Rightarrow> string option \<Rightarrow> saved_graph option" where
  "openGraphOf head preferred =
     (let preferredGraph = (case preferred of None \<Rightarrow> None | Some wanted \<Rightarrow> find (\<lambda>graph. g_id graph = wanted) (h_graphs head))
      in case preferredGraph of
           Some chosen \<Rightarrow> savedGraphFromProjectHead head (g_id chosen)
         | None \<Rightarrow> (case h_graphs head of [] \<Rightarrow> None | chosen # _ \<Rightarrow> savedGraphFromProjectHead head (g_id chosen)))"

definition activeGraphFrom :: "collaborative_head \<Rightarrow> saved_graph \<Rightarrow> active_saved_graph" where
  "activeGraphFrom head graph =
     \<lparr>ag_id = h_project_id head, ag_graphId = sg_id graph, ag_revision = int (h_collaboration_sequence head),
      ag_nodes = sd_nodes (sg_document graph)\<rparr>"

definition documentOfGraph :: "saved_graph \<Rightarrow> authored_graph_document" where
  "documentOfGraph graph =
     \<lparr>d_name = sg_name graph, d_nodes = sd_nodes (sg_document graph), d_edges = sd_edges (sg_document graph),
      d_origins = sd_origins (sg_document graph), d_agents = nullish_or (sd_agents (sg_document graph)) []\<rparr>"

definition presentationOf :: "saved_graph \<Rightarrow> graph_presentation" where
  "presentationOf graph =
     (case sd_presentation (sg_document graph) of
        Defined p \<Rightarrow> \<lparr>p_viewers = p_viewers p, p_links = p_links p, p_bindings = p_bindings p, p_annotations = p_annotations p\<rparr>
      | _ \<Rightarrow> emptyGraphPresentation)"

subsection \<open>State\<close>

record lifecycle =
  lc_mounted :: bool
  lc_document :: authored_graph_document
  lc_viewers :: viewer_canvas_state
  lc_activeGraph :: "active_saved_graph option"
  lc_savedFingerprint :: "graph_fingerprint option"
  lc_savedExecutionFingerprint :: "graph_fingerprint option"
  lc_saving :: bool
  lc_openingGraphId :: "string option"
  lc_deletingGraphId :: "string option"
  lc_persistenceError :: "string option"
  lc_graphBrowserOpen :: bool
  lc_approvedRoute :: "string option"
  lc_openGraphId :: "string option"
  lc_controllers :: nat
  lc_openRequest :: "nat option"
  lc_aborted :: "nat list"
  lc_generation :: nat

record lifecycle_platform =
  lf_compare :: locale_compare
  lf_number :: "string \<Rightarrow> js_number"
  lf_workspaceSlug :: string
  lf_registry :: "node_registry option"

datatype lifecycle_effect =
    ReplaceOverlays "workflow_node list option"
  | ClearSecretStatuses
  | ClearPendingConnectionRoute
  | ClearRunError
  | CloseNodeLibrary
  | RequestCanvasRefit
  | RefreshSecrets active_saved_graph "workflow_node list"
  | RefreshSummaries
  | RefreshRegistry
  | RouterPush string
  | RouterReplace string
  | UpdateDocumentName string

type_synonym lifecycle_result = "lifecycle \<times> lifecycle_effect list"

definition NEW_PROJECT_ROUTE_ID :: string where "NEW_PROJECT_ROUTE_ID = ''new''"

definition workbenchProjectPath :: "string \<Rightarrow> string \<Rightarrow> string" where
  "workbenchProjectPath workspaceSlug projectId =
     ''/workspaces/'' @ encodeURIComponent workspaceSlug @ ''/projects/'' @ encodeURIComponent projectId"

definition lc_presentation :: "lifecycle \<Rightarrow> graph_presentation" where
  "lc_presentation lc = presentationFromArtifactViewers (lc_viewers lc)"

definition currentDraft :: "lifecycle \<Rightarrow> graph_draft" where
  "currentDraft lc = createGraphDraft (lc_document lc) (Defined (lc_presentation lc))"

definition currentFingerprint :: "lifecycle_platform \<Rightarrow> lifecycle \<Rightarrow> graph_fingerprint" where
  "currentFingerprint pf lc = savedGraphFingerprint (lf_compare pf) (currentDraft lc)"

definition lifecycle_dirtiness :: "lifecycle_platform \<Rightarrow> bool \<Rightarrow> lifecycle \<Rightarrow> dirtiness" where
  "lifecycle_dirtiness pf hasUnsyncedRoomEdits lc =
     savedGraphDirtiness
       \<lparr>di_document = lc_document lc, di_presentation = lc_presentation lc, di_hasActiveGraph = (lc_activeGraph lc \<noteq> None),
        di_currentFingerprint = currentFingerprint pf lc, di_savedFingerprint = lc_savedFingerprint lc,
        di_currentExecutionFingerprint = savedGraphExecutionFingerprint (lf_compare pf) (currentDraft lc),
        di_savedExecutionFingerprint = lc_savedExecutionFingerprint lc, di_hasUnsyncedRoomEdits = hasUnsyncedRoomEdits,
        di_saving = lc_saving lc, di_openingGraphId = lc_openingGraphId lc, di_deletingGraphId = lc_deletingGraphId lc\<rparr>"

text \<open>The two callbacks of the workbench that put a document and its cards on the canvas.\<close>

definition replaceDocument :: "authored_graph_document \<Rightarrow> lifecycle \<Rightarrow> lifecycle" where
  "replaceDocument document lc = lc\<lparr>lc_document := authoredGraphDocument (createGraphDraft document Undefined)\<rparr>"

definition replacePresentation :: "graph_presentation \<Rightarrow> lifecycle \<Rightarrow> lifecycle" where
  "replacePresentation presentation lc = lc\<lparr>lc_viewers := artifactViewersFromPresentation (Defined presentation)\<rparr>"

definition rememberSavedDraft :: "lifecycle_platform \<Rightarrow> graph_draft \<Rightarrow> lifecycle \<Rightarrow> lifecycle" where
  "rememberSavedDraft pf draft lc =
     lc\<lparr>lc_savedFingerprint := Some (savedGraphFingerprint (lf_compare pf) draft),
        lc_savedExecutionFingerprint := Some (savedGraphExecutionFingerprint (lf_compare pf) draft)\<rparr>"

definition forgetSavedDraft :: "lifecycle \<Rightarrow> lifecycle" where
  "forgetSavedDraft lc = lc\<lparr>lc_savedFingerprint := None, lc_savedExecutionFingerprint := None\<rparr>"

definition abort_open :: "lifecycle \<Rightarrow> lifecycle" where
  "abort_open lc = (case lc_openRequest lc of Some controller \<Rightarrow> lc\<lparr>lc_aborted := controller # lc_aborted lc\<rparr> | None \<Rightarrow> lc)"

definition next_generation :: "lifecycle \<Rightarrow> lifecycle" where
  "next_generation lc = abort_open (lc\<lparr>lc_generation := lc_generation lc + 1\<rparr>)"

definition blank_document :: authored_graph_document where
  "blank_document = \<lparr>d_name = NEW_GRAPH_NAME, d_nodes = [], d_edges = [], d_origins = [], d_agents = []\<rparr>"

subsection \<open>Leaving the graph on the canvas\<close>

definition showBlankGraph :: "lifecycle \<Rightarrow> lifecycle_result" where
  "showBlankGraph lc =
     ((forgetSavedDraft (replacePresentation emptyGraphPresentation (replaceDocument blank_document (next_generation lc))))
        \<lparr>lc_activeGraph := None, lc_persistenceError := None\<rparr>,
      [ReplaceOverlays (Some []), ClearSecretStatuses, ClearPendingConnectionRoute, ClearRunError, CloseNodeLibrary, RequestCanvasRefit])"

definition requestNewGraph :: "lifecycle_platform \<Rightarrow> string \<Rightarrow> lifecycle \<Rightarrow> lifecycle_result" where
  "requestNewGraph pf pathname lc =
     (let closed = lc\<lparr>lc_graphBrowserOpen := False\<rparr>; path = workbenchProjectPath (lf_workspaceSlug pf) NEW_PROJECT_ROUTE_ID
      in if pathname = path then showBlankGraph closed
         else ((next_generation closed)\<lparr>lc_approvedRoute := Some NEW_PROJECT_ROUTE_ID\<rparr>, [RouterPush path]))"

definition purgeLocalGraphState :: "lifecycle \<Rightarrow> lifecycle_result" where
  "purgeLocalGraphState lc =
     ((replacePresentation emptyGraphPresentation (replaceDocument blank_document
        ((forgetSavedDraft (next_generation lc))\<lparr>lc_activeGraph := None, lc_persistenceError := None, lc_graphBrowserOpen := False\<rparr>))),
      [ClearSecretStatuses, ClearPendingConnectionRoute, ClearRunError, CloseNodeLibrary, ReplaceOverlays (Some [])])"

subsection \<open>A head from the room\<close>

text \<open>With a registry the nodes whose secrets are refreshed are hydrated last, which may throw.\<close>

definition hydration_message :: "hydration_error \<Rightarrow> string" where
  "hydration_message err = (case err of HydrationError message \<Rightarrow> message | PortError message \<Rightarrow> message)"

definition checkpoint_nodes :: "lifecycle_platform \<Rightarrow> workflow_node list \<Rightarrow> authored_graph_document \<Rightarrow> workflow_node list hydration" where
  "checkpoint_nodes pf nodes document =
     (case lf_registry pf of
        None \<Rightarrow> Inr nodes
      | Some registry \<Rightarrow> map_sum id hg_nodes (hydrateAuthoredGraphDocument (lf_number pf) document registry []))"

definition syncFromCollaborativeHead ::
    "lifecycle_platform \<Rightarrow> workflow_node list \<Rightarrow> collaborative_head \<Rightarrow> lifecycle \<Rightarrow> lifecycle_result \<times> string option" where
  "syncFromCollaborativeHead pf nodes head lc =
     (case openGraphOf head (lc_openGraphId lc) of
        None \<Rightarrow> ((lc, []), None)
      | Some openedGraph \<Rightarrow>
          let responseDocument = documentOfGraph openedGraph;
              responsePresentation = presentationOf openedGraph;
              nextActiveGraph = activeGraphFrom head openedGraph;
              headIsCheckpointed = (h_collaboration_sequence head = h_checkpoint_sequence head);
              opened = lc\<lparr>lc_openGraphId := Some (sg_id openedGraph), lc_approvedRoute := Some (h_project_id head)\<rparr>;
              marked = (if headIsCheckpointed
                        then rememberSavedDraft pf (createGraphDraft responseDocument (Defined responsePresentation))
                               (opened\<lparr>lc_activeGraph := Some nextActiveGraph\<rparr>)
                        else forgetSavedDraft opened)
          in (case if headIsCheckpointed then map_sum id Some (checkpoint_nodes pf nodes responseDocument) else Inr None of
                refreshed' \<Rightarrow>
                  ((replacePresentation responsePresentation (replaceDocument responseDocument (marked\<lparr>lc_persistenceError := None\<rparr>)),
                    ReplaceOverlays None # (case refreshed' of Inr (Some cs) \<Rightarrow> [RefreshSecrets nextActiveGraph cs] | _ \<Rightarrow> [])),
                   (case refreshed' of Inl err \<Rightarrow> Some (hydration_message err) | _ \<Rightarrow> None))))"

subsection \<open>Saving\<close>

datatype save_request =
    RoomSave graph_draft string
  | WriteDocument string string graph_draft
  | CreateProject graph_draft

record pending_save =
  ps_request :: save_request
  ps_generation :: nat
  ps_createsGraph :: bool

definition save_unavailable :: string where
  "save_unavailable = ''Graph synchronization is unavailable while the collaboration room connects or reconnects. Your canvas is unchanged; wait for synchronization to finish, then try saving again.''"

text \<open>The room adapter, when there is one, is given by whether it can persist.\<close>

definition saveCurrentGraph_start ::
    "bool \<Rightarrow> bool option \<Rightarrow> string option \<Rightarrow> lifecycle \<Rightarrow> lifecycle \<times> pending_save option" where
  "saveCurrentGraph_start executionRunning roomCanPersist nameOverride lc =
     (if executionRunning \<or> lc_saving lc \<or> truthy_text (lc_openingGraphId lc) \<or> truthy_text (lc_deletingGraphId lc) then (lc, None)
      else
        let named = (case nameOverride of Some name \<Rightarrow> js_trim name | None \<Rightarrow> []);
            submittedDraft = (if named = [] then currentDraft lc else (currentDraft lc)\<lparr>gd_name := named\<rparr>);
            started = lc\<lparr>lc_saving := True, lc_persistenceError := None\<rparr>;
            pending = (\<lambda>request. Some \<lparr>ps_request = request, ps_generation = lc_generation lc, ps_createsGraph = (lc_activeGraph lc = None)\<rparr>)
        in if gd_name submittedDraft = [] then (lc\<lparr>lc_persistenceError := Some ''Enter a graph name before saving.''\<rparr>, None)
           else case (lc_activeGraph lc, roomCanPersist) of
                  (Some activeGraph, Some canPersist) \<Rightarrow>
                    if \<not> canPersist then (lc\<lparr>lc_persistenceError := Some save_unavailable\<rparr>, None)
                    else (started, pending (RoomSave submittedDraft (ag_graphId activeGraph)))
                | (Some activeGraph, None) \<Rightarrow> (started, pending (WriteDocument (ag_id activeGraph) (ag_graphId activeGraph) submittedDraft))
                | (None, _) \<Rightarrow> (started, pending (CreateProject submittedDraft)))"

text \<open>The command a save outside a room submits, against the head it has just read.\<close>

definition writeGraphDocument_commands :: "string \<Rightarrow> graph_draft \<Rightarrow> project_command list" where
  "writeGraphDocument_commands graphId draft =
     [PC_InGraph graphId (RB_ReplaceDocument ((gd_document draft)\<lparr>sd_schema_version := 7\<rparr>))]"

text \<open>The requests of a save outside a room: the document against the head just read, then a checkpoint of what was accepted.\<close>

record command_submission =
  cm_command_id :: string
  cm_observed_sequence :: nat
  cm_room_epoch :: string
  cm_commands :: "project_command list"

definition writeGraphDocument_submission :: "string \<Rightarrow> collaborative_head \<Rightarrow> string \<Rightarrow> graph_draft \<Rightarrow> command_submission" where
  "writeGraphDocument_submission commandId head graphId draft =
     \<lparr>cm_command_id = commandId, cm_observed_sequence = h_collaboration_sequence head, cm_room_epoch = h_room_epoch head,
      cm_commands = writeGraphDocument_commands graphId draft\<rparr>"

record checkpoint_request =
  ck_expected_room_epoch :: string
  ck_expected_sequence :: nat

definition writeGraphDocument_checkpoint :: "collaborative_head \<Rightarrow> nat \<Rightarrow> checkpoint_request" where
  "writeGraphDocument_checkpoint submittedHead acceptedSequence =
     \<lparr>ck_expected_room_epoch = h_room_epoch submittedHead, ck_expected_sequence = acceptedSequence\<rparr>"

record project_creation =
  pj_name :: string
  pj_graph_id :: string
  pj_graph_name :: string

definition createProjectWithGraph_request :: "string \<Rightarrow> graph_draft \<Rightarrow> project_creation" where
  "createProjectWithGraph_request graphId draft = \<lparr>pj_name = gd_name draft, pj_graph_id = graphId, pj_graph_name = gd_name draft\<rparr>"

datatype save_answer =
    Collaborative collaborative_head collaborative_head
  | SavedHead collaborative_head
  | SaveConflict string
  | SaveFailed string

definition finish_saving :: "lifecycle \<Rightarrow> lifecycle" where
  "finish_saving lc = (if lc_mounted lc then lc\<lparr>lc_saving := False\<rparr> else lc)"

definition conflict_text :: "string \<Rightarrow> string" where
  "conflict_text detail =
     ''Save conflict: '' @ detail @ ''. Your canvas is unchanged; refresh the saved graph list before deciding whether to reopen it.''"

definition saved_head_shown :: "lifecycle_platform \<Rightarrow> workflow_node list \<Rightarrow> bool \<Rightarrow> collaborative_head \<Rightarrow> lifecycle \<Rightarrow> lifecycle_result" where
  "saved_head_shown pf nodes createdGraph savedHead lc =
     (case openGraphOf savedHead (lc_openGraphId lc) of
        None \<Rightarrow> (lc, [])
      | Some savedGraph \<Rightarrow>
          let responsePresentation = presentationOf savedGraph;
              nextActiveGraph = activeGraphFrom savedHead savedGraph;
              opened = lc\<lparr>lc_openGraphId := Some (sg_id savedGraph),
                          lc_approvedRoute := (if createdGraph then Some (h_project_id savedHead) else lc_approvedRoute lc),
                          lc_activeGraph := Some nextActiveGraph\<rparr>
          in (replacePresentation responsePresentation
                (rememberSavedDraft pf (createGraphDraft (documentOfGraph savedGraph) (Defined responsePresentation)) opened),
              (if createdGraph then [RouterReplace (workbenchProjectPath (lf_workspaceSlug pf) (h_project_id savedHead))] else [])
              @ [RefreshSecrets nextActiveGraph nodes]))"

text \<open>The checkpoint, then the head of the room when it has gone on; a throw of the first ends the save.\<close>

definition heads_shown ::
    "lifecycle_platform \<Rightarrow> workflow_node list \<Rightarrow> collaborative_head \<Rightarrow> collaborative_head \<Rightarrow> lifecycle \<Rightarrow> lifecycle_result \<times> string option" where
  "heads_shown pf nodes checkpointHead currentHead lc =
     (case syncFromCollaborativeHead pf nodes checkpointHead lc of
        ((synced, effects), failure) \<Rightarrow>
          if failure = None \<and> (h_room_epoch currentHead \<noteq> h_room_epoch checkpointHead
               \<or> h_collaboration_sequence currentHead \<noteq> h_collaboration_sequence checkpointHead)
          then (case syncFromCollaborativeHead pf nodes currentHead synced of
                  ((again, further), failureAgain) \<Rightarrow> ((again, effects @ further), failureAgain))
          else ((synced, effects), failure))"

definition saveCurrentGraph_finish :: "lifecycle_platform \<Rightarrow> workflow_node list \<Rightarrow> pending_save \<Rightarrow> save_answer \<Rightarrow> lifecycle \<Rightarrow> lifecycle_result" where
  "saveCurrentGraph_finish pf nodes pending answer lc =
     (if \<not> lc_mounted lc then (lc, [])
      else let current = (lc_generation lc = ps_generation pending)
      in case answer of
           SaveConflict detail \<Rightarrow> (finish_saving (if current then lc\<lparr>lc_persistenceError := Some (conflict_text detail)\<rparr> else lc), [])
         | SaveFailed message \<Rightarrow> (finish_saving (if current then lc\<lparr>lc_persistenceError := Some message\<rparr> else lc), [])
         | SavedHead head \<Rightarrow>
             if \<not> current then (finish_saving lc, [RefreshSummaries, RefreshRegistry])
             else (case saved_head_shown pf nodes (ps_createsGraph pending) head lc of
                     (shown, effects) \<Rightarrow> (finish_saving shown, RefreshSummaries # RefreshRegistry # effects))
         | Collaborative checkpointHead currentHead \<Rightarrow>
             if \<not> current then (finish_saving lc, [RefreshSummaries, RefreshRegistry])
             else (case heads_shown pf nodes checkpointHead currentHead lc of
                     ((shown, effects), failure) \<Rightarrow>
                       (finish_saving (case failure of Some message \<Rightarrow> shown\<lparr>lc_persistenceError := Some message\<rparr> | None \<Rightarrow> shown),
                        RefreshSummaries # RefreshRegistry # effects)))"

subsection \<open>Opening\<close>

text \<open>Opening from the graph browser only routes; the route brings the load.\<close>

definition openSavedGraph_route :: "lifecycle_platform \<Rightarrow> string option \<Rightarrow> string \<Rightarrow> lifecycle \<Rightarrow> lifecycle_result" where
  "openSavedGraph_route pf navigationError graphId lc =
     (if lf_registry pf = None
      then (lc\<lparr>lc_persistenceError := Some ''The live node registry must load before a graph can open.''\<rparr>, [])
      else
        let closed = lc\<lparr>lc_graphBrowserOpen := False\<rparr>
        in if map_option ag_id (lc_activeGraph lc) = Some graphId then (closed, [])
           else
             let routed = (next_generation closed)\<lparr>lc_approvedRoute := Some graphId, lc_openingGraphId := Some graphId\<rparr>
             in case navigationError of
                  None \<Rightarrow> (routed, [RouterPush (workbenchProjectPath (lf_workspaceSlug pf) graphId)])
                | Some message \<Rightarrow>
                    (routed\<lparr>lc_approvedRoute := None, lc_openingGraphId := None,
                            lc_persistenceError := Some (''Could not navigate to the graph: '' @ message)\<rparr>, []))"

record pending_open =
  pd_graphId :: string
  pd_fingerprint :: graph_fingerprint
  pd_generation :: nat
  pd_controller :: nat

definition openSavedGraph_start :: "lifecycle_platform \<Rightarrow> string \<Rightarrow> lifecycle \<Rightarrow> lifecycle \<times> pending_open option" where
  "openSavedGraph_start pf graphId lc =
     (if lf_registry pf = None
      then (lc\<lparr>lc_persistenceError := Some ''The live node registry must load before a graph can open.''\<rparr>, None)
      else
        let started = next_generation lc; controller = lc_controllers started
        in (started\<lparr>lc_controllers := Suc controller, lc_openRequest := Some controller, lc_openingGraphId := Some graphId,
                    lc_persistenceError := None\<rparr>,
            Some \<lparr>pd_graphId = graphId, pd_fingerprint = currentFingerprint pf lc, pd_generation = lc_generation started,
                  pd_controller = controller\<rparr>))"

definition open_current :: "pending_open \<Rightarrow> lifecycle \<Rightarrow> bool" where
  "open_current pending lc \<longleftrightarrow>
     pd_controller pending \<notin> set (lc_aborted lc) \<and> lc_mounted lc \<and> lc_generation lc = pd_generation pending"

definition finish_opening :: "pending_open \<Rightarrow> lifecycle \<Rightarrow> lifecycle" where
  "finish_opening pending lc =
     (if lc_openRequest lc = Some (pd_controller pending)
      then lc\<lparr>lc_openRequest := None, lc_openingGraphId := (if lc_mounted lc then None else lc_openingGraphId lc)\<rparr>
      else lc)"

definition open_failed :: "pending_open \<Rightarrow> string \<Rightarrow> lifecycle \<Rightarrow> lifecycle" where
  "open_failed pending message lc =
     finish_opening pending (if open_current pending lc then lc\<lparr>lc_persistenceError := Some message\<rparr> else lc)"

text \<open>The head has been read: the graph whose stored results are to be read next, or the end.\<close>

definition openSavedGraph_head :: "pending_open \<Rightarrow> string + collaborative_head \<Rightarrow> lifecycle \<Rightarrow> lifecycle \<times> saved_graph option" where
  "openSavedGraph_head pending answer lc =
     (case answer of
        Inl message \<Rightarrow> (open_failed pending message lc, None)
      | Inr head \<Rightarrow>
          (case openGraphOf head (lc_openGraphId lc) of
             None \<Rightarrow> (finish_opening pending (lc\<lparr>lc_persistenceError := Some ''This project holds no graph to open.''\<rparr>), None)
           | Some savedGraph \<Rightarrow>
               let chosen = lc\<lparr>lc_openGraphId := Some (sg_id savedGraph)\<rparr>
               in if open_current pending chosen then (chosen, Some savedGraph) else (finish_opening pending chosen, None)))"

definition canvas_changed_text :: string where
  "canvas_changed_text = ''The canvas changed while the graph was loading. Your newer edits were kept; open the graph again when you are ready to replace them.''"

text \<open>The stored results have been read, or could not be: the graph is put on the canvas.\<close>

definition openSavedGraph_results ::
    "lifecycle_platform \<Rightarrow> node_registry \<Rightarrow> pending_open \<Rightarrow> collaborative_head \<Rightarrow> saved_graph \<Rightarrow> string + run_node_result list \<Rightarrow> lifecycle
       \<Rightarrow> lifecycle_result \<times> active_saved_graph option" where
  "openSavedGraph_results pf registry pending head savedGraph results lc =
     (case hydrateSavedGraph (lf_number pf) (sg_document savedGraph) registry (case results of Inr runs \<Rightarrow> runs | Inl _ \<Rightarrow> []) of
        Inl err \<Rightarrow> ((open_failed pending (hydration_message err) lc, []), None)
      | Inr hydrated \<Rightarrow>
          if \<not> open_current pending lc then ((finish_opening pending lc, []), None)
          else if currentFingerprint pf lc \<noteq> pd_fingerprint pending
          then ((finish_opening pending (lc\<lparr>lc_persistenceError := Some canvas_changed_text\<rparr>), []), None)
          else
            let responseDocument = documentOfGraph savedGraph; responsePresentation = presentationOf savedGraph;
                nextActiveGraph = activeGraphFrom head savedGraph
            in ((rememberSavedDraft pf (createGraphDraft responseDocument (Defined responsePresentation))
                   ((replacePresentation responsePresentation (replaceDocument responseDocument lc))\<lparr>lc_activeGraph := Some nextActiveGraph\<rparr>),
                 [ReplaceOverlays (Some (hg_nodes hydrated)), RefreshSecrets nextActiveGraph (hg_nodes hydrated)]), Some nextActiveGraph))"

definition openSavedGraph_finish :: "pending_open \<Rightarrow> string + run_node_result list \<Rightarrow> lifecycle \<Rightarrow> lifecycle_result" where
  "openSavedGraph_finish pending results lc =
     (if \<not> open_current pending lc then (finish_opening pending lc, [])
      else (finish_opening pending
              (lc\<lparr>lc_persistenceError := (case results of Inl message \<Rightarrow> Some (''Graph opened without its stored results: '' @ message) | Inr _ \<Rightarrow> None),
                  lc_graphBrowserOpen := False\<rparr>),
            [ClearPendingConnectionRoute, ClearRunError, CloseNodeLibrary, RequestCanvasRefit]))"

subsection \<open>Following the route\<close>

datatype route_action = StayHere | ShowBlank | LoadGraph string

definition follow_route :: "lifecycle_platform \<Rightarrow> string option \<Rightarrow> lifecycle \<Rightarrow> lifecycle \<times> route_action" where
  "follow_route pf initialGraphId lc =
     (let routeGraphId = (case initialGraphId of Some i \<Rightarrow> i | None \<Rightarrow> NEW_PROJECT_ROUTE_ID);
          displayedGraphId = (case lc_activeGraph lc of Some g \<Rightarrow> ag_id g | None \<Rightarrow> NEW_PROJECT_ROUTE_ID)
      in if lf_registry pf = None then (lc, StayHere)
         else if routeGraphId = displayedGraphId
         then (if lc_approvedRoute lc = Some routeGraphId then lc\<lparr>lc_approvedRoute := None\<rparr> else lc, StayHere)
         else if lc_approvedRoute lc \<noteq> None \<and> lc_approvedRoute lc \<noteq> Some routeGraphId then (lc, StayHere)
         else (lc\<lparr>lc_approvedRoute := None\<rparr>,
               if truthy_text initialGraphId then LoadGraph routeGraphId else ShowBlank))"

subsection \<open>Deleting\<close>

record pending_delete =
  px_graphId :: string
  px_active :: bool
  px_fingerprint :: graph_fingerprint
  px_generation :: nat

definition removeSavedGraph_start :: "lifecycle_platform \<Rightarrow> bool \<Rightarrow> string \<Rightarrow> lifecycle \<Rightarrow> lifecycle \<times> pending_delete option" where
  "removeSavedGraph_start pf confirmed graphId lc =
     (if \<not> confirmed then (lc, None)
      else (lc\<lparr>lc_deletingGraphId := Some graphId, lc_persistenceError := None\<rparr>,
            Some \<lparr>px_graphId = graphId, px_active = (map_option ag_id (lc_activeGraph lc) = Some graphId),
                  px_fingerprint = currentFingerprint pf lc, px_generation = lc_generation lc\<rparr>))"

definition finish_deleting :: "lifecycle \<Rightarrow> lifecycle" where
  "finish_deleting lc = (if lc_mounted lc then lc\<lparr>lc_deletingGraphId := None\<rparr> else lc)"

datatype delete_answer = Deleted | DeleteConflict | DeleteFailed string

definition deleted_shown :: "lifecycle_platform \<Rightarrow> pending_delete \<Rightarrow> lifecycle \<Rightarrow> lifecycle_result" where
  "deleted_shown pf pending lc =
     (let path = workbenchProjectPath (lf_workspaceSlug pf) NEW_PROJECT_ROUTE_ID
      in if currentFingerprint pf lc = px_fingerprint pending
         then (case showBlankGraph lc of (blank, effects) \<Rightarrow>
                 (blank\<lparr>lc_approvedRoute := Some NEW_PROJECT_ROUTE_ID\<rparr>, effects @ [RouterReplace path]))
         else ((replacePresentation (lc_presentation lc) (forgetSavedDraft (lc\<lparr>lc_activeGraph := None\<rparr>)))
                 \<lparr>lc_persistenceError := Some ''The saved graph was deleted. Changes made while deletion was in progress remain as an unsaved draft.'',
                  lc_approvedRoute := Some NEW_PROJECT_ROUTE_ID\<rparr>,
               [ClearSecretStatuses, RouterReplace path]))"

definition removeSavedGraph_finish :: "lifecycle_platform \<Rightarrow> pending_delete \<Rightarrow> delete_answer \<Rightarrow> lifecycle \<Rightarrow> lifecycle_result" where
  "removeSavedGraph_finish pf pending answer lc =
     (if \<not> lc_mounted lc then (lc, [])
      else let current = (lc_generation lc = px_generation pending)
      in case answer of
           Deleted \<Rightarrow>
             if \<not> current \<or> \<not> px_active pending then (finish_deleting lc, [RefreshSummaries, RefreshRegistry])
             else (case deleted_shown pf pending lc of (shown, effects) \<Rightarrow> (finish_deleting shown, RefreshSummaries # RefreshRegistry # effects))
         | DeleteConflict \<Rightarrow>
             (finish_deleting (if current
                then lc\<lparr>lc_persistenceError := Some ''This graph changed before it could be deleted. Refresh the saved graph list and try again.''\<rparr>
                else lc), [])
         | DeleteFailed message \<Rightarrow> (finish_deleting (if current then lc\<lparr>lc_persistenceError := Some message\<rparr> else lc), []))"

definition unmount_lifecycle :: "lifecycle \<Rightarrow> lifecycle" where
  "unmount_lifecycle lc = (next_generation lc)\<lparr>lc_mounted := False\<rparr>"

definition setGraphName :: "string \<Rightarrow> lifecycle \<Rightarrow> lifecycle_result" where
  "setGraphName name lc = (lc\<lparr>lc_persistenceError := None\<rparr>, [UpdateDocumentName name])"

definition clearPersistenceError :: "lifecycle \<Rightarrow> lifecycle" where
  "clearPersistenceError lc = lc\<lparr>lc_persistenceError := None\<rparr>"

definition toggleGraphBrowser :: "lifecycle \<Rightarrow> lifecycle_result" where
  "toggleGraphBrowser lc = (lc\<lparr>lc_graphBrowserOpen := \<not> lc_graphBrowserOpen lc\<rparr>, [CloseNodeLibrary])"

definition closeGraphBrowser :: "lifecycle \<Rightarrow> lifecycle" where
  "closeGraphBrowser lc = lc\<lparr>lc_graphBrowserOpen := False\<rparr>"

definition dismissPersistenceError :: "string \<Rightarrow> lifecycle \<Rightarrow> lifecycle" where
  "dismissPersistenceError message lc =
     (if lc_persistenceError lc = Some message then lc\<lparr>lc_persistenceError := None\<rparr> else lc)"

end
