(* ===== verification/GraphLifecycle_Facts.thy ===== *)
theory GraphLifecycle_Facts
  imports GraphLifecycle GraphDocument_Facts Handles_Facts
begin

section \<open>What a clean canvas means, and what late answers may touch\<close>

text \<open>
  The first part relates the fingerprints to what they compare; the second follows the saved fingerprint and the
  active graph through every operation of the lifecycle; the third shows which answers may replace the canvas.
\<close>

subsection \<open>What equal fingerprints say\<close>

lemma mset_sorted_by [simp]: "mset (sorted_by compare key xs) = mset xs"
  by (simp add: sorted_by_def)

lemma fingerprint_parts:
  assumes "savedGraphFingerprint compare a = savedGraphFingerprint compare b"
  shows "gd_name a = gd_name b
    \<and> image_mset (fingerprint_node compare) (mset (sd_nodes (gd_document a))) = image_mset (fingerprint_node compare) (mset (sd_nodes (gd_document b)))
    \<and> mset (sd_edges (gd_document a)) = mset (sd_edges (gd_document b))
    \<and> savedGraphExecutionFingerprint compare a = savedGraphExecutionFingerprint compare b"
proof (intro conjI)
  let ?nodes = "\<lambda>g. map (fingerprint_node compare) (sorted_by compare n_id (sd_nodes (gd_document g)))"
  from assms have parts: "gd_name a = gd_name b" "sd_schema_version (gd_document a) = sd_schema_version (gd_document b)"
    "?nodes a = ?nodes b" "sorted_by compare e_id (sd_edges (gd_document a)) = sorted_by compare e_id (sd_edges (gd_document b))"
    by (simp_all add: savedGraphFingerprint_def Let_def)
  then show "gd_name a = gd_name b" "savedGraphExecutionFingerprint compare a = savedGraphExecutionFingerprint compare b"
    by (simp_all add: savedGraphExecutionFingerprint_def)
  show "image_mset (fingerprint_node compare) (mset (sd_nodes (gd_document a))) = image_mset (fingerprint_node compare) (mset (sd_nodes (gd_document b)))"
    using arg_cong [OF parts(3), of mset] by simp
  show "mset (sd_edges (gd_document a)) = mset (sd_edges (gd_document b))" using arg_cong [OF parts(4), of mset] by simp
qed

text \<open>The origins and the agents of a graph have no part in its fingerprints.\<close>

lemma fingerprint_ignores_origins_and_agents:
  "savedGraphFingerprint compare (draft\<lparr>gd_document := (gd_document draft)\<lparr>sd_origins := origins, sd_agents := agents\<rparr>\<rparr>) = savedGraphFingerprint compare draft"
  "savedGraphExecutionFingerprint compare (draft\<lparr>gd_document := (gd_document draft)\<lparr>sd_origins := origins, sd_agents := agents\<rparr>\<rparr>)
     = savedGraphExecutionFingerprint compare draft"
  by (simp_all add: savedGraphFingerprint_def savedGraphExecutionFingerprint_def)

lemma added_origin_is_not_dirty:
  "dy_isDirty (lifecycle_dirtiness pf unsynced (lc\<lparr>lc_document := (lc_document lc)\<lparr>d_origins := origins, d_agents := agents\<rparr>\<rparr>))
     = dy_isDirty (lifecycle_dirtiness pf unsynced lc)"
  "dy_canMaterializeSavedGraph (lifecycle_dirtiness pf unsynced (lc\<lparr>lc_document := (lc_document lc)\<lparr>d_origins := origins, d_agents := agents\<rparr>\<rparr>))
     = dy_canMaterializeSavedGraph (lifecycle_dirtiness pf unsynced lc)"
  by (simp_all add: lifecycle_dirtiness_def savedGraphDirtiness_def currentFingerprint_def currentDraft_def createGraphDraft_def
      lc_presentation_def savedGraphFingerprint_def savedGraphExecutionFingerprint_def Let_def)

text \<open>A new canvas with only annotations counts as empty, and a save outside a room does not carry the name.\<close>

lemma annotations_are_not_a_draft:
  "dy_hasUnsavedDraft (savedGraphDirtiness (input\<lparr>di_presentation := (di_presentation input)\<lparr>p_annotations := annotations\<rparr>\<rparr>))
     = dy_hasUnsavedDraft (savedGraphDirtiness input)"
  by (simp add: savedGraphDirtiness_def Let_def)

lemma written_document_has_no_name: "writeGraphDocument_commands graphId (draft\<lparr>gd_name := name\<rparr>) = writeGraphDocument_commands graphId draft"
  by (simp add: writeGraphDocument_commands_def)

subsection \<open>The saved fingerprint belongs to the active graph\<close>

definition remembers :: "lifecycle_platform \<Rightarrow> lifecycle \<Rightarrow> bool" where
  "remembers pf lc \<longleftrightarrow>
     (case lc_savedFingerprint lc of
        None \<Rightarrow> lc_savedExecutionFingerprint lc = None
      | Some f \<Rightarrow> \<exists>head graph. lc_activeGraph lc = Some (activeGraphFrom head graph)
          \<and> f = savedGraphFingerprint (lf_compare pf) (createGraphDraft (documentOfGraph graph) (Defined (presentationOf graph)))
          \<and> lc_savedExecutionFingerprint lc
              = Some (savedGraphExecutionFingerprint (lf_compare pf) (createGraphDraft (documentOfGraph graph) (Defined (presentationOf graph)))))"

lemma remembers_frame:
  "remembers pf lc \<Longrightarrow> lc_savedFingerprint lc' = lc_savedFingerprint lc
   \<Longrightarrow> lc_savedExecutionFingerprint lc' = lc_savedExecutionFingerprint lc \<Longrightarrow> lc_activeGraph lc' = lc_activeGraph lc \<Longrightarrow> remembers pf lc'"
  by (cases "lc_savedFingerprint lc") (simp_all add: remembers_def)

lemma canvas_sel [simp]:
  "lc_savedFingerprint (replaceDocument d lc) = lc_savedFingerprint lc" "lc_savedFingerprint (replacePresentation p lc) = lc_savedFingerprint lc"
  "lc_savedExecutionFingerprint (replaceDocument d lc) = lc_savedExecutionFingerprint lc"
  "lc_savedExecutionFingerprint (replacePresentation p lc) = lc_savedExecutionFingerprint lc"
  "lc_activeGraph (replaceDocument d lc) = lc_activeGraph lc" "lc_activeGraph (replacePresentation p lc) = lc_activeGraph lc"
  by (simp_all add: replaceDocument_def replacePresentation_def)

lemma next_generation_sel [simp]:
  "lc_savedFingerprint (next_generation lc) = lc_savedFingerprint lc" "lc_activeGraph (next_generation lc) = lc_activeGraph lc"
  "lc_savedExecutionFingerprint (next_generation lc) = lc_savedExecutionFingerprint lc"
  "lc_document (next_generation lc) = lc_document lc" "lc_viewers (next_generation lc) = lc_viewers lc"
  by (simp_all add: next_generation_def abort_open_def split: option.split)

lemma remembers_forgotten: "lc_savedFingerprint lc = None \<Longrightarrow> lc_savedExecutionFingerprint lc = None \<Longrightarrow> remembers pf lc"
  by (simp add: remembers_def)

lemma remembers_saved:
  "lc_activeGraph lc = Some (activeGraphFrom head graph)
   \<Longrightarrow> remembers pf (rememberSavedDraft pf (createGraphDraft (documentOfGraph graph) (Defined (presentationOf graph))) lc)"
  by (auto simp: remembers_def rememberSavedDraft_def)

lemma showBlankGraph_remembers: "remembers pf (fst (showBlankGraph lc))"
  by (rule remembers_forgotten) (simp_all add: showBlankGraph_def forgetSavedDraft_def)

lemma sync_remembers:
  assumes "remembers pf lc"
  shows "remembers pf (fst (fst (syncFromCollaborativeHead pf nodes head lc)))"
proof (cases "openGraphOf head (lc_openGraphId lc)")
  case (Some graph)
  let ?opened = "lc\<lparr>lc_openGraphId := Some (sg_id graph), lc_approvedRoute := Some (h_project_id head)\<rparr>"
  let ?marked = "if h_collaboration_sequence head = h_checkpoint_sequence head
    then rememberSavedDraft pf (createGraphDraft (documentOfGraph graph) (Defined (presentationOf graph)))
           (?opened\<lparr>lc_activeGraph := Some (activeGraphFrom head graph)\<rparr>)
    else forgetSavedDraft ?opened"
  have "remembers pf ?marked" by (simp add: remembers_saved remembers_forgotten forgetSavedDraft_def)
  moreover have "fst (fst (syncFromCollaborativeHead pf nodes head lc))
      = replacePresentation (presentationOf graph) (replaceDocument (documentOfGraph graph) (?marked\<lparr>lc_persistenceError := None\<rparr>))"
    by (simp add: syncFromCollaborativeHead_def Some Let_def)
  ultimately show ?thesis using remembers_frame [of pf ?marked] by simp
qed (simp add: syncFromCollaborativeHead_def assms)

lemma heads_shown_remembers:
  "remembers pf lc \<Longrightarrow> remembers pf (fst (fst (heads_shown pf nodes checkpointHead currentHead lc)))"
proof -
  assume "remembers pf lc"
  then have synced: "remembers pf (fst (fst (syncFromCollaborativeHead pf nodes checkpointHead lc)))" by (rule sync_remembers)
  obtain s effects failure where first: "syncFromCollaborativeHead pf nodes checkpointHead lc = ((s, effects), failure)" by (metis surj_pair)
  with sync_remembers [of pf s nodes currentHead] synced show ?thesis
    by (auto simp: heads_shown_def first split: prod.split)
qed

lemma saved_head_remembers:
  assumes "remembers pf lc"
  shows "remembers pf (fst (saved_head_shown pf nodes created head lc))"
proof (cases "openGraphOf head (lc_openGraphId lc)")
  case (Some graph)
  let ?opened = "lc\<lparr>lc_openGraphId := Some (sg_id graph), lc_approvedRoute := (if created then Some (h_project_id head) else lc_approvedRoute lc),
      lc_activeGraph := Some (activeGraphFrom head graph)\<rparr>"
  have "remembers pf (rememberSavedDraft pf (createGraphDraft (documentOfGraph graph) (Defined (presentationOf graph))) ?opened)"
    by (rule remembers_saved) simp
  from remembers_frame [OF this] Some show ?thesis by (simp add: saved_head_shown_def Let_def)
qed (simp add: saved_head_shown_def assms)

subsection \<open>Every operation\<close>

text \<open>
  A step of the lifecycle is an operation with any argument, an answer to any request, early or late, or an
  edit of the canvas, which changes the document and the cards only.
\<close>

inductive lifecycle_step :: "lifecycle_platform \<Rightarrow> lifecycle \<Rightarrow> lifecycle \<Rightarrow> bool" for pf where
  step_edit: "lifecycle_step pf lc (lc\<lparr>lc_document := document, lc_viewers := viewers\<rparr>)"
| step_blank: "lifecycle_step pf lc (fst (showBlankGraph lc))"
| step_new: "lifecycle_step pf lc (fst (requestNewGraph pf pathname lc))"
| step_purge: "lifecycle_step pf lc (fst (purgeLocalGraphState lc))"
| step_sync: "lifecycle_step pf lc (fst (fst (syncFromCollaborativeHead pf nodes head lc)))"
| step_save: "lifecycle_step pf lc (fst (saveCurrentGraph_start executionRunning roomCanPersist nameOverride lc))"
| step_saved: "lifecycle_step pf lc (fst (saveCurrentGraph_finish pf nodes pendingSave saveAnswer lc))"
| step_open_route: "lifecycle_step pf lc (fst (openSavedGraph_route pf navigationError graphId lc))"
| step_open: "lifecycle_step pf lc (fst (openSavedGraph_start pf graphId lc))"
| step_open_head: "lifecycle_step pf lc (fst (openSavedGraph_head pendingOpen headAnswer lc))"
| step_open_results: "lifecycle_step pf lc (fst (fst (openSavedGraph_results pf registry pendingOpen head savedGraph results lc)))"
| step_open_finish: "lifecycle_step pf lc (fst (openSavedGraph_finish pendingOpen results lc))"
| step_route: "lifecycle_step pf lc (fst (follow_route pf initialGraphId lc))"
| step_delete: "lifecycle_step pf lc (fst (removeSavedGraph_start pf confirmed graphId lc))"
| step_deleted: "lifecycle_step pf lc (fst (removeSavedGraph_finish pf pendingDelete deleteAnswer lc))"
| step_unmount: "lifecycle_step pf lc (unmount_lifecycle lc)"
| step_dismiss: "lifecycle_step pf lc (dismissPersistenceError message lc)"
| step_name: "lifecycle_step pf lc (fst (setGraphName name lc))"
| step_clear: "lifecycle_step pf lc (clearPersistenceError lc)"
| step_toggle: "lifecycle_step pf lc (fst (toggleGraphBrowser lc))"
| step_close: "lifecycle_step pf lc (closeGraphBrowser lc)"

lemma wrap_up_sel [simp]:
  "lc_savedFingerprint (finish_saving lc) = lc_savedFingerprint lc" "lc_savedExecutionFingerprint (finish_saving lc) = lc_savedExecutionFingerprint lc"
  "lc_activeGraph (finish_saving lc) = lc_activeGraph lc" "lc_document (finish_saving lc) = lc_document lc" "lc_viewers (finish_saving lc) = lc_viewers lc"
  "lc_savedFingerprint (finish_opening p lc) = lc_savedFingerprint lc"
  "lc_savedExecutionFingerprint (finish_opening p lc) = lc_savedExecutionFingerprint lc"
  "lc_activeGraph (finish_opening p lc) = lc_activeGraph lc" "lc_document (finish_opening p lc) = lc_document lc" "lc_viewers (finish_opening p lc) = lc_viewers lc"
  "lc_savedFingerprint (finish_deleting lc) = lc_savedFingerprint lc" "lc_savedExecutionFingerprint (finish_deleting lc) = lc_savedExecutionFingerprint lc"
  "lc_activeGraph (finish_deleting lc) = lc_activeGraph lc" "lc_document (finish_deleting lc) = lc_document lc" "lc_viewers (finish_deleting lc) = lc_viewers lc"
  by (simp_all add: finish_saving_def finish_opening_def finish_deleting_def)

lemma open_failed_sel [simp]:
  "lc_savedFingerprint (open_failed p m lc) = lc_savedFingerprint lc" "lc_savedExecutionFingerprint (open_failed p m lc) = lc_savedExecutionFingerprint lc"
  "lc_activeGraph (open_failed p m lc) = lc_activeGraph lc" "lc_document (open_failed p m lc) = lc_document lc" "lc_viewers (open_failed p m lc) = lc_viewers lc"
  by (simp_all add: open_failed_def)

lemma saved_remembers:
  assumes "remembers pf lc"
  shows "remembers pf (fst (saveCurrentGraph_finish pf nodes pending answer lc))"
proof -
  have shown: "remembers pf (finish_saving shown)" if "remembers pf shown" for shown by (rule remembers_frame [OF that]) simp_all
  have failed: "remembers pf (finish_saving (shown\<lparr>lc_persistenceError := e\<rparr>))" if "remembers pf shown" for shown e
    by (rule remembers_frame [OF that]) simp_all
  note cases = saved_head_remembers [OF assms, of nodes "ps_createsGraph pending"] heads_shown_remembers [OF assms, of nodes]
  show ?thesis
  proof (cases answer)
    case (Collaborative checkpointHead currentHead)
    obtain s effects failure where first: "heads_shown pf nodes checkpointHead currentHead lc = ((s, effects), failure)" by (metis surj_pair)
    with cases(2) [of checkpointHead currentHead] have "remembers pf s" by simp
    then show ?thesis using assms by (auto simp: saveCurrentGraph_finish_def Collaborative first shown failed split: option.split)
  next
    case (SavedHead head)
    obtain s effects where first: "saved_head_shown pf nodes (ps_createsGraph pending) head lc = (s, effects)" by fastforce
    with cases(1) [of head] have "remembers pf s" by simp
    then show ?thesis using assms by (simp add: saveCurrentGraph_finish_def SavedHead first shown)
  qed (use assms in \<open>simp_all add: saveCurrentGraph_finish_def shown failed\<close>)
qed

lemma opened_remembers:
  assumes "remembers pf lc"
  shows "remembers pf (fst (fst (openSavedGraph_results pf registry pending head graph results lc)))"
proof -
  let ?shown = "(replacePresentation (presentationOf graph) (replaceDocument (documentOfGraph graph) lc))\<lparr>lc_activeGraph := Some (activeGraphFrom head graph)\<rparr>"
  have "remembers pf (rememberSavedDraft pf (createGraphDraft (documentOfGraph graph) (Defined (presentationOf graph))) ?shown)"
    by (rule remembers_saved) simp
  moreover have "remembers pf (finish_opening pending lc)" "remembers pf (finish_opening pending (lc\<lparr>lc_persistenceError := e\<rparr>))"
    "remembers pf (open_failed pending message lc)" for e message
    by (rule remembers_frame [OF assms], simp_all)+
  ultimately show ?thesis by (simp add: openSavedGraph_results_def Let_def split: sum.split)
qed

lemma deleted_remembers:
  assumes "remembers pf lc"
  shows "remembers pf (fst (removeSavedGraph_finish pf pending answer lc))"
proof -
  have "lc_savedFingerprint (fst (deleted_shown pf pending lc)) = None \<and> lc_savedExecutionFingerprint (fst (deleted_shown pf pending lc)) = None"
    by (simp add: deleted_shown_def Let_def showBlankGraph_def forgetSavedDraft_def)
  then have "remembers pf (finish_deleting (fst (deleted_shown pf pending lc)))" by (simp add: remembers_forgotten)
  moreover have "remembers pf (finish_deleting lc)" "remembers pf (finish_deleting (lc\<lparr>lc_persistenceError := e\<rparr>))" for e
    by (rule remembers_frame [OF assms], simp_all)+
  ultimately show ?thesis using assms by (auto simp: removeSavedGraph_finish_def Let_def split: delete_answer.split prod.split)
qed

lemma step_remembers: "lifecycle_step pf lc lc' \<Longrightarrow> remembers pf lc \<Longrightarrow> remembers pf lc'"
proof (induction rule: lifecycle_step.induct)
  case (step_new lc pathname)
  show ?case
  proof (cases "pathname = workbenchProjectPath (lf_workspaceSlug pf) NEW_PROJECT_ROUTE_ID")
    case False
    then show ?thesis by (intro remembers_frame [OF step_new]) (simp_all add: requestNewGraph_def)
  qed (simp add: requestNewGraph_def showBlankGraph_remembers)
next
  case (step_purge lc)
  show ?case by (rule remembers_forgotten) (simp_all add: purgeLocalGraphState_def forgetSavedDraft_def)
next
  case (step_save lc executionRunning roomCanPersist nameOverride)
  then show ?case
    by (rule remembers_frame) (simp_all add: saveCurrentGraph_start_def Let_def split: option.split)
next
  case (step_open_route lc navigationError graphId)
  then show ?case by (rule remembers_frame) (simp_all add: openSavedGraph_route_def Let_def split: option.split)
next
  case (step_open lc graphId)
  then show ?case by (rule remembers_frame) (simp_all add: openSavedGraph_start_def Let_def)
next
  case (step_open_head lc pendingOpen headAnswer)
  then show ?case by (rule remembers_frame) (simp_all add: openSavedGraph_head_def Let_def split: sum.split option.split)
next
  case (step_open_finish lc pendingOpen results)
  then show ?case by (rule remembers_frame) (simp_all add: openSavedGraph_finish_def)
next
  case (step_route lc initialGraphId)
  then show ?case by (rule remembers_frame) (simp_all add: follow_route_def Let_def)
next
  case (step_delete lc confirmed graphId)
  then show ?case by (rule remembers_frame) (simp_all add: removeSavedGraph_start_def)
next
  case (step_unmount lc)
  then show ?case by (rule remembers_frame) (simp_all add: unmount_lifecycle_def)
next
  case (step_dismiss lc message)
  then show ?case by (rule remembers_frame) (simp_all add: dismissPersistenceError_def)
next
  case (step_name lc name)
  then show ?case by (rule remembers_frame) (simp_all add: setGraphName_def)
next
  case (step_clear lc)
  then show ?case by (rule remembers_frame) (simp_all add: clearPersistenceError_def)
next
  case (step_toggle lc)
  then show ?case by (rule remembers_frame) (simp_all add: toggleGraphBrowser_def)
next
  case (step_close lc)
  then show ?case by (rule remembers_frame) (simp_all add: closeGraphBrowser_def)
next
  case (step_edit lc document viewers)
  then show ?case by (rule remembers_frame) simp_all
qed (simp_all add: showBlankGraph_remembers sync_remembers saved_remembers opened_remembers deleted_remembers)

definition fresh_lifecycle :: "lifecycle \<Rightarrow> bool" where
  "fresh_lifecycle lc \<longleftrightarrow> lc_savedFingerprint lc = None \<and> lc_savedExecutionFingerprint lc = None"

lemma reachable_remembers: "(lifecycle_step pf)\<^sup>*\<^sup>* lc0 lc \<Longrightarrow> fresh_lifecycle lc0 \<Longrightarrow> remembers pf lc"
proof (induction rule: rtranclp_induct)
  case (step lc lc')
  then show ?case using step_remembers by blast
qed (simp add: fresh_lifecycle_def remembers_forgotten)


definition demo_lifecycle_platform :: lifecycle_platform where
  "demo_lifecycle_platform =
     \<lparr>lf_compare = (\<lambda>a b. int (length a) - int (length b)), lf_number = (\<lambda>_. NaN), lf_workspaceSlug = ''lab'', lf_registry = None\<rparr>"

definition demo_lifecycle :: lifecycle where
  "demo_lifecycle =
     \<lparr>lc_mounted = True, lc_document = blank_document, lc_viewers = artifactViewersFromPresentation (Defined emptyGraphPresentation),
      lc_activeGraph = None, lc_savedFingerprint = None, lc_savedExecutionFingerprint = None, lc_saving = False,
      lc_openingGraphId = None, lc_deletingGraphId = None, lc_persistenceError = None, lc_graphBrowserOpen = False,
      lc_approvedRoute = None, lc_openGraphId = None, lc_controllers = 0, lc_openRequest = None, lc_aborted = [], lc_generation = 0\<rparr>"

definition demo_stored_node :: saved_graph_node where
  "demo_stored_node =
     \<lparr>n_id = ''n1'', n_kind = Builtin, n_operator_id = ''text.read'', n_operator_version = 1,
      n_config = Defined [(''path'', JString ''a.txt''), (''encoding'', JString ''utf8'')], n_artifact_type_bindings = [], n_input_plugs = [],
      n_layout = Null, n_position = \<lparr>pt_x = Finite 0, pt_y = Finite 0\<rparr>\<rparr>"

definition demo_stored_head :: collaborative_head where
  "demo_stored_head =
     \<lparr>h_project_id = ''p1'', h_room_epoch = ''e'', h_collaboration_sequence = 3, h_checkpoint_sequence = 3, h_checkpoint_revision = 1,
      h_name = ''Scans'', h_updated_at = ''2026'',
      h_graphs = [\<lparr>g_id = ''g1'', g_name = ''Main'',
        g_document = \<lparr>sd_schema_version = 7, sd_nodes = [demo_stored_node], sd_edges = [], sd_origins = [], sd_agents = Undefined,
                      sd_presentation = Undefined\<rparr>,
        g_refresh_generations = Undefined\<rparr>]\<rparr>"

definition demo_synced :: lifecycle where
  "demo_synced = fst (fst (syncFromCollaborativeHead demo_lifecycle_platform [] demo_stored_head demo_lifecycle))"

lemma demo_synced_facts:
  "lc_activeGraph demo_synced = Some \<lparr>ag_id = ''p1'', ag_graphId = ''g1'', ag_revision = 3, ag_nodes = [demo_stored_node]\<rparr>"
  "\<not> dy_isDirty (lifecycle_dirtiness demo_lifecycle_platform False demo_synced)"
  by code_simp+


subsection \<open>Which answers may replace the canvas\<close>

definition same_canvas :: "lifecycle \<Rightarrow> lifecycle \<Rightarrow> bool" where
  "same_canvas lc lc' \<longleftrightarrow>
     lc_document lc' = lc_document lc \<and> lc_viewers lc' = lc_viewers lc \<and> lc_activeGraph lc' = lc_activeGraph lc
     \<and> lc_savedFingerprint lc' = lc_savedFingerprint lc \<and> lc_savedExecutionFingerprint lc' = lc_savedExecutionFingerprint lc"

text \<open>
  C30: An answer to a save, an open or a deletion that arrives after the canvas has moved on to another graph, after
  the hook is gone, or that is an error, changes neither the document nor the cards nor what is remembered as
  saved. An open that is still wanted replaces the canvas only when its fingerprint is the one it had when the
  open began, and a deletion of another graph never touches it.
\<close>

theorem late_answers_keep_the_canvas:
  "(lc_generation lc \<noteq> ps_generation save \<or> \<not> lc_mounted lc \<or> (\<exists>e. saveAnswer = SaveConflict e \<or> saveAnswer = SaveFailed e)
      \<longrightarrow> same_canvas lc (fst (saveCurrentGraph_finish pf nodes save saveAnswer lc)))
   \<and> (lc_generation lc \<noteq> pd_generation opening \<or> \<not> lc_mounted lc \<or> pd_controller opening \<in> set (lc_aborted lc)
        \<or> currentFingerprint pf lc \<noteq> pd_fingerprint opening
      \<longrightarrow> same_canvas lc (fst (fst (openSavedGraph_results pf registry opening head savedGraph results lc))))
   \<and> same_canvas lc (fst (openSavedGraph_head opening headAnswer lc)) \<and> same_canvas lc (fst (openSavedGraph_finish opening results lc))
   \<and> (lc_generation lc \<noteq> px_generation removal \<or> \<not> lc_mounted lc \<or> \<not> px_active removal \<or> deleteAnswer \<noteq> Deleted
      \<longrightarrow> same_canvas lc (fst (removeSavedGraph_finish pf removal deleteAnswer lc)))"
proof (intro conjI impI)
  assume "lc_generation lc \<noteq> ps_generation save \<or> \<not> lc_mounted lc \<or> (\<exists>e. saveAnswer = SaveConflict e \<or> saveAnswer = SaveFailed e)"
  then show "same_canvas lc (fst (saveCurrentGraph_finish pf nodes save saveAnswer lc))"
    by (cases saveAnswer) (auto simp: saveCurrentGraph_finish_def same_canvas_def)
next
  assume "lc_generation lc \<noteq> pd_generation opening \<or> \<not> lc_mounted lc \<or> pd_controller opening \<in> set (lc_aborted lc)
        \<or> currentFingerprint pf lc \<noteq> pd_fingerprint opening"
  then show "same_canvas lc (fst (fst (openSavedGraph_results pf registry opening head savedGraph results lc)))"
    by (auto simp: openSavedGraph_results_def same_canvas_def open_current_def split: sum.split)
next
  show "same_canvas lc (fst (openSavedGraph_head opening headAnswer lc))"
    by (simp add: openSavedGraph_head_def same_canvas_def Let_def split: sum.split option.split)
  show "same_canvas lc (fst (openSavedGraph_finish opening results lc))" by (simp add: openSavedGraph_finish_def same_canvas_def)
next
  assume "lc_generation lc \<noteq> px_generation removal \<or> \<not> lc_mounted lc \<or> \<not> px_active removal \<or> deleteAnswer \<noteq> Deleted"
  then show "same_canvas lc (fst (removeSavedGraph_finish pf removal deleteAnswer lc))"
    by (cases deleteAnswer) (auto simp: removeSavedGraph_finish_def same_canvas_def)
qed

definition demo_pending_save :: pending_save where
  "demo_pending_save = \<lparr>ps_request = CreateProject (currentDraft demo_lifecycle), ps_generation = 0, ps_createsGraph = True\<rparr>"

lemma late_answers_keep_the_canvas_witness:
  "same_canvas (fst (purgeLocalGraphState demo_synced))
     (fst (saveCurrentGraph_finish demo_lifecycle_platform [] demo_pending_save (SavedHead demo_stored_head) (fst (purgeLocalGraphState demo_synced))))"
proof -
  have "lc_generation (fst (purgeLocalGraphState demo_synced)) \<noteq> ps_generation demo_pending_save" by code_simp
  with late_answers_keep_the_canvas [of "fst (purgeLocalGraphState demo_synced)" demo_pending_save] show ?thesis by blast
qed

end
