(* ===== verification/ArtifactInputs.thy ===== *)
theory ArtifactInputs
  imports ArtifactCards_Facts NodeCommands ConfigSchema
begin

section \<open>Artifacts on inputs: drags, drops and connections of cards\<close>

text \<open>
  \<^verbatim>\<open>model/artifact-drop.ts\<close> and \<^verbatim>\<open>canvas/artifact-connections.ts\<close>. What a drag carries is a list of entries by data
  type, whose texts are either written by \<open>JSON.stringify\<close>, then given by the value, or foreign, then read with a
  parameter for \<open>JSON.parse\<close>. The value of an artifact is a JSON object with a text \<open>artifact_type\<close> and a whole
  \<open>schema_version\<close>, as its type declares. Random ids are arguments.
\<close>

subsection \<open>Payloads\<close>

definition ARTIFACT_DROP_DATA_TYPE :: string where "ARTIFACT_DROP_DATA_TYPE = ''application/x-grafy-artifact''"
definition ARTIFACT_GROUPS_DATA_TYPE :: string where "ARTIFACT_GROUPS_DATA_TYPE = ''application/x-grafy-artifact-groups''"
definition ARTIFACT_FOLDER_DATA_TYPE :: string where "ARTIFACT_FOLDER_DATA_TYPE = ''application/x-grafy-artifact-folder''"

record drop_payload =
  dp_value :: json
  dp_shape :: port_shape

record drop_target =
  dt_nodeId :: string
  dt_portName :: string
  dt_plugId :: "string option"

record drop_resolution =
  dr_conversionPath :: "graph_conversion list"
  dr_collectionMode :: collection_mode

record drop_graph_state =
  dg_edges :: "workflow_edge list"
  dg_origins :: "saved_graph_origin list"
  dg_conversions :: "conversion_spec list"

definition artifactDropPayload :: "json \<Rightarrow> drop_payload" where
  "artifactDropPayload value = \<lparr>dp_value = value, dp_shape = (if is_sequence value then Many else One)\<rparr>"

subsection \<open>The data of a drag\<close>

datatype drag_text = JsonText json | ForeignText string

type_synonym data_transfer = "(string \<times> drag_text) list"

definition payload_json :: "drop_payload \<Rightarrow> json" where
  "payload_json payload = JObject [(''value'', dp_value payload), (''shape'', JString (shape_text (dp_shape payload)))]"

definition setData :: "string \<Rightarrow> drag_text \<Rightarrow> data_transfer \<Rightarrow> data_transfer" where
  "setData kind txt dataTransfer = obj_set kind txt dataTransfer"

text \<open>\<open>getData\<close> gives the empty text for a type the drag does not carry, which both readers treat as nothing.\<close>

definition getData :: "string \<Rightarrow> data_transfer \<Rightarrow> drag_text option" where
  "getData kind dataTransfer =
     (case map_of dataTransfer kind of Some (ForeignText []) \<Rightarrow> None | found \<Rightarrow> found)"

definition parsed_text :: "(string \<Rightarrow> json option) \<Rightarrow> drag_text \<Rightarrow> json option" where
  "parsed_text parse txt = (case txt of JsonText v \<Rightarrow> Some (json_norm v) | ForeignText s \<Rightarrow> parse s)"

definition writeArtifactDrop :: "data_transfer \<Rightarrow> json \<Rightarrow> data_transfer" where
  "writeArtifactDrop dataTransfer value =
     setData ARTIFACT_DROP_DATA_TYPE (JsonText (payload_json (artifactDropPayload value))) dataTransfer"

definition isArtifactDrop :: "data_transfer \<Rightarrow> bool" where
  "isArtifactDrop dataTransfer \<longleftrightarrow>
     ARTIFACT_DROP_DATA_TYPE \<in> fst ` set dataTransfer \<or> ARTIFACT_GROUPS_DATA_TYPE \<in> fst ` set dataTransfer"

definition parse_shaped :: "json \<Rightarrow> json \<Rightarrow> drop_payload option" where
  "parse_shaped value shape =
     (if \<not> (case value of JObject _ \<Rightarrow> True | JArray _ \<Rightarrow> True | _ \<Rightarrow> False) then None
      else (case shape_of_json shape of
              None \<Rightarrow> None
            | Some Many \<Rightarrow> if is_sequence value then Some \<lparr>dp_value = value, dp_shape = Many\<rparr> else None
            | Some One \<Rightarrow> if is_sequence value then None else Some \<lparr>dp_value = value, dp_shape = One\<rparr>))"

definition parseArtifactDropPayload :: "json \<Rightarrow> drop_payload option" where
  "parseArtifactDropPayload parsed =
     (case parsed of
        JObject entries \<Rightarrow>
          if \<not> in_object ''value'' entries \<or> \<not> in_object ''shape'' entries then None
          else parse_shaped (obj_get ''value'' entries) (obj_get ''shape'' entries)
      | _ \<Rightarrow> None)"

definition readArtifactDrop :: "(string \<Rightarrow> json option) \<Rightarrow> data_transfer \<Rightarrow> drop_payload option" where
  "readArtifactDrop parse dataTransfer =
     Option.bind (getData ARTIFACT_DROP_DATA_TYPE dataTransfer) (\<lambda>raw. Option.bind (parsed_text parse raw) parseArtifactDropPayload)"

definition parse_groups :: "json option \<Rightarrow> drop_payload list" where
  "parse_groups parsed = (case parsed of Some (JArray entries) \<Rightarrow> List.map_filter parseArtifactDropPayload entries | _ \<Rightarrow> [])"

definition readArtifactDropGroups :: "(string \<Rightarrow> json option) \<Rightarrow> data_transfer \<Rightarrow> drop_payload list" where
  "readArtifactDropGroups parse dataTransfer =
     (let groups = (case getData ARTIFACT_GROUPS_DATA_TYPE dataTransfer of None \<Rightarrow> [] | Some raw \<Rightarrow> parse_groups (parsed_text parse raw))
      in if groups \<noteq> [] then groups
         else case readArtifactDrop parse dataTransfer of Some single \<Rightarrow> [single] | None \<Rightarrow> [])"

definition writeArtifactDropGroups :: "data_transfer \<Rightarrow> drop_payload list \<Rightarrow> data_transfer" where
  "writeArtifactDropGroups dataTransfer payloads =
     (case payloads of
        [] \<Rightarrow> dataTransfer
      | first # rest \<Rightarrow>
          let single = setData ARTIFACT_DROP_DATA_TYPE (JsonText (payload_json first)) dataTransfer
          in if rest = [] then single else setData ARTIFACT_GROUPS_DATA_TYPE (JsonText (JArray (map payload_json payloads))) single)"

definition writeArtifactDropFolder :: "data_transfer \<Rightarrow> string \<Rightarrow> data_transfer" where
  "writeArtifactDropFolder dataTransfer folderName = setData ARTIFACT_FOLDER_DATA_TYPE (ForeignText folderName) dataTransfer"

definition readArtifactDropFolder :: "data_transfer \<Rightarrow> drag_text option" where
  "readArtifactDropFolder dataTransfer = map_of dataTransfer ARTIFACT_FOLDER_DATA_TYPE"

text \<open>The attributes of the row a drop landed on.\<close>

record row_dataset =
  rd_inputNodeId :: "string option"
  rd_inputPortName :: "string option"
  rd_inputPlugPort :: "string option"
  rd_inputPlugId :: "string option"

definition artifactDropTargetFromRow :: "row_dataset \<Rightarrow> drop_target option" where
  "artifactDropTargetFromRow row =
     (let portName = (case rd_inputPortName row of Some name \<Rightarrow> Some name | None \<Rightarrow> rd_inputPlugPort row)
      in case (rd_inputNodeId row, portName) of
           (Some nodeId, Some port) \<Rightarrow>
             if nodeId = [] \<or> port = [] then None
             else Some \<lparr>dt_nodeId = nodeId, dt_portName = port, dt_plugId = rd_inputPlugId row\<rparr>
         | _ \<Rightarrow> None)"

subsection \<open>What a port takes\<close>

definition artifactTypeForValue :: "json \<Rightarrow> artifact_type_key" where
  "artifactTypeForValue value =
     \<lparr>type_id = (case value_field ''artifact_type'' value of JString s \<Rightarrow> s | _ \<Rightarrow> []),
      type_schema_version = (case value_field ''schema_version'' value of JNumber (Finite r) \<Rightarrow> \<lfloor>r\<rfloor> | _ \<Rightarrow> 0)\<rparr>"

definition originCollectionModes :: "port \<Rightarrow> port_shape \<Rightarrow> collection_mode list" where
  "originCollectionModes port shape =
     (let accepted = acceptedPortShapes port
      in (if shape \<in> set accepted \<or> (shape = One \<and> Many \<in> set accepted) then [Direct] else [])
         @ (if shape = Many \<and> \<not> po_variadic port \<and> \<not> portHasInstancePlugs port \<and> (po_shape port = Many \<or> Many \<notin> set accepted)
            then [MapItems] else []))"

definition dropCollectionMode :: "port \<Rightarrow> port_shape \<Rightarrow> collection_mode option" where
  "dropCollectionMode port shape = (case originCollectionModes port shape of [] \<Rightarrow> None | mode # _ \<Rightarrow> Some mode)"

definition accepted_types :: "port \<Rightarrow> artifact_type_bindings \<Rightarrow> artifact_type_key list" where
  "accepted_types port bindings =
     (case resolvedPortArtifactType port bindings of Some t \<Rightarrow> [t] | None \<Rightarrow> [])
     @ (case po_also_accepts port of Some ts \<Rightarrow> ts | None \<Rightarrow> [])"

definition resolveArtifactDrop ::
    "locale_compare \<Rightarrow> drop_payload \<Rightarrow> port \<Rightarrow> artifact_type_bindings \<Rightarrow> conversion_spec list \<Rightarrow> drop_resolution option" where
  "resolveArtifactDrop compare payload port bindings conversions =
     (if po_direction port \<noteq> Input then None
      else case dropCollectionMode port (dp_shape payload) of
             None \<Rightarrow> None
           | Some collectionMode \<Rightarrow>
               let source = artifactTypeForValue (dp_value payload); accepted = accepted_types port bindings
               in if accepted = [] then None
                  else if list_ex (\<lambda>candidate. artifactTypeKey candidate = artifactTypeKey source) accepted
                  then Some \<lparr>dr_conversionPath = [], dr_collectionMode = collectionMode\<rparr>
                  else (case shortestConversionPathsToAny compare source accepted conversions of
                          Some [path] \<Rightarrow>
                            Some \<lparr>dr_conversionPath = map (\<lambda>conversion. project_conversion (cv_key conversion)) path,
                                  dr_collectionMode = collectionMode\<rparr>
                        | _ \<Rightarrow> None))"

definition portAcceptsOnlySequences :: "port \<Rightarrow> bool" where
  "portAcceptsOnlySequences port \<longleftrightarrow> Many \<in> set (acceptedPortShapes port) \<and> One \<notin> set (acceptedPortShapes port)"

definition has_field :: "string \<Rightarrow> json \<Rightarrow> bool" where
  "has_field name value = (case value of JObject entries \<Rightarrow> in_object name entries | _ \<Rightarrow> False)"

definition sequenceOfOne :: "string \<Rightarrow> json \<Rightarrow> json" where
  "sequenceOfOne uuid dropped =
     (if \<not> has_field ''artifact_id'' dropped then dropped
      else case artifactCardValue [dropped] JNull True uuid of JNull \<Rightarrow> dropped | v \<Rightarrow> v)"

definition json_truthy :: "json \<Rightarrow> bool" where
  "json_truthy v =
     (case v of JNull \<Rightarrow> False | JUndefined \<Rightarrow> False | JBool b \<Rightarrow> b | JString s \<Rightarrow> s \<noteq> []
      | JNumber n \<Rightarrow> n \<noteq> NaN \<and> n \<noteq> Finite 0 | _ \<Rightarrow> True)"

definition json_or :: "json \<Rightarrow> json \<Rightarrow> json" where
  "json_or v other = (case v of JNull \<Rightarrow> other | JUndefined \<Rightarrow> other | _ \<Rightarrow> v)"

text \<open>A value appended to what the input already holds: onto a sequence, or beside a single one.\<close>

definition appended_value :: "string \<Rightarrow> json \<Rightarrow> json \<Rightarrow> json" where
  "appended_value uuid prior dropped =
     (if is_sequence prior
      then JObject
        ([(''artifact_type'', value_field ''artifact_type'' prior), (''schema_version'', value_field ''schema_version'' prior),
          (''item_refs'', JArray (cardArtifactRefs prior @ [dropped])), (''ordered'', value_field ''ordered'' prior),
          (''index_key'', value_field ''index_key'' prior),
          (''sequence_id'', json_or (value_field ''sequence_id'' prior) (JString uuid))]
         @ (if json_truthy (value_field ''metadata'' prior) then [(''metadata'', value_field ''metadata'' prior)] else []))
      else JObject
        [(''artifact_type'', value_field ''artifact_type'' dropped), (''schema_version'', value_field ''schema_version'' dropped),
         (''item_refs'', JArray [prior, dropped]), (''ordered'', JBool True), (''index_key'', JString ''order_index''),
         (''sequence_id'', JString uuid)])"

definition collectedOriginValue ::
    "string \<Rightarrow> drop_payload \<Rightarrow> port \<Rightarrow> saved_graph_origin option \<Rightarrow> graph_conversion list \<Rightarrow> json" where
  "collectedOriginValue uuid payload port existing conversionPath =
     (let dropped = dp_value payload;
          alone = (if portAcceptsOnlySequences port then sequenceOfOne uuid dropped else dropped)
      in if dp_shape payload = Many \<or> Many \<notin> set (acceptedPortShapes port) then dropped
         else if conversionPath \<noteq> [] then alone
         else case existing of
                None \<Rightarrow> alone
              | Some origin \<Rightarrow>
                  if \<not> has_field ''artifact_id'' dropped \<or> \<not> shareOneArtifactType (o_value origin) dropped then alone
                  else appended_value uuid (o_value origin) dropped)"

subsection \<open>The commands of a drop\<close>

definition on_input :: "drop_target \<Rightarrow> saved_graph_origin \<Rightarrow> bool" where
  "on_input target origin \<longleftrightarrow>
     o_to_node origin = dt_nodeId target \<and> o_to_port origin = dt_portName target
     \<and> undefined_of (o_to_plug origin) = dt_plugId target"

definition enabled_edge_into :: "(string \<Rightarrow> js_number) \<Rightarrow> drop_target \<Rightarrow> workflow_edge \<Rightarrow> bool" where
  "enabled_edge_into number target edge \<longleftrightarrow>
     \<not> (case wg_data edge of Some data \<Rightarrow> \<not> we_enabled data | None \<Rightarrow> False) \<and> wg_target edge = dt_nodeId target
     \<and> (case decodeHandleId number (wg_targetHandle edge) of
          Some handle \<Rightarrow> pm_portName handle = dt_portName target \<and> pm_plugId handle = dt_plugId target
        | None \<Rightarrow> False)"

definition no_origin_update :: origin_update where
  "no_origin_update =
     \<lparr>ou_to_node = None, ou_to_port = None, ou_to_plug = None, ou_value = None, ou_collection_mode = None, ou_conversion_path = None\<rparr>"

definition artifactDropCommands ::
    "text_platform \<Rightarrow> string \<Rightarrow> string \<Rightarrow> drop_payload \<Rightarrow> drop_target \<Rightarrow> port \<Rightarrow> artifact_type_bindings \<Rightarrow> drop_graph_state
       \<Rightarrow> graph_command list option" where
  "artifactDropCommands tp sequenceUuid originUuid payload target port bindings state =
     (case resolveArtifactDrop (tp_compare tp) payload port bindings (dg_conversions state) of
        None \<Rightarrow> None
      | Some resolution \<Rightarrow>
          let existing = find (on_input target) (dg_origins state);
              value = collectedOriginValue sequenceUuid payload port existing (dr_conversionPath resolution);
              collectionMode =
                (if dr_collectionMode resolution = MapItems
                    \<or> (dp_shape payload = Many \<and> (case existing of Some origin \<Rightarrow> o_collection_mode origin = MapItems | None \<Rightarrow> False))
                 then MapItems else Direct);
              enabledEdgeIds = map wg_id (filter (enabled_edge_into (tp_number tp) target) (dg_edges state));
              removal = (if enabledEdgeIds \<noteq> [] then [RemoveEdges enabledEdgeIds] else [])
          in Some (removal @ [case existing of
               Some origin \<Rightarrow>
                 UpdateOrigin (o_id origin)
                   (no_origin_update\<lparr>ou_value := Some value, ou_collection_mode := Some collectionMode,
                                     ou_conversion_path := Some (Defined (dr_conversionPath resolution))\<rparr>)
             | None \<Rightarrow>
                 AddOrigin \<lparr>o_id = ''origin-'' @ originUuid, o_to_node = dt_nodeId target, o_to_port = dt_portName target,
                            o_to_plug = null_of (dt_plugId target), o_value = value, o_collection_mode = collectionMode,
                            o_conversion_path = dr_conversionPath resolution\<rparr>]))"

subsection \<open>Connections from cards\<close>

definition ARTIFACT_CARD_OUTPUT_HANDLE :: string where "ARTIFACT_CARD_OUTPUT_HANDLE = ''artifact-card-output''"

definition outputReleasePlacesArtifactCard :: "bool \<Rightarrow> port_shape \<Rightarrow> bool \<Rightarrow> bool" where
  "outputReleasePlacesArtifactCard onCanvas portShape hasMaterializedArtifacts \<longleftrightarrow>
     onCanvas \<and> (portShape = Many \<or> hasMaterializedArtifacts)"

datatype card_source = FixedSource json | WaitingSource | OutputSource json run_port_output

definition succeeded_output :: "run_node_result option \<Rightarrow> string option \<Rightarrow> run_port_output option" where
  "succeeded_output run portName =
     (case run of
        Some r \<Rightarrow> if rr_status r = RunSucceeded then find (\<lambda>candidate. Some (ro_port candidate) = portName) (rr_outputs r) else None
      | None \<Rightarrow> None)"

definition resolveArtifactCardSource :: "json \<Rightarrow> viewer_edge option \<Rightarrow> run_node_result option \<Rightarrow> card_source" where
  "resolveArtifactCardSource value feed run =
     (case feed of
        None \<Rightarrow> FixedSource (json_or value JNull)
      | Some edge \<Rightarrow>
          (case succeeded_output run (map_option vd_sourcePortName (ve_data edge)) of
             None \<Rightarrow> WaitingSource
           | Some output \<Rightarrow>
               if (case Option.bind (ve_data edge) vd_projection of Some path \<Rightarrow> path \<noteq> [] | None \<Rightarrow> False) then WaitingSource
               else OutputSource (ro_value output) output))"

fun source_value :: "card_source \<Rightarrow> json" where
  "source_value (FixedSource value) = value"
| "source_value WaitingSource = JNull"
| "source_value (OutputSource value output) = value"

definition artifactCardConnectionValue :: "viewer_node \<Rightarrow> viewer_edge list \<Rightarrow> workflow_node list \<Rightarrow> json" where
  "artifactCardConnectionValue node feeds nodes =
     (let feed = find (\<lambda>edge. ve_target edge = vn_id node) feeds
      in source_value (resolveArtifactCardSource (vn_artifactRef node) feed
           (Option.bind (find (\<lambda>n. Some (wn_id n) = map_option ve_source feed) nodes) (\<lambda>n. wd_run (wn_data n)))))"

record card_connection =
  cc_payload :: drop_payload
  cc_target :: drop_target
  cc_port :: port
  cc_bindings :: artifact_type_bindings
  cc_binding :: "(string \<times> artifact_type_key) option"

definition plug_matches_port :: "workflow_node_data \<Rightarrow> port \<Rightarrow> string option \<Rightarrow> bool" where
  "plug_matches_port data port plugId =
     (if portHasInstancePlugs port
      then list_ex (\<lambda>plug. Some (wp_id plug) = plugId \<and> wp_portName plug = po_name port) (wd_inputPlugs data)
      else plugId = None)"

definition first_binding :: "workflow_node_data \<Rightarrow> port \<Rightarrow> json \<Rightarrow> (string \<times> artifact_type_key) option" where
  "first_binding data port value =
     (case non_empty (po_artifact_type_variable port) of
        None \<Rightarrow> None
      | Some variable \<Rightarrow>
          if map_of (wd_artifactTypeBindings data) variable = None then Some (variable, artifactTypeForValue value) else None)"

definition resolveArtifactCardConnection ::
    "text_platform \<Rightarrow> node_connection \<Rightarrow> viewer_node list \<Rightarrow> viewer_edge list \<Rightarrow> workflow_node list \<Rightarrow> conversion_spec list
       \<Rightarrow> card_connection option" where
  "resolveArtifactCardConnection tp conn cards feeds nodes conversions =
     (if nc_sourceHandle conn \<noteq> Some ARTIFACT_CARD_OUTPUT_HANDLE then None
      else case (find (\<lambda>node. vn_id node = nc_source conn) cards, find (\<lambda>node. wn_id node = nc_target conn) nodes,
                 decodeHandleId (tp_number tp) (nc_targetHandle conn)) of
             (Some shown, Some node, Some handle) \<Rightarrow>
               if \<not> workflowNodeIsSupported (wn_data node) \<or> pm_direction handle \<noteq> Input then None
               else (case find (\<lambda>port. po_name port = pm_portName handle) (ns_inputs (wd_spec (wn_data node))) of
                       None \<Rightarrow> None
                     | Some port \<Rightarrow>
                         if \<not> plug_matches_port (wn_data node) port (pm_plugId handle) then None
                         else
                           let value = artifactCardConnectionValue shown feeds nodes; payload = artifactDropPayload value;
                               binding = first_binding (wn_data node) port value;
                               bindings = (case binding of
                                   Some (variable, t) \<Rightarrow> obj_set variable t (wd_artifactTypeBindings (wn_data node))
                                 | None \<Rightarrow> wd_artifactTypeBindings (wn_data node))
                           in if value = JNull \<or> cardArtifactRefs value = [] then None
                              else if resolveArtifactDrop (tp_compare tp) payload port bindings conversions = None then None
                              else Some \<lparr>cc_payload = payload,
                                         cc_target = \<lparr>dt_nodeId = wn_id node, dt_portName = po_name port, dt_plugId = pm_plugId handle\<rparr>,
                                         cc_port = port, cc_bindings = bindings, cc_binding = binding\<rparr>)
           | _ \<Rightarrow> None)"

record origin_edge =
  oe_id :: string
  oe_source :: string
  oe_target :: string
  oe_targetHandle :: string
  oe_originId :: string
  oe_collectionMode :: collection_mode
  oe_allowedCollectionModes :: "collection_mode list"

text \<open>Whether a card may stand for some of the artifacts an origin still waits for.\<close>

definition card_feeds_origin :: "json \<Rightarrow> saved_graph_origin \<Rightarrow> json list \<Rightarrow> bool" where
  "card_feeds_origin value origin remaining \<longleftrightarrow>
     value \<noteq> JNull \<and> shareOneArtifactType value (o_value origin) \<and> cardArtifactRefs value \<noteq> []
     \<and> list_all (\<lambda>ref. ref_id ref \<in> set remaining) (cardArtifactRefs value)"

fun origin_cards :: "viewer_edge list \<Rightarrow> workflow_node list \<Rightarrow> saved_graph_origin \<Rightarrow> json list \<Rightarrow> viewer_node list \<Rightarrow> viewer_node list" where
  "origin_cards feeds nodes origin remaining [] = []"
| "origin_cards feeds nodes origin remaining (shown # cards) =
     (let value = artifactCardConnectionValue shown feeds nodes
      in if \<not> card_feeds_origin value origin remaining then origin_cards feeds nodes origin remaining cards
         else let left = filter (\<lambda>i. i \<notin> ref_id ` set (cardArtifactRefs value)) remaining
              in shown # (if left = [] then [] else origin_cards feeds nodes origin left cards))"

definition origin_edge_of :: "workflow_node \<Rightarrow> port \<Rightarrow> saved_graph_origin \<Rightarrow> viewer_node \<Rightarrow> string + origin_edge" where
  "origin_edge_of target port origin shown =
     map_sum id (\<lambda>meta.
       \<lparr>oe_id = ''artifact-origin:'' @ o_id origin @ '':'' @ vn_id shown, oe_source = vn_id shown, oe_target = wn_id target,
        oe_targetHandle = encodeHandleId meta, oe_originId = o_id origin, oe_collectionMode = o_collection_mode origin,
        oe_allowedCollectionModes = originCollectionModes port (dp_shape (artifactDropPayload (o_value origin)))\<rparr>)
     (portMetaForPort port (effectivePortShape (wn_data target) port) (undefined_of (o_to_plug origin))
        (wd_artifactTypeBindings (wn_data target)))"

definition connections_of_origin ::
    "viewer_node list \<Rightarrow> viewer_edge list \<Rightarrow> workflow_node list \<Rightarrow> saved_graph_origin \<Rightarrow> (string + origin_edge) list" where
  "connections_of_origin cards feeds nodes origin =
     (case find (\<lambda>node. wn_id node = o_to_node origin) nodes of
        None \<Rightarrow> []
      | Some target \<Rightarrow>
          (case find (\<lambda>port. po_name port = o_to_port origin) (ns_inputs (wd_spec (wn_data target))) of
             None \<Rightarrow> []
           | Some port \<Rightarrow>
               map (origin_edge_of target port origin)
                 (origin_cards feeds nodes origin (map ref_id (cardArtifactRefs (o_value origin))) cards)))"

text \<open>A port without a type throws while its handle is written, which ends the drawing.\<close>

definition artifactOriginConnections ::
    "viewer_node list \<Rightarrow> viewer_edge list \<Rightarrow> workflow_node list \<Rightarrow> saved_graph_origin list \<Rightarrow> string + origin_edge list" where
  "artifactOriginConnections cards feeds nodes origins =
     foldr (\<lambda>e rest. case (e, rest) of (Inl err, _) \<Rightarrow> Inl err | (Inr _, Inl err) \<Rightarrow> Inl err | (Inr edge, Inr edges) \<Rightarrow> Inr (edge # edges))
       (concat (map (connections_of_origin cards feeds nodes) origins)) (Inr [])"

end
