(* ===== verification/Collections.thy ===== *)
theory Collections
  imports ArtifactInputs
begin

section \<open>Collections: cards gathered into a sequence node\<close>

text \<open>
  \<^verbatim>\<open>model/collection.ts\<close> and \<^verbatim>\<open>canvas/collection-member.ts\<close>: a collection is a node whose plugs are its members in
  order, each filled by an origin or by an edge. The label of an output member is only displayed and is left out.
\<close>

subsection \<open>Members\<close>

datatype collection_member =
    LibraryMember string string "json list"
  | OutputMember string string string string "json list option"
  | EmptyMember string

fun member_plug :: "collection_member \<Rightarrow> string" where
  "member_plug (LibraryMember plugId originId refs) = plugId"
| "member_plug (OutputMember plugId edgeId sourceNodeId sourcePortName refs) = plugId"
| "member_plug (EmptyMember plugId) = plugId"

fun is_empty_member :: "collection_member \<Rightarrow> bool" where
  "is_empty_member (EmptyMember plugId) = True"
| "is_empty_member _ = False"

fun member_refs :: "collection_member \<Rightarrow> json list" where
  "member_refs (LibraryMember plugId originId refs) = refs"
| "member_refs (OutputMember plugId edgeId sourceNodeId sourcePortName refs) = (case refs of Some rs \<Rightarrow> rs | None \<Rightarrow> [])"
| "member_refs (EmptyMember plugId) = []"

definition edge_on_plug :: "(string \<Rightarrow> js_number) \<Rightarrow> string \<Rightarrow> string \<Rightarrow> workflow_edge \<Rightarrow> bool" where
  "edge_on_plug number nodeId plugId edge \<longleftrightarrow>
     wg_target edge = nodeId \<and> Option.bind (decodeHandleId number (wg_targetHandle edge)) pm_plugId = Some plugId"

definition edge_source_port :: "(string \<Rightarrow> js_number) \<Rightarrow> workflow_edge \<Rightarrow> string option" where
  "edge_source_port number edge =
     (case Option.bind (wg_data edge) we_sourcePortName of
        Some name \<Rightarrow> Some name
      | None \<Rightarrow> map_option pm_portName (decodeHandleId number (wg_sourceHandle edge)))"

definition collection_member_of ::
    "(string \<Rightarrow> js_number) \<Rightarrow> workflow_node \<Rightarrow> workflow_node list \<Rightarrow> workflow_edge list \<Rightarrow> saved_graph_origin list
       \<Rightarrow> workflow_input_plug \<Rightarrow> collection_member" where
  "collection_member_of number node nodes edges origins plug =
     (case find (\<lambda>candidate. o_to_node candidate = wn_id node \<and> o_to_port candidate = COLLECTION_PORT
                   \<and> o_to_plug candidate = Defined (wp_id plug)) origins of
        Some origin \<Rightarrow> LibraryMember (wp_id plug) (o_id origin) (cardArtifactRefs (o_value origin))
      | None \<Rightarrow>
          (case find (edge_on_plug number (wn_id node) (wp_id plug)) edges of
             None \<Rightarrow> EmptyMember (wp_id plug)
           | Some edge \<Rightarrow>
               (case edge_source_port number edge of
                  None \<Rightarrow> EmptyMember (wp_id plug)
                | Some sourcePortName \<Rightarrow>
                    if sourcePortName = [] then EmptyMember (wp_id plug)
                    else OutputMember (wp_id plug) (wg_id edge) (wg_source edge) sourcePortName
                      (map_option (\<lambda>output. cardArtifactRefs (ro_value output))
                        (succeeded_output
                          (Option.bind (find (\<lambda>candidate. wn_id candidate = wg_source edge) nodes) (\<lambda>n. wd_run (wn_data n)))
                          (Some sourcePortName))))))"

definition collectionMembers ::
    "(string \<Rightarrow> js_number) \<Rightarrow> workflow_node \<Rightarrow> workflow_node list \<Rightarrow> workflow_edge list \<Rightarrow> saved_graph_origin list
       \<Rightarrow> collection_member list" where
  "collectionMembers number node nodes edges origins =
     map (collection_member_of number node nodes edges origins) (inputPlugsForPort (wd_inputPlugs (wn_data node)) COLLECTION_PORT)"

definition collectionSparePlugId :: "collection_member list \<Rightarrow> string option" where
  "collectionSparePlugId members = map_option member_plug (find is_empty_member members)"

definition collectionHoldsArtifacts :: "collection_member list \<Rightarrow> json list \<Rightarrow> bool" where
  "collectionHoldsArtifacts members refs \<longleftrightarrow>
     refs \<noteq> [] \<and> list_all (\<lambda>ref. ref_id ref \<in> ref_id ` set (concat (map member_refs members))) refs"

definition collectionsWithoutSpare ::
    "(string \<Rightarrow> js_number) \<Rightarrow> workflow_node list \<Rightarrow> workflow_edge list \<Rightarrow> saved_graph_origin list \<Rightarrow> string list" where
  "collectionsWithoutSpare number nodes edges origins =
     map wn_id (filter (\<lambda>node. collectionSparePlugId (collectionMembers number node nodes edges origins) = None)
       (filter isCollectionNode nodes))"

subsection \<open>Collecting cards\<close>

datatype collection_source =
    LibrarySource string point json
  | OutputCardSource string point string string

fun source_card :: "collection_source \<Rightarrow> string" where
  "source_card (LibrarySource cardId position value) = cardId"
| "source_card (OutputCardSource cardId position sourceNodeId sourcePortName) = cardId"

fun source_position :: "collection_source \<Rightarrow> point" where
  "source_position (LibrarySource cardId position value) = position"
| "source_position (OutputCardSource cardId position sourceNodeId sourcePortName) = position"

record collect_plan =
  cp_collectionId :: string
  cp_commands :: "graph_command list"
  cp_removedCardIds :: "string list"

definition output_port_of :: "workflow_node list \<Rightarrow> string \<Rightarrow> string \<Rightarrow> (workflow_node \<times> port) option" where
  "output_port_of nodes sourceNodeId sourcePortName =
     Option.bind (find (\<lambda>node. wn_id node = sourceNodeId) nodes) (\<lambda>producer.
       map_option (Pair producer) (find (\<lambda>candidate. po_name candidate = sourcePortName) (ns_outputs (wd_spec (wn_data producer)))))"

fun artifactTypeOfSource :: "collection_source \<Rightarrow> workflow_node list \<Rightarrow> artifact_type_key option" where
  "artifactTypeOfSource (LibrarySource cardId position value) nodes = Some (artifactTypeForValue value)"
| "artifactTypeOfSource (OutputCardSource cardId position sourceNodeId sourcePortName) nodes =
     (case output_port_of nodes sourceNodeId sourcePortName of
        None \<Rightarrow> None
      | Some (producer, port) \<Rightarrow>
          (case succeeded_output (wd_run (wn_data producer)) (Some sourcePortName) of
             Some output \<Rightarrow> Some (artifactTypeForValue (ro_value output))
           | None \<Rightarrow> resolvedPortArtifactType port (wd_artifactTypeBindings (wn_data producer))))"

definition collectDisabledReason :: "collection_source list \<Rightarrow> workflow_node list \<Rightarrow> string option" where
  "collectDisabledReason sources nodes =
     (let types = map (\<lambda>source. artifactTypeOfSource source nodes) sources
      in if length sources < 2 then Some ''Select two or more artifacts to collect.''
         else if None \<in> set types then Some ''Run the producing node first, so its artifact type is known.''
         else if list_ex (\<lambda>t. t \<noteq> hd types) types then Some ''Select artifacts of one type to collect.''
         else None)"

text \<open>
  The comparator of the reading order: \<open>left.y - right.y\<close> when its size is over 24, else by \<open>x\<close>. A difference of
  infinities of one sign is \<open>NaN\<close>, whose size is not over 24.
\<close>

definition card_reading_order :: "point \<Rightarrow> point \<Rightarrow> int" where
  "card_reading_order left right =
     (case (pt_y left, pt_y right) of
        (Finite a, Finite b) \<Rightarrow> if \<bar>a - b\<bar> > 24 then number_order (pt_y left) (pt_y right) else number_order (pt_x left) (pt_x right)
      | (a, b) \<Rightarrow> if number_order a b \<noteq> 0 then number_order a b else number_order (pt_x left) (pt_x right))"

definition output_key :: "string \<Rightarrow> string \<Rightarrow> string" where
  "output_key sourceNodeId sourcePortName = sourceNodeId @ '':'' @ sourcePortName"

fun new_members :: "json list \<Rightarrow> string list \<Rightarrow> collection_source list \<Rightarrow> collection_source list" where
  "new_members seenArtifacts seenOutputs [] = []"
| "new_members seenArtifacts seenOutputs (OutputCardSource cardId position sourceNodeId sourcePortName # rest) =
     (if output_key sourceNodeId sourcePortName \<in> set seenOutputs then new_members seenArtifacts seenOutputs rest
      else OutputCardSource cardId position sourceNodeId sourcePortName
             # new_members seenArtifacts (seenOutputs @ [output_key sourceNodeId sourcePortName]) rest)"
| "new_members seenArtifacts seenOutputs (LibrarySource cardId position value # rest) =
     (let ids = map ref_id (cardArtifactRefs value)
      in if list_all (\<lambda>i. i \<in> set seenArtifacts) ids then new_members seenArtifacts seenOutputs rest
         else LibrarySource cardId position value # new_members (seenArtifacts @ ids) seenOutputs rest)"

definition ordered_sources :: "collection_source list \<Rightarrow> collection_source list" where
  "ordered_sources sources =
     new_members [] [] (js_sort (\<lambda>left right. card_reading_order (source_position left) (source_position right)) sources)"

text \<open>
  The ids drawn in order: one per member, the spare plug, the node, then one per origin or edge. \<open>createNodeData\<close> is the
  caller's function, a parameter as in the code.
\<close>

definition numbered_members :: "(nat \<Rightarrow> string) \<Rightarrow> collection_source list \<Rightarrow> (collection_source \<times> string \<times> string) list" where
  "numbered_members uuids ordered = map (\<lambda>(k, source). (source, uuids k, uuids (length ordered + 2 + k))) (enumerate 0 ordered)"

definition member_plugs :: "(nat \<Rightarrow> string) \<Rightarrow> collection_source list \<Rightarrow> input_plug list" where
  "member_plugs uuids ordered =
     map (\<lambda>(source, plugId, uuid). \<lparr>plug_id = plugId, plug_port = COLLECTION_PORT\<rparr>) (numbered_members uuids ordered)
     @ [\<lparr>plug_id = uuids (length ordered), plug_port = COLLECTION_PORT\<rparr>]"

definition direct_edge_data :: workflow_edge_data where
  "direct_edge_data =
     \<lparr>we_enabled = True, we_collectionMode = Direct, we_projection = None, we_conversionPath = Some [], we_routeOffset = None,
      we_sourcePortName = None, we_targetPortName = None, we_targetPlugId = Undefined, we_compatibilityIssues = None\<rparr>"

definition library_command :: "string \<Rightarrow> string \<Rightarrow> string \<Rightarrow> json \<Rightarrow> graph_command" where
  "library_command collectionId plugId uuid value =
     AddOrigin \<lparr>o_id = ''origin-'' @ uuid, o_to_node = collectionId, o_to_port = COLLECTION_PORT, o_to_plug = Defined plugId,
                o_value = value, o_collection_mode = Direct, o_conversion_path = []\<rparr>"

text \<open>\<open>Inl\<close> is an exception, \<open>Inr None\<close> the early \<open>return null\<close>.\<close>

definition output_command ::
    "(string \<Rightarrow> js_number) \<Rightarrow> workflow_node list \<Rightarrow> port_meta \<Rightarrow> string \<Rightarrow> string \<Rightarrow> string \<Rightarrow> string \<Rightarrow> string + graph_command option" where
  "output_command number nodes targetMeta collectionId uuid sourceNodeId sourcePortName =
     (case output_port_of nodes sourceNodeId sourcePortName of
        None \<Rightarrow> Inr None
      | Some (producer, port) \<Rightarrow>
          (case portMetaForPort port (effectivePortShape (wn_data producer) port) None (wd_artifactTypeBindings (wn_data producer)) of
             Inl err \<Rightarrow> Inl err
           | Inr sourceMeta \<Rightarrow>
               map_sum id Some
                 (addEdgeCommand number
                    \<lparr>nc_source = wn_id producer, nc_target = collectionId, nc_sourceHandle = Some (encodeHandleId sourceMeta),
                     nc_targetHandle = Some (encodeHandleId targetMeta)\<rparr>
                    (Some direct_edge_data) (''edge-'' @ uuid))))"

fun member_commands ::
    "(string \<Rightarrow> js_number) \<Rightarrow> workflow_node list \<Rightarrow> port \<Rightarrow> artifact_type_bindings \<Rightarrow> string \<Rightarrow> (collection_source \<times> string \<times> string) list
       \<Rightarrow> string + graph_command list option" where
  "member_commands number nodes itemsPort bindings collectionId [] = Inr (Some [])"
| "member_commands number nodes itemsPort bindings collectionId ((source, plugId, uuid) # members) =
     (case portMetaForPort itemsPort (po_shape itemsPort) (Some plugId) bindings of
        Inl err \<Rightarrow> Inl err
      | Inr targetMeta \<Rightarrow>
          (case (case source of
                   LibrarySource cardId position value \<Rightarrow> Inr (Some (library_command collectionId plugId uuid value))
                 | OutputCardSource cardId position sourceNodeId sourcePortName \<Rightarrow>
                     output_command number nodes targetMeta collectionId uuid sourceNodeId sourcePortName) of
             Inl err \<Rightarrow> Inl err
           | Inr None \<Rightarrow> Inr None
           | Inr (Some command) \<Rightarrow>
               map_sum id (map_option (Cons command)) (member_commands number nodes itemsPort bindings collectionId members)))"

definition collectCardsCommands ::
    "(string \<Rightarrow> js_number) \<Rightarrow> (nat \<Rightarrow> string) \<Rightarrow> collection_source list \<Rightarrow> workflow_node list \<Rightarrow> node_spec
       \<Rightarrow> (node_spec \<Rightarrow> input_plug list \<Rightarrow> workflow_node_data) \<Rightarrow> string + collect_plan option" where
  "collectCardsCommands number uuids sources nodes collectSpec createNodeData =
     (if collectDisabledReason sources nodes \<noteq> None then Inr None
      else case (find (\<lambda>port. po_name port = COLLECTION_PORT) (ns_inputs collectSpec), artifactTypeOfSource (hd sources) nodes) of
             (Some itemsPort, Some artifactType) \<Rightarrow>
               (case non_empty (po_artifact_type_variable itemsPort) of
                  None \<Rightarrow> Inr None
                | Some variable \<Rightarrow>
                    let ordered = ordered_sources sources;
                        collectionId = ''node-'' @ uuids (length ordered + 1);
                        bindings = [(variable, artifactType)];
                        node = addNodeCommand collectionId
                                 ((createNodeData collectSpec (member_plugs uuids ordered))\<lparr>wd_artifactTypeBindings := bindings\<rparr>)
                                 \<lparr>pt_x = js_minimum (map (\<lambda>source. pt_x (source_position source)) sources),
                                  pt_y = js_minimum (map (\<lambda>source. pt_y (source_position source)) sources)\<rparr>
                    in map_sum id (map_option (\<lambda>commands.
                         \<lparr>cp_collectionId = collectionId, cp_commands = node # commands, cp_removedCardIds = map source_card sources\<rparr>))
                         (member_commands number nodes itemsPort bindings collectionId (numbered_members uuids ordered)))
           | _ \<Rightarrow> Inr None)"

subsection \<open>Ungrouping\<close>

datatype ungrouped_card = LibraryCard point json | OutputCard point string string

definition ungroupCollectionDisabledReason :: "string \<Rightarrow> workflow_edge list \<Rightarrow> string option" where
  "ungroupCollectionDisabledReason collectionId edges =
     (if list_ex (\<lambda>edge. wg_source edge = collectionId) edges
      then Some ''Disconnect this collection's output before ungrouping it.'' else None)"

fun ungrouped_card_of :: "string \<Rightarrow> point \<Rightarrow> collection_member \<Rightarrow> ungrouped_card list" where
  "ungrouped_card_of uuid position (LibraryMember plugId originId refs) =
     (let value = artifactCardValue refs JNull False uuid in if value = JNull then [] else [LibraryCard position value])"
| "ungrouped_card_of uuid position (OutputMember plugId edgeId sourceNodeId sourcePortName refs) =
     [OutputCard position sourceNodeId sourcePortName]"
| "ungrouped_card_of uuid position (EmptyMember plugId) = []"

definition ungroupedCollectionCards ::
    "(nat \<Rightarrow> string) \<Rightarrow> point \<Rightarrow> collection_member list \<Rightarrow> js_number \<Rightarrow> js_number \<Rightarrow> ungrouped_card list" where
  "ungroupedCollectionCards uuids corner members cardWidth cardHeight =
     (let filled = filter (\<lambda>member. \<not> is_empty_member member) members; columns = max 1 (ceil_sqrt (length filled))
      in concat (map (\<lambda>(index, member).
           ungrouped_card_of (uuids index)
             (grid_cell corner (js_add cardWidth (Finite 64)) (js_add cardHeight (Finite 88)) columns index) member)
           (enumerate 0 filled)))"

end
