(* ===== verification/ArtifactInputs_Facts.thy ===== *)
theory ArtifactInputs_Facts
  imports ArtifactInputs
begin

section \<open>What a drop does to the document\<close>

text \<open>
  What a drag writes is what the drop reads; a drop that is taken puts its artifacts on exactly one input, through a
  conversion the registry declares, and frees that input of enabled edges.
\<close>

subsection \<open>Writing and reading a drag\<close>

lemma set_then_get [simp]:
  "getData kind (setData kind (JsonText v) dataTransfer) = Some (JsonText v)"
  "kind \<noteq> other \<Longrightarrow> getData kind (setData other txt dataTransfer) = getData kind dataTransfer"
  by (simp_all add: getData_def setData_def obj_set_get)

definition written_payload :: "drop_payload \<Rightarrow> bool" where
  "written_payload payload \<longleftrightarrow>
     (\<exists>entries. dp_value payload = JObject entries) \<and> json_norm (dp_value payload) = dp_value payload
     \<and> payload = artifactDropPayload (dp_value payload)"

lemma payload_reads_back:
  assumes "written_payload payload"
  shows "parseArtifactDropPayload (json_norm (payload_json payload)) = Some payload"
proof -
  from assms obtain entries where v: "dp_value payload = JObject entries" "json_norm (JObject entries) = JObject entries"
    and p: "payload = artifactDropPayload (JObject entries)"
    by (auto simp: written_payload_def)
  show ?thesis
    by (cases "is_sequence (JObject entries)")
      (simp_all add: p artifactDropPayload_def payload_json_def parseArtifactDropPayload_def parse_shaped_def in_object_def obj_get_def
        shape_of_json_def decode_shape_def v(2) [simplified])
qed

lemma drag_round_trip:
  assumes "list_all written_payload payloads" and "ARTIFACT_GROUPS_DATA_TYPE \<notin> fst ` set dataTransfer"
  shows "payloads \<noteq> [] \<Longrightarrow> readArtifactDropGroups parse (writeArtifactDropGroups dataTransfer payloads) = payloads"
proof -
  assume "payloads \<noteq> []"
  then obtain first rest where payloads: "payloads = first # rest" by (cases payloads) auto
  have kinds: "ARTIFACT_GROUPS_DATA_TYPE \<noteq> ARTIFACT_DROP_DATA_TYPE" by (simp add: ARTIFACT_GROUPS_DATA_TYPE_def ARTIFACT_DROP_DATA_TYPE_def)
  have none: "getData ARTIFACT_GROUPS_DATA_TYPE dataTransfer = None"
    using assms(2) by (simp add: getData_def map_of_eq_None_iff [THEN iffD2])
  have "payload_json p \<noteq> JUndefined" for p by (simp add: payload_json_def)
  then have norm: "json_norm (JArray (map payload_json payloads)) = JArray (map (\<lambda>p. json_norm (payload_json p)) payloads)" by simp
  have groups: "List.map_filter parseArtifactDropPayload (map (\<lambda>p. json_norm (payload_json p)) ps) = ps"
    if "list_all written_payload ps" for ps
    using that by (induction ps) (simp_all add: List.map_filter_simps payload_reads_back del: json_norm.simps)
  show ?thesis
  proof (cases rest)
    case Nil
    with assms(1) payloads kinds show ?thesis
      by (simp add: readArtifactDropGroups_def writeArtifactDropGroups_def readArtifactDrop_def none parsed_text_def payload_reads_back
          del: json_norm.simps)
  next
    case (Cons second others)
    with assms(1) payloads kinds groups [OF assms(1)] norm show ?thesis
      by (simp add: readArtifactDropGroups_def writeArtifactDropGroups_def parsed_text_def parse_groups_def del: json_norm.simps)
  qed
qed

subsection \<open>What a taken drop promises\<close>

lemma resolution_sound:
  assumes "resolveArtifactDrop compare payload port bindings conversions = Some r"
  shows "po_direction port = Input \<and> dr_collectionMode r \<in> set (originCollectionModes port (dp_shape payload))
    \<and> (\<exists>path. \<exists>t\<in>set (accepted_types port bindings).
          dr_conversionPath r = map cv_key path \<and> chain conversions (artifactTypeForValue (dp_value payload)) path t)"
proof -
  let ?source = "artifactTypeForValue (dp_value payload)"
  from assms obtain mode where mode: "po_direction port = Input" "dropCollectionMode port (dp_shape payload) = Some mode"
    by (auto simp: resolveArtifactDrop_def split: if_splits option.splits)
  then have "mode \<in> set (originCollectionModes port (dp_shape payload))" by (auto simp: dropCollectionMode_def split: list.splits)
  moreover have "dr_collectionMode r = mode \<and> (\<exists>path. \<exists>t\<in>set (accepted_types port bindings).
      dr_conversionPath r = map cv_key path \<and> chain conversions ?source path t)"
  proof (cases "?source \<in> set (accepted_types port bindings)")
    case True
    then have "accepted_types port bindings \<noteq> []" by auto
    with True assms mode have "r = \<lparr>dr_conversionPath = [], dr_collectionMode = mode\<rparr>"
      by (auto simp: resolveArtifactDrop_def list_ex_iff)
    with True show ?thesis by (intro conjI exI [of _ "[]"]) auto
  next
    case False
    with assms mode obtain path where found: "shortestConversionPathsToAny compare ?source (accepted_types port bindings) conversions = Some [path]"
      and r: "r = \<lparr>dr_conversionPath = map (\<lambda>c. project_conversion (cv_key c)) path, dr_collectionMode = mode\<rparr>"
      by (auto simp: resolveArtifactDrop_def list_ex_iff Let_def split: if_splits option.splits list.splits)
    from paths_to_any [OF found, of path] obtain t where "t \<in> set (accepted_types port bindings)" "chain conversions ?source path t"
      by (auto simp: simple_chain_def)
    with r show ?thesis by auto
  qed
  ultimately show ?thesis using mode by simp
qed

text \<open>The value an input holds after a drop: the dropped artifacts, after what it held when both are of one type.\<close>

lemma origin_refs:
  assumes "payload = artifactDropPayload v" and "value_field ''artifact_type'' v = JString t"
  shows "\<exists>earlier. cardArtifactRefs (collectedOriginValue uuid payload port existing path) = earlier @ cardArtifactRefs v
    \<and> (earlier = [] \<or> (\<exists>origin. existing = Some origin \<and> earlier = cardArtifactRefs (o_value origin) \<and> shareOneArtifactType (o_value origin) v))"
proof -
  from assms(2) obtain entries where v: "v = JObject entries" by (cases v) (simp_all add: value_field_def)
  have alone: "cardArtifactRefs (sequenceOfOne uuid v) = cardArtifactRefs v" if "\<not> is_sequence v"
    using that by (simp add: v sequenceOfOne_def artifactCardValue_def shareOneArtifactType_def cardArtifactRefs_def is_sequence_def
        in_object_def obj_get_def)
  have appended: "cardArtifactRefs (appended_value uuid prior v) = cardArtifactRefs prior @ cardArtifactRefs v"
    if "\<not> is_sequence v" "shareOneArtifactType prior v" for prior
  proof -
    from that(2) assms(2) obtain held where prior: "prior = JObject held"
      by (cases prior) (simp_all add: shareOneArtifactType_def value_field_def)
    have "cardArtifactRefs v = [v]" using that(1) by (simp add: v cardArtifactRefs_def is_sequence_def)
    moreover have "\<not> is_sequence prior \<Longrightarrow> cardArtifactRefs prior = [prior]" by (simp add: prior cardArtifactRefs_def is_sequence_def)
    ultimately show ?thesis
      by (cases "is_sequence prior") (simp_all add: appended_value_def cardArtifactRefs_def [of "JObject _"] in_object_def obj_get_def)
  qed
  show ?thesis
  proof (cases "is_sequence v \<or> Many \<notin> set (acceptedPortShapes port)")
    case True
    then show ?thesis by (auto simp: collectedOriginValue_def assms(1) artifactDropPayload_def)
  next
    case False
    then have v': "\<not> is_sequence v" "Many \<in> set (acceptedPortShapes port)" by simp_all
    define kept where "kept = (if portAcceptsOnlySequences port then sequenceOfOne uuid v else v)"
    with alone [OF v'(1)] have kept: "cardArtifactRefs kept = [] @ cardArtifactRefs v" by simp
    show ?thesis
    proof (cases "path = [] \<and> has_field ''artifact_id'' v \<and> (\<exists>origin. existing = Some origin \<and> shareOneArtifactType (o_value origin) v)")
      case True
      then obtain origin where origin: "existing = Some origin" "shareOneArtifactType (o_value origin) v" by blast
      with True v' have "collectedOriginValue uuid payload port existing path = appended_value uuid (o_value origin) v"
        by (simp add: collectedOriginValue_def assms(1) artifactDropPayload_def)
      with appended [OF v'(1) origin(2)] origin show ?thesis by auto
    next
      case False
      with v' have "collectedOriginValue uuid payload port existing path = kept"
        by (cases existing) (simp_all add: collectedOriginValue_def assms(1) artifactDropPayload_def kept_def)
      with kept show ?thesis by auto
    qed
  qed
qed

subsection \<open>The document after a drop\<close>

text \<open>The edges of the canvas as far as a drop reads them, against the edges of the document.\<close>

definition edge_shows :: "(string \<Rightarrow> js_number) \<Rightarrow> saved_graph_edge \<Rightarrow> workflow_edge \<Rightarrow> bool" where
  "edge_shows number saved edge \<longleftrightarrow>
     wg_id edge = e_id saved \<and> wg_target edge = e_to_node saved
     \<and> (case wg_data edge of Some data \<Rightarrow> we_enabled data | None \<Rightarrow> True) = e_enabled saved
     \<and> (case decodeHandleId number (wg_targetHandle edge) of
          Some handle \<Rightarrow> pm_portName handle = e_to_port saved \<and> pm_plugId handle = undefined_of (e_to_plug saved)
        | None \<Rightarrow> False)"

definition saved_edge_into :: "drop_target \<Rightarrow> saved_graph_edge \<Rightarrow> bool" where
  "saved_edge_into target saved \<longleftrightarrow>
     e_enabled saved \<and> e_to_node saved = dt_nodeId target \<and> e_to_port saved = dt_portName target
     \<and> undefined_of (e_to_plug saved) = dt_plugId target"

lemma shown_edge_into: "edge_shows number saved edge \<Longrightarrow> enabled_edge_into number target edge = saved_edge_into target saved"
  by (auto simp: edge_shows_def enabled_edge_into_def saved_edge_into_def split: option.splits)

lemma shown_edge_id: "edge_shows number saved edge \<Longrightarrow> wg_id edge = e_id saved"
  by (simp add: edge_shows_def)

lemma enabled_ids:
  "list_all2 (edge_shows number) saved edges
     \<Longrightarrow> map wg_id (filter (enabled_edge_into number target) edges) = map e_id (filter (saved_edge_into target) saved)"
  by (induction rule: list_all2_induct) (simp_all add: shown_edge_into shown_edge_id)

lemma filter_by_keys:
  assumes "distinct (map key xs)"
  shows "filter (\<lambda>x. key x \<notin> set (map key (filter P xs))) xs = filter (\<lambda>x. \<not> P x) xs"
  by (rule filter_cong [OF refl]) (use assms in \<open>auto simp: distinct_map dest: inj_onD\<close>)

lemma edges_removed:
  assumes "distinct (map e_id (d_edges d))" and "ids = map e_id (filter P (d_edges d))"
  shows "run_commands applyGraphCommandNormalized d (if ids \<noteq> [] then [RemoveEdges ids] else [])
    = Inr (d\<lparr>d_edges := filter (\<lambda>e. \<not> P e) (d_edges d)\<rparr>)"
proof (cases "ids = []")
  case True
  with assms(2) have "filter (\<lambda>e. \<not> P e) (d_edges d) = d_edges d" by (simp add: filter_empty_conv)
  with True show ?thesis by simp
next
  case False
  with filter_by_keys [OF assms(1), of P] assms(2) show ?thesis by (simp add: apply_remove_edges_def)
qed

lemma find_append: "find P (xs @ ys) = (case find P xs of Some x \<Rightarrow> Some x | None \<Rightarrow> find P ys)"
  by (induction xs) simp_all

lemma find_split: "find P xs = Some x \<Longrightarrow> \<exists>before after. xs = before @ x # after \<and> P x \<and> filter P before = []"
  by (induction xs) (auto split: if_splits intro: exI [of _ "[]"], metis append_Cons filter.simps(2))

lemma map_one_key:
  assumes "distinct (map key (before @ x # after))"
  shows "map (\<lambda>y. if key y = key x then f y else y) (before @ x # after) = before @ f x # after"
  using assms by (auto intro!: map_idI) (metis imageI)+

text \<open>Changing the first origin of an input, or adding one when it has none.\<close>

definition drop_update :: "json \<Rightarrow> collection_mode \<Rightarrow> graph_conversion list \<Rightarrow> origin_update" where
  "drop_update v mode path =
     no_origin_update\<lparr>ou_value := Some v, ou_collection_mode := Some mode, ou_conversion_path := Some (Defined path)\<rparr>"

lemma input_after_update:
  fixes v mode path
  assumes "distinct (map o_id (d_origins d))" and "find (on_input target) (d_origins d) = Some origin"
  defines "update \<equiv> drop_update v mode path"
  shows "\<exists>os. applyGraphCommandNormalized d (UpdateOrigin (o_id origin) update) = Inr (d\<lparr>d_origins := os\<rparr>)
    \<and> filter (\<lambda>x. \<not> on_input target x) os = filter (\<lambda>x. \<not> on_input target x) (d_origins d)
    \<and> length (filter (on_input target) os) = max 1 (length (filter (on_input target) (d_origins d)))
    \<and> find (on_input target) os = Some (origin\<lparr>o_value := v, o_collection_mode := mode, o_conversion_path := path\<rparr>)"
proof -
  let ?new = "origin\<lparr>o_value := v, o_collection_mode := mode, o_conversion_path := path\<rparr>"
  obtain before after where split: "d_origins d = before @ origin # after" "on_input target origin" "filter (on_input target) before = []"
    using find_split [OF assms(2)] by blast
  have merged: "merge_origin origin (projectSavedGraphOriginUpdate update) = ?new"
    by (simp add: merge_origin_def projectSavedGraphOriginUpdate_def update_def drop_update_def no_origin_update_def)
  have new: "on_input target ?new" using split(2) by (simp add: on_input_def)
  have "find (\<lambda>x. o_id x = o_id origin) (d_origins d) \<noteq> None" using split(1) by (auto simp: find_None_iff)
  then have "applyGraphCommandNormalized d (UpdateOrigin (o_id origin) update)
      = Inr (d\<lparr>d_origins := map (\<lambda>x. if o_id x = o_id origin then merge_origin x (projectSavedGraphOriginUpdate update) else x) (d_origins d)\<rparr>)"
    by (auto simp: apply_update_origin_def originOrThrow_def)
  also have "map (\<lambda>x. if o_id x = o_id origin then merge_origin x (projectSavedGraphOriginUpdate update) else x) (d_origins d)
      = before @ ?new # after"
    using map_one_key [of o_id before origin after "\<lambda>x. merge_origin x (projectSavedGraphOriginUpdate update)"] assms(1)
    by (simp only: split(1) merged)
  finally have run: "applyGraphCommandNormalized d (UpdateOrigin (o_id origin) update) = Inr (d\<lparr>d_origins := before @ ?new # after\<rparr>)" .
  have "find (on_input target) before = None" using split(3) by (simp add: find_None_iff filter_empty_conv)
  with new have "find (on_input target) (before @ ?new # after) = Some ?new" by (simp add: find_append)
  with run new split show ?thesis by (intro exI [of _ "before @ ?new # after"]) simp
qed

lemma input_after_addition:
  assumes "find (on_input target) (d_origins d) = None" and "o_id origin \<notin> set (map o_id (d_origins d))" and "on_input target origin"
    and "projectSavedGraphOrigin origin = origin"
  shows "\<exists>os. applyGraphCommandNormalized d (AddOrigin origin) = Inr (d\<lparr>d_origins := os\<rparr>)
    \<and> filter (\<lambda>x. \<not> on_input target x) os = filter (\<lambda>x. \<not> on_input target x) (d_origins d)
    \<and> length (filter (on_input target) os) = max 1 (length (filter (on_input target) (d_origins d)))
    \<and> find (on_input target) os = Some origin"
proof -
  from assms(1) have none: "filter (on_input target) (d_origins d) = []" by (simp add: find_None_iff filter_empty_conv)
  have "applyGraphCommandNormalized d (AddOrigin origin) = Inr (d\<lparr>d_origins := d_origins d @ [origin]\<rparr>)"
    using assms(2,4) by (auto simp: apply_add_origin_def image_iff)
  with assms(1,3) none show ?thesis by (intro exI [of _ "d_origins d @ [origin]"]) (simp add: find_append)
qed

lemma drop_commands_shape:
  assumes "artifactDropCommands tp sequenceUuid originUuid payload target port bindings
      \<lparr>dg_edges = edges, dg_origins = origins, dg_conversions = conversions\<rparr> = Some commands"
    and "resolveArtifactDrop (tp_compare tp) payload port bindings conversions = Some r"
  shows "\<exists>merged mode command.
      commands = (if map wg_id (filter (enabled_edge_into (tp_number tp) target) edges) \<noteq> []
          then [RemoveEdges (map wg_id (filter (enabled_edge_into (tp_number tp) target) edges))] else []) @ [command]
    \<and> merged = collectedOriginValue sequenceUuid payload port (find (on_input target) origins) (dr_conversionPath r)
    \<and> (mode = dr_collectionMode r
        \<or> mode = MapItems \<and> (\<exists>held. find (on_input target) origins = Some held \<and> o_collection_mode held = MapItems))
    \<and> command = (case find (on_input target) origins of
        Some origin \<Rightarrow> UpdateOrigin (o_id origin) (drop_update merged mode (dr_conversionPath r))
      | None \<Rightarrow> AddOrigin \<lparr>o_id = ''origin-'' @ originUuid, o_to_node = dt_nodeId target, o_to_port = dt_portName target,
            o_to_plug = null_of (dt_plugId target), o_value = merged, o_collection_mode = mode, o_conversion_path = dr_conversionPath r\<rparr>)"
proof (cases "find (on_input target) origins")
  case None
  with assms show ?thesis
    by (intro exI [of _ "collectedOriginValue sequenceUuid payload port None (dr_conversionPath r)"] exI [of _ "dr_collectionMode r"])
      (cases "dr_collectionMode r", auto simp: artifactDropCommands_def Let_def)
next
  case (Some held)
  with assms show ?thesis
    by (intro exI [of _ "collectedOriginValue sequenceUuid payload port (Some held) (dr_conversionPath r)"]
          exI [of _ "if dp_shape payload = Many \<and> o_collection_mode held = MapItems then MapItems else dr_collectionMode r"])
      (cases "dr_collectionMode r", auto simp: artifactDropCommands_def drop_update_def Let_def)
qed


definition demo_rows_port :: port where
  "demo_rows_port =
     \<lparr>po_name = ''rows'', po_direction = Input, po_shape = Many, po_accepted_shapes = [Many],
      po_artifact_type = Defined (demo_type ''table''), po_artifact_type_variable = Undefined, po_also_accepts = None,
      po_instance_plugs = False, po_required = True, po_variadic = False, po_shape_field = Undefined\<rparr>"

definition demo_artifact :: "string \<Rightarrow> json" where
  "demo_artifact name =
     JObject [(''artifact_id'', JString name), (''artifact_type'', JString ''table''), (''schema_version'', JNumber (Finite 1))]"

definition demo_slot :: drop_target where
  "demo_slot = \<lparr>dt_nodeId = ''b'', dt_portName = ''rows'', dt_plugId = None\<rparr>"

definition demo_tables :: authored_graph_document where
  "demo_tables = \<lparr>d_name = ''Tables'', d_nodes = [], d_edges = [],
     d_origins = [\<lparr>o_id = ''origin-1'', o_to_node = ''b'', o_to_port = ''rows'', o_to_plug = Null, o_value = demo_artifact ''x'',
       o_collection_mode = Direct, o_conversion_path = []\<rparr>],
     d_agents = []\<rparr>"


end
