(* ===== verification/Collections_Facts.thy ===== *)
theory Collections_Facts
  imports Collections ArtifactInputs_Facts
begin

section \<open>A collection reads back what was collected\<close>

text \<open>
  The commands that build a collection are followed into the document and back through the reader of its members.
\<close>

subsection \<open>The commands of the members\<close>

definition member_edge :: "string \<Rightarrow> string \<Rightarrow> string \<Rightarrow> string \<Rightarrow> string \<Rightarrow> saved_graph_edge" where
  "member_edge collectionId plugId uuid sourceNodeId sourcePortName =
     \<lparr>e_id = ''edge-'' @ uuid, e_from_node = sourceNodeId, e_from_port = sourcePortName, e_to_node = collectionId,
      e_to_port = COLLECTION_PORT, e_to_plug = Defined plugId, e_enabled = True, e_collection_mode = Direct, e_projection = Null,
      e_conversion_path = [], e_route_offset = Null\<rparr>"

definition member_origin :: "string \<Rightarrow> string \<Rightarrow> string \<Rightarrow> json \<Rightarrow> saved_graph_origin" where
  "member_origin collectionId plugId uuid value =
     \<lparr>o_id = ''origin-'' @ uuid, o_to_node = collectionId, o_to_port = COLLECTION_PORT, o_to_plug = Defined plugId,
      o_value = value, o_collection_mode = Direct, o_conversion_path = []\<rparr>"

fun member_command :: "string \<Rightarrow> collection_source \<times> string \<times> string \<Rightarrow> graph_command" where
  "member_command collectionId (LibrarySource cardId position value, plugId, uuid) = AddOrigin (member_origin collectionId plugId uuid value)"
| "member_command collectionId (OutputCardSource cardId position sourceNodeId sourcePortName, plugId, uuid) =
     AddEdge (member_edge collectionId plugId uuid sourceNodeId sourcePortName)"

text \<open>The handles a collection writes have to survive being written: no colon in a name, versions that read back.\<close>

definition meta_encodable :: "(string \<Rightarrow> js_number) \<Rightarrow> string + port_meta \<Rightarrow> bool" where
  "meta_encodable number meta = (case meta of Inr m \<Rightarrow> encodable number m | Inl _ \<Rightarrow> True)"

fun member_encodable ::
    "(string \<Rightarrow> js_number) \<Rightarrow> workflow_node list \<Rightarrow> port \<Rightarrow> artifact_type_bindings \<Rightarrow> collection_source \<times> string \<times> string \<Rightarrow> bool" where
  "member_encodable number nodes itemsPort bindings (source, plugId, uuid) \<longleftrightarrow>
     meta_encodable number (portMetaForPort itemsPort (po_shape itemsPort) (Some plugId) bindings)
     \<and> (case source of
          LibrarySource cardId position value \<Rightarrow> True
        | OutputCardSource cardId position sourceNodeId sourcePortName \<Rightarrow>
            (case output_port_of nodes sourceNodeId sourcePortName of
               None \<Rightarrow> True
             | Some (producer, port) \<Rightarrow>
                 meta_encodable number (portMetaForPort port (effectivePortShape (wn_data producer) port) None
                   (wd_artifactTypeBindings (wn_data producer)))))"

lemma meta_of_port: "portMetaForPort port shape plugId bindings = Inr m \<Longrightarrow>
    pm_portName m = po_name port \<and> pm_plugId m = (case plugId of Some p \<Rightarrow> if p = [] then None else Some p | None \<Rightarrow> None)"
  by (auto simp: portMetaForPort_def Let_def split: option.splits)

lemma output_port_found: "output_port_of nodes sourceNodeId sourcePortName = Some (producer, port)
    \<Longrightarrow> wn_id producer = sourceNodeId \<and> po_name port = sourcePortName"
  by (auto simp: output_port_of_def bind_eq_Some_conv find_Some_iff)

fun named_output :: "collection_source \<Rightarrow> bool" where
  "named_output (LibrarySource cardId position value) = True"
| "named_output (OutputCardSource cardId position sourceNodeId sourcePortName) \<longleftrightarrow> sourcePortName \<noteq> []"

lemma mapped_result [simp]: "map_sum id (map_option f) r = Inr (Some y) \<longleftrightarrow> (\<exists>x. r = Inr (Some x) \<and> y = f x)"
  by (cases r) (auto simp: map_option_eq_Some)

lemma member_commands_are:
  assumes "member_commands number nodes itemsPort bindings collectionId members = Inr (Some commands)"
    and "po_name itemsPort = COLLECTION_PORT" and "list_all (member_encodable number nodes itemsPort bindings) members"
    and "list_all (\<lambda>(source, plugId, uuid). plugId \<noteq> []) members"
  shows "commands = map (member_command collectionId) members \<and> list_all (\<lambda>m. named_output (fst m)) members"
  using assms
proof (induction members arbitrary: commands)
  case (Cons member members)
  obtain source plugId uuid where member: "member = (source, plugId, uuid)" by (cases member)
  from Cons.prems(1) obtain m where m: "portMetaForPort itemsPort (po_shape itemsPort) (Some plugId) bindings = Inr m"
    by (auto simp: member split: sum.splits)
  with Cons.prems(2-4) have target: "decodeHandleId number (Some (encodeHandleId m)) = Some m" "pm_portName m = COLLECTION_PORT" "pm_plugId m = Some plugId"
    by (auto simp: member meta_encodable_def handle_decodes dest: meta_of_port)
  have "\<exists>rest. commands = member_command collectionId member # rest \<and> named_output source
      \<and> member_commands number nodes itemsPort bindings collectionId members = Inr (Some rest)"
  proof (cases source)
    case (LibrarySource cardId position v)
    with Cons.prems(1) m show ?thesis
      by (auto simp: member library_command_def member_origin_def split: option.splits sum.splits)
  next
    case (OutputCardSource cardId position sourceNodeId sourcePortName)
    from Cons.prems(1) m OutputCardSource obtain producer port sm where
      found: "output_port_of nodes sourceNodeId sourcePortName = Some (producer, port)"
      and sm: "portMetaForPort port (effectivePortShape (wn_data producer) port) None (wd_artifactTypeBindings (wn_data producer)) = Inr sm"
      by (auto simp: member output_command_def split: option.splits sum.splits)
    from Cons.prems(3) found sm have source: "decodeHandleId number (Some (encodeHandleId sm)) = Some sm"
      by (simp add: member OutputCardSource meta_encodable_def handle_decodes)
    note named = output_port_found [OF found] meta_of_port [OF sm]
    show ?thesis
    proof (cases "sourceNodeId = [] \<or> collectionId = [] \<or> sourcePortName = []")
      case True
      with Cons.prems(1) m found sm source target named OutputCardSource show ?thesis
        by (auto simp: member output_command_def addEdgeCommand_def COLLECTION_PORT_def split: option.splits sum.splits)
    next
      case False
      with Cons.prems(1) m found sm source target named OutputCardSource show ?thesis
        by (auto simp: member output_command_def addEdgeCommand_def direct_edge_data_def member_edge_def COLLECTION_PORT_def
            split: option.splits sum.splits)
    qed
  qed
  with Cons.IH Cons.prems(2-4) show ?case by (auto simp: member)
qed simp

subsection \<open>The document with the collection\<close>

fun member_origins :: "string \<Rightarrow> (collection_source \<times> string \<times> string) list \<Rightarrow> saved_graph_origin list" where
  "member_origins collectionId [] = []"
| "member_origins collectionId ((LibrarySource cardId position value, plugId, uuid) # members) =
     member_origin collectionId plugId uuid value # member_origins collectionId members"
| "member_origins collectionId ((OutputCardSource cardId position sourceNodeId sourcePortName, plugId, uuid) # members) =
     member_origins collectionId members"

fun member_edges :: "string \<Rightarrow> (collection_source \<times> string \<times> string) list \<Rightarrow> saved_graph_edge list" where
  "member_edges collectionId [] = []"
| "member_edges collectionId ((LibrarySource cardId position value, plugId, uuid) # members) = member_edges collectionId members"
| "member_edges collectionId ((OutputCardSource cardId position sourceNodeId sourcePortName, plugId, uuid) # members) =
     member_edge collectionId plugId uuid sourceNodeId sourcePortName # member_edges collectionId members"

lemma member_stored [simp]:
  "projectSavedGraphOrigin (member_origin c p u v) = member_origin c p u v" "projectSavedGraphEdge (member_edge c p u n s) = member_edge c p u n s"
  by (simp_all add: member_origin_def member_edge_def projectSavedGraphOrigin_def projectSavedGraphEdge_def or_null_def)

lemma member_ids [simp]: "o_id (member_origin c p u v) = ''origin-'' @ u" "e_id (member_edge c p u n s) = ''edge-'' @ u"
  by (simp_all add: member_origin_def member_edge_def)

lemma run_member_commands:
  assumes "distinct (map (\<lambda>m. snd (snd m)) members)"
    and "\<forall>m\<in>set members. ''origin-'' @ snd (snd m) \<notin> o_id ` set (d_origins d) \<and> ''edge-'' @ snd (snd m) \<notin> e_id ` set (d_edges d)"
  shows "run_commands applyGraphCommandNormalized d (map (member_command collectionId) members)
    = Inr (d\<lparr>d_edges := d_edges d @ member_edges collectionId members, d_origins := d_origins d @ member_origins collectionId members\<rparr>)"
  using assms
proof (induction collectionId members arbitrary: d rule: member_origins.induct)
  case (2 collectionId cardId position v plugId uuid members)
  let ?d = "d\<lparr>d_origins := d_origins d @ [member_origin collectionId plugId uuid v]\<rparr>"
  from "2.prems"(2) have "applyGraphCommandNormalized d (AddOrigin (member_origin collectionId plugId uuid v)) = Inr ?d"
    by (auto simp: apply_add_origin_def image_iff)
  moreover have "\<forall>m\<in>set members. ''origin-'' @ snd (snd m) \<notin> o_id ` set (d_origins ?d) \<and> ''edge-'' @ snd (snd m) \<notin> e_id ` set (d_edges ?d)"
    using "2.prems" by (auto simp: rev_image_eqI)
  ultimately show ?case using "2.IH" [of ?d] "2.prems"(1) by simp
next
  case (3 collectionId cardId position sourceNodeId sourcePortName plugId uuid members)
  let ?d = "d\<lparr>d_edges := d_edges d @ [member_edge collectionId plugId uuid sourceNodeId sourcePortName]\<rparr>"
  from "3.prems"(2) have "applyGraphCommandNormalized d (AddEdge (member_edge collectionId plugId uuid sourceNodeId sourcePortName)) = Inr ?d"
    by (auto simp: apply_add_edge_def image_iff)
  moreover have "\<forall>m\<in>set members. ''origin-'' @ snd (snd m) \<notin> o_id ` set (d_origins ?d) \<and> ''edge-'' @ snd (snd m) \<notin> e_id ` set (d_edges ?d)"
    using "3.prems" by (auto simp: rev_image_eqI)
  ultimately show ?case using "3.IH" [of ?d] "3.prems"(1) by simp
qed simp

subsection \<open>Reading the members\<close>

definition edge_drawn :: "(string \<Rightarrow> js_number) \<Rightarrow> saved_graph_edge \<Rightarrow> workflow_edge \<Rightarrow> bool" where
  "edge_drawn number saved edge \<longleftrightarrow>
     wg_id edge = e_id saved \<and> wg_source edge = e_from_node saved \<and> wg_target edge = e_to_node saved
     \<and> edge_source_port number edge = Some (e_from_port saved)
     \<and> Option.bind (decodeHandleId number (wg_targetHandle edge)) pm_plugId = undefined_of (e_to_plug saved)"

lemma find_related:
  assumes "list_all2 R xs ys" and "\<And>x y. R x y \<Longrightarrow> P x = Q y"
  shows "rel_option R (find P xs) (find Q ys)"
  using assms(1) by (induction rule: list_all2_induct) (auto simp: assms(2))

abbreviation origin_on :: "string \<Rightarrow> string \<Rightarrow> saved_graph_origin \<Rightarrow> bool" where
  "origin_on collectionId plugId \<equiv>
     (\<lambda>x. o_to_node x = collectionId \<and> o_to_port x = COLLECTION_PORT \<and> o_to_plug x = Defined plugId)"

abbreviation edge_to :: "string \<Rightarrow> string \<Rightarrow> saved_graph_edge \<Rightarrow> bool" where
  "edge_to collectionId plugId \<equiv> (\<lambda>x. e_to_node x = collectionId \<and> undefined_of (e_to_plug x) = Some plugId)"

lemma no_member_found:
  assumes "plugId \<notin> (\<lambda>m. fst (snd m)) ` set members"
  shows "find (origin_on collectionId plugId) (member_origins collectionId members) = None"
    and "find (edge_to collectionId plugId) (member_edges collectionId members) = None"
  using assms by (induction collectionId members rule: member_origins.induct) (auto simp: member_origin_def member_edge_def)

lemma member_found:
  assumes "distinct (map (\<lambda>m. fst (snd m)) members)" and "(source, plugId, uuid) \<in> set members"
  shows "find (origin_on collectionId plugId) (member_origins collectionId members)
      = (case source of LibrarySource cardId position v \<Rightarrow> Some (member_origin collectionId plugId uuid v) | _ \<Rightarrow> None)
    \<and> find (edge_to collectionId plugId) (member_edges collectionId members)
      = (case source of OutputCardSource cardId position n port \<Rightarrow> Some (member_edge collectionId plugId uuid n port) | _ \<Rightarrow> None)"
  using assms
proof (induction collectionId members rule: member_origins.induct)
  case (2 collectionId cardId position v p u members)
  show ?case
  proof (cases "p = plugId")
    case True
    with "2.prems" have here: "source = LibrarySource cardId position v" "uuid = u" by (auto simp: rev_image_eqI)
    from True "2.prems"(1) have "plugId \<notin> (\<lambda>m. fst (snd m)) ` set members" by auto
    with here True show ?thesis by (simp add: member_origin_def no_member_found)
  next
    case False
    with 2 show ?thesis by (auto simp: member_origin_def)
  qed
next
  case (3 collectionId cardId position n port p u members)
  show ?case
  proof (cases "p = plugId")
    case True
    with "3.prems" have here: "source = OutputCardSource cardId position n port" "uuid = u" by (auto simp: rev_image_eqI)
    from True "3.prems"(1) have "plugId \<notin> (\<lambda>m. fst (snd m)) ` set members" by auto
    with here True show ?thesis by (simp add: member_edge_def no_member_found)
  next
    case False
    with 3 show ?thesis by (auto simp: member_edge_def)
  qed
qed simp

fun gathers :: "collection_source \<times> string \<times> string \<Rightarrow> collection_member \<Rightarrow> bool" where
  "gathers (LibrarySource cardId position value, plugId, uuid) m \<longleftrightarrow>
     m = LibraryMember plugId (''origin-'' @ uuid) (cardArtifactRefs value)"
| "gathers (OutputCardSource cardId position sourceNodeId sourcePortName, plugId, uuid) m \<longleftrightarrow>
     (\<exists>refs. m = OutputMember plugId (''edge-'' @ uuid) sourceNodeId sourcePortName refs)"

text \<open>One plug, in a document whose other origins and edges do not reach the collection.\<close>

lemma member_reads_back:
  assumes "\<forall>x\<in>set origins. o_to_node x \<noteq> wn_id node" and "\<forall>x\<in>set saved. e_to_node x \<noteq> wn_id node"
    and "list_all2 (edge_drawn number) (saved @ member_edges (wn_id node) members) edges"
    and "distinct (map (\<lambda>m. fst (snd m)) members)" and "(source, plugId, uuid) \<in> set members"
    and "named_output source"
  shows "gathers (source, plugId, uuid)
    (collection_member_of number node nodes edges (origins @ member_origins (wn_id node) members) \<lparr>wp_id = plugId, wp_portName = COLLECTION_PORT\<rparr>)"
proof -
  note found = member_found [OF assms(4,5), of "wn_id node"]
  have origins: "find (origin_on (wn_id node) plugId) (origins @ member_origins (wn_id node) members)
      = find (origin_on (wn_id node) plugId) (member_origins (wn_id node) members)"
  proof -
    have "find (origin_on (wn_id node) plugId) origins = None" using assms(1) by (auto simp: find_None_iff)
    then show ?thesis by (simp add: find_append)
  qed
  show ?thesis
  proof (cases source)
    case (LibrarySource cardId position v)
    with found show ?thesis by (simp add: collection_member_of_def origins) (simp add: member_origin_def)
  next
    case (OutputCardSource cardId position n port)
    have "rel_option (edge_drawn number) (find (edge_to (wn_id node) plugId) (saved @ member_edges (wn_id node) members))
        (find (edge_on_plug number (wn_id node) plugId) edges)"
      by (rule find_related [OF assms(3)]) (auto simp: edge_drawn_def edge_on_plug_def)
    moreover have "find (edge_to (wn_id node) plugId) saved = None" using assms(2) by (auto simp: find_None_iff)
    ultimately obtain edge where edge: "find (edge_on_plug number (wn_id node) plugId) edges = Some edge"
      "edge_drawn number (member_edge (wn_id node) plugId uuid n port) edge"
      using found OutputCardSource by (auto simp: find_append option_rel_Some1)
    with found OutputCardSource assms(6) show ?thesis
      by (simp add: collection_member_of_def origins edge_drawn_def member_edge_def)
  qed
qed

lemma spare_reads_back:
  assumes "\<forall>x\<in>set origins. o_to_node x \<noteq> wn_id node" and "\<forall>x\<in>set saved. e_to_node x \<noteq> wn_id node"
    and "list_all2 (edge_drawn number) (saved @ member_edges (wn_id node) members) edges"
    and "plugId \<notin> (\<lambda>m. fst (snd m)) ` set members"
  shows "collection_member_of number node nodes edges (origins @ member_origins (wn_id node) members) \<lparr>wp_id = plugId, wp_portName = COLLECTION_PORT\<rparr>
    = EmptyMember plugId"
proof -
  note none = no_member_found [OF assms(4), of "wn_id node"]
  have "find (origin_on (wn_id node) plugId) (origins @ member_origins (wn_id node) members) = None"
    using assms(1) none(1) by (auto simp: find_append find_None_iff split: option.split)
  moreover have "rel_option (edge_drawn number) (find (edge_to (wn_id node) plugId) (saved @ member_edges (wn_id node) members))
      (find (edge_on_plug number (wn_id node) plugId) edges)"
    by (rule find_related [OF assms(3)]) (auto simp: edge_drawn_def edge_on_plug_def)
  moreover have "find (edge_to (wn_id node) plugId) saved = None" using assms(2) by (auto simp: find_None_iff)
  ultimately show ?thesis using none(2) by (simp add: collection_member_of_def find_append)
qed

subsection \<open>What is gathered\<close>

definition library_artifacts :: "collection_source list \<Rightarrow> json set" where
  "library_artifacts sources = (\<Union>source\<in>set sources. case source of LibrarySource cardId position v \<Rightarrow> ref_id ` set (cardArtifactRefs v) | _ \<Rightarrow> {})"

definition output_keys :: "collection_source list \<Rightarrow> string list" where
  "output_keys sources = List.map_filter (\<lambda>source. case source of OutputCardSource cardId position n port \<Rightarrow> Some (output_key n port) | _ \<Rightarrow> None) sources"

lemma gathered_simps [simp]:
  "library_artifacts [] = {}" "output_keys [] = []"
  "library_artifacts (LibrarySource c p v # xs) = ref_id ` set (cardArtifactRefs v) \<union> library_artifacts xs"
  "library_artifacts (OutputCardSource c p n port # xs) = library_artifacts xs"
  "output_keys (LibrarySource c p v # xs) = output_keys xs"
  "output_keys (OutputCardSource c p n port # xs) = output_key n port # output_keys xs"
  by (simp_all add: library_artifacts_def output_keys_def List.map_filter_simps)

lemma new_members_gather:
  "library_artifacts (new_members seen keys xs) \<union> set seen = library_artifacts xs \<union> set seen
   \<and> set (output_keys (new_members seen keys xs)) = set (output_keys xs) - set keys
   \<and> distinct (output_keys (new_members seen keys xs)) \<and> set (new_members seen keys xs) \<subseteq> set xs"
proof (induction seen keys xs rule: new_members.induct)
  case (2 seen keys c p n port xs)
  then show ?case by auto
next
  case (3 seen keys c p v xs)
  show ?case
  proof (cases "list_all (\<lambda>i. i \<in> set seen) (map ref_id (cardArtifactRefs v))")
    case True
    then have "ref_id ` set (cardArtifactRefs v) \<subseteq> set seen" by (auto simp: list_all_iff)
    with True "3.IH"(1) [OF refl True] show ?thesis by auto
  next
    case False
    with "3.IH"(2) [OF refl False] show ?thesis by auto
  qed
qed simp

lemma gathered_set: "set xs = set ys \<Longrightarrow> library_artifacts xs = library_artifacts ys \<and> set (output_keys xs) = set (output_keys ys)"
  by (auto simp: library_artifacts_def output_keys_def List.map_filter_def)

lemma ordered_sources_gather:
  "library_artifacts (ordered_sources sources) = library_artifacts sources
   \<and> set (output_keys (ordered_sources sources)) = set (output_keys sources)
   \<and> distinct (output_keys (ordered_sources sources)) \<and> set (ordered_sources sources) \<subseteq> set sources"
  using new_members_gather [of "[]" "[]" "js_sort (\<lambda>left right. card_reading_order (source_position left) (source_position right)) sources"]
    gathered_set [of "js_sort (\<lambda>left right. card_reading_order (source_position left) (source_position right)) sources" sources]
  by (simp add: ordered_sources_def)

subsection \<open>From cards to members\<close>

definition collect_handles_ok :: "(string \<Rightarrow> js_number) \<Rightarrow> (nat \<Rightarrow> string) \<Rightarrow> collection_source list \<Rightarrow> workflow_node list \<Rightarrow> node_spec \<Rightarrow> bool" where
  "collect_handles_ok number uuids sources nodes collectSpec =
     (case (find (\<lambda>port. po_name port = COLLECTION_PORT) (ns_inputs collectSpec), artifactTypeOfSource (hd sources) nodes) of
        (Some itemsPort, Some t) \<Rightarrow>
          (case non_empty (po_artifact_type_variable itemsPort) of
             Some variable \<Rightarrow> list_all (member_encodable number nodes itemsPort [(variable, t)]) (numbered_members uuids (ordered_sources sources))
           | None \<Rightarrow> True)
      | _ \<Rightarrow> True)"

definition fresh_ids :: "string list \<Rightarrow> authored_graph_document \<Rightarrow> bool" where
  "fresh_ids ids d \<longleftrightarrow>
     distinct ids \<and> [] \<notin> set ids
     \<and> list_all (\<lambda>uuid. ''node-'' @ uuid \<notin> set (map n_id (d_nodes d) @ map o_to_node (d_origins d) @ map e_to_node (d_edges d))
          \<and> ''origin-'' @ uuid \<notin> set (map o_id (d_origins d)) \<and> ''edge-'' @ uuid \<notin> set (map e_id (d_edges d))) ids"

definition canvas_plug :: "input_plug \<Rightarrow> workflow_input_plug" where
  "canvas_plug plug = \<lparr>wp_id = plug_id plug, wp_portName = plug_port plug\<rparr>"

lemma numbered_parts:
  "map (\<lambda>m. fst (snd m)) (numbered_members uuids ordered) = map uuids [0..<length ordered]"
  "map (\<lambda>m. snd (snd m)) (numbered_members uuids ordered) = map uuids [length ordered + 2..<2 * length ordered + 2]"
  "map fst (numbered_members uuids ordered) = ordered"
proof -
  show "map (\<lambda>m. fst (snd m)) (numbered_members uuids ordered) = map uuids [0..<length ordered]"
    by (rule nth_equalityI) (simp_all add: numbered_members_def nth_enumerate_eq)
  show "map (\<lambda>m. snd (snd m)) (numbered_members uuids ordered) = map uuids [length ordered + 2..<2 * length ordered + 2]"
    by (rule nth_equalityI) (simp_all add: numbered_members_def nth_enumerate_eq del: upt_Suc)
  show "map fst (numbered_members uuids ordered) = ordered"
    by (rule nth_equalityI) (simp_all add: numbered_members_def nth_enumerate_eq)
qed

lemma member_plugs_canvas:
  "map canvas_plug (member_plugs uuids ordered)
     = map (\<lambda>m. \<lparr>wp_id = fst (snd m), wp_portName = COLLECTION_PORT\<rparr>) (numbered_members uuids ordered)
       @ [\<lparr>wp_id = uuids (length ordered), wp_portName = COLLECTION_PORT\<rparr>]"
  by (simp add: member_plugs_def canvas_plug_def case_prod_beta)

text \<open>What freshness says of one drawn id, and of the ids of the members.\<close>

lemma fresh_id:
  assumes "fresh_ids (map uuids [0..<m]) d" and "k < m"
  shows "uuids k \<noteq> []" "''node-'' @ uuids k \<notin> n_id ` set (d_nodes d)"
    "x \<in> set (d_origins d) \<Longrightarrow> o_to_node x \<noteq> ''node-'' @ uuids k" "e \<in> set (d_edges d) \<Longrightarrow> e_to_node e \<noteq> ''node-'' @ uuids k"
    "''origin-'' @ uuids k \<notin> o_id ` set (d_origins d)" "''edge-'' @ uuids k \<notin> e_id ` set (d_edges d)"
proof -
  have mem: "uuids k \<in> set (map uuids [0..<m])" using assms(2) by simp
  have each: "\<forall>uuid\<in>set (map uuids [0..<m]). ''node-'' @ uuid \<notin> set (map n_id (d_nodes d) @ map o_to_node (d_origins d) @ map e_to_node (d_edges d))
      \<and> ''origin-'' @ uuid \<notin> set (map o_id (d_origins d)) \<and> ''edge-'' @ uuid \<notin> set (map e_id (d_edges d))"
    using assms(1) unfolding fresh_ids_def list_all_iff by (elim conjE)
  have "uuids k \<noteq> []" using mem assms(1) unfolding fresh_ids_def by metis
  with bspec [OF each mem] have drawn: "uuids k \<noteq> [] \<and> ''node-'' @ uuids k \<notin> n_id ` set (d_nodes d) \<and> ''node-'' @ uuids k \<notin> o_to_node ` set (d_origins d)
      \<and> ''node-'' @ uuids k \<notin> e_to_node ` set (d_edges d) \<and> ''origin-'' @ uuids k \<notin> o_id ` set (d_origins d)
      \<and> ''edge-'' @ uuids k \<notin> e_id ` set (d_edges d)"
    unfolding set_map set_append by blast
  then show "uuids k \<noteq> []" "''node-'' @ uuids k \<notin> n_id ` set (d_nodes d)" "''origin-'' @ uuids k \<notin> o_id ` set (d_origins d)"
    "''edge-'' @ uuids k \<notin> e_id ` set (d_edges d)" by blast+
  from drawn show "x \<in> set (d_origins d) \<Longrightarrow> o_to_node x \<noteq> ''node-'' @ uuids k" "e \<in> set (d_edges d) \<Longrightarrow> e_to_node e \<noteq> ''node-'' @ uuids k"
    by (metis image_eqI)+
qed

lemma fresh_distinct: "fresh_ids (map uuids [0..<m]) d \<Longrightarrow> j \<le> m \<Longrightarrow> distinct (map uuids [i..<j])"
  by (auto simp: fresh_ids_def distinct_map intro: inj_on_subset)

lemma member_drawn:
  assumes "m \<in> set (numbered_members uuids ordered)"
  shows "\<exists>k. k < length ordered \<and> fst (snd m) = uuids k \<and> snd (snd m) = uuids (length ordered + 2 + k)"
  using assms by (auto simp: numbered_members_def in_set_enumerate_eq)

text \<open>The commands a plan holds, and what they do to a document that uses none of the drawn ids.\<close>

lemma collect_plan_runs:
  fixes sources uuids
  defines "ordered \<equiv> ordered_sources sources"
  defines "members \<equiv> numbered_members uuids ordered" and "collectionId \<equiv> ''node-'' @ uuids (length ordered + 1)"
  assumes "collectCardsCommands number uuids sources nodes collectSpec createNodeData = Inr (Some plan)"
    and "collect_handles_ok number uuids sources nodes collectSpec" and "fresh_ids (map uuids [0..<2 * length ordered + 2]) d"
    and "\<forall>plugs. wd_inputPlugs (createNodeData collectSpec plugs) = map canvas_plug plugs"
  shows "cp_collectionId plan = collectionId \<and> list_all (\<lambda>m. named_output (fst m)) members
    \<and> (\<exists>saved. n_id saved = collectionId \<and> n_input_plugs saved = member_plugs uuids ordered
        \<and> run_commands applyGraphCommandNormalized d (cp_commands plan)
          = Inr (d\<lparr>d_nodes := d_nodes d @ [saved], d_edges := d_edges d @ member_edges collectionId members,
                   d_origins := d_origins d @ member_origins collectionId members\<rparr>))"
proof -
  from assms(4) obtain itemsPort t variable where items: "find (\<lambda>port. po_name port = COLLECTION_PORT) (ns_inputs collectSpec) = Some itemsPort"
      "artifactTypeOfSource (hd sources) nodes = Some t" "non_empty (po_artifact_type_variable itemsPort) = Some variable"
    by (auto simp: collectCardsCommands_def split: if_splits option.splits)
  with assms(4) obtain node commands where plan: "cp_collectionId plan = collectionId" "cp_commands plan = AddNode node # commands"
      and commands: "member_commands number nodes itemsPort [(variable, t)] collectionId members = Inr (Some commands)"
      and node: "n_id node = collectionId" "n_input_plugs node = map saved_plug (wd_inputPlugs (createNodeData collectSpec (member_plugs uuids ordered)))"
    by (auto simp: collectCardsCommands_def addNodeCommand_def members_def ordered_def collectionId_def Let_def
        split: if_splits)
  have plugs: "n_input_plugs node = member_plugs uuids ordered"
    using assms(7) by (simp add: node(2) canvas_plug_def saved_plug_def comp_def map_idI)
  have "list_all (\<lambda>(source, plugId, uuid). plugId \<noteq> []) members"
  proof -
    have "fst (snd m) \<noteq> []" if "m \<in> set members" for m
    proof -
      from member_drawn that obtain k where "k < length ordered" "fst (snd m) = uuids k" unfolding members_def by blast
      with fresh_id(1) [OF assms(6), of k] show ?thesis by simp
    qed
    then show ?thesis by (simp add: list_all_iff case_prod_beta)
  qed
  moreover have "po_name itemsPort = COLLECTION_PORT" using items(1) by (auto simp: find_Some_iff)
  moreover have "list_all (member_encodable number nodes itemsPort [(variable, t)]) members"
    using assms(5) items by (simp add: collect_handles_ok_def members_def ordered_def)
  ultimately have are: "commands = map (member_command collectionId) members" "list_all (\<lambda>m. named_output (fst m)) members"
    using member_commands_are [OF commands] by simp_all
  let ?saved = "projectSavedGraphNode node" and ?d = "d\<lparr>d_nodes := d_nodes d @ [projectSavedGraphNode node]\<rparr>"
  have "collectionId \<notin> n_id ` set (d_nodes d)" using fresh_id(2) [OF assms(6), of "length ordered + 1"] by (simp add: collectionId_def)
  then have added: "applyGraphCommandNormalized d (AddNode node) = Inr ?d" by (auto simp: apply_add_node_def node image_iff)
  have "distinct (map (\<lambda>m. snd (snd m)) members)"
    unfolding members_def numbered_parts by (rule fresh_distinct [OF assms(6)]) simp
  moreover have "\<forall>m\<in>set members. ''origin-'' @ snd (snd m) \<notin> o_id ` set (d_origins ?d) \<and> ''edge-'' @ snd (snd m) \<notin> e_id ` set (d_edges ?d)"
  proof
    fix m assume "m \<in> set members"
    then obtain k where "k < length ordered" "snd (snd m) = uuids (length ordered + 2 + k)" unfolding members_def using member_drawn by blast
    then show "''origin-'' @ snd (snd m) \<notin> o_id ` set (d_origins ?d) \<and> ''edge-'' @ snd (snd m) \<notin> e_id ` set (d_edges ?d)"
      using fresh_id(5,6) [OF assms(6), of "length ordered + 2 + k"] by simp
  qed
  ultimately have "run_commands applyGraphCommandNormalized ?d (map (member_command collectionId) members)
      = Inr (?d\<lparr>d_edges := d_edges ?d @ member_edges collectionId members, d_origins := d_origins ?d @ member_origins collectionId members\<rparr>)"
    by (rule run_member_commands)
  moreover have "n_id ?saved = collectionId" "n_input_plugs ?saved = member_plugs uuids ordered"
    using node(1) plugs by (simp_all add: projectSavedGraphNode_def)
  ultimately show ?thesis using plan are added by (intro conjI exI [of _ ?saved]) simp_all
qed

text \<open>All plugs of the collection, in a document that holds its members and nothing else that reaches it.\<close>

lemma members_read_back:
  fixes uuids ordered
  defines "members \<equiv> numbered_members uuids ordered"
  assumes "\<forall>x\<in>set origins. o_to_node x \<noteq> wn_id node" and "\<forall>x\<in>set saved. e_to_node x \<noteq> wn_id node"
    and "list_all2 (edge_drawn number) (saved @ member_edges (wn_id node) members) edges"
    and "distinct (map uuids [0..<Suc (length ordered)])" and "list_all (\<lambda>m. named_output (fst m)) members"
    and "wd_inputPlugs (wn_data node) = map canvas_plug (member_plugs uuids ordered)"
  shows "\<exists>read. collectionMembers number node canvas edges (origins @ member_origins (wn_id node) members) = read @ [EmptyMember (uuids (length ordered))]
    \<and> list_all2 gathers members read"
proof -
  let ?read = "\<lambda>plugId. collection_member_of number node canvas edges (origins @ member_origins (wn_id node) members)
      \<lparr>wp_id = plugId, wp_portName = COLLECTION_PORT\<rparr>"
  have plugs: "distinct (map (\<lambda>m. fst (snd m)) members)" "uuids (length ordered) \<notin> (\<lambda>m. fst (snd m)) ` set members"
    using assms(5) unfolding members_def set_map [symmetric] numbered_parts by simp_all
  have "gathers m (?read (fst (snd m)))" if "m \<in> set members" for m
    using member_reads_back [OF assms(2-4) plugs(1), of "fst m" "fst (snd m)" "snd (snd m)"] assms(6) that by (simp add: list_all_iff)
  then have "list_all2 gathers members (map (\<lambda>m. ?read (fst (snd m))) members)" by (simp add: list_all2_conv_all_nth)
  moreover have "collectionMembers number node canvas edges (origins @ member_origins (wn_id node) members)
      = map (\<lambda>m. ?read (fst (snd m))) members @ [?read (uuids (length ordered))]"
    using assms(7) by (simp add: collectionMembers_def inputPlugsForPort_def member_plugs_canvas members_def comp_def)
  moreover have "?read (uuids (length ordered)) = EmptyMember (uuids (length ordered))" by (rule spare_reads_back [OF assms(2-4) plugs(2)])
  ultimately show ?thesis by auto
qed


definition demo_collect_spec :: node_spec where
  "demo_collect_spec =
     \<lparr>ns_operator_id = COLLECTION_OPERATOR_ID, ns_operator_version = 1, ns_plugin_slug = ''core'', ns_title = ''Collect'',
      ns_description = [], ns_catalog_visible = False, ns_runnable = True, ns_config_schema = JNull,
      ns_inputs = [demo_rows_port\<lparr>po_name := COLLECTION_PORT, po_artifact_type := Undefined, po_artifact_type_variable := Defined ''T'',
        po_instance_plugs := True\<rparr>],
      ns_outputs = [], ns_secret_inputs = JNull\<rparr>"

definition demo_producer :: workflow_node where
  "demo_producer =
     \<lparr>wn_id = ''p'', wn_position = \<lparr>pt_x = Finite 0, pt_y = Finite 0\<rparr>, wn_selected = False,
      wn_data = fresh_node_data (demo_collect_spec\<lparr>ns_operator_id := ''table.read'', ns_inputs := [],
        ns_outputs := [demo_rows_port\<lparr>po_name := ''out'', po_direction := Output\<rparr>]\<rparr>) [] []\<rparr>"

definition demo_cards :: "collection_source list" where
  "demo_cards =
     [OutputCardSource ''c1'' \<lparr>pt_x = Finite 300, pt_y = Finite 5\<rparr> ''p'' ''out'',
      LibrarySource ''c2'' \<lparr>pt_x = Finite 0, pt_y = Finite 20\<rparr> (demo_artifact ''x''),
      LibrarySource ''c3'' \<lparr>pt_x = Finite 0, pt_y = Finite 200\<rparr> (demo_artifact ''x'')]"

definition demo_create :: "node_spec \<Rightarrow> input_plug list \<Rightarrow> workflow_node_data" where
  "demo_create spec plugs = createWorkflowNodeData (\<lambda>_. []) spec (Some plugs)"

definition demo_ids :: "nat \<Rightarrow> string" where
  "demo_ids n = ''u'' @ decimal n"

definition demo_plan :: "string + collect_plan option" where
  "demo_plan = collectCardsCommands demo_number demo_ids demo_cards [demo_producer] demo_collect_spec demo_create"

lemma demo_cards_order: "map source_card (ordered_sources demo_cards) = [''c2'', ''c1'']"
  by code_simp


end
