(* ===== verification/AgentChat.thy ===== *)
theory AgentChat
  imports RoomProtocol
begin

section \<open>Conversations with an Agent\<close>

text \<open>
  \<^verbatim>\<open>agents/stream.ts\<close> and \<^verbatim>\<open>agents/useAgentChat.ts\<close>: the text of a reply arrives as deltas over the room while the
  history is read over HTTP, page by page. The hook is a state with its operations split at their awaits; the
  endpoints' answers are arguments. \<open>Array.from(text).length\<close> is the length of the text.
\<close>

subsection \<open>Deltas\<close>

record agent_delta =
  ad_graph_id :: string
  ad_agent_id :: string
  ad_conversation_id :: string
  ad_turn_id :: string
  ad_message_id :: string
  ad_offset :: nat
  ad_text :: string

record partial_reply =
  pr_turnId :: string
  pr_messageId :: string
  pr_text :: string
  pr_gap :: bool

definition appendDelta :: "partial_reply option \<Rightarrow> agent_delta \<Rightarrow> partial_reply" where
  "appendDelta current delta =
     (let base = (case current of Some reply \<Rightarrow> reply
            | None \<Rightarrow> \<lparr>pr_turnId = ad_turn_id delta, pr_messageId = ad_message_id delta, pr_text = [], pr_gap = False\<rparr>)
      in if pr_turnId base \<noteq> ad_turn_id delta \<or> pr_messageId base \<noteq> ad_message_id delta \<or> pr_gap base then base\<lparr>pr_gap := True\<rparr>
         else if ad_offset delta < length (pr_text base) then base
         else if ad_offset delta \<noteq> length (pr_text base) then base\<lparr>pr_gap := True\<rparr>
         else base\<lparr>pr_text := pr_text base @ ad_text delta\<rparr>)"

definition parseDelta :: "json \<Rightarrow> agent_delta option" where
  "parseDelta raw =
     (if \<not> isRecord raw \<or> getp raw ''type'' \<noteq> JString ''agent.delta'' then None
      else if \<not> isString (getp raw ''graph_id'') \<or> \<not> isString (getp raw ''agent_id'') \<or> \<not> isString (getp raw ''conversation_id'')
           \<or> \<not> isString (getp raw ''turn_id'') \<or> \<not> isString (getp raw ''message_id'') \<or> \<not> isNonNegativeInt (getp raw ''offset'')
           \<or> \<not> isString (getp raw ''text'') then None
      else Some \<lparr>ad_graph_id = str (getp raw ''graph_id''), ad_agent_id = str (getp raw ''agent_id''),
                 ad_conversation_id = str (getp raw ''conversation_id''), ad_turn_id = str (getp raw ''turn_id''),
                 ad_message_id = str (getp raw ''message_id''), ad_offset = nat_of_json (getp raw ''offset''),
                 ad_text = str (getp raw ''text'')\<rparr>)"

record agent_notice =
  an_graphId :: string
  an_agentId :: string
  an_conversationId :: string

text \<open>A turn that starts names its place in \<open>turn\<close>, an appended event its conversation in \<open>event\<close>.\<close>

definition notice_target :: "json \<Rightarrow> json" where
  "notice_target raw =
     (if getp raw ''type'' = JString ''agent.turn.started'' \<and> has_property ''turn'' raw then getp raw ''turn'' else raw)"

definition notice_entry :: "json \<Rightarrow> json" where
  "notice_entry raw =
     (if getp raw ''type'' = JString ''agent.event.appended'' \<and> has_property ''event'' raw then getp raw ''event'' else notice_target raw)"

definition parseAgentNotice :: "json \<Rightarrow> agent_notice option" where
  "parseAgentNotice raw =
     (let target = notice_target raw; entry = notice_entry raw; kind = getp raw ''type''
      in if \<not> isRecord raw
            \<or> (kind \<noteq> JString ''agent.turn.started'' \<and> kind \<noteq> JString ''agent.turn.finished'' \<and> kind \<noteq> JString ''agent.event.appended'') then None
         else if \<not> isRecord target \<or> \<not> isString (getp target ''graph_id'') \<or> \<not> isString (getp target ''agent_id'') then None
         else if \<not> isRecord entry \<or> \<not> isString (getp entry ''conversation_id'') \<or> \<not> isString (getp entry ''turn_id'') then None
         else if kind = JString ''agent.event.appended'' \<and> \<not> isPositiveInt (getp entry ''sequence'') then None
         else Some \<lparr>an_graphId = str (getp target ''graph_id''), an_agentId = str (getp target ''agent_id''),
                    an_conversationId = str (getp entry ''conversation_id'')\<rparr>)"

subsection \<open>Reading the history\<close>

record agent_event =
  ae_sequence :: nat
  ae_turn_id :: string
  ae_kind :: string

record event_page =
  ep_events :: "agent_event list"
  ep_next_sequence :: nat
  ep_last_sequence :: nat

text \<open>The loop over the pages; \<open>None\<close> is a loop that has used up its fuel.\<close>

fun read_history :: "(nat \<Rightarrow> event_page) \<Rightarrow> nat \<Rightarrow> nat \<Rightarrow> agent_event list option" where
  "read_history pages 0 after = None"
| "read_history pages (Suc fuel) after =
     (let page = pages after
      in if ep_next_sequence page \<ge> ep_last_sequence page \<or> ep_next_sequence page \<le> after then Some (ep_events page)
         else map_option (\<lambda>rest. ep_events page @ rest) (read_history pages fuel (ep_next_sequence page)))"

subsection \<open>The hook\<close>

record active_turn =
  tu_id :: string
  tu_message_id :: "string option"
  tu_partial_text :: string

record send_body =
  sb_client_turn_id :: string
  sb_text :: string

record agent_scope =
  as_workspaceId :: string
  as_projectId :: string
  as_graphId :: string
  as_agentId :: string

record agent_chat =
  ac_conversations :: "string list"
  ac_conversationId :: string
  ac_events :: "agent_event list"
  ac_partial :: "partial_reply option"
  ac_active :: "active_turn option"
  ac_error :: string
  ac_loading :: bool
  ac_busy :: bool
  ac_sending :: bool
  ac_retry :: "send_body option"
  ac_generation :: nat

definition new_chat :: agent_chat where
  "new_chat = \<lparr>ac_conversations = [], ac_conversationId = [], ac_events = [], ac_partial = None, ac_active = None, ac_error = [],
     ac_loading = True, ac_busy = False, ac_sending = False, ac_retry = None, ac_generation = 0\<rparr>"

definition chat_failed :: "string \<Rightarrow> agent_chat \<Rightarrow> agent_chat" where
  "chat_failed message s = s\<lparr>ac_error := message\<rparr>"

definition conversations_listed :: "string + string list \<Rightarrow> agent_chat \<Rightarrow> agent_chat" where
  "conversations_listed answer s =
     (case answer of
        Inr found \<Rightarrow> s\<lparr>ac_conversations := found, ac_loading := (found \<noteq> []),
                       ac_conversationId := (case found of [] \<Rightarrow> [] | first # _ \<Rightarrow> first)\<rparr>
      | Inl message \<Rightarrow> chat_failed message (s\<lparr>ac_loading := False\<rparr>))"

definition sync_start :: "agent_chat \<Rightarrow> agent_chat \<times> nat option" where
  "sync_start s =
     (if ac_conversationId s = [] then (s, None)
      else (s\<lparr>ac_generation := Suc (ac_generation s)\<rparr>, Some (Suc (ac_generation s))))"

definition answered :: "agent_event list \<Rightarrow> string \<Rightarrow> bool" where
  "answered history turnId = list_ex (\<lambda>event. ae_turn_id event = turnId \<and> ae_kind event = ''assistant_message'') history"

text \<open>The reply the snapshot shows, or the one the deltas have carried further.\<close>

definition synced_partial :: "agent_event list \<Rightarrow> active_turn option \<Rightarrow> partial_reply option \<Rightarrow> partial_reply option" where
  "synced_partial history snapshot provisional =
     (case snapshot of
        None \<Rightarrow> None
      | Some turn \<Rightarrow>
          (case tu_message_id turn of
             None \<Rightarrow> None
           | Some messageId \<Rightarrow>
               if messageId = [] \<or> answered history (tu_id turn) then None
               else
                 let shown = \<lparr>pr_turnId = tu_id turn, pr_messageId = messageId, pr_text = tu_partial_text turn, pr_gap = False\<rparr>
                 in case provisional of
                      None \<Rightarrow> Some shown
                    | Some reply \<Rightarrow>
                        if \<not> pr_gap reply \<and> pr_turnId reply = pr_turnId shown \<and> pr_messageId reply = pr_messageId shown
                           \<and> take (length (pr_text shown)) (pr_text reply) = pr_text shown
                        then Some reply else Some shown))"

definition sync_finish :: "nat \<Rightarrow> agent_event list \<Rightarrow> active_turn option \<Rightarrow> agent_chat \<Rightarrow> agent_chat" where
  "sync_finish version history snapshot s =
     (if version \<noteq> ac_generation s then s
      else s\<lparr>ac_events := history, ac_active := snapshot, ac_partial := synced_partial history snapshot (ac_partial s)\<rparr>)"

text \<open>The effect that follows a change of conversation, once its sync has ended.\<close>

definition loaded :: "string option \<Rightarrow> agent_chat \<Rightarrow> agent_chat" where
  "loaded failure s = (case failure of None \<Rightarrow> s\<lparr>ac_loading := False\<rparr> | Some message \<Rightarrow> chat_failed message (s\<lparr>ac_loading := False\<rparr>))"

definition leave_conversation :: "agent_chat \<Rightarrow> agent_chat" where
  "leave_conversation s = s\<lparr>ac_generation := Suc (ac_generation s)\<rparr>"

text \<open>A notice from the room; the second component asks for a sync.\<close>

definition take_delta :: "agent_scope \<Rightarrow> agent_delta \<Rightarrow> agent_chat \<Rightarrow> agent_chat \<times> bool" where
  "take_delta scope delta s =
     (if ad_graph_id delta \<noteq> as_graphId scope \<or> ad_agent_id delta \<noteq> as_agentId scope \<or> ad_conversation_id delta \<noteq> ac_conversationId s then (s, False)
      else if answered (ac_events s) (ad_turn_id delta) then (s, False)
      else let reply = appendDelta (ac_partial s) delta in (s\<lparr>ac_partial := Some reply\<rparr>, pr_gap reply))"

definition room_notice :: "agent_scope \<Rightarrow> string \<Rightarrow> string \<Rightarrow> json \<Rightarrow> agent_chat \<Rightarrow> agent_chat \<times> bool" where
  "room_notice scope workspaceId projectId raw s =
     (if workspaceId \<noteq> as_workspaceId scope \<or> projectId \<noteq> as_projectId scope then (s, False)
      else if \<not> isRecord raw \<or> \<not> has_property ''type'' raw then (s, False)
      else if getp raw ''type'' = JString ''room.ready'' then (s, True)
      else (case parseDelta raw of
              Some delta \<Rightarrow> take_delta scope delta s
            | None \<Rightarrow>
                (s, (case parseAgentNotice raw of
                       Some target \<Rightarrow> an_graphId target = as_graphId scope \<and> an_agentId target = as_agentId scope
                         \<and> an_conversationId target = ac_conversationId s
                     | None \<Rightarrow> False))))"

definition action_start :: "agent_chat \<Rightarrow> agent_chat" where
  "action_start s = s\<lparr>ac_error := [], ac_busy := True\<rparr>"

definition action_end :: "string option \<Rightarrow> agent_chat \<Rightarrow> agent_chat" where
  "action_end failure s = (case failure of None \<Rightarrow> s | Some message \<Rightarrow> chat_failed message s)\<lparr>ac_busy := False\<rparr>"

definition select_conversation :: "string \<Rightarrow> agent_chat \<Rightarrow> agent_chat" where
  "select_conversation i s =
     s\<lparr>ac_generation := Suc (ac_generation s), ac_loading := (i \<noteq> []), ac_events := [], ac_partial := None, ac_active := None,
       ac_retry := None, ac_conversationId := i\<rparr>"

definition conversation_added :: "string \<Rightarrow> agent_chat \<Rightarrow> agent_chat" where
  "conversation_added i s = select_conversation i (s\<lparr>ac_conversations := ac_conversations s @ [i]\<rparr>)"

definition send_start :: "string \<Rightarrow> string \<Rightarrow> agent_chat \<Rightarrow> agent_chat \<times> send_body option" where
  "send_start uuid txt s =
     (if ac_sending s \<or> ac_active s \<noteq> None \<or> ac_loading s \<or> js_trim txt = [] then (s, None)
      else let body = (case ac_retry s of Some earlier \<Rightarrow> earlier | None \<Rightarrow> \<lparr>sb_client_turn_id = uuid, sb_text = txt\<rparr>)
           in (s\<lparr>ac_sending := True, ac_retry := Some body\<rparr>, Some body))"

definition send_finish :: "bool \<Rightarrow> agent_chat \<Rightarrow> agent_chat" where
  "send_finish ok s = (if ok then s\<lparr>ac_retry := None\<rparr> else s)\<lparr>ac_sending := False\<rparr>"

definition stop_request :: "agent_chat \<Rightarrow> string option" where
  "stop_request s = map_option tu_id (ac_active s)"

end
