(* ===== verification/AgentChat_Facts.thy ===== *)
theory AgentChat_Facts
  imports AgentChat Traced_System "HOL-Library.Sublist"
begin

section \<open>What a conversation shows\<close>

text \<open>
  The hook as a system of calls whose answers come in any order. The syncs that are under way
  are kept beside its state, each with the conversation it was started for, so that an honest
  server can be stated: its history, its snapshots and its deltas are about the conversation
  they name, and a text it sends is a part of the message it belongs to.
\<close>

subsection \<open>Deltas and snapshots\<close>

definition honest_delta :: "(string \<Rightarrow> string) \<Rightarrow> (string \<Rightarrow> string \<Rightarrow> string) \<Rightarrow> agent_delta \<Rightarrow> bool" where
  "honest_delta owner full delta \<longleftrightarrow>
     ad_conversation_id delta \<noteq> [] \<and> owner (ad_turn_id delta) = ad_conversation_id delta
     \<and> prefix (ad_text delta) (drop (ad_offset delta) (full (ad_turn_id delta) (ad_message_id delta)))"

definition faithful_reply :: "(string \<Rightarrow> string \<Rightarrow> string) \<Rightarrow> partial_reply \<Rightarrow> bool" where
  "faithful_reply full reply \<longleftrightarrow> prefix (pr_text reply) (full (pr_turnId reply) (pr_messageId reply))"

lemma prefix_extended:
  assumes "prefix shown whole" and "prefix piece (drop (length shown) whole)"
  shows "prefix (shown @ piece) whole"
  using assms by (auto simp: prefix_def)

lemma appendDelta_faithful:
  assumes "\<forall>reply. current = Some reply \<longrightarrow> faithful_reply full reply" and "honest_delta owner full delta"
  shows "faithful_reply full (appendDelta current delta)"
  using assms prefix_extended
  by (fastforce simp: appendDelta_def faithful_reply_def honest_delta_def Let_def split: option.splits)

lemma appendDelta_turn:
  "pr_turnId (appendDelta current delta) = (case current of Some reply \<Rightarrow> pr_turnId reply | None \<Rightarrow> ad_turn_id delta)"
  by (simp add: appendDelta_def Let_def split: option.splits)

text \<open>The next delta in order extends the reply, one already shown changes nothing, a missing one is noticed.\<close>

lemma appendDelta_same_message:
  assumes "pr_turnId reply = ad_turn_id delta" and "pr_messageId reply = ad_message_id delta" and "\<not> pr_gap reply"
  shows "appendDelta (Some reply) delta =
    (if ad_offset delta = length (pr_text reply) then reply\<lparr>pr_text := pr_text reply @ ad_text delta\<rparr>
     else if ad_offset delta < length (pr_text reply) then reply else reply\<lparr>pr_gap := True\<rparr>)"
  using assms by (simp add: appendDelta_def Let_def)

definition honest_snapshot :: "(string \<Rightarrow> string) \<Rightarrow> (string \<Rightarrow> string \<Rightarrow> string) \<Rightarrow> string \<Rightarrow> active_turn option \<Rightarrow> bool" where
  "honest_snapshot owner full conversation snapshot \<longleftrightarrow>
     (case snapshot of
        None \<Rightarrow> True
      | Some turn \<Rightarrow> owner (tu_id turn) = conversation
          \<and> (case tu_message_id turn of None \<Rightarrow> True
             | Some messageId \<Rightarrow> prefix (tu_partial_text turn) (full (tu_id turn) messageId)))"

lemma synced_partial_cases:
  assumes "synced_partial history snapshot provisional = Some reply"
  obtains (kept) "provisional = Some reply" "\<not> pr_gap reply"
  | (snapshot) turn messageId where "snapshot = Some turn" "tu_message_id turn = Some messageId"
      "reply = \<lparr>pr_turnId = tu_id turn, pr_messageId = messageId, pr_text = tu_partial_text turn, pr_gap = False\<rparr>"
  using assms that by (auto simp: synced_partial_def Let_def split: option.splits if_splits)

lemma synced_partial_no_gap: "synced_partial history snapshot provisional = Some reply \<Longrightarrow> \<not> pr_gap reply"
  by (erule synced_partial_cases) auto

text \<open>A turn whose answer is in the history is no longer shown as a reply under way.\<close>

lemma synced_partial_unanswered:
  "synced_partial history snapshot provisional = Some reply \<Longrightarrow> \<not> answered history (pr_turnId reply)"
  by (auto simp: synced_partial_def Let_def split: option.splits if_splits)

subsection \<open>The calls of the hook\<close>

datatype chat_op =
    ChatListed "string + string list"
  | ChatSync
  | ChatSynced nat "agent_event list" "active_turn option"
  | ChatLoaded "string option"
  | ChatLeave
  | ChatNotice string string json
  | ChatAction
  | ChatActed "string option"
  | ChatSelect string
  | ChatAdded string
  | ChatSend string string
  | ChatSent bool

datatype chat_out = AskSync | PostTurn send_body

record chat_world =
  cw_chat :: agent_chat
  cw_syncs :: "(nat \<times> string) list"

abbreviation on_chat :: "(agent_chat \<Rightarrow> agent_chat) \<Rightarrow> chat_world \<Rightarrow> chat_world \<times> chat_out list" where
  "on_chat f w \<equiv> (cw_chat_update f w, [])"

fun chat_step :: "agent_scope \<Rightarrow> chat_op \<Rightarrow> chat_world \<Rightarrow> chat_world \<times> chat_out list" where
  "chat_step scope (ChatListed answer) w = on_chat (conversations_listed answer) w"
| "chat_step scope ChatSync w =
     (case sync_start (cw_chat w) of
        (s, None) \<Rightarrow> (w\<lparr>cw_chat := s\<rparr>, [])
      | (s, Some version) \<Rightarrow> (w\<lparr>cw_chat := s, cw_syncs := (version, ac_conversationId s) # cw_syncs w\<rparr>, []))"
| "chat_step scope (ChatSynced version history snapshot) w = on_chat (sync_finish version history snapshot) w"
| "chat_step scope (ChatLoaded failure) w = on_chat (loaded failure) w"
| "chat_step scope ChatLeave w = on_chat leave_conversation w"
| "chat_step scope (ChatNotice workspaceId projectId raw) w =
     (case room_notice scope workspaceId projectId raw (cw_chat w) of
        (s, ask) \<Rightarrow> (w\<lparr>cw_chat := s\<rparr>, if ask then [AskSync] else []))"
| "chat_step scope ChatAction w = on_chat action_start w"
| "chat_step scope (ChatActed failure) w = on_chat (action_end failure) w"
| "chat_step scope (ChatSelect i) w = on_chat (select_conversation i) w"
| "chat_step scope (ChatAdded i) w = on_chat (conversation_added i) w"
| "chat_step scope (ChatSend uuid txt) w =
     (case send_start uuid txt (cw_chat w) of
        (s, body) \<Rightarrow> (w\<lparr>cw_chat := s\<rparr>, case body of None \<Rightarrow> [] | Some b \<Rightarrow> [PostTurn b]))"
| "chat_step scope (ChatSent ok) w = on_chat (send_finish ok) w"

text \<open>
  Answers come from an honest server and to a sync that was started; the list of conversations
  answers before one is chosen (a list that answers later is \<open>late_list_drops_created\<close>).
\<close>

fun honest_call :: "(string \<Rightarrow> string) \<Rightarrow> (string \<Rightarrow> string \<Rightarrow> string) \<Rightarrow> chat_world \<Rightarrow> chat_op \<Rightarrow> bool" where
  "honest_call owner full w (ChatListed answer) \<longleftrightarrow> ac_conversationId (cw_chat w) = []"
| "honest_call owner full w (ChatSynced version history snapshot) \<longleftrightarrow>
     (\<exists>conversation. (version, conversation) \<in> set (cw_syncs w) \<and> honest_snapshot owner full conversation snapshot
        \<and> (\<forall>event \<in> set history. owner (ae_turn_id event) = conversation))"
| "honest_call owner full w (ChatNotice workspaceId projectId raw) \<longleftrightarrow>
     (case parseDelta raw of None \<Rightarrow> True | Some delta \<Rightarrow> honest_delta owner full delta)"
| "honest_call owner full w call \<longleftrightarrow> True"

definition chat_world_start :: chat_world where
  "chat_world_start = \<lparr>cw_chat = new_chat, cw_syncs = []\<rparr>"

subsection \<open>The invariant\<close>

definition chat_owns :: "(string \<Rightarrow> string) \<Rightarrow> (string \<Rightarrow> string \<Rightarrow> string) \<Rightarrow> agent_chat \<Rightarrow> bool" where
  "chat_owns owner full s \<longleftrightarrow>
     (\<forall>event \<in> set (ac_events s). owner (ae_turn_id event) = ac_conversationId s)
     \<and> (\<forall>turn. ac_active s = Some turn \<longrightarrow> owner (tu_id turn) = ac_conversationId s)
     \<and> (\<forall>reply. ac_partial s = Some reply \<longrightarrow> owner (pr_turnId reply) = ac_conversationId s \<and> faithful_reply full reply)
     \<and> (ac_conversationId s = [] \<longrightarrow> ac_events s = [] \<and> ac_active s = None \<and> ac_partial s = None)"

definition syncs_current :: "(nat \<times> string) list \<Rightarrow> agent_chat \<Rightarrow> bool" where
  "syncs_current syncs s \<longleftrightarrow>
     (\<forall>(version, conversation) \<in> set syncs. version \<le> ac_generation s \<and> conversation \<noteq> []
        \<and> (version = ac_generation s \<longrightarrow> conversation = ac_conversationId s))"

definition chat_invariant :: "(string \<Rightarrow> string) \<Rightarrow> (string \<Rightarrow> string \<Rightarrow> string) \<Rightarrow> chat_world \<Rightarrow> bool" where
  "chat_invariant owner full w \<longleftrightarrow> chat_owns owner full (cw_chat w) \<and> syncs_current (cw_syncs w) (cw_chat w)"

lemmas chat_invariant_defs = chat_invariant_def chat_owns_def syncs_current_def

text \<open>Calls that touch neither what is shown nor the generation keep it.\<close>

lemma chat_invariant_frame:
  assumes "chat_invariant owner full w"
    and "ac_events s = ac_events (cw_chat w)" "ac_active s = ac_active (cw_chat w)" "ac_partial s = ac_partial (cw_chat w)"
    and "ac_conversationId s = ac_conversationId (cw_chat w)" "ac_generation s = ac_generation (cw_chat w)"
  shows "chat_invariant owner full (w\<lparr>cw_chat := s\<rparr>)"
  using assms by (simp add: chat_invariant_defs)

lemma chat_invariant_framed:
  assumes "chat_invariant owner full w"
    and "\<And>s. ac_events (f s) = ac_events s" "\<And>s. ac_active (f s) = ac_active s" "\<And>s. ac_partial (f s) = ac_partial s"
    and "\<And>s. ac_conversationId (f s) = ac_conversationId s" "\<And>s. ac_generation (f s) = ac_generation s"
  shows "chat_invariant owner full (cw_chat_update f w)"
  using assms by (simp add: chat_invariant_defs)

lemma listed_keeps:
  assumes "chat_invariant owner full w" and "ac_conversationId (cw_chat w) = []"
  shows "chat_invariant owner full (cw_chat_update (conversations_listed answer) w)"
  using assms
  by (cases answer) (auto simp: chat_invariant_defs conversations_listed_def chat_failed_def)

lemma sync_keeps:
  assumes "chat_invariant owner full w" and "chat_step scope ChatSync w = (w', outs)"
  shows "chat_invariant owner full w'"
  using assms by (fastforce simp: chat_invariant_defs sync_start_def split: if_splits)

lemma synced_owns:
  assumes "chat_owns owner full s" and "ac_conversationId s \<noteq> []"
    and "honest_snapshot owner full (ac_conversationId s) snapshot"
    and "\<forall>event \<in> set history. owner (ae_turn_id event) = ac_conversationId s"
  shows "chat_owns owner full (s\<lparr>ac_events := history, ac_active := snapshot, ac_partial := synced_partial history snapshot (ac_partial s)\<rparr>)"
proof -
  have "owner (pr_turnId reply) = ac_conversationId s \<and> faithful_reply full reply"
    if "synced_partial history snapshot (ac_partial s) = Some reply" for reply
    using that
  proof (cases rule: synced_partial_cases)
    case kept
    then show ?thesis using assms(1) by (simp add: chat_owns_def)
  next
    case (snapshot turn messageId)
    then show ?thesis using assms(3) by (simp add: honest_snapshot_def faithful_reply_def)
  qed
  then show ?thesis using assms by (auto simp: chat_owns_def honest_snapshot_def)
qed

lemma synced_keeps:
  assumes w: "chat_invariant owner full w" and call: "honest_call owner full w (ChatSynced version history snapshot)"
  shows "chat_invariant owner full (cw_chat_update (sync_finish version history snapshot) w)"
proof (cases "version = ac_generation (cw_chat w)")
  case True
  from call obtain conversation where sync: "(version, conversation) \<in> set (cw_syncs w)"
    and honest: "honest_snapshot owner full conversation snapshot"
      "\<forall>event \<in> set history. owner (ae_turn_id event) = conversation" by auto
  have "conversation = ac_conversationId (cw_chat w)" "conversation \<noteq> []"
    using w sync True by (auto simp: chat_invariant_defs)
  then have "chat_owns owner full (sync_finish version history snapshot (cw_chat w))"
    using synced_owns w honest True by (simp add: chat_invariant_def sync_finish_def)
  then show ?thesis using w by (simp add: chat_invariant_def syncs_current_def sync_finish_def)
qed (use w in \<open>simp add: sync_finish_def chat_invariant_defs\<close>)

lemma room_notice_cases:
  obtains (asks) ask where "room_notice scope workspaceId projectId raw s = (s, ask)"
  | (delta) delta where "parseDelta raw = Some delta" "room_notice scope workspaceId projectId raw s = take_delta scope delta s"
proof -
  have "(\<exists>ask. room_notice scope workspaceId projectId raw s = (s, ask))
      \<or> (\<exists>delta. parseDelta raw = Some delta \<and> room_notice scope workspaceId projectId raw s = take_delta scope delta s)"
    by (auto simp: room_notice_def split: option.splits)
  then show thesis using asks delta by blast
qed

lemma delta_notice:
  assumes "parseDelta raw = Some delta"
  shows "room_notice scope (as_workspaceId scope) (as_projectId scope) raw s = take_delta scope delta s"
proof -
  have "isRecord raw" "getp raw ''type'' = JString ''agent.delta''"
    using assms by (auto simp: parseDelta_def split: if_splits)
  moreover from this have "has_property ''type'' raw" by (cases raw) (auto simp: has_property_def getp_def split: option.splits)
  ultimately show ?thesis using assms by (simp add: room_notice_def)
qed

lemma take_delta_keeps:
  assumes "chat_invariant owner full w" and "honest_delta owner full delta"
  shows "chat_invariant owner full (w\<lparr>cw_chat := fst (take_delta scope delta (cw_chat w))\<rparr>)"
proof -
  let ?s = "cw_chat w"
  have "faithful_reply full (appendDelta (ac_partial ?s) delta)"
    using assms appendDelta_faithful by (metis chat_invariant_def chat_owns_def)
  moreover have "owner (pr_turnId (appendDelta (ac_partial ?s) delta)) = ac_conversationId ?s"
    if "ad_conversation_id delta = ac_conversationId ?s"
    using assms that by (auto simp: appendDelta_turn chat_invariant_defs honest_delta_def split: option.splits)
  moreover have "ac_conversationId ?s \<noteq> []" if "ad_conversation_id delta = ac_conversationId ?s"
    using assms(2) that by (simp add: honest_delta_def)
  ultimately show ?thesis
    using assms(1) by (simp add: take_delta_def Let_def chat_invariant_defs)
qed

lemma notice_keeps:
  assumes "chat_invariant owner full w" and "honest_call owner full w (ChatNotice workspaceId projectId raw)"
    and "chat_step scope (ChatNotice workspaceId projectId raw) w = (w', outs)"
  shows "chat_invariant owner full w'"
proof (cases rule: room_notice_cases [of scope workspaceId projectId raw "cw_chat w"])
  case (asks ask)
  then show ?thesis using assms by auto
next
  case (delta delta)
  then have "w' = w\<lparr>cw_chat := fst (take_delta scope delta (cw_chat w))\<rparr>"
    using assms(3) by (auto split: prod.splits)
  then show ?thesis using take_delta_keeps assms(1,2) delta(1) by simp
qed

lemma left_keeps:
  assumes "chat_invariant owner full w"
  shows "chat_invariant owner full (cw_chat_update leave_conversation w)"
    "chat_invariant owner full (cw_chat_update (select_conversation i) w)"
    "chat_invariant owner full (cw_chat_update (conversation_added i) w)"
  using assms
  by (force simp: chat_invariant_defs leave_conversation_def select_conversation_def conversation_added_def)+

lemma send_keeps:
  assumes "chat_invariant owner full w" and "chat_step scope (ChatSend uuid txt) w = (w', outs)"
  shows "chat_invariant owner full w'"
  using assms by (auto simp: send_start_def Let_def intro!: chat_invariant_frame split: if_splits)

lemma chat_step_keeps:
  assumes "chat_invariant owner full w" and "honest_call owner full w call" and "chat_step scope call w = (w', outs)"
  shows "chat_invariant owner full w'"
proof (cases call)
  case (ChatListed answer)
  then show ?thesis using assms listed_keeps by auto
next
  case ChatSync
  then show ?thesis using assms sync_keeps by metis
next
  case (ChatSynced version history snapshot)
  then show ?thesis using assms synced_keeps [of owner full w version history snapshot] by simp
next
  case (ChatNotice workspaceId projectId raw)
  then show ?thesis using assms notice_keeps by metis
next
  case (ChatSend uuid message)
  then show ?thesis using assms send_keeps by metis
next
  case (ChatLoaded failure)
  then show ?thesis using assms
    by (auto simp: loaded_def chat_failed_def intro!: chat_invariant_framed split: option.splits)
next
  case (ChatActed failure)
  then show ?thesis using assms
    by (auto simp: action_end_def chat_failed_def intro!: chat_invariant_framed split: option.splits)
next
  case ChatAction
  then show ?thesis using assms by (auto simp: action_start_def intro!: chat_invariant_framed)
next
  case (ChatSent ok)
  then show ?thesis using assms by (auto simp: send_finish_def intro!: chat_invariant_framed)
qed (use assms left_keeps [OF assms(1)] in \<open>auto\<close>)

interpretation chat: invariant_system "chat_step scope" "honest_call owner full" chat_world_start "chat_invariant owner full"
proof
  show "chat_invariant owner full chat_world_start"
    by (simp add: chat_invariant_defs chat_world_start_def new_chat_def)
qed (rule chat_step_keeps)

subsection \<open>Sends\<close>

text \<open>Until a send has succeeded its body, client turn id included, is the one every further send posts.\<close>

lemma retried_send_is_the_same_turn:
  assumes "send_start uuid txt s = (s', Some body)"
    and "send_start uuid' txt' (send_finish False s') = (s'', Some body')"
  shows "body' = body"
  using assms by (auto simp: send_start_def send_finish_def Let_def split: if_splits option.splits)

text \<open>While a conversation loads nothing is posted, though the action ends like one that has sent the text.\<close>

lemma loading_send_posts_nothing: "ac_loading s \<Longrightarrow> send_start uuid txt s = (s, None)"
  by (simp add: send_start_def)

text \<open>A list that answers after a conversation was created takes the new conversation away.\<close>

lemma late_list_drops_created:
  "i \<notin> set found \<Longrightarrow> i \<notin> set (ac_conversations (conversations_listed (Inr found) (conversation_added i s)))"
  by (simp add: conversations_listed_def)

subsection \<open>The history\<close>

text \<open>The pages of the events endpoint: the events after a sequence, at most \<open>limit\<close>, with where to resume.\<close>

definition last_sequence :: "agent_event list \<Rightarrow> nat" where
  "last_sequence events = (if events = [] then 0 else ae_sequence (last events))"

definition server_page :: "nat \<Rightarrow> agent_event list \<Rightarrow> nat \<Rightarrow> event_page" where
  "server_page limit events after =
     (let listed = take limit (filter (\<lambda>event. after < ae_sequence event) events)
      in \<lparr>ep_events = listed, ep_next_sequence = (if listed = [] then last_sequence events else ae_sequence (last listed)),
         ep_last_sequence = last_sequence events\<rparr>)"

text \<open>Whatever the pages hold, the loop ends when the sequences they announce are bounded.\<close>

lemma read_history_ends:
  assumes "\<And>after. ep_last_sequence (pages after) \<le> bound" and "bound - after < fuel"
  shows "read_history pages fuel after \<noteq> None"
  using assms(2)
proof (induction fuel arbitrary: after)
  case (Suc fuel)
  have "read_history pages fuel (ep_next_sequence (pages after)) \<noteq> None"
    if "ep_next_sequence (pages after) < ep_last_sequence (pages after)" "after < ep_next_sequence (pages after)"
    using that Suc.prems assms(1) [of after] by (intro Suc.IH) linarith
  then show ?case by (auto simp: Let_def not_le)
qed simp

abbreviation in_sequence :: "agent_event list \<Rightarrow> bool" where
  "in_sequence events \<equiv> sorted_wrt (<) (map ae_sequence events)"

lemma in_sequence_after:
  "in_sequence (before @ event # rest) \<Longrightarrow> filter (\<lambda>e. ae_sequence event < ae_sequence e) (before @ event # rest) = rest"
  by (auto simp: sorted_wrt_append filter_empty_conv filter_id_conv)

lemma in_sequence_last: "in_sequence events \<Longrightarrow> event \<in> set events \<Longrightarrow> ae_sequence event \<le> last_sequence events"
  by (induction events rule: rev_induct) (auto simp: last_sequence_def sorted_wrt_append)

lemma filter_later:
  "after < later \<Longrightarrow> filter (\<lambda>e. later < ae_sequence e) (filter (\<lambda>e. after < ae_sequence e) events) = filter (\<lambda>e. later < ae_sequence e) events"
  by (induction events) auto

lemma in_sequence_filter: "in_sequence events \<Longrightarrow> in_sequence (filter P events)"
  by (induction events) auto

text \<open>A page that is not empty: its last event is where the next one starts, and the rest is what comes after it.\<close>

lemma server_page_split:
  assumes "in_sequence events" and "0 < limit" and rest: "filter (\<lambda>e. after < ae_sequence e) events = rest" and "rest \<noteq> []"
  defines "page \<equiv> server_page limit events after"
  shows "ep_events page = take limit rest" and "after < ep_next_sequence page"
    and "filter (\<lambda>e. ep_next_sequence page < ae_sequence e) events = drop limit rest"
    and "ep_last_sequence page \<le> ep_next_sequence page \<Longrightarrow> drop limit rest = []"
proof -
  let ?last = "last (take limit rest)"
  have nonempty: "take limit rest \<noteq> []" using assms(2,4) by simp
  show page_events: "ep_events page = take limit rest" by (simp add: page_def server_page_def rest Let_def)
  have resume: "ep_next_sequence page = ae_sequence ?last" using nonempty by (simp add: page_def server_page_def rest Let_def)
  have last_in: "?last \<in> set rest" using nonempty last_in_set in_set_takeD by metis
  then show later: "after < ep_next_sequence page" using rest resume by auto
  have split: "rest = butlast (take limit rest) @ ?last # drop limit rest"
    using append_take_drop_id [of limit rest] append_butlast_last_id [OF nonempty] by (metis append.assoc append_Cons append_Nil)
  have sorted: "in_sequence rest" using in_sequence_filter assms(1) rest by blast
  show dropped: "filter (\<lambda>e. ep_next_sequence page < ae_sequence e) events = drop limit rest"
    using filter_later [OF later, of events] in_sequence_after [of "butlast (take limit rest)" ?last "drop limit rest"] split sorted rest resume
    by simp
  show "drop limit rest = []" if "ep_last_sequence page \<le> ep_next_sequence page"
  proof -
    have "ae_sequence e \<le> ep_next_sequence page" if "e \<in> set events" for e
      using in_sequence_last [OF assms(1) that] \<open>ep_last_sequence page \<le> _\<close> by (simp add: page_def server_page_def Let_def)
    then show ?thesis unfolding dropped [symmetric] by (auto simp: filter_empty_conv not_less)
  qed
qed

lemma read_history_pages:
  assumes "in_sequence events" and "0 < limit" and "length (filter (\<lambda>e. after < ae_sequence e) events) < fuel"
  shows "read_history (server_page limit events) fuel after = Some (filter (\<lambda>e. after < ae_sequence e) events)"
  using assms(3)
proof (induction fuel arbitrary: after)
  case (Suc fuel)
  define rest where "rest = filter (\<lambda>e. after < ae_sequence e) events"
  let ?page = "server_page limit events after"
  show ?case
  proof (cases "rest = []")
    case True
    then show ?thesis by (simp add: server_page_def rest_def Let_def)
  next
    case False
    note page = server_page_split [OF assms(1,2) rest_def [symmetric] False]
    have "read_history (server_page limit events) fuel (ep_next_sequence ?page) = Some (drop limit rest)"
      using Suc.IH [of "ep_next_sequence ?page"] Suc.prems False assms(2)
      by (cases rest) (auto simp: page(3) rest_def [symmetric])
    then show ?thesis using page(1,2,4) unfolding rest_def [symmetric]
      by (auto simp: Let_def not_le append_take_drop_id)
  qed
qed simp

subsection \<open>Properties\<close>


text \<open>
  the loop over the pages of the history ends and returns the whole history in order, whatever the size of a page.
\<close>

theorem history_read_in_full:
  assumes "sorted_wrt (<) (0 # map ae_sequence events)" and "0 < limit" and "length events < fuel"
  shows "read_history (server_page limit events) fuel 0 = Some events"
proof -
  have "filter (\<lambda>e. 0 < ae_sequence e) events = events" using assms(1) by (simp add: filter_id_conv)
  then show ?thesis using read_history_pages [of events limit 0 fuel] assms by simp
qed

text \<open>Three events read two at a time.\<close>

definition sample_events :: "agent_event list" where
  "sample_events = map (\<lambda>n. \<lparr>ae_sequence = n, ae_turn_id = ''t'', ae_kind = ''user_message''\<rparr>) [1, 2, 3]"

theorem history_read_in_full_witness: "read_history (server_page 2 sample_events) 4 0 = Some sample_events"
  using history_read_in_full [of sample_events 2 4] by (simp add: sample_events_def)

text \<open>A reply of two deltas of the selected conversation, the second received twice.\<close>

definition sample_scope :: agent_scope where
  "sample_scope = \<lparr>as_workspaceId = ''w'', as_projectId = ''p'', as_graphId = ''g'', as_agentId = ''a''\<rparr>"

definition sample_delta :: "rat \<Rightarrow> string \<Rightarrow> json" where
  "sample_delta offset txt = JObject [(''type'', JString ''agent.delta''), (''graph_id'', JString ''g''), (''agent_id'', JString ''a''),
     (''conversation_id'', JString ''c''), (''turn_id'', JString ''t''), (''message_id'', JString ''m''), (''offset'', JNumber (Finite offset)),
     (''text'', JString txt)]"

definition sample_calls :: "chat_op list" where
  "sample_calls = [ChatListed (Inr [''c'']), ChatSync, ChatSynced 1 sample_events None, ChatNotice ''w'' ''p'' (sample_delta 0 ''He''),
     ChatNotice ''w'' ''p'' (sample_delta 2 ''y''), ChatNotice ''w'' ''p'' (sample_delta 2 ''y'')]"

definition sample_owner :: "string \<Rightarrow> string" where
  "sample_owner turn = ''c''"

definition sample_full :: "string \<Rightarrow> string \<Rightarrow> string" where
  "sample_full turn message = ''Hey!''"

lemma sample_delta_parsed:
  "parseDelta (sample_delta 0 txt) = Some \<lparr>ad_graph_id = ''g'', ad_agent_id = ''a'', ad_conversation_id = ''c'', ad_turn_id = ''t'',
     ad_message_id = ''m'', ad_offset = 0, ad_text = txt\<rparr>"
  "parseDelta (sample_delta 2 txt) = Some \<lparr>ad_graph_id = ''g'', ad_agent_id = ''a'', ad_conversation_id = ''c'', ad_turn_id = ''t'',
     ad_message_id = ''m'', ad_offset = 2, ad_text = txt\<rparr>"
  by (simp_all add: parseDelta_def sample_delta_def, code_simp+)

definition sample_end :: chat_world where
  "sample_end = snd (run_trace (chat_step sample_scope) chat_world_start sample_calls)"

lemma sample_scope_simps:
  "as_workspaceId sample_scope = ''w''" "as_projectId sample_scope = ''p''" "as_graphId sample_scope = ''g''" "as_agentId sample_scope = ''a''"
  by (simp_all add: sample_scope_def)

lemma sample_notice:
  "parseDelta raw = Some delta \<Longrightarrow> room_notice sample_scope ''w'' ''p'' raw s = take_delta sample_scope delta s"
  using delta_notice [of raw delta sample_scope] by (simp add: sample_scope_simps)

lemmas sample_chat_defs = sample_scope_simps sample_calls_def sample_end_def sample_notice sample_delta_parsed sample_events_def sample_owner_def sample_full_def
  chat_world_start_def new_chat_def conversations_listed_def sync_start_def sync_finish_def synced_partial_def take_delta_def
  appendDelta_def answered_def honest_delta_def honest_snapshot_def Let_def

lemma sample_chat_allowed: "run_allowed (chat_step sample_scope) (honest_call sample_owner sample_full) chat_world_start sample_calls"
  by (simp add: sample_chat_defs)

lemma sample_chat_reached:
  "reach (chat_step sample_scope) (honest_call sample_owner sample_full) chat_world_start
     (fst (run_trace (chat_step sample_scope) chat_world_start sample_calls)) sample_end"
  unfolding sample_end_def by (rule reach_run [OF sample_chat_allowed])


end
