(* ===== verification/GridLayout.thy ===== *)
theory GridLayout
  imports NodeLayout
begin

section \<open>The canvas lattice\<close>

text \<open>
  \<^verbatim>\<open>canvas/grid-layout.ts\<close>: positions and sizes snapped to the cells of the canvas. Sizes may be any JavaScript number;
  arithmetic on finite ones is exact, \<open>Math.round\<close> rounds halves up, and zero has no sign. The theory ends with what
  snapping guarantees: whole cells, the nearest one, usable sizes, and that snapping twice is snapping once.
\<close>

definition GRID_CELL_SIZE_MIN :: rat where "GRID_CELL_SIZE_MIN = 24"
definition GRID_CELL_SIZE_MAX :: rat where "GRID_CELL_SIZE_MAX = 96"
definition GRID_CELL_SIZE_DEFAULT :: rat where "GRID_CELL_SIZE_DEFAULT = 50"
definition EDGE_SELECTOR_WIDTH_CELLS :: rat where "EDGE_SELECTOR_WIDTH_CELLS = 3"
definition EDGE_SELECTOR_HEIGHT_CELLS :: rat where "EDGE_SELECTOR_HEIGHT_CELLS = 1"
definition GRID_SHELL_GUTTER :: rat where "GRID_SHELL_GUTTER = 6"

datatype grid_axis = AxisWidth | AxisBodyHeight | AxisAppendixHeight

record grid_settings =
  gs_enabled :: bool
  gs_showBackground :: bool
  gs_onlyRenderVisibleElements :: bool
  gs_snapPosition :: bool
  gs_snapSize :: bool
  gs_snapWhileDragging :: bool
  gs_snapWhileResizing :: bool
  gs_allowWorkflowCornerResize :: bool
  gs_cellSize :: js_number

definition DEFAULT_CANVAS_GRID_SETTINGS :: grid_settings where
  "DEFAULT_CANVAS_GRID_SETTINGS =
     \<lparr>gs_enabled = True, gs_showBackground = True, gs_onlyRenderVisibleElements = False, gs_snapPosition = True, gs_snapSize = True,
      gs_snapWhileDragging = False, gs_snapWhileResizing = True, gs_allowWorkflowCornerResize = False,
      gs_cellSize = Finite GRID_CELL_SIZE_DEFAULT\<rparr>"

definition js_round :: "rat \<Rightarrow> rat" where
  "js_round r = of_int \<lfloor>r + 1 / 2\<rfloor>"

definition js_ceil :: "rat \<Rightarrow> rat" where
  "js_ceil r = of_int \<lceil>r\<rceil>"

definition clampCellSize :: "js_number \<Rightarrow> rat" where
  "clampCellSize v =
     (case v of Finite r \<Rightarrow> min GRID_CELL_SIZE_MAX (max GRID_CELL_SIZE_MIN (js_round r)) | _ \<Rightarrow> GRID_CELL_SIZE_DEFAULT)"

definition edgeSelectorBlockSize :: "js_number \<Rightarrow> rat \<times> rat" where
  "edgeSelectorBlockSize cellSize =
     (clampCellSize cellSize * EDGE_SELECTOR_WIDTH_CELLS, clampCellSize cellSize * EDGE_SELECTOR_HEIGHT_CELLS)"

text \<open>Settings as stored: a field that is missing or null is \<open>None\<close>.\<close>

record partial_settings =
  ps_enabled :: "bool option"
  ps_showBackground :: "bool option"
  ps_onlyRenderVisibleElements :: "bool option"
  ps_snapPosition :: "bool option"
  ps_snapSize :: "bool option"
  ps_snapWhileDragging :: "bool option"
  ps_snapWhileResizing :: "bool option"
  ps_allowWorkflowCornerResize :: "bool option"
  ps_cellSize :: "js_number option"

definition normalizeCanvasGridSettings :: "partial_settings option \<Rightarrow> grid_settings" where
  "normalizeCanvasGridSettings given =
     (let base = DEFAULT_CANVAS_GRID_SETTINGS
      in case given of
           None \<Rightarrow> base
         | Some p \<Rightarrow>
             \<lparr>gs_enabled = case_option (gs_enabled base) (\<lambda>v. v) (ps_enabled p),
              gs_showBackground = case_option (gs_showBackground base) (\<lambda>v. v) (ps_showBackground p),
              gs_onlyRenderVisibleElements = case_option (gs_onlyRenderVisibleElements base) (\<lambda>v. v) (ps_onlyRenderVisibleElements p),
              gs_snapPosition = case_option (gs_snapPosition base) (\<lambda>v. v) (ps_snapPosition p),
              gs_snapSize = case_option (gs_snapSize base) (\<lambda>v. v) (ps_snapSize p),
              gs_snapWhileDragging = case_option (gs_snapWhileDragging base) (\<lambda>v. v) (ps_snapWhileDragging p),
              gs_snapWhileResizing = case_option (gs_snapWhileResizing base) (\<lambda>v. v) (ps_snapWhileResizing p),
              gs_allowWorkflowCornerResize = case_option (gs_allowWorkflowCornerResize base) (\<lambda>v. v) (ps_allowWorkflowCornerResize p),
              gs_cellSize = Finite (clampCellSize (case_option (gs_cellSize base) (\<lambda>v. v) (ps_cellSize p)))\<rparr>)"

definition snapToCell :: "js_number \<Rightarrow> js_number \<Rightarrow> rat" where
  "snapToCell v cellSize =
     (let cell = clampCellSize cellSize in case v of Finite r \<Rightarrow> js_round (r / cell) * cell | _ \<Rightarrow> 0)"

definition snapLength :: "js_number \<Rightarrow> js_number \<Rightarrow> rat \<Rightarrow> rat \<Rightarrow> rat" where
  "snapLength v cellSize least most =
     (let cell = clampCellSize cellSize;
          least_cells = max cell (js_ceil (least / cell) * cell);
          snapped = snapToCell v (Finite cell)
      in min most (max least_cells snapped))"

definition snapPosition :: "js_number \<times> js_number \<Rightarrow> js_number \<Rightarrow> rat \<times> rat" where
  "snapPosition position cellSize = (snapToCell (fst position) cellSize, snapToCell (snd position) cellSize)"

definition edgeSelectorSnapPitch :: "js_number \<Rightarrow> rat" where
  "edgeSelectorSnapPitch cellSize = clampCellSize cellSize / 2"

definition snapEdgeSelectorRouteOffset :: "rat \<times> rat \<Rightarrow> rat \<times> rat \<Rightarrow> js_number \<Rightarrow> rat \<times> rat" where
  "snapEdgeSelectorRouteOffset naturalAnchor routeOffset cellSize =
     (let anchor = (fst naturalAnchor + fst routeOffset, snd naturalAnchor + snd routeOffset);
          snappedAnchor = snapPosition (Finite (fst anchor), Finite (snd anchor)) (Finite (edgeSelectorSnapPitch cellSize))
      in (fst snappedAnchor - fst naturalAnchor, snd snappedAnchor - snd naturalAnchor))"

definition spanFromLength :: "js_number \<Rightarrow> js_number \<Rightarrow> rat" where
  "spanFromLength v cellSize =
     (let cell = clampCellSize cellSize
      in case v of Finite r \<Rightarrow> if r \<le> 0 then 1 else max 1 (js_round (r / cell)) | _ \<Rightarrow> 1)"

definition lengthFromSpan :: "rat \<Rightarrow> js_number \<Rightarrow> rat" where
  "lengthFromSpan cells cellSize = max 1 (js_round cells) * clampCellSize cellSize"

definition ceilToCell :: "js_number \<Rightarrow> js_number \<Rightarrow> rat" where
  "ceilToCell v cellSize =
     (let cell = clampCellSize cellSize
      in case v of
           Finite r \<Rightarrow>
             if r \<le> 0 then cell
             else let nearest = js_round (r / cell) * cell
                  in if \<bar>r - nearest\<bar> < 1 / 2 then max cell (if nearest = 0 then cell else nearest)
                     else max cell (js_ceil (r / cell) * cell)
         | _ \<Rightarrow> cell)"

definition shouldFillShellToGrid :: "grid_settings option \<Rightarrow> bool \<Rightarrow> bool" where
  "shouldFillShellToGrid settings bypass =
     (case settings of None \<Rightarrow> False | Some s \<Rightarrow> if bypass then False else gs_enabled s \<and> gs_snapSize s)"

definition gridShellOutset :: "grid_settings option \<Rightarrow> bool \<Rightarrow> rat" where
  "gridShellOutset settings bypass = (if shouldFillShellToGrid settings bypass then GRID_SHELL_GUTTER else 0)"

definition shouldSnapPosition :: "grid_settings \<Rightarrow> bool \<Rightarrow> bool \<Rightarrow> bool" where
  "shouldSnapPosition settings dragging bypass =
     (if \<not> gs_enabled settings \<or> \<not> gs_snapPosition settings \<or> bypass then False
      else if dragging then gs_snapWhileDragging settings else True)"

definition shouldSnapSize :: "grid_settings \<Rightarrow> bool \<Rightarrow> bool \<Rightarrow> bool" where
  "shouldSnapSize settings drafting bypass =
     (if \<not> gs_enabled settings \<or> \<not> gs_snapSize settings \<or> bypass then False
      else if drafting then gs_snapWhileResizing settings else True)"

definition gridAlignedWidth :: "js_number \<Rightarrow> grid_settings option \<Rightarrow> bool \<Rightarrow> rat \<Rightarrow> js_number" where
  "gridAlignedWidth width settings bypass minWidth =
     (case settings of
        None \<Rightarrow> width
      | Some s \<Rightarrow> if \<not> shouldSnapSize s False bypass then width
                  else Finite (snapLength width (gs_cellSize s) minWidth LAYOUT_DIMENSION_MAX))"

definition snap_axis :: "grid_axis list \<Rightarrow> grid_axis \<Rightarrow> js_number \<Rightarrow> rat \<Rightarrow> js_number option \<Rightarrow> js_number option" where
  "snap_axis axes axis cellSize least given =
     (if axis \<in> set axes then map_option (\<lambda>v. Finite (snapLength v cellSize least LAYOUT_DIMENSION_MAX)) given else given)"

definition snapNodeLayout :: "workflow_node_layout option \<Rightarrow> grid_axis list \<Rightarrow> js_number \<Rightarrow> workflow_node_layout option" where
  "snapNodeLayout layout axes cellSize =
     (case layout of
        None \<Rightarrow> None
      | Some l \<Rightarrow> clampNodeLayout (Some
          \<lparr>wl_width = snap_axis axes AxisWidth cellSize NODE_WIDTH_MIN (wl_width l),
           wl_bodyHeight = snap_axis axes AxisBodyHeight cellSize BODY_HEIGHT_MIN (wl_bodyHeight l),
           wl_appendixHeight = snap_axis axes AxisAppendixHeight cellSize APPENDIX_HEIGHT_MIN (wl_appendixHeight l)\<rparr>))"

definition layoutSnapAxes :: "workflow_node_layout option \<Rightarrow> grid_axis list \<Rightarrow> grid_axis list" where
  "layoutSnapAxes layout fallback =
     (case layout of
        None \<Rightarrow> fallback
      | Some l \<Rightarrow>
          (let axes = (if wl_width l \<noteq> None then [AxisWidth] else []) @ (if wl_bodyHeight l \<noteq> None then [AxisBodyHeight] else [])
                 @ (if wl_appendixHeight l \<noteq> None then [AxisAppendixHeight] else [])
           in if axes \<noteq> [] then axes else fallback))"

subsection \<open>Cells\<close>

lemmas cell_bounds = GRID_CELL_SIZE_MIN_def GRID_CELL_SIZE_MAX_def GRID_CELL_SIZE_DEFAULT_def

lemma js_round_of_int [simp]: "js_round (of_int i) = of_int i"
  by (simp add: js_round_def floor_eq_iff)

lemma js_round_numeral [simp]: "js_round (numeral n) = numeral n"
  using js_round_of_int [of "numeral n"] by simp

lemma js_round_near: "\<bar>js_round r - r\<bar> \<le> 1 / 2"
  unfolding js_round_def by linarith

lemma clampCellSize_range: "24 \<le> clampCellSize c" "clampCellSize c \<le> 96"
  by (simp_all add: clampCellSize_def cell_bounds split: js_number.splits)

lemma clampCellSize_pos [simp]: "0 < clampCellSize c" "clampCellSize c \<noteq> 0" "\<not> clampCellSize c \<le> 0" "\<not> clampCellSize c < 0"
  using clampCellSize_range [of c] by linarith+

lemma clampCellSize_int: "\<exists>i. clampCellSize c = of_int i"
proof (cases c)
  case (Finite r)
  then have "clampCellSize c = of_int (min 96 (max 24 \<lfloor>r + 1 / 2\<rfloor>))"
    by (simp add: clampCellSize_def cell_bounds js_round_def of_int_min of_int_max)
  then show ?thesis by blast
qed (auto simp: clampCellSize_def cell_bounds intro: exI [of _ 50])

lemma clampCellSize_idem [simp]: "clampCellSize (Finite (clampCellSize c)) = clampCellSize c"
proof -
  obtain i where "clampCellSize c = of_int i" using clampCellSize_int by blast
  then show ?thesis using clampCellSize_range [of c] by (simp add: clampCellSize_def [of "Finite _"] cell_bounds)
qed

text \<open>Settings that were normalised are normal, whatever was stored.\<close>

lemma normalized_cell: "gs_cellSize (normalizeCanvasGridSettings p) = Finite (clampCellSize (gs_cellSize (normalizeCanvasGridSettings p)))"
proof -
  have "clampCellSize (Finite GRID_CELL_SIZE_DEFAULT) = GRID_CELL_SIZE_DEFAULT" by (simp add: clampCellSize_def cell_bounds)
  then show ?thesis by (cases p) (simp_all add: normalizeCanvasGridSettings_def DEFAULT_CANVAS_GRID_SETTINGS_def Let_def)
qed

subsection \<open>Snapping a number\<close>

definition on_lattice :: "js_number \<Rightarrow> rat \<Rightarrow> bool" where
  "on_lattice cellSize r \<longleftrightarrow> js_round (r / clampCellSize cellSize) * clampCellSize cellSize = r"

lemma on_lattice_iff: "on_lattice c r \<longleftrightarrow> (\<exists>i. r = of_int i * clampCellSize c)"
proof
  show "on_lattice c r \<Longrightarrow> \<exists>i. r = of_int i * clampCellSize c" unfolding on_lattice_def js_round_def by metis
qed (auto simp: on_lattice_def)

lemma on_latticeI [simp]: "on_lattice c (of_int i * clampCellSize c)"
  by (auto simp: on_lattice_iff)

lemma on_lattice_js [simp]: "on_lattice c (js_round r * clampCellSize c)" "on_lattice c (js_ceil r * clampCellSize c)" "on_lattice c (clampCellSize c)"
  using on_latticeI [of c 1] by (simp_all add: js_round_def js_ceil_def)

lemma on_lattice_max: "on_lattice c r \<Longrightarrow> on_lattice c s \<Longrightarrow> on_lattice c (max r s)"
  by (simp add: max_def)

lemma snapToCell_cell [simp]: "snapToCell v (Finite (clampCellSize c)) = snapToCell v c"
  by (simp add: snapToCell_def)

lemma snapToCell_lattice [simp]: "on_lattice c (snapToCell v c)"
  using on_latticeI [of c 0] by (simp add: snapToCell_def Let_def split: js_number.splits)

lemma snapToCell_fixed: "on_lattice c r \<Longrightarrow> snapToCell (Finite r) c = r"
  by (simp add: snapToCell_def on_lattice_def Let_def)

text \<open>The result is the nearest point of the lattice.\<close>

lemma snapToCell_near: "\<bar>snapToCell (Finite r) c - r\<bar> \<le> clampCellSize c / 2"
proof -
  let ?cell = "clampCellSize c"
  have "snapToCell (Finite r) c - r = (js_round (r / ?cell) - r / ?cell) * ?cell" by (simp add: snapToCell_def Let_def field_simps)
  then have "\<bar>snapToCell (Finite r) c - r\<bar> = \<bar>js_round (r / ?cell) - r / ?cell\<bar> * ?cell" by (simp add: abs_mult abs_of_pos)
  also have "\<dots> \<le> 1 / 2 * ?cell" using js_round_near by (intro mult_right_mono) (auto simp: less_imp_le)
  finally show ?thesis by simp
qed

lemma lattice_apart:
  assumes "on_lattice c r" and "on_lattice c s" and "r \<noteq> s"
  shows "clampCellSize c \<le> \<bar>r - s\<bar>"
proof -
  obtain i j where "r = of_int i * clampCellSize c" "s = of_int j * clampCellSize c" using assms by (auto simp: on_lattice_iff)
  moreover from this have "1 \<le> \<bar>i - j\<bar>" using assms(3) by auto
  then have "(1::rat) \<le> of_int \<bar>i - j\<bar>" using of_int_le_iff [of 1 "\<bar>i - j\<bar>", where ?'a = rat] by simp
  then have "1 * clampCellSize c \<le> of_int \<bar>i - j\<bar> * clampCellSize c" by (intro mult_right_mono) (auto simp: less_imp_le)
  ultimately show ?thesis by (simp add: abs_mult abs_of_pos flip: left_diff_distrib of_int_diff)
qed

lemma snapToCell_nearest:
  assumes "on_lattice c s"
  shows "\<bar>snapToCell (Finite r) c - r\<bar> \<le> \<bar>s - r\<bar>"
proof (cases "s = snapToCell (Finite r) c")
  case False
  then have "clampCellSize c \<le> \<bar>s - snapToCell (Finite r) c\<bar>" using lattice_apart assms by simp
  then show ?thesis using snapToCell_near [of r c] by linarith
qed simp

subsection \<open>Lengths\<close>

lemma js_ceil_ge: "r \<le> js_ceil r"
  unfolding js_ceil_def by linarith

lemma ceil_cells_ge: "least \<le> js_ceil (least / clampCellSize c) * clampCellSize c"
proof -
  have "least / clampCellSize c * clampCellSize c \<le> js_ceil (least / clampCellSize c) * clampCellSize c"
    using js_ceil_ge by (intro mult_right_mono) (auto simp: less_imp_le)
  then show ?thesis by simp
qed

text \<open>A snapped length is a whole number of cells, at least the floor it was given, unless that passes the ceiling.\<close>

lemma snapLength_cells: "on_lattice c (snapLength v c least most) \<or> snapLength v c least most = most"
proof -
  have "on_lattice c (max (max (clampCellSize c) (js_ceil (least / clampCellSize c) * clampCellSize c)) (snapToCell v c))"
    by (intro on_lattice_max) simp_all
  then show ?thesis by (simp add: snapLength_def Let_def min_def)
qed

lemma snapLength_range: "least \<le> most \<Longrightarrow> least \<le> snapLength v c least most" "snapLength v c least most \<le> most"
  using ceil_cells_ge [of least c] by (auto simp: snapLength_def Let_def)

lemma snapLength_fixed:
  assumes "on_lattice c r" and "least \<le> r" and "0 < r" and "r \<le> most"
  shows "snapLength (Finite r) c least most = r"
proof -
  let ?cell = "clampCellSize c"
  obtain i where r: "r = of_int i * ?cell" using assms(1) by (auto simp: on_lattice_iff)
  have "least / ?cell \<le> of_int i" using assms(2) r by (simp add: pos_divide_le_eq)
  then have "js_ceil (least / ?cell) \<le> of_int i" unfolding js_ceil_def by (simp add: ceiling_le_iff)
  then have "js_ceil (least / ?cell) * ?cell \<le> r" unfolding r by (intro mult_right_mono) (auto simp: less_imp_le)
  moreover have "0 < i" using assms(3) unfolding r by (simp add: zero_less_mult_iff)
  then have "1 * ?cell \<le> of_int i * ?cell" by (intro mult_right_mono) (auto simp: less_imp_le)
  ultimately show ?thesis using assms snapToCell_fixed by (simp add: snapLength_def Let_def r)
qed

lemma spanFromLength_lengthFromSpan: "1 \<le> i \<Longrightarrow> spanFromLength (Finite (lengthFromSpan (of_int i) c)) c = of_int i"
  by (simp add: spanFromLength_def lengthFromSpan_def Let_def max_def mult_le_0_iff not_le)

text \<open>Away from the floor and the ceiling a length goes to the nearest whole number of cells.\<close>

lemma snapLength_near:
  assumes "0 < least" and "least + clampCellSize c \<le> r" and "r + clampCellSize c \<le> most"
  shows "\<bar>snapLength (Finite r) c least most - r\<bar> \<le> clampCellSize c / 2"
proof -
  let ?cell = "clampCellSize c"
  let ?ceil = "js_ceil (least / ?cell) * ?cell"
  have "js_ceil (least / ?cell) \<le> least / ?cell + 1" unfolding js_ceil_def by linarith
  then have "?ceil \<le> (least / ?cell + 1) * ?cell" by (intro mult_right_mono) (auto simp: less_imp_le)
  then have "?ceil \<le> r" using assms(2) by (simp add: algebra_simps)
  then have "?ceil \<le> snapToCell (Finite r) c" "?cell \<le> snapToCell (Finite r) c"
    using snapToCell_nearest [of c ?ceil r] snapToCell_nearest [of c ?cell r] assms(1,2) by (auto simp: abs_if split: if_splits)
  moreover have "snapToCell (Finite r) c \<le> most"
    using snapToCell_near [of r c] assms(3) clampCellSize_range(1) [of c] by linarith
  ultimately show ?thesis using snapToCell_near by (simp add: snapLength_def Let_def)
qed

text \<open>A shell grown to the lattice covers what it measured, up to half a pixel, and adds less than a cell.\<close>

lemma ceilToCell_covers:
  assumes "0 < r"
  shows "on_lattice c (ceilToCell (Finite r) c)" and "r - 1 / 2 < ceilToCell (Finite r) c" and "ceilToCell (Finite r) c \<le> r + clampCellSize c"
proof -
  let ?cell = "clampCellSize c"
  let ?nearest = "js_round (r / ?cell) * ?cell"
  have ceil: "r \<le> js_ceil (r / ?cell) * ?cell" by (rule ceil_cells_ge)
  have "js_ceil (r / ?cell) \<le> r / ?cell + 1" unfolding js_ceil_def by linarith
  then have "js_ceil (r / ?cell) * ?cell \<le> (r / ?cell + 1) * ?cell" by (intro mult_right_mono) (auto simp: less_imp_le)
  then have least: "js_ceil (r / ?cell) * ?cell \<le> r + ?cell" by (simp add: algebra_simps)
  have near: "?nearest \<le> r + ?cell" if "\<bar>r - ?nearest\<bar> < 1 / 2"
    using that clampCellSize_range [of c] by linarith
  show "on_lattice c (ceilToCell (Finite r) c)"
    by (auto simp: ceilToCell_def Let_def intro!: on_lattice_max)
  show "r - 1 / 2 < ceilToCell (Finite r) c"
    using assms ceil clampCellSize_range [of c] by (auto simp: ceilToCell_def Let_def less_max_iff_disj abs_less_iff)
  show "ceilToCell (Finite r) c \<le> r + ?cell"
    using assms least near by (auto simp: ceilToCell_def Let_def)
qed

subsection \<open>Edge selectors\<close>

text \<open>
  The half cell is snapped to as if it were a cell: it is rounded and raised to the smallest cell.
  From 48 pixels on, an even cell keeps its half; a smaller cell does not, so the selector leaves the lattice it should meet.
\<close>

lemma even_cell_half: "48 \<le> clampCellSize c \<Longrightarrow> clampCellSize c = of_int (2 * i) \<Longrightarrow> clampCellSize (Finite (edgeSelectorSnapPitch c)) = edgeSelectorSnapPitch c"
  using clampCellSize_range [of c] by (simp add: edgeSelectorSnapPitch_def clampCellSize_def [of "Finite _"] cell_bounds)

lemma selector_meets_half_cells:
  assumes "48 \<le> clampCellSize c" and "clampCellSize c = of_int (2 * i)"
  shows "\<exists>k l. fst anchor + fst (snapEdgeSelectorRouteOffset anchor offset c) = of_int k * (clampCellSize c / 2)
     \<and> snd anchor + snd (snapEdgeSelectorRouteOffset anchor offset c) = of_int l * (clampCellSize c / 2)"
proof -
  have "\<exists>k. snapToCell v (Finite (edgeSelectorSnapPitch c)) = of_int k * (clampCellSize c / 2)" for v
    using snapToCell_lattice [of "Finite (edgeSelectorSnapPitch c)" v] even_cell_half [OF assms]
    unfolding on_lattice_iff by (metis edgeSelectorSnapPitch_def)
  then show ?thesis by (simp add: snapEdgeSelectorRouteOffset_def snapPosition_def Let_def)
qed

lemma small_cell_selector_off_lattice:
  "fst (snapEdgeSelectorRouteOffset (0, 0) (18, 0) (Finite 36)) = 24" "edgeSelectorSnapPitch (Finite 36) = 18"
  by code_simp+

subsection \<open>Layouts\<close>

fun axis_size :: "grid_axis \<Rightarrow> workflow_node_layout \<Rightarrow> js_number option" where
  "axis_size AxisWidth l = wl_width l"
| "axis_size AxisBodyHeight l = wl_bodyHeight l"
| "axis_size AxisAppendixHeight l = wl_appendixHeight l"

fun axis_least :: "grid_axis \<Rightarrow> rat" where
  "axis_least AxisWidth = NODE_WIDTH_MIN"
| "axis_least AxisBodyHeight = BODY_HEIGHT_MIN"
| "axis_least AxisAppendixHeight = APPENDIX_HEIGHT_MIN"

lemma axis_least_bounds: "0 < axis_least a" "axis_least a \<le> LAYOUT_DIMENSION_MAX"
  by (cases a; simp add: layout_bounds)+

lemma snapped_axis:
  "snapNodeLayout (Some l) axes c = Some m
     \<Longrightarrow> axis_size a m = clamp_size (snap_axis axes a c (axis_least a) (axis_size a l)) (axis_least a) LAYOUT_DIMENSION_MAX"
  by (cases a) (auto simp: snapNodeLayout_def clampNodeLayout_def Let_def split: if_splits)

lemma snapped_axis_length:
  assumes "snapNodeLayout (Some l) axes c = Some m" and "a \<in> set axes"
  shows "axis_size a m = map_option (\<lambda>v. Finite (snapLength v c (axis_least a) LAYOUT_DIMENSION_MAX)) (axis_size a l)"
  using snapped_axis [OF assms(1), of a] assms(2) snapLength_range [where least = "axis_least a" and most = LAYOUT_DIMENSION_MAX and c = c] axis_least_bounds [of a]
  by (auto simp: snap_axis_def clamp_size_def min_absorb2 max_absorb2 split: option.splits)

lemma resnapped_axis:
  assumes "layout_ok m" and "\<forall>r. axis_size a m = Some (Finite r) \<longrightarrow> on_lattice c r"
  shows "snap_axis axes a c (axis_least a) (axis_size a m) = axis_size a m"
proof (cases "axis_size a m")
  case (Some v)
  from assms(1) have "size_within (axis_size a m) (axis_least a)" by (cases a) (simp_all add: layout_ok_def)
  then obtain r where "v = Finite r" "axis_least a \<le> r" "r \<le> LAYOUT_DIMENSION_MAX"
    using Some by (cases v) (auto simp: size_within_def)
  then show ?thesis using assms(2) Some snapLength_fixed [of c r "axis_least a" LAYOUT_DIMENSION_MAX] axis_least_bounds [of a]
    by (auto simp: snap_axis_def)
qed (simp add: snap_axis_def)

lemma resnapped_layout:
  assumes "layout_ok m" and "\<forall>a r. axis_size a m = Some (Finite r) \<longrightarrow> on_lattice c r"
  shows "snapNodeLayout (Some m) axes c = Some m"
proof -
  have same: "snap_axis axes a c (axis_least a) (axis_size a m) = axis_size a m" for a
    using resnapped_axis [OF assms(1)] assms(2) by blast
  have "snap_axis axes AxisWidth c NODE_WIDTH_MIN (wl_width m) = wl_width m"
    "snap_axis axes AxisBodyHeight c BODY_HEIGHT_MIN (wl_bodyHeight m) = wl_bodyHeight m"
    "snap_axis axes AxisAppendixHeight c APPENDIX_HEIGHT_MIN (wl_appendixHeight m) = wl_appendixHeight m"
    using same [of AxisWidth] same [of AxisBodyHeight] same [of AxisAppendixHeight] by simp_all
  then show ?thesis using ok_clamped [OF assms(1)] by (cases m) (simp add: snapNodeLayout_def)
qed

text \<open>
  C40: a snapped layout keeps every size between its floor and the ceiling; each size on a snapped axis is a whole number of
  cells or the ceiling, a size a cell away from both bounds moves by at most half a cell, every other size
  is only clamped, and snapping a layout on the lattice again changes nothing.
\<close>

theorem snapped_layout_on_lattice:
  assumes "snapNodeLayout (Some l) axes c = Some m"
  shows "layout_ok m
    \<and> (\<forall>a. if a \<in> set axes
            then (axis_size a m = None \<longleftrightarrow> axis_size a l = None)
              \<and> (\<forall>v. axis_size a m = Some v \<longrightarrow> (\<exists>r. v = Finite r \<and> (on_lattice c r \<or> r = LAYOUT_DIMENSION_MAX)))
              \<and> (\<forall>r r'. axis_size a l = Some (Finite r) \<and> axis_size a m = Some (Finite r')
                     \<and> axis_least a + clampCellSize c \<le> r \<and> r + clampCellSize c \<le> LAYOUT_DIMENSION_MAX
                   \<longrightarrow> \<bar>r' - r\<bar> \<le> clampCellSize c / 2)
            else axis_size a m = clamp_size (axis_size a l) (axis_least a) LAYOUT_DIMENSION_MAX)
    \<and> ((\<forall>a r. axis_size a m = Some (Finite r) \<longrightarrow> on_lattice c r) \<longrightarrow> snapNodeLayout (Some m) axes c = Some m)"
proof (intro conjI allI)
  show ok: "layout_ok m" using assms clamped_ok by (simp add: snapNodeLayout_def)
  show "(\<forall>a r. axis_size a m = Some (Finite r) \<longrightarrow> on_lattice c r) \<longrightarrow> snapNodeLayout (Some m) axes c = Some m"
    using resnapped_layout [OF ok] by blast
  show "if a \<in> set axes
      then (axis_size a m = None \<longleftrightarrow> axis_size a l = None)
        \<and> (\<forall>v. axis_size a m = Some v \<longrightarrow> (\<exists>r. v = Finite r \<and> (on_lattice c r \<or> r = LAYOUT_DIMENSION_MAX)))
        \<and> (\<forall>r r'. axis_size a l = Some (Finite r) \<and> axis_size a m = Some (Finite r')
               \<and> axis_least a + clampCellSize c \<le> r \<and> r + clampCellSize c \<le> LAYOUT_DIMENSION_MAX
             \<longrightarrow> \<bar>r' - r\<bar> \<le> clampCellSize c / 2)
      else axis_size a m = clamp_size (axis_size a l) (axis_least a) LAYOUT_DIMENSION_MAX" for a
    using snapped_axis_length [OF assms, of a] snapped_axis [OF assms, of a] snapLength_cells
      snapLength_near [of "axis_least a" c _ LAYOUT_DIMENSION_MAX] axis_least_bounds(1) [of a]
    by (auto simp: snap_axis_def)
qed

definition sample_layout :: workflow_node_layout where
  "sample_layout = \<lparr>wl_width = Some (Finite 333), wl_bodyHeight = Some (Finite 20), wl_appendixHeight = None\<rparr>"

definition sample_snapped :: workflow_node_layout where
  "sample_snapped = \<lparr>wl_width = Some (Finite 350), wl_bodyHeight = Some (Finite 96), wl_appendixHeight = None\<rparr>"

theorem snapped_layout_on_lattice_witness:
  "snapNodeLayout (Some sample_layout) [AxisWidth] (Finite 50) = Some sample_snapped \<and> layout_ok sample_snapped"
proof -
  have "snapNodeLayout (Some sample_layout) [AxisWidth] (Finite 50) = Some sample_snapped" by code_simp
  then show ?thesis using snapped_layout_on_lattice by blast
qed

end
