(* ===== verification/NodeCatalog.thy ===== *)
theory NodeCatalog
  imports LibraryTree ConfigSchema
begin

section \<open>The node catalog and the feeds of a connection\<close>

text \<open>
  \<^verbatim>\<open>model/node-catalog.ts\<close> (filters, search and the nodes that fit a dragged port) and \<^verbatim>\<open>model/connection-feeds.ts\<close>.
  \<open>localeCompare\<close> is the comparison of the text platform. The texts of the registry that only the catalog reads (plugins, titles
  of artifact types, titles and descriptions of ports, \<open>String\<close> of a number) are in \<open>catalog_texts\<close>. Labels that hold
  characters beyond Latin-1 are left out: the port summary of a row, and the titles and descriptions of feeds, which the
  definitions take as arguments.
\<close>

subsection \<open>Feeds of a connection\<close>

definition conversionPathsEqual :: "graph_conversion list \<Rightarrow> graph_conversion list \<Rightarrow> bool" where
  "conversionPathsEqual left right \<longleftrightarrow>
     length left = length right
     \<and> list_all (\<lambda>(l, r). conv_id l = conv_id r \<and> conv_version l = conv_version r) (zip left right)"

definition pathsEqual :: "string list \<Rightarrow> string list \<Rightarrow> bool" where
  "pathsEqual left right \<longleftrightarrow> length left = length right \<and> list_all (\<lambda>(l, r). l = r) (zip left right)"

definition projectionsEqual :: "string list option \<Rightarrow> string list option \<Rightarrow> bool" where
  "projectionsEqual left right =
     (case (left, right) of (Some l, Some r) \<Rightarrow> pathsEqual l r | (None, None) \<Rightarrow> True | _ \<Rightarrow> False)"

definition routesMatchingProjectionPath :: "connection_route list \<Rightarrow> string list \<Rightarrow> connection_route list" where
  "routesMatchingProjectionPath routes path =
     filter (\<lambda>route. case route_projection route of None \<Rightarrow> False | Some p \<Rightarrow> pathsEqual (fp_path p) path) routes"

definition isWholeFeedRoute :: "connection_route \<Rightarrow> bool" where
  "isWholeFeedRoute route = (case route of RExact _ _ \<Rightarrow> True | RConversion _ _ \<Rightarrow> True | _ \<Rightarrow> False)"

definition routesForHandleFeed :: "connection_route list \<Rightarrow> feed_intent option \<Rightarrow> connection_route list" where
  "routesForHandleFeed routes feed =
     (case feed of
        None \<Rightarrow> routes
      | Some WholeFeed \<Rightarrow> (let whole = filter isWholeFeedRoute routes in if whole \<noteq> [] then whole else routes)
      | Some (ProjectionFeed path) \<Rightarrow>
          (let matching = routesMatchingProjectionPath routes path in if matching \<noteq> [] then matching else routes))"

definition preferredWholeFeedRoute :: "connection_route list \<Rightarrow> connection_route option" where
  "preferredWholeFeedRoute routes =
     (case find isWholeFeedRoute routes of Some r \<Rightarrow> Some r | None \<Rightarrow> (case routes of [] \<Rightarrow> None | r # _ \<Rightarrow> Some r))"

definition compareFeedRoutes :: "locale_compare \<Rightarrow> (connection_route \<Rightarrow> string) \<Rightarrow> connection_route \<Rightarrow> connection_route \<Rightarrow> int" where
  "compareFeedRoutes compare title left right =
     (let leftWhole = if isWholeFeedRoute left then 0 else 1; rightWhole = if isWholeFeedRoute right then 0 else 1
      in if leftWhole \<noteq> rightWhole then leftWhole - rightWhole else compare (title left) (title right))"

definition orderFeedRoutes :: "locale_compare \<Rightarrow> (connection_route \<Rightarrow> string) \<Rightarrow> connection_route list \<Rightarrow> connection_route list" where
  "orderFeedRoutes compare title routes = js_sort (compareFeedRoutes compare title) routes"

text \<open>An option for the route of an edge, and the choices of the picker: options that feed the same are offered once.\<close>

record route_option =
  ro_projection :: "string list option"
  ro_conversionPath :: "graph_conversion list"

definition feed_key :: "route_option \<Rightarrow> string" where
  "feed_key route =
     js_join ''::'' [case ro_projection route of Some path \<Rightarrow> js_join ''.'' path | None \<Rightarrow> ''whole'',
       let conversions = js_join ''|'' (map (\<lambda>c. conv_id c @ ''@'' @ int_text (conv_version c)) (ro_conversionPath route))
       in if conversions \<noteq> [] then conversions else ''none'']"

definition same_feed :: "route_option \<Rightarrow> route_option \<Rightarrow> bool" where
  "same_feed left right \<longleftrightarrow>
     projectionsEqual (ro_projection left) (ro_projection right) \<and> conversionPathsEqual (ro_conversionPath left) (ro_conversionPath right)"

fun feed_choices :: "(string \<times> route_option) list \<Rightarrow> route_option list \<Rightarrow> (string \<times> route_option) list" where
  "feed_choices choices [] = choices"
| "feed_choices choices (route # routes) =
     (if list_ex (\<lambda>choice. same_feed (snd choice) route) choices then feed_choices choices routes
      else feed_choices (choices @ [(feed_key route, route)]) routes)"

definition feedChoicesFromRouteOptions :: "route_option list \<Rightarrow> (string \<times> route_option) list" where
  "feedChoicesFromRouteOptions routeOptions = feed_choices [] routeOptions"

subsection \<open>Filters\<close>

datatype catalog_filter_kind = FilterAll | FilterArtifact | FilterSingle | FilterSequence | FilterAnyArtifact | FilterSource | FilterInputNodes

record catalog_filter =
  cf_id :: string
  cf_kind :: catalog_filter_kind
  cf_title :: string
  cf_artifactKey :: "artifact_type_key option"
  cf_sourceKey :: "string option"

record plugin_spec =
  pl_slug :: string
  pl_title :: string
  pl_entry_kind :: string
  pl_origin :: string

record catalog_texts =
  ct_plugins :: "plugin_spec list"
  ct_artifact_title :: "artifact_type_spec \<Rightarrow> string"
  ct_port_title :: "port \<Rightarrow> string option"
  ct_port_description :: "port \<Rightarrow> string option"
  ct_number_text :: "js_number \<Rightarrow> string"

definition catalogNodeKey :: "node_spec \<Rightarrow> string" where
  "catalogNodeKey spec = ns_operator_id spec @ ''@'' @ int_text (ns_operator_version spec)"

definition artifactFilterId :: "artifact_type_key \<Rightarrow> string" where
  "artifactFilterId key = ''artifact:'' @ artifactTypeKey key"

definition sourceFilterId :: "string \<Rightarrow> string" where
  "sourceFilterId slug = ''source:'' @ slug"

definition plain_filter :: "string \<Rightarrow> catalog_filter_kind \<Rightarrow> string \<Rightarrow> catalog_filter" where
  "plain_filter i kind title = \<lparr>cf_id = i, cf_kind = kind, cf_title = title, cf_artifactKey = None, cf_sourceKey = None\<rparr>"

definition INPUT_NODES_FILTER :: catalog_filter where
  "INPUT_NODES_FILTER = plain_filter ''input-nodes'' FilterInputNodes ''Input nodes''"

definition catalogPlugin :: "catalog_texts \<Rightarrow> string \<Rightarrow> string + plugin_spec" where
  "catalogPlugin texts slug =
     (case find (\<lambda>candidate. pl_slug candidate = slug) (ct_plugins texts) of
        Some plugin \<Rightarrow> Inr plugin
      | None \<Rightarrow> Inl (''Node registry is missing owner plugin \"'' @ slug @ ''\".''))"

definition same_key :: "artifact_type_key \<Rightarrow> artifact_type_key \<Rightarrow> bool" where
  "same_key left right \<longleftrightarrow> type_id left = type_id right \<and> type_schema_version left = type_schema_version right"

definition portDeclaresArtifact :: "port \<Rightarrow> artifact_type_key \<Rightarrow> bool" where
  "portDeclaresArtifact port key = (case portArtifactType port of None \<Rightarrow> False | Some t \<Rightarrow> same_key t key)"

definition portIsAnyArtifact :: "port \<Rightarrow> bool" where
  "portIsAnyArtifact port \<longleftrightarrow> undefined_of (portArtifactTypeVariable port) \<noteq> None \<and> portArtifactType port = None"

definition nodeDeclaresArtifact :: "node_spec \<Rightarrow> artifact_type_key \<Rightarrow> bool" where
  "nodeDeclaresArtifact spec key = list_ex (\<lambda>port. portDeclaresArtifact port key) (ns_inputs spec @ ns_outputs spec)"

definition nodeMatchesShapeFilter :: "node_spec \<Rightarrow> port_shape \<Rightarrow> bool" where
  "nodeMatchesShapeFilter spec shape =
     (if list_ex (\<lambda>port. po_shape port = shape) (ns_outputs spec) then True
      else list_ex (\<lambda>port. shape \<in> set (acceptedPortShapes port)) (ns_inputs spec))"

definition nodeMatchesAnyArtifact :: "node_spec \<Rightarrow> bool" where
  "nodeMatchesAnyArtifact spec = list_ex portIsAnyArtifact (ns_inputs spec @ ns_outputs spec)"

definition artifactTitle :: "catalog_texts \<Rightarrow> node_registry \<Rightarrow> artifact_type_key \<Rightarrow> string" where
  "artifactTitle texts registry key =
     (case find (\<lambda>artifact. same_key (ats_key artifact) key) (nr_artifact_types registry) of
        Some artifact \<Rightarrow> ct_artifact_title texts artifact
      | None \<Rightarrow> type_id key)"

text \<open>\<open>a || b\<close> of two comparisons.\<close>

definition first_difference :: "int \<Rightarrow> int \<Rightarrow> int" where
  "first_difference a b = (if a \<noteq> 0 then a else b)"

definition buildSourceFilters :: "locale_compare \<Rightarrow> catalog_texts \<Rightarrow> node_registry \<Rightarrow> catalog_filter list" where
  "buildSourceFilters compare texts registry =
     (let slugsWithNodes = map ns_plugin_slug (nr_nodes registry);
          sources = js_sort (\<lambda>left right. first_difference (compare (pl_title left) (pl_title right)) (compare (pl_slug left) (pl_slug right)))
            (filter (\<lambda>plugin. pl_slug plugin \<in> set slugsWithNodes) (ct_plugins texts))
      in plain_filter ''all'' FilterAll ''All''
         # map (\<lambda>plugin. \<lparr>cf_id = sourceFilterId (pl_slug plugin), cf_kind = FilterSource,
                  cf_title = (if pl_title plugin = [] then ''System'' else pl_title plugin), cf_artifactKey = None,
                  cf_sourceKey = Some (pl_slug plugin)\<rparr>) sources)"

definition compareArtifactTypes :: "locale_compare \<Rightarrow> catalog_texts \<Rightarrow> artifact_type_spec \<Rightarrow> artifact_type_spec \<Rightarrow> int" where
  "compareArtifactTypes compare texts left right =
     (let byTitle = compare (ct_artifact_title texts left) (ct_artifact_title texts right)
      in if byTitle \<noteq> 0 then byTitle else compare (artifactTypeKey (ats_key left)) (artifactTypeKey (ats_key right)))"

definition artifact_filter :: "catalog_texts \<Rightarrow> node_registry \<Rightarrow> artifact_type_spec \<Rightarrow> catalog_filter" where
  "artifact_filter texts registry artifact =
     (let title = ct_artifact_title texts artifact;
          showVersion = length (filter (\<lambda>other. ct_artifact_title texts other = title) (nr_artifact_types registry)) > 1
      in \<lparr>cf_id = artifactFilterId (ats_key artifact), cf_kind = FilterArtifact,
         cf_title = (if showVersion then title @ '' '' @ [CHR 0xB7] @ '' v'' @ int_text (type_schema_version (ats_key artifact)) else title),
         cf_artifactKey = Some (ats_key artifact), cf_sourceKey = None\<rparr>)"

definition buildCatalogFilters :: "locale_compare \<Rightarrow> catalog_texts \<Rightarrow> node_registry \<Rightarrow> catalog_filter list" where
  "buildCatalogFilters compare texts registry =
     [plain_filter ''all'' FilterAll ''All nodes'']
     @ map (artifact_filter texts registry) (js_sort (compareArtifactTypes compare texts) (nr_artifact_types registry))
     @ [plain_filter ''single'' FilterSingle ''Single value'', plain_filter ''sequence'' FilterSequence ''Sequence'',
        plain_filter ''any-artifact'' FilterAnyArtifact ''Any artifact'']"

text \<open>An optional text that is present and not empty.\<close>

definition non_empty_text :: "string option \<Rightarrow> string option" where
  "non_empty_text t = (case t of Some s \<Rightarrow> if s = [] then None else Some s | None \<Rightarrow> None)"

definition catalogNodesForFilter :: "node_spec list \<Rightarrow> catalog_filter \<Rightarrow> node_spec list" where
  "catalogNodesForFilter nodes flt =
     (case cf_kind flt of
        FilterAll \<Rightarrow> nodes
      | FilterArtifact \<Rightarrow> (case cf_artifactKey flt of Some key \<Rightarrow> filter (\<lambda>spec. nodeDeclaresArtifact spec key) nodes | None \<Rightarrow> [])
      | FilterSingle \<Rightarrow> filter (\<lambda>spec. nodeMatchesShapeFilter spec One) nodes
      | FilterSequence \<Rightarrow> filter (\<lambda>spec. nodeMatchesShapeFilter spec Many) nodes
      | FilterAnyArtifact \<Rightarrow> filter nodeMatchesAnyArtifact nodes
      | FilterSource \<Rightarrow> (case non_empty_text (cf_sourceKey flt) of Some slug \<Rightarrow> filter (\<lambda>spec. ns_plugin_slug spec = slug) nodes | None \<Rightarrow> [])
      | FilterInputNodes \<Rightarrow> filter (\<lambda>spec. ns_inputs spec = []) nodes)"

definition compareCatalogNodes :: "locale_compare \<Rightarrow> node_spec \<Rightarrow> node_spec \<Rightarrow> int" where
  "compareCatalogNodes compare left right =
     (let byTitle = compare (ns_title left) (ns_title right); byOperator = compare (ns_operator_id left) (ns_operator_id right)
      in if byTitle \<noteq> 0 then byTitle else if byOperator \<noteq> 0 then byOperator
         else ns_operator_version left - ns_operator_version right)"

definition sortCatalogNodes :: "locale_compare \<Rightarrow> node_spec list \<Rightarrow> node_spec list" where
  "sortCatalogNodes compare nodes = js_sort (compareCatalogNodes compare) nodes"

subsection \<open>Search\<close>

definition shape_word :: "port_shape \<Rightarrow> string" where
  "shape_word shape = (if shape = Many then ''sequence'' else ''single'')"

definition text_or_empty :: "string option \<Rightarrow> string" where
  "text_or_empty t = (case t of Some s \<Rightarrow> s | None \<Rightarrow> [])"

definition portSearchTerms :: "catalog_texts \<Rightarrow> node_registry \<Rightarrow> port \<Rightarrow> string list" where
  "portSearchTerms texts registry port =
     (let artifactType = portArtifactType port
      in [po_name port, text_or_empty (ct_port_title texts port), text_or_empty (ct_port_description texts port),
          case artifactType of Some t \<Rightarrow> artifactTitle texts registry t | None \<Rightarrow> ''any artifact'',
          case artifactType of Some t \<Rightarrow> type_id t | None \<Rightarrow> ''any artifact generic'',
          text_or_empty (undefined_of (portArtifactTypeVariable port)),
          if po_instance_plugs port then ''collect ordered input plugs'' else []]
         @ map shape_word (po_accepted_shapes port))"

fun field_base :: "schema_field \<Rightarrow> schema_field_base" where
  "field_base (ScalarField base _) = base"
| "field_base (NumberTupleField base _) = base"
| "field_base (StringListField base _) = base"

definition enum_text :: "catalog_texts \<Rightarrow> json \<Rightarrow> string" where
  "enum_text texts v = (case v of JString s \<Rightarrow> s | JNumber n \<Rightarrow> ct_number_text texts n | _ \<Rightarrow> [])"

definition field_terms :: "catalog_texts \<Rightarrow> schema_field \<Rightarrow> string list" where
  "field_terms texts field =
     [xf_name (field_base field), xf_title (field_base field), text_or_empty (xf_description (field_base field))]
     @ (case field of
          ScalarField _ constraints \<Rightarrow> (case sc_enumValues constraints of Some vs \<Rightarrow> map (enum_text texts) vs | None \<Rightarrow> [])
        | _ \<Rightarrow> [])"

definition nodeCatalogSearchText :: "catalog_texts \<Rightarrow> node_registry \<Rightarrow> node_spec \<Rightarrow> string + string" where
  "nodeCatalogSearchText texts registry spec =
     bind_result (catalogPlugin texts (ns_plugin_slug spec)) (\<lambda>plugin.
       Inr (lower (js_join '' ''
         ([ns_title spec, ns_operator_id spec, ns_description spec, ns_plugin_slug spec, pl_title plugin, pl_entry_kind plugin, pl_origin plugin]
          @ concat (map (portSearchTerms texts registry) (ns_inputs spec))
          @ concat (map (portSearchTerms texts registry) (ns_outputs spec))
          @ concat (map (field_terms texts) (schemaFields (ns_config_schema spec)))))))"

definition searchTerms :: "string \<Rightarrow> string list" where
  "searchTerms query = filter (\<lambda>t. t \<noteq> []) (space_split (lower (js_trim query)))"

text \<open>\<open>Array.filter\<close> and \<open>Array.some\<close> with a callback that may throw.\<close>

fun filter_result :: "('a \<Rightarrow> 'e + bool) \<Rightarrow> 'a list \<Rightarrow> 'e + 'a list" where
  "filter_result p [] = Inr []"
| "filter_result p (x # xs) = bind_result (p x) (\<lambda>keep. bind_result (filter_result p xs) (\<lambda>ys. Inr (if keep then x # ys else ys)))"

fun some_result :: "('a \<Rightarrow> 'e + bool) \<Rightarrow> 'a list \<Rightarrow> 'e + bool" where
  "some_result p [] = Inr False"
| "some_result p (x # xs) = bind_result (p x) (\<lambda>found. if found then Inr True else some_result p xs)"

definition searchCatalogNodes :: "catalog_texts \<Rightarrow> node_registry \<Rightarrow> string \<Rightarrow> node_spec list \<Rightarrow> string + node_spec list" where
  "searchCatalogNodes texts registry query nodes =
     (let terms = searchTerms query
      in if terms = [] then Inr nodes
         else filter_result (\<lambda>spec. bind_result (nodeCatalogSearchText texts registry spec)
                (\<lambda>haystack. Inr (list_all (\<lambda>term. contains haystack term) terms))) nodes)"

definition is_title_separator :: "char \<Rightarrow> bool" where
  "is_title_separator c \<longleftrightarrow> is_space c \<or> c \<in> set ''-_.,:;/()[]{}+*&|<>'' \<or> c = CHR 0x5C \<or> c = CHR 0x22 \<or> c = CHR 0x27 \<or> c = CHR 0x60"

text \<open>\<open>title.split(/[...]+/)\<close>: a run of separators ends a word.\<close>

function title_words :: "string \<Rightarrow> string list" where
  "title_words s =
     (let rest = dropWhile (\<lambda>c. \<not> is_title_separator c) s
      in takeWhile (\<lambda>c. \<not> is_title_separator c) s # (if rest = [] then [] else title_words (dropWhile is_title_separator rest)))"
  by pat_completeness auto
termination
proof (relation "measure length", goal_cases)
  case (2 s rest)
  then obtain c cs where rest: "rest = c # cs" by (metis neq_Nil_conv)
  with 2(1) have "is_title_separator c" by (metis dropWhile_eq_Cons_conv)
  then have "length (dropWhile is_title_separator rest) < length rest" using rest by (simp add: length_dropWhile_le le_imp_less_Suc)
  moreover have "length rest \<le> length s" using 2(1) by (simp add: length_dropWhile_le)
  ultimately show ?case by simp
qed simp

declare title_words.simps [simp del]

definition catalogSearchRank :: "node_spec \<Rightarrow> string \<Rightarrow> nat" where
  "catalogSearchRank spec query =
     (let phrase = lower (js_trim query); title = lower (ns_title spec); words = title_words title;
          terms = searchTerms query;
          inTitle = length (filter (\<lambda>term. list_ex (starts_with term) words) terms)
      in if title = phrase then 0
         else if starts_with phrase title then 1
         else if list_ex (starts_with phrase) words then 2
         else if contains title phrase then 3
         else if inTitle = length terms then 4
         else if inTitle > 0 then 5
         else if contains (lower (ns_operator_id spec)) phrase then 6
         else 7)"

definition filterAndSearchCatalogNodes ::
    "locale_compare \<Rightarrow> catalog_texts \<Rightarrow> node_registry \<Rightarrow> catalog_filter list \<Rightarrow> string \<Rightarrow> node_spec list \<Rightarrow> string + node_spec list" where
  "filterAndSearchCatalogNodes compare texts registry filters query nodes =
     (let filtered = foldl (\<lambda>acc flt. if cf_kind flt = FilterAll then acc else catalogNodesForFilter acc flt) nodes filters
      in bind_result (searchCatalogNodes texts registry query filtered) (\<lambda>hits.
           let found = sortCatalogNodes compare hits
           in if searchTerms query = [] then Inr found
              else Inr (map fst (js_sort (\<lambda>left right. int (snd left) - int (snd right))
                          (map (\<lambda>spec. (spec, catalogSearchRank spec query)) found)))))"

definition catalogNodeSpecs :: "node_registry \<Rightarrow> node_spec list" where
  "catalogNodeSpecs registry = filter ns_catalog_visible (nr_nodes registry)"

definition portLabel :: "catalog_texts \<Rightarrow> node_registry \<Rightarrow> port \<Rightarrow> string" where
  "portLabel texts registry port =
     (case portArtifactType port of None \<Rightarrow> ''Any'' | Some t \<Rightarrow> artifactTitle texts registry t)"

definition catalogNodeProviderLabel :: "catalog_texts \<Rightarrow> node_spec \<Rightarrow> string + string" where
  "catalogNodeProviderLabel texts spec =
     bind_result (catalogPlugin texts (ns_plugin_slug spec)) (\<lambda>plugin.
       Inr (if pl_title plugin \<noteq> [] then pl_title plugin else if pl_origin plugin = ''builtin'' then ''Built-in'' else ''Plugin''))"

subsection \<open>Nodes that fit a port\<close>

definition shapesAreCompatible :: "port \<Rightarrow> port \<Rightarrow> bool" where
  "shapesAreCompatible source target \<longleftrightarrow>
     po_shape source \<in> set (acceptedPortShapes target)
     \<or> (\<not> portHasInstancePlugs target \<and> po_shape source = Many \<and> One \<in> set (acceptedPortShapes target))"

definition collectionModeForPorts :: "port \<Rightarrow> port \<Rightarrow> collection_mode option" where
  "collectionModeForPorts source target =
     (if po_shape source \<in> set (acceptedPortShapes target) then Some Direct
      else if \<not> portHasInstancePlugs target \<and> po_shape source = Many \<and> One \<in> set (acceptedPortShapes target) then Some MapItems
      else None)"

definition DISCOVERY_INSTANCE_PLUG_ID :: string where
  "DISCOVERY_INSTANCE_PLUG_ID = ''discovery-instance-plug''"

definition catalog_handle :: "port \<Rightarrow> string option \<Rightarrow> string + string" where
  "catalog_handle port plugId = bind_result (portMetaForPort port (po_shape port) plugId []) (\<lambda>meta. Inr (encodeHandleId meta))"

definition targetHandleForRoute :: "port \<Rightarrow> string option \<Rightarrow> string + string" where
  "targetHandleForRoute target plugId = catalog_handle target plugId"

record route_choice =
  rc_candidatePort :: port
  rc_route :: connection_route
  rc_collectionMode :: collection_mode
  rc_usesInstancePlug :: bool

record contextual_candidate =
  cc_spec :: node_spec
  cc_choices :: "route_choice list"

definition routes_between :: "text_platform \<Rightarrow> string \<Rightarrow> string \<Rightarrow> node_registry \<Rightarrow> connection_route list" where
  "routes_between platform sourceHandle targetHandle registry =
     connectionRoutesFor platform \<lparr>cn_sourceHandle = Some sourceHandle, cn_targetHandle = Some targetHandle\<rparr>
       (nr_artifact_types registry) (nr_artifact_conversions registry)"

definition downstream_choices ::
    "text_platform \<Rightarrow> node_registry \<Rightarrow> port \<Rightarrow> string \<Rightarrow> feed_intent option \<Rightarrow> port \<Rightarrow> string + route_choice list" where
  "downstream_choices platform registry sourcePort sourceHandle sourceFeed input =
     (if po_direction input \<noteq> Input \<or> \<not> shapesAreCompatible sourcePort input then Inr []
      else case collectionModeForPorts sourcePort input of
             None \<Rightarrow> Inr []
           | Some mode \<Rightarrow>
               (let usesInstancePlug = portHasInstancePlugs input
                in if usesInstancePlug \<and> \<not> po_required input then Inr []
                   else bind_result (targetHandleForRoute input (if usesInstancePlug then Some DISCOVERY_INSTANCE_PLUG_ID else None))
                          (\<lambda>targetHandle.
                             Inr (map (\<lambda>route. \<lparr>rc_candidatePort = input, rc_route = route, rc_collectionMode = mode,
                                               rc_usesInstancePlug = usesInstancePlug\<rparr>)
                               (routesForHandleFeed (routes_between platform sourceHandle targetHandle registry) sourceFeed)))))"

definition upstream_choices :: "text_platform \<Rightarrow> node_registry \<Rightarrow> port \<Rightarrow> string \<Rightarrow> port \<Rightarrow> string + route_choice list" where
  "upstream_choices platform registry targetPort targetHandle output =
     (if po_direction output \<noteq> Output \<or> \<not> shapesAreCompatible output targetPort then Inr []
      else case collectionModeForPorts output targetPort of
             None \<Rightarrow> Inr []
           | Some mode \<Rightarrow>
               bind_result (catalog_handle output None) (\<lambda>sourceHandle.
                 Inr (map (\<lambda>route. \<lparr>rc_candidatePort = output, rc_route = route, rc_collectionMode = mode, rc_usesInstancePlug = False\<rparr>)
                   (routes_between platform sourceHandle targetHandle registry))))"

text \<open>The loop both directions share: over the visible nodes in catalog order, those with a choice.\<close>

definition candidates_with ::
    "locale_compare \<Rightarrow> (node_spec \<Rightarrow> port list) \<Rightarrow> (port \<Rightarrow> string + route_choice list) \<Rightarrow> node_spec list \<Rightarrow> string + contextual_candidate list" where
  "candidates_with compare ports choices nodes =
     bind_result (map_result (\<lambda>spec. bind_result (map_result choices (ports spec)) (\<lambda>found. Inr \<lparr>cc_spec = spec, cc_choices = concat found\<rparr>))
                    (sortCatalogNodes compare (filter ns_catalog_visible nodes)))
       (\<lambda>candidates. Inr (filter (\<lambda>candidate. cc_choices candidate \<noteq> []) candidates))"

definition downstreamCandidatesFromOutput ::
    "text_platform \<Rightarrow> node_registry \<Rightarrow> port \<Rightarrow> string \<Rightarrow> feed_intent option \<Rightarrow> node_spec list \<Rightarrow> string + contextual_candidate list" where
  "downstreamCandidatesFromOutput platform registry sourcePort sourceHandle sourceFeed nodes =
     candidates_with (tp_compare platform) ns_inputs (downstream_choices platform registry sourcePort sourceHandle sourceFeed) nodes"

definition upstreamCandidatesFromInput ::
    "text_platform \<Rightarrow> node_registry \<Rightarrow> port \<Rightarrow> string \<Rightarrow> node_spec list \<Rightarrow> string + contextual_candidate list" where
  "upstreamCandidatesFromInput platform registry targetPort targetHandle nodes =
     candidates_with (tp_compare platform) ns_outputs (upstream_choices platform registry targetPort targetHandle) nodes"

definition portsCanConnect :: "text_platform \<Rightarrow> node_registry \<Rightarrow> port \<Rightarrow> port \<Rightarrow> string + bool" where
  "portsCanConnect platform registry source target =
     (if \<not> shapesAreCompatible source target then Inr False
      else if portHasInstancePlugs target \<and> \<not> po_required target then Inr False
      else bind_result (catalog_handle source None) (\<lambda>sourceHandle.
             bind_result (catalog_handle target (if portHasInstancePlugs target then Some ''discovery-plug'' else None)) (\<lambda>targetHandle.
               Inr (routes_between platform sourceHandle targetHandle registry \<noteq> []))))"

datatype catalog_direction = Upstream | Downstream

definition nodesCompatibleWithPort ::
    "text_platform \<Rightarrow> node_registry \<Rightarrow> catalog_direction \<Rightarrow> port \<Rightarrow> node_spec list \<Rightarrow> string + node_spec list" where
  "nodesCompatibleWithPort platform registry direction port nodes =
     filter_result (\<lambda>spec.
       if direction = Upstream then some_result (\<lambda>output. portsCanConnect platform registry output port) (ns_outputs spec)
       else some_result (\<lambda>input. portsCanConnect platform registry port input) (ns_inputs spec)) nodes"

end
