(* ===== verification/NodeCatalog_Facts.thy ===== *)
theory NodeCatalog_Facts
  imports NodeCatalog Handles_Facts
begin

section \<open>What the catalog finds\<close>

text \<open>
  Search returns exactly the nodes the filters and the words of the query ask for, best rank first and in catalog order
  within a rank; the two ways the code asks which nodes fit a port agree.
\<close>

subsection \<open>Sorting by a comparator\<close>

text \<open>What \<open>Array.sort\<close> asks of its comparator, and what it gives for it.\<close>

locale comparator =
  fixes cmp :: "'a \<Rightarrow> 'a \<Rightarrow> int"
  assumes linear: "cmp x y \<le> 0 \<or> cmp y x \<le> 0"
    and trans: "cmp x y \<le> 0 \<Longrightarrow> cmp y z \<le> 0 \<Longrightarrow> cmp x z \<le> 0"
begin

lemma insert_sorted: "sorted_wrt (\<lambda>x y. cmp x y \<le> 0) ys \<Longrightarrow> sorted_wrt (\<lambda>x y. cmp x y \<le> 0) (insert_by cmp x ys)"
proof (induction ys)
  case (Cons y ys)
  have "set (insert_by cmp x ys) = insert x (set ys)" by (metis mset_insert_by set_mset_add_mset_insert set_mset_mset)
  then show ?case using Cons linear trans by fastforce
qed simp

lemma sort_sorted: "sorted_wrt (\<lambda>x y. cmp x y \<le> 0) (js_sort cmp xs)"
  by (induction xs) (simp_all add: js_sort_def insert_sorted)

text \<open>The sort is stable: an order the list had holds between elements the comparator does not tell apart.\<close>

lemma insert_stable:
  assumes "sorted_wrt (\<lambda>y z. cmp y z < 0 \<or> cmp y z = 0 \<and> R y z) ys" and "\<And>y. y \<in> set ys \<Longrightarrow> R x y"
    and sign: "\<And>y z. cmp y z > 0 \<longleftrightarrow> cmp z y < 0"
  shows "sorted_wrt (\<lambda>y z. cmp y z < 0 \<or> cmp y z = 0 \<and> R y z) (insert_by cmp x ys)"
  using assms(1,2)
proof (induction ys)
  case (Cons y ys)
  have members: "set (insert_by cmp x ys) = insert x (set ys)" by (metis mset_insert_by set_mset_add_mset_insert set_mset_mset)
  have "cmp x z < 0 \<or> cmp x z = 0 \<and> R x z" if "cmp x y \<le> 0" "z \<in> set (y # ys)" for z
  proof -
    have "cmp y z \<le> 0" if "z \<noteq> y" using Cons.prems(1) that \<open>z \<in> _\<close> by auto
    then have "cmp x z \<le> 0" using trans \<open>cmp x y \<le> 0\<close> by metis
    then show ?thesis using Cons.prems(2) that(2) by (cases "cmp x z = 0") auto
  qed
  moreover have "cmp y x < 0" if "\<not> cmp x y \<le> 0" using that sign [of x y] by simp
  ultimately show ?case using Cons members by auto
qed simp

lemma sort_stable:
  assumes "sorted_wrt R xs" and "\<And>y z. cmp y z > 0 \<longleftrightarrow> cmp z y < 0"
  shows "sorted_wrt (\<lambda>y z. cmp y z < 0 \<or> cmp y z = 0 \<and> R y z) (js_sort cmp xs)"
  using assms(1)
proof (induction xs)
  case (Cons x xs)
  have "js_sort cmp (x # xs) = insert_by cmp x (js_sort cmp xs)" by (simp add: js_sort_def)
  moreover have "sorted_wrt (\<lambda>y z. cmp y z < 0 \<or> cmp y z = 0 \<and> R y z) (insert_by cmp x (js_sort cmp xs))"
    using Cons by (intro insert_stable assms(2)) simp_all
  ultimately show ?case by simp
qed (simp add: js_sort_def)

end

interpretation rank_order: comparator "\<lambda>left right. int (snd left) - int (snd right) :: int"
  by unfold_locales auto

text \<open>What the platform's \<open>localeCompare\<close> promises.\<close>

definition collation :: "locale_compare \<Rightarrow> bool" where
  "collation compare \<longleftrightarrow> (\<forall>x y. compare x y > 0 \<longleftrightarrow> compare y x < 0)
     \<and> (\<forall>x y z. compare x y \<le> 0 \<longrightarrow> compare y z \<le> 0 \<longrightarrow> compare x z \<le> 0)"

lemma catalog_order:
  assumes "collation compare"
  shows "comparator (compareCatalogNodes compare)"
proof
  have sign: "compare x y > 0 \<longleftrightarrow> compare y x < 0" for x y using assms by (auto simp: collation_def)
  have trans: "compare x y \<le> 0 \<Longrightarrow> compare y z \<le> 0 \<Longrightarrow> compare x z \<le> 0" for x y z using assms unfolding collation_def by blast
  have zero: "compare x y = 0 \<longleftrightarrow> compare y x = 0" for x y using sign [of x y] sign [of y x] by linarith
  have strict: "compare x z < 0" if "compare x y \<le> 0" "compare y z \<le> 0" "compare x y < 0 \<or> compare y z < 0" for x y z
    using that trans [of x y z] trans [of y z x] trans [of z x y] sign [of x y] sign [of y z] zero [of x z] zero [of x y] zero [of y z]
    by linarith
  show "compareCatalogNodes compare x y \<le> 0 \<or> compareCatalogNodes compare y x \<le> 0" for x y
    using sign [of "ns_title x" "ns_title y"] zero [of "ns_title x" "ns_title y"]
      sign [of "ns_operator_id x" "ns_operator_id y"] zero [of "ns_operator_id x" "ns_operator_id y"]
    by (auto simp: compareCatalogNodes_def Let_def)
  show "compareCatalogNodes compare x z \<le> 0" if "compareCatalogNodes compare x y \<le> 0" "compareCatalogNodes compare y z \<le> 0" for x y z
    using that strict [of "ns_title x" "ns_title y" "ns_title z"] trans [of "ns_title x" "ns_title y" "ns_title z"]
      strict [of "ns_operator_id x" "ns_operator_id y" "ns_operator_id z"] trans [of "ns_operator_id x" "ns_operator_id y" "ns_operator_id z"]
    by (auto simp: compareCatalogNodes_def Let_def split: if_splits)
qed

subsection \<open>Filters and search\<close>

definition filter_accepts :: "catalog_filter \<Rightarrow> node_spec \<Rightarrow> bool" where
  "filter_accepts flt spec =
     (case cf_kind flt of
        FilterAll \<Rightarrow> True
      | FilterArtifact \<Rightarrow> (\<exists>port \<in> set (ns_inputs spec) \<union> set (ns_outputs spec). \<exists>key. cf_artifactKey flt = Some key \<and> portDeclaresArtifact port key)
      | FilterSingle \<Rightarrow> nodeMatchesShapeFilter spec One
      | FilterSequence \<Rightarrow> nodeMatchesShapeFilter spec Many
      | FilterAnyArtifact \<Rightarrow> (\<exists>port \<in> set (ns_inputs spec) \<union> set (ns_outputs spec). portIsAnyArtifact port)
      | FilterSource \<Rightarrow> cf_sourceKey flt = Some (ns_plugin_slug spec) \<and> ns_plugin_slug spec \<noteq> []
      | FilterInputNodes \<Rightarrow> ns_inputs spec = [])"

lemma catalogNodesForFilter_filter: "catalogNodesForFilter nodes flt = filter (filter_accepts flt) nodes"
  by (cases "cf_kind flt")
    (auto simp: catalogNodesForFilter_def filter_accepts_def nodeDeclaresArtifact_def nodeMatchesAnyArtifact_def non_empty_text_def list_ex_iff
      filter_empty_conv intro!: filter_cong split: option.splits)

lemma filters_filter:
  "foldl (\<lambda>acc flt. if cf_kind flt = FilterAll then acc else catalogNodesForFilter acc flt) nodes filters
     = filter (\<lambda>spec. \<forall>flt \<in> set filters. filter_accepts flt spec) nodes"
proof (induction filters arbitrary: nodes)
  case (Cons flt filters)
  have "(if cf_kind flt = FilterAll then nodes else catalogNodesForFilter nodes flt) = filter (filter_accepts flt) nodes"
    by (simp add: catalogNodesForFilter_filter filter_accepts_def)
  then show ?case using Cons by (simp add: conj_commute)
qed simp

lemma filter_result_pure: "(\<And>x. x \<in> set xs \<Longrightarrow> p x = Inr (P x)) \<Longrightarrow> filter_result p xs = Inr (filter P xs)"
  by (induction xs) simp_all

lemma some_result_pure: "(\<And>x. x \<in> set xs \<Longrightarrow> p x = Inr (P x)) \<Longrightarrow> some_result p xs = Inr (\<exists>x \<in> set xs. P x)"
  by (induction xs) simp_all

definition search_text :: "catalog_texts \<Rightarrow> node_registry \<Rightarrow> node_spec \<Rightarrow> string" where
  "search_text texts registry spec = (case nodeCatalogSearchText texts registry spec of Inr t \<Rightarrow> t | Inl _ \<Rightarrow> [])"

lemma search_text_returned:
  assumes "ns_plugin_slug spec \<in> pl_slug ` set (ct_plugins texts)"
  shows "nodeCatalogSearchText texts registry spec = Inr (search_text texts registry spec)"
proof -
  obtain plugin where "catalogPlugin texts (ns_plugin_slug spec) = Inr plugin"
    using assms by (cases "find (\<lambda>candidate. pl_slug candidate = ns_plugin_slug spec) (ct_plugins texts)")
      (auto simp: catalogPlugin_def find_None_iff)
  then show ?thesis by (simp add: search_text_def nodeCatalogSearchText_def)
qed

lemma search_filter:
  assumes "\<forall>spec \<in> set nodes. ns_plugin_slug spec \<in> pl_slug ` set (ct_plugins texts)"
  shows "searchCatalogNodes texts registry query nodes
    = Inr (filter (\<lambda>spec. \<forall>term \<in> set (searchTerms query). contains (search_text texts registry spec) term) nodes)"
proof (cases "searchTerms query = []")
  case False
  have "filter_result (\<lambda>spec. bind_result (nodeCatalogSearchText texts registry spec) (\<lambda>haystack. Inr (list_all (contains haystack) (searchTerms query)))) nodes
      = Inr (filter (\<lambda>spec. \<forall>term \<in> set (searchTerms query). contains (search_text texts registry spec) term) nodes)"
    using assms by (intro filter_result_pure) (simp add: search_text_returned list_all_iff)
  then show ?thesis using False by (simp add: searchCatalogNodes_def)
qed (simp add: searchCatalogNodes_def)

text \<open>
  C39: with a registry that lists the plugin of every node, filtering and searching returns exactly the given nodes that every
  filter accepts and whose text holds every word of the query; they come by rank when something is searched, and nodes of one
  rank by title, operator and version.
\<close>

theorem catalog_search_exact:
  assumes "collation compare" and "\<forall>spec \<in> set nodes. ns_plugin_slug spec \<in> pl_slug ` set (ct_plugins texts)"
  shows "\<exists>found. filterAndSearchCatalogNodes compare texts registry filters query nodes = Inr found
    \<and> mset found = mset (filter (\<lambda>spec. (\<forall>flt \<in> set filters. filter_accepts flt spec)
         \<and> (\<forall>term \<in> set (searchTerms query). contains (search_text texts registry spec) term)) nodes)
    \<and> sorted_wrt (\<lambda>left right. searchTerms query \<noteq> [] \<and> catalogSearchRank left query < catalogSearchRank right query
         \<or> (searchTerms query = [] \<or> catalogSearchRank left query = catalogSearchRank right query) \<and> compareCatalogNodes compare left right \<le> 0) found"
proof -
  define hits where "hits = filter (\<lambda>spec. (\<forall>flt \<in> set filters. filter_accepts flt spec)
    \<and> (\<forall>term \<in> set (searchTerms query). contains (search_text texts registry spec) term)) nodes"
  define sorted where "sorted = sortCatalogNodes compare hits"
  define ranked where "ranked = js_sort (\<lambda>left right. int (snd left) - int (snd right)) (map (\<lambda>spec. (spec, catalogSearchRank spec query)) sorted)"
  have result: "filterAndSearchCatalogNodes compare texts registry filters query nodes = Inr (if searchTerms query = [] then sorted else map fst ranked)"
    using search_filter [of "filter (\<lambda>spec. \<forall>flt \<in> set filters. filter_accepts flt spec) nodes" texts registry query] assms(2)
    by (simp add: filterAndSearchCatalogNodes_def filters_filter hits_def sorted_def ranked_def conj_commute)
  have titles: "sorted_wrt (\<lambda>left right. compareCatalogNodes compare left right \<le> 0) sorted"
    unfolding sorted_def sortCatalogNodes_def by (rule comparator.sort_sorted [OF catalog_order [OF assms(1)]])
  have pairs: "snd pair = catalogSearchRank (fst pair) query" if "pair \<in> set ranked" for pair using that by (auto simp: ranked_def)
  have "sorted_wrt (\<lambda>left right. compareCatalogNodes compare (fst left) (fst right) \<le> 0) (map (\<lambda>spec. (spec, catalogSearchRank spec query)) sorted)"
    using titles by (simp add: sorted_wrt_map)
  then have "sorted_wrt (\<lambda>y z. int (snd y) - int (snd z) < 0
      \<or> int (snd y) - int (snd z) = 0 \<and> compareCatalogNodes compare (fst y) (fst z) \<le> 0) ranked"
    unfolding ranked_def by (rule rank_order.sort_stable) auto
  then have "sorted_wrt (\<lambda>left right. catalogSearchRank left query < catalogSearchRank right query
      \<or> catalogSearchRank left query = catalogSearchRank right query \<and> compareCatalogNodes compare left right \<le> 0) (map fst ranked)"
    unfolding sorted_wrt_map by (rule sorted_wrt_mono_rel [rotated]) (auto simp: pairs)
  moreover have "mset (map fst ranked) = mset hits" "mset sorted = mset hits"
    by (simp_all add: ranked_def sorted_def sortCatalogNodes_def image_mset.compositionality comp_def)
  ultimately show ?thesis using titles result by (simp add: hits_def)
qed

subsection \<open>Nodes that fit a port\<close>

text \<open>Ports as the registry describes them: a handle can be made for each, and the shape of a port is one it accepts.\<close>

definition encodable_port :: "(string \<Rightarrow> js_number) \<Rightarrow> port \<Rightarrow> bool" where
  "encodable_port number port \<longleftrightarrow>
     returns (portMetaForPort port (po_shape port) None []) (encodable number) \<and> po_shape port \<in> set (acceptedPortShapes port)"

lemma port_meta_plug:
  assumes "portMetaForPort port shape None [] = Inr meta" and "plug \<noteq> []"
  shows "portMetaForPort port shape (Some plug) [] = Inr (meta\<lparr>pm_plugId := Some plug\<rparr>)"
  using assms by (auto simp: portMetaForPort_def Let_def split: option.splits)

lemma port_meta_None: "portMetaForPort port shape None bindings = Inr meta \<Longrightarrow> pm_plugId meta = None \<and> pm_direction meta = po_direction port"
  by (auto simp: portMetaForPort_def Let_def split: option.splits)

lemma encodable_plug:
  assumes "encodable number meta" and "CHR '':'' \<notin> set plug" and "plug \<noteq> []" and "\<not> starts_with ''feed='' plug" and "\<not> starts_with ''also='' plug"
  shows "encodable number (meta\<lparr>pm_plugId := Some plug\<rparr>)"
  using assms by (cases "pm_type meta") (simp_all add: encodable_def)

lemma discovery_plug_ids:
  "CHR '':'' \<notin> set DISCOVERY_INSTANCE_PLUG_ID" "\<not> starts_with ''feed='' DISCOVERY_INSTANCE_PLUG_ID"
  "\<not> starts_with ''also='' DISCOVERY_INSTANCE_PLUG_ID" "DISCOVERY_INSTANCE_PLUG_ID \<noteq> []"
  "CHR '':'' \<notin> set ''discovery-plug''" "\<not> starts_with ''feed='' ''discovery-plug''" "\<not> starts_with ''also='' ''discovery-plug''"
  by code_simp+

text \<open>The routes into a handle do not depend on the plug it names.\<close>

lemma routes_any_plug:
  assumes "encodable (tp_number platform) meta" and "encodable (tp_number platform) (meta\<lparr>pm_plugId := plug\<rparr>)"
  shows "routes_between platform source (encodeHandleId (meta\<lparr>pm_plugId := plug\<rparr>)) registry = routes_between platform source (encodeHandleId meta) registry"
proof -
  have "acceptedHandleArtifactTypes (meta\<lparr>pm_plugId := plug\<rparr>) = acceptedHandleArtifactTypes meta"
    by (cases "pm_type meta") (simp_all add: acceptedHandleArtifactTypes_def)
  then show ?thesis using handle_decodes [OF assms(1)] handle_decodes [OF assms(2)]
    by (cases "pm_type meta") (simp_all add: routes_between_def connectionRoutesFor_def split: option.splits handle_type.splits)
qed

definition plain_handle :: "port \<Rightarrow> string" where
  "plain_handle port = (case catalog_handle port None of Inr h \<Rightarrow> h | Inl _ \<Rightarrow> [])"

lemma plain_handle_made: "encodable_port number port \<Longrightarrow> catalog_handle port None = Inr (plain_handle port)"
  by (auto simp: encodable_port_def returns_iff plain_handle_def catalog_handle_def)

lemma plug_handle_routes:
  assumes "encodable_port (tp_number platform) port" and "plug = DISCOVERY_INSTANCE_PLUG_ID \<or> plug = ''discovery-plug''"
  shows "\<exists>h. catalog_handle port (Some plug) = Inr h \<and> routes_between platform source h registry = routes_between platform source (plain_handle port) registry"
proof -
  obtain meta where meta: "portMetaForPort port (po_shape port) None [] = Inr meta" "encodable (tp_number platform) meta"
    using assms(1) by (auto simp: encodable_port_def returns_iff)
  have plugged: "encodable (tp_number platform) (meta\<lparr>pm_plugId := Some plug\<rparr>)"
    using assms(2) by (auto intro!: encodable_plug [OF meta(2)] simp: discovery_plug_ids)
  have "plug \<noteq> []" using assms(2) discovery_plug_ids(4) by auto
  then have "catalog_handle port (Some plug) = Inr (encodeHandleId (meta\<lparr>pm_plugId := Some plug\<rparr>))"
    using port_meta_plug [OF meta(1)] by (simp add: catalog_handle_def)
  moreover have "plain_handle port = encodeHandleId meta" using meta(1) by (simp add: plain_handle_def catalog_handle_def)
  ultimately show ?thesis using routes_any_plug [OF meta(2) plugged] by simp
qed

lemma routesForHandleFeed_some: "routesForHandleFeed routes feed = [] \<longleftrightarrow> routes = []"
  by (auto simp: routesForHandleFeed_def routesMatchingProjectionPath_def Let_def split: option.splits feed_intent.splits)

lemma routesForHandleFeed_subset: "set (routesForHandleFeed routes feed) \<subseteq> set routes"
  by (auto simp: routesForHandleFeed_def routesMatchingProjectionPath_def Let_def split: option.splits feed_intent.splits)

lemma compatible_mode: "shapesAreCompatible source target \<longleftrightarrow> collectionModeForPorts source target \<noteq> None"
  by (auto simp: shapesAreCompatible_def collectionModeForPorts_def)

lemma collectionMode_allowed:
  assumes "collectionModeForPorts source target = Some mode" and "po_shape target \<in> set (acceptedPortShapes target)"
  shows "mode \<in> set (collectionModesForShapes (po_shape source) target (po_shape target))"
proof (cases "po_shape target")
  case Many
  then show ?thesis using assms by (auto simp: collectionModeForPorts_def collectionModesForShapes_def Let_def split: if_splits)
next
  case One
  then show ?thesis using assms by (auto simp: collectionModeForPorts_def collectionModesForShapes_def Let_def split: if_splits)
qed

text \<open>When an input takes the source: the shapes fit, a new node shows the input, and a route exists.\<close>

definition input_fits :: "text_platform \<Rightarrow> node_registry \<Rightarrow> port \<Rightarrow> port \<Rightarrow> bool" where
  "input_fits platform registry source target \<longleftrightarrow>
     shapesAreCompatible source target \<and> (portHasInstancePlugs target \<longrightarrow> po_required target)
     \<and> routes_between platform (plain_handle source) (plain_handle target) registry \<noteq> []"

lemma portsCanConnect_fits:
  assumes "encodable_port (tp_number platform) source" and "encodable_port (tp_number platform) target"
  shows "portsCanConnect platform registry source target = Inr (input_fits platform registry source target)"
  using plug_handle_routes [OF assms(2), of "''discovery-plug''" "plain_handle source" registry]
    plain_handle_made [OF assms(1)] plain_handle_made [OF assms(2)]
  by (auto simp: portsCanConnect_def input_fits_def)

lemma downstream_choices_fit:
  assumes "encodable_port (tp_number platform) input" and "po_direction input = Input"
  shows "\<exists>choices. downstream_choices platform registry source (plain_handle source) feed input = Inr choices
    \<and> (choices \<noteq> [] \<longleftrightarrow> input_fits platform registry source input)
    \<and> (\<forall>choice \<in> set choices. rc_candidatePort choice = input
         \<and> rc_collectionMode choice \<in> set (collectionModesForShapes (po_shape source) input (po_shape input))
         \<and> rc_route choice \<in> set (routes_between platform (plain_handle source) (plain_handle input) registry)
         \<and> rc_usesInstancePlug choice = portHasInstancePlugs input)"
proof (cases "shapesAreCompatible source input \<and> (portHasInstancePlugs input \<longrightarrow> po_required input)")
  case True
  then obtain mode where mode: "collectionModeForPorts source input = Some mode" using compatible_mode by auto
  have "mode \<in> set (collectionModesForShapes (po_shape source) input (po_shape input))"
    using collectionMode_allowed [OF mode] assms(1) by (simp add: encodable_port_def)
  moreover obtain h where "targetHandleForRoute input (if portHasInstancePlugs input then Some DISCOVERY_INSTANCE_PLUG_ID else None) = Inr h"
    and "routes_between platform (plain_handle source) h registry = routes_between platform (plain_handle source) (plain_handle input) registry"
    using plug_handle_routes [OF assms(1), of DISCOVERY_INSTANCE_PLUG_ID "plain_handle source" registry] plain_handle_made [OF assms(1)]
    by (cases "portHasInstancePlugs input") (auto simp: targetHandleForRoute_def)
  ultimately show ?thesis using True mode assms(2) routesForHandleFeed_some routesForHandleFeed_subset
    by (fastforce simp: downstream_choices_def Let_def input_fits_def)
next
  case False
  then show ?thesis using assms(2) by (auto simp: downstream_choices_def Let_def input_fits_def split: option.splits)
qed

lemma upstream_choices_fit:
  assumes "encodable_port (tp_number platform) output" and "encodable_port (tp_number platform) target" and "po_direction output = Output"
    and "portHasInstancePlugs target \<longrightarrow> po_required target"
  shows "\<exists>choices. upstream_choices platform registry target (plain_handle target) output = Inr choices
    \<and> (choices \<noteq> [] \<longleftrightarrow> input_fits platform registry output target)
    \<and> (\<forall>choice \<in> set choices. rc_candidatePort choice = output
         \<and> rc_collectionMode choice \<in> set (collectionModesForShapes (po_shape output) target (po_shape target))
         \<and> rc_route choice \<in> set (routes_between platform (plain_handle output) (plain_handle target) registry)
         \<and> \<not> rc_usesInstancePlug choice)"
proof (cases "shapesAreCompatible output target")
  case True
  then obtain mode where mode: "collectionModeForPorts output target = Some mode" using compatible_mode by auto
  have "mode \<in> set (collectionModesForShapes (po_shape output) target (po_shape target))"
    using collectionMode_allowed [OF mode] assms(2) by (simp add: encodable_port_def)
  then show ?thesis using True mode assms(3,4) plain_handle_made [OF assms(1)] by (auto simp: upstream_choices_def input_fits_def)
next
  case False
  then show ?thesis by (auto simp: upstream_choices_def input_fits_def split: option.splits)
qed

lemma map_result_total: "(\<And>x. x \<in> set xs \<Longrightarrow> \<exists>y. f x = Inr y \<and> P x y) \<Longrightarrow> \<exists>ys. map_result f xs = Inr ys \<and> list_all2 P xs ys"
  by (induction xs) (auto, metis bind_result_simps(2) list_all2_Cons)

lemma list_all2_filter_map:
  "list_all2 (\<lambda>x y. g y = x \<and> (Q y \<longleftrightarrow> P x)) xs ys \<Longrightarrow> map g (filter Q ys) = filter P xs"
  by (induction rule: list_all2_induct) auto

text \<open>The loop over the nodes, for any ports and any choices that are made exactly at the ports that fit.\<close>

lemma candidates_exact:
  assumes "\<And>spec port. spec \<in> set nodes \<Longrightarrow> port \<in> set (ports spec)
      \<Longrightarrow> \<exists>found. choices port = Inr found \<and> (found \<noteq> [] \<longleftrightarrow> fits port) \<and> (\<forall>choice \<in> set found. ok port choice)"
    and "\<forall>spec \<in> set nodes. ns_catalog_visible spec"
  shows "\<exists>candidates. candidates_with compare ports choices nodes = Inr candidates
    \<and> map cc_spec candidates = filter (\<lambda>spec. \<exists>port \<in> set (ports spec). fits port) (sortCatalogNodes compare nodes)
    \<and> (\<forall>candidate \<in> set candidates. \<forall>choice \<in> set (cc_choices candidate). \<exists>port \<in> set (ports (cc_spec candidate)). ok port choice)"
proof -
  let ?step = "\<lambda>spec. bind_result (map_result choices (ports spec)) (\<lambda>found. Inr \<lparr>cc_spec = spec, cc_choices = concat found\<rparr>)"
  let ?P = "\<lambda>spec candidate. cc_spec candidate = spec \<and> (cc_choices candidate \<noteq> [] \<longleftrightarrow> (\<exists>port \<in> set (ports spec). fits port))
    \<and> (\<forall>choice \<in> set (cc_choices candidate). \<exists>port \<in> set (ports spec). ok port choice)"
  have step: "\<exists>candidate. ?step spec = Inr candidate \<and> ?P spec candidate" if spec: "spec \<in> set nodes" for spec
  proof -
    have "\<exists>found. map_result choices (ports spec) = Inr found
        \<and> list_all2 (\<lambda>port f. (f \<noteq> [] \<longleftrightarrow> fits port) \<and> (\<forall>choice \<in> set f. ok port choice)) (ports spec) found"
      by (rule map_result_total) (rule assms(1) [OF spec])
    then obtain found where found: "map_result choices (ports spec) = Inr found"
      "list_all2 (\<lambda>port f. (f \<noteq> [] \<longleftrightarrow> fits port) \<and> (\<forall>choice \<in> set f. ok port choice)) (ports spec) found" by blast
    from found(2) have "(concat found \<noteq> [] \<longleftrightarrow> (\<exists>port \<in> set (ports spec). fits port))
        \<and> (\<forall>choice \<in> set (concat found). \<exists>port \<in> set (ports spec). ok port choice)"
      by (induction rule: list_all2_induct) auto
    then show ?thesis using found(1) by simp
  qed
  have visible: "filter ns_catalog_visible nodes = nodes" using assms(2) by (simp add: filter_id_conv)
  obtain all where all: "map_result ?step (sortCatalogNodes compare nodes) = Inr all" "list_all2 ?P (sortCatalogNodes compare nodes) all"
    using map_result_total [of "sortCatalogNodes compare nodes" ?step ?P] step by (auto simp: sortCatalogNodes_def)
  have "map cc_spec (filter (\<lambda>candidate. cc_choices candidate \<noteq> []) all)
      = filter (\<lambda>spec. \<exists>port \<in> set (ports spec). fits port) (sortCatalogNodes compare nodes)"
    using all(2) by (intro list_all2_filter_map) (auto elim!: list_all2_mono)
  moreover have "\<forall>candidate \<in> set all. \<forall>choice \<in> set (cc_choices candidate). \<exists>port \<in> set (ports (cc_spec candidate)). ok port choice"
    using all(2) list_all2_set_right by fastforce
  ultimately show ?thesis using all(1) visible by (simp add: candidates_with_def)
qed

text \<open>
  C28: for ports a handle can be made for, and inputs whose shape is one they accept, the nodes the selector calls compatible with an
  output are exactly those with a candidate; every choice is at an input of the node, over a route between the two
  ports and in a collection mode the connection rules allow.
\<close>

theorem picker_agrees:
  assumes "encodable_port (tp_number platform) source"
    and "\<forall>spec \<in> set nodes. ns_catalog_visible spec \<and> (\<forall>input \<in> set (ns_inputs spec). po_direction input = Input \<and> encodable_port (tp_number platform) input)"
  shows "\<exists>sourceHandle candidates compatible.
      catalog_handle source None = Inr sourceHandle
    \<and> downstreamCandidatesFromOutput platform registry source sourceHandle feed nodes = Inr candidates
    \<and> nodesCompatibleWithPort platform registry Downstream source nodes = Inr compatible
    \<and> mset (map cc_spec candidates) = mset compatible
    \<and> (\<forall>candidate \<in> set candidates. \<forall>choice \<in> set (cc_choices candidate). \<exists>input \<in> set (ns_inputs (cc_spec candidate)).
         rc_candidatePort choice = input
       \<and> rc_collectionMode choice \<in> set (collectionModesForShapes (po_shape source) input (po_shape input))
       \<and> rc_route choice \<in> set (routes_between platform sourceHandle (plain_handle input) registry)
       \<and> rc_usesInstancePlug choice = portHasInstancePlugs input)"
proof -
  let ?fits = "\<lambda>spec. \<exists>input \<in> set (ns_inputs spec). input_fits platform registry source input"
  have "nodesCompatibleWithPort platform registry Downstream source nodes = Inr (filter ?fits nodes)"
    unfolding nodesCompatibleWithPort_def using assms portsCanConnect_fits
    by (intro filter_result_pure) (simp add: some_result_pure)
  moreover from candidates_exact [of nodes ns_inputs "downstream_choices platform registry source (plain_handle source) feed"
      "input_fits platform registry source" _ "tp_compare platform", OF downstream_choices_fit]
  obtain candidates where "downstreamCandidatesFromOutput platform registry source (plain_handle source) feed nodes = Inr candidates"
    and order: "map cc_spec candidates = filter ?fits (sortCatalogNodes (tp_compare platform) nodes)"
    and "\<forall>candidate \<in> set candidates. \<forall>choice \<in> set (cc_choices candidate). \<exists>input \<in> set (ns_inputs (cc_spec candidate)).
         rc_candidatePort choice = input
       \<and> rc_collectionMode choice \<in> set (collectionModesForShapes (po_shape source) input (po_shape input))
       \<and> rc_route choice \<in> set (routes_between platform (plain_handle source) (plain_handle input) registry)
       \<and> rc_usesInstancePlug choice = portHasInstancePlugs input"
    using assms(2) unfolding downstreamCandidatesFromOutput_def by blast
  moreover have "mset (map cc_spec candidates) = mset (filter ?fits nodes)"
    unfolding order sortCatalogNodes_def by (simp only: mset_filter mset_js_sort)
  ultimately show ?thesis using plain_handle_made [OF assms(1)] by blast
qed

text \<open>The same in the other direction, for an input that is always shown.\<close>

lemma upstream_picker_agrees:
  assumes "encodable_port (tp_number platform) target" and "portHasInstancePlugs target \<longrightarrow> po_required target"
    and "\<forall>spec \<in> set nodes. ns_catalog_visible spec \<and> (\<forall>output \<in> set (ns_outputs spec). po_direction output = Output \<and> encodable_port (tp_number platform) output)"
  shows "\<exists>candidates. upstreamCandidatesFromInput platform registry target (plain_handle target) nodes = Inr candidates
    \<and> nodesCompatibleWithPort platform registry Upstream target nodes
        = Inr (filter (\<lambda>spec. \<exists>output \<in> set (ns_outputs spec). input_fits platform registry output target) nodes)
    \<and> map cc_spec candidates
        = filter (\<lambda>spec. \<exists>output \<in> set (ns_outputs spec). input_fits platform registry output target) (sortCatalogNodes (tp_compare platform) nodes)"
proof -
  have "nodesCompatibleWithPort platform registry Upstream target nodes
      = Inr (filter (\<lambda>spec. \<exists>output \<in> set (ns_outputs spec). input_fits platform registry output target) nodes)"
    unfolding nodesCompatibleWithPort_def using assms portsCanConnect_fits
    by (intro filter_result_pure) (simp add: some_result_pure)
  moreover from candidates_exact [of nodes ns_outputs "upstream_choices platform registry target (plain_handle target)"
      "\<lambda>output. input_fits platform registry output target" _ "tp_compare platform", OF upstream_choices_fit] assms
  have "\<exists>candidates. upstreamCandidatesFromInput platform registry target (plain_handle target) nodes = Inr candidates
    \<and> map cc_spec candidates
        = filter (\<lambda>spec. \<exists>output \<in> set (ns_outputs spec). input_fits platform registry output target) (sortCatalogNodes (tp_compare platform) nodes)"
    unfolding upstreamCandidatesFromInput_def by blast
  ultimately show ?thesis by blast
qed

text \<open>For an optional input with ordered plugs the two disagree: the selector finds nothing, whatever could feed it.\<close>

lemma optional_plugs_refused:
  "portHasInstancePlugs target \<Longrightarrow> \<not> po_required target \<Longrightarrow> portsCanConnect platform registry source target = Inr False"
  by (simp add: portsCanConnect_def)

subsection \<open>A small registry\<close>

fun code_unit_compare :: "string \<Rightarrow> string \<Rightarrow> int" where
  "code_unit_compare [] [] = 0"
| "code_unit_compare [] (d # ds) = -1"
| "code_unit_compare (c # cs) [] = 1"
| "code_unit_compare (c # cs) (d # ds) =
     (if (of_char c :: nat) < of_char d then -1 else if (of_char d :: nat) < of_char c then 1 else code_unit_compare cs ds)"

lemma code_unit_collation: "collation code_unit_compare"
proof -
  have "code_unit_compare x y = - code_unit_compare y x" for x y by (induction x y rule: code_unit_compare.induct) auto
  then have sign: "code_unit_compare x y > 0 \<longleftrightarrow> code_unit_compare y x < 0" for x y by (metis neg_0_less_iff_less)
  have "code_unit_compare x z \<le> 0" if "code_unit_compare x y \<le> 0" "code_unit_compare y z \<le> 0" for x y z
    using that
  proof (induction x y arbitrary: z rule: code_unit_compare.induct)
    case (4 c cs d ds)
    show ?case
    proof (cases z)
      case (Cons e es)
      define a b d' :: nat where "a = of_char c" and "b = of_char d" and "d' = of_char e"
      show ?thesis using "4.IH" [of es] "4.prems" unfolding Cons code_unit_compare.simps
        a_def [symmetric] b_def [symmetric] d'_def [symmetric] by (auto split: if_splits)
    qed (use "4.prems" in simp)
  next
    case (2 d ds)
    then show ?case by (cases z) simp_all
  qed simp_all
  with sign show ?thesis by (auto simp: collation_def)
qed

definition shop_port :: "string \<Rightarrow> port_direction \<Rightarrow> port" where
  "shop_port name direction = \<lparr>po_name = name, po_direction = direction, po_shape = One, po_accepted_shapes = [], po_artifact_type = Defined \<lparr>type_id = ''text'', type_schema_version = 1\<rparr>,
     po_artifact_type_variable = Null, po_also_accepts = None, po_instance_plugs = False, po_required = True, po_variadic = False, po_shape_field = Null\<rparr>"

definition shop_node :: "string \<Rightarrow> string \<Rightarrow> port list \<Rightarrow> port list \<Rightarrow> node_spec" where
  "shop_node title description inputs outputs = \<lparr>ns_operator_id = title, ns_operator_version = 1, ns_plugin_slug = ''core'', ns_title = title,
     ns_description = description, ns_catalog_visible = True, ns_runnable = True, ns_config_schema = JNull, ns_inputs = inputs, ns_outputs = outputs,
     ns_secret_inputs = JNull\<rparr>"

definition shop_nodes :: "node_spec list" where
  "shop_nodes = [shop_node ''Mean'' ''adds up'' [shop_port ''in'' Input] [], shop_node ''Read'' [] [] [shop_port ''out'' Output],
     shop_node ''Add'' [] [shop_port ''in'' Input] [shop_port ''out'' Output]]"

definition shop_registry :: node_registry where
  "shop_registry = \<lparr>nr_nodes = shop_nodes, nr_artifact_types = [], nr_artifact_conversions = []\<rparr>"

definition shop_texts :: catalog_texts where
  "shop_texts = \<lparr>ct_plugins = [\<lparr>pl_slug = ''core'', pl_title = [], pl_entry_kind = [], pl_origin = []\<rparr>],
     ct_artifact_title = (\<lambda>_. []), ct_port_title = (\<lambda>_. None), ct_port_description = (\<lambda>_. None), ct_number_text = (\<lambda>_. [])\<rparr>"

definition shelf :: "node_spec list" where
  "shelf = [shop_node ''Mean'' ''adds'' [] [], shop_node ''Read'' [] [] [], shop_node ''Add'' [] [] []]"

lemma shelf_found:
  "returns (filterAndSearchCatalogNodes code_unit_compare shop_texts shop_registry [] '' ADD'' shelf) (\<lambda>found. map ns_title found = [''Add'', ''Mean''])"
  by code_simp

theorem catalog_search_exact_witness:
  "\<exists>found. filterAndSearchCatalogNodes code_unit_compare shop_texts shop_registry [] '' ADD'' shelf = Inr found
    \<and> map ns_title found = [''Add'', ''Mean'']
    \<and> mset found = mset (filter (\<lambda>spec. list_all (contains (search_text shop_texts shop_registry spec)) (searchTerms '' ADD'')) shelf)"
proof -
  have "\<forall>spec \<in> set shelf. ns_plugin_slug spec \<in> pl_slug ` set (ct_plugins shop_texts)" by code_simp
  then show ?thesis
    using catalog_search_exact [of code_unit_compare shelf shop_texts shop_registry "[]" "'' ADD''"] code_unit_collation shelf_found
    by (auto simp: returns_iff list_all_iff)
qed

definition shop_platform :: text_platform where
  "shop_platform = \<lparr>tp_number = demo_number, tp_compare = code_unit_compare\<rparr>"

theorem picker_agrees_witness:
  "returns (nodesCompatibleWithPort shop_platform shop_registry Downstream (shop_port ''out'' Output) shop_nodes) (\<lambda>compatible. map ns_title compatible = [''Mean'', ''Add''])
   \<and> (\<exists>sourceHandle candidates compatible. catalog_handle (shop_port ''out'' Output) None = Inr sourceHandle
       \<and> downstreamCandidatesFromOutput shop_platform shop_registry (shop_port ''out'' Output) sourceHandle None shop_nodes = Inr candidates
       \<and> nodesCompatibleWithPort shop_platform shop_registry Downstream (shop_port ''out'' Output) shop_nodes = Inr compatible
       \<and> mset (map cc_spec candidates) = mset compatible)"
proof -
  have "encodable_port (tp_number shop_platform) (shop_port ''out'' Output)" by code_simp
  moreover have "\<forall>spec \<in> set shop_nodes. ns_catalog_visible spec
      \<and> (\<forall>input \<in> set (ns_inputs spec). po_direction input = Input \<and> encodable_port (tp_number shop_platform) input)" by code_simp
  moreover have "returns (nodesCompatibleWithPort shop_platform shop_registry Downstream (shop_port ''out'' Output) shop_nodes)
      (\<lambda>compatible. map ns_title compatible = [''Mean'', ''Add''])" by code_simp
  ultimately show ?thesis using picker_agrees [of shop_platform "shop_port ''out'' Output" shop_nodes shop_registry None] by blast
qed

end
