(* ===== verification/NodeSecretWrites.thy ===== *)
theory NodeSecretWrites
  imports NodeSecrets
begin

section \<open>Reading and writing node secrets\<close>

text \<open>
  \<^verbatim>\<open>ui/useNodeSecrets.ts\<close>: the statuses of the secrets of the open graph, read by listings and changed by writes that
  claim the head a listing was read at. Each async operation is split at its awaits: a refresh leaves a ticket that its
  answer is matched with, a write is a value that goes through its sends. The values of the secrets are in no state.
  A status object is a map from node to a map from name; a nested \<open>Map\<close> of versions likewise, with absence kept.
\<close>

record secret_graph =
  xg_id :: string
  xg_graphId :: string
  xg_revision :: int
  xg_nodes :: "saved_graph_node list"

record secret_status =
  st_state :: secret_state
  st_message :: "string option"

type_synonym secret_statuses = "string \<rightharpoonup> (string \<rightharpoonup> secret_status)"
type_synonym write_versions = "string \<rightharpoonup> (string \<rightharpoonup> nat)"

record secret_head =
  sh_projectId :: string
  sh_graphId :: string
  sh_sequence :: int

definition sameNodeSecretGraph :: "secret_graph \<Rightarrow> secret_graph option \<Rightarrow> bool" where
  "sameNodeSecretGraph graph active =
     (case active of
        None \<Rightarrow> False
      | Some a \<Rightarrow> xg_id graph = xg_id a \<and> xg_graphId graph = xg_graphId a \<and> xg_revision graph = xg_revision a)"

definition guardedHeadSequence :: "secret_head option \<Rightarrow> secret_graph \<Rightarrow> int option" where
  "guardedHeadSequence head graph =
     (case head of
        None \<Rightarrow> None
      | Some h \<Rightarrow> if sh_projectId h \<noteq> xg_id graph \<or> sh_graphId h \<noteq> xg_graphId graph then None else Some (sh_sequence h))"

definition secret_node :: "workflow_node \<Rightarrow> bool" where
  "secret_node node \<longleftrightarrow> workflowNodeIsSupported (wn_data node) \<and> nodeSecretInputs (wd_spec (wn_data node)) \<noteq> []"

definition plain_status :: "secret_state \<Rightarrow> secret_status" where
  "plain_status state = \<lparr>st_state = state, st_message = None\<rparr>"

definition graphNodeSecretStatuses :: "workflow_node list \<Rightarrow> remote_secret_status list \<Rightarrow> secret_statuses" where
  "graphNodeSecretStatuses nodes remote =
     js_map (map (\<lambda>node. (wn_id node, js_map (map (\<lambda>(name, state). (name, plain_status state))
               (reconciledNodeSecretStatuses (wd_spec (wn_data node)) (wn_id node) remote)))) (filter secret_node nodes))"

definition nodeSecretStatusesWithState :: "workflow_node list \<Rightarrow> secret_status \<Rightarrow> secret_statuses" where
  "nodeSecretStatusesWithState nodes status =
     js_map (map (\<lambda>node. (wn_id node, js_map (map (\<lambda>input. (si_name input, status)) (nodeSecretInputs (wd_spec (wn_data node))))))
       (filter secret_node nodes))"

subsection \<open>Versions of writes\<close>

definition nodeSecretWriteVersion :: "write_versions \<Rightarrow> string \<Rightarrow> string \<Rightarrow> nat" where
  "nodeSecretWriteVersion versions nodeId name =
     (case Option.bind (versions nodeId) (\<lambda>nodeVersions. nodeVersions name) of Some v \<Rightarrow> v | None \<Rightarrow> 0)"

definition advanceNodeSecretWriteVersion :: "write_versions \<Rightarrow> string \<Rightarrow> string \<Rightarrow> write_versions \<times> nat" where
  "advanceNodeSecretWriteVersion versions nodeId name =
     (let nodeVersions = (case versions nodeId of Some m \<Rightarrow> m | None \<Rightarrow> Map.empty);
          nextVersion = (case nodeVersions name of Some v \<Rightarrow> v | None \<Rightarrow> 0) + 1
      in (versions(nodeId \<mapsto> nodeVersions(name \<mapsto> nextVersion)), nextVersion))"

definition invalidateNodeSecretWrites :: "write_versions \<Rightarrow> string option \<Rightarrow> write_versions" where
  "invalidateNodeSecretWrites versions nodeId =
     (\<lambda>versionNodeId. if nodeId \<noteq> None \<and> nodeId \<noteq> Some versionNodeId then versions versionNodeId
        else map_option (\<lambda>nodeVersions name. map_option Suc (nodeVersions name)) (versions versionNodeId))"

definition merged_status :: "bool \<Rightarrow> bool \<Rightarrow> secret_status option \<Rightarrow> secret_status \<Rightarrow> secret_status" where
  "merged_status preserveExistingWrites writeChanged currentStatus nextStatus =
     (case currentStatus of
        None \<Rightarrow> nextStatus
      | Some current \<Rightarrow>
          if writeChanged \<or> (preserveExistingWrites \<and> (st_state current = Applying \<or> st_state current = Removing)) then current
          else nextStatus)"

definition mergeRefreshStatuses :: "secret_statuses \<Rightarrow> secret_statuses \<Rightarrow> bool \<Rightarrow> write_versions \<Rightarrow> write_versions \<Rightarrow> secret_statuses" where
  "mergeRefreshStatuses new current preserveExistingWrites refreshWriteVersions currentWriteVersions =
     (\<lambda>nodeId. map_option (\<lambda>nextNodeStatuses name.
        map_option (\<lambda>nextStatus.
            merged_status preserveExistingWrites
              (nodeSecretWriteVersion currentWriteVersions nodeId name \<noteq> nodeSecretWriteVersion refreshWriteVersions nodeId name)
              (Option.bind (current nodeId) (\<lambda>m. m name)) nextStatus)
          (nextNodeStatuses name)) (new nodeId))"

subsection \<open>The hook\<close>

record secrets =
  xs_statuses :: secret_statuses
  xs_active :: "secret_graph option"
  xs_head :: "secret_head option"
  xs_generation :: nat
  xs_versions :: write_versions
  xs_nodes :: "(string \<times> workflow_node) list"

text \<open>\<open>new Map(nodes.map(node => [node.id, node]))\<close>.\<close>

definition nodes_by_id :: "workflow_node list \<Rightarrow> (string \<times> workflow_node) list" where
  "nodes_by_id nodes = foldl (\<lambda>m node. obj_set (wn_id node) node m) [] nodes"

definition no_secrets :: "workflow_node list \<Rightarrow> secrets" where
  "no_secrets nodes = \<lparr>xs_statuses = Map.empty, xs_active = None, xs_head = None, xs_generation = 0, xs_versions = Map.empty,
     xs_nodes = nodes_by_id nodes\<rparr>"

definition nodes_changed :: "workflow_node list \<Rightarrow> secrets \<Rightarrow> secrets" where
  "nodes_changed nodes s = s\<lparr>xs_nodes := nodes_by_id nodes\<rparr>"

record refresh_ticket =
  rt_graph :: secret_graph
  rt_generation :: nat
  rt_continues :: bool
  rt_versions :: write_versions

text \<open>A refresh up to its request; without a ticket it has returned true.\<close>

definition refresh_start :: "secret_graph \<Rightarrow> workflow_node list \<Rightarrow> secrets \<Rightarrow> secrets \<times> refresh_ticket option" where
  "refresh_start graph graphNodes s =
     (let continues = sameNodeSecretGraph graph (xs_active s);
          versions = (if continues then xs_versions s else invalidateNodeSecretWrites (xs_versions s) None);
          opened = s\<lparr>xs_generation := Suc (xs_generation s), xs_versions := versions,
                     xs_head := (if continues then xs_head s else None), xs_active := Some graph, xs_nodes := nodes_by_id graphNodes\<rparr>
      in if \<not> list_ex secret_node graphNodes then (opened\<lparr>xs_statuses := Map.empty\<rparr>, None)
         else (opened\<lparr>xs_statuses := mergeRefreshStatuses (nodeSecretStatusesWithState graphNodes (plain_status SecretLoading))
                        (xs_statuses s) continues versions versions\<rparr>,
               Some \<lparr>rt_graph = graph, rt_generation = Suc (xs_generation s), rt_continues = continues, rt_versions = versions\<rparr>))"

record secret_listing =
  ls_project_id :: string
  ls_graph_id :: string
  ls_head_sequence :: int
  ls_secrets :: "remote_secret_status list"

definition refresh_current :: "refresh_ticket \<Rightarrow> secrets \<Rightarrow> bool" where
  "refresh_current ticket s \<longleftrightarrow> xs_generation s = rt_generation ticket \<and> sameNodeSecretGraph (rt_graph ticket) (xs_active s)"

definition refresh_merged :: "refresh_ticket \<Rightarrow> secret_statuses \<Rightarrow> secrets \<Rightarrow> secrets" where
  "refresh_merged ticket statuses s =
     s\<lparr>xs_statuses := mergeRefreshStatuses statuses (xs_statuses s) (rt_continues ticket) (rt_versions ticket) (xs_versions s)\<rparr>"

definition refresh_failed :: "bool \<Rightarrow> refresh_ticket \<Rightarrow> secrets \<Rightarrow> secrets \<times> bool" where
  "refresh_failed aborted ticket s =
     (if aborted \<or> \<not> refresh_current ticket s then (s, False)
      else (refresh_merged ticket (nodeSecretStatusesWithState (map snd (xs_nodes s))
              \<lparr>st_state = SecretError, st_message = Some ''Secret status could not be loaded.''\<rparr>) s, False))"

text \<open>The answer of a listing, \<open>None\<close> a request that failed; the result is what the refresh returns.\<close>

definition refresh_answer :: "bool \<Rightarrow> secret_listing option \<Rightarrow> refresh_ticket \<Rightarrow> secrets \<Rightarrow> secrets \<times> bool" where
  "refresh_answer aborted answer ticket s =
     (case answer of
        None \<Rightarrow> refresh_failed aborted ticket s
      | Some response \<Rightarrow>
          if \<not> refresh_current ticket s then (s, False)
          else if ls_project_id response \<noteq> xg_id (rt_graph ticket) \<or> ls_graph_id response \<noteq> xg_graphId (rt_graph ticket)
          then refresh_failed aborted ticket s
          else (refresh_merged ticket (graphNodeSecretStatuses (map snd (xs_nodes s)) (ls_secrets response))
                  (s\<lparr>xs_head := Some \<lparr>sh_projectId = xg_id (rt_graph ticket), sh_graphId = xg_graphId (rt_graph ticket),
                                     sh_sequence = ls_head_sequence response\<rparr>\<rparr>), True))"

subsection \<open>Writes\<close>

datatype write_kind = ApplySecret | RemoveSecret

datatype write_phase = FirstSend | Rereading refresh_ticket | SecondSend

record secret_write =
  sw_kind :: write_kind
  sw_nodeId :: string
  sw_name :: string
  sw_graph :: secret_graph
  sw_headSequence :: int
  sw_version :: nat
  sw_phase :: write_phase

definition secret_input_named :: "workflow_node option \<Rightarrow> string \<Rightarrow> secret_input option" where
  "secret_input_named node name =
     (case node of
        Some n \<Rightarrow> if workflowNodeIsSupported (wn_data n)
                   then find (\<lambda>candidate. si_name candidate = name) (nodeSecretInputs (wd_spec (wn_data n))) else None
      | None \<Rightarrow> None)"

definition prepareSecretWrite :: "string \<Rightarrow> string \<Rightarrow> secrets \<Rightarrow> secrets \<times> (secret_graph \<times> int \<times> nat) option" where
  "prepareSecretWrite nodeId name s =
     (case xs_active s of
        None \<Rightarrow> (s, None)
      | Some graph \<Rightarrow>
          (case guardedHeadSequence (xs_head s) graph of
             None \<Rightarrow> (s, None)
           | Some headSequence \<Rightarrow>
               (let node = map_of (xs_nodes s) nodeId
                in case (node, secret_input_named node name) of
                     (Some n, Some input) \<Rightarrow>
                       if nodeSecretBindingReady input n (find (\<lambda>candidate. n_id candidate = nodeId) (xg_nodes graph))
                       then (case advanceNodeSecretWriteVersion (xs_versions s) nodeId name of
                               (versions, writeVersion) \<Rightarrow> (s\<lparr>xs_versions := versions\<rparr>, Some (graph, headSequence, writeVersion)))
                       else (s, None)
                   | _ \<Rightarrow> (s, None))))"

definition set_status :: "string \<Rightarrow> string \<Rightarrow> secret_status \<Rightarrow> secrets \<Rightarrow> secrets" where
  "set_status nodeId name status s =
     s\<lparr>xs_statuses := (xs_statuses s)(nodeId \<mapsto> (case xs_statuses s nodeId of Some m \<Rightarrow> m | None \<Rightarrow> Map.empty)(name \<mapsto> status))\<rparr>"

fun busy_state :: "write_kind \<Rightarrow> secret_state" where
  "busy_state ApplySecret = Applying"
| "busy_state RemoveSecret = Removing"

fun done_state :: "write_kind \<Rightarrow> secret_state" where
  "done_state ApplySecret = Configured"
| "done_state RemoveSecret = Unconfigured"

fun write_error :: "write_kind \<Rightarrow> string" where
  "write_error ApplySecret = ''The secret could not be applied.''"
| "write_error RemoveSecret = ''The stored secret could not be removed.''"

text \<open>\<open>applyConfiguredNodeSecret\<close> and \<open>removeConfiguredNodeSecret\<close> up to their first request.\<close>

definition write_start :: "write_kind \<Rightarrow> string \<Rightarrow> string \<Rightarrow> secrets \<Rightarrow> secrets \<times> secret_write option" where
  "write_start kind nodeId name s =
     (case prepareSecretWrite nodeId name s of
        (s', None) \<Rightarrow> (s', None)
      | (s', Some (graph, headSequence, writeVersion)) \<Rightarrow>
          (set_status nodeId name (plain_status (busy_state kind)) s',
           Some \<lparr>sw_kind = kind, sw_nodeId = nodeId, sw_name = name, sw_graph = graph, sw_headSequence = headSequence,
                 sw_version = writeVersion, sw_phase = FirstSend\<rparr>))"

text \<open>The end of a write: the status follows only the latest write of the graph that is still open.\<close>

definition write_settled :: "bool \<Rightarrow> secret_write \<Rightarrow> secrets \<Rightarrow> secrets" where
  "write_settled ok w s =
     (if \<not> sameNodeSecretGraph (sw_graph w) (xs_active s)
         \<or> nodeSecretWriteVersion (xs_versions s) (sw_nodeId w) (sw_name w) \<noteq> sw_version w then s
      else set_status (sw_nodeId w) (sw_name w)
             (if ok then plain_status (done_state (sw_kind w))
              else \<lparr>st_state = SecretError, st_message = Some (write_error (sw_kind w))\<rparr>)
             (s\<lparr>xs_versions := fst (advanceNodeSecretWriteVersion (xs_versions s) (sw_nodeId w) (sw_name w))\<rparr>))"

datatype send_outcome = Sent | HeadMoved | SendFailed

text \<open>What follows an answer: the write has ended (with what it returns), waits for a listing, or is sent again.\<close>

datatype write_next = WriteEnded bool | WriteWaits secret_write

definition headMovedUnderTheWrite :: "send_outcome \<Rightarrow> bool" where
  "headMovedUnderTheWrite outcome \<longleftrightarrow> outcome = HeadMoved"

definition write_ended :: "bool \<Rightarrow> secret_write \<Rightarrow> secrets \<Rightarrow> secrets \<times> write_next" where
  "write_ended ok w s = (write_settled ok w s, WriteEnded ok)"

definition reread_result :: "bool \<Rightarrow> secret_graph \<Rightarrow> secrets \<Rightarrow> int option" where
  "reread_result refreshed graph s =
     (if \<not> refreshed \<or> \<not> sameNodeSecretGraph graph (xs_active s) then None else guardedHeadSequence (xs_head s) graph)"

definition write_reread :: "bool \<Rightarrow> secret_write \<Rightarrow> secrets \<Rightarrow> secrets \<times> write_next" where
  "write_reread refreshed w s =
     (case reread_result refreshed (sw_graph w) s of
        None \<Rightarrow> write_ended False w s
      | Some retrySequence \<Rightarrow>
          if retrySequence = sw_headSequence w then write_ended False w s
          else (s, WriteWaits (w\<lparr>sw_headSequence := retrySequence, sw_phase := SecondSend\<rparr>)))"

definition rereadHeadAfterConflict :: "secret_write \<Rightarrow> secrets \<Rightarrow> secrets \<times> write_next" where
  "rereadHeadAfterConflict w s =
     (if \<not> sameNodeSecretGraph (sw_graph w) (xs_active s) then write_ended False w s
      else (case refresh_start (sw_graph w) (map snd (xs_nodes s)) s of
              (s', None) \<Rightarrow> write_reread True w s'
            | (s', Some ticket) \<Rightarrow> (s', WriteWaits (w\<lparr>sw_phase := Rereading ticket\<rparr>))))"

definition write_answered :: "send_outcome \<Rightarrow> secret_write \<Rightarrow> secrets \<Rightarrow> secrets \<times> write_next" where
  "write_answered outcome w s =
     (if outcome = Sent then write_ended True w s
      else if sw_phase w = FirstSend \<and> headMovedUnderTheWrite outcome then rereadHeadAfterConflict w s
      else write_ended False w s)"

subsection \<open>Leaving\<close>

definition clearGraphSecretStatuses :: "secrets \<Rightarrow> secrets" where
  "clearGraphSecretStatuses s =
     s\<lparr>xs_generation := Suc (xs_generation s), xs_versions := invalidateNodeSecretWrites (xs_versions s) None, xs_head := None,
       xs_active := None, xs_statuses := Map.empty\<rparr>"

definition forgetNodeSecretStatuses :: "string \<Rightarrow> secrets \<Rightarrow> secrets" where
  "forgetNodeSecretStatuses nodeId s =
     s\<lparr>xs_versions := invalidateNodeSecretWrites (xs_versions s) (Some nodeId),
       xs_nodes := filter (\<lambda>entry. fst entry \<noteq> nodeId) (xs_nodes s), xs_statuses := (xs_statuses s)(nodeId := None)\<rparr>"

end
