(* ===== verification/NodeSecretWrites_Facts.thy ===== *)
theory NodeSecretWrites_Facts
  imports NodeSecretWrites Traced_System
begin

section \<open>Secret writes claim heads the server named\<close>

text \<open>
  The hook as a system of calls: refreshes and writes are pending until they are answered, in any order and between any other
  calls. The listings that were answered are kept beside it. Two things hold in every state: a head the hook would claim was named by a
  listing of the same project and graph, and a status that says a write is under way has a pending write behind it.
\<close>

record secrets_world =
  zw_secrets :: secrets
  zw_tickets :: "refresh_ticket list"
  zw_writes :: "secret_write list"
  zw_listed :: "(string \<times> string \<times> int) list"

datatype secrets_op =
    SecretsOpen secret_graph "workflow_node list"
  | SecretsListed bool "secret_listing option" refresh_ticket
  | SecretsNodes "workflow_node list"
  | SecretsWrite write_kind string string
  | SecretsAnswered send_outcome secret_write
  | SecretsReread "secret_listing option" secret_write
  | SecretsClear
  | SecretsForget string

datatype secrets_out = SendWrite secret_write | WriteReturned bool

definition listing_entry :: "secret_listing option \<Rightarrow> (string \<times> string \<times> int) list" where
  "listing_entry answer =
     (case answer of None \<Rightarrow> [] | Some l \<Rightarrow> [(ls_project_id l, ls_graph_id l, ls_head_sequence l)])"

text \<open>A write goes on: it is sent again at once when a fresh head is known, or it has returned.\<close>

definition write_goes_on :: "secrets \<times> write_next \<Rightarrow> secrets_world \<Rightarrow> secrets_world \<times> secrets_out list" where
  "write_goes_on result w =
     (case result of
        (s, WriteEnded ok) \<Rightarrow> (w\<lparr>zw_secrets := s\<rparr>, [WriteReturned ok])
      | (s, WriteWaits x) \<Rightarrow>
          (w\<lparr>zw_secrets := s, zw_writes := x # zw_writes w\<rparr>, if sw_phase x = SecondSend then [SendWrite x] else []))"

fun secrets_step :: "secrets_op \<Rightarrow> secrets_world \<Rightarrow> secrets_world \<times> secrets_out list" where
  "secrets_step (SecretsOpen graph nodes) w =
     (case refresh_start graph nodes (zw_secrets w) of
        (s, ticket) \<Rightarrow> (w\<lparr>zw_secrets := s, zw_tickets := (case ticket of Some t \<Rightarrow> [t] | None \<Rightarrow> []) @ zw_tickets w\<rparr>, []))"
| "secrets_step (SecretsListed aborted answer ticket) w =
     (w\<lparr>zw_secrets := fst (refresh_answer aborted answer ticket (zw_secrets w)), zw_tickets := remove1 ticket (zw_tickets w),
        zw_listed := listing_entry answer @ zw_listed w\<rparr>, [])"
| "secrets_step (SecretsNodes nodes) w = (w\<lparr>zw_secrets := nodes_changed nodes (zw_secrets w)\<rparr>, [])"
| "secrets_step (SecretsWrite kind nodeId name) w =
     (case write_start kind nodeId name (zw_secrets w) of
        (s, None) \<Rightarrow> (w\<lparr>zw_secrets := s\<rparr>, [WriteReturned False])
      | (s, Some x) \<Rightarrow> (w\<lparr>zw_secrets := s, zw_writes := x # zw_writes w\<rparr>, [SendWrite x]))"
| "secrets_step (SecretsAnswered outcome x) w =
     write_goes_on (write_answered outcome x (zw_secrets w)) (w\<lparr>zw_writes := remove1 x (zw_writes w)\<rparr>)"
| "secrets_step (SecretsReread answer x) w =
     (case sw_phase x of
        Rereading ticket \<Rightarrow>
          (case refresh_answer False answer ticket (zw_secrets w) of
             (s, refreshed) \<Rightarrow>
               write_goes_on (write_reread refreshed x s)
                 (w\<lparr>zw_writes := remove1 x (zw_writes w), zw_listed := listing_entry answer @ zw_listed w\<rparr>))
      | _ \<Rightarrow> (w, []))"
| "secrets_step SecretsClear w = (w\<lparr>zw_secrets := clearGraphSecretStatuses (zw_secrets w)\<rparr>, [])"
| "secrets_step (SecretsForget nodeId) w = (w\<lparr>zw_secrets := forgetNodeSecretStatuses nodeId (zw_secrets w)\<rparr>, [])"

text \<open>Only what is pending is answered.\<close>

fun secrets_allowed :: "secrets_world \<Rightarrow> secrets_op \<Rightarrow> bool" where
  "secrets_allowed w (SecretsListed aborted answer ticket) \<longleftrightarrow> ticket \<in> set (zw_tickets w)"
| "secrets_allowed w (SecretsAnswered outcome x) \<longleftrightarrow> x \<in> set (zw_writes w) \<and> (sw_phase x = FirstSend \<or> sw_phase x = SecondSend)"
| "secrets_allowed w (SecretsReread answer x) \<longleftrightarrow> x \<in> set (zw_writes w) \<and> (case sw_phase x of Rereading _ \<Rightarrow> True | _ \<Rightarrow> False)"
| "secrets_allowed w call \<longleftrightarrow> True"

definition secrets_start :: secrets_world where
  "secrets_start = \<lparr>zw_secrets = no_secrets [], zw_tickets = [], zw_writes = [], zw_listed = []\<rparr>"

subsection \<open>Heads\<close>

definition head_listed :: "(string \<times> string \<times> int) list \<Rightarrow> secrets \<Rightarrow> bool" where
  "head_listed listed s \<longleftrightarrow> (\<forall>h. xs_head s = Some h \<longrightarrow> (sh_projectId h, sh_graphId h, sh_sequence h) \<in> set listed)"

definition write_listed :: "(string \<times> string \<times> int) list \<Rightarrow> secret_write \<Rightarrow> bool" where
  "write_listed listed x \<longleftrightarrow> (xg_id (sw_graph x), xg_graphId (sw_graph x), sw_headSequence x) \<in> set listed"

lemma head_listed_mono: "head_listed listed s \<Longrightarrow> set listed \<subseteq> set listed' \<Longrightarrow> head_listed listed' s"
  by (auto simp: head_listed_def)

lemma guarded_listed:
  "head_listed listed s \<Longrightarrow> guardedHeadSequence (xs_head s) graph = Some n \<Longrightarrow> (xg_id graph, xg_graphId graph, n) \<in> set listed"
  by (auto simp: head_listed_def guardedHeadSequence_def split: option.splits if_splits)

lemma head_after_refresh_start: "head_listed listed s \<Longrightarrow> head_listed listed (fst (refresh_start graph nodes s))"
  by (simp add: refresh_start_def Let_def head_listed_def)

lemma head_after_failed: "xs_head (fst (refresh_failed aborted ticket s)) = xs_head s"
  by (simp add: refresh_failed_def refresh_merged_def)

lemma head_after_answer:
  assumes "head_listed listed s"
  shows "head_listed (listing_entry answer @ listed) (fst (refresh_answer aborted answer ticket s))"
  using assms head_after_failed
  by (auto simp: refresh_answer_def head_listed_def listing_entry_def refresh_merged_def split: option.splits)

lemma head_after_settled: "xs_head (write_settled ok x s) = xs_head s"
  by (simp add: write_settled_def set_status_def)

lemma write_started_listed:
  assumes "head_listed listed s" and "write_start kind nodeId name s = (s', Some x)"
  shows "write_listed listed x" and "head_listed listed s'"
  using assms guarded_listed [OF assms(1)]
  by (auto simp: write_start_def prepareSecretWrite_def write_listed_def set_status_def head_listed_def Let_def
      split: option.splits prod.splits if_splits)

lemma write_refused: "write_start kind nodeId name s = (s', None) \<Longrightarrow> s' = s"
  by (auto simp: write_start_def prepareSecretWrite_def Let_def split: option.splits prod.splits if_splits)

text \<open>Whatever a step of a write leaves: the head it knows was listed, and a write that waits claims a listed head.\<close>

definition next_listed :: "(string \<times> string \<times> int) list \<Rightarrow> secrets \<times> write_next \<Rightarrow> bool" where
  "next_listed listed result \<longleftrightarrow>
     head_listed listed (fst result) \<and> (case snd result of WriteEnded _ \<Rightarrow> True | WriteWaits x \<Rightarrow> write_listed listed x)"

lemma ended_listed: "head_listed listed s \<Longrightarrow> next_listed listed (write_ended ok x s)"
  by (simp add: next_listed_def write_ended_def head_listed_def head_after_settled)

lemma reread_listed: "head_listed listed s \<Longrightarrow> next_listed listed (write_reread refreshed x s)"
  using guarded_listed ended_listed
  by (fastforce simp: write_reread_def reread_result_def next_listed_def write_listed_def split: option.splits)

lemma conflict_listed:
  assumes "head_listed listed s" and "write_listed listed x"
  shows "next_listed listed (rereadHeadAfterConflict x s)"
proof (cases "sameNodeSecretGraph (sw_graph x) (xs_active s)")
  case True
  obtain s' ticket where start: "refresh_start (sw_graph x) (map snd (xs_nodes s)) s = (s', ticket)" by fastforce
  have "head_listed listed s'" using head_after_refresh_start [OF assms(1)] start by (metis fst_conv)
  then show ?thesis using True start assms(2) reread_listed
    by (cases ticket) (simp_all add: rereadHeadAfterConflict_def next_listed_def write_listed_def)
qed (simp add: rereadHeadAfterConflict_def ended_listed assms(1))

lemma answered_listed: "head_listed listed s \<Longrightarrow> write_listed listed x \<Longrightarrow> next_listed listed (write_answered outcome x s)"
  by (simp add: write_answered_def ended_listed conflict_listed)

subsection \<open>Statuses of writes under way\<close>

definition status_of :: "secret_statuses \<Rightarrow> string \<Rightarrow> string \<Rightarrow> secret_status option" where
  "status_of statuses nodeId name = Option.bind (statuses nodeId) (\<lambda>m. m name)"

definition busy :: "secret_status \<Rightarrow> bool" where
  "busy status \<longleftrightarrow> st_state status = Applying \<or> st_state status = Removing"

text \<open>The write that will settle a status: of the graph that is open, and the latest for its secret.\<close>

definition settles :: "secret_write \<Rightarrow> string \<Rightarrow> string \<Rightarrow> secrets \<Rightarrow> bool" where
  "settles x nodeId name s \<longleftrightarrow> sw_nodeId x = nodeId \<and> sw_name x = name \<and> sameNodeSecretGraph (sw_graph x) (xs_active s)
     \<and> nodeSecretWriteVersion (xs_versions s) nodeId name = sw_version x"

definition busy_backed :: "secret_write set \<Rightarrow> secrets \<Rightarrow> bool" where
  "busy_backed writes s \<longleftrightarrow>
     (\<forall>nodeId name status. status_of (xs_statuses s) nodeId name = Some status \<and> busy status \<longrightarrow> (\<exists>x \<in> writes. settles x nodeId name s))"

lemma busy_backedD: "busy_backed writes s \<Longrightarrow> status_of (xs_statuses s) nodeId name = Some status \<Longrightarrow> busy status
  \<Longrightarrow> \<exists>x \<in> writes. settles x nodeId name s"
  by (auto simp: busy_backed_def)

lemma busy_backed_mono: "busy_backed writes s \<Longrightarrow> writes \<subseteq> writes' \<Longrightarrow> busy_backed writes' s"
  by (auto simp: busy_backed_def) blast

definition idle :: "secret_statuses \<Rightarrow> bool" where
  "idle statuses \<longleftrightarrow> (\<forall>nodeId name status. status_of statuses nodeId name = Some status \<longrightarrow> \<not> busy status)"

lemma js_map_valuesD: "js_map (map (\<lambda>x. (f x, g x)) xs) k = Some v \<Longrightarrow> \<exists>x \<in> set xs. v = g x"
  by (drule js_map_SomeD) auto

lemma with_state_idle: "\<not> busy status \<Longrightarrow> idle (nodeSecretStatusesWithState nodes status)"
  unfolding idle_def status_of_def nodeSecretStatusesWithState_def
  by (auto simp: bind_eq_Some_conv dest!: js_map_valuesD)

lemma listed_idle: "idle (graphNodeSecretStatuses nodes remote)"
proof -
  have "\<not> busy status"
    if found: "js_map (map (\<lambda>(name, state). (name, plain_status state)) (reconciledNodeSecretStatuses spec i remote)) name = Some status" for spec i name status
  proof -
    obtain state where "state \<in> snd ` set (reconciledNodeSecretStatuses spec i remote)" "status = plain_status state"
      using js_map_SomeD [OF found] by force
    then show ?thesis
      by (auto simp: reconciledNodeSecretStatuses_def Let_def busy_def plain_status_def split: option.splits if_splits)
  qed
  then show ?thesis
    unfolding idle_def status_of_def graphNodeSecretStatuses_def by (auto simp: bind_eq_Some_conv dest!: js_map_valuesD)
qed

lemma status_of_merged:
  "status_of (mergeRefreshStatuses new current preserve v1 v2) nodeId name =
     map_option (merged_status preserve (nodeSecretWriteVersion v2 nodeId name \<noteq> nodeSecretWriteVersion v1 nodeId name) (status_of current nodeId name))
       (status_of new nodeId name)"
  by (cases "new nodeId") (auto simp: status_of_def mergeRefreshStatuses_def)

text \<open>A merge never makes a status busy that was not.\<close>

lemma merged_busy:
  assumes "status_of (mergeRefreshStatuses new current preserve v1 v2) nodeId name = Some status" and "busy status" and "idle new"
  shows "status_of current nodeId name = Some status"
    and "preserve \<or> nodeSecretWriteVersion v2 nodeId name \<noteq> nodeSecretWriteVersion v1 nodeId name"
  using assms by (auto simp: status_of_merged idle_def merged_status_def split: option.splits if_splits)

lemma settles_frame [simp]:
  "settles x nodeId name (s\<lparr>xs_statuses := statuses\<rparr>) = settles x nodeId name s" "settles x nodeId name (s\<lparr>xs_head := h\<rparr>) = settles x nodeId name s"
  by (simp_all add: settles_def)

lemma merged_backed:
  assumes "busy_backed writes s" and "idle new"
  shows "busy_backed writes (s\<lparr>xs_statuses := mergeRefreshStatuses new (xs_statuses s) preserve v1 v2\<rparr>)"
  unfolding busy_backed_def
proof (intro allI impI, elim conjE)
  fix nodeId name status
  assume "status_of (xs_statuses (s\<lparr>xs_statuses := mergeRefreshStatuses new (xs_statuses s) preserve v1 v2\<rparr>)) nodeId name = Some status"
    and busy: "busy status"
  then have "status_of (xs_statuses s) nodeId name = Some status" using merged_busy(1) [OF _ busy assms(2)] by simp
  from busy_backedD [OF assms(1) this busy]
  show "\<exists>x \<in> writes. settles x nodeId name (s\<lparr>xs_statuses := mergeRefreshStatuses new (xs_statuses s) preserve v1 v2\<rparr>)" by simp
qed

lemma not_busy_simps [simp]: "\<not> busy (plain_status SecretLoading)" "\<not> busy \<lparr>st_state = SecretError, st_message = m\<rparr>"
  "\<not> busy (plain_status (done_state kind))"
  by (cases kind; simp add: busy_def plain_status_def)+

lemma busy_backed_frame:
  assumes "busy_backed writes s" and "xs_statuses s' = xs_statuses s" and "xs_versions s' = xs_versions s"
    and "\<And>g. sameNodeSecretGraph g (xs_active s) \<Longrightarrow> sameNodeSecretGraph g (xs_active s')"
  shows "busy_backed writes s'"
  using assms by (fastforce simp: busy_backed_def settles_def)

lemma refresh_start_backed:
  assumes "busy_backed writes s"
  shows "busy_backed writes (fst (refresh_start graph nodes s))"
proof (cases "list_ex secret_node nodes")
  case False
  then show ?thesis by (simp add: refresh_start_def Let_def busy_backed_def status_of_def)
next
  case nodes: True
  let ?loading = "nodeSecretStatusesWithState nodes (plain_status SecretLoading)"
  have loading: "idle ?loading" by (simp add: with_state_idle)
  show ?thesis
  proof (cases "sameNodeSecretGraph graph (xs_active s)")
    case True
    have "busy_backed writes (s\<lparr>xs_statuses := mergeRefreshStatuses ?loading (xs_statuses s) True (xs_versions s) (xs_versions s)\<rparr>)"
      by (rule merged_backed [OF assms loading])
    then show ?thesis using True nodes
      by (auto simp: refresh_start_def Let_def sameNodeSecretGraph_def elim!: busy_backed_frame split: option.splits)
  next
    case False
    then show ?thesis using nodes merged_busy(2) [OF _ _ loading]
      by (fastforce simp: refresh_start_def Let_def busy_backed_def)
  qed
qed

lemma refresh_merged_backed: "busy_backed writes s \<Longrightarrow> idle statuses \<Longrightarrow> busy_backed writes (refresh_merged ticket statuses s)"
  by (simp add: refresh_merged_def merged_backed)

lemma refresh_answer_backed:
  assumes "busy_backed writes s"
  shows "busy_backed writes (fst (refresh_answer aborted answer ticket s))"
proof -
  have failed: "busy_backed writes (fst (refresh_failed aborted ticket s))"
    using assms by (simp add: refresh_failed_def refresh_merged_backed with_state_idle)
  have "busy_backed writes (s\<lparr>xs_head := h\<rparr>)" for h using assms by (rule busy_backed_frame) simp_all
  then show ?thesis using assms failed by (simp add: refresh_answer_def refresh_merged_backed listed_idle split: option.split)
qed

subsection \<open>Versions\<close>

lemma version_advanced:
  "nodeSecretWriteVersion (fst (advanceNodeSecretWriteVersion versions nodeId name)) nodeId' name' =
     (if nodeId' = nodeId \<and> name' = name then snd (advanceNodeSecretWriteVersion versions nodeId name)
      else nodeSecretWriteVersion versions nodeId' name')"
  by (auto simp: nodeSecretWriteVersion_def advanceNodeSecretWriteVersion_def Let_def split: option.splits)

lemma status_of_set:
  "status_of (xs_statuses (set_status nodeId name status s)) nodeId' name' =
     (if nodeId' = nodeId \<and> name' = name then Some status else status_of (xs_statuses s) nodeId' name')"
  by (auto simp: status_of_def set_status_def split: option.splits)

lemma set_status_frame [simp]:
  "xs_versions (set_status nodeId name status s) = xs_versions s" "xs_active (set_status nodeId name status s) = xs_active s"
  by (simp_all add: set_status_def)

text \<open>A new version and a new status of one secret: the other secrets keep their writes.\<close>

lemma advanced_backed:
  assumes "busy_backed writes s" and versions: "versions = fst (advanceNodeSecretWriteVersion (xs_versions s) nodeId name)"
    and "\<not> busy status \<or> (\<exists>x \<in> writes'. settles x nodeId name (s\<lparr>xs_versions := versions\<rparr>))"
    and "\<And>x. x \<in> writes \<Longrightarrow> sw_nodeId x \<noteq> nodeId \<or> sw_name x \<noteq> name \<Longrightarrow> x \<in> writes'"
  shows "busy_backed writes' (set_status nodeId name status (s\<lparr>xs_versions := versions\<rparr>))"
  unfolding busy_backed_def
proof (intro allI impI)
  fix nodeId' name' status'
  assume status': "status_of (xs_statuses (set_status nodeId name status (s\<lparr>xs_versions := versions\<rparr>))) nodeId' name' = Some status' \<and> busy status'"
  let ?t = "s\<lparr>xs_versions := versions\<rparr>"
  have same: "settles x nodeId' name' (set_status nodeId name status ?t) \<longleftrightarrow> settles x nodeId' name' ?t" for x by (simp add: settles_def)
  show "\<exists>x \<in> writes'. settles x nodeId' name' (set_status nodeId name status ?t)"
  proof (cases "nodeId' = nodeId \<and> name' = name")
    case True
    then show ?thesis using assms(3) status' same by (simp add: status_of_set)
  next
    case False
    then obtain x where "x \<in> writes" "settles x nodeId' name' s"
      using busy_backedD [OF assms(1), of nodeId' name' status'] status' by (auto simp: status_of_set)
    then have "x \<in> writes'" "settles x nodeId' name' ?t"
      using assms(4) False by (auto simp: settles_def versions version_advanced)
    then show ?thesis using same by blast
  qed
qed

subsection \<open>Every call keeps it\<close>

lemma write_started_backed:
  assumes "busy_backed writes s" and "write_start kind nodeId name s = (s', Some x)"
  shows "busy_backed (insert x writes) s'"
proof -
  obtain graph headSequence where active: "xs_active s = Some graph"
    and x: "x = \<lparr>sw_kind = kind, sw_nodeId = nodeId, sw_name = name, sw_graph = graph, sw_headSequence = headSequence,
      sw_version = snd (advanceNodeSecretWriteVersion (xs_versions s) nodeId name), sw_phase = FirstSend\<rparr>"
    and s': "s' = set_status nodeId name (plain_status (busy_state kind))
      (s\<lparr>xs_versions := fst (advanceNodeSecretWriteVersion (xs_versions s) nodeId name)\<rparr>)"
    using assms(2) by (auto simp: write_start_def prepareSecretWrite_def Let_def split: option.splits prod.splits if_splits)
  have "settles x nodeId name (s\<lparr>xs_versions := fst (advanceNodeSecretWriteVersion (xs_versions s) nodeId name)\<rparr>)"
    using active by (simp add: x settles_def version_advanced sameNodeSecretGraph_def)
  then show ?thesis unfolding s' by (intro advanced_backed [OF assms(1) refl]) auto
qed

text \<open>A write that ends takes its busy status with it.\<close>

lemma write_settled_backed:
  assumes "busy_backed (insert x writes) s"
  shows "busy_backed writes (write_settled ok x s)"
proof (cases "settles x (sw_nodeId x) (sw_name x) s")
  case True
  then have "write_settled ok x s = set_status (sw_nodeId x) (sw_name x)
      (if ok then plain_status (done_state (sw_kind x)) else \<lparr>st_state = SecretError, st_message = Some (write_error (sw_kind x))\<rparr>)
      (s\<lparr>xs_versions := fst (advanceNodeSecretWriteVersion (xs_versions s) (sw_nodeId x) (sw_name x))\<rparr>)"
    by (simp add: write_settled_def settles_def)
  then show ?thesis by (auto intro!: advanced_backed [OF assms refl])
next
  case False
  then have "write_settled ok x s = s" by (auto simp: write_settled_def settles_def)
  moreover have "busy_backed writes s" unfolding busy_backed_def
  proof (intro allI impI, elim conjE)
    fix nodeId name status
    assume "status_of (xs_statuses s) nodeId name = Some status" "busy status"
    from busy_backedD [OF assms this] obtain y where y: "y \<in> insert x writes" "settles y nodeId name s" by blast
    then have "y \<noteq> x" using False by (auto simp: settles_def)
    with y show "\<exists>y \<in> writes. settles y nodeId name s" by blast
  qed
  ultimately show ?thesis by simp
qed

text \<open>A write that waits stands for the one it was.\<close>

definition next_backed :: "secret_write set \<Rightarrow> secrets \<times> write_next \<Rightarrow> bool" where
  "next_backed writes result \<longleftrightarrow>
     busy_backed (case snd result of WriteEnded _ \<Rightarrow> writes | WriteWaits x \<Rightarrow> insert x writes) (fst result)"

lemma busy_backed_swap:
  assumes "busy_backed (insert x writes) s" and "\<And>nodeId name. settles x nodeId name s \<Longrightarrow> settles x' nodeId name s"
  shows "busy_backed (insert x' writes) s"
  unfolding busy_backed_def
proof (intro allI impI, elim conjE)
  fix nodeId name status
  assume "status_of (xs_statuses s) nodeId name = Some status" "busy status"
  from busy_backedD [OF assms(1) this] show "\<exists>y \<in> insert x' writes. settles y nodeId name s" using assms(2) by blast
qed

lemma ended_backed: "busy_backed (insert x writes) s \<Longrightarrow> next_backed writes (write_ended ok x s)"
  by (simp add: next_backed_def write_ended_def write_settled_backed)

lemma reread_backed: "busy_backed (insert x writes) s \<Longrightarrow> next_backed writes (write_reread refreshed x s)"
  by (auto simp: write_reread_def ended_backed next_backed_def [of _ "(_, WriteWaits _)"] settles_def elim: busy_backed_swap split: option.split)

lemma conflict_backed:
  assumes "busy_backed (insert x writes) s"
  shows "next_backed writes (rereadHeadAfterConflict x s)"
proof (cases "sameNodeSecretGraph (sw_graph x) (xs_active s)")
  case True
  obtain s' ticket where start: "refresh_start (sw_graph x) (map snd (xs_nodes s)) s = (s', ticket)" by fastforce
  have s': "busy_backed (insert x writes) s'" using refresh_start_backed [OF assms] start by (metis fst_conv)
  show ?thesis
  proof (cases ticket)
    case None
    then show ?thesis using True start reread_backed [OF s'] by (simp add: rereadHeadAfterConflict_def)
  next
    case (Some t)
    have "busy_backed (insert (x\<lparr>sw_phase := Rereading t\<rparr>) writes) s'"
      by (rule busy_backed_swap [OF s']) (simp add: settles_def)
    then show ?thesis using True start Some by (simp add: rereadHeadAfterConflict_def next_backed_def)
  qed
qed (simp add: rereadHeadAfterConflict_def ended_backed assms)

lemma answered_backed: "busy_backed (insert x writes) s \<Longrightarrow> next_backed writes (write_answered outcome x s)"
  by (simp add: write_answered_def ended_backed conflict_backed)

lemma version_invalidated:
  "nodeId \<noteq> Some node \<Longrightarrow> nodeId \<noteq> None \<Longrightarrow> nodeSecretWriteVersion (invalidateNodeSecretWrites versions nodeId) node name = nodeSecretWriteVersion versions node name"
  by (simp add: nodeSecretWriteVersion_def invalidateNodeSecretWrites_def)

lemma cleared_backed: "busy_backed writes (clearGraphSecretStatuses s)"
  by (simp add: busy_backed_def clearGraphSecretStatuses_def status_of_def)

lemma forgotten_backed:
  assumes "busy_backed writes s"
  shows "busy_backed writes (forgetNodeSecretStatuses nodeId s)"
  unfolding busy_backed_def
proof (intro allI impI, elim conjE)
  fix node name status
  assume status: "status_of (xs_statuses (forgetNodeSecretStatuses nodeId s)) node name = Some status" and "busy status"
  then have other: "node \<noteq> nodeId" and "status_of (xs_statuses s) node name = Some status"
    by (auto simp: forgetNodeSecretStatuses_def status_of_def split: if_splits)
  from busy_backedD [OF assms this(2) \<open>busy status\<close>]
  show "\<exists>x \<in> writes. settles x node name (forgetNodeSecretStatuses nodeId s)"
    using other by (auto simp: settles_def forgetNodeSecretStatuses_def version_invalidated)
qed

subsection \<open>The invariant\<close>

definition secrets_invariant :: "secrets_world \<Rightarrow> bool" where
  "secrets_invariant w \<longleftrightarrow> head_listed (zw_listed w) (zw_secrets w) \<and> (\<forall>x \<in> set (zw_writes w). write_listed (zw_listed w) x)
     \<and> busy_backed (set (zw_writes w)) (zw_secrets w)"

definition sends_listed :: "(string \<times> string \<times> int) list \<Rightarrow> secrets_out list \<Rightarrow> bool" where
  "sends_listed listed outs \<longleftrightarrow> (\<forall>x. SendWrite x \<in> set outs \<longrightarrow> write_listed listed x)"

lemma write_goes_on_keeps:
  assumes "next_listed (zw_listed w) result" and "next_backed (set (zw_writes w)) result" and "\<forall>x \<in> set (zw_writes w). write_listed (zw_listed w) x"
    and "write_goes_on result w = (w', outs)"
  shows "secrets_invariant w' \<and> zw_listed w' = zw_listed w \<and> sends_listed (zw_listed w) outs"
  using assms by (cases result)
    (auto simp: write_goes_on_def next_listed_def next_backed_def secrets_invariant_def sends_listed_def split: write_next.splits)

lemma backed_removed: "busy_backed (set writes) s \<Longrightarrow> busy_backed (insert x (set (remove1 x writes))) s"
  by (erule busy_backed_mono) (metis in_set_remove1 insertCI subsetI)

lemma listed_removed: "\<forall>y \<in> set writes. write_listed listed y \<Longrightarrow> set listed \<subseteq> set listed' \<Longrightarrow> \<forall>y \<in> set (remove1 x writes). write_listed listed' y"
  by (auto simp: write_listed_def dest: notin_set_remove1 in_set_remove1 [THEN iffD1, rotated] set_remove1_subset [THEN subsetD])

lemma reread_step_keeps:
  assumes inv': "secrets_invariant w" and pending: "sw_phase x = Rereading ticket" and step: "secrets_step (SecretsReread answer x) w = (w', outs)"
  shows "secrets_invariant w' \<and> set (zw_listed w) \<subseteq> set (zw_listed w') \<and> sends_listed (zw_listed w') outs"
proof -
  obtain s refreshed where answer: "refresh_answer False answer ticket (zw_secrets w) = (s, refreshed)" by fastforce
  let ?w = "w\<lparr>zw_writes := remove1 x (zw_writes w), zw_listed := listing_entry answer @ zw_listed w\<rparr>"
  have heads: "head_listed (listing_entry answer @ zw_listed w) s" "busy_backed (insert x (set (remove1 x (zw_writes w)))) s"
    using head_after_answer [of "zw_listed w" "zw_secrets w" answer False ticket] refresh_answer_backed [of _ "zw_secrets w" False answer ticket]
      backed_removed inv' answer by (auto simp: secrets_invariant_def)
  have listed: "\<forall>y \<in> set (zw_writes ?w). write_listed (zw_listed ?w) y"
    using listed_removed [of "zw_writes w" "zw_listed w" "listing_entry answer @ zw_listed w" x] inv' by (simp add: secrets_invariant_def)
  have "write_goes_on (write_reread refreshed x s) ?w = (w', outs)" using step pending answer by simp
  from write_goes_on_keeps [OF _ _ listed this] reread_listed [OF heads(1)] reread_backed [OF heads(2)] show ?thesis by auto
qed

lemma answered_step_keeps:
  assumes inv': "secrets_invariant w" and pending: "x \<in> set (zw_writes w)" and step: "secrets_step (SecretsAnswered outcome x) w = (w', outs)"
  shows "secrets_invariant w' \<and> zw_listed w' = zw_listed w \<and> sends_listed (zw_listed w') outs"
proof -
  let ?w = "w\<lparr>zw_writes := remove1 x (zw_writes w)\<rparr>"
  have "next_listed (zw_listed w) (write_answered outcome x (zw_secrets w))" "next_backed (set (zw_writes ?w)) (write_answered outcome x (zw_secrets w))"
    using inv' pending answered_listed answered_backed backed_removed by (auto simp: secrets_invariant_def)
  moreover have "\<forall>y \<in> set (zw_writes ?w). write_listed (zw_listed ?w) y"
    using listed_removed [of "zw_writes w" "zw_listed w" "zw_listed w" x] inv' by (simp add: secrets_invariant_def)
  ultimately show ?thesis using write_goes_on_keeps [of ?w "write_answered outcome x (zw_secrets w)" w' outs] step by simp
qed

lemma write_step_keeps:
  assumes inv': "secrets_invariant w" and step: "secrets_step (SecretsWrite kind nodeId name) w = (w', outs)"
  shows "secrets_invariant w' \<and> zw_listed w' = zw_listed w \<and> sends_listed (zw_listed w') outs"
proof (cases "snd (write_start kind nodeId name (zw_secrets w))")
  case None
  then obtain s where start: "write_start kind nodeId name (zw_secrets w) = (s, None)" by (metis prod.collapse)
  then show ?thesis using inv' step write_refused [OF start] by (auto simp: sends_listed_def secrets_invariant_def)
next
  case (Some x)
  then obtain s where start: "write_start kind nodeId name (zw_secrets w) = (s, Some x)" by (metis prod.collapse)
  then show ?thesis using inv' step write_started_listed [OF _ start] write_started_backed [OF _ start]
    by (auto simp: sends_listed_def secrets_invariant_def)
qed

lemma secrets_step_keeps:
  assumes inv': "secrets_invariant w" and "secrets_allowed w call" and step: "secrets_step call w = (w', outs)"
  shows "secrets_invariant w' \<and> set (zw_listed w) \<subseteq> set (zw_listed w') \<and> sends_listed (zw_listed w') outs"
proof (cases call)
  case (SecretsOpen graph nodes)
  let ?s = "fst (refresh_start graph nodes (zw_secrets w))"
  have "head_listed (zw_listed w) ?s" "busy_backed (set (zw_writes w)) ?s"
    using inv' by (simp_all add: secrets_invariant_def head_after_refresh_start refresh_start_backed)
  then show ?thesis using SecretsOpen inv' step by (auto simp: secrets_invariant_def sends_listed_def split: prod.splits)
next
  case (SecretsListed aborted answer ticket)
  let ?s = "fst (refresh_answer aborted answer ticket (zw_secrets w))"
  have "head_listed (listing_entry answer @ zw_listed w) ?s" "busy_backed (set (zw_writes w)) ?s"
    using inv' by (simp_all add: secrets_invariant_def head_after_answer refresh_answer_backed)
  then show ?thesis using SecretsListed inv' step by (auto simp: secrets_invariant_def sends_listed_def write_listed_def)
next
  case (SecretsNodes nodes)
  have "busy_backed (set (zw_writes w)) (nodes_changed nodes (zw_secrets w))"
    by (rule busy_backed_frame [of _ "zw_secrets w"]) (use inv' in \<open>simp_all add: nodes_changed_def secrets_invariant_def\<close>)
  then show ?thesis using SecretsNodes inv' step by (auto simp: secrets_invariant_def sends_listed_def nodes_changed_def head_listed_def)
next
  case (SecretsWrite kind nodeId name)
  then show ?thesis using write_step_keeps [OF inv' step [unfolded SecretsWrite]] by auto
next
  case (SecretsAnswered outcome x)
  then show ?thesis using answered_step_keeps [OF inv' _ step [unfolded SecretsAnswered]] assms(2) by auto
next
  case (SecretsReread answer x)
  then obtain ticket where "sw_phase x = Rereading ticket" using assms(2) by (auto split: write_phase.splits)
  then show ?thesis using reread_step_keeps [OF inv'] step SecretsReread by blast
next
  case SecretsClear
  then show ?thesis using inv' step cleared_backed
    by (auto simp: secrets_invariant_def sends_listed_def head_listed_def clearGraphSecretStatuses_def)
next
  case (SecretsForget nodeId)
  then show ?thesis using inv' step forgotten_backed
    by (auto simp: secrets_invariant_def sends_listed_def head_listed_def forgetNodeSecretStatuses_def)
qed

interpretation secret_calls: invariant_system secrets_step secrets_allowed secrets_start secrets_invariant
proof
  show "secrets_invariant secrets_start"
    by (simp add: secrets_invariant_def secrets_start_def no_secrets_def head_listed_def busy_backed_def status_of_def)
qed (use secrets_step_keeps in blast)

lemma sends_listed_append: "sends_listed listed (xs @ ys) \<longleftrightarrow> sends_listed listed xs \<and> sends_listed listed ys"
  by (auto simp: sends_listed_def)

lemma sends_listed_mono: "sends_listed listed outs \<Longrightarrow> set listed \<subseteq> set listed' \<Longrightarrow> sends_listed listed' outs"
  by (auto simp: sends_listed_def write_listed_def)

lemma reach_sends_listed: "reach secrets_step secrets_allowed secrets_start tr w \<Longrightarrow> sends_listed (zw_listed w) (trace_outputs tr)"
proof (induction rule: reach.induct)
  case (reach_step tr w call w' outs)
  from secrets_step_keeps [OF secret_calls.reach_inv [OF reach_step(1)] reach_step(2,3)] reach_step(4)
  show ?case by (auto simp: sends_listed_append intro: sends_listed_mono)
qed (simp add: sends_listed_def)

text \<open>A write is sent at most twice: its second answer ends it, and the second send claims another head than the first.\<close>

lemma second_send_ends: "sw_phase x \<noteq> FirstSend \<Longrightarrow> \<exists>ok. snd (write_answered outcome x s) = WriteEnded ok"
  by (auto simp: write_answered_def write_ended_def)

lemma resend_claims_new_head: "snd (write_reread refreshed x s) = WriteWaits y \<Longrightarrow> sw_phase y = SecondSend \<and> sw_headSequence y \<noteq> sw_headSequence x"
  by (auto simp: write_reread_def write_ended_def split: option.splits if_splits)

text \<open>
  C14: in every order of refreshes, listings, writes, answers and graph switches, each secret write that was sent claims a head that
  an answered listing of the same project and graph named; and whenever a secret is shown as being applied or removed, a
  pending write of that secret, the latest one and of the open graph, will settle it, so no such status outlives its write.
\<close>

theorem secret_writes_guarded:
  assumes "reach secrets_step secrets_allowed secrets_start tr w"
  shows "(\<forall>x. SendWrite x \<in> set (trace_outputs tr)
      \<longrightarrow> (xg_id (sw_graph x), xg_graphId (sw_graph x), sw_headSequence x) \<in> set (zw_listed w))
    \<and> (\<forall>nodeId name status. status_of (xs_statuses (zw_secrets w)) nodeId name = Some status \<and> busy status
      \<longrightarrow> (\<exists>x \<in> set (zw_writes w). settles x nodeId name (zw_secrets w)))"
  using reach_sends_listed [OF assms] secret_calls.reach_inv [OF assms]
  by (simp add: sends_listed_def write_listed_def secrets_invariant_def busy_backed_def)

subsection \<open>A write whose head moved\<close>

definition keyed_spec :: node_spec where
  "keyed_spec = \<lparr>ns_operator_id = ''ask'', ns_operator_version = 1, ns_plugin_slug = ''core'', ns_title = ''Ask'', ns_description = [],
     ns_catalog_visible = True, ns_runnable = True, ns_config_schema = JNull, ns_inputs = [], ns_outputs = [],
     ns_secret_inputs = JArray [JObject [(''name'', JString ''key''), (''config_dependencies'', JArray [])]]\<rparr>"

definition keyed_node :: workflow_node where
  "keyed_node = \<lparr>wn_id = ''n'', wn_position = \<lparr>pt_x = Finite 0, pt_y = Finite 0\<rparr>, wn_selected = False, wn_data = fresh_node_data keyed_spec [] []\<rparr>"

definition keyed_graph :: secret_graph where
  "keyed_graph = \<lparr>xg_id = ''p'', xg_graphId = ''g'', xg_revision = 3, xg_nodes =
     [\<lparr>n_id = ''n'', n_kind = Builtin, n_operator_id = ''ask'', n_operator_version = 1, n_config = Null, n_artifact_type_bindings = [],
       n_input_plugs = [], n_layout = Null, n_position = \<lparr>pt_x = Finite 0, pt_y = Finite 0\<rparr>\<rparr>]\<rparr>"

definition keyed_listing :: "int \<Rightarrow> secret_listing" where
  "keyed_listing n = \<lparr>ls_project_id = ''p'', ls_graph_id = ''g'', ls_head_sequence = n, ls_secrets = []\<rparr>"

lemma keyed_facts:
  "nodeSecretInputs keyed_spec = [\<lparr>si_name = ''key'', si_title = ''key'', si_description = None, si_configDependencies = []\<rparr>]"
  "secret_node keyed_node" "wn_id keyed_node = ''n''" "wd_spec (wn_data keyed_node) = keyed_spec" "wd_compatibility (wn_data keyed_node) = Supported"
  "nodeSecretBindingReady \<lparr>si_name = ''key'', si_title = ''key'', si_description = None, si_configDependencies = []\<rparr> keyed_node
     (find (\<lambda>candidate. n_id candidate = ''n'') (xg_nodes keyed_graph))"
  "nodes_by_id [keyed_node] = [(''n'', keyed_node)]"
  "reconciledNodeSecretStatuses keyed_spec ''n'' [] = [(''key'', Unconfigured)]"
  by code_simp+

lemma keyed_graph_ids: "xg_id keyed_graph = ''p''" "xg_graphId keyed_graph = ''g''"
  by (simp_all add: keyed_graph_def)

lemma js_map_single: "js_map [(k, v)] = [k \<mapsto> v]"
  by (rule ext) (simp add: js_map_def)

lemma merge_single:
  "mergeRefreshStatuses [n \<mapsto> [name \<mapsto> new]] current preserve v1 v2 =
     [n \<mapsto> [name \<mapsto> merged_status preserve (nodeSecretWriteVersion v2 n name \<noteq> nodeSecretWriteVersion v1 n name) (status_of current n name) new]]"
  by (intro ext) (auto simp: mergeRefreshStatuses_def status_of_def)

lemma invalidate_empty: "invalidateNodeSecretWrites Map.empty nodeId = Map.empty"
  by (rule ext) (simp add: invalidateNodeSecretWrites_def)

lemmas keyed_simps = keyed_facts keyed_graph_ids js_map_single merge_single invalidate_empty refresh_start_def refresh_answer_def refresh_current_def
  refresh_merged_def nodeSecretStatusesWithState_def graphNodeSecretStatuses_def sameNodeSecretGraph_def Let_def listing_entry_def keyed_listing_def

definition opened :: secrets_world where
  "opened = \<lparr>zw_secrets = \<lparr>xs_statuses = [''n'' \<mapsto> [''key'' \<mapsto> plain_status SecretLoading]], xs_active = Some keyed_graph, xs_head = None,
       xs_generation = 1, xs_versions = Map.empty, xs_nodes = [(''n'', keyed_node)]\<rparr>,
     zw_tickets = [\<lparr>rt_graph = keyed_graph, rt_generation = 1, rt_continues = False, rt_versions = Map.empty\<rparr>], zw_writes = [], zw_listed = []\<rparr>"

lemma opened_step: "secrets_step (SecretsOpen keyed_graph [keyed_node]) secrets_start = (opened, [])"
  by (simp add: secrets_start_def no_secrets_def nodes_by_id_def [of "[]"] keyed_simps opened_def merged_status_def status_of_def)

definition read_once :: secrets_world where
  "read_once = \<lparr>zw_secrets = \<lparr>xs_statuses = [''n'' \<mapsto> [''key'' \<mapsto> plain_status Unconfigured]], xs_active = Some keyed_graph,
       xs_head = Some \<lparr>sh_projectId = ''p'', sh_graphId = ''g'', sh_sequence = 3\<rparr>,
       xs_generation = 1, xs_versions = Map.empty, xs_nodes = [(''n'', keyed_node)]\<rparr>,
     zw_tickets = [], zw_writes = [], zw_listed = [(''p'', ''g'', 3)]\<rparr>"

lemma read_once_step: "secrets_step (SecretsListed False (Some (keyed_listing 3)) (hd (zw_tickets opened))) opened = (read_once, [])"
  by (simp add: opened_def read_once_def keyed_simps merged_status_def status_of_def plain_status_def)

definition keyed_write :: "int \<Rightarrow> write_phase \<Rightarrow> secret_write" where
  "keyed_write n phase = \<lparr>sw_kind = ApplySecret, sw_nodeId = ''n'', sw_name = ''key'', sw_graph = keyed_graph, sw_headSequence = n,
     sw_version = 1, sw_phase = phase\<rparr>"

definition applying :: "nat \<Rightarrow> int \<Rightarrow> secrets" where
  "applying generation n = \<lparr>xs_statuses = [''n'' \<mapsto> [''key'' \<mapsto> plain_status Applying]], xs_active = Some keyed_graph,
     xs_head = Some \<lparr>sh_projectId = ''p'', sh_graphId = ''g'', sh_sequence = n\<rparr>,
     xs_generation = generation, xs_versions = [''n'' \<mapsto> [''key'' \<mapsto> 1]], xs_nodes = [(''n'', keyed_node)]\<rparr>"

definition first_sent :: secrets_world where
  "first_sent = \<lparr>zw_secrets = applying 1 3, zw_tickets = [], zw_writes = [keyed_write 3 FirstSend], zw_listed = [(''p'', ''g'', 3)]\<rparr>"

lemma first_sent_step: "secrets_step (SecretsWrite ApplySecret ''n'' ''key'') read_once = (first_sent, [SendWrite (keyed_write 3 FirstSend)])"
  by (simp add: read_once_def first_sent_def applying_def keyed_write_def write_start_def prepareSecretWrite_def guardedHeadSequence_def
      secret_input_named_def advanceNodeSecretWriteVersion_def set_status_def keyed_facts keyed_graph_ids Let_def)

definition reread_ticket :: refresh_ticket where
  "reread_ticket = \<lparr>rt_graph = keyed_graph, rt_generation = 2, rt_continues = True, rt_versions = [''n'' \<mapsto> [''key'' \<mapsto> 1]]\<rparr>"

definition rereading :: secrets_world where
  "rereading = \<lparr>zw_secrets = applying 2 3, zw_tickets = [], zw_writes = [keyed_write 3 (Rereading reread_ticket)], zw_listed = [(''p'', ''g'', 3)]\<rparr>"

lemma rereading_step: "secrets_step (SecretsAnswered HeadMoved (keyed_write 3 FirstSend)) first_sent = (rereading, [])"
  by (simp add: first_sent_def rereading_def reread_ticket_def applying_def keyed_write_def write_answered_def headMovedUnderTheWrite_def
      rereadHeadAfterConflict_def write_goes_on_def keyed_simps merged_status_def status_of_def plain_status_def)

definition second_sent :: secrets_world where
  "second_sent = \<lparr>zw_secrets = applying 2 5, zw_tickets = [], zw_writes = [keyed_write 5 SecondSend], zw_listed = [(''p'', ''g'', 5), (''p'', ''g'', 3)]\<rparr>"

lemma second_sent_step:
  "secrets_step (SecretsReread (Some (keyed_listing 5)) (keyed_write 3 (Rereading reread_ticket))) rereading = (second_sent, [SendWrite (keyed_write 5 SecondSend)])"
  by (simp add: second_sent_def rereading_def reread_ticket_def applying_def keyed_write_def write_reread_def reread_result_def guardedHeadSequence_def
      write_goes_on_def keyed_simps merged_status_def status_of_def plain_status_def)

definition keyed_trace :: "(secrets_op \<times> secrets_out list) list" where
  "keyed_trace = [(SecretsOpen keyed_graph [keyed_node], []), (SecretsListed False (Some (keyed_listing 3)) (hd (zw_tickets opened)), []),
     (SecretsWrite ApplySecret ''n'' ''key'', [SendWrite (keyed_write 3 FirstSend)]), (SecretsAnswered HeadMoved (keyed_write 3 FirstSend), []),
     (SecretsReread (Some (keyed_listing 5)) (keyed_write 3 (Rereading reread_ticket)), [SendWrite (keyed_write 5 SecondSend)])]"

lemmas keyed_steps = opened_step read_once_step first_sent_step rereading_step second_sent_step

lemma keyed_ran: "run_trace secrets_step secrets_start (map fst keyed_trace) = (keyed_trace, second_sent)"
  by (simp add: keyed_trace_def keyed_steps del: secrets_step.simps)

lemma keyed_allowed: "run_allowed secrets_step secrets_allowed secrets_start (map fst keyed_trace)"
proof -
  have "hd (zw_tickets opened) \<in> set (zw_tickets opened)" "keyed_write 3 FirstSend \<in> set (zw_writes first_sent)"
    "keyed_write 3 (Rereading reread_ticket) \<in> set (zw_writes rereading)" by (simp_all add: opened_def first_sent_def rereading_def)
  then show ?thesis by (simp add: keyed_trace_def keyed_steps del: secrets_step.simps) (simp add: keyed_write_def)
qed

lemma keyed_reached: "reach secrets_step secrets_allowed secrets_start keyed_trace second_sent"
  using reach_run [OF keyed_allowed] by (simp only: keyed_ran fst_conv snd_conv)

theorem secret_writes_guarded_witness:
  "SendWrite (keyed_write 5 SecondSend) \<in> set (trace_outputs keyed_trace)
   \<and> (xg_id keyed_graph, xg_graphId keyed_graph, 5) \<in> set (zw_listed second_sent)
   \<and> status_of (xs_statuses (zw_secrets second_sent)) ''n'' ''key'' = Some (plain_status Applying)
   \<and> (\<exists>x \<in> set (zw_writes second_sent). settles x ''n'' ''key'' (zw_secrets second_sent))"
proof -
  have sent: "SendWrite (keyed_write 5 SecondSend) \<in> set (trace_outputs keyed_trace)" by (simp add: keyed_trace_def trace_outputs_def)
  have shown: "status_of (xs_statuses (zw_secrets second_sent)) ''n'' ''key'' = Some (plain_status Applying)"
    by (simp add: second_sent_def applying_def status_of_def)
  moreover have "busy (plain_status Applying)" by (simp add: busy_def plain_status_def)
  moreover have "xg_id (sw_graph (keyed_write 5 SecondSend)) = xg_id keyed_graph" "xg_graphId (sw_graph (keyed_write 5 SecondSend)) = xg_graphId keyed_graph"
    "sw_headSequence (keyed_write 5 SecondSend) = 5" by (simp_all add: keyed_write_def)
  ultimately show ?thesis using secret_writes_guarded [OF keyed_reached] sent by (metis (no_types, lifting))
qed

end
