(* ===== verification/CanvasCommands.thy ===== *)
theory CanvasCommands
  imports Collections GraphInvalidation
begin

section \<open>Gestures that change the document and the cards together\<close>

text \<open>
  \<^verbatim>\<open>ui/workbench-authoring-commands.ts\<close>, \<^verbatim>\<open>ui/authoring-command-guard.ts\<close>, \<^verbatim>\<open>ui/workbench-artifact-viewers.ts\<close>,
  \<^verbatim>\<open>ui/workbench-artifact-cards.ts\<close> and \<^verbatim>\<open>ui/workbench-canvas-selection.ts\<close>: the callbacks of the workbench as operations on the
  state they write, with what they hand to the room as outputs. A state setter applies at once; what the hook captured
  from the last render is the state before the call. The outputs are listed by the calls that cause them; a replacement of
  the cards leaves on a microtask, so behind the other outputs of its gesture. Identifiers drawn at random are arguments, and
  so is what a card shows (\<open>resolveCardValue\<close>). Drop positions are exact rationals.
\<close>

record 'run workbench =
  wb_authoring :: "'run authoring_state"
  wb_viewers :: viewer_canvas_state
  wb_selectedNodes :: "string list"
  wb_selectedEdges :: "string list"
  wb_selectedAgents :: "string list"
  wb_positionOverrides :: "(string \<times> point) list"
  wb_pendingRoute :: "json option"
  wb_runError :: "string option"
  wb_enabled :: bool
  wb_blockedMessage :: string
  wb_viewerSelections :: "(string \<times> json) list"
  wb_viewerFields :: "(string \<times> json) list"
  wb_viewerActivities :: "(string \<times> json \<times> nat) list"
  wb_activityRevision :: nat

datatype canvas_out =
    SubmitLocal "graph_command list" authored_graph_document
  | SubmitReplace viewer_canvas_state
  | Collected string

type_synonym 'run canvas_call = "'run workbench \<Rightarrow> 'run workbench \<times> canvas_out list"

abbreviation wb_document :: "'run workbench \<Rightarrow> authored_graph_document" where
  "wb_document w \<equiv> as_document (wb_authoring w)"

text \<open>One call after another, with the outputs of both.\<close>

definition then_step :: "'run canvas_call \<Rightarrow> 'run canvas_call \<Rightarrow> 'run canvas_call" where
  "then_step f g w = (case f w of (w1, outs1) \<Rightarrow> case g w1 of (w2, outs2) \<Rightarrow> (w2, outs1 @ outs2))"

subsection \<open>Commands\<close>

text \<open>\<open>syncRoom\<close> is \<open>None\<close> when the option is not given.\<close>

definition shouldBlockAuthoringCommand :: "bool \<Rightarrow> bool option \<Rightarrow> bool" where
  "shouldBlockAuthoringCommand localAuthoringEnabled syncRoom = (if syncRoom = Some False then False else \<not> localAuthoringEnabled)"

definition applyAuthoringCommands :: "bool option \<Rightarrow> graph_command list \<Rightarrow> 'run canvas_call" where
  "applyAuthoringCommands syncRoom commands w =
     (if commands = [] then (w, [])
      else if shouldBlockAuthoringCommand (wb_enabled w) syncRoom then (w\<lparr>wb_runError := Some (wb_blockedMessage w)\<rparr>, [])
      else
        let before = wb_document w
        in (w\<lparr>wb_authoring := reduceWorkbenchAuthoringState (wb_authoring w) (ApplyCommands commands),
              wb_positionOverrides := [],
              wb_selectedNodes := filter (\<lambda>i. list_ex (\<lambda>node. n_id node = i) (d_nodes before)) (wb_selectedNodes w),
              wb_selectedEdges := filter (\<lambda>i. list_ex (\<lambda>edge. e_id edge = i) (d_edges before)) (wb_selectedEdges w),
              wb_viewers := foldl (\<lambda>viewers command. case command of RemoveNodes ids \<Rightarrow> withoutViewerEdgesFromNodes viewers ids | _ \<Rightarrow> viewers)
                (wb_viewers w) commands,
              wb_pendingRoute := None,
              wb_runError := None\<rparr>,
            if syncRoom \<noteq> Some False then [SubmitLocal commands before] else []))"

subsection \<open>Selection\<close>

definition deselect_cards :: "string list \<Rightarrow> viewer_node list \<Rightarrow> viewer_node list" where
  "deselect_cards held nodes = map (\<lambda>node. node\<lparr>vn_selected := (vn_id node \<in> set held)\<rparr>) nodes"

definition deselect_annotations :: "string list \<Rightarrow> annotation_node list \<Rightarrow> annotation_node list" where
  "deselect_annotations held nodes = map (\<lambda>node. node\<lparr>at_selected := (at_id node \<in> set held)\<rparr>) nodes"

definition withPresentationSelection :: "string list \<Rightarrow> string list \<Rightarrow> viewer_canvas_state \<Rightarrow> viewer_canvas_state" where
  "withPresentationSelection viewerIds annotationIds state =
     state\<lparr>vs_nodes := deselect_cards viewerIds (vs_nodes state), vs_annotations := deselect_annotations annotationIds (vs_annotations state)\<rparr>"

definition withoutPresentationSelection :: "viewer_canvas_state \<Rightarrow> viewer_canvas_state" where
  "withoutPresentationSelection state = withPresentationSelection [] [] state"

definition clearWorkflowSelection :: "'run workbench \<Rightarrow> 'run workbench" where
  "clearWorkflowSelection w = w\<lparr>wb_selectedAgents := [], wb_selectedNodes := [], wb_selectedEdges := []\<rparr>"

record canvas_selection =
  sel_agentIds :: "string list"
  sel_annotationIds :: "string list"
  sel_edgeIds :: "string list"
  sel_nodeIds :: "string list"
  sel_viewerIds :: "string list"

definition selectOnly :: "canvas_selection \<Rightarrow> 'run workbench \<Rightarrow> 'run workbench" where
  "selectOnly selection w =
     w\<lparr>wb_selectedAgents := remdups (sel_agentIds selection), wb_selectedNodes := remdups (sel_nodeIds selection),
       wb_selectedEdges := remdups (sel_edgeIds selection),
       wb_viewers := withPresentationSelection (sel_viewerIds selection) (sel_annotationIds selection) (wb_viewers w)\<rparr>"

subsection \<open>Cards and annotations\<close>

definition commitArtifactViewers ::
    "(viewer_canvas_state \<Rightarrow> viewer_canvas_state) \<Rightarrow> 'run workbench \<Rightarrow> ('run workbench \<times> canvas_out list) \<times> bool" where
  "commitArtifactViewers updater w =
     (if \<not> wb_enabled w then ((w\<lparr>wb_runError := Some (wb_blockedMessage w)\<rparr>, []), False)
      else let new = updater (wb_viewers w) in ((w\<lparr>wb_viewers := new\<rparr>, [SubmitReplace new]), True))"

definition commit :: "(viewer_canvas_state \<Rightarrow> viewer_canvas_state) \<Rightarrow> 'run canvas_call" where
  "commit updater w = fst (commitArtifactViewers updater w)"

text \<open>A commit that placed something lets go of the nodes and edges.\<close>

definition commit_placed :: "(viewer_canvas_state \<Rightarrow> viewer_canvas_state) \<Rightarrow> 'run canvas_call" where
  "commit_placed updater w =
     (case commitArtifactViewers updater w of ((w', outs), committed) \<Rightarrow> (if committed then clearWorkflowSelection w' else w', outs))"

definition updateArtifactViewerLayout :: "string \<Rightarrow> workflow_node_layout option \<Rightarrow> 'run canvas_call" where
  "updateArtifactViewerLayout nodeId layout = commit (\<lambda>current. withViewerLayout current nodeId layout)"

definition updateArtifactViewerEdge :: "string \<Rightarrow> string list nullish \<Rightarrow> 'run canvas_call" where
  "updateArtifactViewerEdge edgeId update = commit (\<lambda>current. withViewerEdge current edgeId update)"

definition updateArtifactViewerEdgeRoute :: "string \<Rightarrow> point \<Rightarrow> 'run canvas_call" where
  "updateArtifactViewerEdgeRoute edgeId routeOffset = commit (\<lambda>current. withViewerEdgeRoute current edgeId routeOffset)"

definition updateArtifactViewerMode :: "string \<Rightarrow> string \<Rightarrow> 'run canvas_call" where
  "updateArtifactViewerMode nodeId mode = commit (\<lambda>current. withViewerMode current nodeId mode)"

definition updateArtifactViewerBinding :: "string \<Rightarrow> viewer_binding \<Rightarrow> 'run canvas_call" where
  "updateArtifactViewerBinding bindingId binding = commit (\<lambda>current. withViewerBinding current bindingId binding)"

definition updateAnnotationLayout :: "string \<Rightarrow> annotation_layout \<Rightarrow> 'run canvas_call" where
  "updateAnnotationLayout nodeId layout = commit (\<lambda>current. withAnnotationLayout current nodeId layout)"

definition updateAnnotationText :: "string \<Rightarrow> string \<Rightarrow> 'run canvas_call" where
  "updateAnnotationText nodeId content = commit (\<lambda>current. withAnnotationText current nodeId content)"

definition updateAnnotationColor :: "string \<Rightarrow> string \<Rightarrow> 'run canvas_call" where
  "updateAnnotationColor nodeId color = commit (\<lambda>current. withAnnotationColor current nodeId color)"

definition removeAnnotation :: "string \<Rightarrow> 'run canvas_call" where
  "removeAnnotation nodeId = commit (\<lambda>current. withoutAnnotation current nodeId)"

definition updateArtifactViewerSelection :: "string \<Rightarrow> json \<Rightarrow> 'run workbench \<Rightarrow> 'run workbench" where
  "updateArtifactViewerSelection nodeId selection w = w\<lparr>wb_viewerSelections := obj_set nodeId selection (wb_viewerSelections w)\<rparr>"

definition updateArtifactViewerFields :: "string \<Rightarrow> json \<Rightarrow> 'run workbench \<Rightarrow> 'run workbench" where
  "updateArtifactViewerFields nodeId given w =
     (if json_norm (case map_of (wb_viewerFields w) nodeId of Some v \<Rightarrow> v | None \<Rightarrow> JArray []) = json_norm given then w
      else w\<lparr>wb_viewerFields := obj_set nodeId given (wb_viewerFields w)\<rparr>)"

definition forget_key :: "string \<Rightarrow> (string \<times> 'v) list \<Rightarrow> (string \<times> 'v) list" where
  "forget_key k entries = filter (\<lambda>entry. fst entry \<noteq> k) entries"

definition updateArtifactViewerActivity :: "string \<Rightarrow> json option \<Rightarrow> 'run workbench \<Rightarrow> 'run workbench" where
  "updateArtifactViewerActivity nodeId activity w =
     (case activity of
        None \<Rightarrow> w\<lparr>wb_viewerActivities := forget_key nodeId (wb_viewerActivities w)\<rparr>
      | Some a \<Rightarrow> w\<lparr>wb_activityRevision := Suc (wb_activityRevision w),
                    wb_viewerActivities := obj_set nodeId (a, Suc (wb_activityRevision w)) (wb_viewerActivities w)\<rparr>)"

definition dropOriginsCarriedByCards :: "viewer_node option list \<Rightarrow> 'run canvas_call" where
  "dropOriginsCarriedByCards cards w =
     (let originIds = map o_id (filter (\<lambda>origin. list_ex (\<lambda>card. case card of
            Some c \<Rightarrow> originCarriesCardArtifacts (o_value origin) (vn_artifactRef c) | None \<Rightarrow> False) cards) (d_origins (wb_document w)))
      in if originIds \<noteq> [] then applyAuthoringCommands None [RemoveOrigins originIds] w else (w, []))"

definition forget_viewer :: "string \<Rightarrow> 'run workbench \<Rightarrow> 'run workbench" where
  "forget_viewer nodeId w =
     w\<lparr>wb_viewerSelections := forget_key nodeId (wb_viewerSelections w), wb_viewerFields := forget_key nodeId (wb_viewerFields w),
       wb_viewerActivities := forget_key nodeId (wb_viewerActivities w)\<rparr>"

definition removeArtifactViewer :: "string \<Rightarrow> 'run canvas_call" where
  "removeArtifactViewer nodeId w =
     then_step (dropOriginsCarriedByCards [find (\<lambda>node. vn_id node = nodeId) (vs_nodes (wb_viewers w))])
       (then_step (commit (\<lambda>current. withoutViewer current nodeId)) (\<lambda>w'. (forget_viewer nodeId w', []))) w"

subsection \<open>Placing, collecting and ungrouping\<close>

definition placed_card :: "string \<Rightarrow> point \<Rightarrow> string option \<Rightarrow> json \<Rightarrow> viewer_node" where
  "placed_card uuid position mode artifactRef =
     \<lparr>vn_id = ''artifact-viewer-'' @ uuid, vn_position = position, vn_layout = None, vn_mode = mode, vn_artifactRef = artifactRef,
      vn_selected = True, vn_measuredWidth = None, vn_measuredHeight = None\<rparr>"

definition addArtifactCards :: "(nat \<Rightarrow> string) \<Rightarrow> (json \<times> point) list \<Rightarrow> 'run canvas_call" where
  "addArtifactCards uuids cards w =
     (if cards = [] then (w, [])
      else
        let added = map (\<lambda>(index, value, position). placed_card (uuids index) position None value) (enumerate 0 cards)
        in commit_placed (\<lambda>current. let cleared = withoutPresentationSelection current in cleared\<lparr>vs_nodes := vs_nodes cleared @ added\<rparr>) w)"

definition addArtifactCard :: "(nat \<Rightarrow> string) \<Rightarrow> json \<Rightarrow> point \<Rightarrow> 'run canvas_call" where
  "addArtifactCard uuids value position = addArtifactCards uuids [(value, position)]"

definition without_cards :: "string list \<Rightarrow> viewer_canvas_state \<Rightarrow> viewer_canvas_state" where
  "without_cards removed current =
     current\<lparr>vs_nodes := filter (\<lambda>node. vn_id node \<notin> set removed) (vs_nodes current),
             vs_edges := filter (\<lambda>edge. ve_source edge \<notin> set removed \<and> ve_target edge \<notin> set removed) (vs_edges current)\<rparr>"

record collection_deps =
  cd_spec :: "node_spec option"
  cd_disabledReason :: "string option"
  cd_sources :: "collection_source list"
  cd_nodes :: "workflow_node list"
  cd_edges :: "workflow_edge list"

definition selected_values :: "(viewer_node \<Rightarrow> json option) \<Rightarrow> viewer_node list \<Rightarrow> (string \<times> json) list" where
  "selected_values resolveCardValue nodes =
     foldl (\<lambda>values node.
       let value = (case resolveCardValue node of Some v \<Rightarrow> v | None \<Rightarrow> vn_artifactRef node)
       in if \<not> vn_selected node \<or> value = JNull then values else obj_set (vn_id node) value values) [] nodes"

definition collectSelectedArtifacts ::
    "(string \<Rightarrow> js_number) \<Rightarrow> (nat \<Rightarrow> string) \<Rightarrow> collection_deps \<Rightarrow> string option \<Rightarrow> (viewer_node \<Rightarrow> json option) \<Rightarrow> 'run workbench \<Rightarrow> string + 'run workbench \<times> canvas_out list" where
  "collectSelectedArtifacts number uuids collection groupingDisabledReason resolveCardValue w =
     (if \<not> wb_enabled w then Inr (w, [])
      else case cd_spec collection of
             Some spec \<Rightarrow>
               if cd_disabledReason collection \<noteq> None then Inr (w, [])
               else (case collectCardsCommands number uuids (cd_sources collection) (cd_nodes collection) spec
                       (\<lambda>collectSpec plugs. createWorkflowNodeData (\<lambda>_. []) collectSpec (Some plugs)) of
                       Inl err \<Rightarrow> Inl err
                     | Inr None \<Rightarrow> Inr (w, [])
                     | Inr (Some plan) \<Rightarrow>
                         Inr (then_step (applyAuthoringCommands None (cp_commands plan))
                           (then_step (commit (without_cards (cp_removedCardIds plan))) (\<lambda>w'. (w', [Collected (cp_collectionId plan)]))) w))
           | None \<Rightarrow>
               if groupingDisabledReason \<noteq> None then Inr (w, [])
               else
                 let values = selected_values resolveCardValue (vs_nodes (wb_viewers w)); origins = d_origins (wb_document w)
                 in Inr (commit (\<lambda>state. collectArtifactCards (uuids 0) (uuids 1) state origins values) w))"

fun ungrouped_node :: "string \<Rightarrow> ungrouped_card \<Rightarrow> viewer_node" where
  "ungrouped_node uuid (LibraryCard position value) = placed_card uuid position None value"
| "ungrouped_node uuid (OutputCard position sourceNodeId sourcePortName) = placed_card uuid position (Some ''artifact'') JNull"

fun ungrouped_links :: "string \<Rightarrow> string \<Rightarrow> ungrouped_card \<Rightarrow> viewer_edge list" where
  "ungrouped_links uuid edgeUuid (LibraryCard position value) = []"
| "ungrouped_links uuid edgeUuid (OutputCard position sourceNodeId sourcePortName) =
     [\<lparr>ve_id = ''artifact-viewer-edge-'' @ edgeUuid, ve_source = sourceNodeId, ve_target = ''artifact-viewer-'' @ uuid,
       ve_targetHandle = Some ARTIFACT_VIEWER_INPUT_HANDLE,
       ve_data = Some \<lparr>vd_sourcePortName = sourcePortName, vd_projection = None, vd_routeOffset = None\<rparr>\<rparr>]"

definition ungroupCollection ::
    "(string \<Rightarrow> js_number) \<Rightarrow> (nat \<Rightarrow> string) \<Rightarrow> (nat \<Rightarrow> string) \<Rightarrow> (nat \<Rightarrow> string) \<Rightarrow> collection_deps \<Rightarrow> string \<Rightarrow> 'run canvas_call" where
  "ungroupCollection number valueUuids uuids edgeUuids collection nodeId w =
     (case find (\<lambda>candidate. wn_id candidate = nodeId) (cd_nodes collection) of
        None \<Rightarrow> (w, [])
      | Some node \<Rightarrow>
          if \<not> isCollectionNode node \<or> ungroupCollectionDisabledReason nodeId (cd_edges collection) \<noteq> None then (w, [])
          else
            let width = Finite DEFAULT_ARTIFACT_CARD_WIDTH;
                cards = ungroupedCollectionCards valueUuids (wn_position node)
                          (collectionMembers number node (cd_nodes collection) (cd_edges collection) (d_origins (wb_document w)))
                          width (artifactCardMediaHeight width)
            in then_step (applyAuthoringCommands None [RemoveNodes [nodeId]])
                 (commit_placed (\<lambda>current.
                    let cleared = withoutPresentationSelection current
                    in cleared\<lparr>vs_nodes := vs_nodes cleared @ map (\<lambda>(index, card). ungrouped_node (uuids index) card) (enumerate 0 cards),
                              vs_edges := vs_edges cleared
                                @ concat (map (\<lambda>(index, card). ungrouped_links (uuids index) (edgeUuids index) card) (enumerate 0 cards))\<rparr>)) w)"

definition ungroupArtifacts :: "(nat \<Rightarrow> string) \<Rightarrow> string \<Rightarrow> 'run canvas_call" where
  "ungroupArtifacts uuids nodeId w =
     (let origins = d_origins (wb_document w) in commit (\<lambda>state. ungroupArtifactCard uuids state origins nodeId) w)"

definition tidySelectedArtifacts :: "'run canvas_call" where
  "tidySelectedArtifacts = commit tidyArtifactCards"

definition no_origin_change :: origin_update where
  "no_origin_change = \<lparr>ou_to_node = None, ou_to_port = None, ou_to_plug = None, ou_value = None, ou_collection_mode = None,
     ou_conversion_path = None\<rparr>"

definition origin_rewrites :: "string \<Rightarrow> json \<Rightarrow> saved_graph_origin list \<Rightarrow> graph_command list" where
  "origin_rewrites uuid value carried =
     concat (map (\<lambda>origin.
       let new = artifactCardValue (cardArtifactRefs value) (o_value origin) False uuid
       in if new = JNull then [] else [UpdateOrigin (o_id origin) (no_origin_change\<lparr>ou_value := Some new\<rparr>)]) carried)"

definition with_card_value :: "string \<Rightarrow> json \<Rightarrow> viewer_canvas_state \<Rightarrow> viewer_canvas_state" where
  "with_card_value nodeId value current =
     current\<lparr>vs_nodes := (if value \<noteq> JNull
        then map (\<lambda>node. if vn_id node = nodeId then node\<lparr>vn_artifactRef := value\<rparr> else node) (vs_nodes current)
        else filter (\<lambda>node. vn_id node \<noteq> nodeId) (vs_nodes current))\<rparr>"

definition updateArtifactCardRefs :: "string \<Rightarrow> string \<Rightarrow> json \<Rightarrow> 'run canvas_call" where
  "updateArtifactCardRefs uuid nodeId value w =
     (case find (\<lambda>node. vn_id node = nodeId) (vs_nodes (wb_viewers w)) of
        None \<Rightarrow> (w, [])
      | Some card' \<Rightarrow>
          let carried = filter (\<lambda>origin. originCarriesCardArtifacts (o_value origin) (vn_artifactRef card')) (d_origins (wb_document w))
          in then_step (commit (with_card_value nodeId value))
               (\<lambda>w'. if value = JNull \<or> carried = [] then (w', [])
                      else applyAuthoringCommands None (origin_rewrites uuid value carried) w') w)"

subsection \<open>Where dropped cards land\<close>

definition artifactCardDropPosition :: "rat \<times> rat \<Rightarrow> nat \<Rightarrow> rat \<Rightarrow> rat \<times> rat" where
  "artifactCardDropPosition center artifactCount width =
     (fst center - width / 2, snd center - (if artifactCount > 1 then 76 else 24))"

definition ARTIFACT_CARD_DROP_GUTTER :: rat where "ARTIFACT_CARD_DROP_GUTTER = 24"

fun drop_row :: "rat \<Rightarrow> rat \<Rightarrow> (nat \<times> rat) list \<Rightarrow> (rat \<times> rat) list" where
  "drop_row y left [] = []"
| "drop_row y left ((artifactCount, width) # cards) =
     artifactCardDropPosition (left + width / 2, y) artifactCount width # drop_row y (left + width + ARTIFACT_CARD_DROP_GUTTER) cards"

definition artifactCardDropPositions :: "rat \<times> rat \<Rightarrow> (nat \<times> rat) list \<Rightarrow> (rat \<times> rat) list" where
  "artifactCardDropPositions center cards =
     (let row = sum_list (map snd cards) + of_nat (length cards - 1) * ARTIFACT_CARD_DROP_GUTTER
      in drop_row (snd center) (fst center - row / 2) cards)"

end
