(* ===== verification/CanvasCommands_Facts.thy ===== *)
theory CanvasCommands_Facts
  imports CanvasCommands Traced_System
begin

section \<open>Card links follow the nodes of the document\<close>

text \<open>
  The document and the cards are two stores that gestures change one after the other. The link of a card names the node
  whose output the card shows; whatever gestures follow one another, no link is left to a node the document does not have. While local
  authoring is paused no gesture changes either store or tells the room anything.
\<close>

subsection \<open>Nodes a command keeps\<close>

fun removed_nodes :: "graph_command \<Rightarrow> string set" where
  "removed_nodes (RemoveNodes ids) = set ids"
| "removed_nodes _ = {}"

fun keeps_document :: "graph_command \<Rightarrow> bool" where
  "keeps_document (ReplaceDocument _) = False"
| "keeps_document _ = True"

lemma updateNode_ids:
  assumes "updateNode d i f = Inr d'" and "\<And>n n'. f n = Inr n' \<Longrightarrow> n_id n' = n_id n"
  shows "node_ids d' = node_ids d"
proof -
  obtain ns where "d' = d\<lparr>d_nodes := ns\<rparr>" "map n_id ns = map n_id (d_nodes d)" by (rule updateNode_keys [OF assms])
  then show ?thesis using set_map [of n_id ns] set_map [of n_id "d_nodes d"] by simp
qed

lemma command_keeps_nodes:
  assumes "applyGraphCommandNormalized d c = Inr d'" and "keeps_document c"
  shows "node_ids d - removed_nodes c \<subseteq> node_ids d'"
proof (cases c)
  case (MoveNodes ps)
  have moved: "n_id (case js_map ps (n_id node) of None \<Rightarrow> node | Some p \<Rightarrow> node\<lparr>n_position := \<lparr>pt_x = pt_x p, pt_y = pt_y p\<rparr>\<rparr>) = n_id node" for node
    by (simp split: option.split)
  from MoveNodes assms have "node_ids d' = (\<lambda>x. n_id (case js_map ps (n_id x) of None \<Rightarrow> x | Some p \<Rightarrow> x\<lparr>n_position := \<lparr>pt_x = pt_x p, pt_y = pt_y p\<rparr>\<rparr>)) ` set (d_nodes d)"
    by (auto simp: apply_defs bind_result_Inr_iff image_image)
  then show ?thesis unfolding moved by auto
next
  case (ReorderInputPlug n port p i)
  with assms have "node_ids d' = node_ids d"
    by (auto simp: apply_defs elim!: updateNode_ids) (auto simp: bind_result_Inr_iff)
  then show ?thesis by simp
next
  case (RemoveNodes ids)
  with assms show ?thesis by (auto simp: apply_defs)
next
  case (UpdateNodeConfiguration n f v)
  with assms have "node_ids d' = node_ids d" by (auto simp: apply_defs elim!: updateNode_ids)
  then show ?thesis by simp
next
  case (UpdateNodeLayout n l)
  with assms have "node_ids d' = node_ids d" by (auto simp: apply_defs elim!: updateNode_ids)
  then show ?thesis by simp
next
  case (AddInputPlug n p)
  with assms have "node_ids d' = node_ids d" by (auto simp: apply_defs elim!: updateNode_ids)
  then show ?thesis by simp
next
  case (UpdateNodeConfigurationAndInputPlugs n conf ps)
  with assms show ?thesis by (auto simp: apply_defs bind_result_Inr_iff Let_def dest!: updateNode_ids)
next
  case (BindArtifactType n v t)
  with assms have "node_ids d' = node_ids d" by (auto simp: apply_defs elim!: updateNode_ids)
  then show ?thesis by simp
next
  case (ResetArtifactTypeBinding n v)
  with assms have "node_ids d' = node_ids d" by (auto simp: apply_defs elim!: updateNode_ids)
  then show ?thesis by simp
next
  case (RemoveInputPlug n p)
  with assms show ?thesis by (auto simp: apply_defs bind_result_Inr_iff Let_def dest!: updateNode_ids)
qed (use assms in \<open>auto simp: apply_defs bind_result_Inr_iff Let_def split: if_splits\<close>)


subsection \<open>Links and the nodes they name\<close>

definition link_sources :: "viewer_canvas_state \<Rightarrow> string set" where
  "link_sources state = ve_source ` set (vs_edges state)"

definition links_attached :: "'run workbench \<Rightarrow> bool" where
  "links_attached w \<longleftrightarrow> link_sources (wb_viewers w) \<subseteq> node_ids (wb_document w)"

lemma batch_keeps_nodes:
  assumes "run_commands applyGraphCommandNormalized d cs = Inr d'" and "list_all keeps_document cs"
  shows "node_ids d - \<Union> (removed_nodes ` set cs) \<subseteq> node_ids d'"
  using assms
proof (induction cs arbitrary: d)
  case (Cons c cs)
  then obtain d1 where d1: "applyGraphCommandNormalized d c = Inr d1" "run_commands applyGraphCommandNormalized d1 cs = Inr d'"
    by (auto simp: bind_result_Inr_iff)
  from command_keeps_nodes [OF d1(1)] Cons.IH [OF d1(2)] Cons.prems(2) show ?case by auto
qed simp

lemma nodes_normalized [simp]: "node_ids (normalize d) = node_ids d"
  by (simp add: normalize_def authoredGraphDocument_def createGraphDraft_def image_image projectSavedGraphNode_def)

lemma reducer_keeps_nodes:
  assumes "list_all keeps_document cs"
  shows "node_ids (as_document s) - \<Union> (removed_nodes ` set cs)
    \<subseteq> node_ids (as_document (reduceWorkbenchAuthoringState s (ApplyCommands cs)))"
proof (cases "reduce_commands (normalize (as_document s)) [] cs")
  case (Inl err)
  then show ?thesis by (auto simp flip: normalize_def)
next
  case (Inr r)
  obtain d' acc where r: "r = (d', acc)" by fastforce
  with Inr have "run_commands applyGraphCommandNormalized (normalize (as_document s)) cs = Inr d'" by (simp add: reduce_commands_run)
  from batch_keeps_nodes [OF this assms] Inr r show ?thesis by (simp flip: normalize_def)
qed

abbreviation prune_links :: "viewer_canvas_state \<Rightarrow> graph_command \<Rightarrow> viewer_canvas_state" where
  "prune_links viewers command \<equiv> (case command of RemoveNodes ids \<Rightarrow> withoutViewerEdgesFromNodes viewers ids | _ \<Rightarrow> viewers)"

lemma without_node_links [simp]: "link_sources (withoutViewerEdgesFromNodes state ids) = link_sources state - set ids"
proof -
  have "xs = filter P xs" if "length (filter P xs) = length xs" for P and xs :: "viewer_edge list"
    using that by (metis filter_True length_filter_less less_irrefl)
  then have "vs_edges (withoutViewerEdgesFromNodes state ids) = filter (\<lambda>edge. ve_source edge \<notin> set ids) (vs_edges state)"
    by (auto simp: withoutViewerEdgesFromNodes_def Let_def)
  then show ?thesis by (auto simp: link_sources_def)
qed

lemma pruned_links: "link_sources (prune_links viewers c) = link_sources viewers - removed_nodes c"
  by (cases c) simp_all

lemma batch_prunes_links: "link_sources (foldl prune_links viewers cs) = link_sources viewers - \<Union> (removed_nodes ` set cs)"
  by (induction cs arbitrary: viewers) (auto simp: pruned_links)

lemma commands_keep_links:
  assumes "links_attached w" and "list_all keeps_document cs"
  shows "links_attached (fst (applyAuthoringCommands syncRoom cs w))"
  using assms reducer_keeps_nodes [OF assms(2), of "wb_authoring w"]
  by (auto simp: applyAuthoringCommands_def links_attached_def batch_prunes_links Let_def simp del: reduceWorkbenchAuthoringState.simps)


subsection \<open>Gestures\<close>

text \<open>Everything the workbench offers over the two stores, and the pausing of local authoring.\<close>

datatype canvas_op =
    GiveCommands "bool option" "graph_command list"
  | ResizeViewer string "workflow_node_layout option"
  | ProjectLink string "string list nullish"
  | RouteLink string point
  | SetViewerMode string string
  | BindViewer string viewer_binding
  | ResizeAnnotation string annotation_layout
  | WriteAnnotation string string
  | ColorAnnotation string string
  | DropAnnotation string
  | DropViewer string
  | PlaceCards "nat \<Rightarrow> string" "(json \<times> point) list"
  | CollectCards "string \<Rightarrow> js_number" "nat \<Rightarrow> string" collection_deps "string option" "viewer_node \<Rightarrow> json option"
  | UngroupCards "string \<Rightarrow> js_number" "nat \<Rightarrow> string" "nat \<Rightarrow> string" "nat \<Rightarrow> string" collection_deps string
  | SplitCard "nat \<Rightarrow> string" string
  | TidyCards
  | RewriteCard string string json
  | SelectCanvas canvas_selection
  | NoteSelection string json
  | NoteFields string json
  | NoteActivity string "json option"
  | AllowAuthoring bool

fun canvas_step :: "canvas_op \<Rightarrow> 'run workbench \<Rightarrow> 'run workbench \<times> canvas_out list" where
  "canvas_step (GiveCommands syncRoom commands) w = applyAuthoringCommands syncRoom commands w"
| "canvas_step (ResizeViewer nodeId layout) w = updateArtifactViewerLayout nodeId layout w"
| "canvas_step (ProjectLink edgeId update) w = updateArtifactViewerEdge edgeId update w"
| "canvas_step (RouteLink edgeId routeOffset) w = updateArtifactViewerEdgeRoute edgeId routeOffset w"
| "canvas_step (SetViewerMode nodeId mode) w = updateArtifactViewerMode nodeId mode w"
| "canvas_step (BindViewer bindingId binding) w = updateArtifactViewerBinding bindingId binding w"
| "canvas_step (ResizeAnnotation nodeId layout) w = updateAnnotationLayout nodeId layout w"
| "canvas_step (WriteAnnotation nodeId content) w = updateAnnotationText nodeId content w"
| "canvas_step (ColorAnnotation nodeId color) w = updateAnnotationColor nodeId color w"
| "canvas_step (DropAnnotation nodeId) w = removeAnnotation nodeId w"
| "canvas_step (DropViewer nodeId) w = removeArtifactViewer nodeId w"
| "canvas_step (PlaceCards uuids cards) w = addArtifactCards uuids cards w"
| "canvas_step (CollectCards number uuids collection reason resolveCardValue) w =
     (case collectSelectedArtifacts number uuids collection reason resolveCardValue w of
        Inl err \<Rightarrow> (w, []) | Inr r \<Rightarrow> r)"
| "canvas_step (UngroupCards number valueUuids uuids edgeUuids collection nodeId) w =
     ungroupCollection number valueUuids uuids edgeUuids collection nodeId w"
| "canvas_step (SplitCard uuids nodeId) w = ungroupArtifacts uuids nodeId w"
| "canvas_step TidyCards w = tidySelectedArtifacts w"
| "canvas_step (RewriteCard uuid nodeId value) w = updateArtifactCardRefs uuid nodeId value w"
| "canvas_step (SelectCanvas selection) w = (selectOnly selection w, [])"
| "canvas_step (NoteSelection nodeId selection) w = (updateArtifactViewerSelection nodeId selection w, [])"
| "canvas_step (NoteFields nodeId given) w = (updateArtifactViewerFields nodeId given w, [])"
| "canvas_step (NoteActivity nodeId activity) w = (updateArtifactViewerActivity nodeId activity w, [])"
| "canvas_step (AllowAuthoring allowed) w = (w\<lparr>wb_enabled := allowed\<rparr>, [])"

text \<open>
  Replacing the whole document replaces the cards with it and is not a gesture. The edges the canvas shows start at nodes
  of the document.
\<close>

fun canvas_allowed :: "'run workbench \<Rightarrow> canvas_op \<Rightarrow> bool" where
  "canvas_allowed w (GiveCommands syncRoom commands) = list_all keeps_document commands"
| "canvas_allowed w (UngroupCards number valueUuids uuids edgeUuids collection nodeId) =
     list_all (\<lambda>edge. wg_source edge \<in> node_ids (wb_document w)) (cd_edges collection)"
| "canvas_allowed w op = True"

subsection \<open>Edits of the cards\<close>

definition sheds_links :: "(viewer_canvas_state \<Rightarrow> viewer_canvas_state) \<Rightarrow> bool" where
  "sheds_links updater \<longleftrightarrow> (\<forall>state. link_sources (updater state) \<subseteq> link_sources state)"

lemma commit_keeps_links:
  "sheds_links updater \<Longrightarrow> links_attached w \<Longrightarrow> links_attached (fst (commit updater w))"
  by (auto simp: commit_def commitArtifactViewers_def links_attached_def sheds_links_def Let_def)

lemma commit_placed_links:
  "links_attached (fst (commit_placed updater w)) \<longleftrightarrow> links_attached (fst (commit updater w))"
  by (auto simp: commit_placed_def commit_def commitArtifactViewers_def links_attached_def clearWorkflowSelection_def Let_def)

named_theorems sheds

lemma edits_shed_links [sheds]:
  "sheds_links (\<lambda>current. withViewerLayout current nodeId layout)"
  "sheds_links (\<lambda>current. withViewerMode current nodeId mode)"
  "sheds_links (\<lambda>current. withViewerBinding current bindingId binding)"
  "sheds_links (\<lambda>current. withViewerEdgeRoute current edgeId routeOffset)"
  "sheds_links (\<lambda>current. withViewerEdge current edgeId update)"
  "sheds_links (\<lambda>current. withoutViewer current nodeId)"
  "sheds_links (\<lambda>current. withAnnotationLayout current nodeId alayout)"
  "sheds_links (\<lambda>current. withAnnotationText current nodeId content)"
  "sheds_links (\<lambda>current. withAnnotationColor current nodeId color)"
  "sheds_links (\<lambda>current. withoutAnnotation current nodeId)"
  by (auto simp: sheds_links_def link_sources_def withViewerLayout_def withViewerMode_def withViewerBinding_def withViewerEdgeRoute_def
      withViewerEdge_def withoutViewer_def withAnnotationLayout_def withAnnotationText_def withAnnotationColor_def withoutAnnotation_def
      Let_def split: if_splits nullish.splits option.splits)

lemma cards_shed_links [sheds]:
  "sheds_links (without_cards removed)"
  "sheds_links (with_card_value nodeId value)"
  "sheds_links tidyArtifactCards"
  "sheds_links (\<lambda>state. ungroupArtifactCard uuids state origins nodeId)"
  "sheds_links (\<lambda>state. collectArtifactCards sequenceUuid cardUuid state origins held)"
  by (auto simp: sheds_links_def link_sources_def without_cards_def with_card_value_def tidyArtifactCards_def ungroupArtifactCard_def
      collectArtifactCards_def Let_def split: if_splits option.splits)


lemma placing_sheds_links [sheds]:
  "sheds_links (\<lambda>current. let cleared = withoutPresentationSelection current in cleared\<lparr>vs_nodes := vs_nodes cleared @ added\<rparr>)"
  by (auto simp: sheds_links_def link_sources_def withoutPresentationSelection_def withPresentationSelection_def Let_def)

subsection \<open>Every gesture keeps the links attached\<close>

lemma then_keeps_links:
  assumes "links_attached (fst (f w))" and "\<And>w. links_attached w \<Longrightarrow> links_attached (fst (g w))"
  shows "links_attached (fst (then_step f g w))"
  using assms by (auto simp: then_step_def split: prod.splits) (metis fst_conv)

lemma forgetting_keeps_links [simp]: "links_attached (forget_viewer nodeId w) \<longleftrightarrow> links_attached w"
  by (simp add: links_attached_def forget_viewer_def)

lemma removing_keeps_links:
  assumes "links_attached w" shows "links_attached (fst (removeArtifactViewer nodeId w))"
proof -
  have "links_attached (fst (dropOriginsCarriedByCards cards w))" for cards
    using assms by (auto simp: dropOriginsCarriedByCards_def Let_def intro!: commands_keep_links)
  then show ?thesis unfolding removeArtifactViewer_def
    by (intro then_keeps_links commit_keeps_links sheds) simp_all
qed

lemma rewriting_keeps_links:
  assumes "links_attached w" shows "links_attached (fst (updateArtifactCardRefs uuid nodeId new w))"
proof -
  have "list_all keeps_document (origin_rewrites uuid new carried)" for carried
    by (auto simp: origin_rewrites_def list_all_iff Let_def)
  with assms show ?thesis unfolding updateArtifactCardRefs_def
    by (auto simp: Let_def split: option.split intro!: then_keeps_links commit_keeps_links commands_keep_links sheds)
qed

lemma member_commands_keep:
  "member_commands number nodes itemsPort bindings collectionId members = Inr (Some commands) \<Longrightarrow> list_all keeps_document commands"
proof (induction members arbitrary: commands)
  case (Cons member members)
  obtain source plugId uuid where member: "member = (source, plugId, uuid)" by (cases member)
  from Cons show ?case unfolding member
    by (auto simp: library_command_def output_command_def addEdgeCommand_def bind_result_Inr_iff map_sum_def
        split: sum.splits option.splits collection_source.splits prod.splits if_splits)
qed simp

lemma collecting_keeps_links:
  assumes "links_attached w"
    and "collectSelectedArtifacts number uuids collection reason resolveCardValue w = Inr r"
  shows "links_attached (fst r)"
proof (cases "cd_spec collection")
  case None
  with assms show ?thesis
    by (auto simp: collectSelectedArtifacts_def Let_def split: if_splits intro!: commit_keeps_links sheds)
next
  case (Some spec)
  have kept: "list_all keeps_document (cp_commands plan)"
    if "collectCardsCommands number uuids (cd_sources collection) (cd_nodes collection) spec create = Inr (Some plan)" for create plan
    using that by (auto simp: collectCardsCommands_def Let_def addNodeCommand_def map_sum_def member_commands_keep
        split: if_splits option.splits sum.splits)
  from assms Some kept show ?thesis
    by (auto simp: collectSelectedArtifacts_def split: if_splits sum.splits option.splits
        intro!: then_keeps_links commit_keeps_links commands_keep_links sheds)
qed


text \<open>The cards of an ungrouped collection link to where its edges start, which is never the collection itself.\<close>

lemma member_source:
  "OutputMember plugId edgeId sourceNodeId sourcePortName refs \<in> set (collectionMembers number node nodes edges origins)
     \<Longrightarrow> sourceNodeId \<in> wg_source ` set edges"
  by (auto simp: collectionMembers_def collection_member_of_def find_Some_iff split: option.splits if_splits)

lemma enumerated_in:
  "y \<in> set (concat (map (\<lambda>(i, x). f i x) (enumerate 0 xs))) \<Longrightarrow> \<exists>i x. x \<in> set xs \<and> y \<in> set (f i x)"
  by (auto simp: in_set_enumerate_eq) (metis nth_mem)

lemma ungrouped_source:
  assumes "OutputCard position sourceNodeId sourcePortName \<in> set (ungroupedCollectionCards uuids corner members width height)"
  shows "\<exists>plugId edgeId refs. OutputMember plugId edgeId sourceNodeId sourcePortName refs \<in> set members"
proof -
  have "\<exists>edgeId refs. OutputMember (member_plug member) edgeId sourceNodeId sourcePortName refs = member"
    if "OutputCard position sourceNodeId sourcePortName \<in> set (ungrouped_card_of uuid at' member)" for uuid at' member
    using that by (cases member) (auto simp: Let_def split: if_splits)
  note made = this
  from enumerated_in [OF assms [unfolded ungroupedCollectionCards_def Let_def]] obtain member uuid at'
    where "member \<in> set (filter (\<lambda>member. \<not> is_empty_member member) members)"
      and "OutputCard position sourceNodeId sourcePortName \<in> set (ungrouped_card_of uuid at' member)" by blast
  with made [OF this(2)] show ?thesis by (metis filter_is_subset subsetD)
qed

lemma ungrouped_link_source:
  "edge \<in> set (ungrouped_links uuid edgeUuid c) \<Longrightarrow> \<exists>position sourcePortName. c = OutputCard position (ve_source edge) sourcePortName"
  by (cases c) auto

lemma ungrouped_sources:
  assumes "links = concat (map (\<lambda>(index, card). ungrouped_links (uuids index) (edgeUuids index) card) (enumerate 0
      (ungroupedCollectionCards valueUuids corner (collectionMembers number node nodes edges origins) width height)))"
  shows "ve_source ` set links \<subseteq> wg_source ` set edges"
proof
  fix s assume "s \<in> ve_source ` set links"
  then obtain edge where "edge \<in> set links" and s: "s = ve_source edge" by blast
  from enumerated_in [OF this(1) [unfolded assms]] obtain position port where "OutputCard position s port
      \<in> set (ungroupedCollectionCards valueUuids corner (collectionMembers number node nodes edges origins) width height)"
    unfolding s by (blast dest: ungrouped_link_source)
  then show "s \<in> wg_source ` set edges" by (metis member_source ungrouped_source)
qed

lemma subset_without: "A \<subseteq> E \<Longrightarrow> E \<subseteq> N \<Longrightarrow> x \<notin> E \<Longrightarrow> N - {x} \<subseteq> N' \<Longrightarrow> A \<subseteq> N'"
  by blast

lemma ungrouping_keeps_links:
  assumes "links_attached w" and sources: "list_all (\<lambda>edge. wg_source edge \<in> node_ids (wb_document w)) (cd_edges collection)"
  shows "links_attached (fst (ungroupCollection number valueUuids uuids edgeUuids collection nodeId w))"
proof (cases "find (\<lambda>candidate. wn_id candidate = nodeId) (cd_nodes collection)")
  case (Some node)
  let ?cards = "ungroupedCollectionCards valueUuids (wn_position node)
    (collectionMembers number node (cd_nodes collection) (cd_edges collection) (d_origins (wb_document w)))
    (Finite DEFAULT_ARTIFACT_CARD_WIDTH) (artifactCardMediaHeight (Finite DEFAULT_ARTIFACT_CARD_WIDTH))"
  let ?links = "concat (map (\<lambda>(index, card). ungrouped_links (uuids index) (edgeUuids index) card) (enumerate 0 ?cards))"
  let ?w = "fst (applyAuthoringCommands None [RemoveNodes [nodeId]] w)"
  show ?thesis
  proof (cases "\<not> isCollectionNode node \<or> ungroupCollectionDisabledReason nodeId (cd_edges collection) \<noteq> None")
    case False
    then have others: "nodeId \<notin> wg_source ` set (cd_edges collection)"
      by (auto simp: ungroupCollectionDisabledReason_def list_ex_iff split: if_splits)
    define links where "links = ?links"
    have starts: "wg_source ` set (cd_edges collection) \<subseteq> node_ids (wb_document w)"
      using sources by (simp add: list_all_iff image_subset_iff)
    have "node_ids (wb_document w) - {nodeId} \<subseteq> node_ids (wb_document ?w)"
      using reducer_keeps_nodes [of "[RemoveNodes [nodeId]]" "wb_authoring w"]
      by (auto simp: applyAuthoringCommands_def Let_def simp del: reduceWorkbenchAuthoringState.simps)
    with ungrouped_sources [OF links_def] starts others have attached: "ve_source ` set links \<subseteq> node_ids (wb_document ?w)"
      by (rule subset_without)
    have "links_attached ?w" using assms(1) by (intro commands_keep_links) simp_all
    with attached have "links_attached (fst (commit (\<lambda>current.
        let cleared = withoutPresentationSelection current
        in cleared\<lparr>vs_nodes := vs_nodes cleared @ added, vs_edges := vs_edges cleared @ links\<rparr>) ?w))" for added
      by (auto simp: commit_def commitArtifactViewers_def links_attached_def link_sources_def withoutPresentationSelection_def
          withPresentationSelection_def Let_def)
    with Some False show ?thesis
      by (simp add: ungroupCollection_def then_step_def Let_def case_prod_beta commit_placed_links links_def)
  qed (use Some assms in \<open>auto simp: ungroupCollection_def\<close>)
qed (use assms in \<open>simp add: ungroupCollection_def\<close>)


lemma notes_keep_links [simp]:
  "links_attached (updateArtifactViewerSelection nodeId selection w) = links_attached w"
  "links_attached (updateArtifactViewerFields nodeId given w) = links_attached w"
  "links_attached (updateArtifactViewerActivity nodeId activity w) = links_attached w"
  "links_attached (w\<lparr>wb_enabled := allowed\<rparr>) = links_attached w"
  by (simp_all add: links_attached_def updateArtifactViewerSelection_def updateArtifactViewerFields_def updateArtifactViewerActivity_def
      split: option.split)

lemma gesture_keeps_links:
  assumes "links_attached w" and "canvas_allowed w op"
  shows "links_attached (fst (canvas_step op w))"
proof (cases op)
  case (CollectCards number uuids collection reason resolveCardValue)
  with assms show ?thesis by (auto split: sum.split dest: collecting_keeps_links)
next
  case (PlaceCards uuids cards)
  with assms show ?thesis
    by (auto simp: addArtifactCards_def commit_placed_links intro: commit_keeps_links [OF placing_sheds_links])
next
  case (SelectCanvas selection)
  with assms show ?thesis
    by (simp add: selectOnly_def withPresentationSelection_def links_attached_def link_sources_def)
qed (use assms in \<open>simp_all add: commands_keep_links removing_keeps_links rewriting_keeps_links ungrouping_keeps_links commit_keeps_links sheds
       updateArtifactViewerLayout_def updateArtifactViewerEdge_def updateArtifactViewerEdgeRoute_def updateArtifactViewerMode_def
       updateArtifactViewerBinding_def updateAnnotationLayout_def updateAnnotationText_def updateAnnotationColor_def removeAnnotation_def
       ungroupArtifacts_def tidySelectedArtifacts_def\<close>)

subsection \<open>What the room is told\<close>

definition told :: "'run workbench \<times> canvas_out list \<Rightarrow> bool" where
  "told r \<longleftrightarrow> (\<forall>cards. SubmitReplace cards \<in> set (snd r) \<longrightarrow> cards = wb_viewers (fst r))"

definition silent :: "'run workbench \<times> canvas_out list \<Rightarrow> bool" where
  "silent r \<longleftrightarrow> (\<forall>cards. SubmitReplace cards \<notin> set (snd r))"

lemma commands_silent: "silent (applyAuthoringCommands syncRoom cs w)"
  by (auto simp: silent_def applyAuthoringCommands_def Let_def)

lemma silent_told: "silent r \<Longrightarrow> told r"
  by (simp add: silent_def told_def)

lemma commit_told: "told (commit updater w)" "told (commit_placed updater w)"
  by (auto simp: told_def commit_def commit_placed_def commitArtifactViewers_def clearWorkflowSelection_def Let_def)

lemma then_told: "silent (f w) \<Longrightarrow> told (g (fst (f w))) \<Longrightarrow> told (then_step f g w)"
  by (auto simp: told_def silent_def then_step_def split: prod.splits)

lemma told_then:
  assumes "told (f w)" and "silent (g (fst (f w)))" and "wb_viewers (fst (g (fst (f w)))) = wb_viewers (fst (f w))"
  shows "told (then_step f g w)"
  using assms by (auto simp: told_def silent_def then_step_def split: prod.splits)

lemma commands_keep_cards:
  "(\<And>c. c \<in> set cs \<Longrightarrow> case c of RemoveNodes ids \<Rightarrow> False | _ \<Rightarrow> True) \<Longrightarrow> wb_viewers (fst (applyAuthoringCommands syncRoom cs w)) = wb_viewers w"
proof -
  assume "\<And>c. c \<in> set cs \<Longrightarrow> case c of RemoveNodes ids \<Rightarrow> False | _ \<Rightarrow> True"
  then have "foldl prune_links viewers cs = viewers" for viewers
    by (induction cs arbitrary: viewers) (simp, fastforce split: graph_command.splits)
  then show ?thesis by (simp add: applyAuthoringCommands_def Let_def del: reduceWorkbenchAuthoringState.simps)
qed


lemma gesture_tells:
  "told (canvas_step op w)"
proof (cases op)
  case (GiveCommands syncRoom commands)
  then show ?thesis by (simp add: silent_told commands_silent)
next
  case (DropViewer nodeId)
  have "silent (dropOriginsCarriedByCards cards w)" for cards
    by (simp add: dropOriginsCarriedByCards_def commands_silent Let_def) (simp add: silent_def)
  moreover have "told (then_step (commit updater) (\<lambda>w'. (forget_viewer nodeId w', [])) v)" for updater and v :: "'a workbench"
    by (rule told_then) (simp_all add: commit_told silent_def forget_viewer_def)
  ultimately show ?thesis using DropViewer by (simp add: removeArtifactViewer_def then_told)
next
  case (PlaceCards uuids cards)
  then show ?thesis by (simp add: addArtifactCards_def commit_told) (simp add: told_def)
next
  case (CollectCards number uuids collection reason resolveCardValue)
  have "told (then_step (commit updater) (\<lambda>w'. (w', [Collected i])) v)" for updater i and v :: "'a workbench"
    by (rule told_then) (simp_all add: commit_told silent_def)
  then have "told (then_step (applyAuthoringCommands None cs) (then_step (commit updater) (\<lambda>w'. (w', [Collected i]))) w)" for cs updater i
    by (rule then_told [OF commands_silent])
  moreover have "told (w, [])" by (simp add: told_def)
  ultimately show ?thesis unfolding CollectCards
    by (auto simp: collectSelectedArtifacts_def Let_def split: sum.split option.split) (metis commit_told(1))+
next
  case (UngroupCards number valueUuids uuids edgeUuids collection nodeId)
  moreover have "told (w, [])" by (simp add: told_def)
  ultimately show ?thesis
    by (auto simp: ungroupCollection_def Let_def split: option.split intro!: then_told commands_silent commit_told)
next
  case (RewriteCard uuid nodeId new)
  have "wb_viewers (fst (applyAuthoringCommands None (origin_rewrites uuid new carried) v)) = wb_viewers v" for carried and v :: "'a workbench"
    by (rule commands_keep_cards) (auto simp: origin_rewrites_def Let_def split: if_splits)
  moreover have "told (w, [])" "silent (v, [])" for v :: "'a workbench" by (simp_all add: told_def silent_def)
  ultimately show ?thesis unfolding RewriteCard
    by (auto simp: updateArtifactCardRefs_def Let_def commands_silent split: option.split intro!: told_then commit_told)
qed (simp_all add: commit_told updateArtifactViewerLayout_def updateArtifactViewerEdge_def updateArtifactViewerEdgeRoute_def
       updateArtifactViewerMode_def updateArtifactViewerBinding_def updateAnnotationLayout_def updateAnnotationText_def
       updateAnnotationColor_def removeAnnotation_def ungroupArtifacts_def tidySelectedArtifacts_def, simp_all add: told_def)

subsection \<open>Paused authoring\<close>

definition untouched :: "'run workbench \<Rightarrow> 'run workbench \<times> canvas_out list \<Rightarrow> bool" where
  "untouched w r \<longleftrightarrow> snd r = [] \<and> wb_authoring (fst r) = wb_authoring w
     \<and> withoutPresentationSelection (wb_viewers (fst r)) = withoutPresentationSelection (wb_viewers w)"

definition halted :: "'run canvas_call \<Rightarrow> 'run workbench \<Rightarrow> bool" where
  "halted f w \<longleftrightarrow> untouched w (f w) \<and> \<not> wb_enabled (fst (f w))"

lemma paused_calls:
  assumes "\<not> wb_enabled w"
  shows "halted (commit updater) w" "halted (commit_placed updater) w" "syncRoom \<noteq> Some False \<Longrightarrow> halted (applyAuthoringCommands syncRoom cs) w"
  using assms by (simp_all add: halted_def untouched_def commit_def commit_placed_def commitArtifactViewers_def applyAuthoringCommands_def
      shouldBlockAuthoringCommand_def)

lemma halted_then: "halted f w \<Longrightarrow> halted g (fst (f w)) \<Longrightarrow> halted (then_step f g) w"
  by (auto simp: halted_def untouched_def then_step_def split: prod.splits)

fun replays :: "canvas_op \<Rightarrow> bool" where
  "replays (GiveCommands syncRoom commands) = (syncRoom = Some False)"
| "replays op = False"


lemma halted_untouched: "halted f w \<Longrightarrow> untouched w (f w)"
  by (simp add: halted_def)

lemma nothing_untouched [simp]: "untouched w (w, [])"
  by (simp add: untouched_def)

lemma gesture_paused:
  assumes "\<not> wb_enabled w" and "\<not> replays op"
  shows "untouched w (canvas_step op w)"
proof -
  note calls = paused_calls [OF assms(1)]
  have off: "\<not> wb_enabled (fst (f w))" if "halted f w" for f using that by (simp add: halted_def)
  show ?thesis
  proof (cases op)
    case (GiveCommands syncRoom commands)
    with assms show ?thesis by (simp add: calls halted_untouched)
  next
    case (DropViewer nodeId)
    have dropped: "halted (dropOriginsCarriedByCards cards) w" for cards
      using calls(3) [of None] by (auto simp: dropOriginsCarriedByCards_def halted_def Let_def assms(1))
    have "halted (\<lambda>w'. (forget_viewer nodeId w', [])) v" if "\<not> wb_enabled v" for v :: "'a workbench"
      using that by (simp add: halted_def untouched_def forget_viewer_def)
    then have forgets: "halted (then_step (commit updater) (\<lambda>w'. (forget_viewer nodeId w', []))) v" if "\<not> wb_enabled v" for updater and v :: "'a workbench"
      using paused_calls(1) [OF that] by (intro halted_then) (simp_all add: halted_def)
    show ?thesis unfolding DropViewer canvas_step.simps removeArtifactViewer_def
      by (rule halted_untouched [OF halted_then [OF dropped forgets [OF off [OF dropped]]]])
  next
    case (CollectCards number uuids collection reason resolveCardValue)
    with assms show ?thesis by (simp add: collectSelectedArtifacts_def)
  next
    case (UngroupCards number valueUuids uuids edgeUuids collection nodeId)
    have "halted (then_step (applyAuthoringCommands None cs) (commit_placed updater)) w" for cs updater
      using calls(3) [of None cs] by (intro halted_then paused_calls(2) off) simp_all
    with UngroupCards show ?thesis by (auto simp: ungroupCollection_def Let_def halted_untouched split: option.split)
  next
    case (RewriteCard uuid nodeId new)
    have later: "halted (\<lambda>w'. if B then (w', []) else applyAuthoringCommands None cs w') v" if "\<not> wb_enabled v" for B cs and v :: "'a workbench"
      using paused_calls(3) [OF that, of None cs] that by (simp add: halted_def)
    have "halted (then_step (commit updater) (\<lambda>w'. if B then (w', []) else applyAuthoringCommands None cs w')) w" for updater B cs
      by (rule halted_then [OF calls(1) later [OF off [OF calls(1)]]])
    with RewriteCard show ?thesis by (auto simp: updateArtifactCardRefs_def Let_def halted_untouched split: option.split)
  next
    case (PlaceCards uuids cards)
    then show ?thesis by (simp add: addArtifactCards_def calls halted_untouched)
  qed (simp_all add: calls halted_untouched updateArtifactViewerLayout_def updateArtifactViewerEdge_def updateArtifactViewerEdgeRoute_def
       updateArtifactViewerMode_def updateArtifactViewerBinding_def updateAnnotationLayout_def updateAnnotationText_def
       updateAnnotationColor_def removeAnnotation_def ungroupArtifacts_def tidySelectedArtifacts_def,
       auto simp: untouched_def selectOnly_def withoutPresentationSelection_def withPresentationSelection_def deselect_cards_def
       deselect_annotations_def updateArtifactViewerSelection_def updateArtifactViewerFields_def updateArtifactViewerActivity_def
       split: option.split)
qed

interpretation canvas: invariant_system canvas_step canvas_allowed w0 "\<lambda>w. links_attached w0 \<longrightarrow> links_attached w" for w0 :: "'run workbench"
  by unfold_locales (simp, metis gesture_keeps_links fst_conv)



definition demo_workbench :: "unit workbench" where
  "demo_workbench =
     \<lparr>wb_authoring = \<lparr>as_document = demo_document, as_nodeOverlays = (\<lambda>_. None), as_error = None\<rparr>,
      wb_viewers = \<lparr>vs_nodes = [placed_card ''1'' \<lparr>pt_x = Finite 0, pt_y = Finite 0\<rparr> None JNull],
        vs_edges = [\<lparr>ve_id = ''l'', ve_source = ''a'', ve_target = ''artifact-viewer-1'', ve_targetHandle = Some ARTIFACT_VIEWER_INPUT_HANDLE,
          ve_data = None\<rparr>], vs_bindings = [], vs_annotations = []\<rparr>,
      wb_selectedNodes = [''a''], wb_selectedEdges = [], wb_selectedAgents = [], wb_positionOverrides = [], wb_pendingRoute = None,
      wb_runError = None, wb_enabled = True, wb_blockedMessage = ''paused'', wb_viewerSelections = [], wb_viewerFields = [],
      wb_viewerActivities = [], wb_activityRevision = 0\<rparr>"

definition demo_gestures :: "canvas_op list" where
  "demo_gestures = [GiveCommands None [RemoveNodes [''a'']], AllowAuthoring False]"

lemma demo_gestures_reach:
  "reach canvas_step canvas_allowed demo_workbench (fst (run_trace canvas_step demo_workbench demo_gestures))
     (snd (run_trace canvas_step demo_workbench demo_gestures))"
  by (rule reach_run) (simp add: demo_gestures_def)

lemma demo_workbench_attached: "links_attached demo_workbench"
  by (simp add: links_attached_def link_sources_def demo_workbench_def demo_defs)


subsection \<open>Where dropped cards land\<close>

text \<open>
  The cards of one drop stand in a row that is centred on the drop point, each a gutter to the right of the one before,
  whatever their widths: they never overlap.
\<close>

lemma drop_row_length [simp]: "length (drop_row y left cards) = length cards"
  by (induction y left cards rule: drop_row.induct) simp_all

lemma drop_row_nth:
  "k < length cards \<Longrightarrow> fst (drop_row y left cards ! k)
     = left + sum_list (map snd (take k cards)) + of_nat k * ARTIFACT_CARD_DROP_GUTTER"
proof (induction y left cards arbitrary: k rule: drop_row.induct)
  case (2 y left artifactCount width cards)
  then show ?case by (cases k) (simp_all add: artifactCardDropPosition_def algebra_simps)
qed simp

lemma dropped_cards_in_row:
  assumes "cards \<noteq> []" and "positions = artifactCardDropPositions center cards"
  shows "Suc k < length cards \<Longrightarrow> fst (positions ! Suc k) = fst (positions ! k) + snd (cards ! k) + ARTIFACT_CARD_DROP_GUTTER"
    and "fst center - fst (hd positions) = fst (last positions) + snd (last cards) - fst center"
proof -
  let ?left = "fst center - (sum_list (map snd cards) + of_nat (length cards - 1) * ARTIFACT_CARD_DROP_GUTTER) / 2"
  have row: "positions = drop_row (snd center) ?left cards" using assms(2) by (simp add: artifactCardDropPositions_def Let_def)
  then show "Suc k < length cards \<Longrightarrow> fst (positions ! Suc k) = fst (positions ! k) + snd (cards ! k) + ARTIFACT_CARD_DROP_GUTTER"
    by (simp add: drop_row_nth take_Suc_conv_app_nth algebra_simps)
  from row have long: "length positions = length cards" by simp
  with assms(1) have ends: "hd positions = positions ! 0" "last positions = positions ! (length cards - 1)"
    by (simp_all add: hd_conv_nth last_conv_nth flip: length_greater_0_conv)
  have "sum_list (map snd cards) = sum_list (map snd (butlast cards @ [last cards]))" using assms(1) by simp
  then have "sum_list (map snd cards) = sum_list (map snd (take (length cards - 1) cards)) + snd (last cards)"
    by (simp add: butlast_conv_take del: append_butlast_last_id)
  then show "fst center - fst (hd positions) = fst (last positions) + snd (last cards) - fst center"
    using assms(1) unfolding ends by (simp add: row drop_row_nth field_simps)
qed


subsection \<open>What stays behind\<close>

text \<open>
  The selection is filtered by the document before the commands, so a node that the commands remove stays selected. A
  card taken away by handing it no artifacts leaves its own link behind, which \<open>removeArtifactViewer\<close> would remove.
\<close>

lemma removed_node_stays_selected:
  "wb_selectedNodes (fst (canvas_step (GiveCommands None [RemoveNodes [''a'']]) demo_workbench)) = [''a'']"
  by (simp add: applyAuthoringCommands_def shouldBlockAuthoringCommand_def demo_workbench_def demo_defs Let_def
      del: reduceWorkbenchAuthoringState.simps)

lemma emptied_card_leaves_its_link:
  "let w = fst (canvas_step (RewriteCard ''2'' ''artifact-viewer-1'' JNull) demo_workbench) in
     vs_nodes (wb_viewers w) = [] \<and> map ve_target (vs_edges (wb_viewers w)) = [''artifact-viewer-1'']"
  by (simp add: updateArtifactCardRefs_def then_step_def commit_def commitArtifactViewers_def with_card_value_def placed_card_def
      demo_workbench_def Let_def)

end
