(* ===== verification/Spec2Isabelle.thy ===== *)
theory Spec2Isabelle
  imports GraphInvalidation RoomBridge_Facts CommandOutbox_Facts RoomProtocol_Facts RoomSession_Safety Handles_Facts ExecutionPlan_Facts NodeCommands
    GraphAuthoring ArtifactCards_Facts LibraryTree_Facts RunSurface_Facts GraphLifecycle_Facts Collections_Facts AgentChat_Facts GridLayout NodeCatalog_Facts NodeSecretWrites_Facts CanvasCommands_Facts
begin

section \<open>The Grafy workbench: verification of its authoring and collaboration core\<close>

text \<open>
  Grafy is a workbench for typed artifact graphs: a browser application (\<^verbatim>\<open>apps/web\<close>, TypeScript) in which people author
  graphs of operators together, run them and read their results, over a Python API and runtime. This library models the
  TypeScript that decides what the browser does: the graph document and its commands, the room through which tabs share
  it, the canvas that edits it, and the runs and results it shows. Every definition is a translation of the code it
  names, as a pure function or as a step on an explicit state; what the code reads from outside is an argument.

  \<^bold>\<open>How the parts interact.\<close> A gesture on the canvas becomes graph commands. The commands are applied to the local
  document and, translated by the bridge, handed to the room session, whose outbox sends them one at a time and matches
  receipts; accepted commands, own and foreign, are replayed on the head of the project. A document is opened from a stored graph,
  compared with it by fingerprints and saved again. A run takes a checked plan of the saved graph; its instances' states
  and results come back as overlays of the canvas nodes, and a command marks what its change makes stale.

  \<^bold>\<open>Shared theories.\<close>
  \<^item> \<open>Prelude\<close>: JSON values, JavaScript numbers, \<open>null\<close> and \<open>undefined\<close>, results, ordered objects, the collections of
    rewrite rules. \<open>Js_Text\<close>: \<open>split\<close>, \<open>join\<close>, \<open>encodeURIComponent\<close> and its inverse.
  \<^item> \<open>Keyed_Collections\<close> (locale \<open>stored_collection\<close>: an identifier and an idempotent projection), \<open>Worklist\<close> (the
    closure loop three functions share, with its termination), \<open>Traced_System\<close> (locales \<open>invariant_system\<close> and
    \<open>conserving_system\<close> for objects that answer calls with outputs). Every locale is interpreted on the code's definitions.

  \<^bold>\<open>The document.\<close>
  \<^item> \<open>GraphDocument\<close>, \<open>GraphDocument_Facts\<close>: \<^verbatim>\<open>model/graph-document.ts\<close>. Commands keep references closed and ids
    unique; a batch equals single application; the error of every command is characterised.
  \<^item> \<open>GraphInvalidation\<close>, \<open>RunResults\<close>: the nodes a command makes stale and the authoring reducer. A result that
    survives a batch was computed from what the node still has; a failed batch changes nothing.
  \<^item> \<open>NodeLayout\<close>, \<open>WorkflowNodes\<close>, \<open>NodeCommands\<close>, \<open>ConfigSchema\<close>: \<^verbatim>\<open>canvas/node-layout.ts\<close>, \<^verbatim>\<open>canvas/types.ts\<close>, plugs,
    schema fields, relations, the gestures of \<^verbatim>\<open>ui/workbench-node-commands.ts\<close>, and configuration schemas.

  \<^bold>\<open>Connections and inputs.\<close>
  \<^item> \<open>Handles\<close>, \<open>Handles_Facts\<close>: \<^verbatim>\<open>canvas/handles.ts\<close>. The bounded search for conversions is exact, and a route that is
    offered is accepted again when it is stored.
  \<^item> \<open>GraphAuthoring\<close>: \<^verbatim>\<open>model/graph-authoring.ts\<close>. A connection is accepted exactly when it closes no cycle, and an accepted
    one keeps the rules of the graph.
  \<^item> \<open>ArtifactInputs\<close>, \<open>ArtifactInputs_Facts\<close>: \<^verbatim>\<open>model/artifact-drop.ts\<close>, \<^verbatim>\<open>canvas/artifact-connections.ts\<close>. A drop fills one
    input and changes nothing else.
  \<^item> \<open>Collections\<close>, \<open>Collections_Facts\<close>: \<^verbatim>\<open>model/collection.ts\<close>. A collection reads back what was collected.

  \<^bold>\<open>Collaboration.\<close>
  \<^item> \<open>RoomBridge\<close>, \<open>RoomBridge_Facts\<close>: \<^verbatim>\<open>room/room-command-bridge.ts\<close>. Sending a local command through the room does to
    the head what it does to the local document.
  \<^item> \<open>CommandOutbox\<close>, \<open>CommandOutbox_Facts\<close>: \<^verbatim>\<open>room/command-outbox.ts\<close>. Every command taken is settled exactly once, retries
    are identical, the queue is bounded.
  \<^item> \<open>RoomProtocol\<close>, \<open>RoomProtocol_Facts\<close>: \<^verbatim>\<open>room/protocol.ts\<close>. The parser reads back every well-formed message.
  \<^item> \<open>RoomSession\<close>, \<open>RoomSession_Facts\<close>, \<open>RoomSession_Safety\<close>: \<^verbatim>\<open>room/graph-room-session.ts\<close>. Replicas that saw the same
    accepted commands agree, the head never goes back, frames leave only a ready session, reconnection ends, and the session
    refines the outbox's contract.

  \<^bold>\<open>Opening, saving and running.\<close>
  \<^item> \<open>SavedGraph\<close>, \<open>SavedGraph_Facts\<close>: \<^verbatim>\<open>canvas/saved-graph.ts\<close>. Opening a stored graph is lossless and what is opened
    obeys the rules of connections.
  \<^item> \<open>GraphLifecycle\<close>, \<open>GraphLifecycle_Facts\<close>: fingerprints, \<^verbatim>\<open>ui/saved-graph-dirtiness.ts\<close> and
    \<^verbatim>\<open>ui/useSavedGraphLifecycle.ts\<close> as a step relation. A clean canvas is the active graph; late answers keep the canvas.
  \<^item> \<open>ExecutionPlan\<close>, \<open>ExecutionPlan_Facts\<close>: \<^verbatim>\<open>model/execution-plan.ts\<close>. A plan without issues has every required input
    filled; its dependencies are closed.
  \<^item> \<open>NodeSecrets\<close>, \<open>InstanceStates\<close>, \<open>InstanceStates_Facts\<close>, \<open>RunSurface\<close>, \<open>RunSurface_Facts\<close>: \<^verbatim>\<open>canvas/node-secrets.ts\<close>,
    \<^verbatim>\<open>ui/run-execution/state.ts\<close>, \<^verbatim>\<open>ui/useRunExecution.ts\<close>. The concurrent reader is bounded and complete in every order of
    settlements; cards show the stored results; a run is requested only when it is ready.

  \<^bold>\<open>Cards and library.\<close>
  \<^item> \<open>ArtifactViewers\<close>, \<open>ArtifactViewers_Facts\<close>, \<open>ArtifactCards\<close>, \<open>ArtifactCards_Facts\<close>: \<^verbatim>\<open>canvas/artifact-viewer.ts\<close>,
    annotations, \<^verbatim>\<open>canvas/artifact-card.ts\<close>, \<^verbatim>\<open>model/artifact-grouping.ts\<close>. Storing and reading a presentation is a fixpoint,
    edits keep it well formed, grouping and ungrouping are inverse, tidied cards do not overlap.
  \<^item> \<open>LibraryTree\<close>, \<open>LibraryTree_Facts\<close>: \<^verbatim>\<open>ui/side-panel/library-tree.ts\<close> and the selection. Every item is in the tree
    once; a selection names only what exists.
  \<^item> \<open>AgentChat\<close>, \<open>AgentChat_Facts\<close>: \<^verbatim>\<open>agents/stream.ts\<close> and \<^verbatim>\<open>agents/useAgentChat.ts\<close>. In every order of answers, deltas
    and actions the chat shows only the selected conversation, and a prefix of the reply; the page loop reads the whole history.
    The fuel of \<open>read_history\<close> is one more than the number of events.
  \<^item> \<open>GridLayout\<close>: \<^verbatim>\<open>canvas/grid-layout.ts\<close>. Snapping goes to the nearest whole number of cells between floor and ceiling and is
    done after one step; edge selectors meet the half cells only for even cells of at least 48 pixels.
  \<^item> \<open>NodeCatalog\<close>, \<open>NodeCatalog_Facts\<close> (locale \<open>comparator\<close>): \<^verbatim>\<open>model/node-catalog.ts\<close>, \<^verbatim>\<open>model/connection-feeds.ts\<close>. Search returns exactly what
    was asked for, in order; the two ways to ask which nodes fit an output agree, and what is offered obeys the connection rules.
  \<^item> \<open>NodeSecretWrites\<close>, \<open>NodeSecretWrites_Facts\<close>: \<^verbatim>\<open>ui/useNodeSecrets.ts\<close>. In every order of refreshes, writes and answers, a write claims a
    head the server named for the same graph, and a status that shows a write under way has a pending write behind it.
  \<^item> \<open>CanvasCommands\<close>, \<open>CanvasCommands_Facts\<close>: \<^verbatim>\<open>ui/workbench-authoring-commands.ts\<close>, \<^verbatim>\<open>ui/authoring-command-guard.ts\<close>, \<^verbatim>\<open>ui/workbench-artifact-viewers.ts\<close>,
    \<^verbatim>\<open>ui/workbench-artifact-cards.ts\<close>, \<^verbatim>\<open>ui/workbench-canvas-selection.ts\<close>. In every order of gestures the card links start at nodes of the
    document, the room hears the cards the canvas shows, and paused authoring changes nothing; dropped cards stand in a centred row.
  \<^bold>\<open>Parameters.\<close> Code that is not part of the program is an argument: regular expressions, \<open>localeCompare\<close>,
  \<open>Date.parse\<close>, \<open>Number(text)\<close>, \<open>JSON.parse\<close> of foreign texts, random ids, timers, the socket, the endpoints' answers. Where
  a theorem needs something of them it says so as a hypothesis, and a witness instantiates it.

  \<^bold>\<open>Bounds and fuel.\<close> The depth counter of \<open>configValueIssues\<close> starts at 65 because the code stops below depth 64; the
  walk over the library's folders takes more fuel than there are folders, which is proved to be enough even for
  cyclic parents; the conversion search carries the code's own limits of 8 hops, 4096 states and 256 paths. All other loops
  are structural or have a termination proof.

  \<^bold>\<open>Idealisations.\<close> Finite numbers are exact rationals where the code has doubles. Texts are lists of 8-bit characters.
  Objects keep the order of insertion for all keys. Messages are written without typographic quotes. Colours, styles
  and labels that are only displayed are left out.

  \<^bold>\<open>Not modelled.\<close> React components, effects and styles (what they compute on state is modelled where it stands in a function
  of its own), the generated HTTP client beyond the types in use, the map and table renderers, the sandbox, end-to-end tests,
  and the Python services, whose behaviour enters only as answers. The gaps of each component are named in the manifest.
\<close>

end
